(* ===== verification/Prelude.thy ===== *)
theory Prelude
  imports
    Complex_Main
    "HOL-Library.Word"
    "HOL-Library.Char_ord"
    "HOL-Library.List_Lexorder"
    "HOL-Library.Product_Lexorder"
    "HOL-Library.Multiset"
begin

text \<open>
  Shared ground of the PipeForge control-plane model: the Go values the packages exchange
  (UUIDs, instants, durations, byte strings), the error values, the error monad in which a
  repository method is written, and tables as lists of rows with the SQL statements the
  repositories issue on them. Every component theory imports this one.
\<close>

named_theorems table_simps \<open>rewriting facts about rows after an UPDATE or INSERT\<close>
named_theorems result_simps \<open>when a sequence of fallible calls succeeds\<close>

section \<open>Go values\<close>

text \<open>
  A \<open>uuid.UUID\<close> is sixteen bytes; \<open>uuid.Nil\<close> is the all-zero one, and PostgreSQL orders
  UUIDs as unsigned 128-bit numbers. An instant counts nanoseconds since Go's zero time, so
  that \<open>time.Time{}\<close> is 0 and \<open>IsZero\<close> is a comparison with it. A duration is a signed
  nanosecond count.
\<close>

type_synonym uuid = "128 word"
type_synonym time = int
type_synonym duration = int

abbreviation uuid_Nil :: uuid where
  "uuid_Nil \<equiv> 0"

definition time_IsZero :: "time \<Rightarrow> bool" where
  "time_IsZero t \<longleftrightarrow> t = 0"

abbreviation Second :: duration where "Second \<equiv> 1000000000"
abbreviation Minute :: duration where "Minute \<equiv> 60 * Second"
abbreviation Hour :: duration where "Hour \<equiv> 60 * Minute"

text \<open>A Go \<open>string\<close> is a sequence of bytes, so \<open>len\<close> is the length of the byte list.\<close>

definition char_in :: "nat \<Rightarrow> nat \<Rightarrow> char \<Rightarrow> bool" where
  "char_in lo hi c \<longleftrightarrow> lo \<le> of_char c \<and> of_char c \<le> hi"

definition is_lower :: "char \<Rightarrow> bool" where "is_lower c \<longleftrightarrow> char_in 97 122 c"
definition is_upper :: "char \<Rightarrow> bool" where "is_upper c \<longleftrightarrow> char_in 65 90 c"
definition is_digit :: "char \<Rightarrow> bool" where "is_digit c \<longleftrightarrow> char_in 48 57 c"

text \<open>
  \<open>strings.TrimSpace\<close> removes the Unicode white space at both ends; these are the byte
  sequences that encode such a code point in UTF-8.
\<close>

definition space_seqs :: "string list" where
  "space_seqs =
     map (map char_of)
       [[9], [10], [11], [12], [13], [32 :: nat], [0xC2, 0x85], [0xC2, 0xA0], [0xE1, 0x9A, 0x80],
        [0xE2, 0x80, 0x80], [0xE2, 0x80, 0x81], [0xE2, 0x80, 0x82], [0xE2, 0x80, 0x83],
        [0xE2, 0x80, 0x84], [0xE2, 0x80, 0x85], [0xE2, 0x80, 0x86], [0xE2, 0x80, 0x87],
        [0xE2, 0x80, 0x88], [0xE2, 0x80, 0x89], [0xE2, 0x80, 0x8A], [0xE2, 0x80, 0xA8],
        [0xE2, 0x80, 0xA9], [0xE2, 0x80, 0xAF], [0xE2, 0x81, 0x9F], [0xE3, 0x80, 0x80]]"

fun strip_prefix :: "'a list \<Rightarrow> 'a list \<Rightarrow> 'a list option" where
  "strip_prefix [] ys = Some ys"
| "strip_prefix (x # xs) (y # ys) = (if x = y then strip_prefix xs ys else None)"
| "strip_prefix (x # xs) [] = None"

fun strip_any :: "'a list list \<Rightarrow> 'a list \<Rightarrow> 'a list option" where
  "strip_any [] ys = None"
| "strip_any (p # ps) ys = (case strip_prefix p ys of Some zs \<Rightarrow> Some zs | None \<Rightarrow> strip_any ps ys)"

text \<open>Each round of the loop drops at least one byte, so the length of the text is enough fuel.\<close>

fun trim_front :: "nat \<Rightarrow> 'a list list \<Rightarrow> 'a list \<Rightarrow> 'a list" where
  "trim_front 0 ps ys = ys"
| "trim_front (Suc n) ps ys = (case strip_any ps ys of Some zs \<Rightarrow> trim_front n ps zs | None \<Rightarrow> ys)"

definition TrimSpace :: "string \<Rightarrow> string" where
  "TrimSpace s =
     (let t = trim_front (length s) space_seqs s
      in rev (trim_front (length t) (map rev space_seqs) (rev t)))"

definition HasPrefix :: "string \<Rightarrow> string \<Rightarrow> bool" where
  "HasPrefix s p \<longleftrightarrow> take (length p) s = p"

definition HasSuffix :: "string \<Rightarrow> string \<Rightarrow> bool" where
  "HasSuffix s p \<longleftrightarrow> HasPrefix (rev s) (rev p)"

lemma strip_prefix_length: "strip_prefix p ys = Some zs \<Longrightarrow> length ys = length p + length zs"
  by (induction p ys rule: strip_prefix.induct) (auto split: if_splits)

lemma strip_any_shorter:
  "strip_any ps ys = Some zs \<Longrightarrow> [] \<notin> set ps \<Longrightarrow> length zs < length ys"
proof (induction ps)
  case (Cons p ps)
  then show ?case
    by (cases "strip_prefix p ys") (auto dest: strip_prefix_length)
qed simp

lemma trim_front_length: "[] \<notin> set ps \<Longrightarrow> length (trim_front n ps ys) \<le> length ys"
proof (induction n arbitrary: ys)
  case (Suc n)
  show ?case
  proof (cases "strip_any ps ys")
    case (Some zs)
    then have "length zs < length ys"
      using Suc.prems by (rule strip_any_shorter)
    then show ?thesis using Some Suc.IH [OF Suc.prems, of zs] by simp
  qed simp
qed simp

text \<open>The fuel is enough: what is left starts with no white space.\<close>

lemma trim_front_done: "[] \<notin> set ps \<Longrightarrow> length ys \<le> n \<Longrightarrow> strip_any ps (trim_front n ps ys) = None"
proof (induction n arbitrary: ys)
  case 0
  then show ?case
    using strip_any_shorter [of ps ys] by (cases "strip_any ps ys") auto
next
  case (Suc n)
  show ?case
  proof (cases "strip_any ps ys")
    case (Some zs)
    then have "length zs < length ys"
      using Suc.prems(1) by (rule strip_any_shorter)
    then show ?thesis using Some Suc by simp
  qed (use Suc in simp)
qed

lemma space_seqs_nonempty: "[] \<notin> set space_seqs" "[] \<notin> set (map rev space_seqs)"
  by (auto simp: space_seqs_def)

lemma TrimSpace_length: "length (TrimSpace s) \<le> length s"
  unfolding TrimSpace_def Let_def
  using trim_front_length [OF space_seqs_nonempty(1), of "length s" s]
    trim_front_length [OF space_seqs_nonempty(2)]
  by (metis length_rev order_trans)

section \<open>Errors\<close>

text \<open>
  One constructor per sentinel error of the packages; \<open>fmt.Errorf("%w: ...", e)\<close> wraps
  \<open>e\<close> and \<open>errors.Is\<close> sees through it, so a wrapped sentinel is the sentinel. An error
  made by \<open>errors.New\<close> or \<open>fmt.Errorf\<close> with no sentinel is \<open>ErrText\<close> of its message,
  and \<open>ErrDatabase\<close> is a constraint violation reported by the database.
\<close>

datatype (plugins del: quickcheck_exhaustive quickcheck_random quickcheck_bounded_forall quickcheck_full_exhaustive quickcheck_narrowing lifting transfer) go_error =
    ErrText string
  | ErrDatabase string
  | AuthzErrUnauthenticated | AuthzErrForbidden | AuthzErrInvalidScope
  | RetryErrInvalidPolicy | RetryErrInvalidAttempt
  | QueueErrEmptyMessageID
  | OutboxErrLeaseLost | OutboxErrInvalidMessage
  | JobErrInvalidInput | JobErrJobNotFound | JobErrVersionNotFound | JobErrJobState
  | JobErrInvalidTransition | JobErrIdempotencyConflict | JobErrVersionUnavailable
  | JobErrQuotaExceeded
  | LeaseErrInvalidInput | LeaseErrLeaseNotFound | LeaseErrLeaseExpired | LeaseErrLeaseState
  | LeaseErrLeaseNotReady | LeaseErrWorkerUnavailable
  | ResultErrInvalidEvent | ResultErrInvalidInput | ResultErrArtifactNotFound
  | ResultErrArtifactUnavailable | ResultErrArtifactTooLarge | ResultErrProgressNotFound
  | WorkerErrInvalidEvent
  | DlqErrInvalidInput | DlqErrNotFound | DlqErrAlreadyReplayed | DlqErrJobState
  | DlqErrQuotaExceeded
  | DatasetErrDatasetNotFound | DatasetErrVersionNotFound | DatasetErrDatasetNameUsed | DatasetErrDatasetDeleted
  | DatasetErrVersionState | DatasetErrInvalidInput | DatasetErrUploadTooLarge | DatasetErrUploadSizeMismatch
  | DatasetErrChecksumMismatch | DatasetErrObjectStorage
  | UploadErrUnsafeFilename | UploadErrUnsupportedFormat | UploadErrInvalidContent | UploadErrInvalidChecksum
  | StorageErrObjectNotFound | StorageErrMultipartPartNotFound
  | MultipartErrInvalidInput | MultipartErrSessionNotFound | MultipartErrSessionExpired | MultipartErrSessionCompleted
  | MultipartErrSessionInProgress | MultipartErrSessionState | MultipartErrIdempotencyConflict
  | MultipartErrPartNotFound | MultipartErrPartConflict | MultipartErrRemoteStorage | MultipartErrChecksumMismatch
  | MultipartErrSizeMismatch | MultipartErrUploadTooLarge
  | QualityErrInvalidInput | QualityErrRuleNotFound | QualityErrRuleNameUsed
  | AuthErrInvalidAccessToken | AuthErrInvalidOpaqueToken | AuthErrInvalidPasswordHash
  | IdentityErrUserNotFound | IdentityErrEmailAlreadyExists | IdentityErrInvalidCredentials
  | IdentityErrRefreshTokenInvalid | IdentityErrRefreshTokenReplay | IdentityErrRefreshTokenExpired
  | IdentityErrAPIKeyNotFound | IdentityErrAPIKeyInvalid | IdentityErrInvalidInput | IdentityErrConfiguration
  | ErrJoin "go_error list"

type_synonym 'a result = "go_error + 'a"

text \<open>
  \<open>x, err := m; if err != nil { return err }; f x\<close> is \<open>bindE m f\<close>, and
  \<open>if c { return e }; k\<close> is an \<open>if\<close>.
\<close>

definition bindE :: "'e + 'a \<Rightarrow> ('a \<Rightarrow> 'e + 'b) \<Rightarrow> 'e + 'b" where
  "bindE m f = (case m of Inl e \<Rightarrow> Inl e | Inr x \<Rightarrow> f x)"

lemma bindE_simps [simp]: "bindE (Inl e) f = Inl e" "bindE (Inr x) f = f x"
  by (simp_all add: bindE_def)

lemma bindE_Inr [result_simps]: "bindE m f = Inr y \<longleftrightarrow> (\<exists>x. m = Inr x \<and> f x = Inr y)"
  by (cases m) auto

lemma bindE_Inl: "bindE m f = Inl e \<longleftrightarrow> m = Inl e \<or> (\<exists>x. m = Inr x \<and> f x = Inl e)"
  by (cases m) auto

lemma if_Inl_Inr [result_simps]: "(if c then Inl e else r) = Inr y \<longleftrightarrow> \<not> c \<and> r = Inr y"
  by auto

lemma bindE_cong [fundef_cong]:
  "m = m' \<Longrightarrow> (\<And>x. m' = Inr x \<Longrightarrow> f x = f' x) \<Longrightarrow> bindE m f = bindE m' f'"
  by (cases m') auto

text \<open>A loop that calls a fallible function on each element and stops at the first error.\<close>

fun mapE :: "('a \<Rightarrow> 'e + 'b) \<Rightarrow> 'a list \<Rightarrow> 'e + 'b list" where
  "mapE f [] = Inr []"
| "mapE f (x # xs) = bindE (f x) (\<lambda>y. bindE (mapE f xs) (\<lambda>ys. Inr (y # ys)))"

lemma mapE_Inr: "mapE f xs = Inr ys \<longleftrightarrow> list_all2 (\<lambda>x y. f x = Inr y) xs ys"
  by (induction xs arbitrary: ys) (auto simp: bindE_Inr list_all2_Cons1)

lemma mapE_image: "mapE f xs = Inr ys \<Longrightarrow> y \<in> set ys \<Longrightarrow> \<exists>x \<in> set xs. f x = Inr y"
  by (induction xs arbitrary: ys) (auto simp: bindE_Inr)

lemma mapE_defined: "mapE f xs = Inr ys \<Longrightarrow> x \<in> set xs \<Longrightarrow> \<exists>y \<in> set ys. f x = Inr y"
  by (induction xs arbitrary: ys) (auto simp: bindE_Inr)

lemma mapE_length: "mapE f xs = Inr ys \<Longrightarrow> length ys = length xs"
  by (induction xs arbitrary: ys) (auto simp: bindE_Inr)

lemma mapE_total: "(\<And>x. x \<in> set xs \<Longrightarrow> f x = Inr (g x)) \<Longrightarrow> mapE f xs = Inr (map g xs)"
  by (induction xs) auto

text \<open>
  A repository method that opens a transaction is a function of the database that returns an
  error, and then the deferred \<open>tx.Rollback\<close> leaves the database as it was, or a value
  and the committed database.
\<close>

definition run_tx :: "('db \<Rightarrow> 'e + ('a \<times> 'db)) \<Rightarrow> 'db \<Rightarrow> ('e + 'a) \<times> 'db" where
  "run_tx m s = (case m s of Inl e \<Rightarrow> (Inl e, s) | Inr (x, s') \<Rightarrow> (Inr x, s'))"

text \<open>
  A service makes several calls under one \<open>context.Context\<close>. A call whose context is cancelled,
  because the client disconnected or a deadline passed, or whose connection is lost, reports an
  error and its transaction is rolled back: \<open>ctx\<close> names the error of each call that fails so.
\<close>

type_synonym Context = "string \<Rightarrow> go_error option"

definition in_context :: "Context \<Rightarrow> string \<Rightarrow> ('db \<Rightarrow> 'a result) \<Rightarrow> 'db \<Rightarrow> 'a result" where
  "in_context ctx name m s = (case ctx name of Some e \<Rightarrow> Inl e | None \<Rightarrow> m s)"

lemma in_context_Inr [result_simps]: "in_context ctx name m s = Inr x \<longleftrightarrow> ctx name = None \<and> m s = Inr x"
  by (simp add: in_context_def split: option.splits)

lemma in_context_None [simp]: "ctx name = None \<Longrightarrow> in_context ctx name m s = m s"
  by (simp add: in_context_def)

section \<open>Tables\<close>

text \<open>
  A table is the list of its rows in insertion order. \<open>row_find\<close> is
  \<open>SELECT ... WHERE key = k\<close>, \<open>row_update\<close> is \<open>UPDATE ... SET ... WHERE key = k\<close>, and
  \<open>row_insert\<close> is an \<open>INSERT\<close> under the primary key \<open>key\<close>, whose violation is an error.
\<close>

definition row_find :: "('r \<Rightarrow> 'k) \<Rightarrow> 'k \<Rightarrow> 'r list \<Rightarrow> 'r option" where
  "row_find key k rows = find (\<lambda>r. key r = k) rows"

definition row_update :: "('r \<Rightarrow> 'k) \<Rightarrow> 'k \<Rightarrow> ('r \<Rightarrow> 'r) \<Rightarrow> 'r list \<Rightarrow> 'r list" where
  "row_update key k f rows = map (\<lambda>r. if key r = k then f r else r) rows"

definition row_insert :: "('r \<Rightarrow> 'k) \<Rightarrow> 'r \<Rightarrow> 'r list \<Rightarrow> 'r list result" where
  "row_insert key r rows =
     (if key r \<in> key ` set rows then Inl (ErrDatabase ''duplicate key'') else Inr (rows @ [r]))"

lemma row_insert_Inr [result_simps]:
  "row_insert key r rows = Inr rows' \<longleftrightarrow> key r \<notin> key ` set rows \<and> rows' = rows @ [r]"
  by (auto simp: row_insert_def)

lemma row_find_SomeD: "row_find key k rows = Some r \<Longrightarrow> r \<in> set rows \<and> key r = k"
  by (auto simp: row_find_def find_Some_iff)

lemma row_find_None [table_simps]: "row_find key k rows = None \<longleftrightarrow> k \<notin> key ` set rows"
  by (auto simp: row_find_def find_None_iff)

lemma row_find_distinct:
  "distinct (map key rows) \<Longrightarrow> row_find key k rows = Some r \<longleftrightarrow> r \<in> set rows \<and> key r = k"
proof (induction rows)
  case (Cons x xs)
  then show ?case by (auto simp: row_find_def)
qed (simp add: row_find_def)

lemma row_update_keys [table_simps]:
  "(\<And>r. key (f r) = key r) \<Longrightarrow> map key (row_update key k f rows) = map key rows"
  by (auto simp: row_update_def)

lemma row_update_proj [table_simps]:
  "(\<And>r. g (f r) = g r) \<Longrightarrow> map g (row_update key k f rows) = map g rows"
  by (auto simp: row_update_def)

lemma row_update_id [simp]: "row_update key k id rows = rows"
  by (induction rows) (simp_all add: row_update_def)

lemma row_update_absent: "k \<notin> key ` set rows \<Longrightarrow> row_update key k f rows = rows"
  by (induction rows) (auto simp: row_update_def)

lemma row_update_append [table_simps]:
  "row_update key k f (xs @ ys) = row_update key k f xs @ row_update key k f ys"
  by (simp add: row_update_def)

lemma length_row_update [simp]: "length (row_update key k f rows) = length rows"
  by (simp add: row_update_def)

text \<open>
  The shape of a table around the one row a key selects: every count and every lookup after
  an UPDATE of that row is read off it.
\<close>

lemma row_split:
  assumes "distinct (map key rows)" and "r \<in> set rows"
  obtains xs ys where "rows = xs @ r # ys" "key r \<notin> key ` set xs" "key r \<notin> key ` set ys"
    "\<And>f. row_update key (key r) f rows = xs @ f r # ys"
proof -
  from assms(2) obtain xs ys where rows: "rows = xs @ r # ys"
    by (auto dest: split_list)
  with assms(1) have out: "key r \<notin> key ` set xs" "key r \<notin> key ` set ys"
    by auto
  then have "row_update key (key r) f rows = xs @ f r # ys" for f
    using rows by (simp add: row_update_append row_update_absent) (simp add: row_update_def row_update_absent [unfolded row_update_def])
  with rows out that show thesis by blast
qed

lemma row_update_mem:
  assumes "distinct (map key rows)" "r \<in> set rows" "key r = k"
  shows "set (row_update key k f rows) = insert (f r) (set rows - {r})"
proof -
  from assms(1,2) obtain xs ys where rows: "rows = xs @ r # ys"
    and upd: "row_update key (key r) f rows = xs @ f r # ys"
    and out: "key r \<notin> key ` set xs" "key r \<notin> key ` set ys"
    by (rule row_split) blast
  from out have "r \<notin> set xs" "r \<notin> set ys" by auto
  then show ?thesis using rows upd assms(3) by auto
qed

lemma row_find_update [table_simps]:
  assumes "\<And>r. key (f r) = key r"
  shows "row_find key k (row_update key k' f rows) =
    (if k = k' then map_option f (row_find key k rows) else row_find key k rows)"
  by (induction rows) (auto simp: row_find_def row_update_def assms)

lemma row_find_append [table_simps]:
  "row_find key k (xs @ ys) = (case row_find key k xs of Some r \<Rightarrow> Some r | None \<Rightarrow> row_find key k ys)"
  by (induction xs) (auto simp: row_find_def)

lemma row_find_single [table_simps]: "row_find key k [r] = (if key r = k then Some r else None)"
  by (simp add: row_find_def)

text \<open>How many rows satisfy a condition, before and after an UPDATE of one row.\<close>

definition count_rows :: "('r \<Rightarrow> bool) \<Rightarrow> 'r list \<Rightarrow> int" where
  "count_rows P rows = int (length (filter P rows))"

lemma count_rows_nonneg [simp]: "0 \<le> count_rows P rows"
  by (simp add: count_rows_def)

lemma count_rows_append [table_simps]: "count_rows P (xs @ ys) = count_rows P xs + count_rows P ys"
  by (simp add: count_rows_def)

lemma count_rows_single [table_simps]: "count_rows P [r] = (if P r then 1 else 0)"
  by (simp add: count_rows_def)

lemma count_rows_update:
  assumes "distinct (map key rows)" "r \<in> set rows" "key r = k"
  shows "count_rows P (row_update key k f rows) =
    count_rows P rows + (if P (f r) then 1 else 0) - (if P r then 1 else 0)"
proof -
  from assms(1,2) obtain xs ys where
    "rows = xs @ r # ys" "row_update key (key r) f rows = xs @ f r # ys"
    by (rule row_split) auto
  then show ?thesis using assms(3) by (auto simp: count_rows_def)
qed

lemma count_rows_pos: "r \<in> set rows \<Longrightarrow> P r \<Longrightarrow> 1 \<le> count_rows P rows"
  by (induction rows) (auto simp: count_rows_def)

text \<open>\<open>SELECT ... WHERE P ORDER BY f LIMIT n\<close>: some of the rows, each at most once.\<close>

lemma select_rows: "set (take n (sort_key f (filter P rows))) \<subseteq> {r \<in> set rows. P r}"
  by (auto dest: in_set_takeD)

lemma select_distinct:
  "distinct (map key rows) \<Longrightarrow> distinct (map key (take n (sort_key f (filter P rows))))"
  by (auto simp: distinct_map inj_on_def dest!: in_set_takeD)

text \<open>Conditional UPDATE: the rows that satisfy \<open>P\<close> change.\<close>

definition rows_update :: "('r \<Rightarrow> bool) \<Rightarrow> ('r \<Rightarrow> 'r) \<Rightarrow> 'r list \<Rightarrow> 'r list" where
  "rows_update P f rows = map (\<lambda>r. if P r then f r else r) rows"

lemma rows_update_proj [table_simps]:
  "(\<And>r. P r \<Longrightarrow> g (f r) = g r) \<Longrightarrow> map g (rows_update P f rows) = map g rows"
  by (auto simp: rows_update_def)

lemma rows_update_hit: "r \<in> set rows \<Longrightarrow> P r \<Longrightarrow> f r \<in> set (rows_update P f rows)"
  by (force simp: rows_update_def)

lemma rows_update_miss: "r \<in> set rows \<Longrightarrow> \<not> P r \<Longrightarrow> r \<in> set (rows_update P f rows)"
  by (force simp: rows_update_def)

lemma length_rows_update [simp]: "length (rows_update P f rows) = length rows"
  by (simp add: rows_update_def)

lemma nth_rows_update:
  "i < length rows \<Longrightarrow> rows_update P f rows ! i = (if P (rows ! i) then f (rows ! i) else rows ! i)"
  by (simp add: rows_update_def)

lemma nth_row_update:
  "i < length rows \<Longrightarrow> row_update key k f rows ! i = (if key (rows ! i) = k then f (rows ! i) else rows ! i)"
  by (simp add: row_update_def)

lemma row_update_image: "(\<And>r. g (f r) = g r) \<Longrightarrow> g ` set (row_update key k f rows) = g ` set rows"
  using row_update_proj [of g f key k rows] by (metis set_map)

text \<open>Row by row, an UPDATE relates the table before to the table after.\<close>

lemma all2_map_eq: "list_all2 R xs ys \<Longrightarrow> (\<And>x y. R x y \<Longrightarrow> g y = g x) \<Longrightarrow> map g ys = map g xs"
  by (induction rule: list_all2_induct) auto

lemma all2_image: "list_all2 R xs ys \<Longrightarrow> y \<in> set ys \<Longrightarrow> \<exists>x \<in> set xs. R x y"
  by (induction rule: list_all2_induct) auto

lemma all2_forward: "list_all2 R xs ys \<Longrightarrow> x \<in> set xs \<Longrightarrow> \<exists>y \<in> set ys. R x y"
  by (induction rule: list_all2_induct) auto

lemma row_update_all2:
  assumes "distinct (map key rows)" "r \<in> set rows" "key r = k" "R r (f r)" "\<And>x. R x x"
  shows "list_all2 R rows (row_update key k f rows)"
proof -
  have "R x (if key x = k then f x else x)" if "x \<in> set rows" for x
    using assms that by (auto simp: distinct_map dest: inj_onD)
  then show ?thesis by (simp add: row_update_def list_all2_conv_all_nth)
qed

lemma rows_update_all2:
  "(\<And>r. r \<in> set rows \<Longrightarrow> P r \<Longrightarrow> R r (f r)) \<Longrightarrow> (\<And>x. R x x) \<Longrightarrow> list_all2 R rows (rows_update P f rows)"
  by (simp add: rows_update_def list_all2_conv_all_nth)

text \<open>\<open>ORDER BY key DESC LIMIT 1\<close>: the row with the largest key.\<close>

fun max_row :: "('r \<Rightarrow> 'k :: linorder) \<Rightarrow> 'r list \<Rightarrow> 'r option" where
  "max_row key [] = None"
| "max_row key (r # rows) =
     (case max_row key rows of
        None \<Rightarrow> Some r
      | Some s \<Rightarrow> if key s < key r then Some r else Some s)"

lemma max_row_None [simp]: "max_row key rows = None \<longleftrightarrow> rows = []"
  by (cases rows) (auto split: option.splits)

lemma max_row_mem: "max_row key rows = Some r \<Longrightarrow> r \<in> set rows"
  by (induction rows arbitrary: r) (auto split: option.splits if_splits)

lemma max_row_max: "max_row key rows = Some r \<Longrightarrow> s \<in> set rows \<Longrightarrow> key s \<le> key r"
  by (induction rows arbitrary: r) (fastforce split: option.splits if_splits)+

lemma max_row_last:
  assumes "rows \<noteq> []" and "\<And>r. r \<in> set (butlast rows) \<Longrightarrow> key r < key (last rows)"
  shows "max_row key rows = Some (last rows)"
  using assms
proof (induction rows)
  case (Cons r rows)
  show ?case
  proof (cases "rows = []")
    case False
    with Cons have "max_row key rows = Some (last rows)" "key r < key (last rows)"
      by auto
    with False show ?thesis by auto
  qed simp
qed simp

end
