(* ===== verification/Envelope.thy ===== *)
theory Envelope
  imports Prelude
begin

text \<open>
  Message envelopes (\<open>internal/queue/envelope.go\<close>), the per-worker routing key
  (\<open>internal/queue/worker_routing.go\<close>) and the broker topology
  (\<open>internal/queue/topology.go\<close>). The functions the program takes from other packages and
  that are not part of the repository are fields of the record \<open>Runtime\<close>, an argument of
  every definition that uses one.
\<close>

section \<open>What the program takes from elsewhere\<close>

text \<open>
  The textual form of a UUID (\<open>github.com/google/uuid\<close>), the number of bytes
  \<open>json.Marshal\<close> writes for a value, its encoding of one string, of one float64 and of one
  float32, the float64 a decimal literal denotes (\<open>strconv.ParseFloat\<close>), the hexadecimal
  SHA-256 digest of a byte string, the parsers of a UUID and of an RFC 3339 instant, and the
  case folding under which \<open>encoding/json\<close> matches an object's names with struct fields.
\<close>

datatype json =
    JNull
  | JBool bool
  | JNum string
  | JStr string
  | JArr "json list"
  | JObj "(string \<times> json) list"

record Runtime =
  uuid_String :: "uuid \<Rightarrow> string"
  json_size :: "json \<Rightarrow> nat"
  json_quote :: "string \<Rightarrow> string"
  float64_text :: "rat \<Rightarrow> string"
  float32_text :: "rat \<Rightarrow> string"
  parse_float :: "string \<Rightarrow> rat option"
  sha256_hex :: "string \<Rightarrow> string"
  uuid_Parse :: "string \<Rightarrow> uuid option"
  time_Parse :: "string \<Rightarrow> time option"
  json_fold :: "string \<Rightarrow> string"

section \<open>Envelopes\<close>

text \<open>
  A \<open>json.RawMessage\<close> is a byte string; the code only measures it after trimming white
  space and parses it, so it is the trimmed length and the value it parses to, \<open>None\<close> when
  the bytes are not JSON. In an object with a repeated name the last entry wins, as in
  \<open>json.Unmarshal\<close>.
\<close>

record RawMessage =
  raw_len :: nat
  raw_value :: "json option"

definition json_field :: "(string \<times> json) list \<Rightarrow> string \<Rightarrow> json option" where
  "json_field kvs name = map_of (rev kvs) name"

record Envelope =
  env_MessageID :: uuid
  env_MessageType :: string
  env_SchemaVersion :: int
  env_OccurredAt :: time
  env_TraceID :: string
  env_CorrelationID :: string
  env_CausationID :: string
  env_Payload :: RawMessage

abbreviation MaxEnvelopeBytes :: nat where "MaxEnvelopeBytes \<equiv> 1048576"

abbreviation MessageJobQueued :: string where "MessageJobQueued \<equiv> ''processing.job.queued''"
abbreviation MessageJobRequested :: string where "MessageJobRequested \<equiv> ''processing.job.requested''"
abbreviation MessageJobCancel :: string where "MessageJobCancel \<equiv> ''processing.job.cancel-requested''"
abbreviation MessageJobStarted :: string where "MessageJobStarted \<equiv> ''processing.job.started''"
abbreviation MessageJobProgressed :: string where "MessageJobProgressed \<equiv> ''processing.job.progressed''"
abbreviation MessageJobSucceeded :: string where "MessageJobSucceeded \<equiv> ''processing.job.succeeded''"
abbreviation MessageJobFailed :: string where "MessageJobFailed \<equiv> ''processing.job.failed''"
abbreviation MessageJobCancelled :: string where "MessageJobCancelled \<equiv> ''processing.job.cancelled''"
abbreviation MessageWorkerHeartbeat :: string where "MessageWorkerHeartbeat \<equiv> ''processing.worker.heartbeat''"
abbreviation MessageWorkerRegistered :: string where "MessageWorkerRegistered \<equiv> ''processing.worker.registered''"
abbreviation MessageArtifactCreated :: string where "MessageArtifactCreated \<equiv> ''processing.artifact.created''"

definition knownMessageTypes :: "(string \<times> string list) list" where
  "knownMessageTypes =
    [(MessageJobQueued, [''jobId'']),
     (MessageJobRequested, [''jobId'', ''datasetVersionId'', ''attemptId'', ''leaseId'', ''workerId'',
        ''attemptNumber'', ''operations'', ''source'']),
     (MessageJobCancel, [''jobId'', ''reason'']),
     (MessageJobStarted, [''jobId'', ''attemptId'', ''leaseId'', ''workerId'', ''attemptNumber'']),
     (MessageJobProgressed, [''jobId'', ''attemptId'', ''leaseId'', ''stage'', ''processedRows'',
        ''progressPercent'', ''updatedAt'']),
     (MessageJobSucceeded, [''jobId'', ''attemptId'', ''leaseId'', ''workerId'', ''artifacts'']),
     (MessageJobFailed, [''jobId'', ''attemptId'', ''leaseId'', ''workerId'', ''error'']),
     (MessageJobCancelled, [''jobId'', ''attemptId'', ''leaseId'', ''workerId'', ''reason'']),
     (MessageWorkerHeartbeat, [''workerId'', ''instanceId'', ''hostname'', ''supportedOperations'',
        ''softwareVersion'', ''status'', ''currentConcurrency'', ''maxConcurrency'',
        ''currentJobIds'', ''observedAt'']),
     (MessageWorkerRegistered, [''workerId'', ''instanceId'', ''hostname'', ''supportedOperations'',
        ''softwareVersion'', ''maxConcurrency'', ''startedAt'']),
     (MessageArtifactCreated, [''jobId'', ''attemptId'', ''leaseId'', ''artifactId'', ''kind'',
        ''objectKey'', ''sizeBytes'', ''contentType'', ''checksumSha256''])]"

text \<open>
  The pattern \<open>^[a-z][a-z0-9]*(\.[a-z0-9-]+)+$\<close>: the parts between the dots, of which there
  are at least two, the first a letter followed by letters and digits.
\<close>

fun split_on :: "'a \<Rightarrow> 'a list \<Rightarrow> 'a list list" where
  "split_on d [] = [[]]"
| "split_on d (c # cs) =
     (if c = d then [] # split_on d cs
      else case split_on d cs of [] \<Rightarrow> [[c]] | p # ps \<Rightarrow> (c # p) # ps)"

definition is_alnum :: "char \<Rightarrow> bool" where
  "is_alnum c \<longleftrightarrow> is_lower c \<or> is_digit c"

definition messageTypePattern :: "string \<Rightarrow> bool" where
  "messageTypePattern s =
     (case split_on (CHR ''.'') s of
        (c # cs) # p # ps \<Rightarrow>
          is_lower c \<and> list_all is_alnum cs \<and>
          list_all (\<lambda>q. q \<noteq> [] \<and> list_all (\<lambda>d. is_alnum d \<or> d = CHR ''-'') q) (p # ps)
      | _ \<Rightarrow> False)"

text \<open>A required field is present and not \<open>null\<close>.\<close>

definition field_present :: "(string \<times> json) list \<Rightarrow> string \<Rightarrow> bool" where
  "field_present kvs name \<longleftrightarrow>
     (case json_field kvs name of None \<Rightarrow> False | Some v \<Rightarrow> v \<noteq> JNull)"

definition Envelope_Validate :: "Envelope \<Rightarrow> unit result" where
  "Envelope_Validate e =
    (if env_MessageID e = uuid_Nil then Inl QueueErrEmptyMessageID
     else if \<not> messageTypePattern (env_MessageType e) then Inl (ErrText ''message type is invalid'')
     else case map_of knownMessageTypes (env_MessageType e) of
       None \<Rightarrow> Inl (ErrText ''message type is not registered'')
     | Some required \<Rightarrow>
       if env_SchemaVersion e \<noteq> 1 then Inl (ErrText ''unsupported schema version'')
       else if time_IsZero (env_OccurredAt e) then Inl (ErrText ''occurredAt is required'')
       else if env_TraceID e = [] \<or> env_CorrelationID e = [] \<or> env_CausationID e = []
         then Inl (ErrText ''traceId, correlationId, and causationId are required'')
       else if length (env_TraceID e) > 128 \<or> length (env_CorrelationID e) > 128 \<or>
          length (env_CausationID e) > 128
         then Inl (ErrText ''trace context identifiers are too long'')
       else case raw_value (env_Payload e) of
         Some (JObj kvs) \<Rightarrow>
           if raw_len (env_Payload e) > MaxEnvelopeBytes then Inl (ErrText ''payload is too large'')
           else if \<not> list_all (field_present kvs) required
             then Inl (ErrText ''a payload field is required'')
           else if env_MessageType e = MessageJobRequested then
             (case json_field kvs ''operations'' of
                Some (JArr (x # xs)) \<Rightarrow> Inr ()
              | _ \<Rightarrow> Inl (ErrText ''payload.operations must contain at least one operation''))
           else Inr ()
       | _ \<Rightarrow> Inl (ErrText ''payload must be a JSON object''))"

text \<open>\<open>msgID\<close> is the value of \<open>uuid.New()\<close> and \<open>now\<close> that of \<open>time.Now()\<close>.\<close>

definition NewEnvelope ::
  "Runtime \<Rightarrow> uuid \<Rightarrow> time \<Rightarrow> string \<Rightarrow> string \<Rightarrow> string \<Rightarrow> string \<Rightarrow> json \<Rightarrow> Envelope result" where
  "NewEnvelope rt msgID now messageType traceID correlationID causationID payload =
    (let envelope = \<lparr>env_MessageID = msgID, env_MessageType = messageType, env_SchemaVersion = 1,
           env_OccurredAt = now, env_TraceID = traceID, env_CorrelationID = correlationID,
           env_CausationID = causationID,
           env_Payload = \<lparr>raw_len = json_size rt payload, raw_value = Some payload\<rparr>\<rparr>
     in bindE (Envelope_Validate envelope) (\<lambda>_. Inr envelope))"

text \<open>
  A message body on the wire is its length and what the strict decoder makes of it, \<open>None\<close>
  when the bytes are not an envelope object with the known fields only.
\<close>

type_synonym wire = "nat \<times> Envelope option"

definition UnmarshalEnvelope :: "wire \<Rightarrow> Envelope result" where
  "UnmarshalEnvelope data =
    (if fst data > MaxEnvelopeBytes then Inl (ErrText ''message is too large'')
     else case snd data of
       None \<Rightarrow> Inl (ErrText ''decode message envelope'')
     | Some envelope \<Rightarrow> bindE (Envelope_Validate envelope) (\<lambda>_. Inr envelope))"

definition MarshalEnvelope :: "(Envelope \<Rightarrow> nat) \<Rightarrow> Envelope \<Rightarrow> wire result" where
  "MarshalEnvelope nbytes e = bindE (Envelope_Validate e) (\<lambda>_. Inr (nbytes e, Some e))"

section \<open>Routing and topology\<close>

definition WorkerRoutingKey :: "Runtime \<Rightarrow> string \<Rightarrow> uuid \<Rightarrow> string result" where
  "WorkerRoutingKey rt messageType workerID =
    (if workerID = uuid_Nil then Inl (ErrText ''worker routing requires a non-zero worker ID'')
     else if messageType \<noteq> MessageJobRequested \<and> messageType \<noteq> MessageJobCancel
       then Inl (ErrText ''message type cannot use worker routing'')
     else Inr (messageType @ ''.'' @ uuid_String rt workerID))"

abbreviation CommandsExchange :: string where "CommandsExchange \<equiv> ''pipeforge.commands''"
abbreviation EventsExchange :: string where "EventsExchange \<equiv> ''pipeforge.events''"
abbreviation DeadLetterExchange :: string where "DeadLetterExchange \<equiv> ''pipeforge.dead-letter''"

record Topology =
  top_Exchanges :: "(string \<times> string) list"
  top_Queues :: "(string \<times> string) list"
  top_Bindings :: "(string \<times> string \<times> string) list"

definition DefaultTopology :: Topology where
  "DefaultTopology =
    \<lparr>top_Exchanges =
       [(CommandsExchange, ''topic''), (EventsExchange, ''topic''), (DeadLetterExchange, ''topic'')],
     top_Queues =
       [(''processing.jobs'', ''processing.jobs.dlq''),
        (''processing.cancellations'', ''processing.cancellations.dlq''),
        (''control-plane.dispatch'', ''control-plane.dispatch.dlq''),
        (''control-plane.workers'', ''control-plane.workers.dlq''),
        (''control-plane.results'', ''control-plane.results.dlq''),
        (''audit.events'', ''''), (''monitoring.events'', ''''),
        (''processing.jobs.dlq'', ''''), (''processing.cancellations.dlq'', ''''),
        (''control-plane.dispatch.dlq'', ''''), (''control-plane.workers.dlq'', ''''),
        (''control-plane.results.dlq'', '''')],
     top_Bindings =
       [(CommandsExchange, ''processing.jobs'', ''processing.job.requested''),
        (CommandsExchange, ''processing.cancellations'', ''processing.job.cancel-requested''),
        (CommandsExchange, ''control-plane.dispatch'', ''processing.job.queued''),
        (EventsExchange, ''control-plane.workers'', MessageWorkerRegistered),
        (EventsExchange, ''control-plane.workers'', MessageWorkerHeartbeat),
        (EventsExchange, ''control-plane.results'', MessageJobStarted),
        (EventsExchange, ''control-plane.results'', MessageJobProgressed),
        (EventsExchange, ''control-plane.results'', MessageJobSucceeded),
        (EventsExchange, ''control-plane.results'', MessageJobFailed),
        (EventsExchange, ''control-plane.results'', MessageJobCancelled),
        (EventsExchange, ''control-plane.results'', ''processing.artifact.created''),
        (EventsExchange, ''audit.events'', ''audit.#''),
        (EventsExchange, ''monitoring.events'', ''monitoring.#''),
        (DeadLetterExchange, ''processing.jobs.dlq'', ''processing.jobs.dlq''),
        (DeadLetterExchange, ''processing.cancellations.dlq'', ''processing.cancellations.dlq''),
        (DeadLetterExchange, ''control-plane.dispatch.dlq'', ''control-plane.dispatch.dlq''),
        (DeadLetterExchange, ''control-plane.workers.dlq'', ''control-plane.workers.dlq''),
        (DeadLetterExchange, ''control-plane.results.dlq'', ''control-plane.results.dlq'')]\<rparr>"

section \<open>Facts about envelopes\<close>

lemma knownMessageTypes_pattern: "\<forall>(t, _) \<in> set knownMessageTypes. messageTypePattern t"
  by code_simp

lemma Envelope_ValidateD:
  assumes "Envelope_Validate e = Inr u"
  shows "env_MessageID e \<noteq> uuid_Nil" and "env_TraceID e \<noteq> []" and "env_CorrelationID e \<noteq> []"
    and "env_CausationID e \<noteq> []" and "env_OccurredAt e \<noteq> 0" and "env_SchemaVersion e = 1"
    and "\<exists>required kvs. map_of knownMessageTypes (env_MessageType e) = Some required \<and>
           raw_value (env_Payload e) = Some (JObj kvs) \<and> list_all (field_present kvs) required"
  using assms
  by (auto simp: Envelope_Validate_def time_IsZero_def split: if_splits option.splits json.splits)

lemma NewEnvelopeD:
  assumes "NewEnvelope rt msgID now messageType traceID correlationID causationID payload = Inr e"
  shows "Envelope_Validate e = Inr ()" and "env_MessageID e = msgID" and "env_MessageType e = messageType"
    and "raw_value (env_Payload e) = Some payload" and "env_TraceID e = traceID"
    and "env_CorrelationID e = correlationID" and "env_CausationID e = causationID"
  using assms by (auto simp: NewEnvelope_def Let_def result_simps)

lemma UnmarshalEnvelope_valid: "UnmarshalEnvelope data = Inr e \<Longrightarrow> Envelope_Validate e = Inr ()"
  by (auto simp: UnmarshalEnvelope_def result_simps split: if_splits option.splits)

end
