(* ===== verification/Schema.thy ===== *)
theory Schema
  imports Envelope
begin

text \<open>
  The job and attempt models (\<open>internal/job/models.go\<close>) with their state machine, and the
  database the repositories work on: one record field per table of \<open>go/migrations\<close> that the
  modelled code reads or writes, each the list of its rows. A nullable column is an
  \<open>option\<close>; a state column, which the schema constrains to the constants of the models, is a
  datatype.
\<close>

section \<open>Job and attempt states\<close>

datatype job_state =
    Created | Queued | Leased | Running | Succeeded | FailedRetryable | FailedPermanent
  | CancelRequested | Cancelled | DeadLettered

datatype attempt_state =
    ACreated | ALeased | ARunning | ASucceeded | AFailed | ATimedOut | ACancelled

text \<open>The string constants the code and the database use for the job states.\<close>

fun state_text :: "job_state \<Rightarrow> string" where
  "state_text Created = ''CREATED''"
| "state_text Queued = ''QUEUED''"
| "state_text Leased = ''LEASED''"
| "state_text Running = ''RUNNING''"
| "state_text Succeeded = ''SUCCEEDED''"
| "state_text FailedRetryable = ''FAILED_RETRYABLE''"
| "state_text FailedPermanent = ''FAILED_PERMANENT''"
| "state_text CancelRequested = ''CANCEL_REQUESTED''"
| "state_text Cancelled = ''CANCELLED''"
| "state_text DeadLettered = ''DEAD_LETTERED''"

definition isJobState :: "string \<Rightarrow> bool" where
  "isJobState s \<longleftrightarrow>
     s \<in> set [''CREATED'', ''QUEUED'', ''LEASED'', ''RUNNING'', ''SUCCEEDED'', ''FAILED_RETRYABLE'',
        ''FAILED_PERMANENT'', ''CANCEL_REQUESTED'', ''CANCELLED'', ''DEAD_LETTERED'']"

definition allowed_transitions :: "(string \<times> string list) list" where
  "allowed_transitions =
    [(''CREATED'', [''QUEUED'']),
     (''QUEUED'', [''LEASED'', ''CANCEL_REQUESTED'', ''CANCELLED'', ''FAILED_PERMANENT'']),
     (''LEASED'', [''QUEUED'', ''RUNNING'', ''CANCEL_REQUESTED'', ''FAILED_RETRYABLE'',
        ''FAILED_PERMANENT'', ''DEAD_LETTERED'']),
     (''RUNNING'', [''QUEUED'', ''SUCCEEDED'', ''FAILED_RETRYABLE'', ''FAILED_PERMANENT'',
        ''CANCEL_REQUESTED'', ''DEAD_LETTERED'']),
     (''FAILED_RETRYABLE'', [''QUEUED'', ''DEAD_LETTERED'']),
     (''FAILED_PERMANENT'', [''QUEUED'']),
     (''CANCEL_REQUESTED'', [''CANCELLED'']),
     (''DEAD_LETTERED'', [''QUEUED''])]"

definition ValidateTransition :: "string \<Rightarrow> string \<Rightarrow> unit result" where
  "ValidateTransition from_state to_state =
     (if \<not> isJobState from_state \<or> \<not> isJobState to_state then Inl JobErrInvalidTransition
      else case map_of allowed_transitions from_state of
        None \<Rightarrow> Inl JobErrInvalidTransition
      | Some targets \<Rightarrow>
          if to_state \<in> set targets then Inr () else Inl JobErrInvalidTransition)"

definition IsTerminal :: "string \<Rightarrow> bool" where
  "IsTerminal s \<longleftrightarrow> s = ''SUCCEEDED'' \<or> s = ''CANCELLED''"

text \<open>A state change the machine of the models allows.\<close>

definition transition_ok :: "job_state \<Rightarrow> job_state \<Rightarrow> bool" where
  "transition_ok s t \<longleftrightarrow> ValidateTransition (state_text s) (state_text t) = Inr ()"

section \<open>Operations\<close>

text \<open>
  The dynamic values of an operation's configuration (\<open>map[string]any\<close>), by the Go types the
  validators distinguish. A float64 is finite with an exact rational value, NaN or infinite.
\<close>

datatype int_kind =
    KInt | KInt8 | KInt16 | KInt32 | KInt64 | KUint | KUint8 | KUint16 | KUint32 | KUint64

datatype float64 = Fin rat | NaN | Inf bool

datatype any =
    AnyNil
  | AnyBool bool
  | AnyInt int_kind int
  | AnyFloat32 float64
  | AnyFloat64 float64
  | AnyNumber string
  | AnyString string
  | AnySlice "any list"
  | AnyStrings "string list"
  | AnyFloats "float64 list"
  | AnyMap "(string \<times> any) list"

record Operation =
  op_Type :: string
  op_Config :: "(string \<times> any) list option"

section \<open>Rows\<close>

record Job =
  j_id :: uuid
  j_owner :: uuid
  j_version :: uuid
  j_state :: job_state
  j_ops :: "Operation list"
  j_fingerprint :: string
  j_idem :: "string option"
  j_priority :: int
  j_max :: int
  j_created :: time
  j_updated :: time
  j_queued :: "time option"
  j_next :: "time option"
  j_started :: "time option"
  j_cancel :: "time option"
  j_completed :: "time option"
  j_finished :: "time option"
  j_errcode :: "string option"
  j_errmsg :: "string option"

record Attempt =
  a_id :: uuid
  a_job :: uuid
  a_num :: int
  a_state :: attempt_state
  a_lease :: "uuid option"
  a_worker :: "uuid option"
  a_leased :: "time option"
  a_renewed :: "time option"
  a_expires :: "time option"
  a_created :: time
  a_started :: "time option"
  a_finished :: "time option"
  a_errcode :: "string option"
  a_errmsg :: "string option"
  a_retryable :: bool

record History =
  h_job :: uuid
  h_from :: "job_state option"
  h_to :: job_state
  h_reason :: string
  h_actor :: "uuid option"

record Idempotency =
  ik_id :: uuid
  ik_owner :: uuid
  ik_key :: string
  ik_fingerprint :: string
  ik_job :: uuid

record Quota =
  q_owner :: uuid
  q_queued :: int
  q_active :: int
  q_updated :: time

datatype outbox_state = Pending | InFlight | Published | OutboxFailed

record Outbox =
  ob_id :: uuid
  ob_env :: Envelope
  ob_exchange :: string
  ob_key :: string
  ob_state :: outbox_state
  ob_attempts :: int
  ob_available :: time
  ob_token :: "uuid option"
  ob_until :: "time option"
  ob_error :: "string option"
  ob_published :: "time option"
  ob_created :: time

datatype event_outcome = Processing | Applied | Duplicate | Ignored | Rejected

record Inbox =
  in_id :: uuid
  in_type :: string
  in_outcome :: event_outcome
  in_reason :: "string option"

datatype projection_outcome = ProjSucceeded | ProjFailed | ProjCancelled

record Projection =
  p_job :: uuid
  p_attempt :: uuid
  p_outcome :: projection_outcome
  p_keys :: "string list"
  p_errcode :: "string option"
  p_errmsg :: "string option"
  p_retryable :: "bool option"

datatype artifact_state = Staged | Canonical

record Artifact =
  art_id :: uuid
  art_owner :: uuid
  art_job :: uuid
  art_attempt :: uuid
  art_lease :: uuid
  art_kind :: string
  art_key :: string
  art_size :: int
  art_ctype :: string
  art_checksum :: string
  art_state :: artifact_state
  art_created :: time

record Progress =
  pg_id :: int
  pg_job :: uuid
  pg_attempt :: uuid
  pg_lease :: uuid
  pg_stage :: string
  pg_rows :: int
  pg_total :: "int option"
  pg_percent :: rat
  pg_throughput :: rat
  pg_updated :: time

record DeadLetter =
  d_id :: uuid
  d_job :: uuid
  d_attempt :: uuid
  d_lease :: uuid
  d_worker :: uuid
  d_num :: int
  d_errcode :: string
  d_errmsg :: string
  d_retryable :: bool
  d_diagnostic :: "string option"
  d_created :: time
  d_replayed :: "time option"
  d_replayer :: "uuid option"

datatype worker_status =
  WStarting | WReady | WBusy | WDraining | WUnhealthy | WOffline

record Worker =
  w_id :: uuid
  w_instance :: string
  w_host :: string
  w_ops :: "string list"
  w_software :: string
  w_status :: worker_status
  w_current :: int
  w_max :: int
  w_started :: time
  w_observed :: time
  w_heartbeat :: "time option"
  w_assigned :: "time option"

record Dataset =
  ds_id :: uuid
  ds_owner :: uuid
  ds_name :: string
  ds_description :: string
  ds_state :: string
  ds_created :: time
  ds_updated :: time
  ds_deleted :: "time option"

text \<open>The columns of \<open>dataset_versions\<close> the program writes; the others stay NULL.\<close>

record Version =
  v_id :: uuid
  v_dataset :: uuid
  v_number :: int
  v_state :: string
  v_filename :: string
  v_ctype :: string
  v_format :: string
  v_size :: "int option"
  v_object :: string
  v_checksum :: "string option"
  v_source :: "(string \<times> string) list"
  v_prefix :: string
  v_creator :: uuid
  v_created :: time
  v_available :: "time option"

record DatasetHistory =
  dh_dataset :: uuid
  dh_from :: "string option"
  dh_to :: string
  dh_reason :: string
  dh_actor :: "uuid option"

datatype session_state = Initiated | Completing | Aborting | Completed | Aborted | Expired | SessionFailed

record Session =
  us_id :: uuid
  us_owner :: uuid
  us_dataset :: uuid
  us_version :: uuid
  us_upload :: string
  us_object :: string
  us_state :: session_state
  us_filename :: string
  us_ctype :: string
  us_format :: string
  us_size :: int
  us_checksum :: "string option"
  us_partsize :: int
  us_parts :: int
  us_idem :: "string option"
  us_expires :: time
  us_created :: time
  us_updated :: time
  us_completed :: "time option"
  us_aborted :: "time option"
  us_error :: "string option"
  us_token :: "uuid option"
  us_started :: "time option"

record Part =
  pt_session :: uuid
  pt_number :: int
  pt_etag :: string
  pt_size :: int
  pt_created :: time

record Rule =
  qr_id :: uuid
  qr_owner :: uuid
  qr_dataset :: uuid
  qr_name :: string
  qr_columns :: "string list"
  qr_type :: string
  qr_config :: "(string \<times> any) list"
  qr_severity :: string
  qr_enabled :: bool
  qr_creator :: uuid
  qr_created :: time
  qr_updated :: time
  qr_deleted :: "time option"

record Audit =
  au_actor :: "uuid option"
  au_action :: string
  au_resource :: string
  au_request :: string

section \<open>The database\<close>

record DB =
  db_jobs :: "Job list"
  db_attempts :: "Attempt list"
  db_history :: "History list"
  db_idem :: "Idempotency list"
  db_quotas :: "Quota list"
  db_outbox :: "Outbox list"
  db_inbox :: "Inbox list"
  db_projections :: "Projection list"
  db_artifacts :: "Artifact list"
  db_progress :: "Progress list"
  db_progress_history :: "Progress list"
  db_progress_seq :: int
  db_dead :: "DeadLetter list"
  db_workers :: "Worker list"
  db_datasets :: "Dataset list"
  db_versions :: "Version list"
  db_audit :: "Audit list"
  db_dataset_history :: "DatasetHistory list"
  db_sessions :: "Session list"
  db_parts :: "Part list"
  db_rules :: "Rule list"

definition empty_db :: DB where
  "empty_db =
    \<lparr>db_jobs = [], db_attempts = [], db_history = [], db_idem = [], db_quotas = [],
     db_outbox = [], db_inbox = [], db_projections = [], db_artifacts = [], db_progress = [],
     db_progress_history = [], db_progress_seq = 1, db_dead = [], db_workers = [],
     db_datasets = [], db_versions = [], db_audit = [], db_dataset_history = [], db_sessions = [],
     db_parts = [], db_rules = []\<rparr>"

text \<open>Statements that more than one repository issues.\<close>

definition update_job :: "uuid \<Rightarrow> (Job \<Rightarrow> Job) \<Rightarrow> DB \<Rightarrow> DB" where
  "update_job k f db = db\<lparr>db_jobs := row_update j_id k f (db_jobs db)\<rparr>"

definition update_attempt :: "uuid \<Rightarrow> (Attempt \<Rightarrow> Attempt) \<Rightarrow> DB \<Rightarrow> DB" where
  "update_attempt k f db = db\<lparr>db_attempts := row_update a_id k f (db_attempts db)\<rparr>"

definition update_quota :: "uuid \<Rightarrow> (Quota \<Rightarrow> Quota) \<Rightarrow> DB \<Rightarrow> DB" where
  "update_quota k f db = db\<lparr>db_quotas := row_update q_owner k f (db_quotas db)\<rparr>"

definition add_history :: "uuid \<Rightarrow> job_state option \<Rightarrow> job_state \<Rightarrow> string \<Rightarrow> uuid option \<Rightarrow> DB \<Rightarrow> DB" where
  "add_history jobID from_state to_state reason actor db =
     db\<lparr>db_history := db_history db @
       [\<lparr>h_job = jobID, h_from = from_state, h_to = to_state, h_reason = reason, h_actor = actor\<rparr>]\<rparr>"

text \<open>
  \<open>INSERT INTO job_attempts (id, job_id, attempt_number, state, created_at)\<close>, under the primary
  key and the unique constraint on job and attempt number.
\<close>

definition new_attempt :: "uuid \<Rightarrow> uuid \<Rightarrow> int \<Rightarrow> time \<Rightarrow> Attempt" where
  "new_attempt attemptID jobID number now =
    \<lparr>a_id = attemptID, a_job = jobID, a_num = number, a_state = ACreated, a_lease = None,
     a_worker = None, a_leased = None, a_renewed = None, a_expires = None, a_created = now,
     a_started = None, a_finished = None, a_errcode = None, a_errmsg = None, a_retryable = False\<rparr>"

definition insert_attempt :: "Attempt \<Rightarrow> DB \<Rightarrow> DB result" where
  "insert_attempt a db =
    (if (a_job a, a_num a) \<in> (\<lambda>b. (a_job b, a_num b)) ` set (db_attempts db)
     then Inl (ErrDatabase ''duplicate attempt number'')
     else bindE (row_insert a_id a (db_attempts db)) (\<lambda>rows. Inr (db\<lparr>db_attempts := rows\<rparr>)))"

text \<open>
  \<open>INSERT INTO job_result_projections ... ON CONFLICT (job_id, attempt_id) DO NOTHING\<close>.
\<close>

definition add_projection :: "Projection \<Rightarrow> DB \<Rightarrow> DB" where
  "add_projection p db =
    (if (p_job p, p_attempt p) \<in> (\<lambda>r. (p_job r, p_attempt r)) ` set (db_projections db) then db
     else db\<lparr>db_projections := db_projections db @ [p]\<rparr>)"

definition cancelled_projection :: "uuid \<Rightarrow> uuid \<Rightarrow> string \<Rightarrow> Projection" where
  "cancelled_projection jobID attemptID message =
    \<lparr>p_job = jobID, p_attempt = attemptID, p_outcome = ProjCancelled, p_keys = [],
     p_errcode = Some ''CANCELLED'', p_errmsg = Some message, p_retryable = Some False\<rparr>"

text \<open>
  \<open>INSERT INTO job_dead_letters ... ON CONFLICT (job_id, attempt_id) DO NOTHING\<close>; the primary
  key is the other constraint.
\<close>

definition insert_dead_letter :: "DeadLetter \<Rightarrow> DB \<Rightarrow> DB result" where
  "insert_dead_letter d db =
    (if (d_job d, d_attempt d) \<in> (\<lambda>r. (d_job r, d_attempt r)) ` set (db_dead db) then Inr db
     else if d_id d \<in> d_id ` set (db_dead db) then Inl (ErrDatabase ''duplicate key'')
     else Inr (db\<lparr>db_dead := db_dead db @ [d]\<rparr>))"

text \<open>
  The attempts of a job, and the latest one:
  \<open>ORDER BY attempt_number DESC, id DESC LIMIT 1\<close>.
\<close>

definition attempts_of :: "uuid \<Rightarrow> DB \<Rightarrow> Attempt list" where
  "attempts_of jobID db = filter (\<lambda>a. a_job a = jobID) (db_attempts db)"

definition latest_attempt :: "uuid \<Rightarrow> DB \<Rightarrow> Attempt option" where
  "latest_attempt jobID db = max_row (\<lambda>a. (a_num a, a_id a)) (attempts_of jobID db)"

definition find_job :: "uuid \<Rightarrow> DB \<Rightarrow> Job option" where
  "find_job jobID db = row_find j_id jobID (db_jobs db)"

section \<open>The state machine\<close>

lemma isJobState_text [simp]: "isJobState (state_text s)"
  by (cases s) (simp_all add: isJobState_def)

lemma state_text_surj: "isJobState t \<Longrightarrow> \<exists>s. t = state_text s"
  unfolding isJobState_def by (elim list_ex_iff [THEN iffD2] | simp | metis state_text.simps)+

lemma state_text_inj: "state_text s = state_text t \<longleftrightarrow> s = t"
  by (cases s; cases t) simp_all

text \<open>The table of the code, read on the datatype.\<close>

fun successors :: "job_state \<Rightarrow> job_state set" where
  "successors Created = {Queued}"
| "successors Queued = {Leased, CancelRequested, Cancelled, FailedPermanent}"
| "successors Leased = {Queued, Running, CancelRequested, FailedRetryable, FailedPermanent, DeadLettered}"
| "successors Running = {Queued, Succeeded, FailedRetryable, FailedPermanent, CancelRequested, DeadLettered}"
| "successors FailedRetryable = {Queued, DeadLettered}"
| "successors FailedPermanent = {Queued}"
| "successors CancelRequested = {Cancelled}"
| "successors DeadLettered = {Queued}"
| "successors Succeeded = {}"
| "successors Cancelled = {}"

lemma transition_ok_iff: "transition_ok s t \<longleftrightarrow> t \<in> successors s"
  unfolding transition_ok_def ValidateTransition_def allowed_transitions_def isJobState_def
  by (cases s; cases t) simp_all

section \<open>Reading the tables after a statement\<close>

lemma find_job_distinct:
  "distinct (map j_id (db_jobs db)) \<Longrightarrow> find_job k db = Some j \<longleftrightarrow> j \<in> set (db_jobs db) \<and> j_id j = k"
  by (simp add: find_job_def row_find_distinct)

lemma find_jobD: "find_job k db = Some j \<Longrightarrow> j \<in> set (db_jobs db) \<and> j_id j = k"
  unfolding find_job_def by (rule row_find_SomeD)

lemma insert_attempt_Inr [result_simps]:
  "insert_attempt a db = Inr db' \<longleftrightarrow>
     (a_job a, a_num a) \<notin> (\<lambda>b. (a_job b, a_num b)) ` set (db_attempts db) \<and>
     a_id a \<notin> a_id ` set (db_attempts db) \<and> db' = db\<lparr>db_attempts := db_attempts db @ [a]\<rparr>"
  by (auto simp: insert_attempt_def result_simps)

lemma new_attempt_simps [simp]:
  "a_id (new_attempt i j n t) = i" "a_job (new_attempt i j n t) = j" "a_num (new_attempt i j n t) = n"
  "a_state (new_attempt i j n t) = ACreated" "a_lease (new_attempt i j n t) = None"
  "a_worker (new_attempt i j n t) = None" "a_expires (new_attempt i j n t) = None"
  by (simp_all add: new_attempt_def)

lemma add_history_simps [simp]:
  "db_history (add_history k s t r a db) = db_history db @ [\<lparr>h_job = k, h_from = s, h_to = t, h_reason = r, h_actor = a\<rparr>]"
  "db_jobs (add_history k s t r a db) = db_jobs db" "db_attempts (add_history k s t r a db) = db_attempts db"
  "db_quotas (add_history k s t r a db) = db_quotas db" "db_projections (add_history k s t r a db) = db_projections db"
  "db_idem (add_history k s t r a db) = db_idem db" "db_outbox (add_history k s t r a db) = db_outbox db"
  by (simp_all add: add_history_def)

lemma add_projection_simps [simp]:
  "db_history (add_projection p db) = db_history db" "db_jobs (add_projection p db) = db_jobs db"
  "db_attempts (add_projection p db) = db_attempts db" "db_quotas (add_projection p db) = db_quotas db"
  "db_outbox (add_projection p db) = db_outbox db"
  by (simp_all add: add_projection_def)

lemma add_projection_mem:
  "r \<in> set (db_projections (add_projection p db)) \<Longrightarrow> r \<in> set (db_projections db) \<or> r = p"
  by (auto simp: add_projection_def split: if_splits)

end
