(* ===== verification/Retry.thy ===== *)
theory Retry
  imports Prelude "HOL-Library.Log_Nat"
begin

text \<open>
  The retry policy of \<open>internal/retry/policy.go\<close>: its validation, the next attempt number,
  and the delay before an attempt with bounded jitter. The jitter fraction is a float64; it
  is modelled by its exact rational value, and the two places where the code computes with
  floats (the conversion of the base delay and its product with the fraction) round to the
  nearest float64 as the language does.
\<close>

section \<open>Float64 arithmetic on non-negative numbers\<close>

text \<open>
  Round to nearest, ties to even, at 53 significant bits. The exponent of the last bit is
  read off the integer part; a number below one half rounds at a coarser grid than a float64
  has, which does not change its integer part, the only thing the policy uses of it.
\<close>

definition round_half_even :: "rat \<Rightarrow> int" where
  "round_half_even x =
     (let f = \<lfloor>x\<rfloor>; d = x - of_int f
      in if d < 1 / 2 then f else if d > 1 / 2 then f + 1 else if even f then f else f + 1)"

definition float64_round :: "rat \<Rightarrow> rat" where
  "float64_round x =
     (let e = bitlen \<lfloor>x\<rfloor> - 53
      in if 0 \<le> e then of_int (round_half_even (x / 2 ^ nat e)) * 2 ^ nat e
         else of_int (round_half_even (x * 2 ^ nat (- e))) / 2 ^ nat (- e))"

text \<open>\<open>int64(float64(base) * fraction)\<close>\<close>

definition jitter_maximum :: "duration \<Rightarrow> rat \<Rightarrow> int" where
  "jitter_maximum base fraction = \<lfloor>float64_round (float64_round (of_int base) * fraction)\<rfloor>"

section \<open>The policy\<close>

abbreviation DefaultMaxAttempts :: int where "DefaultMaxAttempts \<equiv> 5"
abbreviation MaxSupportedAttempts :: int where "MaxSupportedAttempts \<equiv> 20"

record Policy =
  pol_MaxAttempts :: int
  pol_Delays :: "duration list"
  pol_JitterFraction :: rat

text \<open>The float64 literal 0.2 is the nearest multiple of \<open>2 ^ -55\<close>.\<close>

definition DefaultPolicy :: Policy where
  "DefaultPolicy =
     \<lparr>pol_MaxAttempts = DefaultMaxAttempts,
      pol_Delays = [0, 10 * Second, 30 * Second, 2 * Minute, 10 * Minute],
      pol_JitterFraction = 7205759403792794 / 2 ^ 55\<rparr>"

fun delays_ordered :: "duration \<Rightarrow> duration list \<Rightarrow> bool" where
  "delays_ordered previous [] = True"
| "delays_ordered previous (delay # rest) =
     (if delay < 0 \<or> delay < previous then False else delays_ordered delay rest)"

definition Policy_Validate :: "Policy \<Rightarrow> unit result" where
  "Policy_Validate p =
     (if pol_MaxAttempts p < 1 \<or> pol_MaxAttempts p > MaxSupportedAttempts \<or> pol_Delays p = [] \<or>
         int (length (pol_Delays p)) > pol_MaxAttempts p \<or>
         pol_JitterFraction p < 0 \<or> pol_JitterFraction p > 1 / 2
      then Inl RetryErrInvalidPolicy
      else if delays_ordered (-1) (pol_Delays p) then Inr () else Inl RetryErrInvalidPolicy)"

definition Policy_Next :: "Policy \<Rightarrow> int \<Rightarrow> (int \<times> bool) result" where
  "Policy_Next p currentAttempt =
     bindE (Policy_Validate p) (\<lambda>_.
       if currentAttempt < 1 \<or> currentAttempt > pol_MaxAttempts p then Inl RetryErrInvalidAttempt
       else let next = currentAttempt + 1 in Inr (next, next \<le> pol_MaxAttempts p))"

text \<open>
  \<open>source\<close> is the \<open>Int63n\<close> method of the policy's randomness, \<open>None\<close> for a nil source.
  The addition of the jitter to the base delay is 64-bit and wraps.
\<close>

definition base_delay :: "Policy \<Rightarrow> int \<Rightarrow> duration" where
  "base_delay p nextAttempt =
     (let index = nextAttempt - 1;
          index' = (if index \<ge> int (length (pol_Delays p)) then int (length (pol_Delays p)) - 1
                    else index)
      in pol_Delays p ! nat index')"

definition Policy_Delay :: "Policy \<Rightarrow> int \<Rightarrow> (int \<Rightarrow> int) option \<Rightarrow> duration result" where
  "Policy_Delay p nextAttempt source =
     bindE (Policy_Validate p) (\<lambda>_.
       if nextAttempt < 2 \<or> nextAttempt > pol_MaxAttempts p then Inl RetryErrInvalidAttempt
       else
         let base = base_delay p nextAttempt
         in case source of
              None \<Rightarrow> Inr base
            | Some int63n \<Rightarrow>
                if base = 0 \<or> pol_JitterFraction p = 0 then Inr base
                else let maximum = jitter_maximum base (pol_JitterFraction p)
                     in if maximum < 1 then Inr base
                        else Inr (signed_take_bit 63 (base + int63n (maximum + 1))))"

text \<open>
  Error codes that may be retried. \<open>strings.ToUpper\<close> maps ASCII letters as written out here;
  on a text with other code points it consults the Unicode tables, the parameter \<open>up\<close>.
\<close>

definition retryableCodes :: "string list" where
  "retryableCodes =
     [''MINIO_UNAVAILABLE'', ''RABBITMQ_UNAVAILABLE'', ''NETWORK_TIMEOUT'',
      ''WORKER_INTERRUPTED'', ''RESOURCE_EXHAUSTED'', ''LEASE_EXPIRED'']"

definition upper_char :: "char \<Rightarrow> char" where
  "upper_char c = (if is_lower c then char_of (of_char c - (32 :: nat)) else c)"

definition ToUpper :: "(string \<Rightarrow> string) \<Rightarrow> string \<Rightarrow> string" where
  "ToUpper up s = (if \<forall>c \<in> set s. of_char c < (128 :: nat) then map upper_char s else up s)"

definition IsRetryable :: "(string \<Rightarrow> string) \<Rightarrow> string \<Rightarrow> bool" where
  "IsRetryable up code =
     (let c = ToUpper up (TrimSpace code)
      in if c \<in> set retryableCodes then True
         else HasPrefix c ''TEMPORARY_'' \<or> HasSuffix c ''_TIMEOUT'')"

section \<open>Rounding\<close>

lemma round_half_even_le:
  assumes "x \<le> of_int n"
  shows "round_half_even x \<le> n"
proof (cases "\<lfloor>x\<rfloor> < n")
  case True
  then show ?thesis by (simp add: round_half_even_def Let_def)
next
  case False
  with assms have "x = of_int n" by (simp add: le_floor_iff not_less)
  then show ?thesis by (simp add: round_half_even_def)
qed

lemma round_half_even_of_int [simp]: "round_half_even (of_int n) = n"
  by (simp add: round_half_even_def)

lemma bitlen_small: "0 \<le> n \<Longrightarrow> n < 2 ^ k \<Longrightarrow> bitlen n \<le> int k"
  by (simp add: bitlen_le_iff_power)

lemma float64_round_exact:
  assumes "0 \<le> b" and "b < 2 ^ 53"
  shows "float64_round (of_int b) = of_int b"
proof -
  have "bitlen b \<le> 53" using bitlen_small [of b 53] assms by simp
  then consider "bitlen b - 53 = 0" | "bitlen b - 53 < 0" by linarith
  then show ?thesis
  proof cases
    case 1
    then show ?thesis by (simp add: float64_round_def)
  next
    case 2
    have "round_half_even ((of_int b :: rat) * 2 ^ nat (53 - bitlen b)) = b * 2 ^ nat (53 - bitlen b)"
      using round_half_even_of_int [of "b * 2 ^ nat (53 - bitlen b)"] by simp
    then show ?thesis using 2 by (simp add: float64_round_def)
  qed
qed

text \<open>Rounding never passes a multiple of one half that the number does not pass.\<close>

lemma float64_round_half:
  assumes "0 \<le> x" and "x \<le> of_int n / 2" and "n < 2 ^ 53"
  shows "float64_round x \<le> of_int n / 2"
proof -
  have "\<lfloor>x\<rfloor> < 2 ^ 52" using assms(2,3) by (simp add: floor_less_iff)
  then have "bitlen \<lfloor>x\<rfloor> \<le> 52" using bitlen_small [of "\<lfloor>x\<rfloor>" 52] assms(1) by simp
  then obtain m where m: "nat (- (bitlen \<lfloor>x\<rfloor> - 53)) = Suc m" "\<not> 0 \<le> bitlen \<lfloor>x\<rfloor> - 53"
    by (cases "nat (- (bitlen \<lfloor>x\<rfloor> - 53))") auto
  have "x * 2 ^ Suc m \<le> of_int n / 2 * 2 ^ Suc m"
    using assms(2) by (intro mult_right_mono) auto
  then have "round_half_even (x * 2 ^ Suc m) \<le> n * 2 ^ m"
    by (intro round_half_even_le) simp
  then have "(of_int (round_half_even (x * 2 ^ Suc m)) :: rat) \<le> of_int (n * 2 ^ m)"
    by (simp only: of_int_le_iff)
  then have "of_int (round_half_even (x * 2 ^ Suc m)) / 2 ^ Suc m \<le> (of_int n / 2 :: rat)"
    by (simp add: field_simps)
  then show ?thesis using m by (simp only: float64_round_def Let_def if_False)
qed

lemma jitter_maximum_bound:
  assumes "0 \<le> base" "base < 2 ^ 53" "0 \<le> fraction" "fraction \<le> 1 / 2"
  shows "2 * jitter_maximum base fraction \<le> base"
proof -
  have "of_int base * fraction \<le> of_int base / 2"
    using mult_left_mono [OF assms(4), of "of_int base"] assms(1) by simp
  with assms have "float64_round (of_int base * fraction) \<le> of_int base / 2"
    by (intro float64_round_half) auto
  moreover have "of_int (jitter_maximum base fraction) \<le> float64_round (of_int base * fraction)"
    using float64_round_exact [OF assms(1,2)] by (simp only: jitter_maximum_def of_int_floor_le)
  ultimately have "of_int (2 * jitter_maximum base fraction) \<le> (of_int base :: rat)"
    by simp
  then show ?thesis by (simp only: of_int_le_iff)
qed

section \<open>Validated policies\<close>

lemma delays_ordered_iff:
  "0 \<le> previous \<Longrightarrow> delays_ordered previous ds \<longleftrightarrow> sorted (previous # ds)"
  by (induction previous ds rule: delays_ordered.induct) auto

lemma delays_ordered_start: "delays_ordered (-1) ds \<longleftrightarrow> sorted ds \<and> (\<forall>d \<in> set ds. 0 \<le> d)"
  by (cases ds) (auto simp: delays_ordered_iff)

lemma Policy_Validate_Inr [result_simps]:
  "Policy_Validate p = Inr u \<longleftrightarrow>
     1 \<le> pol_MaxAttempts p \<and> pol_MaxAttempts p \<le> MaxSupportedAttempts \<and> pol_Delays p \<noteq> [] \<and>
     int (length (pol_Delays p)) \<le> pol_MaxAttempts p \<and>
     0 \<le> pol_JitterFraction p \<and> pol_JitterFraction p \<le> 1 / 2 \<and>
     sorted (pol_Delays p) \<and> (\<forall>d \<in> set (pol_Delays p). 0 \<le> d)"
  by (auto simp: Policy_Validate_def delays_ordered_start)

lemma base_delay_in:
  assumes "pol_Delays p \<noteq> []" "2 \<le> n"
  shows "base_delay p n \<in> set (pol_Delays p)"
proof -
  have "nat (int (length (pol_Delays p)) - 1) < length (pol_Delays p)"
    using assms(1) by (cases "pol_Delays p") auto
  then show ?thesis using assms by (auto simp: base_delay_def Let_def intro!: nth_mem)
qed

lemma base_delay_mono:
  assumes "Policy_Validate p = Inr ()" "2 \<le> m" "m \<le> n"
  shows "base_delay p m \<le> base_delay p n"
proof -
  from assms(1) have "nat (int (length (pol_Delays p)) - 1) < length (pol_Delays p)"
    by (cases "pol_Delays p") (auto simp: result_simps)
  with assms show ?thesis unfolding base_delay_def Let_def
    by (intro sorted_nth_mono) (auto simp: result_simps)
qed

text \<open>
  Raising the attempt budget of a valid policy, as the lease sweep and the result consumer do
  for a job with a larger budget, keeps it valid within the supported maximum.
\<close>

lemma Policy_Validate_raise:
  assumes "Policy_Validate p = Inr ()" "n \<le> MaxSupportedAttempts" "pol_MaxAttempts p < n"
  shows "Policy_Validate (p\<lparr>pol_MaxAttempts := n\<rparr>) = Inr ()"
  using assms by (auto simp: result_simps)

lemma Policy_Delay_nil:
  assumes "Policy_Validate p = Inr ()" "2 \<le> n" "n \<le> pol_MaxAttempts p"
  shows "Policy_Delay p n None = Inr (base_delay p n)"
  using assms by (simp add: Policy_Delay_def)

lemma Policy_Delay_total:
  assumes "Policy_Validate p = Inr ()" "2 \<le> n" "n \<le> pol_MaxAttempts p"
  shows "\<exists>d. Policy_Delay p n src = Inr d"
  using assms by (auto simp: Policy_Delay_def Let_def split: option.splits)

lemma DefaultPolicy_valid: "Policy_Validate DefaultPolicy = Inr ()"
  by (simp add: result_simps DefaultPolicy_def)

end
