(* ===== verification/Decode.thy ===== *)
theory Decode
  imports Envelope
begin

text \<open>
  The part of \<open>encoding/json\<close> that the event decoders use: a decoder with
  \<open>DisallowUnknownFields\<close> reading one object into a struct. The entries are stored in the
  order they are written; a name selects the field with that name, or else the first one that
  folds to the same text; \<open>null\<close> leaves a field as it is, except that it clears a pointer
  and a slice; a value of the wrong type is an error.
\<close>

section \<open>Numbers\<close>

text \<open>\<open>strconv.ParseInt(s, 10, 64)\<close>, the method \<open>Int64\<close> of a \<open>json.Number\<close>.\<close>

fun digits_value :: "string \<Rightarrow> int \<Rightarrow> int option" where
  "digits_value [] acc = Some acc"
| "digits_value (c # cs) acc =
     (if is_digit c then digits_value cs (10 * acc + (of_char c - 48)) else None)"

definition parse_int64 :: "string \<Rightarrow> int option" where
  "parse_int64 s =
    (let (neg, ds) = (case s of c # cs \<Rightarrow> if c = CHR ''-'' then (True, cs)
                        else if c = CHR ''+'' then (False, cs) else (False, s) | [] \<Rightarrow> (False, s))
     in if ds = [] then None
        else case digits_value ds 0 of
          None \<Rightarrow> None
        | Some n \<Rightarrow> let v = (if neg then - n else n)
                     in if - (2 ^ 63) \<le> v \<and> v < 2 ^ 63 then Some v else None)"


section \<open>Values\<close>

fun decode_string :: "json \<Rightarrow> string option" where
  "decode_string (JStr s) = Some s"
| "decode_string _ = None"

fun decode_bool :: "json \<Rightarrow> bool option" where
  "decode_bool (JBool b) = Some b"
| "decode_bool _ = None"

fun decode_int :: "json \<Rightarrow> int option" where
  "decode_int (JNum s) = parse_int64 s"
| "decode_int _ = None"

fun decode_float :: "Runtime \<Rightarrow> json \<Rightarrow> rat option" where
  "decode_float rt (JNum s) = parse_float rt s"
| "decode_float rt _ = None"

fun decode_uuid :: "Runtime \<Rightarrow> json \<Rightarrow> uuid option" where
  "decode_uuid rt (JStr s) = uuid_Parse rt s"
| "decode_uuid rt _ = None"

fun decode_time :: "Runtime \<Rightarrow> json \<Rightarrow> time option" where
  "decode_time rt (JStr s) = time_Parse rt s"
| "decode_time rt _ = None"

text \<open>A slice; a \<open>null\<close> element is the zero value of the element type.\<close>

fun decode_slice :: "'a \<Rightarrow> (json \<Rightarrow> 'a option) \<Rightarrow> json \<Rightarrow> 'a list option" where
  "decode_slice zero dec (JArr vs) = those (map (\<lambda>v. if v = JNull then Some zero else dec v) vs)"
| "decode_slice zero dec _ = None"

section \<open>Structs\<close>

type_synonym 'r setter = "json \<Rightarrow> 'r \<Rightarrow> 'r option"

definition put :: "(json \<Rightarrow> 'a option) \<Rightarrow> ('a \<Rightarrow> 'r \<Rightarrow> 'r) \<Rightarrow> 'r setter" where
  "put dec upd v r = (if v = JNull then Some r else map_option (\<lambda>x. upd x r) (dec v))"

definition put_pointer :: "(json \<Rightarrow> 'a option) \<Rightarrow> ('a option \<Rightarrow> 'r \<Rightarrow> 'r) \<Rightarrow> 'r setter" where
  "put_pointer dec upd v r =
    (if v = JNull then Some (upd None r) else map_option (\<lambda>x. upd (Some x) r) (dec v))"

definition put_slice :: "'a \<Rightarrow> (json \<Rightarrow> 'a option) \<Rightarrow> ('a list \<Rightarrow> 'r \<Rightarrow> 'r) \<Rightarrow> 'r setter" where
  "put_slice zero dec upd v r =
    (if v = JNull then Some (upd [] r) else map_option (\<lambda>x. upd x r) (decode_slice zero dec v))"

definition find_field :: "Runtime \<Rightarrow> (string \<times> 'r setter) list \<Rightarrow> string \<Rightarrow> 'r setter option" where
  "find_field rt fs name =
    (case map_of fs name of
       Some s \<Rightarrow> Some s
     | None \<Rightarrow> map_of (map (\<lambda>(n, s). (json_fold rt n, s)) fs) (json_fold rt name))"

fun decode_entries :: "Runtime \<Rightarrow> (string \<times> 'r setter) list \<Rightarrow> (string \<times> json) list \<Rightarrow> 'r \<Rightarrow> 'r option" where
  "decode_entries rt fs [] r = Some r"
| "decode_entries rt fs ((name, v) # kvs) r =
    (case find_field rt fs name of
       None \<Rightarrow> None
     | Some s \<Rightarrow> (case s v r of None \<Rightarrow> None | Some r' \<Rightarrow> decode_entries rt fs kvs r'))"

fun decode_struct :: "Runtime \<Rightarrow> (string \<times> 'r setter) list \<Rightarrow> json \<Rightarrow> 'r \<Rightarrow> 'r option" where
  "decode_struct rt fs (JObj kvs) r = decode_entries rt fs kvs r"
| "decode_struct rt fs JNull r = Some r"
| "decode_struct rt fs _ r = None"

text \<open>\<open>decodeStrict\<close>: the payload is one JSON value and decodes into the struct.\<close>

definition decodeStrict :: "Runtime \<Rightarrow> (string \<times> 'r setter) list \<Rightarrow> RawMessage \<Rightarrow> 'r \<Rightarrow> 'r option" where
  "decodeStrict rt fs payload zero =
    (case raw_value payload of None \<Rightarrow> None | Some v \<Rightarrow> decode_struct rt fs v zero)"

end
