(* ===== verification/JobValidation.thy ===== *)
theory JobValidation
  imports Schema Retry Decode
begin

text \<open>
  Validation of a job request and its fingerprint: \<open>internal/job/validation.go\<close> and
  \<open>internal/job/validation_profile.go\<close>. The rules of a \<open>VALIDATE_QUALITY\<close> operation are
  checked by \<open>internal/quality\<close>; that check is the argument \<open>snapshotRules\<close>.
\<close>

section \<open>Numbers behind an interface value\<close>

text \<open>Comparisons of float64 values; every comparison with NaN is false.\<close>

fun float_less :: "float64 \<Rightarrow> float64 \<Rightarrow> bool" where
  "float_less NaN _ = False"
| "float_less _ NaN = False"
| "float_less (Fin a) (Fin b) = (a < b)"
| "float_less (Inf p) (Inf q) = (\<not> p \<and> q)"
| "float_less (Inf p) (Fin b) = (\<not> p)"
| "float_less (Fin a) (Inf q) = q"

fun float_eq :: "float64 \<Rightarrow> float64 \<Rightarrow> bool" where
  "float_eq (Fin a) (Fin b) = (a = b)"
| "float_eq (Inf p) (Inf q) = (p = q)"
| "float_eq _ _ = False"

definition float_of_int :: "int \<Rightarrow> float64" where
  "float_of_int i = Fin (if 0 \<le> i then float64_round (of_int i) else - float64_round (of_int (- i)))"

fun is_finite :: "float64 \<Rightarrow> bool" where
  "is_finite (Fin a) = True"
| "is_finite _ = False"

fun finiteNumber :: "Runtime \<Rightarrow> any \<Rightarrow> float64 option" where
  "finiteNumber rt (AnyInt k i) = Some (float_of_int i)"
| "finiteNumber rt (AnyFloat32 f) = (if is_finite f then Some f else None)"
| "finiteNumber rt (AnyFloat64 f) = (if is_finite f then Some f else None)"
| "finiteNumber rt (AnyNumber s) = map_option Fin (parse_float rt s)"
| "finiteNumber rt _ = None"

text \<open>\<open>int64(number)\<close> of an integral float; at \<open>2 ^ 63\<close> the conversion wraps.\<close>

definition boundedInteger :: "Runtime \<Rightarrow> any \<Rightarrow> int option" where
  "boundedInteger rt v =
    (case finiteNumber rt v of
       Some (Fin r) \<Rightarrow>
         if r \<noteq> of_int \<lfloor>r\<rfloor> \<or> r < - (2 ^ 63) \<or> r > 2 ^ 63 then None
         else Some (signed_take_bit 63 \<lfloor>r\<rfloor>)
     | _ \<Rightarrow> None)"

text \<open>
  \<open>integerValue\<close> accepts fewer integer types than \<open>finiteNumber\<close>: the unsigned types of
  8, 16 and 32 bits fall through to the default branch.
\<close>

fun integerValue :: "any \<Rightarrow> int option" where
  "integerValue (AnyInt k i) =
     (if k \<in> {KInt, KInt8, KInt16, KInt32, KInt64} then Some i
      else if k \<in> {KUint, KUint64} then (if i \<le> 2 ^ 63 - 1 then Some i else None)
      else None)"
| "integerValue (AnyNumber s) = parse_int64 s"
| "integerValue (AnyFloat64 (Fin r)) = (if r = of_int \<lfloor>r\<rfloor> \<and> - (2 ^ 63) \<le> r \<and> r < 2 ^ 63 then Some \<lfloor>r\<rfloor> else None)"
| "integerValue _ = None"

fun numericValue :: "Runtime \<Rightarrow> any \<Rightarrow> float64 option" where
  "numericValue rt (AnyFloat32 f) = Some f"
| "numericValue rt (AnyFloat64 f) = Some f"
| "numericValue rt (AnyInt k i) = (if k \<in> {KInt, KInt64} then Some (float_of_int i) else None)"
| "numericValue rt (AnyNumber s) = map_option Fin (parse_float rt s)"
| "numericValue rt _ = None"

section \<open>Configurations\<close>

abbreviation MaxOperations :: nat where "MaxOperations \<equiv> 32"
abbreviation MaxConfigProperties :: nat where "MaxConfigProperties \<equiv> 32"
abbreviation MaxOperationTypeLen :: nat where "MaxOperationTypeLen \<equiv> 64"
abbreviation MaxPriority :: int where "MaxPriority \<equiv> 100"
abbreviation MaxAttempts :: int where "MaxAttempts \<equiv> 20"
abbreviation MaxIdempotencyKeySize :: nat where "MaxIdempotencyKeySize \<equiv> 128"

type_synonym config = "(string \<times> any) list"

text \<open>The pattern \<open>^[A-Za-z_][A-Za-z0-9_]{0,127}$\<close>.\<close>

definition validColumnName :: "string \<Rightarrow> bool" where
  "validColumnName s =
    (case s of
       [] \<Rightarrow> False
     | c # cs \<Rightarrow>
         (is_lower c \<or> is_upper c \<or> c = CHR ''_'') \<and> length cs \<le> 127 \<and>
         list_all (\<lambda>d. is_lower d \<or> is_upper d \<or> is_digit d \<or> d = CHR ''_'') cs)"

definition validateConfigKeys :: "config \<Rightarrow> string list \<Rightarrow> unit result" where
  "validateConfigKeys cfg allowed =
    (if list_all (\<lambda>kv. fst kv \<in> set allowed) cfg then Inr ()
     else Inl (ErrText ''unsupported config field''))"

text \<open>The array of column names behind a value: \<open>[]any\<close> or \<open>[]string\<close>.\<close>

fun any_values :: "any \<Rightarrow> any list option" where
  "any_values (AnySlice xs) = Some xs"
| "any_values (AnyStrings xs) = Some (map AnyString xs)"
| "any_values _ = None"

fun columns_loop :: "string list \<Rightarrow> any list \<Rightarrow> string list result" where
  "columns_loop seen [] = Inr []"
| "columns_loop seen (AnyString c # rest) =
     (if \<not> validColumnName c then Inl (ErrText ''invalid column'')
      else if c \<in> set seen then Inl (ErrText ''duplicate column'')
      else bindE (columns_loop (c # seen) rest) (\<lambda>cs. Inr (c # cs)))"
| "columns_loop seen (_ # rest) = Inl (ErrText ''invalid column'')"

definition requiredColumns :: "config \<Rightarrow> string \<Rightarrow> string list result" where
  "requiredColumns cfg key =
    (case map_of cfg key of
       None \<Rightarrow> Inl (ErrText ''must be a non-empty array'')
     | Some v \<Rightarrow>
         (case any_values v of
            None \<Rightarrow> Inl (ErrText ''must be a non-empty array'')
          | Some values \<Rightarrow>
              if values = [] \<or> length values > 256 then Inl (ErrText ''must contain between 1 and 256 columns'')
              else columns_loop [] values))"

definition validateOptionalColumns :: "any \<Rightarrow> unit result" where
  "validateOptionalColumns v =
    (case any_values v of
       None \<Rightarrow> Inl (ErrText ''must be an array'')
     | Some values \<Rightarrow>
         if length values > 256 then Inl (ErrText ''must contain at most 256 columns'')
         else bindE (columns_loop [] values) (\<lambda>_. Inr ()))"

definition validateIntBound :: "any \<Rightarrow> int \<Rightarrow> int \<Rightarrow> unit result" where
  "validateIntBound v minimum maximum =
    (case integerValue v of
       None \<Rightarrow> Inl (ErrText ''outside the supported bound'')
     | Some i \<Rightarrow> if i < minimum \<or> i > maximum then Inl (ErrText ''outside the supported bound'') else Inr ())"

text \<open>A check of an optional field: nothing to do when the field is absent.\<close>

definition optional :: "config \<Rightarrow> string \<Rightarrow> (any \<Rightarrow> unit result) \<Rightarrow> unit result" where
  "optional cfg key check = (case map_of cfg key of None \<Rightarrow> Inr () | Some v \<Rightarrow> check v)"

text \<open>The literal 0.0001 as a float64.\<close>

definition validateOutlierConfig :: "Runtime \<Rightarrow> config \<Rightarrow> unit result" where
  "validateOutlierConfig rt cfg =
    bindE (validateConfigKeys cfg [''column'', ''method'', ''threshold'', ''nullPolicy'',
        ''minimumSampleSize'', ''sampleOutputLimit'']) (\<lambda>_.
    bindE (case map_of cfg ''column'' of
        Some (AnyString c) \<Rightarrow> if validColumnName c then Inr () else Inl (ErrText ''column is invalid'')
      | _ \<Rightarrow> Inl (ErrText ''column is invalid'')) (\<lambda>_.
    bindE (case map_of cfg ''method'' of
        Some (AnyString m) \<Rightarrow>
          if m \<noteq> ''IQR'' \<and> m \<noteq> ''Z_SCORE'' \<and> m \<noteq> ''MODIFIED_Z_SCORE'' then Inl (ErrText ''method is invalid'')
          else Inr ()
      | _ \<Rightarrow> Inl (ErrText ''method is invalid'')) (\<lambda>_.
    bindE (optional cfg ''threshold'' (\<lambda>v.
        case finiteNumber rt v of
          None \<Rightarrow> Inl (ErrText ''threshold is outside the supported bound'')
        | Some f \<Rightarrow>
            if float_less f (Fin (7378697629483821 / 2 ^ 66)) \<or> float_less (Fin 1000) f
            then Inl (ErrText ''threshold is outside the supported bound'') else Inr ())) (\<lambda>_.
    bindE (optional cfg ''nullPolicy'' (\<lambda>v.
        case v of
          AnyString p \<Rightarrow> if p \<noteq> ''SKIP'' \<and> p \<noteq> ''FAIL'' then Inl (ErrText ''nullPolicy is invalid'') else Inr ()
        | _ \<Rightarrow> Inl (ErrText ''nullPolicy is invalid''))) (\<lambda>_.
    bindE (optional cfg ''minimumSampleSize'' (\<lambda>v.
        case boundedInteger rt v of
          None \<Rightarrow> Inl (ErrText ''minimumSampleSize is outside the supported bound'')
        | Some i \<Rightarrow> if i < 3 \<or> i > 1000000 then Inl (ErrText ''minimumSampleSize is outside the supported bound'')
                    else Inr ())) (\<lambda>_.
    optional cfg ''sampleOutputLimit'' (\<lambda>v.
        case boundedInteger rt v of
          None \<Rightarrow> Inl (ErrText ''sampleOutputLimit is outside the supported bound'')
        | Some i \<Rightarrow> if i < 0 \<or> i > 128 then Inl (ErrText ''sampleOutputLimit is outside the supported bound'')
                    else Inr ())))))))"

fun quantiles_loop :: "Runtime \<Rightarrow> float64 list \<Rightarrow> any list \<Rightarrow> unit result" where
  "quantiles_loop rt seen [] = Inr ()"
| "quantiles_loop rt seen (v # rest) =
    (case numericValue rt v of
       None \<Rightarrow> Inl (ErrText ''quantiles must contain numbers between 0 and 1'')
     | Some f \<Rightarrow>
         if float_less f (Fin 0) \<or> float_less (Fin 1) f
         then Inl (ErrText ''quantiles must contain numbers between 0 and 1'')
         else if list_ex (float_eq f) seen then Inl (ErrText ''quantiles must not contain duplicates'')
         else quantiles_loop rt (f # seen) rest)"

definition validateQuantiles :: "Runtime \<Rightarrow> any \<Rightarrow> unit result" where
  "validateQuantiles rt v =
    (case (case v of AnySlice xs \<Rightarrow> Some xs | AnyFloats fs \<Rightarrow> Some (map AnyFloat64 fs) | _ \<Rightarrow> None) of
       None \<Rightarrow> Inl (ErrText ''quantiles must be an array'')
     | Some values \<Rightarrow>
         if length values < 1 \<or> length values > 32
         then Inl (ErrText ''quantiles must contain between 1 and 32 values'')
         else quantiles_loop rt [] values)"

definition validateSampling :: "any \<Rightarrow> unit result" where
  "validateSampling v =
    (case v of
       AnyMap sampling \<Rightarrow>
         bindE (validateConfigKeys sampling [''strategy'', ''maxRows'', ''seed'']) (\<lambda>_.
         bindE (optional sampling ''strategy'' (\<lambda>s.
             if s \<noteq> AnyString ''RESERVOIR'' then Inl (ErrText ''sampling.strategy must be RESERVOIR'') else Inr ())) (\<lambda>_.
         bindE (optional sampling ''maxRows'' (\<lambda>n. validateIntBound n 0 100000)) (\<lambda>_.
         optional sampling ''seed'' (\<lambda>n. validateIntBound n 0 2147483647))))
     | _ \<Rightarrow> Inl (ErrText ''sampling must be an object''))"

definition validateProfileConfig :: "Runtime \<Rightarrow> config \<Rightarrow> unit result" where
  "validateProfileConfig rt cfg =
    bindE (validateConfigKeys cfg [''sampling'', ''includeCommonValues'', ''maxCommonValues'', ''quantiles'',
        ''distinctStrategy'', ''maxDistinctValues'', ''maxMemoryBytes'', ''sensitiveColumns'']) (\<lambda>_.
    bindE (optional cfg ''sampling'' validateSampling) (\<lambda>_.
    bindE (optional cfg ''includeCommonValues'' (\<lambda>v.
        case v of AnyBool b \<Rightarrow> Inr () | _ \<Rightarrow> Inl (ErrText ''includeCommonValues must be boolean''))) (\<lambda>_.
    bindE (optional cfg ''maxCommonValues'' (\<lambda>v. validateIntBound v 0 100)) (\<lambda>_.
    bindE (optional cfg ''quantiles'' (validateQuantiles rt)) (\<lambda>_.
    bindE (optional cfg ''distinctStrategy'' (\<lambda>v.
        case v of
          AnyString s \<Rightarrow> if s \<noteq> ''EXACT'' \<and> s \<noteq> ''APPROXIMATE''
            then Inl (ErrText ''distinctStrategy must be EXACT or APPROXIMATE'') else Inr ()
        | _ \<Rightarrow> Inl (ErrText ''distinctStrategy must be EXACT or APPROXIMATE''))) (\<lambda>_.
    bindE (optional cfg ''maxDistinctValues'' (\<lambda>v. validateIntBound v 128 1000000)) (\<lambda>_.
    bindE (optional cfg ''maxMemoryBytes'' (\<lambda>v. validateIntBound v (2 ^ 20) (2 ^ 32))) (\<lambda>_.
    optional cfg ''sensitiveColumns'' validateOptionalColumns))))))))"

section \<open>Operations\<close>

definition validateOperation :: "Runtime \<Rightarrow> (any \<Rightarrow> unit result) \<Rightarrow> Operation \<Rightarrow> unit result" where
  "validateOperation rt snapshotRules op =
    (let operationType = TrimSpace (op_Type op)
     in if operationType = [] \<or> operationType \<noteq> op_Type op \<or> length operationType > MaxOperationTypeLen
        then Inl (ErrText ''invalid type'')
        else case op_Config op of
          None \<Rightarrow> Inl (ErrText ''config must be an object'')
        | Some cfg \<Rightarrow>
            if length cfg > MaxConfigProperties then Inl (ErrText ''config has too many properties'')
            else if operationType = ''PROFILE_DATASET'' then validateProfileConfig rt cfg
            else if operationType = ''CHECK_MISSING_VALUES'' then
              bindE (validateConfigKeys cfg [''columns'']) (\<lambda>_.
              bindE (requiredColumns cfg ''columns'') (\<lambda>_. Inr ()))
            else if operationType = ''CHECK_DUPLICATES'' then
              bindE (validateConfigKeys cfg [''keyColumns'']) (\<lambda>_.
              bindE (requiredColumns cfg ''keyColumns'') (\<lambda>_. Inr ()))
            else if operationType = ''DETECT_OUTLIERS'' then validateOutlierConfig rt cfg
            else if operationType = ''VALIDATE_QUALITY'' then
              bindE (validateConfigKeys cfg [''rules'']) (\<lambda>_.
                snapshotRules (case map_of cfg ''rules'' of None \<Rightarrow> AnyNil | Some v \<Rightarrow> v))
            else Inl (ErrText ''type is not supported''))"

text \<open>Every error of the loop wraps \<open>ErrInvalidInput\<close>.\<close>

fun operations_loop :: "Runtime \<Rightarrow> (any \<Rightarrow> unit result) \<Rightarrow> Operation list \<Rightarrow> unit result" where
  "operations_loop rt snapshotRules [] = Inr ()"
| "operations_loop rt snapshotRules (op # rest) =
    (case validateOperation rt snapshotRules op of
       Inl _ \<Rightarrow> Inl JobErrInvalidInput
     | Inr _ \<Rightarrow> operations_loop rt snapshotRules rest)"

definition ValidateOperations :: "Runtime \<Rightarrow> (any \<Rightarrow> unit result) \<Rightarrow> Operation list \<Rightarrow> unit result" where
  "ValidateOperations rt snapshotRules ops =
    (if ops = [] \<or> length ops > MaxOperations then Inl JobErrInvalidInput
     else operations_loop rt snapshotRules ops)"

section \<open>Canonical JSON and the fingerprint\<close>

fun nat_text :: "nat \<Rightarrow> string" where
  "nat_text n = (if n < 10 then [char_of (48 + n)] else nat_text (n div 10) @ [char_of (48 + n mod 10)])"

declare nat_text.simps [simp del]

definition int_text :: "int \<Rightarrow> string" where
  "int_text i = (if i < 0 then CHR ''-'' # nat_text (nat (- i)) else nat_text (nat i))"

fun join :: "string \<Rightarrow> string list \<Rightarrow> string" where
  "join sep [] = []"
| "join sep [x] = x"
| "join sep (x # y # ys) = x @ sep @ join sep (y # ys)"

text \<open>
  An object is written with its names in byte order. The source sorts the names and then
  writes each value; writing the values first and sorting the pairs by name is the same.
\<close>

fun canonicalValue :: "Runtime \<Rightarrow> json \<Rightarrow> string" where
  "canonicalValue rt (JObj kvs) =
     ''{'' @ join '','' (map (\<lambda>(k, v). json_quote rt k @ '':'' @ v)
       (sort_key fst (map (\<lambda>(k, v). (k, canonicalValue rt v)) kvs))) @ ''}''"
| "canonicalValue rt (JArr xs) = ''['' @ join '','' (map (canonicalValue rt) xs) @ '']''"
| "canonicalValue rt JNull = ''null''"
| "canonicalValue rt (JBool b) = (if b then ''true'' else ''false'')"
| "canonicalValue rt (JNum s) = s"
| "canonicalValue rt (JStr s) = json_quote rt s"

text \<open>
  The JSON value \<open>json.Marshal\<close> writes for a Go value and the decoder reads back with
  \<open>UseNumber\<close>; \<open>None\<close> for a value it cannot encode.
\<close>

fun any_json :: "Runtime \<Rightarrow> any \<Rightarrow> json option" where
  "any_json rt AnyNil = Some JNull"
| "any_json rt (AnyBool b) = Some (JBool b)"
| "any_json rt (AnyInt k i) = Some (JNum (int_text i))"
| "any_json rt (AnyFloat32 f) = (case f of Fin r \<Rightarrow> Some (JNum (float32_text rt r)) | _ \<Rightarrow> None)"
| "any_json rt (AnyFloat64 f) = (case f of Fin r \<Rightarrow> Some (JNum (float64_text rt r)) | _ \<Rightarrow> None)"
| "any_json rt (AnyNumber s) = Some (JNum (if s = [] then ''0'' else s))"
| "any_json rt (AnyString s) = Some (JStr s)"
| "any_json rt (AnySlice xs) = map_option JArr (those (map (any_json rt) xs))"
| "any_json rt (AnyStrings xs) = Some (JArr (map JStr xs))"
| "any_json rt (AnyFloats fs) =
     map_option JArr (those (map (\<lambda>f. case f of Fin r \<Rightarrow> Some (JNum (float64_text rt r)) | _ \<Rightarrow> None) fs))"
| "any_json rt (AnyMap kvs) =
     map_option (JObj \<circ> zip (map fst kvs)) (those (map (\<lambda>(k, v). any_json rt v) kvs))"

definition operation_json :: "Runtime \<Rightarrow> Operation \<Rightarrow> json option" where
  "operation_json rt op =
    map_option (\<lambda>c. JObj [(''type'', JStr (op_Type op)), (''config'', c)])
      (case op_Config op of None \<Rightarrow> Some JNull | Some cfg \<Rightarrow> any_json rt (AnyMap cfg))"

record CreateCommand =
  cc_OwnerUserID :: uuid
  cc_ActorUserID :: uuid
  cc_DatasetVersionID :: uuid
  cc_Operations :: "Operation list"
  cc_IdempotencyKey :: string
  cc_Priority :: int
  cc_MaxAttempts :: int
  cc_TraceID :: string
  cc_CorrelationID :: string
  cc_CausationID :: string

definition request_json :: "Runtime \<Rightarrow> CreateCommand \<Rightarrow> json option" where
  "request_json rt c =
    map_option (\<lambda>ops. JObj
        [(''datasetVersionId'', JStr (uuid_String rt (cc_DatasetVersionID c))),
         (''operations'', JArr ops),
         (''priority'', JNum (int_text (cc_Priority c))),
         (''maxAttempts'', JNum (int_text (cc_MaxAttempts c)))])
      (those (map (operation_json rt) (cc_Operations c)))"

definition RequestFingerprint :: "Runtime \<Rightarrow> CreateCommand \<Rightarrow> string result" where
  "RequestFingerprint rt c =
    (case request_json rt c of
       None \<Rightarrow> Inl JobErrInvalidInput
     | Some v \<Rightarrow> Inr (sha256_hex rt (canonicalValue rt v)))"

definition ValidateCreateCommand ::
  "Runtime \<Rightarrow> (any \<Rightarrow> unit result) \<Rightarrow> CreateCommand \<Rightarrow> string result" where
  "ValidateCreateCommand rt snapshotRules c =
    (if cc_OwnerUserID c = uuid_Nil \<or> cc_ActorUserID c = uuid_Nil \<or> cc_DatasetVersionID c = uuid_Nil
     then Inl JobErrInvalidInput
     else bindE (ValidateOperations rt snapshotRules (cc_Operations c)) (\<lambda>_.
       if cc_Priority c < 0 \<or> cc_Priority c > MaxPriority then Inl JobErrInvalidInput
       else if cc_MaxAttempts c < 1 \<or> cc_MaxAttempts c > MaxAttempts then Inl JobErrInvalidInput
       else if length (cc_IdempotencyKey c) > MaxIdempotencyKeySize then Inl JobErrInvalidInput
       else if cc_TraceID c = [] then Inl JobErrInvalidInput
       else RequestFingerprint rt c))"

end
