(* ===== verification/Lifecycle.thy ===== *)
theory Lifecycle
  imports Schema
begin

text \<open>
  The contract of the job tables. The life of one job is an abstract machine on its state and
  the states of its attempts (\<open>lifecycle\<close>); \<open>consistent\<close> is the invariant of the database:
  keys are unique, attempts are numbered without gaps and only the last one is open, the
  history of a job is a path of allowed transitions that ends in its state, and the quota
  counters are exact. \<open>change\<close> is what a transaction of any repository does to these tables;
  every change keeps the invariant and is a step of the abstract machine. The component
  theories show that their operations are changes.
\<close>

named_theorems change_simps \<open>what a statement does to the tables of the job lifecycle\<close>

section \<open>The life of one job\<close>

type_synonym life = "job_state \<times> attempt_state list"

definition is_open :: "attempt_state \<Rightarrow> bool" where
  "is_open a \<longleftrightarrow> a = ACreated \<or> a = ALeased \<or> a = ARunning"

definition held :: "attempt_state \<Rightarrow> bool" where
  "held a \<longleftrightarrow> a = ALeased \<or> a = ARunning"

lemma is_open_simps [simp]:
  "is_open ACreated" "is_open ALeased" "is_open ARunning" "\<not> is_open ASucceeded" "\<not> is_open AFailed"
  "\<not> is_open ATimedOut" "\<not> is_open ACancelled"
  by (simp_all add: is_open_def)

lemma held_simps [simp]:
  "\<not> held ACreated" "held ALeased" "held ARunning" "\<not> held ASucceeded" "\<not> held AFailed"
  "\<not> held ATimedOut" "\<not> held ACancelled"
  by (simp_all add: held_def)

lemma held_open: "held a \<Longrightarrow> is_open a"
  by (auto simp: held_def)

fun agree :: "job_state \<Rightarrow> attempt_state \<Rightarrow> bool" where
  "agree Queued a \<longleftrightarrow> a = ACreated"
| "agree Leased a \<longleftrightarrow> a = ALeased"
| "agree Running a \<longleftrightarrow> a = ARunning"
| "agree CancelRequested a \<longleftrightarrow> held a"
| "agree Succeeded a \<longleftrightarrow> a = ASucceeded"
| "agree FailedPermanent a \<longleftrightarrow> a = AFailed"
| "agree DeadLettered a \<longleftrightarrow> a = AFailed \<or> a = ATimedOut"
| "agree Cancelled a \<longleftrightarrow> a = ACancelled"
| "agree Created a \<longleftrightarrow> False"
| "agree FailedRetryable a \<longleftrightarrow> False"

inductive lifecycle :: "life \<Rightarrow> life \<Rightarrow> bool" where
  lease: "lifecycle (Queued, as @ [ACreated]) (Leased, as @ [ALeased])"
| start: "lifecycle (Leased, as @ [ALeased]) (Running, as @ [ARunning])"
| succeed: "lifecycle (Running, as @ [ARunning]) (Succeeded, as @ [ASucceeded])"
| fail: "lifecycle (Running, as @ [ARunning]) (FailedPermanent, as @ [AFailed])"
| exhaust: "lifecycle (Running, as @ [ARunning]) (DeadLettered, as @ [AFailed])"
| fail_retry: "lifecycle (Running, as @ [ARunning]) (Queued, as @ [AFailed, ACreated])"
| expire_retry: "s = Leased \<or> s = Running \<Longrightarrow> held a \<Longrightarrow>
    lifecycle (s, as @ [a]) (Queued, as @ [ATimedOut, ACreated])"
| expire_dead: "s = Leased \<or> s = Running \<Longrightarrow> held a \<Longrightarrow>
    lifecycle (s, as @ [a]) (DeadLettered, as @ [ATimedOut])"
| cancel_queued: "lifecycle (Queued, as @ [ACreated]) (Cancelled, as @ [ACancelled])"
| cancel_request: "s = Leased \<or> s = Running \<Longrightarrow> held a \<Longrightarrow>
    lifecycle (s, as @ [a]) (CancelRequested, as @ [a])"
| cancelled: "held a \<Longrightarrow> lifecycle (CancelRequested, as @ [a]) (Cancelled, as @ [ACancelled])"
| requeue: "s = FailedPermanent \<or> s = DeadLettered \<or> s = FailedRetryable \<Longrightarrow>
    lifecycle (s, as) (Queued, as @ [ACreated])"

inductive_cases lifecycle_from: "lifecycle (s, as) l"

definition life_ok :: "life \<Rightarrow> bool" where
  "life_ok l \<longleftrightarrow> snd l \<noteq> [] \<and> (\<forall>a \<in> set (butlast (snd l)). \<not> is_open a) \<and> agree (fst l) (last (snd l))"

lemma life_ok_snoc [simp]: "life_ok (s, as @ [a]) \<longleftrightarrow> (\<forall>b \<in> set as. \<not> is_open b) \<and> agree s a"
  by (simp add: life_ok_def)

lemma life_ok_two [simp]:
  "life_ok (s, as @ [a, b]) \<longleftrightarrow> (\<forall>c \<in> set as. \<not> is_open c) \<and> \<not> is_open a \<and> agree s b"
proof -
  have "life_ok (s, (as @ [a]) @ [b]) \<longleftrightarrow> (\<forall>c \<in> set (as @ [a]). \<not> is_open c) \<and> agree s b"
    by (rule life_ok_snoc)
  then show ?thesis by (simp del: life_ok_snoc add: ball_Un conj_ac)
qed

lemma life_ok_split: "life_ok (s, as) \<Longrightarrow> \<exists>bs a. as = bs @ [a]"
  by (cases as rule: rev_cases) (auto simp: life_ok_def)

lemma lifecycle_ok: "lifecycle l l' \<Longrightarrow> life_ok l \<Longrightarrow> life_ok l'"
proof (induction rule: lifecycle.induct)
  case (requeue s as)
  then obtain bs a where "as = bs @ [a]" using life_ok_split by blast
  with requeue show ?case by auto
qed auto

lemma lifecycle_transition: "lifecycle l l' \<Longrightarrow> transition_ok (fst l) (fst l')"
  by (induction rule: lifecycle.induct) (auto simp: transition_ok_iff)

lemma lifecycle_closed:
  assumes "lifecycle l l'" "snd l = as @ [a]" "snd l' = as @ b # new" "\<not> is_open a"
  shows "\<not> is_open b"
  using assms by (induction rule: lifecycle.induct) (auto simp: held_open)

lemma life_ok_open_last:
  assumes "life_ok (s, map a_state atts)" "a \<in> set atts" "is_open (a_state a)"
  shows "\<exists>xs. atts = xs @ [a]"
proof -
  from assms(2) obtain xs ys where atts: "atts = xs @ a # ys" by (auto dest: split_list)
  show ?thesis
  proof (cases ys rule: rev_cases)
    case (snoc zs z)
    then have "map a_state atts = (map a_state xs @ a_state a # map a_state zs) @ [a_state z]"
      using atts by simp
    then show ?thesis using assms(1,3) by (simp only: life_ok_snoc) auto
  qed (use atts in simp)
qed

section \<open>The history of one job\<close>

text \<open>A path of allowed transitions from nothing, through \<open>QUEUED\<close>, to the current state.\<close>

fun hist_path :: "job_state option \<Rightarrow> History list \<Rightarrow> job_state \<Rightarrow> bool" where
  "hist_path prev [] s \<longleftrightarrow> prev = Some s"
| "hist_path prev (h # hs) s \<longleftrightarrow>
     h_from h = prev \<and>
     (case prev of None \<Rightarrow> h_to h = Queued | Some p \<Rightarrow> transition_ok p (h_to h)) \<and>
     hist_path (Some (h_to h)) hs s"

lemma hist_path_snoc:
  assumes "hist_path prev hs s" "h_from h = Some s" "transition_ok s (h_to h)"
  shows "hist_path prev (hs @ [h]) (h_to h)"
  using assms by (induction hs arbitrary: prev) (auto split: option.splits)

section \<open>Reading the database\<close>

definition history_of :: "uuid \<Rightarrow> DB \<Rightarrow> History list" where
  "history_of jobID db = filter (\<lambda>h. h_job h = jobID) (db_history db)"

definition life_of :: "DB \<Rightarrow> uuid \<Rightarrow> life option" where
  "life_of db k = map_option (\<lambda>j. (j_state j, map a_state (attempts_of k db))) (find_job k db)"

definition queued_of :: "uuid \<Rightarrow> DB \<Rightarrow> int" where
  "queued_of owner db = (case row_find q_owner owner (db_quotas db) of None \<Rightarrow> 0 | Some q \<Rightarrow> q_queued q)"

definition active_of :: "uuid \<Rightarrow> DB \<Rightarrow> int" where
  "active_of owner db = (case row_find q_owner owner (db_quotas db) of None \<Rightarrow> 0 | Some q \<Rightarrow> q_active q)"

definition is_active :: "job_state \<Rightarrow> bool" where
  "is_active s \<longleftrightarrow> s = Leased \<or> s = Running \<or> s = CancelRequested"

definition queued_jobs :: "uuid \<Rightarrow> DB \<Rightarrow> int" where
  "queued_jobs owner db = count_rows (\<lambda>j. j_owner j = owner \<and> j_state j = Queued) (db_jobs db)"

definition active_jobs :: "uuid \<Rightarrow> DB \<Rightarrow> int" where
  "active_jobs owner db = count_rows (\<lambda>j. j_owner j = owner \<and> is_active (j_state j)) (db_jobs db)"

definition has_lease :: "Attempt \<Rightarrow> bool" where
  "has_lease a \<longleftrightarrow> a_lease a \<noteq> None \<and> a_expires a \<noteq> None \<and> a_worker a \<noteq> None \<and> a_worker a \<noteq> Some uuid_Nil"

definition numbered :: "Attempt list \<Rightarrow> bool" where
  "numbered atts \<longleftrightarrow> map a_num atts = map int [1..<Suc (length atts)]"

definition job_ok :: "Job \<Rightarrow> Attempt list \<Rightarrow> History list \<Rightarrow> bool" where
  "job_ok j atts hs \<longleftrightarrow>
     life_ok (j_state j, map a_state atts) \<and> numbered atts \<and>
     (\<forall>a \<in> set atts. held (a_state a) \<longrightarrow> has_lease a) \<and>
     hist_path None hs (j_state j) \<and> 1 \<le> j_max j \<and> j_max j \<le> 20"

definition quota_exact :: "DB \<Rightarrow> bool" where
  "quota_exact db \<longleftrightarrow>
     (\<forall>owner. queued_of owner db = queued_jobs owner db \<and> active_of owner db = active_jobs owner db)"

definition consistent :: "DB \<Rightarrow> bool" where
  "consistent db \<longleftrightarrow>
     distinct (map j_id (db_jobs db)) \<and> distinct (map a_id (db_attempts db)) \<and>
     distinct (map q_owner (db_quotas db)) \<and>
     (\<forall>a \<in> set (db_attempts db). a_job a \<in> j_id ` set (db_jobs db)) \<and>
     (\<forall>h \<in> set (db_history db). h_job h \<in> j_id ` set (db_jobs db)) \<and>
     (\<forall>j \<in> set (db_jobs db). job_ok j (attempts_of (j_id j) db) (history_of (j_id j) db)) \<and>
     (\<forall>p \<in> set (db_projections db). \<exists>a \<in> set (db_attempts db). a_id a = p_attempt p \<and> \<not> is_open (a_state a)) \<and>
     quota_exact db"

section \<open>What a transaction does to the job tables\<close>

text \<open>
  The counters of one owner follow a job from one state to another; a state that is neither
  queued nor active is counted nowhere.
\<close>

definition queued_weight :: "job_state option \<Rightarrow> int" where
  "queued_weight s = (if s = Some Queued then 1 else 0)"

definition active_weight :: "job_state option \<Rightarrow> int" where
  "active_weight s = (case s of None \<Rightarrow> 0 | Some t \<Rightarrow> if is_active t then 1 else 0)"

definition quota_moved :: "uuid \<Rightarrow> job_state option \<Rightarrow> job_state \<Rightarrow> DB \<Rightarrow> DB \<Rightarrow> bool" where
  "quota_moved owner s t db db' \<longleftrightarrow>
     distinct (map q_owner (db_quotas db')) \<and>
     (\<forall>k. queued_of k db' = queued_of k db + (if k = owner then queued_weight (Some t) - queued_weight s else 0)) \<and>
     (\<forall>k. active_of k db' = active_of k db + (if k = owner then active_weight (Some t) - active_weight s else 0))"

inductive change :: "DB \<Rightarrow> DB \<Rightarrow> bool" where
  create:
    "j_id j \<notin> j_id ` set (db_jobs db) \<Longrightarrow> db_jobs db' = db_jobs db @ [j] \<Longrightarrow>
     j_state j = Queued \<Longrightarrow> 1 \<le> j_max j \<Longrightarrow> j_max j \<le> 20 \<Longrightarrow>
     db_attempts db' = db_attempts db @ [a] \<Longrightarrow> a_id a \<notin> a_id ` set (db_attempts db) \<Longrightarrow>
     a_job a = j_id j \<Longrightarrow> a_num a = 1 \<Longrightarrow> a_state a = ACreated \<Longrightarrow>
     db_history db' = db_history db @ [h] \<Longrightarrow> h_job h = j_id j \<Longrightarrow> h_from h = None \<Longrightarrow> h_to h = Queued \<Longrightarrow>
     db_projections db' = db_projections db \<Longrightarrow>
     quota_moved (j_owner j) None Queued db db' \<Longrightarrow> change db db'"
| move:
    "j \<in> set (db_jobs db) \<Longrightarrow> attempts_of (j_id j) db = xs @ [a] \<Longrightarrow>
     db_jobs db' = row_update j_id (j_id j) f (db_jobs db) \<Longrightarrow>
     j_id (f j) = j_id j \<Longrightarrow> j_owner (f j) = j_owner j \<Longrightarrow> j_max (f j) = j_max j \<Longrightarrow>
     db_attempts db' = row_update a_id (a_id a) g (db_attempts db) @ new \<Longrightarrow>
     a_id (g a) = a_id a \<Longrightarrow> a_job (g a) = a_job a \<Longrightarrow> a_num (g a) = a_num a \<Longrightarrow>
     new = [] \<or> (\<exists>i t. new = [new_attempt i (j_id j) (a_num a + 1) t] \<and> i \<notin> a_id ` set (db_attempts db)) \<Longrightarrow>
     lifecycle (j_state j, map a_state (xs @ [a])) (j_state (f j), map a_state (xs @ [g a] @ new)) \<Longrightarrow>
     (held (a_state (g a)) \<Longrightarrow> has_lease (g a)) \<Longrightarrow>
     db_history db' = db_history db @ [h] \<Longrightarrow> h_job h = j_id j \<Longrightarrow> h_from h = Some (j_state j) \<Longrightarrow>
     h_to h = j_state (f j) \<Longrightarrow>
     (\<forall>p \<in> set (db_projections db'). p \<in> set (db_projections db) \<or>
        p_attempt p = a_id a \<and> \<not> is_open (a_state (g a))) \<Longrightarrow>
     quota_moved (j_owner j) (Some (j_state j)) (j_state (f j)) db db' \<Longrightarrow> change db db'"
| touch:
    "db_jobs db' = db_jobs db \<Longrightarrow> db_history db' = db_history db \<Longrightarrow> db_quotas db' = db_quotas db \<Longrightarrow>
     db_projections db' = db_projections db \<Longrightarrow> db_attempts db' = map g (db_attempts db) \<Longrightarrow>
     (\<And>a. a \<in> set (db_attempts db) \<Longrightarrow> a_id (g a) = a_id a \<and> a_job (g a) = a_job a \<and> a_num (g a) = a_num a \<and>
        a_state (g a) = a_state a \<and> (has_lease a \<longrightarrow> has_lease (g a))) \<Longrightarrow> change db db'"

section \<open>Every change keeps the invariant\<close>

lemma consistentD:
  assumes "consistent db"
  shows "distinct (map j_id (db_jobs db))" "distinct (map a_id (db_attempts db))"
    "distinct (map q_owner (db_quotas db))"
    "a \<in> set (db_attempts db) \<Longrightarrow> a_job a \<in> j_id ` set (db_jobs db)"
    "h \<in> set (db_history db) \<Longrightarrow> h_job h \<in> j_id ` set (db_jobs db)"
    "j \<in> set (db_jobs db) \<Longrightarrow> job_ok j (attempts_of (j_id j) db) (history_of (j_id j) db)"
    "p \<in> set (db_projections db) \<Longrightarrow>
       \<exists>a \<in> set (db_attempts db). a_id a = p_attempt p \<and> \<not> is_open (a_state a)"
    "quota_exact db"
  using assms by (auto simp: consistent_def)

lemma attempts_of_mem: "a \<in> set (attempts_of k db) \<longleftrightarrow> a \<in> set (db_attempts db) \<and> a_job a = k"
  by (auto simp: attempts_of_def)

lemma history_of_append:
  "db_history db' = db_history db @ [h] \<Longrightarrow>
     history_of k db' = (if h_job h = k then history_of k db @ [h] else history_of k db)"
  by (simp add: history_of_def)

lemma attempts_of_update:
  assumes "distinct (map a_id (db_attempts db))" "attempts_of k db = xs @ [a]"
    "db_attempts db' = row_update a_id (a_id a) g (db_attempts db) @ new"
    "a_job (g a) = k" "\<forall>b \<in> set new. a_job b = k"
  shows "attempts_of k' db' = (if k' = k then xs @ [g a] @ new else attempts_of k' db)"
proof -
  have a: "a \<in> set (db_attempts db)" "a_job a = k"
    using assms(2) attempts_of_mem [of a k db] by auto
  from assms(1) a(1) obtain us vs where rows: "db_attempts db = us @ a # vs"
    and upd: "row_update a_id (a_id a) g (db_attempts db) = us @ g a # vs"
    by (rule row_split) blast
  have "distinct (db_attempts db)" using assms(1) by (simp add: distinct_map)
  then have "a \<notin> set us" "a \<notin> set vs" using rows by auto
  let ?F = "filter (\<lambda>b. a_job b = k)"
  have xs: "?F us @ a # ?F vs = xs @ [a]"
    using assms(2) rows a(2) by (simp add: attempts_of_def)
  have "a \<notin> set xs"
  proof -
    have "distinct (attempts_of k db)" using \<open>distinct (db_attempts db)\<close> by (simp add: attempts_of_def)
    then show ?thesis using assms(2) by simp
  qed
  have vs: "?F vs = []"
  proof (rule ccontr)
    assume "?F vs \<noteq> []"
    then obtain ws w where w: "?F vs = ws @ [w]" by (cases "?F vs" rule: rev_cases) auto
    then have "w \<in> set vs" by (metis filter_is_subset in_set_conv_decomp subsetD)
    moreover from xs w have "w = a" by simp
    ultimately show False using \<open>a \<notin> set vs\<close> by simp
  qed
  with xs have us: "?F us = xs" by simp
  have new: "filter (\<lambda>b. a_job b = k') new = (if k' = k then new else [])"
    using assms(5) by (auto simp: filter_empty_conv filter_id_conv)
  show ?thesis
    using assms(3,4) upd rows us vs new a(2) by (cases "k' = k") (simp_all add: attempts_of_def)
qed

lemma find_job_update:
  assumes "distinct (map j_id (db_jobs db))" "j \<in> set (db_jobs db)" "j_id (f j) = j_id j"
    "db_jobs db' = row_update j_id (j_id j) f (db_jobs db)"
  shows "set (db_jobs db') = insert (f j) (set (db_jobs db) - {j})"
    "map j_id (db_jobs db') = map j_id (db_jobs db)"
    "find_job k db' = (if k = j_id j then Some (f j) else find_job k db)"
proof -
  show rows: "set (db_jobs db') = insert (f j) (set (db_jobs db) - {j})"
    using row_update_mem [OF assms(1,2) refl, of f] assms(4) by simp
  from assms(1,2) obtain us vs where "db_jobs db = us @ j # vs"
    "row_update j_id (j_id j) f (db_jobs db) = us @ f j # vs"
    by (rule row_split) blast
  then show ids: "map j_id (db_jobs db') = map j_id (db_jobs db)"
    using assms(3,4) by simp
  have d: "distinct (map j_id (db_jobs db'))" using assms(1) ids by simp
  show "find_job k db' = (if k = j_id j then Some (f j) else find_job k db)"
  proof (cases "find_job k db'")
    case (Some x)
    then have "x \<in> set (db_jobs db') \<and> j_id x = k" using find_job_distinct [OF d] by simp
    then show ?thesis using Some rows assms find_job_distinct [OF assms(1), of k x] inj_on_eq_iff
      by (auto simp: distinct_map inj_on_def)
  next
    case None
    then have "k \<notin> set (map j_id (db_jobs db))"
      unfolding ids [symmetric] by (simp add: find_job_def row_find_None)
    then have "find_job k db = None" by (simp add: find_job_def row_find_None)
    then show ?thesis using None assms(2) \<open>k \<notin> set (map j_id (db_jobs db))\<close> by auto
  qed
qed

lemma quota_moved_exact:
  assumes "quota_moved owner s t db db'" "quota_exact db"
    "\<And>k. queued_jobs k db' = queued_jobs k db + (if k = owner then queued_weight (Some t) - queued_weight s else 0)"
    "\<And>k. active_jobs k db' = active_jobs k db + (if k = owner then active_weight (Some t) - active_weight s else 0)"
  shows "quota_exact db'"
  using assms by (simp add: quota_exact_def quota_moved_def)

lemma numbered_snoc: "numbered (xs @ [a]) \<longleftrightarrow> numbered xs \<and> a_num a = int (length xs) + 1"
  by (auto simp: numbered_def)

lemma numbered_update:
  assumes "numbered (xs @ [a])" "a_num (g a) = a_num a"
    "new = [] \<or> (\<exists>i t. new = [new_attempt i k (a_num a + 1) t])"
  shows "numbered (xs @ [g a] @ new)"
proof -
  have one: "numbered (xs @ [g a])" "a_num a = int (length xs) + 1"
    using assms(1,2) by (simp_all add: numbered_snoc)
  from assms(3) show ?thesis
  proof
    assume "\<exists>i t. new = [new_attempt i k (a_num a + 1) t]"
    then obtain b where "new = [b]" "a_num b = int (length (xs @ [g a])) + 1" using one(2) by auto
    then show ?thesis using numbered_snoc [of "xs @ [g a]" b] one(1) by simp
  qed (use one in simp)
qed

lemma change_create_consistent:
  assumes con: "consistent db" and j: "j_id j \<notin> j_id ` set (db_jobs db)" "db_jobs db' = db_jobs db @ [j]"
      "j_state j = Queued" "1 \<le> j_max j" "j_max j \<le> 20"
    and a: "db_attempts db' = db_attempts db @ [a]" "a_id a \<notin> a_id ` set (db_attempts db)"
      "a_job a = j_id j" "a_num a = 1" "a_state a = ACreated"
    and h: "db_history db' = db_history db @ [h]" "h_job h = j_id j" "h_from h = None" "h_to h = Queued"
    and p: "db_projections db' = db_projections db"
    and q: "quota_moved (j_owner j) None Queued db db'"
  shows "consistent db'"
proof -
  note C = consistentD [OF con]
  have "a_job b \<noteq> j_id j" if "b \<in> set (db_attempts db)" for b using C(4) [OF that] j(1) by auto
  moreover have "h_job b \<noteq> j_id j" if "b \<in> set (db_history db)" for b using C(5) [OF that] j(1) by auto
  ultimately have none: "attempts_of (j_id j) db = []" "history_of (j_id j) db = []"
    by (simp_all add: attempts_of_def history_of_def filter_empty_conv)
  have "job_ok j (attempts_of (j_id j) db') (history_of (j_id j) db')"
  proof -
    have "attempts_of (j_id j) db' = [a]" "history_of (j_id j) db' = [h]"
      using none a h by (simp_all add: attempts_of_def history_of_def)
    moreover have "life_ok (Queued, [ACreated])" using life_ok_snoc [of Queued "[]" ACreated] by simp
    ultimately show ?thesis using j a h by (simp add: job_ok_def numbered_def held_def)
  qed
  moreover have "job_ok i (attempts_of (j_id i) db') (history_of (j_id i) db')" if "i \<in> set (db_jobs db)" for i
  proof -
    have "j_id i \<noteq> j_id j" using that j(1) by (metis image_eqI)
    then have "attempts_of (j_id i) db' = attempts_of (j_id i) db" "history_of (j_id i) db' = history_of (j_id i) db"
      using a(1,3) h(1,2) by (auto simp: attempts_of_def history_of_def)
    then show ?thesis using C(6) [OF that] by simp
  qed
  moreover have "quota_exact db'"
    by (rule quota_moved_exact [OF q C(8)])
      (use j in \<open>auto simp: queued_jobs_def active_jobs_def table_simps queued_weight_def active_weight_def is_active_def\<close>)
  moreover have "distinct (map q_owner (db_quotas db'))" using q by (simp add: quota_moved_def)
  moreover have "\<exists>b \<in> set (db_attempts db'). a_id b = p_attempt r \<and> \<not> is_open (a_state b)"
    if "r \<in> set (db_projections db')" for r
    using C(7) [of r] that p a(1) by auto
  ultimately show ?thesis
    using C(1,2,4,5) j(1,2) a(1,2,3) h(1,2) unfolding consistent_def by auto
qed

lemma count_jobs_update:
  assumes "distinct (map j_id (db_jobs db))" "j \<in> set (db_jobs db)" "j_owner (f j) = j_owner j"
    "db_jobs db' = row_update j_id (j_id j) f (db_jobs db)"
  shows "queued_jobs k db' = queued_jobs k db +
      (if k = j_owner j then queued_weight (Some (j_state (f j))) - queued_weight (Some (j_state j)) else 0)"
    "active_jobs k db' = active_jobs k db +
      (if k = j_owner j then active_weight (Some (j_state (f j))) - active_weight (Some (j_state j)) else 0)"
  using assms(3,4) count_rows_update [OF assms(1,2) refl, of _ f]
  by (simp_all add: queued_jobs_def active_jobs_def queued_weight_def active_weight_def)

lemma change_move_consistent:
  assumes con: "consistent db" and j: "j \<in> set (db_jobs db)" "attempts_of (j_id j) db = xs @ [a]"
      "db_jobs db' = row_update j_id (j_id j) f (db_jobs db)"
      "j_id (f j) = j_id j" "j_owner (f j) = j_owner j" "j_max (f j) = j_max j"
    and a: "db_attempts db' = row_update a_id (a_id a) g (db_attempts db) @ new"
      "a_id (g a) = a_id a" "a_job (g a) = a_job a" "a_num (g a) = a_num a"
      "new = [] \<or> (\<exists>i t. new = [new_attempt i (j_id j) (a_num a + 1) t] \<and> i \<notin> a_id ` set (db_attempts db))"
    and life: "lifecycle (j_state j, map a_state (xs @ [a])) (j_state (f j), map a_state (xs @ [g a] @ new))"
    and lease: "held (a_state (g a)) \<Longrightarrow> has_lease (g a)"
    and h: "db_history db' = db_history db @ [h]" "h_job h = j_id j" "h_from h = Some (j_state j)"
      "h_to h = j_state (f j)"
    and p: "\<forall>p \<in> set (db_projections db'). p \<in> set (db_projections db) \<or>
        p_attempt p = a_id a \<and> \<not> is_open (a_state (g a))"
    and q: "quota_moved (j_owner j) (Some (j_state j)) (j_state (f j)) db db'"
  shows "consistent db'"
proof -
  note C = consistentD [OF con]
  note jobs = find_job_update [where f = f, OF C(1) j(1) j(4,3)]
  have mem: "a \<in> set (db_attempts db)" "a_job a = j_id j"
    using j(2) attempts_of_mem [of a "j_id j" db] by auto
  have new: "\<forall>b \<in> set new. a_job b = j_id j" using a(5) by auto
  note atts = attempts_of_update [OF C(2) j(2) a(1) _ new, unfolded a(3), OF mem(2)]
  have ok: "job_ok j (xs @ [a]) (history_of (j_id j) db)" using C(6) [OF j(1)] j(2) by simp
  have "job_ok (f j) (xs @ [g a] @ new) (history_of (j_id j) db')"
  proof -
    have "life_ok (j_state (f j), map a_state (xs @ [g a] @ new))"
      using lifecycle_ok [OF life] ok by (simp add: job_ok_def)
    moreover have "numbered (xs @ [g a] @ new)"
      using numbered_update [of xs a g new "j_id j"] ok a(4,5) by (auto simp: job_ok_def)
    moreover have "hist_path None (history_of (j_id j) db') (j_state (f j))"
      using hist_path_snoc [of None "history_of (j_id j) db" "j_state j" h] ok h
        lifecycle_transition [OF life] by (simp add: job_ok_def history_of_append [OF h(1)])
    ultimately show ?thesis
      using ok lease a(5) j(6) by (auto simp: job_ok_def held_def)
  qed
  moreover have "job_ok i (attempts_of (j_id i) db') (history_of (j_id i) db')"
    if "i \<in> set (db_jobs db)" "i \<noteq> j" for i
  proof -
    have "j_id i \<noteq> j_id j" using that j(1) C(1) by (auto simp: distinct_map inj_on_def)
    then show ?thesis using C(6) [OF that(1)] atts h(2) by (simp add: history_of_append [OF h(1)])
  qed
  ultimately have "\<forall>i \<in> set (db_jobs db'). job_ok i (attempts_of (j_id i) db') (history_of (j_id i) db')"
    using jobs(1) atts j(4) by auto
  moreover have "quota_exact db'"
    by (rule quota_moved_exact [OF q C(8)]) (rule count_jobs_update [OF C(1) j(1,5,3)])+
  moreover have "distinct (map q_owner (db_quotas db'))" using q by (simp add: quota_moved_def)
  moreover have upd: "set (row_update a_id (a_id a) g (db_attempts db)) = insert (g a) (set (db_attempts db) - {a})"
    by (rule row_update_mem [OF C(2) mem(1) refl])
  moreover have ids: "map a_id (row_update a_id (a_id a) g (db_attempts db)) = map a_id (db_attempts db)"
  proof -
    from C(2) mem(1) obtain us vs where "db_attempts db = us @ a # vs"
      "row_update a_id (a_id a) g (db_attempts db) = us @ g a # vs"
      by (rule row_split) blast
    then show ?thesis using a(2) by simp
  qed
  moreover have "distinct (map a_id (db_attempts db'))"
    using C(2) ids a(1,5) by auto
  moreover have keys: "set (map j_id (db_jobs db')) = set (map j_id (db_jobs db))"
    using jobs(2) by simp
  moreover have "a_job b \<in> j_id ` set (db_jobs db')" if "b \<in> set (db_attempts db')" for b
    using that C(4) new upd a(1,3) mem keys j(1) by auto
  moreover have "i \<in> set (db_history db') \<Longrightarrow> h_job i \<in> j_id ` set (db_jobs db')" for i
    using C(5) h keys j(1) by auto
  moreover have "\<exists>b \<in> set (db_attempts db'). a_id b = p_attempt r \<and> \<not> is_open (a_state b)"
    if r: "r \<in> set (db_projections db')" for r
  proof -
    have closed: "\<not> is_open (a_state a) \<Longrightarrow> \<not> is_open (a_state (g a))"
      using lifecycle_closed [OF life, of "map a_state xs" "a_state a" "a_state (g a)" "map a_state new"] by simp
    have ga: "g a \<in> set (db_attempts db')" using a(1) upd by simp
    show ?thesis
    proof (cases "r \<in> set (db_projections db)")
      case True
      then obtain b where b: "b \<in> set (db_attempts db)" "a_id b = p_attempt r" "\<not> is_open (a_state b)"
        using C(7) by blast
      show ?thesis
      proof (cases "b = a")
        case True
        then show ?thesis using b closed ga a(2) by (intro bexI [of _ "g a"]) auto
      next
        case False
        then show ?thesis using b a(1) upd by (intro bexI [of _ b]) auto
      qed
    next
      case False
      then show ?thesis using r p ga a(2) by (intro bexI [of _ "g a"]) auto
    qed
  qed
  moreover have "distinct (map j_id (db_jobs db'))" using C(1) jobs(2) by simp
  ultimately show ?thesis unfolding consistent_def by blast
qed

lemma change_touch_consistent:
  assumes con: "consistent db" and same: "db_jobs db' = db_jobs db" "db_history db' = db_history db"
      "db_quotas db' = db_quotas db" "db_projections db' = db_projections db"
    and atts: "db_attempts db' = map g (db_attempts db)"
    and g: "\<And>a. a \<in> set (db_attempts db) \<Longrightarrow> a_id (g a) = a_id a \<and> a_job (g a) = a_job a \<and>
      a_num (g a) = a_num a \<and> a_state (g a) = a_state a \<and> (has_lease a \<longrightarrow> has_lease (g a))"
  shows "consistent db'"
proof -
  note C = consistentD [OF con]
  have of: "attempts_of k db' = map g (attempts_of k db)" for k
    unfolding attempts_of_def atts filter_map by (rule arg_cong [where f = "map g"], rule filter_cong) (use g in auto)
  have "job_ok j (attempts_of (j_id j) db') (history_of (j_id j) db')" if "j \<in> set (db_jobs db)" for j
  proof -
    have core: "map a_state (attempts_of k db') = map a_state (attempts_of k db)"
      "map a_num (attempts_of k db') = map a_num (attempts_of k db)" for k
      using g by (auto simp: of attempts_of_mem)
    have hist: "history_of (j_id j) db' = history_of (j_id j) db" by (simp add: history_of_def same)
    have len: "length (attempts_of k db') = length (attempts_of k db)" for k by (simp add: of)
    have lease: "\<forall>a \<in> set (attempts_of (j_id j) db'). held (a_state a) \<longrightarrow> has_lease a"
      using C(6) [OF that] g of by (auto simp: job_ok_def attempts_of_mem)
    show ?thesis
      using C(6) [OF that] lease unfolding job_ok_def numbered_def hist core len by blast
  qed
  moreover have "map a_id (db_attempts db') = map a_id (db_attempts db)" using atts g by simp
  moreover have "quota_exact db'"
    using C(8) same by (simp add: quota_exact_def queued_of_def active_of_def queued_jobs_def active_jobs_def)
  moreover have "\<exists>b \<in> set (db_attempts db'). a_id b = p_attempt r \<and> \<not> is_open (a_state b)"
    if "r \<in> set (db_projections db')" for r
    using C(7) [of r] that same(4) atts g by force
  moreover have "a_job b \<in> j_id ` set (db_jobs db')" if "b \<in> set (db_attempts db')" for b
    using that atts g C(4) same(1) by auto
  ultimately show ?thesis using C(1,2,3,5) same unfolding consistent_def by auto
qed

lemma change_consistent: "change db db' \<Longrightarrow> consistent db \<Longrightarrow> consistent db'"
  by (induction rule: change.induct)
    (rule change_create_consistent change_move_consistent change_touch_consistent; assumption)+

section \<open>Every change is a step of the abstract machine\<close>

text \<open>
  Either one job is born in \<open>QUEUED\<close> with one attempt, or one job makes a step of
  \<open>lifecycle\<close> and every other job stays as it was, or no job moves.
\<close>

definition refines :: "(uuid \<Rightarrow> life option) \<Rightarrow> (uuid \<Rightarrow> life option) \<Rightarrow> bool" where
  "refines m m' \<longleftrightarrow>
     m' = m \<or> (\<exists>k. m k = None \<and> m' = m(k \<mapsto> (Queued, [ACreated]))) \<or>
     (\<exists>k l l'. m k = Some l \<and> lifecycle l l' \<and> m' = m(k \<mapsto> l'))"

lemma change_refines:
  assumes "change db db'" "consistent db"
  shows "refines (life_of db) (life_of db')"
  using assms
proof (induction rule: change.induct)
  case (create j db db' a h)
  note C = consistentD [OF create.prems]
  have none: "find_job (j_id j) db = None" using create.hyps(1) by (simp add: find_job_def row_find_None)
  have "a_job b \<noteq> j_id j" if "b \<in> set (db_attempts db)" for b using C(4) [OF that] create.hyps(1) by auto
  then have empty: "attempts_of (j_id j) db = []" by (simp add: attempts_of_def filter_empty_conv)
  have atts: "attempts_of k db' = (if k = j_id j then [a] else attempts_of k db)" for k
    using empty create.hyps(6,8) by (auto simp: attempts_of_def)
  have find: "find_job k db' = (if k = j_id j then Some j else find_job k db)" for k
    using none create.hyps(2) by (auto simp: find_job_def row_find_append row_find_single split: option.splits)
  have "life_of db' = (life_of db)(j_id j \<mapsto> (Queued, [ACreated]))"
    using atts find create.hyps(3,10) by (auto simp: life_of_def fun_eq_iff)
  moreover have "life_of db (j_id j) = None" using none by (simp add: life_of_def)
  ultimately show ?case unfolding refines_def by blast
next
  case (move j db xs a db' f g new h)
  note C = consistentD [OF move.prems]
  have mem: "a \<in> set (db_attempts db)" "a_job a = j_id j"
    using move.hyps(2) attempts_of_mem [of a "j_id j" db] by auto
  have new: "\<forall>b \<in> set new. a_job b = j_id j" using move.hyps(11) by auto
  note atts = attempts_of_update [OF C(2) move.hyps(2,7) _ new, unfolded move.hyps(9), OF mem(2)]
  note find = find_job_update(3) [where f = f, OF C(1) move.hyps(1,4,3)]
  have "life_of db' = (life_of db)(j_id j \<mapsto> (j_state (f j), map a_state (xs @ [g a] @ new)))"
    using atts find by (auto simp: life_of_def fun_eq_iff)
  moreover have "life_of db (j_id j) = Some (j_state j, map a_state (xs @ [a]))"
    using move.hyps(1,2) find_job_distinct [OF C(1), of "j_id j" j] by (simp add: life_of_def)
  ultimately show ?case using move.hyps(12) unfolding refines_def by blast
next
  case (touch db' db g)
  have "attempts_of k db' = map g (attempts_of k db)" for k
    unfolding attempts_of_def touch.hyps(5) filter_map
    by (rule arg_cong [where f = "map g"], rule filter_cong) (use touch.hyps(6) in auto)
  then have "map a_state (attempts_of k db') = map a_state (attempts_of k db)" for k
    using touch.hyps(6) by (auto simp: attempts_of_mem)
  then have "life_of db' = life_of db"
    using touch.hyps(1) by (simp add: life_of_def fun_eq_iff find_job_def)
  then show ?case by (simp add: refines_def)
qed

section \<open>What the operations read and write\<close>

lemma numbered_less: "numbered (xs @ [a]) \<Longrightarrow> b \<in> set xs \<Longrightarrow> a_num b < a_num a"
proof -
  assume num: "numbered (xs @ [a])" and b: "b \<in> set xs"
  have "a_num b \<in> set (map a_num xs)" using b by simp
  also have "\<dots> = set (map int [1..<Suc (length xs)])" using num unfolding numbered_snoc numbered_def by simp
  finally show ?thesis using num by (auto simp: numbered_snoc)
qed

text \<open>The latest attempt of a job is the last one in the table, and the only one that can be open.\<close>

lemma consistent_job:
  assumes "consistent db" "j \<in> set (db_jobs db)"
  obtains xs a where "attempts_of (j_id j) db = xs @ [a]" "latest_attempt (j_id j) db = Some a"
    "max_row a_num (attempts_of (j_id j) db) = Some a" "agree (j_state j) (a_state a)"
    "a \<in> set (db_attempts db)" "a_job a = j_id j" "held (a_state a) \<Longrightarrow> has_lease a"
    "job_ok j (xs @ [a]) (history_of (j_id j) db)" "a_num a = int (length xs) + 1"
proof -
  have ok: "job_ok j (attempts_of (j_id j) db) (history_of (j_id j) db)"
    using consistentD(6) [OF assms(1)] assms(2) .
  then obtain xs a where atts: "attempts_of (j_id j) db = xs @ [a]"
    by (cases "attempts_of (j_id j) db" rule: rev_cases) (auto simp: job_ok_def life_ok_def)
  have num: "numbered (xs @ [a])" using ok atts by (simp add: job_ok_def)
  then have "a_num b < a_num a" if "b \<in> set xs" for b using numbered_less that by blast
  then have "max_row (\<lambda>a. (a_num a, a_id a)) (xs @ [a]) = Some a" "max_row a_num (xs @ [a]) = Some a"
    using max_row_last [of "xs @ [a]" "\<lambda>a. (a_num a, a_id a)"] max_row_last [of "xs @ [a]" a_num] by simp_all
  moreover have "a \<in> set (db_attempts db)" "a_job a = j_id j"
    using atts attempts_of_mem [of a "j_id j" db] by auto
  ultimately show thesis
    using that [OF atts] ok num by (simp add: latest_attempt_def atts job_ok_def numbered_snoc)
qed

lemma open_attempt_last:
  assumes "consistent db" "j \<in> set (db_jobs db)" "b \<in> set (db_attempts db)" "a_job b = j_id j"
    "is_open (a_state b)" "attempts_of (j_id j) db = xs @ [a]"
  shows "b = a"
proof -
  have "life_ok (j_state j, map a_state (xs @ [a]))"
    using consistentD(6) [OF assms(1,2)] assms(6) by (simp add: job_ok_def)
  moreover have "b \<in> set (xs @ [a])"
    using assms(3,4) attempts_of_mem [of b "j_id j" db] by (simp only: assms(6) simp_thms)
  ultimately show ?thesis using life_ok_open_last [of "j_state j" "xs @ [a]" b] assms(5) by auto
qed

lemma quota_moved_same:
  assumes "consistent db" "db_quotas db' = db_quotas db"
    "queued_weight s = queued_weight (Some t)" "active_weight s = active_weight (Some t)"
  shows "quota_moved owner s t db db'"
  using assms consistentD(3) [OF assms(1)] by (simp add: quota_moved_def queued_of_def active_of_def)

text \<open>
  The counter row of an owner exists while the owner has a queued or active job, and its
  counts are not zero there, so that the \<open>GREATEST(count - 1, 0)\<close> of the statements is exact.
\<close>

lemma quota_moved_row:
  assumes con: "consistent db" and j: "j \<in> set (db_jobs db)" "j_state j = Queued \<or> is_active (j_state j)"
    and q: "db_quotas db' = row_update q_owner (j_owner j) f (db_quotas db)" "\<And>q. q_owner (f q) = q_owner q"
    and f: "\<And>q. 0 \<le> q_queued q \<Longrightarrow> 0 \<le> q_active q \<Longrightarrow> (j_state j = Queued \<Longrightarrow> 1 \<le> q_queued q) \<Longrightarrow>
      (is_active (j_state j) \<Longrightarrow> 1 \<le> q_active q) \<Longrightarrow>
      q_queued (f q) = q_queued q + queued_weight (Some t) - queued_weight (Some (j_state j)) \<and>
      q_active (f q) = q_active q + active_weight (Some t) - active_weight (Some (j_state j))"
  shows "quota_moved (j_owner j) (Some (j_state j)) t db db'"
proof -
  note C = consistentD [OF con]
  let ?o = "j_owner j"
  have counts: "queued_of ?o db = queued_jobs ?o db" "active_of ?o db = active_jobs ?o db"
    using C(8) by (simp_all add: quota_exact_def)
  have queued: "j_state j = Queued \<Longrightarrow> 1 \<le> queued_jobs ?o db"
    unfolding queued_jobs_def by (rule count_rows_pos [OF j(1)]) simp
  have active: "is_active (j_state j) \<Longrightarrow> 1 \<le> active_jobs ?o db"
    unfolding active_jobs_def by (rule count_rows_pos [OF j(1)]) simp
  obtain q where row: "row_find q_owner ?o (db_quotas db) = Some q"
    using queued active counts j(2)
    by (cases "row_find q_owner ?o (db_quotas db)") (auto simp: queued_of_def active_of_def)
  then have now: "q_queued q = queued_jobs ?o db" "q_active q = active_jobs ?o db"
    using counts by (simp_all add: queued_of_def active_of_def)
  then have after: "q_queued (f q) = q_queued q + queued_weight (Some t) - queued_weight (Some (j_state j))"
    "q_active (f q) = q_active q + active_weight (Some t) - active_weight (Some (j_state j))"
    using f [of q] queued active by (simp_all add: queued_jobs_def active_jobs_def)
  have find: "row_find q_owner k (db_quotas db') = (if k = ?o then Some (f q) else row_find q_owner k (db_quotas db))" for k
    using row q row_find_update [of q_owner f k ?o "db_quotas db"] by simp
  have "map q_owner (db_quotas db') = map q_owner (db_quotas db)"
    unfolding q(1) by (rule row_update_keys) (rule q(2))
  then show ?thesis
    using C(3) find after row by (simp add: quota_moved_def queued_of_def active_of_def)
qed

text \<open>
  A move in the two shapes the operations have: the last attempt changes, or it changes and
  the next attempt is created. The history entry is the last one after the operation.
\<close>

lemma change_move_last:
  assumes "j \<in> set (db_jobs db)" "attempts_of (j_id j) db = xs @ [a]"
    "db_jobs db' = row_update j_id (j_id j) f (db_jobs db)"
    "db_attempts db' = row_update a_id (a_id a) g (db_attempts db)"
    "\<exists>reason actor. db_history db' = db_history db @
       [\<lparr>h_job = j_id j, h_from = Some (j_state j), h_to = j_state (f j), h_reason = reason, h_actor = actor\<rparr>]"
    "\<forall>p \<in> set (db_projections db'). p \<in> set (db_projections db) \<or>
        p_attempt p = a_id a \<and> \<not> is_open (a_state (g a))"
    "quota_moved (j_owner j) (Some (j_state j)) (j_state (f j)) db db'"
    "lifecycle (j_state j, map a_state xs @ [a_state a]) (j_state (f j), map a_state xs @ [a_state (g a)])"
    "j_id (f j) = j_id j" "j_owner (f j) = j_owner j" "j_max (f j) = j_max j"
    "a_id (g a) = a_id a" "a_job (g a) = a_job a" "a_num (g a) = a_num a"
    "held (a_state (g a)) \<Longrightarrow> has_lease (g a)"
  shows "change db db'"
  by (rule change.move [of j db xs a db' f g "[]" "last (db_history db')", OF assms(1,2,3)]) (use assms in auto)

lemma change_move_next:
  assumes "j \<in> set (db_jobs db)" "attempts_of (j_id j) db = xs @ [a]"
    "db_jobs db' = row_update j_id (j_id j) f (db_jobs db)"
    "db_attempts db' = row_update a_id (a_id a) g (db_attempts db) @ [new_attempt i (j_id j) (a_num a + 1) t]"
    "\<exists>reason actor. db_history db' = db_history db @
       [\<lparr>h_job = j_id j, h_from = Some (j_state j), h_to = j_state (f j), h_reason = reason, h_actor = actor\<rparr>]"
    "\<forall>p \<in> set (db_projections db'). p \<in> set (db_projections db) \<or>
        p_attempt p = a_id a \<and> \<not> is_open (a_state (g a))"
    "quota_moved (j_owner j) (Some (j_state j)) (j_state (f j)) db db'"
    "lifecycle (j_state j, map a_state xs @ [a_state a])
       (j_state (f j), map a_state xs @ [a_state (g a), ACreated])"
    "i \<notin> a_id ` set (db_attempts db)"
    "j_id (f j) = j_id j" "j_owner (f j) = j_owner j" "j_max (f j) = j_max j"
    "a_id (g a) = a_id a" "a_job (g a) = a_job a" "a_num (g a) = a_num a"
    "held (a_state (g a)) \<Longrightarrow> has_lease (g a)"
  shows "change db db'"
  by (rule change.move [of j db xs a db' f g "[new_attempt i (j_id j) (a_num a + 1) t]" "last (db_history db')",
        OF assms(1,2,3)]) (use assms in auto)

lemma change_same:
  assumes "db_jobs db' = db_jobs db" "db_history db' = db_history db" "db_quotas db' = db_quotas db"
    "db_projections db' = db_projections db" "db_attempts db' = db_attempts db"
  shows "change db db'"
  using assms by (intro change.touch [where g = id]) auto

lemma change_frame:
  assumes "change db db1" "db_jobs db2 = db_jobs db1" "db_history db2 = db_history db1"
    "db_quotas db2 = db_quotas db1" "db_projections db2 = db_projections db1" "db_attempts db2 = db_attempts db1"
  shows "change db db2"
proof -
  have quota: "quota_moved k s t db db2 = quota_moved k s t db db1" for k s t
    using assms(4) by (simp add: quota_moved_def queued_of_def active_of_def)
  from assms(1) show ?thesis
  proof cases
    case (create j a h)
    then show ?thesis using assms quota by (intro change.create [of j _ _ a h]) simp_all
  next
    case (move j xs a f g new h)
    then show ?thesis using assms quota by (intro change.move [of j _ xs a _ f g new h]) simp_all
  next
    case (touch g)
    then show ?thesis using assms by (intro change.touch [where g = g]) simp_all
  qed
qed

lemma change_source:
  assumes "change db1 db'" "db_jobs db1 = db_jobs db" "db_history db1 = db_history db"
    "db_quotas db1 = db_quotas db" "db_projections db1 = db_projections db" "db_attempts db1 = db_attempts db"
  shows "change db db'"
proof -
  have quota: "quota_moved k s t db1 db' = quota_moved k s t db db'" for k s t
    using assms(4) by (simp add: quota_moved_def queued_of_def active_of_def)
  have atts: "attempts_of k db1 = attempts_of k db" for k using assms(6) by (simp add: attempts_of_def)
  from assms(1) show ?thesis
  proof cases
    case (create j a h)
    then show ?thesis using assms quota by (intro change.create [of j _ _ a h]) simp_all
  next
    case (move j xs a f g new h)
    then show ?thesis using assms quota atts by (intro change.move [of j _ xs a _ f g new h]) simp_all
  next
    case (touch g)
    then show ?thesis using assms by (intro change.touch [where g = g]) simp_all
  qed
qed

end
