(* ===== verification/Outbox.thy ===== *)
theory Outbox
  imports Schema
begin

text \<open>
  The transactional outbox (\<open>internal/outbox\<close>): messages are enqueued in the transaction that
  makes the state change, claimed in batches under a lease token, published to the broker, and
  marked published or scheduled again with an exponential delay. The interface \<open>Enqueuer\<close>
  that the other repositories depend on is the locale \<open>enqueuer\<close>, interpreted on
  \<open>Outbox_Enqueue\<close>; the interface \<open>Store\<close> of the dispatcher is the locale
  \<open>outbox_store\<close>, interpreted on the repository.
\<close>

section \<open>Messages\<close>

abbreviation DefaultLease :: duration where "DefaultLease \<equiv> 30 * Second"
abbreviation DefaultRetry :: duration where "DefaultRetry \<equiv> Second"
abbreviation MaxRetryDelay :: duration where "MaxRetryDelay \<equiv> Hour"

record Message =
  m_ID :: uuid
  m_Env :: Envelope
  m_Exchange :: string
  m_Key :: string
  m_Attempts :: int
  m_Token :: uuid
  m_Until :: time
  m_Available :: time
  m_LastError :: string

text \<open>The struct literals of the code leave the other fields at their zero values.\<close>

definition command_message :: "Envelope \<Rightarrow> string \<Rightarrow> string \<Rightarrow> time \<Rightarrow> Message" where
  "command_message e exchange key available =
    \<lparr>m_ID = env_MessageID e, m_Env = e, m_Exchange = exchange, m_Key = key, m_Attempts = 0,
     m_Token = uuid_Nil, m_Until = 0, m_Available = available, m_LastError = ''''\<rparr>"

definition Message_Validate :: "Message \<Rightarrow> unit result" where
  "Message_Validate m =
    (if m_ID m = uuid_Nil then Inl OutboxErrInvalidMessage
     else if m_ID m \<noteq> env_MessageID (m_Env m) then Inl OutboxErrInvalidMessage
     else if m_Exchange m = '''' \<or> m_Key m = '''' then Inl OutboxErrInvalidMessage
     else case Envelope_Validate (m_Env m) of Inl e \<Rightarrow> Inl OutboxErrInvalidMessage | Inr u \<Rightarrow> Inr ())"

section \<open>Repository\<close>

definition Outbox_Enqueue :: "time \<Rightarrow> Message \<Rightarrow> DB \<Rightarrow> DB result" where
  "Outbox_Enqueue now m db =
    bindE (Message_Validate m) (\<lambda>_.
      let availableAt = (if time_IsZero (m_Available m) then now else m_Available m)
      in bindE (row_insert ob_id
           \<lparr>ob_id = m_ID m, ob_env = m_Env m, ob_exchange = m_Exchange m, ob_key = m_Key m,
            ob_state = Pending, ob_attempts = 0, ob_available = availableAt, ob_token = None,
            ob_until = None, ob_error = None, ob_published = None, ob_created = now\<rparr> (db_outbox db))
          (\<lambda>rows. Inr (db\<lparr>db_outbox := rows\<rparr>)))"

definition scanMessage :: "Outbox \<Rightarrow> Message result" where
  "scanMessage r =
    (let m = \<lparr>m_ID = ob_id r, m_Env = ob_env r, m_Exchange = ob_exchange r, m_Key = ob_key r,
           m_Attempts = ob_attempts r, m_Token = uuid_Nil,
           m_Until = (case ob_until r of None \<Rightarrow> 0 | Some t \<Rightarrow> t), m_Available = ob_available r,
           m_LastError = (case ob_error r of None \<Rightarrow> '''' | Some e \<Rightarrow> e)\<rparr>
     in bindE (Message_Validate m) (\<lambda>_. Inr m))"

definition claimable :: "time \<Rightarrow> Outbox \<Rightarrow> bool" where
  "claimable now r \<longleftrightarrow>
     (ob_state r = Pending \<and> ob_available r \<le> now) \<or>
     (ob_state r = InFlight \<and> (case ob_until r of None \<Rightarrow> False | Some t \<Rightarrow> t \<le> now))"

definition claim_row :: "time \<Rightarrow> duration \<Rightarrow> uuid \<Rightarrow> Outbox \<Rightarrow> Outbox" where
  "claim_row now lease token r =
     r\<lparr>ob_state := InFlight, ob_attempts := ob_attempts r + 1, ob_token := Some token,
       ob_until := Some (now + lease)\<rparr>"

text \<open>
  The loop that leases each selected message; \<open>tok\<close> gives the \<open>uuid.New()\<close> drawn for a
  message.
\<close>

fun claim_loop ::
  "time \<Rightarrow> duration \<Rightarrow> (uuid \<Rightarrow> uuid) \<Rightarrow> Message list \<Rightarrow> DB \<Rightarrow> (Message list \<times> DB) result" where
  "claim_loop now lease tok [] db = Inr ([], db)"
| "claim_loop now lease tok (m # ms) db =
    (if m_ID m \<notin> ob_id ` set (db_outbox db) then Inl OutboxErrLeaseLost
     else
       let db' = db\<lparr>db_outbox := row_update ob_id (m_ID m) (claim_row now lease (tok (m_ID m))) (db_outbox db)\<rparr>;
           m' = m\<lparr>m_Attempts := m_Attempts m + 1, m_Token := tok (m_ID m), m_Until := now + lease\<rparr>
       in bindE (claim_loop now lease tok ms db') (\<lambda>(ms', db''). Inr (m' # ms', db'')))"

definition Claim :: "(uuid \<Rightarrow> uuid) \<Rightarrow> time \<Rightarrow> duration \<Rightarrow> int \<Rightarrow> DB \<Rightarrow> (Message list \<times> DB) result" where
  "Claim tok now lease limit db =
    (if lease \<le> 0 \<or> limit < 1 \<or> limit > 1000 then Inl (ErrText ''outbox lease and batch limit are invalid'')
     else
       let rows = take (nat limit)
             (sort_key (\<lambda>r. (ob_available r, ob_created r, ob_id r)) (filter (claimable now) (db_outbox db)))
       in bindE (mapE scanMessage rows) (\<lambda>messages. claim_loop now lease tok messages db))"

text \<open>The row a lease token still owns.\<close>

definition owned :: "uuid \<Rightarrow> uuid \<Rightarrow> Outbox \<Rightarrow> bool" where
  "owned messageID token r \<longleftrightarrow>
     ob_id r = messageID \<and> ob_state r = InFlight \<and> ob_token r = Some token"

definition MarkPublished :: "uuid \<Rightarrow> uuid \<Rightarrow> time \<Rightarrow> DB \<Rightarrow> DB result" where
  "MarkPublished messageID token publishedAt db =
    (if \<not> list_ex (owned messageID token) (db_outbox db) then Inl OutboxErrLeaseLost
     else Inr (db\<lparr>db_outbox := rows_update (owned messageID token)
            (\<lambda>r. r\<lparr>ob_state := Published, ob_published := Some publishedAt, ob_token := None,
                   ob_until := None, ob_error := None\<rparr>) (db_outbox db)\<rparr>))"

definition truncateError :: "string \<Rightarrow> string" where
  "truncateError s = (if length s > 1000 then take 1000 s else s)"

definition MarkRetry :: "uuid \<Rightarrow> uuid \<Rightarrow> time \<Rightarrow> string \<Rightarrow> int \<Rightarrow> DB \<Rightarrow> DB result" where
  "MarkRetry messageID token nextAttempt lastError maxAttempts db =
    (if maxAttempts < 1 then Inl (ErrText ''outbox max attempts must be positive'')
     else if \<not> list_ex (owned messageID token) (db_outbox db) then Inl OutboxErrLeaseLost
     else Inr (db\<lparr>db_outbox := rows_update (owned messageID token)
            (\<lambda>r. r\<lparr>ob_state := (if ob_attempts r \<ge> maxAttempts then OutboxFailed else Pending),
                   ob_available := nextAttempt, ob_error := Some (truncateError lastError),
                   ob_token := None, ob_until := None\<rparr>) (db_outbox db)\<rparr>))"

section \<open>Dispatcher\<close>

record DispatcherConfig =
  dc_LeaseDuration :: duration
  dc_RetryBase :: duration
  dc_MaxAttempts :: int

definition NewDispatcher :: "DispatcherConfig \<Rightarrow> DispatcherConfig result" where
  "NewDispatcher config =
    (let c1 = (if dc_LeaseDuration config = 0 then config\<lparr>dc_LeaseDuration := DefaultLease\<rparr> else config);
         c2 = (if dc_RetryBase c1 = 0 then c1\<lparr>dc_RetryBase := DefaultRetry\<rparr> else c1);
         c3 = (if dc_MaxAttempts c2 = 0 then c2\<lparr>dc_MaxAttempts := 5\<rparr> else c2)
     in if dc_LeaseDuration c3 \<le> 0 \<or> dc_RetryBase c3 \<le> 0 \<or> dc_MaxAttempts c3 < 1
        then Inl (ErrText ''outbox dispatcher timing and attempt limits are invalid'')
        else Inr c3)"

record DispatchReport =
  dr_Claimed :: int
  dr_Published :: int
  dr_Retried :: int
  dr_Poisoned :: int
  dr_Failed :: int
  dr_Failures :: "uuid list"

text \<open>
  The delay doubles once per attempt after the first and stops at \<open>MaxRetryDelay\<close>. The
  doubling is 64-bit arithmetic.
\<close>

function retry_loop :: "duration \<Rightarrow> int \<Rightarrow> int \<Rightarrow> duration" where
  "retry_loop delay index attempts =
    (if index < attempts \<and> delay < MaxRetryDelay then
       (if delay > MaxRetryDelay div 2 then MaxRetryDelay
        else retry_loop (signed_take_bit 63 (delay * 2)) (index + 1) attempts)
     else if delay > MaxRetryDelay then MaxRetryDelay else delay)"
  by pat_completeness auto
termination
  by (relation "measure (\<lambda>(delay, index, attempts). nat (attempts - index))") auto

declare retry_loop.simps [simp del]

definition retryDelay :: "duration \<Rightarrow> int \<Rightarrow> duration" where
  "retryDelay base attempts = (if attempts \<le> 1 then base else retry_loop base 1 attempts)"

text \<open>
  \<open>publish\<close> is the broker's answer for a message: \<open>None\<close> when the publisher confirmed it,
  \<open>Some e\<close> for an error with text \<open>e\<close>. \<open>mark_published\<close> and \<open>mark_retry\<close> are the
  methods of the \<open>Store\<close> interface.
\<close>

fun dispatch_loop ::
  "(uuid \<Rightarrow> uuid \<Rightarrow> time \<Rightarrow> DB \<Rightarrow> DB result) \<Rightarrow>
   (uuid \<Rightarrow> uuid \<Rightarrow> time \<Rightarrow> string \<Rightarrow> int \<Rightarrow> DB \<Rightarrow> DB result) \<Rightarrow>
   (Message \<Rightarrow> string option) \<Rightarrow> DispatcherConfig \<Rightarrow> time \<Rightarrow>
   Message list \<Rightarrow> DispatchReport \<Rightarrow> DB \<Rightarrow> DispatchReport \<times> DB" where
  "dispatch_loop mark_published mark_retry publish config now [] report db = (report, db)"
| "dispatch_loop mark_published mark_retry publish config now (m # ms) report db =
    (case publish m of
       Some e \<Rightarrow>
         (let report1 = report\<lparr>dr_Failed := dr_Failed report + 1\<rparr>;
              nextAttempt = now + retryDelay (dc_RetryBase config) (m_Attempts m)
          in case mark_retry (m_ID m) (m_Token m) nextAttempt e (dc_MaxAttempts config) db of
               Inl _ \<Rightarrow>
                 dispatch_loop mark_published mark_retry publish config now ms
                   (report1\<lparr>dr_Failures := dr_Failures report1 @ [m_ID m]\<rparr>) db
             | Inr db' \<Rightarrow>
                 (let report2 =
                    (if m_Attempts m \<ge> dc_MaxAttempts config
                     then report1\<lparr>dr_Poisoned := dr_Poisoned report1 + 1\<rparr>
                     else report1\<lparr>dr_Retried := dr_Retried report1 + 1\<rparr>)
                  in dispatch_loop mark_published mark_retry publish config now ms
                       (report2\<lparr>dr_Failures := dr_Failures report2 @ [m_ID m]\<rparr>) db'))
     | None \<Rightarrow>
         (case mark_published (m_ID m) (m_Token m) now db of
            Inl _ \<Rightarrow>
              dispatch_loop mark_published mark_retry publish config now ms
                (report\<lparr>dr_Failed := dr_Failed report + 1, dr_Failures := dr_Failures report @ [m_ID m]\<rparr>) db
          | Inr db' \<Rightarrow>
              dispatch_loop mark_published mark_retry publish config now ms
                (report\<lparr>dr_Published := dr_Published report + 1\<rparr>) db'))"

definition Outbox_Dispatch ::
  "(time \<Rightarrow> duration \<Rightarrow> int \<Rightarrow> DB \<Rightarrow> (Message list \<times> DB) result) \<Rightarrow>
   (uuid \<Rightarrow> uuid \<Rightarrow> time \<Rightarrow> DB \<Rightarrow> DB result) \<Rightarrow>
   (uuid \<Rightarrow> uuid \<Rightarrow> time \<Rightarrow> string \<Rightarrow> int \<Rightarrow> DB \<Rightarrow> DB result) \<Rightarrow>
   (Message \<Rightarrow> string option) \<Rightarrow> DispatcherConfig \<Rightarrow> time \<Rightarrow> int \<Rightarrow> DB \<Rightarrow> (DispatchReport \<times> DB) result" where
  "Outbox_Dispatch claim mark_published mark_retry publish config now limit db =
    (if limit < 1 \<or> limit > 1000 then Inl (ErrText ''outbox dispatch limit must be between 1 and 1000'')
     else bindE (claim now (dc_LeaseDuration config) limit db) (\<lambda>(messages, db1).
       Inr (dispatch_loop mark_published mark_retry publish config now messages
         \<lparr>dr_Claimed = int (length messages), dr_Published = 0, dr_Retried = 0, dr_Poisoned = 0,
          dr_Failed = 0, dr_Failures = []\<rparr> db1)))"

section \<open>The delay between attempts\<close>

lemma retry_loop_closed:
  assumes "0 < delay" "delay \<le> 2 ^ 62" "index \<le> attempts"
  shows "retry_loop delay index attempts = min MaxRetryDelay (delay * 2 ^ nat (attempts - index))"
  using assms
proof (induction delay index attempts rule: retry_loop.induct)
  case (1 delay index attempts)
  show ?case
  proof (cases "index < attempts \<and> delay < MaxRetryDelay")
    case True
    then have pow: "2 ^ nat (attempts - index) = 2 * (2 :: int) ^ nat (attempts - (index + 1))"
      by (subst power_Suc [symmetric]) (simp add: nat_add_distrib [symmetric] Suc_nat_eq_nat_zadd1)
    have one: "(1 :: int) \<le> 2 ^ nat (attempts - (index + 1))" by simp
    show ?thesis
    proof (cases "delay > MaxRetryDelay div 2")
      case big: True
      have "MaxRetryDelay \<le> delay * 2" using big by simp
      also have "\<dots> \<le> delay * 2 * 2 ^ nat (attempts - (index + 1))"
        using mult_left_mono [OF one, of "delay * 2"] "1.prems"(1) by simp
      finally show ?thesis using big True
        by (simp add: retry_loop.simps [of delay index attempts] pow mult.assoc)
    next
      case small: False
      then have wrap: "signed_take_bit 63 (delay * 2) = delay * 2"
        using "1.prems"(1) by (intro signed_take_bit_int_eq_self) auto
      have "retry_loop (signed_take_bit 63 (delay * 2)) (index + 1) attempts =
          min MaxRetryDelay (delay * 2 * 2 ^ nat (attempts - (index + 1)))"
        using "1.IH" True small "1.prems" wrap by auto
      then show ?thesis using True small
        by (simp add: retry_loop.simps [of delay index attempts] pow mult.assoc)
    qed
  next
    case False
    show ?thesis
    proof (cases "delay < MaxRetryDelay")
      case True
      with False "1.prems"(3) have "index = attempts" by simp
      then show ?thesis using True by (simp add: retry_loop.simps [of delay attempts attempts])
    next
      case long: False
      have "MaxRetryDelay \<le> delay * 1" using long by simp
      also have "\<dots> \<le> delay * 2 ^ nat (attempts - index)"
        using "1.prems"(1) by (intro mult_left_mono) auto
      finally have "min MaxRetryDelay (delay * 2 ^ nat (attempts - index)) = MaxRetryDelay"
        by (rule min_absorb1)
      then show ?thesis using long by (simp add: retry_loop.simps [of delay index attempts])
    qed
  qed
qed

section \<open>Enqueuing\<close>

lemma Message_Validate_Inr [result_simps]:
  "Message_Validate m = Inr u \<longleftrightarrow>
     m_ID m \<noteq> uuid_Nil \<and> m_ID m = env_MessageID (m_Env m) \<and> m_Exchange m \<noteq> [] \<and> m_Key m \<noteq> [] \<and>
     Envelope_Validate (m_Env m) = Inr ()"
  by (auto simp: Message_Validate_def split: sum.splits)

text \<open>
  What the other repositories rely on: an accepted message is valid, it becomes one pending
  row at the end of the outbox, due no earlier than asked, and nothing else changes.
\<close>

locale enqueuer =
  fixes enqueue :: "time \<Rightarrow> Message \<Rightarrow> DB \<Rightarrow> DB result"
  assumes enqueue_valid: "enqueue now m db = Inr db' \<Longrightarrow> Message_Validate m = Inr ()"
    and enqueue_row: "enqueue now m db = Inr db' \<Longrightarrow>
      \<exists>r. db' = db\<lparr>db_outbox := db_outbox db @ [r]\<rparr> \<and> ob_id r = m_ID m \<and> ob_env r = m_Env m \<and>
          ob_exchange r = m_Exchange m \<and> ob_key r = m_Key m \<and> ob_state r = Pending \<and>
          ob_available r = (if time_IsZero (m_Available m) then now else m_Available m) \<and>
          m_ID m \<notin> ob_id ` set (db_outbox db)"
begin

lemma enqueue_frame:
  assumes "enqueue now m db = Inr db'"
  shows "db_jobs db' = db_jobs db" "db_attempts db' = db_attempts db" "db_quotas db' = db_quotas db"
    "db_history db' = db_history db" "db_idem db' = db_idem db" "db_versions db' = db_versions db"
    "db_datasets db' = db_datasets db" "db_inbox db' = db_inbox db" "db_workers db' = db_workers db"
    "db_projections db' = db_projections db" "db_dead db' = db_dead db"
    "db_artifacts db' = db_artifacts db" "db_progress db' = db_progress db"
  using enqueue_row [OF assms] by auto

end

interpretation outbox_enqueuer: enqueuer Outbox_Enqueue
proof unfold_locales
  fix now m db db'
  assume *: "Outbox_Enqueue now m db = Inr db'"
  then show "Message_Validate m = Inr ()"
    by (auto simp: Outbox_Enqueue_def bindE_Inr)
  from * show "\<exists>r. db' = db\<lparr>db_outbox := db_outbox db @ [r]\<rparr> \<and> ob_id r = m_ID m \<and> ob_env r = m_Env m \<and>
          ob_exchange r = m_Exchange m \<and> ob_key r = m_Key m \<and> ob_state r = Pending \<and>
          ob_available r = (if time_IsZero (m_Available m) then now else m_Available m) \<and>
          m_ID m \<notin> ob_id ` set (db_outbox db)"
    by (auto simp: Outbox_Enqueue_def bindE_Inr row_insert_Inr Let_def intro!: exI)
qed

section \<open>Claiming\<close>

definition claimed_rows :: "time \<Rightarrow> duration \<Rightarrow> (uuid \<Rightarrow> uuid) \<Rightarrow> uuid set \<Rightarrow> Outbox list \<Rightarrow> Outbox list" where
  "claimed_rows now lease tok ids rows =
     map (\<lambda>r. if ob_id r \<in> ids then claim_row now lease (tok (ob_id r)) r else r) rows"

lemma claim_row_simps [simp]:
  "ob_id (claim_row now lease t r) = ob_id r" "ob_env (claim_row now lease t r) = ob_env r"
  "ob_exchange (claim_row now lease t r) = ob_exchange r" "ob_key (claim_row now lease t r) = ob_key r"
  "ob_state (claim_row now lease t r) = InFlight" "ob_token (claim_row now lease t r) = Some t"
  "ob_attempts (claim_row now lease t r) = ob_attempts r + 1"
  by (simp_all add: claim_row_def)

lemma claim_loop_rows:
  assumes "claim_loop now lease tok ms db = Inr (ms', db')" "distinct (map m_ID ms)"
  shows "map m_ID ms' = map m_ID ms \<and> (\<forall>m \<in> set ms'. m_Token m = tok (m_ID m)) \<and>
    db' = db\<lparr>db_outbox := claimed_rows now lease tok (m_ID ` set ms) (db_outbox db)\<rparr>"
  using assms
proof (induction ms arbitrary: db ms' db')
  case Nil
  then show ?case by (simp add: claimed_rows_def)
next
  case (Cons m ms)
  let ?db1 = "db\<lparr>db_outbox := row_update ob_id (m_ID m) (claim_row now lease (tok (m_ID m))) (db_outbox db)\<rparr>"
  from Cons.prems(1) obtain ms1 where loop: "claim_loop now lease tok ms ?db1 = Inr (ms1, db')"
    and ms': "ms' = m\<lparr>m_Attempts := m_Attempts m + 1, m_Token := tok (m_ID m), m_Until := now + lease\<rparr> # ms1"
    by (auto simp: Let_def bindE_Inr split: if_splits)
  from Cons.prems(2) have "distinct (map m_ID ms)" by simp
  note rest = Cons.IH [OF loop this]
  have "claimed_rows now lease tok (m_ID ` set ms) (db_outbox ?db1) =
      claimed_rows now lease tok (m_ID ` set (m # ms)) (db_outbox db)"
    using Cons.prems(2) by (auto simp: claimed_rows_def row_update_def)
  then show ?case using rest ms' by simp
qed

lemma scanMessage_id: "scanMessage r = Inr m \<Longrightarrow> m_ID m = ob_id r"
  by (auto simp: scanMessage_def bindE_Inr Let_def)

lemma mapE_scanMessage_ids: "mapE scanMessage rows = Inr ms \<Longrightarrow> map m_ID ms = map ob_id rows"
  by (auto simp: mapE_Inr list_eq_iff_nth_eq list_all2_conv_all_nth dest: scanMessage_id)

text \<open>A successful claim leases a batch of due messages, each under the token drawn for it.\<close>

lemma Claim_Inr:
  assumes "Claim tok now lease limit db = Inr (ms, db')" "distinct (map ob_id (db_outbox db))"
  shows "distinct (map m_ID ms)" "\<forall>m \<in> set ms. m_Token m = tok (m_ID m)"
    "int (length ms) \<le> limit"
    "\<forall>m \<in> set ms. \<exists>r \<in> set (db_outbox db). ob_id r = m_ID m \<and> claimable now r"
    "db' = db\<lparr>db_outbox := claimed_rows now lease tok (m_ID ` set ms) (db_outbox db)\<rparr>"
proof -
  let ?rows = "take (nat limit)
    (sort_key (\<lambda>r. (ob_available r, ob_created r, ob_id r)) (filter (claimable now) (db_outbox db)))"
  from assms(1) obtain ms0 where scan: "mapE scanMessage ?rows = Inr ms0"
    and loop: "claim_loop now lease tok ms0 db = Inr (ms, db')" and limit: "1 \<le> limit"
    by (auto simp: Claim_def Let_def bindE_Inr split: if_splits)
  have sel: "set ?rows \<subseteq> {r \<in> set (db_outbox db). claimable now r}"
    by (rule select_rows)
  from assms(2) have "distinct (map ob_id ?rows)"
    by (rule select_distinct)
  then have dist: "distinct (map m_ID ms0)"
    using mapE_scanMessage_ids [OF scan] by simp
  note rows = claim_loop_rows [OF loop dist]
  then show "distinct (map m_ID ms)" "\<forall>m \<in> set ms. m_Token m = tok (m_ID m)"
    using dist by simp_all
  have ids: "m_ID ` set ms = m_ID ` set ms0" using rows by (metis set_map)
  then show "db' = db\<lparr>db_outbox := claimed_rows now lease tok (m_ID ` set ms) (db_outbox db)\<rparr>"
    using rows by simp
  have "length ms = length ?rows"
    using arg_cong [OF conjunct1 [OF rows], of length]
      arg_cong [OF mapE_scanMessage_ids [OF scan], of length] by (simp only: length_map)
  then show "int (length ms) \<le> limit" using limit by simp
  have eq: "m_ID ` set ms = ob_id ` set ?rows"
    using ids arg_cong [OF mapE_scanMessage_ids [OF scan], of set] by (simp only: set_map)
  show "\<forall>m \<in> set ms. \<exists>r \<in> set (db_outbox db). ob_id r = m_ID m \<and> claimable now r"
  proof
    fix m
    assume "m \<in> set ms"
    then have "m_ID m \<in> ob_id ` set ?rows" using eq by blast
    then obtain r where "r \<in> set ?rows" "ob_id r = m_ID m" by auto
    then show "\<exists>r \<in> set (db_outbox db). ob_id r = m_ID m \<and> claimable now r" using sel by blast
  qed
qed

section \<open>The dispatcher over any store\<close>

text \<open>
  The interface \<open>Store\<close> as the dispatcher uses it: a claim hands out messages with distinct
  identifiers, each owned by its lease token; marking a message works exactly while its token
  owns it, publishes it, and disturbs neither the ownership nor the publication of any other.
\<close>

locale outbox_store =
  fixes inv :: "DB \<Rightarrow> bool"
    and owns :: "uuid \<Rightarrow> uuid \<Rightarrow> DB \<Rightarrow> bool"
    and is_published :: "uuid \<Rightarrow> DB \<Rightarrow> bool"
    and claim :: "time \<Rightarrow> duration \<Rightarrow> int \<Rightarrow> DB \<Rightarrow> (Message list \<times> DB) result"
    and mark_published :: "uuid \<Rightarrow> uuid \<Rightarrow> time \<Rightarrow> DB \<Rightarrow> DB result"
    and mark_retry :: "uuid \<Rightarrow> uuid \<Rightarrow> time \<Rightarrow> string \<Rightarrow> int \<Rightarrow> DB \<Rightarrow> DB result"
  assumes claim_distinct: "claim now lease limit db = Inr (ms, db') \<Longrightarrow> inv db \<Longrightarrow> distinct (map m_ID ms)"
    and claim_owns: "claim now lease limit db = Inr (ms, db') \<Longrightarrow> inv db \<Longrightarrow> m \<in> set ms \<Longrightarrow>
      owns (m_ID m) (m_Token m) db'"
    and published_Inr: "owns i t db \<Longrightarrow> \<exists>db'. mark_published i t now db = Inr db'"
    and published_done: "mark_published i t now db = Inr db' \<Longrightarrow> is_published i db'"
    and published_owns: "mark_published i t now db = Inr db' \<Longrightarrow> i' \<noteq> i \<Longrightarrow> owns i' t' db \<Longrightarrow> owns i' t' db'"
    and published_keeps: "mark_published i t now db = Inr db' \<Longrightarrow> is_published i' db \<Longrightarrow> is_published i' db'"
    and retry_Inr: "owns i t db \<Longrightarrow> 1 \<le> mx \<Longrightarrow> \<exists>db'. mark_retry i t nx e mx db = Inr db'"
    and retry_owns: "mark_retry i t nx e mx db = Inr db' \<Longrightarrow> i' \<noteq> i \<Longrightarrow> owns i' t' db \<Longrightarrow> owns i' t' db'"
    and retry_keeps: "mark_retry i t nx e mx db = Inr db' \<Longrightarrow> is_published i' db \<Longrightarrow> is_published i' db'"
begin

lemma loop_keeps_published:
  "is_published i db \<Longrightarrow>
     is_published i (snd (dispatch_loop mark_published mark_retry publish config now ms report db))"
  by (induction ms arbitrary: report db)
    (auto split: option.splits sum.splits simp: Let_def intro: published_keeps retry_keeps)

lemma loop_exact:
  assumes "\<And>m. m \<in> set ms \<Longrightarrow> owns (m_ID m) (m_Token m) db" "distinct (map m_ID ms)"
    "1 \<le> dc_MaxAttempts config"
    "dispatch_loop mark_published mark_retry publish config now ms report db = (report', db')"
  shows "dr_Published report' = dr_Published report + count_rows (\<lambda>m. publish m = None) ms \<and>
    dr_Failed report' = dr_Failed report + count_rows (\<lambda>m. publish m \<noteq> None) ms \<and>
    dr_Retried report' + dr_Poisoned report' =
      dr_Retried report + dr_Poisoned report + count_rows (\<lambda>m. publish m \<noteq> None) ms \<and>
    dr_Claimed report' = dr_Claimed report \<and>
    (\<forall>m \<in> set ms. publish m = None \<longrightarrow> is_published (m_ID m) db')"
  using assms
proof (induction ms arbitrary: report db)
  case Nil
  then show ?case by (simp add: count_rows_def)
next
  case (Cons m ms)
  have own: "owns (m_ID m) (m_Token m) db" using Cons.prems(1) by simp
  show ?case
  proof (cases "publish m")
    case None
    from published_Inr [OF own] obtain db1 where db1: "mark_published (m_ID m) (m_Token m) now db = Inr db1"
      by blast
    let ?report = "report\<lparr>dr_Published := dr_Published report + 1\<rparr>"
    have loop: "dispatch_loop mark_published mark_retry publish config now ms ?report db1 = (report', db')"
      using Cons.prems(4) None db1 by simp
    have "m_ID n \<noteq> m_ID m" if "n \<in> set ms" for n
      using Cons.prems(2) that by (metis distinct.simps(2) image_eqI list.set_map list.simps(9))
    then have "owns (m_ID n) (m_Token n) db1" if "n \<in> set ms" for n
      using published_owns [OF db1] Cons.prems(1) that by simp
    note rest = Cons.IH [OF this _ Cons.prems(3) loop]
    have "is_published (m_ID m) db'"
      using loop_keeps_published [OF published_done [OF db1], of publish config now ms ?report] loop
      by simp
    then show ?thesis using rest Cons.prems(2) None by (simp add: count_rows_def)
  next
    case (Some e)
    let ?next = "now + retryDelay (dc_RetryBase config) (m_Attempts m)"
    from retry_Inr [OF own Cons.prems(3)] obtain db1 where
      db1: "mark_retry (m_ID m) (m_Token m) ?next e (dc_MaxAttempts config) db = Inr db1"
      by blast
    have "m_ID n \<noteq> m_ID m" if "n \<in> set ms" for n
      using Cons.prems(2) that by (metis distinct.simps(2) image_eqI list.set_map list.simps(9))
    then have "owns (m_ID n) (m_Token n) db1" if "n \<in> set ms" for n
      using retry_owns [OF db1] Cons.prems(1) that by simp
    note rest = Cons.IH [OF this _ Cons.prems(3)]
    show ?thesis
      using Cons.prems(2,4) Some db1 rest by (auto simp: Let_def count_rows_def split: if_splits)
  qed
qed

lemma dispatch_exact:
  assumes "Outbox_Dispatch claim mark_published mark_retry publish config now limit db = Inr (report, db')"
    "inv db" "1 \<le> dc_MaxAttempts config"
  shows "\<exists>ms db1. claim now (dc_LeaseDuration config) limit db = Inr (ms, db1) \<and>
    dr_Claimed report = int (length ms) \<and>
    dr_Published report = count_rows (\<lambda>m. publish m = None) ms \<and>
    dr_Failed report = count_rows (\<lambda>m. publish m \<noteq> None) ms \<and>
    dr_Retried report + dr_Poisoned report = dr_Failed report \<and>
    (\<forall>m \<in> set ms. publish m = None \<longrightarrow> is_published (m_ID m) db')"
proof -
  from assms(1) obtain ms db1 where
    claim: "claim now (dc_LeaseDuration config) limit db = Inr (ms, db1)"
    and loop: "dispatch_loop mark_published mark_retry publish config now ms
      \<lparr>dr_Claimed = int (length ms), dr_Published = 0, dr_Retried = 0, dr_Poisoned = 0,
       dr_Failed = 0, dr_Failures = []\<rparr> db1 = (report, db')"
    by (auto simp: Outbox_Dispatch_def bindE_Inr split: if_splits)
  note exact = loop_exact [OF claim_owns [OF claim assms(2)] claim_distinct [OF claim assms(2)] assms(3) loop]
  show ?thesis by (intro exI [of _ ms] exI [of _ db1]) (use claim exact in simp)
qed

end

section \<open>The repository is such a store\<close>

definition row_published :: "uuid \<Rightarrow> DB \<Rightarrow> bool" where
  "row_published i db \<longleftrightarrow> (\<exists>r \<in> set (db_outbox db). ob_id r = i \<and> ob_state r = Published)"

definition row_owned :: "uuid \<Rightarrow> uuid \<Rightarrow> DB \<Rightarrow> bool" where
  "row_owned i t db \<longleftrightarrow> (\<exists>r \<in> set (db_outbox db). owned i t r)"

definition outbox_keys :: "DB \<Rightarrow> bool" where
  "outbox_keys db \<longleftrightarrow> distinct (map ob_id (db_outbox db))"

lemma MarkPublished_Inr:
  "MarkPublished i t now db = Inr db' \<longleftrightarrow> row_owned i t db \<and>
     db' = db\<lparr>db_outbox := rows_update (owned i t)
       (\<lambda>r. r\<lparr>ob_state := Published, ob_published := Some now, ob_token := None,
              ob_until := None, ob_error := None\<rparr>) (db_outbox db)\<rparr>"
  by (auto simp: MarkPublished_def row_owned_def list_ex_iff)

lemma MarkRetry_Inr:
  "MarkRetry i t nx e mx db = Inr db' \<longleftrightarrow> 1 \<le> mx \<and> row_owned i t db \<and>
     db' = db\<lparr>db_outbox := rows_update (owned i t)
       (\<lambda>r. r\<lparr>ob_state := (if ob_attempts r \<ge> mx then OutboxFailed else Pending),
              ob_available := nx, ob_error := Some (truncateError e),
              ob_token := None, ob_until := None\<rparr>) (db_outbox db)\<rparr>"
  by (auto simp: MarkRetry_def row_owned_def list_ex_iff)

lemma rows_update_keeps:
  "\<exists>r \<in> set rows. Q r \<Longrightarrow> (\<And>r. Q r \<Longrightarrow> \<not> P r) \<Longrightarrow> \<exists>r \<in> set (rows_update P f rows). Q r"
  by (meson rows_update_miss)

interpretation repo_store: outbox_store outbox_keys row_owned row_published "Claim tok" MarkPublished MarkRetry
  for tok
proof unfold_locales
  fix now lease limit db ms db' m
  assume claim: "Claim tok now lease limit db = Inr (ms, db')" and inv: "outbox_keys db"
  note facts = Claim_Inr [OF claim inv [unfolded outbox_keys_def]]
  show "distinct (map m_ID ms)" by (rule facts(1))
  assume m: "m \<in> set ms"
  then obtain r where "r \<in> set (db_outbox db)" "ob_id r = m_ID m" using facts(4) by blast
  then have "claim_row now lease (tok (m_ID m)) r \<in> set (db_outbox db')"
    using m facts(5) by (force simp: claimed_rows_def)
  with \<open>ob_id r = m_ID m\<close> m facts(2) show "row_owned (m_ID m) (m_Token m) db'"
    unfolding row_owned_def owned_def by (intro bexI [of _ "claim_row now lease (tok (m_ID m)) r"]) auto
next
  fix i t db now
  assume "row_owned i t db"
  then show "\<exists>db'. MarkPublished i t now db = Inr db'" by (simp add: MarkPublished_Inr)
next
  fix i t now db db'
  assume "MarkPublished i t now db = Inr db'"
  then obtain r where r: "r \<in> set (db_outbox db)" "owned i t r"
    and db': "db' = db\<lparr>db_outbox := rows_update (owned i t)
       (\<lambda>r. r\<lparr>ob_state := Published, ob_published := Some now, ob_token := None,
              ob_until := None, ob_error := None\<rparr>) (db_outbox db)\<rparr>"
    by (auto simp: MarkPublished_Inr row_owned_def)
  let ?f = "\<lambda>r. r\<lparr>ob_state := Published, ob_published := Some now, ob_token := None,
              ob_until := None, ob_error := None\<rparr>"
  have "?f r \<in> set (db_outbox db')"
    using rows_update_hit [where P = "owned i t" and f = ?f, OF r] db' by simp
  then show "row_published i db'"
    unfolding row_published_def by (rule bexI [rotated]) (use r(2) in \<open>simp add: owned_def\<close>)
next
  fix i t now db db' i' t'
  assume "MarkPublished i t now db = Inr db'" "i' \<noteq> i" "row_owned i' t' db"
  then show "row_owned i' t' db'"
    unfolding row_owned_def by (auto simp: MarkPublished_Inr owned_def intro!: rows_update_keeps)
next
  fix i t now db db' i'
  assume "MarkPublished i t now db = Inr db'" "row_published i' db"
  then show "row_published i' db'"
    unfolding row_published_def by (auto simp: MarkPublished_Inr owned_def intro!: rows_update_keeps)
next
  fix i t nx e mx db
  assume "row_owned i t db" "1 \<le> (mx :: int)"
  then show "\<exists>db'. MarkRetry i t nx e mx db = Inr db'" by (simp add: MarkRetry_Inr)
next
  fix i t nx e mx db db' i' t'
  assume "MarkRetry i t nx e mx db = Inr db'" "i' \<noteq> i" "row_owned i' t' db"
  then show "row_owned i' t' db'"
    unfolding row_owned_def by (auto simp: MarkRetry_Inr owned_def intro!: rows_update_keeps)
next
  fix i t nx e mx db db' i'
  assume "MarkRetry i t nx e mx db = Inr db'" "row_published i' db"
  then show "row_published i' db'"
    unfolding row_published_def by (auto simp: MarkRetry_Inr owned_def intro!: rows_update_keeps)
qed

end
