(* ===== verification/Authz.thy ===== *)
theory Authz
  imports Prelude
begin

text \<open>
  The authenticated principal (\<open>internal/auth/principal.go\<close>) and the authorization policy
  every service consults (\<open>internal/authz/policy.go\<close>): scopes, the owner check, and which
  scopes a principal may grant to an API key.
\<close>

section \<open>Principals\<close>

datatype Role = RoleAdmin | RoleUser | RoleService | RoleOther string

record Principal =
  prin_UserID :: uuid
  prin_Role :: Role
  prin_Scopes :: "string list"
  prin_AuthMethod :: string

abbreviation AuthMethodBearer :: string where "AuthMethodBearer \<equiv> ''bearer''"
abbreviation AuthMethodAPIKey :: string where "AuthMethodAPIKey \<equiv> ''api-key''"

section \<open>Policy\<close>

abbreviation ScopeDatasetsRead :: string where "ScopeDatasetsRead \<equiv> ''datasets:read''"
abbreviation ScopeDatasetsWrite :: string where "ScopeDatasetsWrite \<equiv> ''datasets:write''"
abbreviation ScopeJobsRead :: string where "ScopeJobsRead \<equiv> ''jobs:read''"
abbreviation ScopeJobsWrite :: string where "ScopeJobsWrite \<equiv> ''jobs:write''"
abbreviation ScopeArtifactsRead :: string where "ScopeArtifactsRead \<equiv> ''artifacts:read''"

definition knownScopes :: "string list" where
  "knownScopes =
     [ScopeDatasetsRead, ScopeDatasetsWrite, ScopeJobsRead, ScopeJobsWrite, ScopeArtifactsRead]"

definition DefaultUserScopes :: "string list" where
  "DefaultUserScopes =
     [ScopeDatasetsRead, ScopeDatasetsWrite, ScopeJobsRead, ScopeJobsWrite, ScopeArtifactsRead]"

definition IsKnownScope :: "string \<Rightarrow> bool" where
  "IsKnownScope scope \<longleftrightarrow> scope \<in> set knownScopes"

definition HasScope :: "Principal \<Rightarrow> string \<Rightarrow> bool" where
  "HasScope p scope =
     (if prin_UserID p = uuid_Nil \<or> \<not> IsKnownScope scope then False
      else if prin_Role p = RoleAdmin \<and> prin_AuthMethod p \<noteq> AuthMethodAPIKey then True
      else scope \<in> set (prin_Scopes p))"

definition RequireScope :: "Principal \<Rightarrow> string \<Rightarrow> unit result" where
  "RequireScope p scope =
     (if prin_UserID p = uuid_Nil then Inl AuthzErrUnauthenticated
      else if \<not> HasScope p scope then Inl AuthzErrForbidden
      else Inr ())"

definition CanAccessOwner :: "Principal \<Rightarrow> uuid \<Rightarrow> string \<Rightarrow> bool" where
  "CanAccessOwner p ownerID scope =
     (if ownerID = uuid_Nil \<or> prin_UserID p = uuid_Nil \<or> \<not> HasScope p scope then False
      else prin_Role p = RoleAdmin \<or> prin_UserID p = ownerID)"

text \<open>The loop over the requested scopes, with the set of those already seen.\<close>

fun grantable_loop :: "Principal \<Rightarrow> string list \<Rightarrow> string list \<Rightarrow> unit result" where
  "grantable_loop p seen [] = Inr ()"
| "grantable_loop p seen (scope # rest) =
     (if scope \<in> set seen then Inl AuthzErrInvalidScope
      else if \<not> IsKnownScope scope \<or> \<not> HasScope p scope then Inl AuthzErrInvalidScope
      else grantable_loop p (scope # seen) rest)"

definition ValidateGrantableScopes :: "Principal \<Rightarrow> string list \<Rightarrow> unit result" where
  "ValidateGrantableScopes p requested = grantable_loop p [] requested"

section \<open>What the policy guarantees\<close>

lemma RequireScope_Inr [result_simps]: "RequireScope p scope = Inr u \<longleftrightarrow> HasScope p scope"
  by (auto simp: RequireScope_def HasScope_def)

lemma HasScope_known: "HasScope p scope \<Longrightarrow> IsKnownScope scope \<and> prin_UserID p \<noteq> uuid_Nil"
  by (auto simp: HasScope_def split: if_splits)

lemma CanAccessOwner_HasScope: "CanAccessOwner p owner scope \<Longrightarrow> HasScope p scope"
  by (auto simp: CanAccessOwner_def split: if_splits)

lemma CanAccessOwner_owner:
  "CanAccessOwner p owner scope \<Longrightarrow> prin_Role p = RoleAdmin \<or> owner = prin_UserID p"
  by (auto simp: CanAccessOwner_def split: if_splits)

lemma grantable_loop_iff:
  "grantable_loop p seen req = Inr () \<longleftrightarrow>
     distinct req \<and> set req \<inter> set seen = {} \<and> (\<forall>s \<in> set req. HasScope p s)"
  by (induction p seen req rule: grantable_loop.induct) (auto dest: HasScope_known)

end
