(* ===== verification/Uploads.thy ===== *)
theory Uploads
  imports Prelude
begin

text \<open>
  Names, declared formats, prefixes and checksums of uploaded files:
  \<open>internal/upload/validation.go\<close>. Strings are byte strings. \<open>json.Valid\<close> is an argument.
\<close>

abbreviation SniffBytes :: nat where "SniffBytes \<equiv> 65536"

abbreviation FormatCSV :: string where "FormatCSV \<equiv> ''CSV''"
abbreviation FormatJSONL :: string where "FormatJSONL \<equiv> ''JSONL''"
abbreviation FormatParquet :: string where "FormatParquet \<equiv> ''PARQUET''"

section \<open>Functions of the standard library\<close>

text \<open>\<open>strings.ContainsAny\<close> for ASCII characters.\<close>

definition ContainsAny :: "string \<Rightarrow> string \<Rightarrow> bool" where
  "ContainsAny s chars \<longleftrightarrow> list_ex (\<lambda>c. c \<in> set chars) s"

abbreviation has_newline :: "string \<Rightarrow> bool" where
  "has_newline s \<equiv> ContainsAny s [CHR 0x0D, CHR 0x0A]"

text \<open>
  \<open>strings.ToLower\<close> as far as a comparison with ASCII text can see it: besides the ASCII
  capitals only U+0130 and U+212A become ASCII letters.
\<close>

definition lower_char :: "char \<Rightarrow> char" where
  "lower_char c = (if is_upper c then char_of ((of_char c :: nat) + 32) else c)"

fun ToLower :: "string \<Rightarrow> string" where
  "ToLower (a # b # c # rest) =
    (if a = CHR 0xC4 \<and> b = CHR 0xB0 then CHR ''i'' # ToLower (c # rest)
     else if a = CHR 0xE2 \<and> b = CHR 0x84 \<and> c = CHR 0xAA then CHR ''k'' # ToLower rest
     else lower_char a # ToLower (b # c # rest))"
| "ToLower [a, b] = (if a = CHR 0xC4 \<and> b = CHR 0xB0 then ''i'' else [lower_char a, lower_char b])"
| "ToLower [a] = [lower_char a]"
| "ToLower [] = []"

text \<open>\<open>utf8.Valid\<close>: the well-formed sequences of one to four bytes.\<close>

definition byte_in :: "nat \<Rightarrow> nat \<Rightarrow> char \<Rightarrow> bool" where
  "byte_in lo hi c \<longleftrightarrow> lo \<le> of_char c \<and> of_char c \<le> hi"

fun utf8_Valid :: "string \<Rightarrow> bool" where
  "utf8_Valid [] = True"
| "utf8_Valid (a # rest) =
    (if byte_in 0 0x7F a then utf8_Valid rest
     else if byte_in 0xC2 0xDF a then
       (case rest of b # r \<Rightarrow> byte_in 0x80 0xBF b \<and> utf8_Valid r | _ \<Rightarrow> False)
     else if byte_in 0xE0 0xEF a then
       (case rest of b # c # r \<Rightarrow>
          byte_in (if a = CHR 0xE0 then 0xA0 else 0x80) (if a = CHR 0xED then 0x9F else 0xBF) b \<and>
          byte_in 0x80 0xBF c \<and> utf8_Valid r
        | _ \<Rightarrow> False)
     else if byte_in 0xF0 0xF4 a then
       (case rest of b # c # d # r \<Rightarrow>
          byte_in (if a = CHR 0xF0 then 0x90 else 0x80) (if a = CHR 0xF4 then 0x8F else 0xBF) b \<and>
          byte_in 0x80 0xBF c \<and> byte_in 0x80 0xBF d \<and> utf8_Valid r
        | _ \<Rightarrow> False)
     else False)"

text \<open>\<open>bytes.TrimSpace\<close> trims what \<open>strings.TrimSpace\<close> trims; the parts of a path on Unix.\<close>

definition filepath_Base :: "string \<Rightarrow> string" where
  "filepath_Base path =
    (if path = [] then ''.''
     else let stripped = rev (dropWhile (\<lambda>c. c = CHR ''/'') (rev path));
              base = rev (takeWhile (\<lambda>c. c \<noteq> CHR ''/'') (rev stripped))
          in if base = [] then ''/'' else base)"

definition filepath_Ext :: "string \<Rightarrow> string" where
  "filepath_Ext path =
    (let tail = takeWhile (\<lambda>c. c \<noteq> CHR ''.'' \<and> c \<noteq> CHR ''/'') (rev path);
         rest = drop (length tail) (rev path)
     in case rest of
          c # _ \<Rightarrow> if c = CHR ''.'' then CHR ''.'' # rev tail else []
        | [] \<Rightarrow> [])"

section \<open>Names and declared formats\<close>

definition NormalizeFilename :: "string \<Rightarrow> string result" where
  "NormalizeFilename value =
    (let name = TrimSpace value
     in if name = [] \<or> length name > 255 \<or> name = ''.'' \<or> name = ''..'' \<or> ContainsAny name [CHR ''/'', CHR 0x5C]
        then Inl UploadErrUnsafeFilename
        else if filepath_Base name \<noteq> name then Inl UploadErrUnsafeFilename
        else if list_ex (\<lambda>c. (of_char c :: nat) < 0x20 \<or> c = CHR 0x7F) name then Inl UploadErrUnsafeFilename
        else Inr name)"

definition formatFromExtension :: "string \<Rightarrow> string" where
  "formatFromExtension extension =
    (let e = ToLower extension
     in if e = ''.csv'' then FormatCSV
        else if e = ''.jsonl'' \<or> e = ''.ndjson'' then FormatJSONL
        else if e = ''.parquet'' then FormatParquet
        else [])"

definition formatFromContentType :: "string \<Rightarrow> string" where
  "formatFromContentType contentType =
    (let base = ToLower (TrimSpace (takeWhile (\<lambda>c. c \<noteq> CHR '';'') contentType))
     in if base = ''text/csv'' \<or> base = ''application/csv'' then FormatCSV
        else if base = ''application/json'' \<or> base = ''application/jsonl'' \<or> base = ''application/x-ndjson'' \<or>
          base = ''text/json'' then FormatJSONL
        else if base = ''application/parquet'' \<or> base = ''application/x-parquet'' \<or>
          base = ''application/vnd.apache.parquet'' then FormatParquet
        else [])"

definition DetectDeclaredFormat :: "string \<Rightarrow> string \<Rightarrow> string result" where
  "DetectDeclaredFormat filename contentType =
    bindE (NormalizeFilename filename) (\<lambda>name.
      let byExtension = formatFromExtension (filepath_Ext name);
          byContentType = formatFromContentType contentType
      in if byExtension \<noteq> [] \<and> byContentType \<noteq> [] \<and> byExtension \<noteq> byContentType then Inl UploadErrUnsupportedFormat
         else
           let declared = (if byExtension = [] then byContentType else byExtension)
           in if declared = [] then Inl UploadErrUnsupportedFormat else Inr declared)"

section \<open>Content and checksums\<close>

definition validatePrefix :: "(string \<Rightarrow> bool) \<Rightarrow> string \<Rightarrow> string \<Rightarrow> unit result" where
  "validatePrefix jsonValid declared pre =
    (if pre = [] then Inl UploadErrInvalidContent
     else if declared = FormatParquet then
       (if length pre < 4 \<or> take 4 pre \<noteq> ''PAR1'' then Inl UploadErrInvalidContent else Inr ())
     else if declared = FormatCSV then
       (if \<not> utf8_Valid pre \<or> CHR 0x00 \<in> set pre then Inl UploadErrInvalidContent
        else if CHR '','' \<notin> set pre \<and> CHR '';'' \<notin> set pre \<and> CHR 0x09 \<notin> set pre \<and> CHR 0x0A \<notin> set pre \<and>
          CHR 0x0D \<notin> set pre then Inl UploadErrInvalidContent
        else Inr ())
     else if declared = FormatJSONL then
       (if \<not> utf8_Valid pre \<or> CHR 0x00 \<in> set pre then Inl UploadErrInvalidContent
        else
          let line = TrimSpace (takeWhile (\<lambda>c. c \<noteq> CHR 0x0A) pre)
          in if line = [] \<or> (length pre < SniffBytes \<and> \<not> jsonValid line) then Inl UploadErrInvalidContent
             else Inr ())
     else Inl UploadErrUnsupportedFormat)"

definition DetectFormat :: "(string \<Rightarrow> bool) \<Rightarrow> string \<Rightarrow> string \<Rightarrow> string \<Rightarrow> string result" where
  "DetectFormat jsonValid filename contentType pre =
    bindE (DetectDeclaredFormat filename contentType) (\<lambda>declared.
    bindE (validatePrefix jsonValid declared pre) (\<lambda>_. Inr declared))"

definition is_hex :: "char \<Rightarrow> bool" where
  "is_hex c \<longleftrightarrow> is_digit c \<or> byte_in 97 102 c \<or> byte_in 65 70 c"

definition NormalizeChecksum :: "string \<Rightarrow> string result" where
  "NormalizeChecksum value =
    (let checksum = ToLower (TrimSpace value)
     in if length checksum = 64 \<and> list_all is_hex checksum then Inr checksum else Inl UploadErrInvalidChecksum)"

section \<open>What is accepted\<close>

lemma NormalizeFilename_safe:
  "NormalizeFilename value = Inr name \<Longrightarrow>
   name = TrimSpace value \<and> name \<noteq> [] \<and> length name \<le> 255 \<and> name \<noteq> ''.'' \<and> name \<noteq> ''..'' \<and>
   CHR ''/'' \<notin> set name \<and> CHR 0x5C \<notin> set name \<and> (\<forall>c \<in> set name. 0x20 \<le> (of_char c :: nat) \<and> c \<noteq> CHR 0x7F)"
  unfolding NormalizeFilename_def Let_def ContainsAny_def
  by (auto simp: list_ex_iff not_less split: if_splits)

text \<open>A name without a slash is its own base, so that check never fires.\<close>

lemma filepath_Base_id: "CHR ''/'' \<notin> set name \<Longrightarrow> name \<noteq> [] \<Longrightarrow> filepath_Base name = name"
proof -
  assume name: "CHR ''/'' \<notin> set name" "name \<noteq> []"
  have "dropWhile (\<lambda>c. c = CHR ''/'') (rev name) = rev name"
    using name(1) last_in_set [OF name(2)] by (auto simp: dropWhile_eq_self_iff hd_rev)
  moreover have "takeWhile (\<lambda>c. c \<noteq> CHR ''/'') (rev name) = rev name"
    using name by (auto simp: takeWhile_eq_all_conv)
  ultimately show ?thesis
    unfolding filepath_Base_def Let_def by (simp only: rev_rev_ident) (use name(2) in simp)
qed

lemma DetectDeclaredFormat_Inr:
  "DetectDeclaredFormat filename contentType = Inr declared \<Longrightarrow> declared \<in> {FormatCSV, FormatJSONL, FormatParquet}"
  by (auto simp: DetectDeclaredFormat_def bindE_Inr Let_def formatFromExtension_def formatFromContentType_def
      split: if_splits)

end
