(* ===== verification/Datasets.thy ===== *)
theory Datasets
  imports Schema Authz Envelope Uploads
begin

text \<open>
  Datasets and their versions (\<open>internal/dataset\<close>): the repository, where a version is
  reserved, finalized, failed or aborted together with the state of its dataset, and the service
  that authorizes the calls and drives a direct upload. \<open>lower\<close> and \<open>ilike\<close> are the functions
  \<open>LOWER\<close> and \<open>ILIKE '%...%'\<close> of the database.
\<close>

section \<open>Datasets\<close>

text \<open>\<open>CHAR_LENGTH\<close>: the bytes that do not continue a character.\<close>

definition char_length :: "string \<Rightarrow> nat" where
  "char_length s = length (filter (\<lambda>c. \<not> byte_in 0x80 0xBF c) s)"

definition add_dataset_history ::
  "uuid \<Rightarrow> string option \<Rightarrow> string \<Rightarrow> string \<Rightarrow> uuid option \<Rightarrow> DB \<Rightarrow> DB" where
  "add_dataset_history datasetID fromState toState reason actor db =
    db\<lparr>db_dataset_history := db_dataset_history db @
      [\<lparr>dh_dataset = datasetID, dh_from = fromState, dh_to = toState, dh_reason = reason, dh_actor = actor\<rparr>]\<rparr>"

definition update_dataset :: "uuid \<Rightarrow> (Dataset \<Rightarrow> Dataset) \<Rightarrow> DB \<Rightarrow> DB" where
  "update_dataset k f db = db\<lparr>db_datasets := row_update ds_id k f (db_datasets db)\<rparr>"

definition update_version :: "uuid \<Rightarrow> (Version \<Rightarrow> Version) \<Rightarrow> DB \<Rightarrow> DB" where
  "update_version k f db = db\<lparr>db_versions := row_update v_id k f (db_versions db)\<rparr>"

definition CreateDataset ::
  "(string \<Rightarrow> string) \<Rightarrow> uuid \<Rightarrow> time \<Rightarrow> uuid \<Rightarrow> string \<Rightarrow> string \<Rightarrow> DB \<Rightarrow> (Dataset \<times> DB) result" where
  "CreateDataset lower datasetID now ownerID name description db =
    (if char_length name < 1 \<or> char_length name > 120 then Inl (ErrDatabase ''dataset name check'')
     else if datasetID \<in> ds_id ` set (db_datasets db) \<or>
        list_ex (\<lambda>d. ds_deleted d = None \<and> ds_owner d = ownerID \<and> lower (ds_name d) = lower name) (db_datasets db)
     then Inl DatasetErrDatasetNameUsed
     else
       let d = \<lparr>ds_id = datasetID, ds_owner = ownerID, ds_name = name, ds_description = description,
                ds_state = ''REGISTERED'', ds_created = now, ds_updated = now, ds_deleted = None\<rparr>
       in Inr (d, add_dataset_history datasetID None (ds_state d) ''dataset_created'' (Some ownerID)
            (db\<lparr>db_datasets := db_datasets db @ [d]\<rparr>)))"

definition FindDataset :: "uuid \<Rightarrow> DB \<Rightarrow> Dataset result" where
  "FindDataset datasetID db =
    (case row_find ds_id datasetID (db_datasets db) of
       None \<Rightarrow> Inl DatasetErrDatasetNotFound
     | Some d \<Rightarrow> Inr d)"

record DatasetPage =
  dsp_Items :: "Dataset list"
  dsp_Total :: int

definition dataset_listed ::
  "(string \<Rightarrow> string \<Rightarrow> bool) \<Rightarrow> uuid option \<Rightarrow> string \<Rightarrow> string \<Rightarrow> Dataset \<Rightarrow> bool" where
  "dataset_listed ilike ownerID state name d \<longleftrightarrow>
     ds_deleted d = None \<and>
     (case ownerID of None \<Rightarrow> True | Some u \<Rightarrow> ds_owner d = u) \<and>
     (state = [] \<or> ds_state d = state) \<and>
     (name = [] \<or> ilike (ds_name d) name)"

definition ListDatasets ::
  "(string \<Rightarrow> string \<Rightarrow> bool) \<Rightarrow> uuid option \<Rightarrow> int \<Rightarrow> int \<Rightarrow> string \<Rightarrow> string \<Rightarrow> DB \<Rightarrow> DatasetPage result" where
  "ListDatasets ilike ownerID page pageSize state0 name0 db =
    (let offset = signed_take_bit 63 ((page - 1) * pageSize);
         state = TrimSpace state0;
         name = TrimSpace name0;
         rows = filter (dataset_listed ilike ownerID state name) (db_datasets db)
     in if pageSize < 0 \<or> offset < 0 then Inl (ErrDatabase ''LIMIT and OFFSET must not be negative'')
        else Inr \<lparr>dsp_Items = take (nat pageSize) (drop (nat offset) (sort_key (\<lambda>d. (- ds_created d, ds_id d)) rows)),
                  dsp_Total = int (length rows)\<rparr>)"

text \<open>The sessions of a deleted dataset that are still active are handed to the cleanup.\<close>

definition active_session :: "uuid \<Rightarrow> Session \<Rightarrow> bool" where
  "active_session datasetID s \<longleftrightarrow> us_dataset s = datasetID \<and> us_state s \<in> {Initiated, Completing, Aborting}"

definition cancel_session :: "time \<Rightarrow> Session \<Rightarrow> Session" where
  "cancel_session now s =
    s\<lparr>us_state := Aborting, us_expires := min (us_expires s) now, us_updated := now,
      us_error := Some ''dataset_deleted'', us_token := None, us_started := None\<rparr>"

definition DeleteDataset :: "time \<Rightarrow> uuid \<Rightarrow> uuid \<Rightarrow> DB \<Rightarrow> (unit \<times> DB) result" where
  "DeleteDataset now datasetID actorID db =
    (case row_find ds_id datasetID (db_datasets db) of
       None \<Rightarrow> Inl DatasetErrDatasetNotFound
     | Some d \<Rightarrow>
         if ds_state d = ''DELETED'' then Inr ((), db)
         else
           let db1 = update_dataset datasetID (\<lambda>d. d\<lparr>ds_state := ''DELETED'',
                 ds_deleted := (case ds_deleted d of None \<Rightarrow> Some now | Some t \<Rightarrow> Some t), ds_updated := now\<rparr>) db;
               db2 = db1\<lparr>db_sessions := rows_update (active_session datasetID) (cancel_session now) (db_sessions db1)\<rparr>
           in Inr ((), add_dataset_history datasetID (Some (ds_state d)) ''DELETED'' ''dataset_deleted'' (Some actorID) db2))"

section \<open>Versions\<close>

record VersionReservation =
  vr_ID :: uuid
  vr_DatasetID :: uuid
  vr_CreatedBy :: uuid
  vr_OriginalFilename :: string
  vr_ContentType :: string
  vr_Format :: string
  vr_ObjectKey :: string
  vr_ArtifactPrefix :: string
  vr_SourceInfo :: "(string \<times> string) list"

definition versions_of :: "uuid \<Rightarrow> DB \<Rightarrow> Version list" where
  "versions_of datasetID db = filter (\<lambda>v. v_dataset v = datasetID) (db_versions db)"

text \<open>\<open>COALESCE(MAX(version_number), 0) + 1\<close>\<close>

definition next_version_number :: "uuid \<Rightarrow> DB \<Rightarrow> int" where
  "next_version_number datasetID db =
    (case max_row v_number (versions_of datasetID db) of None \<Rightarrow> 1 | Some v \<Rightarrow> v_number v + 1)"

definition ReserveVersion :: "time \<Rightarrow> VersionReservation \<Rightarrow> DB \<Rightarrow> (Version \<times> DB) result" where
  "ReserveVersion now r db =
    (case row_find ds_id (vr_DatasetID r) (db_datasets db) of
       None \<Rightarrow> Inl DatasetErrDatasetNotFound
     | Some d \<Rightarrow>
         if ds_state d = ''DELETED'' then Inl DatasetErrDatasetDeleted
         else
           let number = next_version_number (vr_DatasetID r) db;
               v = \<lparr>v_id = vr_ID r, v_dataset = vr_DatasetID r, v_number = number, v_state = ''UPLOADING'',
                    v_filename = vr_OriginalFilename r, v_ctype = vr_ContentType r, v_format = vr_Format r,
                    v_size = None, v_object = vr_ObjectKey r, v_checksum = None, v_source = vr_SourceInfo r,
                    v_prefix = vr_ArtifactPrefix r, v_creator = vr_CreatedBy r, v_created = now, v_available = None\<rparr>
           in if number > 2147483647 \<or> vr_ID r \<in> v_id ` set (db_versions db) \<or> vr_ObjectKey r \<in> v_object ` set (db_versions db) \<or>
                char_length (vr_OriginalFilename r) < 1 \<or> char_length (vr_OriginalFilename r) > 255 \<or>
                vr_Format r \<notin> {FormatCSV, FormatJSONL, FormatParquet}
              then Inl (ErrDatabase ''insert version reservation'')
              else
                let db1 = db\<lparr>db_versions := db_versions db @ [v]\<rparr>
                in if ds_state d = ''UPLOADING'' then Inr (v, db1)
                   else Inr (v, add_dataset_history (vr_DatasetID r) (Some (ds_state d)) ''UPLOADING''
                     ''version_upload_started'' (Some (vr_CreatedBy r))
                     (update_dataset (vr_DatasetID r) (\<lambda>d. d\<lparr>ds_state := ''UPLOADING'', ds_updated := now\<rparr>) db1)))"

definition find_version :: "uuid \<Rightarrow> uuid \<Rightarrow> DB \<Rightarrow> Version option" where
  "find_version datasetID versionID db = find (\<lambda>v. v_id v = versionID \<and> v_dataset v = datasetID) (db_versions db)"

definition FindVersion :: "uuid \<Rightarrow> uuid \<Rightarrow> DB \<Rightarrow> Version result" where
  "FindVersion datasetID versionID db =
    (case find_version datasetID versionID db of None \<Rightarrow> Inl DatasetErrVersionNotFound | Some v \<Rightarrow> Inr v)"

definition FindVersionByID :: "uuid \<Rightarrow> DB \<Rightarrow> Version result" where
  "FindVersionByID versionID db =
    (case row_find v_id versionID (db_versions db) of
       None \<Rightarrow> Inl DatasetErrVersionNotFound
     | Some v \<Rightarrow> Inr v)"

text \<open>An actor \<open>uuid.Nil\<close> is stored as NULL.\<close>

definition nullable_actor :: "uuid \<Rightarrow> uuid option" where
  "nullable_actor actorID = (if actorID = uuid_Nil then None else Some actorID)"

text \<open>The lock of the upload session: it is this upload's and its operation still owns it.\<close>

definition fenced_session :: "uuid \<Rightarrow> uuid \<Rightarrow> uuid \<Rightarrow> uuid \<Rightarrow> DB \<Rightarrow> bool" where
  "fenced_session sessionID datasetID versionID operationToken db =
    (case find (\<lambda>s. us_id s = sessionID \<and> us_dataset s = datasetID \<and> us_version s = versionID) (db_sessions db) of
       None \<Rightarrow> False
     | Some s \<Rightarrow> us_state s = Completing \<and> us_token s = Some operationToken)"

definition lower_hex :: "string \<Rightarrow> bool" where
  "lower_hex s \<longleftrightarrow> length s = 64 \<and> list_all (\<lambda>c. is_digit c \<or> byte_in 97 102 c) s"

definition make_available :: "time \<Rightarrow> int \<Rightarrow> string \<Rightarrow> Version \<Rightarrow> Version" where
  "make_available now bytes checksum v =
    v\<lparr>v_state := ''AVAILABLE'', v_size := Some bytes, v_checksum := Some checksum, v_available := Some now\<rparr>"

definition finalizeVersion ::
  "time \<Rightarrow> uuid \<Rightarrow> uuid \<Rightarrow> uuid \<Rightarrow> int \<Rightarrow> string \<Rightarrow> uuid \<Rightarrow> uuid \<Rightarrow> DB \<Rightarrow> (Version \<times> DB) result" where
  "finalizeVersion now datasetID versionID actorID bytes checksum sessionID operationToken db =
    (case row_find ds_id datasetID (db_datasets db) of
       None \<Rightarrow> Inl DatasetErrDatasetNotFound
     | Some d \<Rightarrow>
         if ds_deleted d \<noteq> None \<or> ds_state d = ''DELETED'' then Inl DatasetErrDatasetDeleted
         else if sessionID \<noteq> uuid_Nil \<and> \<not> fenced_session sessionID datasetID versionID operationToken db
         then Inl DatasetErrVersionState
         else
           (case find_version datasetID versionID db of
              None \<Rightarrow> Inl DatasetErrVersionNotFound
            | Some v \<Rightarrow>
                if v_state v = ''AVAILABLE'' then
                  (case (v_size v, v_checksum v) of
                     (Some existingSize, Some existingChecksum) \<Rightarrow>
                       if existingSize \<noteq> bytes \<or> existingChecksum \<noteq> checksum then Inl DatasetErrVersionState
                       else Inr (v, db)
                   | _ \<Rightarrow> Inl (ErrDatabase ''read finalized version metadata''))
                else if v_state v \<noteq> ''UPLOADING'' then Inl DatasetErrVersionState
                else if bytes < 0 \<or> \<not> lower_hex checksum then Inl (ErrDatabase ''finalize dataset version'')
                else Inr (make_available now bytes checksum v,
                  add_dataset_history datasetID (Some ''UPLOADING'') ''AVAILABLE'' ''version_upload_completed''
                    (nullable_actor actorID)
                    (update_dataset datasetID
                      (\<lambda>d. if ds_deleted d = None then d\<lparr>ds_state := ''AVAILABLE'', ds_updated := now\<rparr> else d)
                      (update_version versionID (make_available now bytes checksum) db)))))"

definition FinalizeVersion ::
  "time \<Rightarrow> uuid \<Rightarrow> uuid \<Rightarrow> uuid \<Rightarrow> int \<Rightarrow> string \<Rightarrow> DB \<Rightarrow> (Version \<times> DB) result" where
  "FinalizeVersion now datasetID versionID actorID bytes checksum db =
    finalizeVersion now datasetID versionID actorID bytes checksum uuid_Nil uuid_Nil db"

definition FinalizeVersionForUpload ::
  "time \<Rightarrow> uuid \<Rightarrow> uuid \<Rightarrow> uuid \<Rightarrow> int \<Rightarrow> string \<Rightarrow> uuid \<Rightarrow> uuid \<Rightarrow> DB \<Rightarrow> (Version \<times> DB) result" where
  "FinalizeVersionForUpload now datasetID versionID actorID bytes checksum sessionID operationToken db =
    finalizeVersion now datasetID versionID actorID bytes checksum sessionID operationToken db"

text \<open>The state a dataset falls back to when an upload ends without a version.\<close>

definition restored_state :: "uuid \<Rightarrow> DB \<Rightarrow> string" where
  "restored_state datasetID db =
    (if list_ex (\<lambda>v. v_dataset v = datasetID \<and> v_state v = ''AVAILABLE'') (db_versions db)
     then ''AVAILABLE'' else ''REGISTERED'')"

definition restore_dataset :: "time \<Rightarrow> uuid \<Rightarrow> string \<Rightarrow> DB \<Rightarrow> DB" where
  "restore_dataset now datasetID state db =
    update_dataset datasetID (\<lambda>d. if ds_state d \<noteq> ''DELETED'' then d\<lparr>ds_state := state, ds_updated := now\<rparr> else d) db"

text \<open>
  Deleting the row of a version deletes its session and the parts of that session; a job that
  refers to the version forbids it.
\<close>

definition delete_version :: "uuid \<Rightarrow> DB \<Rightarrow> DB result" where
  "delete_version versionID db =
    (if list_ex (\<lambda>j. j_version j = versionID) (db_jobs db) then Inl (ErrDatabase ''delete staged version'')
     else
       let gone = us_id ` set (filter (\<lambda>s. us_version s = versionID) (db_sessions db))
       in Inr (db\<lparr>db_versions := filter (\<lambda>v. v_id v \<noteq> versionID) (db_versions db),
                  db_sessions := filter (\<lambda>s. us_version s \<noteq> versionID) (db_sessions db),
                  db_parts := filter (\<lambda>p. pt_session p \<notin> gone) (db_parts db)\<rparr>))"

definition AbortVersion :: "time \<Rightarrow> uuid \<Rightarrow> uuid \<Rightarrow> uuid \<Rightarrow> DB \<Rightarrow> (unit \<times> DB) result" where
  "AbortVersion now datasetID versionID actorID db =
    (case row_find ds_id datasetID (db_datasets db) of
       None \<Rightarrow> Inl DatasetErrDatasetNotFound
     | Some d \<Rightarrow>
         (case find_version datasetID versionID db of
            None \<Rightarrow> Inl DatasetErrVersionNotFound
          | Some v \<Rightarrow>
              if v_state v \<noteq> ''UPLOADING'' then Inl DatasetErrVersionState
              else bindE (delete_version versionID db) (\<lambda>db1.
                let nextState = (if ds_state d \<noteq> ''DELETED'' then restored_state datasetID db1 else ds_state d)
                in Inr ((), add_dataset_history datasetID (Some ''UPLOADING'') nextState ''version_upload_aborted''
                     (nullable_actor actorID) (restore_dataset now datasetID nextState db1)))))"

definition truncateStateReason :: "string \<Rightarrow> string" where
  "truncateStateReason reason =
    (if length reason > 200 then take 200 reason else if reason = [] then ''version_upload_failed'' else reason)"

definition FailVersion :: "time \<Rightarrow> uuid \<Rightarrow> uuid \<Rightarrow> uuid \<Rightarrow> string \<Rightarrow> DB \<Rightarrow> (unit \<times> DB) result" where
  "FailVersion now datasetID versionID actorID reason db =
    (case row_find ds_id datasetID (db_datasets db) of
       None \<Rightarrow> Inl DatasetErrDatasetNotFound
     | Some d \<Rightarrow>
         (case find_version datasetID versionID db of
            None \<Rightarrow> Inl DatasetErrVersionNotFound
          | Some v \<Rightarrow>
              if v_state v = ''FAILED'' then Inr ((), db)
              else if v_state v \<noteq> ''UPLOADING'' then Inl DatasetErrVersionState
              else
                let db1 = update_version versionID (\<lambda>v. v\<lparr>v_state := ''FAILED''\<rparr>) db;
                    nextState = (if ds_state d \<noteq> ''DELETED'' then restored_state datasetID db1 else ds_state d)
                in Inr ((), add_dataset_history datasetID (Some ''UPLOADING'') nextState (truncateStateReason reason)
                     (nullable_actor actorID) (restore_dataset now datasetID nextState db1))))"

definition ListVersions :: "uuid \<Rightarrow> DB \<Rightarrow> Version list" where
  "ListVersions datasetID db = sort_key (\<lambda>v. - v_number v) (versions_of datasetID db)"

section \<open>Service\<close>

definition ObjectKey :: "Runtime \<Rightarrow> uuid \<Rightarrow> uuid \<Rightarrow> string" where
  "ObjectKey rt datasetID versionID =
    ''datasets/'' @ uuid_String rt datasetID @ ''/versions/'' @ uuid_String rt versionID @ ''/raw''"

definition ArtifactPrefix :: "Runtime \<Rightarrow> uuid \<Rightarrow> uuid \<Rightarrow> string" where
  "ArtifactPrefix rt datasetID versionID =
    ''artifacts/datasets/'' @ uuid_String rt datasetID @ ''/versions/'' @ uuid_String rt versionID"

definition normalizeContentType :: "string \<Rightarrow> string" where
  "normalizeContentType contentType =
    (let trimmed = TrimSpace contentType in if trimmed = [] then ''application/octet-stream'' else trimmed)"

definition normalizeExpectedChecksum :: "string \<Rightarrow> string result" where
  "normalizeExpectedChecksum value = (if TrimSpace value = [] then Inr [] else NormalizeChecksum value)"

definition validateDatasetName :: "string \<Rightarrow> string result" where
  "validateDatasetName value =
    (let name = TrimSpace value
     in if name = [] \<or> length name > 120 \<or> has_newline name then Inl DatasetErrInvalidInput else Inr name)"

definition validateDescription :: "string \<Rightarrow> string result" where
  "validateDescription value =
    (let description = TrimSpace value
     in if length description > 2000 \<or> has_newline description then Inl DatasetErrInvalidInput else Inr description)"

definition Dataset_normalizePagination :: "int \<Rightarrow> int \<Rightarrow> (int \<times> int) result" where
  "Dataset_normalizePagination page0 pageSize0 =
    (let page = (if page0 = 0 then 1 else page0);
         pageSize = (if pageSize0 = 0 then 20 else pageSize0)
     in if page < 1 \<or> pageSize < 1 \<or> pageSize > 100 then Inl DatasetErrInvalidInput else Inr (page, pageSize))"

definition isDatasetState :: "string \<Rightarrow> bool" where
  "isDatasetState state \<longleftrightarrow>
     state \<in> {''REGISTERED'', ''UPLOADING'', ''AVAILABLE'', ''PROCESSING'', ''READY'', ''FAILED'', ''DELETED''}"

definition Dataset_Service_Create ::
  "(string \<Rightarrow> string) \<Rightarrow> uuid \<Rightarrow> time \<Rightarrow> Principal \<Rightarrow> string \<Rightarrow> string \<Rightarrow> DB \<Rightarrow> (Dataset \<times> DB) result" where
  "Dataset_Service_Create lower datasetID now prin name description db =
    bindE (RequireScope prin ScopeDatasetsWrite) (\<lambda>_.
    if prin_UserID prin = uuid_Nil then Inl AuthzErrUnauthenticated
    else
      bindE (validateDatasetName name) (\<lambda>validatedName.
      bindE (validateDescription description) (\<lambda>validatedDescription.
      CreateDataset lower datasetID now (prin_UserID prin) validatedName validatedDescription db)))"

definition Dataset_Service_List ::
  "(string \<Rightarrow> string \<Rightarrow> bool) \<Rightarrow> Principal \<Rightarrow> int \<Rightarrow> int \<Rightarrow> string \<Rightarrow> string \<Rightarrow> DB \<Rightarrow> DatasetPage result" where
  "Dataset_Service_List ilike prin page pageSize state name db =
    bindE (RequireScope prin ScopeDatasetsRead) (\<lambda>_.
    bindE (Dataset_normalizePagination page pageSize) (\<lambda>(page, pageSize).
    if state \<noteq> [] \<and> \<not> isDatasetState state then Inl DatasetErrInvalidInput
    else ListDatasets ilike (if prin_Role prin \<noteq> RoleAdmin then Some (prin_UserID prin) else None) page pageSize state name db))"

text \<open>The check that \<open>Get\<close>, \<open>Delete\<close> and \<open>UploadVersion\<close> make first.\<close>

definition authorized_dataset :: "Principal \<Rightarrow> uuid \<Rightarrow> string \<Rightarrow> DB \<Rightarrow> Dataset result" where
  "authorized_dataset prin datasetID scope db =
    bindE (RequireScope prin scope) (\<lambda>_.
    bindE (FindDataset datasetID db) (\<lambda>d.
    if ds_deleted d \<noteq> None \<or> \<not> CanAccessOwner prin (ds_owner d) scope then Inl AuthzErrForbidden else Inr d))"

definition Dataset_Service_Get :: "Principal \<Rightarrow> uuid \<Rightarrow> DB \<Rightarrow> (Dataset \<times> Version list) result" where
  "Dataset_Service_Get prin datasetID db =
    bindE (authorized_dataset prin datasetID ScopeDatasetsRead db) (\<lambda>d. Inr (d, ListVersions datasetID db))"

definition Dataset_Service_Delete :: "time \<Rightarrow> Principal \<Rightarrow> uuid \<Rightarrow> DB \<Rightarrow> (unit \<times> DB) result" where
  "Dataset_Service_Delete now prin datasetID db =
    bindE (authorized_dataset prin datasetID ScopeDatasetsWrite db) (\<lambda>_.
    DeleteDataset now datasetID (prin_UserID prin) db)"

text \<open>
  A direct upload. The object store is an argument: what storing a stream under a key answers,
  the size it reports and how many bytes it read, and the answers of \<open>Head\<close> and \<open>Delete\<close>. The
  calls of the repository are transactions of their own under the context of the request, so a
  failed upload leaves what its cleanup leaves, and the cleanup runs under the same context. \<open>ur_ReadFails\<close> tells that reading the first bytes of the body fails.
\<close>

record ObjectStore =
  os_Put :: "string \<Rightarrow> string \<Rightarrow> string \<Rightarrow> (int \<times> nat) result"
  os_Head :: "string \<Rightarrow> int result"
  os_Delete :: "string \<Rightarrow> unit result"

record UploadRequest =
  ur_Filename :: string
  ur_ContentType :: string
  ur_ExpectedChecksum :: string
  ur_ContentLength :: int
  ur_Body :: "string option"
  ur_ReadFails :: bool

text \<open>\<open>errors.Join\<close>: the errors there are, and no error when there are none.\<close>

definition error_list :: "unit result list \<Rightarrow> go_error list" where
  "error_list rs = List.map_filter (\<lambda>r. case r of Inl e \<Rightarrow> Some e | Inr _ \<Rightarrow> None) rs"

definition errors_Join :: "unit result list \<Rightarrow> unit result" where
  "errors_Join rs = (if error_list rs = [] then Inr () else Inl (ErrJoin (error_list rs)))"

definition cleanupUpload ::
  "Context \<Rightarrow> ObjectStore \<Rightarrow> time \<Rightarrow> uuid \<Rightarrow> uuid \<Rightarrow> uuid \<Rightarrow> string \<Rightarrow> go_error \<Rightarrow> DB \<Rightarrow> go_error \<times> DB" where
  "cleanupUpload ctx os now datasetID versionID actorID objectKey primary db =
    (let deleteErr = os_Delete os objectKey;
         (abortErr, db') = run_tx (in_context ctx ''AbortVersion'' (AbortVersion now datasetID versionID actorID)) db
     in (if isl deleteErr \<or> isl abortErr then ErrJoin (error_list [Inl primary, deleteErr, abortErr]) else primary, db'))"

definition readPrefix :: "UploadRequest \<Rightarrow> string result" where
  "readPrefix request =
    (case ur_Body request of
       None \<Rightarrow> Inl DatasetErrInvalidInput
     | Some body \<Rightarrow> if ur_ReadFails request then Inl DatasetErrInvalidInput else Inr (take SniffBytes body))"

text \<open>Everything up to the reservation; an error of the upload package becomes invalid input.\<close>

definition invalid_input :: "'a result \<Rightarrow> 'a result" where
  "invalid_input r = (case r of Inl _ \<Rightarrow> Inl DatasetErrInvalidInput | Inr x \<Rightarrow> Inr x)"

definition prepare_upload ::
  "Runtime \<Rightarrow> (string \<Rightarrow> bool) \<Rightarrow> int \<Rightarrow> uuid \<Rightarrow> Principal \<Rightarrow> uuid \<Rightarrow> UploadRequest \<Rightarrow> DB \<Rightarrow>
   (VersionReservation \<times> string) result" where
  "prepare_upload rt jsonValid maxBytes versionID prin datasetID request db =
    bindE (authorized_dataset prin datasetID ScopeDatasetsWrite db) (\<lambda>_.
    if ur_Body request = None then Inl DatasetErrInvalidInput
    else if ur_ContentLength request > maxBytes then Inl DatasetErrUploadTooLarge
    else
      bindE (invalid_input (NormalizeFilename (ur_Filename request))) (\<lambda>filename.
      bindE (readPrefix request) (\<lambda>pre.
      let contentType = normalizeContentType (ur_ContentType request)
      in bindE (invalid_input (DetectFormat jsonValid filename contentType pre)) (\<lambda>declared.
         bindE (invalid_input (normalizeExpectedChecksum (ur_ExpectedChecksum request))) (\<lambda>checksum.
         Inr (\<lparr>vr_ID = versionID, vr_DatasetID = datasetID, vr_CreatedBy = prin_UserID prin,
               vr_OriginalFilename = filename, vr_ContentType = contentType, vr_Format = declared,
               vr_ObjectKey = ObjectKey rt datasetID versionID,
               vr_ArtifactPrefix = ArtifactPrefix rt datasetID versionID, vr_SourceInfo = []\<rparr>, checksum))))))"

text \<open>What is wrong with a stored stream, when something is.\<close>

definition stored_error :: "int \<Rightarrow> int \<Rightarrow> string \<Rightarrow> int \<Rightarrow> int \<Rightarrow> string \<Rightarrow> go_error option" where
  "stored_error maxBytes contentLength checksum objectSize actualSize actualChecksum =
    (if actualSize > maxBytes then Some DatasetErrUploadTooLarge
     else if contentLength \<ge> 0 \<and> actualSize \<noteq> contentLength then Some DatasetErrUploadSizeMismatch
     else if objectSize \<ge> 0 \<and> objectSize \<noteq> actualSize then Some DatasetErrUploadSizeMismatch
     else if checksum \<noteq> [] \<and> checksum \<noteq> actualChecksum then Some DatasetErrChecksumMismatch
     else None)"

text \<open>
  Storing the stream: the bytes the store read of the body, cut one byte after the bound, and what
  follows from its answers.
\<close>

definition store_stream ::
  "Runtime \<Rightarrow> ObjectStore \<Rightarrow> int \<Rightarrow> string \<Rightarrow> string \<Rightarrow> string \<Rightarrow> UploadRequest \<Rightarrow> (int \<times> string) result" where
  "store_stream rt os maxBytes objectKey contentType checksum request =
    (let limited = take (nat (signed_take_bit 63 (maxBytes + 1))) (the (ur_Body request))
     in case os_Put os objectKey limited contentType of
          Inl _ \<Rightarrow> Inl DatasetErrObjectStorage
        | Inr (objectSize, consumed) \<Rightarrow>
            (let stored = take consumed limited;
                 actualSize = int (length stored);
                 actualChecksum = sha256_hex rt stored
             in case stored_error maxBytes (ur_ContentLength request) checksum objectSize actualSize actualChecksum of
                  Some e \<Rightarrow> Inl e
                | None \<Rightarrow>
                    if isl (os_Head os objectKey) then Inl DatasetErrObjectStorage else Inr (actualSize, actualChecksum)))"

definition UploadVersion ::
  "Runtime \<Rightarrow> (string \<Rightarrow> bool) \<Rightarrow> Context \<Rightarrow> ObjectStore \<Rightarrow> int \<Rightarrow> time \<Rightarrow> uuid \<Rightarrow> Principal \<Rightarrow> uuid \<Rightarrow> UploadRequest \<Rightarrow> DB \<Rightarrow>
   Version result \<times> DB" where
  "UploadVersion rt jsonValid ctx os maxBytes now versionID prin datasetID request db =
    (case prepare_upload rt jsonValid maxBytes versionID prin datasetID request db of
       Inl e \<Rightarrow> (Inl e, db)
     | Inr (reservation, checksum) \<Rightarrow>
         (case in_context ctx ''ReserveVersion'' (ReserveVersion now reservation) db of
            Inl e \<Rightarrow> (Inl e, db)
          | Inr (v, db1) \<Rightarrow>
              (case bindE (store_stream rt os maxBytes (v_object v) (vr_ContentType reservation) checksum request)
                  (\<lambda>(actualSize, actualChecksum).
                    in_context ctx ''FinalizeVersion''
                      (FinalizeVersion now datasetID versionID (prin_UserID prin) actualSize actualChecksum) db1) of
                 Inl e \<Rightarrow>
                   apfst Inl (cleanupUpload ctx os now datasetID versionID (prin_UserID prin) (v_object v) e db1)
               | Inr (version, db2) \<Rightarrow> (Inr version, db2))))"

end
