(* ===== verification/Jobs.thy ===== *)
theory Jobs
  imports JobValidation Lifecycle Outbox Authz Datasets
begin

text \<open>
  The job repository and service (\<open>internal/job\<close>): idempotent creation under the owner's
  quota, cancellation, manual retry, the queries, the selection of queued jobs, and the
  service that authorizes each call. The outbox writer is the argument \<open>enqueue\<close>, the
  interface \<open>outbox.Enqueuer\<close>; a value the code draws from \<open>uuid.New()\<close> or reads from the
  clock is an argument too.
\<close>

section \<open>Statements shared by the operations\<close>

abbreviation maxQueuedJobsPerOwner :: int where "maxQueuedJobsPerOwner \<equiv> 100"

definition nullString :: "string \<Rightarrow> string option" where
  "nullString value = (if value = [] then None else Some value)"

definition valueOrDefault :: "string \<Rightarrow> string \<Rightarrow> string" where
  "valueOrDefault value fallback = (if value = [] then fallback else value)"

definition truncateReason :: "string \<Rightarrow> string" where
  "truncateReason value =
    (if value = [] then ''job_state_changed'' else if length value > 200 then take 200 value else value)"

definition Job_recordHistory ::
  "uuid \<Rightarrow> job_state option \<Rightarrow> job_state \<Rightarrow> string \<Rightarrow> uuid \<Rightarrow> DB \<Rightarrow> DB" where
  "Job_recordHistory jobID fromState toState reason actorID db =
    add_history jobID fromState toState (truncateReason reason)
      (if actorID \<noteq> uuid_Nil then Some actorID else None) db"

text \<open>
  The upsert of the counter row, whose conflict branch has the condition that the queued
  count is below the limit; no row comes back when the condition fails.
\<close>

definition incrementQuota :: "time \<Rightarrow> uuid \<Rightarrow> DB \<Rightarrow> DB result" where
  "incrementQuota now ownerID db =
    (case row_find q_owner ownerID (db_quotas db) of
       None \<Rightarrow> Inr (db\<lparr>db_quotas := db_quotas db @
         [\<lparr>q_owner = ownerID, q_queued = 1, q_active = 0, q_updated = now\<rparr>]\<rparr>)
     | Some q \<Rightarrow>
         if q_queued q < maxQueuedJobsPerOwner
         then Inr (update_quota ownerID (\<lambda>q. q\<lparr>q_queued := q_queued q + 1, q_updated := now\<rparr>) db)
         else Inl JobErrQuotaExceeded)"

definition decrementQuota :: "time \<Rightarrow> uuid \<Rightarrow> DB \<Rightarrow> DB" where
  "decrementQuota now ownerID db =
    update_quota ownerID (\<lambda>q. q\<lparr>q_queued := max (q_queued q - 1) 0, q_updated := now\<rparr>) db"

definition getJob :: "uuid \<Rightarrow> DB \<Rightarrow> Job result" where
  "getJob jobID db = (case find_job jobID db of None \<Rightarrow> Inl JobErrJobNotFound | Some j \<Rightarrow> Inr j)"

definition enqueueEnvelopeWithRoutingKey ::
  "(time \<Rightarrow> Message \<Rightarrow> DB \<Rightarrow> DB result) \<Rightarrow> time \<Rightarrow> Envelope \<Rightarrow> string \<Rightarrow> DB \<Rightarrow> DB result" where
  "enqueueEnvelopeWithRoutingKey enqueue now envelope routingKey db =
    (let message = command_message envelope CommandsExchange routingKey 0
     in bindE (Message_Validate message) (\<lambda>_. enqueue now message db))"

definition enqueueEnvelope ::
  "(time \<Rightarrow> Message \<Rightarrow> DB \<Rightarrow> DB result) \<Rightarrow> time \<Rightarrow> Envelope \<Rightarrow> DB \<Rightarrow> DB result" where
  "enqueueEnvelope enqueue now envelope db =
    enqueueEnvelopeWithRoutingKey enqueue now envelope (env_MessageType envelope) db"

section \<open>Creation\<close>

definition findIdempotentJob :: "uuid \<Rightarrow> string \<Rightarrow> string \<Rightarrow> DB \<Rightarrow> Job option result" where
  "findIdempotentJob ownerID key fingerprint db =
    (case row_find (\<lambda>r. (ik_owner r, ik_key r)) (ownerID, key) (db_idem db) of
       None \<Rightarrow> Inr None
     | Some r \<Rightarrow>
         if ik_fingerprint r \<noteq> fingerprint then Inl JobErrIdempotencyConflict
         else bindE (getJob (ik_job r) db) (\<lambda>item. Inr (Some item)))"

definition lockAvailableVersion :: "CreateCommand \<Rightarrow> DB \<Rightarrow> unit result" where
  "lockAvailableVersion c db =
    (case row_find v_id (cc_DatasetVersionID c) (db_versions db) of
       None \<Rightarrow> Inl JobErrVersionNotFound
     | Some v \<Rightarrow>
         (case row_find ds_id (v_dataset v) (db_datasets db) of
            None \<Rightarrow> Inl JobErrVersionNotFound
          | Some d \<Rightarrow>
              if ds_owner d \<noteq> cc_OwnerUserID c then Inl AuthzErrForbidden
              else if ds_deleted d \<noteq> None \<or> ds_state d = ''DELETED'' then Inl JobErrVersionUnavailable
              else if v_state v \<noteq> ''AVAILABLE'' then Inl JobErrVersionUnavailable
              else Inr ()))"

definition new_job :: "uuid \<Rightarrow> CreateCommand \<Rightarrow> string \<Rightarrow> time \<Rightarrow> Job" where
  "new_job jobID c fingerprint now =
    \<lparr>j_id = jobID, j_owner = cc_OwnerUserID c, j_version = cc_DatasetVersionID c, j_state = Queued,
     j_ops = cc_Operations c, j_fingerprint = fingerprint, j_idem = nullString (cc_IdempotencyKey c),
     j_priority = cc_Priority c, j_max = cc_MaxAttempts c, j_created = now, j_updated = now,
     j_queued = Some now, j_next = None, j_started = None, j_cancel = None, j_completed = None,
     j_finished = None, j_errcode = None, j_errmsg = None\<rparr>"

text \<open>
  The record of the idempotency key. \<open>ON CONFLICT DO NOTHING\<close> returns the database
  unchanged and \<open>False\<close>; the primary key and the unique job column are errors.
\<close>

definition insert_idempotency :: "Idempotency \<Rightarrow> DB \<Rightarrow> (bool \<times> DB) result" where
  "insert_idempotency r db =
    (if (ik_owner r, ik_key r) \<in> (\<lambda>s. (ik_owner s, ik_key s)) ` set (db_idem db) then Inr (False, db)
     else if ik_id r \<in> ik_id ` set (db_idem db) \<or> ik_job r \<in> ik_job ` set (db_idem db)
       then Inl (ErrDatabase ''duplicate key'')
     else Inr (True, db\<lparr>db_idem := db_idem db @ [r]\<rparr>))"

text \<open>The identifiers one call of \<open>Create\<close> draws.\<close>

record CreateDraws =
  cd_job :: uuid
  cd_attempt :: uuid
  cd_idem :: uuid
  cd_message :: uuid

text \<open>
  The result is the job, whether it is a replay of an earlier request, and the database. When
  the idempotency record lost a race after the job was inserted, the transaction is rolled
  back and the earlier job is read again.
\<close>

definition Job_Create ::
  "Runtime \<Rightarrow> (any \<Rightarrow> unit result) \<Rightarrow> (time \<Rightarrow> Message \<Rightarrow> DB \<Rightarrow> DB result) \<Rightarrow> CreateDraws \<Rightarrow> time \<Rightarrow>
   CreateCommand \<Rightarrow> DB \<Rightarrow> ((Job \<times> bool) \<times> DB) result" where
  "Job_Create rt snapshotRules enqueue draws now c db =
    bindE (ValidateCreateCommand rt snapshotRules c) (\<lambda>fingerprint.
    bindE (if cc_IdempotencyKey c \<noteq> []
           then findIdempotentJob (cc_OwnerUserID c) (cc_IdempotencyKey c) fingerprint db
           else Inr None) (\<lambda>existing.
    case existing of
      Some item \<Rightarrow> Inr ((item, True), db)
    | None \<Rightarrow>
      bindE (lockAvailableVersion c db) (\<lambda>_.
      bindE (incrementQuota now (cc_OwnerUserID c) db) (\<lambda>db1.
      bindE (row_insert j_id (new_job (cd_job draws) c fingerprint now) (db_jobs db1)) (\<lambda>jobs.
      bindE (insert_attempt (new_attempt (cd_attempt draws) (cd_job draws) 1 now) (db1\<lparr>db_jobs := jobs\<rparr>)) (\<lambda>db2.
      let db3 = Job_recordHistory (cd_job draws) None Queued ''job_created'' (cc_ActorUserID c) db2 in
      bindE (if cc_IdempotencyKey c \<noteq> []
             then insert_idempotency
               \<lparr>ik_id = cd_idem draws, ik_owner = cc_OwnerUserID c, ik_key = cc_IdempotencyKey c,
                ik_fingerprint = fingerprint, ik_job = cd_job draws\<rparr> db3
             else Inr (True, db3)) (\<lambda>(inserted, db4).
      if \<not> inserted then
        bindE (findIdempotentJob (cc_OwnerUserID c) (cc_IdempotencyKey c) fingerprint db4) (\<lambda>again.
          case again of
            None \<Rightarrow> Inl JobErrIdempotencyConflict
          | Some item \<Rightarrow> bindE (getJob (j_id item) db) (\<lambda>replayed. Inr ((replayed, True), db)))
      else
        bindE (NewEnvelope rt (cd_message draws) now MessageJobQueued (cc_TraceID c)
            (valueOrDefault (cc_CorrelationID c) (uuid_String rt (cd_job draws)))
            (valueOrDefault (cc_CausationID c) (cc_TraceID c))
            (JObj [(''jobId'', JStr (uuid_String rt (cd_job draws)))])) (\<lambda>envelope.
        bindE (enqueue now (command_message envelope CommandsExchange (env_MessageType envelope) 0) db4) (\<lambda>db5.
        bindE (getJob (cd_job draws) db5) (\<lambda>created. Inr ((created, False), db5)))))))))))"

section \<open>Cancellation\<close>

record CancelCommand =
  xc_JobID :: uuid
  xc_ActorUserID :: uuid
  xc_Reason :: string
  xc_TraceID :: string
  xc_RequestID :: string
  xc_AllowCrossOwner :: bool

record cancellationTarget =
  ct_AttemptID :: uuid
  ct_LeaseID :: uuid
  ct_WorkerID :: uuid

definition currentCancellationTarget :: "uuid \<Rightarrow> DB \<Rightarrow> cancellationTarget result" where
  "currentCancellationTarget jobID db =
    (case latest_attempt jobID db of
       None \<Rightarrow> Inl (ErrText ''lock current job attempt for cancellation'')
     | Some a \<Rightarrow>
         (case (a_lease a, a_worker a) of
            (Some leaseID, Some workerID) \<Rightarrow>
              if (a_state a \<noteq> ALeased \<and> a_state a \<noteq> ARunning) \<or> leaseID = uuid_Nil \<or> workerID = uuid_Nil
              then Inl JobErrJobState
              else Inr \<lparr>ct_AttemptID = a_id a, ct_LeaseID = leaseID, ct_WorkerID = workerID\<rparr>
          | _ \<Rightarrow> Inl JobErrJobState))"

definition enqueueCancel ::
  "Runtime \<Rightarrow> (time \<Rightarrow> Message \<Rightarrow> DB \<Rightarrow> DB result) \<Rightarrow> uuid \<Rightarrow> time \<Rightarrow> Job \<Rightarrow> cancellationTarget \<Rightarrow> string \<Rightarrow>
   CancelCommand \<Rightarrow> DB \<Rightarrow> DB result" where
  "enqueueCancel rt enqueue msgID now item target reason c db =
    (let jobText = uuid_String rt (j_id item);
         traceID = valueOrDefault (xc_TraceID c) jobText
     in bindE (NewEnvelope rt msgID now MessageJobCancel traceID jobText
          (valueOrDefault (xc_RequestID c) traceID)
          (JObj [(''jobId'', JStr jobText),
                 (''attemptId'', JStr (uuid_String rt (ct_AttemptID target))),
                 (''leaseId'', JStr (uuid_String rt (ct_LeaseID target))),
                 (''reason'', JStr reason)])) (\<lambda>envelope.
        bindE (WorkerRoutingKey rt MessageJobCancel (ct_WorkerID target)) (\<lambda>routingKey.
          enqueueEnvelopeWithRoutingKey enqueue now envelope routingKey db)))"

text \<open>The statements on a job that no worker holds: it is cancelled at once.\<close>

definition cancel_queued_job :: "time \<Rightarrow> Job \<Rightarrow> Job" where
  "cancel_queued_job now j =
    j\<lparr>j_state := Cancelled, j_cancel := Some now, j_completed := Some now, j_finished := Some now,
      j_next := None, j_updated := now\<rparr>"

definition cancel_queued :: "time \<Rightarrow> Job \<Rightarrow> string \<Rightarrow> uuid \<Rightarrow> DB \<Rightarrow> DB" where
  "cancel_queued now item reason actorID db =
    (let db1 = update_job (j_id item) (cancel_queued_job now) db;
         db2 = (case latest_attempt (j_id item) db1 of
                  None \<Rightarrow> db1
                | Some a \<Rightarrow> update_attempt (a_id a) (\<lambda>a. a\<lparr>a_state := ACancelled, a_finished := Some now\<rparr>) db1);
         db3 = (case latest_attempt (j_id item) db2 of
                  None \<Rightarrow> db2
                | Some a \<Rightarrow> add_projection (cancelled_projection (j_id item) (a_id a) reason) db2);
         db4 = decrementQuota now (j_owner item) db3
     in Job_recordHistory (j_id item) (Some (j_state item)) Cancelled ''cancelled_before_lease'' actorID db4)"

definition RequestCancel ::
  "Runtime \<Rightarrow> (time \<Rightarrow> Message \<Rightarrow> DB \<Rightarrow> DB result) \<Rightarrow> uuid \<Rightarrow> time \<Rightarrow> CancelCommand \<Rightarrow> DB \<Rightarrow> (Job \<times> DB) result" where
  "RequestCancel rt enqueue msgID now c db =
    (if xc_JobID c = uuid_Nil \<or> xc_ActorUserID c = uuid_Nil then Inl JobErrInvalidInput
     else bindE (getJob (xc_JobID c) db) (\<lambda>item.
       if \<not> xc_AllowCrossOwner c \<and> j_owner item \<noteq> xc_ActorUserID c then Inl AuthzErrForbidden
       else if j_state item = CancelRequested \<or> j_state item = Cancelled then Inr (item, db)
       else case ValidateTransition (state_text (j_state item)) (state_text CancelRequested) of
         Inl _ \<Rightarrow> Inl JobErrJobState
       | Inr _ \<Rightarrow>
         (let trimmed = TrimSpace (xc_Reason c);
              reason = (if trimmed = [] then ''client_requested'' else trimmed)
          in if length reason > 500 then Inl JobErrInvalidInput
             else if j_state item = Queued then
               (let db' = cancel_queued now item reason (xc_ActorUserID c) db
                in bindE (getJob (j_id item) db') (\<lambda>updated. Inr (updated, db')))
             else
               bindE (currentCancellationTarget (j_id item) db) (\<lambda>target.
               let db1 = update_job (j_id item)
                     (\<lambda>j. j\<lparr>j_state := CancelRequested, j_cancel := Some now, j_updated := now\<rparr>) db;
                   db2 = Job_recordHistory (j_id item) (Some (j_state item)) CancelRequested
                     ''cancel_requested'' (xc_ActorUserID c) db1
               in bindE (enqueueCancel rt enqueue msgID now item target reason c db2) (\<lambda>db3.
                  bindE (getJob (j_id item) db3) (\<lambda>updated. Inr (updated, db3)))))))"

section \<open>Manual retry\<close>

record RetryCommand =
  rc_JobID :: uuid
  rc_ActorUserID :: uuid
  rc_TraceID :: string
  rc_RequestID :: string
  rc_AllowCrossOwner :: bool

definition enqueueRetryQueued ::
  "Runtime \<Rightarrow> (time \<Rightarrow> Message \<Rightarrow> DB \<Rightarrow> DB result) \<Rightarrow> uuid \<Rightarrow> time \<Rightarrow> Job \<Rightarrow> string \<Rightarrow> string \<Rightarrow> DB \<Rightarrow> DB result" where
  "enqueueRetryQueued rt enqueue msgID now item trace causationID db =
    (let jobText = uuid_String rt (j_id item);
         traceID = valueOrDefault trace jobText
     in bindE (NewEnvelope rt msgID now MessageJobQueued traceID jobText
          (valueOrDefault causationID traceID) (JObj [(''jobId'', JStr jobText)])) (\<lambda>envelope.
        enqueueEnvelope enqueue now envelope db))"

text \<open>\<open>SELECT COALESCE(MAX(attempt_number), 0) + 1\<close>\<close>

definition next_attempt_number :: "uuid \<Rightarrow> DB \<Rightarrow> int" where
  "next_attempt_number jobID db =
    (case max_row a_num (attempts_of jobID db) of None \<Rightarrow> 1 | Some a \<Rightarrow> a_num a + 1)"

definition retry_job :: "time \<Rightarrow> Job \<Rightarrow> Job" where
  "retry_job now j =
    j\<lparr>j_state := Queued, j_queued := Some now, j_next := None, j_updated := now, j_cancel := None,
      j_errcode := None, j_errmsg := None\<rparr>"

definition RequestRetry ::
  "Runtime \<Rightarrow> (time \<Rightarrow> Message \<Rightarrow> DB \<Rightarrow> DB result) \<Rightarrow> uuid \<Rightarrow> uuid \<Rightarrow> time \<Rightarrow> RetryCommand \<Rightarrow> DB \<Rightarrow>
   (Job \<times> DB) result" where
  "RequestRetry rt enqueue attemptID msgID now c db =
    (if rc_JobID c = uuid_Nil \<or> rc_ActorUserID c = uuid_Nil then Inl JobErrInvalidInput
     else bindE (getJob (rc_JobID c) db) (\<lambda>item.
       if \<not> rc_AllowCrossOwner c \<and> j_owner item \<noteq> rc_ActorUserID c then Inl AuthzErrForbidden
       else if j_state item = Queued then Inr (item, db)
       else if j_state item \<noteq> FailedRetryable \<and> j_state item \<noteq> FailedPermanent \<and> j_state item \<noteq> DeadLettered
         then Inl JobErrJobState
       else bindE (incrementQuota now (j_owner item) db) (\<lambda>db1.
         let attemptNumber = next_attempt_number (j_id item) db1
         in if attemptNumber > j_max item \<and> j_state item \<noteq> DeadLettered then Inl JobErrJobState
            else bindE (insert_attempt (new_attempt attemptID (j_id item) attemptNumber now) db1) (\<lambda>db2.
              let db3 = update_job (j_id item) (retry_job now) db2;
                  db4 = Job_recordHistory (j_id item) (Some (j_state item)) Queued ''retry_requested''
                    (rc_ActorUserID c) db3
              in bindE (enqueueRetryQueued rt enqueue msgID now item (rc_TraceID c) (rc_RequestID c) db4) (\<lambda>db5.
                 bindE (getJob (j_id item) db5) (\<lambda>updated. Inr (updated, db5)))))))"

section \<open>Queries\<close>

record ListQuery =
  lq_OwnerUserID :: "uuid option"
  lq_Page :: int
  lq_PageSize :: int
  lq_State :: string

record JobPage =
  jp_Items :: "Job list"
  jp_Page :: int
  jp_PageSize :: int
  jp_Total :: int

definition listed :: "ListQuery \<Rightarrow> Job \<Rightarrow> bool" where
  "listed q j \<longleftrightarrow>
     (case lq_OwnerUserID q of None \<Rightarrow> True | Some o' \<Rightarrow> j_owner j = o') \<and>
     (lq_State q = [] \<or> state_text (j_state j) = lq_State q)"

text \<open>The offset is 64-bit arithmetic, and the database refuses a negative one.\<close>

definition Job_List :: "ListQuery \<Rightarrow> DB \<Rightarrow> JobPage result" where
  "Job_List q db =
    (if lq_Page q < 1 \<or> lq_PageSize q < 1 \<or> lq_PageSize q > 100 then Inl JobErrInvalidInput
     else
       let offset = signed_take_bit 63 ((lq_Page q - 1) * lq_PageSize q)
       in if offset < 0 then Inl (ErrDatabase ''OFFSET must not be negative'')
          else Inr \<lparr>jp_Items = take (nat (lq_PageSize q)) (drop (nat offset)
                 (sort_key (\<lambda>j. (- j_created j, j_id j)) (filter (listed q) (db_jobs db)))),
               jp_Page = lq_Page q, jp_PageSize = lq_PageSize q,
               jp_Total = count_rows (listed q) (db_jobs db)\<rparr>)"

record QueuedJob =
  qj_Job :: Job
  qj_AttemptID :: uuid

definition due :: "time \<Rightarrow> Job \<Rightarrow> bool" where
  "due now j \<longleftrightarrow> j_state j = Queued \<and> (case j_next j of None \<Rightarrow> True | Some t \<Rightarrow> t \<le> now)"

text \<open>The lateral join with the latest attempt leaves out a job that has none.\<close>

definition queued_rows :: "time \<Rightarrow> DB \<Rightarrow> QueuedJob list" where
  "queued_rows now db =
    List.map_filter (\<lambda>j. map_option (\<lambda>a. \<lparr>qj_Job = j, qj_AttemptID = a_id a\<rparr>)
        (max_row a_num (attempts_of (j_id j) db)))
      (filter (due now) (db_jobs db))"

definition SelectQueued :: "time \<Rightarrow> int \<Rightarrow> DB \<Rightarrow> QueuedJob list result" where
  "SelectQueued now limit db =
    (if limit < 1 \<or> limit > 1000 then Inl JobErrInvalidInput
     else Inr (take (nat limit)
       (sort_key (\<lambda>q. (- j_priority (qj_Job q), j_created (qj_Job q), j_id (qj_Job q))) (queued_rows now db))))"

section \<open>Service\<close>

record CreateRequest =
  cr_Operations :: "Operation list"
  cr_Priority :: int
  cr_MaxAttempts :: int

definition normalizeCreateDefaults :: "int \<Rightarrow> int \<Rightarrow> int \<times> int" where
  "normalizeCreateDefaults priority maxAttempts =
    (priority, if maxAttempts = 0 then DefaultMaxAttempts else maxAttempts)"

definition normalizeIdempotencyKey :: "string \<Rightarrow> string result" where
  "normalizeIdempotencyKey raw =
    (let value = TrimSpace raw
     in if value = [] then Inr []
        else if length value > MaxIdempotencyKeySize \<or> list_ex (\<lambda>c. c = CHR 0x0D \<or> c = CHR 0x0A) value
          then Inl JobErrInvalidInput
        else Inr value)"

definition normalizePagination :: "int \<Rightarrow> int \<Rightarrow> (int \<times> int) result" where
  "normalizePagination page0 pageSize0 =
    (let page = (if page0 = 0 then 1 else page0);
         pageSize = (if pageSize0 = 0 then 20 else pageSize0)
     in if page < 1 \<or> pageSize < 1 \<or> pageSize > 100 then Inl JobErrInvalidInput else Inr (page, pageSize))"

text \<open>\<open>fresh\<close> is the text of \<open>uuid.NewString()\<close>, used when the request carries no identifier.\<close>

definition Job_Service_Create ::
  "Runtime \<Rightarrow> (any \<Rightarrow> unit result) \<Rightarrow> (time \<Rightarrow> Message \<Rightarrow> DB \<Rightarrow> DB result) \<Rightarrow> CreateDraws \<Rightarrow> string \<Rightarrow> time \<Rightarrow>
   Principal \<Rightarrow> uuid \<Rightarrow> CreateRequest \<Rightarrow> string \<Rightarrow> string \<Rightarrow> DB \<Rightarrow> ((Job \<times> bool) \<times> DB) result" where
  "Job_Service_Create rt snapshotRules enqueue draws fresh now prin versionID request idempotencyKey requestID0 db =
    bindE (RequireScope prin ScopeJobsWrite) (\<lambda>_.
    if versionID = uuid_Nil then Inl JobErrInvalidInput
    else
      bindE (FindVersionByID versionID db) (\<lambda>version.
      bindE (FindDataset (v_dataset version) db) (\<lambda>datasetItem.
      if ds_deleted datasetItem \<noteq> None \<or> \<not> CanAccessOwner prin (ds_owner datasetItem) ScopeJobsWrite
      then Inl AuthzErrForbidden
      else if v_state version \<noteq> ''AVAILABLE'' then Inl JobErrVersionUnavailable
      else
        let (priority, maxAttempts) = normalizeCreateDefaults (cr_Priority request) (cr_MaxAttempts request)
        in bindE (normalizeIdempotencyKey idempotencyKey) (\<lambda>key.
          let trimmed = TrimSpace requestID0;
              requestID = (if trimmed = [] then fresh else trimmed)
          in Job_Create rt snapshotRules enqueue draws now
               \<lparr>cc_OwnerUserID = ds_owner datasetItem, cc_ActorUserID = prin_UserID prin,
                cc_DatasetVersionID = versionID, cc_Operations = cr_Operations request,
                cc_IdempotencyKey = key, cc_Priority = priority, cc_MaxAttempts = maxAttempts,
                cc_TraceID = requestID, cc_CorrelationID = [], cc_CausationID = requestID\<rparr> db))))"

definition Job_Service_Get :: "Principal \<Rightarrow> uuid \<Rightarrow> DB \<Rightarrow> Job result" where
  "Job_Service_Get prin jobID db =
    bindE (RequireScope prin ScopeJobsRead) (\<lambda>_.
    bindE (getJob jobID db) (\<lambda>item.
    if \<not> CanAccessOwner prin (j_owner item) ScopeJobsRead then Inl AuthzErrForbidden else Inr item))"

definition Job_Service_List :: "Principal \<Rightarrow> int \<Rightarrow> int \<Rightarrow> string \<Rightarrow> DB \<Rightarrow> JobPage result" where
  "Job_Service_List prin page pageSize state0 db =
    bindE (RequireScope prin ScopeJobsRead) (\<lambda>_.
    bindE (normalizePagination page pageSize) (\<lambda>(page, pageSize).
    let state = TrimSpace state0
    in if state \<noteq> [] \<and> \<not> isJobState state then Inl JobErrInvalidInput
       else Job_List \<lparr>lq_OwnerUserID =
                (if prin_Role prin \<noteq> RoleAdmin then Some (prin_UserID prin) else None),
              lq_Page = page, lq_PageSize = pageSize, lq_State = state\<rparr> db))"

definition Job_Service_Cancel ::
  "Runtime \<Rightarrow> (time \<Rightarrow> Message \<Rightarrow> DB \<Rightarrow> DB result) \<Rightarrow> uuid \<Rightarrow> time \<Rightarrow> Principal \<Rightarrow> uuid \<Rightarrow> string \<Rightarrow> string \<Rightarrow> DB \<Rightarrow>
   (Job \<times> DB) result" where
  "Job_Service_Cancel rt enqueue msgID now prin jobID reason requestID db =
    bindE (RequireScope prin ScopeJobsWrite) (\<lambda>_.
    bindE (getJob jobID db) (\<lambda>item.
    if \<not> CanAccessOwner prin (j_owner item) ScopeJobsWrite then Inl AuthzErrForbidden
    else RequestCancel rt enqueue msgID now
      \<lparr>xc_JobID = jobID, xc_ActorUserID = prin_UserID prin, xc_Reason = reason, xc_TraceID = requestID,
       xc_RequestID = requestID, xc_AllowCrossOwner = (prin_Role prin = RoleAdmin)\<rparr> db))"

definition Job_Service_Retry ::
  "Runtime \<Rightarrow> (time \<Rightarrow> Message \<Rightarrow> DB \<Rightarrow> DB result) \<Rightarrow> uuid \<Rightarrow> uuid \<Rightarrow> time \<Rightarrow> Principal \<Rightarrow> uuid \<Rightarrow> string \<Rightarrow> DB \<Rightarrow>
   (Job \<times> DB) result" where
  "Job_Service_Retry rt enqueue attemptID msgID now prin jobID requestID db =
    bindE (RequireScope prin ScopeJobsWrite) (\<lambda>_.
    bindE (getJob jobID db) (\<lambda>item.
    if \<not> CanAccessOwner prin (j_owner item) ScopeJobsWrite then Inl AuthzErrForbidden
    else RequestRetry rt enqueue attemptID msgID now
      \<lparr>rc_JobID = jobID, rc_ActorUserID = prin_UserID prin, rc_TraceID = requestID,
       rc_RequestID = requestID, rc_AllowCrossOwner = (prin_Role prin = RoleAdmin)\<rparr> db))"

section \<open>The operations are changes of the job tables\<close>

lemma getJob_Inr [result_simps]: "getJob k db = Inr j \<longleftrightarrow> find_job k db = Some j"
  by (simp add: getJob_def split: option.splits)

lemma ValidateCreateCommand_Inr:
  "ValidateCreateCommand rt snapshotRules c = Inr fp \<Longrightarrow>
     1 \<le> cc_MaxAttempts c \<and> cc_MaxAttempts c \<le> 20 \<and> 0 \<le> cc_Priority c \<and> cc_Priority c \<le> 100 \<and>
     cc_OwnerUserID c \<noteq> uuid_Nil \<and> RequestFingerprint rt c = Inr fp"
  by (auto simp: ValidateCreateCommand_def bindE_Inr split: if_splits)

lemma incrementQuota_Inr:
  assumes "incrementQuota now owner db = Inr db1" "distinct (map q_owner (db_quotas db))"
  shows "\<exists>qs. db1 = db\<lparr>db_quotas := qs\<rparr>" "distinct (map q_owner (db_quotas db1))"
    "queued_of k db1 = queued_of k db + (if k = owner then 1 else 0)" "active_of k db1 = active_of k db"
    "queued_of owner db < maxQueuedJobsPerOwner"
proof -
  have "(\<exists>qs. db1 = db\<lparr>db_quotas := qs\<rparr>) \<and> distinct (map q_owner (db_quotas db1)) \<and>
      queued_of k db1 = queued_of k db + (if k = owner then 1 else 0) \<and> active_of k db1 = active_of k db \<and>
      queued_of owner db < maxQueuedJobsPerOwner"
  proof (cases "row_find q_owner owner (db_quotas db)")
    case None
    then have "owner \<notin> q_owner ` set (db_quotas db)" by (simp add: row_find_None)
    let ?q = "\<lparr>q_owner = owner, q_queued = 1, q_active = 0, q_updated = now\<rparr>"
    have db1: "db1 = db\<lparr>db_quotas := db_quotas db @ [?q]\<rparr>"
      using assms(1) None by (simp add: incrementQuota_def)
    have find: "row_find q_owner k (db_quotas db1) =
        (if k = owner then Some ?q else row_find q_owner k (db_quotas db))"
      using None by (auto simp: db1 row_find_append row_find_single split: option.splits)
    have "distinct (map q_owner (db_quotas db1))"
      using assms(2) \<open>owner \<notin> q_owner ` set (db_quotas db)\<close> by (simp add: db1)
    then show ?thesis
      using None find db1 by (simp add: queued_of_def active_of_def) blast
  next
    case (Some q)
    let ?f = "\<lambda>q. q\<lparr>q_queued := q_queued q + 1, q_updated := now\<rparr>"
    have db1: "db1 = update_quota owner ?f db" and less: "q_queued q < maxQueuedJobsPerOwner"
      using assms(1) Some by (auto simp: incrementQuota_def split: if_splits)
    have find: "row_find q_owner k (db_quotas db1) =
        (if k = owner then Some (?f q) else row_find q_owner k (db_quotas db))"
      using Some by (simp add: db1 update_quota_def row_find_update)
    have "map q_owner (db_quotas db1) = map q_owner (db_quotas db)"
      unfolding db1 update_quota_def by (simp add: row_update_keys)
    then show ?thesis
      using assms(2) Some find less db1 by (simp add: queued_of_def active_of_def update_quota_def) blast
  qed
  then show "\<exists>qs. db1 = db\<lparr>db_quotas := qs\<rparr>" "distinct (map q_owner (db_quotas db1))"
    "queued_of k db1 = queued_of k db + (if k = owner then 1 else 0)" "active_of k db1 = active_of k db"
    "queued_of owner db < maxQueuedJobsPerOwner"
    by blast+
qed

text \<open>Reading the latest attempt after an UPDATE of an attempt that keeps its key columns.\<close>

lemma max_row_map:
  assumes "\<And>r. key (f r) = key r"
  shows "max_row key (map f rows) = map_option f (max_row key rows)"
  by (induction rows) (auto simp: assms split: option.splits)

lemma latest_attempt_update:
  assumes "\<And>a. a_id (g a) = a_id a \<and> a_job (g a) = a_job a \<and> a_num (g a) = a_num a"
  shows "latest_attempt k (update_attempt i g db) =
    map_option (\<lambda>a. if a_id a = i then g a else a) (latest_attempt k db)"
proof -
  let ?f = "\<lambda>a. if a_id a = i then g a else a"
  have "filter (\<lambda>a. a_job a = k) (map ?f rows) = map ?f (filter (\<lambda>a. a_job a = k) rows)" for rows
    using assms by (induction rows) auto
  then have "attempts_of k (update_attempt i g db) = map ?f (attempts_of k db)"
    by (simp add: attempts_of_def update_attempt_def row_update_def)
  then show ?thesis
    using max_row_map [of "\<lambda>a. (a_num a, a_id a)" ?f "attempts_of k db"] assms by (simp add: latest_attempt_def)
qed

lemma cancel_queued_change:
  assumes con: "consistent db" and j: "find_job k db = Some j" "j_state j = Queued"
  shows "change db (cancel_queued now j reason actor db)"
proof -
  let ?db' = "cancel_queued now j reason actor db"
  let ?g = "\<lambda>a. a\<lparr>a_state := ACancelled, a_finished := Some now\<rparr>"
  let ?db1 = "update_job (j_id j) (cancel_queued_job now) db"
  have job: "j \<in> set (db_jobs db)" using j(1) find_jobD by blast
  obtain xs a where a: "attempts_of (j_id j) db = xs @ [a]" "latest_attempt (j_id j) db = Some a"
    "agree (j_state j) (a_state a)"
    by (rule consistent_job [OF con job]) blast
  have state: "a_state a = ACreated" using a(3) j(2) by simp
  have l1: "latest_attempt (j_id j) ?db1 = Some a"
    using a(2) by (simp add: latest_attempt_def attempts_of_def update_job_def)
  let ?db2 = "update_attempt (a_id a) ?g ?db1"
  have l2: "latest_attempt (j_id j) ?db2 = Some (?g a)"
    using latest_attempt_update [of ?g "j_id j" "a_id a" ?db1] l1 by simp
  let ?p = "cancelled_projection (j_id j) (a_id a) reason"
  let ?db3 = "add_projection ?p ?db2"
  have db': "?db' = Job_recordHistory (j_id j) (Some Queued) Cancelled ''cancelled_before_lease'' actor
      (decrementQuota now (j_owner j) ?db3)"
    using l1 l2 j(2) by (simp add: cancel_queued_def Let_def)
  have tables: "db_jobs ?db' = row_update j_id (j_id j) (cancel_queued_job now) (db_jobs db)"
    "db_attempts ?db' = row_update a_id (a_id a) ?g (db_attempts db)"
    "db_quotas ?db' = row_update q_owner (j_owner j)
       (\<lambda>q. q\<lparr>q_queued := max (q_queued q - 1) 0, q_updated := now\<rparr>) (db_quotas db)"
    "\<forall>p \<in> set (db_projections ?db'). p \<in> set (db_projections db) \<or> p_attempt p = a_id a \<and> \<not> is_open (a_state (?g a))"
    "db_history ?db' = db_history db @ [\<lparr>h_job = j_id j, h_from = Some Queued, h_to = Cancelled,
       h_reason = truncateReason ''cancelled_before_lease'', h_actor = (if actor \<noteq> uuid_Nil then Some actor else None)\<rparr>]"
    by (simp_all add: db' Job_recordHistory_def decrementQuota_def update_quota_def add_projection_def
        update_attempt_def update_job_def cancelled_projection_def)
  have "lifecycle (Queued, map a_state xs @ [ACreated]) (Cancelled, map a_state xs @ [ACancelled])"
    by (rule lifecycle.cancel_queued)
  moreover have "quota_moved (j_owner j) (Some (j_state j)) (j_state (cancel_queued_job now j)) db ?db'"
    by (rule quota_moved_row [OF con job _ tables(3)])
      (use j(2) in \<open>simp_all add: queued_weight_def active_weight_def is_active_def cancel_queued_job_def\<close>)
  ultimately show ?thesis
    by (intro change_move_last [OF job a(1) tables(1,2) _ tables(4)])
      (simp_all add: cancel_queued_job_def j(2) tables(5) state)
qed

lemma insert_idempotency_frame:
  "insert_idempotency r db = Inr (b, db') \<Longrightarrow> \<exists>rows. db' = db\<lparr>db_idem := rows\<rparr>"
  by (auto simp: insert_idempotency_def split: if_splits intro: exI [of _ "db_idem db"])

text \<open>
  A creation that is not a replay, step by step: the facts every property of \<open>Create\<close>
  starts from.
\<close>

context enqueuer
begin

lemma Create_fresh:
  assumes "Job_Create rt snapshotRules enqueue draws now c db = Inr ((item, False), db')"
  obtains fp db1 rows r where
    "ValidateCreateCommand rt snapshotRules c = Inr fp" "lockAvailableVersion c db = Inr ()"
    "incrementQuota now (cc_OwnerUserID c) db = Inr db1"
    "cd_job draws \<notin> j_id ` set (db_jobs db1)" "cd_attempt draws \<notin> a_id ` set (db_attempts db1)"
    "db' = db1\<lparr>db_jobs := db_jobs db1 @ [new_job (cd_job draws) c fp now],
       db_attempts := db_attempts db1 @ [new_attempt (cd_attempt draws) (cd_job draws) 1 now],
       db_history := db_history db1 @ [\<lparr>h_job = cd_job draws, h_from = None, h_to = Queued,
         h_reason = ''job_created'',
         h_actor = (if cc_ActorUserID c \<noteq> uuid_Nil then Some (cc_ActorUserID c) else None)\<rparr>],
       db_idem := rows, db_outbox := db_outbox db1 @ [r]\<rparr>"
    "ob_id r = cd_message draws" "ob_state r = Pending" "env_MessageType (ob_env r) = MessageJobQueued"
    "ob_key r = MessageJobQueued" "ob_exchange r = CommandsExchange"
    "raw_value (env_Payload (ob_env r)) = Some (JObj [(''jobId'', JStr (uuid_String rt (cd_job draws)))])"
    "cc_IdempotencyKey c \<noteq> [] \<Longrightarrow> rows = db_idem db1 @ [\<lparr>ik_id = cd_idem draws, ik_owner = cc_OwnerUserID c,
       ik_key = cc_IdempotencyKey c, ik_fingerprint = fp, ik_job = cd_job draws\<rparr>]"
    "item = new_job (cd_job draws) c fp now"
proof -
  from assms obtain fp where val: "ValidateCreateCommand rt snapshotRules c = Inr fp"
    by (auto simp: Job_Create_def bindE_Inr)
  note step1 = assms [unfolded Job_Create_def val bindE_simps]
  from step1 have existing: "(if cc_IdempotencyKey c \<noteq> []
      then findIdempotentJob (cc_OwnerUserID c) (cc_IdempotencyKey c) fp db else Inr None) = Inr None"
    by (auto simp: bindE_Inr split: option.splits)
  note step2 = step1 [unfolded existing bindE_simps option.case]
  from step2 obtain db1 where lock: "lockAvailableVersion c db = Inr ()"
    and quota: "incrementQuota now (cc_OwnerUserID c) db = Inr db1"
    by (auto simp: bindE_Inr)
  note step3 = step2 [unfolded lock quota bindE_simps]
  from step3 obtain jobs where jobs: "row_insert j_id (new_job (cd_job draws) c fp now) (db_jobs db1) = Inr jobs"
    by (auto simp: bindE_Inr)
  note step4 = step3 [unfolded jobs bindE_simps]
  from step4 obtain db2 where atts: "insert_attempt (new_attempt (cd_attempt draws) (cd_job draws) 1 now)
      (db1\<lparr>db_jobs := jobs\<rparr>) = Inr db2"
    by (auto simp: bindE_Inr)
  note step5 = step4 [unfolded atts bindE_simps Let_def]
  let ?db3 = "Job_recordHistory (cd_job draws) None Queued ''job_created'' (cc_ActorUserID c) db2"
  let ?rec = "\<lparr>ik_id = cd_idem draws, ik_owner = cc_OwnerUserID c, ik_key = cc_IdempotencyKey c,
                ik_fingerprint = fp, ik_job = cd_job draws\<rparr>"
  from step5 obtain db4 where idem: "(if cc_IdempotencyKey c \<noteq> [] then insert_idempotency ?rec ?db3
      else Inr (True, ?db3)) = Inr (True, db4)"
    by (auto simp: bindE_Inr split: if_splits option.splits)
  note step6 = step5 [unfolded idem bindE_simps prod.case simp_thms if_False]
  from step6 obtain envelope db5 where
    env: "NewEnvelope rt (cd_message draws) now MessageJobQueued (cc_TraceID c)
            (valueOrDefault (cc_CorrelationID c) (uuid_String rt (cd_job draws)))
            (valueOrDefault (cc_CausationID c) (cc_TraceID c))
            (JObj [(''jobId'', JStr (uuid_String rt (cd_job draws)))]) = Inr envelope"
    and enq: "enqueue now (command_message envelope CommandsExchange (env_MessageType envelope) 0) db4 = Inr db5"
    and get: "find_job (cd_job draws) db5 = Some item" and db': "db' = db5"
    by (auto simp: bindE_Inr getJob_Inr)
  from enqueue_row [OF enq] obtain r where db5: "db5 = db4\<lparr>db_outbox := db_outbox db4 @ [r]\<rparr>"
    and r: "ob_id r = env_MessageID envelope" "ob_env r = envelope" "ob_exchange r = CommandsExchange"
      "ob_key r = env_MessageType envelope" "ob_state r = Pending"
    by (auto simp: command_message_def)
  note env' = NewEnvelopeD [OF env]
  let ?hist = "\<lparr>h_job = cd_job draws, h_from = None, h_to = Queued, h_reason = ''job_created'',
         h_actor = (if cc_ActorUserID c \<noteq> uuid_Nil then Some (cc_ActorUserID c) else None)\<rparr>"
  have new: "cd_job draws \<notin> j_id ` set (db_jobs db1)" "jobs = db_jobs db1 @ [new_job (cd_job draws) c fp now]"
    using jobs by (auto simp: row_insert_Inr new_job_def)
  have fresh: "cd_attempt draws \<notin> a_id ` set (db_attempts db1)"
    and db2: "db2 = db1\<lparr>db_jobs := jobs, db_attempts := db_attempts db1 @
      [new_attempt (cd_attempt draws) (cd_job draws) 1 now]\<rparr>"
    using atts by (auto simp: insert_attempt_Inr)
  obtain rows where db4: "db4 = ?db3\<lparr>db_idem := rows\<rparr>"
    and rows: "cc_IdempotencyKey c \<noteq> [] \<Longrightarrow> rows = db_idem db1 @ [?rec]"
  proof (cases "cc_IdempotencyKey c \<noteq> []")
    case True
    then have "db4 = ?db3\<lparr>db_idem := db_idem ?db3 @ [?rec]\<rparr>"
      using idem by (auto simp: insert_idempotency_def split: if_splits)
    then show thesis using that [of "db_idem ?db3 @ [?rec]"] by (simp add: Job_recordHistory_def db2)
  next
    case False
    then show thesis using that [of "db_idem ?db3"] idem by simp
  qed
  have db'': "db' = db1\<lparr>db_jobs := db_jobs db1 @ [new_job (cd_job draws) c fp now],
       db_attempts := db_attempts db1 @ [new_attempt (cd_attempt draws) (cd_job draws) 1 now],
       db_history := db_history db1 @ [?hist], db_idem := rows, db_outbox := db_outbox db1 @ [r]\<rparr>"
    by (simp add: db' db5 db4 db2 new(2) Job_recordHistory_def add_history_def truncateReason_def)
  have "row_find j_id (cd_job draws) (db_jobs db1) = None" using new(1) by (simp add: row_find_None)
  then have "item = new_job (cd_job draws) c fp now"
    using get db'' by (simp add: db' find_job_def row_find_append row_find_single new_job_def)
  then show ?thesis
    by (intro that [OF val lock quota new(1) fresh db'']) (use r env' rows in simp_all)
qed

lemma Create_replay:
  assumes "Job_Create rt snapshotRules enqueue draws now c db = Inr ((item, True), db')"
  shows "db' = db"
proof -
  from assms obtain fp where val: "ValidateCreateCommand rt snapshotRules c = Inr fp"
    by (auto simp: Job_Create_def bindE_Inr)
  note step1 = assms [unfolded Job_Create_def val bindE_simps]
  then show ?thesis
    by (auto simp: bindE_Inr Let_def split: option.splits if_splits)
qed

lemma Create_change:
  assumes "Job_Create rt snapshotRules enqueue draws now c db = Inr ((item, replay), db')" "consistent db"
  shows "change db db'"
proof (cases replay)
  case True
  with assms(1) have "db' = db" by (auto intro: Create_replay)
  then show ?thesis using change_same [of db' db] by simp
next
  case False
  with assms(1) have "Job_Create rt snapshotRules enqueue draws now c db = Inr ((item, False), db')" by simp
  then obtain fp db1 rows r where
    val: "ValidateCreateCommand rt snapshotRules c = Inr fp"
    and quota: "incrementQuota now (cc_OwnerUserID c) db = Inr db1"
    and new: "cd_job draws \<notin> j_id ` set (db_jobs db1)" "cd_attempt draws \<notin> a_id ` set (db_attempts db1)"
    and db': "db' = db1\<lparr>db_jobs := db_jobs db1 @ [new_job (cd_job draws) c fp now],
       db_attempts := db_attempts db1 @ [new_attempt (cd_attempt draws) (cd_job draws) 1 now],
       db_history := db_history db1 @ [\<lparr>h_job = cd_job draws, h_from = None, h_to = Queued,
         h_reason = ''job_created'',
         h_actor = (if cc_ActorUserID c \<noteq> uuid_Nil then Some (cc_ActorUserID c) else None)\<rparr>],
       db_idem := rows, db_outbox := db_outbox db1 @ [r]\<rparr>"
    by (rule Create_fresh) blast
  note Q = incrementQuota_Inr [OF quota consistentD(3) [OF assms(2)]]
  from Q(1) obtain qs where db1: "db1 = db\<lparr>db_quotas := qs\<rparr>" by blast
  have "quota_moved (cc_OwnerUserID c) None Queued db db'"
    using Q(2,3,4) by (simp add: quota_moved_def db' db1 queued_of_def active_of_def queued_weight_def
        active_weight_def is_active_def)
  then show ?thesis
    using ValidateCreateCommand_Inr [OF val] new
    by (intro change.create [of "new_job (cd_job draws) c fp now" db db'
          "new_attempt (cd_attempt draws) (cd_job draws) 1 now" "last (db_history db')"])
      (simp_all add: db' db1 new_job_def)
qed

lemma enqueueCancel_row:
  assumes "enqueueCancel rt enqueue msgID now item target reason c db = Inr db'"
  shows "\<exists>r. db' = db\<lparr>db_outbox := db_outbox db @ [r]\<rparr> \<and> ob_state r = Pending \<and>
    env_MessageType (ob_env r) = MessageJobCancel \<and> ob_exchange r = CommandsExchange \<and>
    ob_key r = MessageJobCancel @ ''.'' @ uuid_String rt (ct_WorkerID target) \<and>
    raw_value (env_Payload (ob_env r)) = Some (JObj [(''jobId'', JStr (uuid_String rt (j_id item))),
       (''attemptId'', JStr (uuid_String rt (ct_AttemptID target))),
       (''leaseId'', JStr (uuid_String rt (ct_LeaseID target))), (''reason'', JStr reason)])"
proof -
  from assms obtain envelope key where env: "NewEnvelope rt msgID now MessageJobCancel
        (valueOrDefault (xc_TraceID c) (uuid_String rt (j_id item))) (uuid_String rt (j_id item))
        (valueOrDefault (xc_RequestID c) (valueOrDefault (xc_TraceID c) (uuid_String rt (j_id item))))
        (JObj [(''jobId'', JStr (uuid_String rt (j_id item))),
          (''attemptId'', JStr (uuid_String rt (ct_AttemptID target))),
          (''leaseId'', JStr (uuid_String rt (ct_LeaseID target))), (''reason'', JStr reason)]) = Inr envelope"
    and key: "WorkerRoutingKey rt MessageJobCancel (ct_WorkerID target) = Inr key"
    and enq: "enqueue now (command_message envelope CommandsExchange key 0) db = Inr db'"
    by (auto simp: enqueueCancel_def enqueueEnvelopeWithRoutingKey_def bindE_Inr Let_def)
  have "key = MessageJobCancel @ ''.'' @ uuid_String rt (ct_WorkerID target)"
    using key by (auto simp: WorkerRoutingKey_def split: if_splits)
  then show ?thesis using enqueue_row [OF enq] NewEnvelopeD [OF env] by (auto simp: command_message_def)
qed

lemma enqueueRetryQueued_row:
  assumes "enqueueRetryQueued rt enqueue msgID now item trace cause db = Inr db'"
  shows "\<exists>r. db' = db\<lparr>db_outbox := db_outbox db @ [r]\<rparr> \<and> ob_state r = Pending \<and>
    env_MessageType (ob_env r) = MessageJobQueued \<and> ob_exchange r = CommandsExchange \<and> ob_key r = MessageJobQueued \<and>
    raw_value (env_Payload (ob_env r)) = Some (JObj [(''jobId'', JStr (uuid_String rt (j_id item)))])"
proof -
  from assms obtain envelope where env: "NewEnvelope rt msgID now MessageJobQueued
        (valueOrDefault trace (uuid_String rt (j_id item))) (uuid_String rt (j_id item))
        (valueOrDefault cause (valueOrDefault trace (uuid_String rt (j_id item))))
        (JObj [(''jobId'', JStr (uuid_String rt (j_id item)))]) = Inr envelope"
    and enq: "enqueue now (command_message envelope CommandsExchange (env_MessageType envelope) 0) db = Inr db'"
    by (auto simp: enqueueRetryQueued_def enqueueEnvelope_def enqueueEnvelopeWithRoutingKey_def bindE_Inr Let_def)
  show ?thesis using enqueue_row [OF enq] NewEnvelopeD [OF env] by (auto simp: command_message_def)
qed

lemma RequestCancel_cases:
  assumes "RequestCancel rt enqueue msgID now c db = Inr (job, db')"
  obtains (replay) "find_job (xc_JobID c) db = Some job" "db' = db"
      "j_state job = CancelRequested \<or> j_state job = Cancelled"
    | (queued) item reason where "find_job (xc_JobID c) db = Some item" "j_state item = Queued"
      "xc_AllowCrossOwner c \<or> j_owner item = xc_ActorUserID c"
      "db' = cancel_queued now item reason (xc_ActorUserID c) db" "find_job (j_id item) db' = Some job"
    | (active) item target reason r where "find_job (xc_JobID c) db = Some item"
      "j_state item = Leased \<or> j_state item = Running"
      "xc_AllowCrossOwner c \<or> j_owner item = xc_ActorUserID c"
      "currentCancellationTarget (j_id item) db = Inr target"
      "db' = (Job_recordHistory (j_id item) (Some (j_state item)) CancelRequested ''cancel_requested''
         (xc_ActorUserID c) (update_job (j_id item)
           (\<lambda>j. j\<lparr>j_state := CancelRequested, j_cancel := Some now, j_updated := now\<rparr>) db))
         \<lparr>db_outbox := db_outbox db @ [r]\<rparr>"
      "ob_state r = Pending" "env_MessageType (ob_env r) = MessageJobCancel"
      "ob_key r = MessageJobCancel @ ''.'' @ uuid_String rt (ct_WorkerID target)"
      "raw_value (env_Payload (ob_env r)) = Some (JObj [(''jobId'', JStr (uuid_String rt (j_id item))),
         (''attemptId'', JStr (uuid_String rt (ct_AttemptID target))),
         (''leaseId'', JStr (uuid_String rt (ct_LeaseID target))), (''reason'', JStr reason)])"
      "find_job (j_id item) db' = Some job"
proof -
  from assms obtain item where item: "find_job (xc_JobID c) db = Some item"
    by (auto simp: RequestCancel_def bindE_Inr getJob_Inr split: if_splits)
  note step1 = assms [unfolded RequestCancel_def getJob_def item option.case bindE_simps]
  from step1 have auth: "xc_AllowCrossOwner c \<or> j_owner item = xc_ActorUserID c"
    by (auto split: if_splits)
  define reason where "reason = (if TrimSpace (xc_Reason c) = [] then ''client_requested'' else TrimSpace (xc_Reason c))"
  consider "j_state item = CancelRequested \<or> j_state item = Cancelled"
    | "j_state item = Queued" | "j_state item \<noteq> Queued" "\<not> (j_state item = CancelRequested \<or> j_state item = Cancelled)"
    by blast
  then show thesis
  proof cases
    case 1
    with step1 show ?thesis using replay item by (auto split: if_splits)
  next
    case 2
    with step1 have "db' = cancel_queued now item reason (xc_ActorUserID c) db" "find_job (j_id item) db' = Some job"
      by (auto simp: bindE_Inr getJob_Inr Let_def reason_def getJob_def [symmetric] split: if_splits sum.splits)
    then show ?thesis by (rule queued [OF item 2 auth])
  next
    case 3
    have valid: "\<exists>u. ValidateTransition (state_text (j_state item)) (state_text CancelRequested) = Inr u"
      using step1 3 by (auto split: if_splits sum.splits)
    then have state: "j_state item = Leased \<or> j_state item = Running"
      using transition_ok_iff [of "j_state item" CancelRequested] 3
      by (cases "j_state item") (auto simp: transition_ok_def)
    let ?db2 = "Job_recordHistory (j_id item) (Some (j_state item)) CancelRequested ''cancel_requested''
         (xc_ActorUserID c) (update_job (j_id item)
           (\<lambda>j. j\<lparr>j_state := CancelRequested, j_cancel := Some now, j_updated := now\<rparr>) db)"
    from step1 3 valid obtain target where
      target: "currentCancellationTarget (j_id item) db = Inr target"
      and enq: "enqueueCancel rt enqueue msgID now item target reason c ?db2 = Inr db'"
      and get: "find_job (j_id item) db' = Some job"
      by (auto simp: bindE_Inr getJob_Inr Let_def reason_def getJob_def [symmetric] split: if_splits)
    have "db_outbox ?db2 = db_outbox db" by (simp add: Job_recordHistory_def update_job_def)
    with enqueueCancel_row [OF enq] show ?thesis
      using active [OF item state auth target _ _ _ _ _ get] by auto
  qed
qed

lemma RequestCancel_change:
  assumes "RequestCancel rt enqueue msgID now c db = Inr (job, db')" and con: "consistent db"
  shows "change db db'"
  using assms(1)
proof (cases rule: RequestCancel_cases)
  case replay
  then show ?thesis using change_same [of db' db] by simp
next
  case (queued item reason)
  then show ?thesis using cancel_queued_change [OF con] by simp
next
  case (active item target reason r)
  let ?f = "\<lambda>j. j\<lparr>j_state := CancelRequested, j_cancel := Some now, j_updated := now\<rparr>"
  have job: "item \<in> set (db_jobs db)" using active(1) find_jobD by blast
  obtain xs a where a: "attempts_of (j_id item) db = xs @ [a]" "agree (j_state item) (a_state a)"
    "held (a_state a) \<Longrightarrow> has_lease a"
    by (rule consistent_job [OF con job]) blast
  have held: "held (a_state a)" using a(2) active(2) by auto
  have "quota_moved (j_owner item) (Some (j_state item)) CancelRequested db db'"
    using active(2,5) by (intro quota_moved_same [OF con])
      (auto simp: Job_recordHistory_def update_job_def queued_weight_def active_weight_def is_active_def)
  moreover have "lifecycle (j_state item, map a_state (xs @ [a])) (CancelRequested, map a_state (xs @ [a]))"
    using lifecycle.cancel_request [OF active(2) held, of "map a_state xs"] by simp
  ultimately show ?thesis using a(3) held active(5)
    by (intro change_move_last [of item db xs a db' ?f id, OF job a(1)])
      (simp_all add: Job_recordHistory_def update_job_def)
qed

lemma RequestRetry_cases:
  assumes "RequestRetry rt enqueue attemptID msgID now c db = Inr (job, db')"
  obtains (replay) "find_job (rc_JobID c) db = Some job" "db' = db" "j_state job = Queued"
    | (requeued) item db1 r where "find_job (rc_JobID c) db = Some item"
      "j_state item = FailedPermanent \<or> j_state item = DeadLettered \<or> j_state item = FailedRetryable"
      "rc_AllowCrossOwner c \<or> j_owner item = rc_ActorUserID c"
      "incrementQuota now (j_owner item) db = Inr db1"
      "next_attempt_number (j_id item) db1 \<le> j_max item \<or> j_state item = DeadLettered"
      "attemptID \<notin> a_id ` set (db_attempts db1)"
      "db' = db1\<lparr>db_attempts := db_attempts db1 @
           [new_attempt attemptID (j_id item) (next_attempt_number (j_id item) db1) now],
         db_jobs := row_update j_id (j_id item) (retry_job now) (db_jobs db1),
         db_history := db_history db1 @ [\<lparr>h_job = j_id item, h_from = Some (j_state item), h_to = Queued,
           h_reason = ''retry_requested'',
           h_actor = (if rc_ActorUserID c \<noteq> uuid_Nil then Some (rc_ActorUserID c) else None)\<rparr>],
         db_outbox := db_outbox db1 @ [r]\<rparr>"
      "ob_state r = Pending" "env_MessageType (ob_env r) = MessageJobQueued"
      "find_job (j_id item) db' = Some job"
proof -
  from assms obtain item where item: "find_job (rc_JobID c) db = Some item"
    by (auto simp: RequestRetry_def bindE_Inr getJob_Inr split: if_splits)
  note step1 = assms [unfolded RequestRetry_def getJob_def item option.case bindE_simps]
  from step1 have auth: "rc_AllowCrossOwner c \<or> j_owner item = rc_ActorUserID c"
    by (auto split: if_splits)
  show thesis
  proof (cases "j_state item = Queued")
    case True
    with step1 show ?thesis using replay item by (auto split: if_splits)
  next
    case False
    with step1 have state: "j_state item = FailedPermanent \<or> j_state item = DeadLettered \<or> j_state item = FailedRetryable"
      by (auto split: if_splits)
    from step1 False obtain db1 where quota: "incrementQuota now (j_owner item) db = Inr db1"
      by (auto simp: bindE_Inr split: if_splits)
    let ?n = "next_attempt_number (j_id item) db1"
    from step1 [unfolded quota bindE_simps Let_def getJob_def [symmetric]] False obtain db2 where
      limit: "?n \<le> j_max item \<or> j_state item = DeadLettered"
      and ins: "insert_attempt (new_attempt attemptID (j_id item) ?n now) db1 = Inr db2"
      and enq: "enqueueRetryQueued rt enqueue msgID now item (rc_TraceID c) (rc_RequestID c)
        (Job_recordHistory (j_id item) (Some (j_state item)) Queued ''retry_requested'' (rc_ActorUserID c)
          (update_job (j_id item) (retry_job now) db2)) = Inr db'"
      and get: "find_job (j_id item) db' = Some job"
      by (auto simp: bindE_Inr getJob_Inr split: if_splits)
    have fresh: "attemptID \<notin> a_id ` set (db_attempts db1)"
      and db2: "db2 = db1\<lparr>db_attempts := db_attempts db1 @ [new_attempt attemptID (j_id item) ?n now]\<rparr>"
      using ins by (auto simp: insert_attempt_Inr)
    from enqueueRetryQueued_row [OF enq] obtain r where "ob_state r = Pending"
      "env_MessageType (ob_env r) = MessageJobQueued"
      "db' = (Job_recordHistory (j_id item) (Some (j_state item)) Queued ''retry_requested'' (rc_ActorUserID c)
          (update_job (j_id item) (retry_job now) db2))\<lparr>db_outbox := db_outbox db2 @ [r]\<rparr>"
      by (auto simp: Job_recordHistory_def update_job_def)
    then show ?thesis
      by (intro requeued [OF item state auth quota limit fresh _ _ _ get, of r])
        (simp_all add: db2 Job_recordHistory_def update_job_def add_history_def truncateReason_def)
  qed
qed

lemma RequestRetry_change:
  assumes "RequestRetry rt enqueue attemptID msgID now c db = Inr (job, db')" and con: "consistent db"
  shows "change db db'"
  using assms(1)
proof (cases rule: RequestRetry_cases)
  case replay
  then show ?thesis using change_same [of db' db] by simp
next
  case (requeued item db1 r)
  have job: "item \<in> set (db_jobs db)" using requeued(1) find_jobD by blast
  note Q = incrementQuota_Inr [OF requeued(4) consistentD(3) [OF con]]
  from Q(1) obtain qs where db1: "db1 = db\<lparr>db_quotas := qs\<rparr>" by blast
  obtain xs a where a: "attempts_of (j_id item) db = xs @ [a]"
    "max_row a_num (attempts_of (j_id item) db) = Some a" "agree (j_state item) (a_state a)"
    "held (a_state a) \<Longrightarrow> has_lease a"
    by (rule consistent_job [OF con job]) blast
  have num: "next_attempt_number (j_id item) db1 = a_num a + 1"
    using a(2) by (simp add: next_attempt_number_def attempts_of_def db1)
  have "quota_moved (j_owner item) (Some (j_state item)) Queued db db'"
    using Q(2,3,4) requeued(2) by (auto simp: quota_moved_def requeued(7) db1 queued_of_def active_of_def
        queued_weight_def active_weight_def is_active_def)
  moreover have "lifecycle (j_state item, map a_state (xs @ [a])) (Queued, map a_state (xs @ [a]) @ [ACreated])"
    using lifecycle.requeue [OF requeued(2)] .
  ultimately show ?thesis using a(4) requeued(6) num
    by (intro change_move_next [of item db xs a db' "retry_job now" id attemptID now, OF job a(1)])
      (simp_all add: requeued(7) db1 retry_job_def)
qed

end

end
