(* ===== verification/Workers.thy ===== *)
theory Workers
  imports Decode Lifecycle
begin

text \<open>
  The worker registry (\<open>internal/workerregistry\<close>): parsing of registration and heartbeat
  events, their fenced upserts, and the selection of a worker for a lease under its
  concurrency limit. The interface \<open>WorkerSelector\<close> that the lease repository depends on is
  the locale \<open>worker_selector\<close>, interpreted on \<open>SelectForLease\<close>.
\<close>

section \<open>Events\<close>

abbreviation DefaultHeartbeatTTL :: duration where "DefaultHeartbeatTTL \<equiv> 45 * Second"
abbreviation MaxHeartbeatTTL :: duration where "MaxHeartbeatTTL \<equiv> 30 * Minute"
abbreviation MaxFutureClockSkew :: duration where "MaxFutureClockSkew \<equiv> 5 * Minute"

text \<open>The pattern \<open>^[A-Z][A-Z0-9_]{0,63}$\<close>.\<close>

definition operationPattern :: "string \<Rightarrow> bool" where
  "operationPattern s =
    (case s of
       [] \<Rightarrow> False
     | c # cs \<Rightarrow> is_upper c \<and> length cs \<le> 63 \<and> list_all (\<lambda>d. is_upper d \<or> is_digit d \<or> d = CHR ''_'') cs)"

record Registration =
  reg_WorkerID :: uuid
  reg_InstanceID :: string
  reg_Hostname :: string
  reg_SupportedOperations :: "string list"
  reg_SoftwareVersion :: string
  reg_MaxConcurrency :: int
  reg_StartedAt :: time

record heartbeatPayload =
  hbp_WorkerID :: uuid
  hbp_InstanceID :: string
  hbp_Hostname :: string
  hbp_SupportedOperations :: "string list"
  hbp_SoftwareVersion :: string
  hbp_Status :: string
  hbp_CurrentConcurrency :: int
  hbp_MaxConcurrency :: int
  hbp_CurrentJobIDs :: "uuid list"
  hbp_ObservedAt :: time

text \<open>The list of current jobs comes out of a Go map, in no particular order: it is a set.\<close>

record Heartbeat =
  hb_WorkerID :: uuid
  hb_InstanceID :: string
  hb_Hostname :: string
  hb_SupportedOperations :: "string list"
  hb_SoftwareVersion :: string
  hb_Status :: string
  hb_CurrentConcurrency :: int
  hb_MaxConcurrency :: int
  hb_CurrentJobIDs :: "uuid set"
  hb_ObservedAt :: time

definition registration_fields :: "Runtime \<Rightarrow> (string \<times> Registration setter) list" where
  "registration_fields rt =
    [(''workerId'', put (decode_uuid rt) (\<lambda>x. reg_WorkerID_update (\<lambda>_. x))),
     (''instanceId'', put decode_string (\<lambda>x. reg_InstanceID_update (\<lambda>_. x))),
     (''hostname'', put decode_string (\<lambda>x. reg_Hostname_update (\<lambda>_. x))),
     (''supportedOperations'', put_slice [] decode_string (\<lambda>x. reg_SupportedOperations_update (\<lambda>_. x))),
     (''softwareVersion'', put decode_string (\<lambda>x. reg_SoftwareVersion_update (\<lambda>_. x))),
     (''maxConcurrency'', put decode_int (\<lambda>x. reg_MaxConcurrency_update (\<lambda>_. x))),
     (''startedAt'', put (decode_time rt) (\<lambda>x. reg_StartedAt_update (\<lambda>_. x)))]"

definition zero_registration :: Registration where
  "zero_registration =
    \<lparr>reg_WorkerID = uuid_Nil, reg_InstanceID = [], reg_Hostname = [], reg_SupportedOperations = [],
     reg_SoftwareVersion = [], reg_MaxConcurrency = 0, reg_StartedAt = 0\<rparr>"

definition heartbeat_fields :: "Runtime \<Rightarrow> (string \<times> heartbeatPayload setter) list" where
  "heartbeat_fields rt =
    [(''workerId'', put (decode_uuid rt) (\<lambda>x. hbp_WorkerID_update (\<lambda>_. x))),
     (''instanceId'', put decode_string (\<lambda>x. hbp_InstanceID_update (\<lambda>_. x))),
     (''hostname'', put decode_string (\<lambda>x. hbp_Hostname_update (\<lambda>_. x))),
     (''supportedOperations'', put_slice [] decode_string (\<lambda>x. hbp_SupportedOperations_update (\<lambda>_. x))),
     (''softwareVersion'', put decode_string (\<lambda>x. hbp_SoftwareVersion_update (\<lambda>_. x))),
     (''status'', put decode_string (\<lambda>x. hbp_Status_update (\<lambda>_. x))),
     (''currentConcurrency'', put decode_int (\<lambda>x. hbp_CurrentConcurrency_update (\<lambda>_. x))),
     (''maxConcurrency'', put decode_int (\<lambda>x. hbp_MaxConcurrency_update (\<lambda>_. x))),
     (''currentJobIds'', put_slice uuid_Nil (decode_uuid rt) (\<lambda>x. hbp_CurrentJobIDs_update (\<lambda>_. x))),
     (''observedAt'', put (decode_time rt) (\<lambda>x. hbp_ObservedAt_update (\<lambda>_. x)))]"

definition zero_heartbeat :: heartbeatPayload where
  "zero_heartbeat =
    \<lparr>hbp_WorkerID = uuid_Nil, hbp_InstanceID = [], hbp_Hostname = [], hbp_SupportedOperations = [],
     hbp_SoftwareVersion = [], hbp_Status = [], hbp_CurrentConcurrency = 0, hbp_MaxConcurrency = 0,
     hbp_CurrentJobIDs = [], hbp_ObservedAt = 0\<rparr>"

text \<open>The code points below 32 and 127 are single bytes, and no other code point has such a byte.\<close>

definition boundedText :: "string \<Rightarrow> nat \<Rightarrow> bool" where
  "boundedText value maximum =
    (let trimmed = TrimSpace value
     in if trimmed = [] \<or> length trimmed > maximum then False
        else list_all (\<lambda>c. \<not> (of_char c < (32 :: nat) \<or> of_char c = (127 :: nat))) trimmed)"

fun identity_loop :: "string list \<Rightarrow> string list \<Rightarrow> unit result" where
  "identity_loop seen [] = Inr ()"
| "identity_loop seen (operation # rest) =
    (let normalized = TrimSpace operation
     in if \<not> operationPattern normalized then Inl WorkerErrInvalidEvent
        else if normalized \<in> set seen then Inl WorkerErrInvalidEvent
        else identity_loop (normalized # seen) rest)"

definition validateIdentity ::
  "uuid \<Rightarrow> string \<Rightarrow> string \<Rightarrow> string \<Rightarrow> string list \<Rightarrow> int \<Rightarrow> unit result" where
  "validateIdentity workerID instanceID hostname version operations maxConcurrency =
    (if workerID = uuid_Nil then Inl WorkerErrInvalidEvent
     else if \<not> boundedText instanceID 128 \<or> \<not> boundedText hostname 255 \<or> \<not> boundedText version 64
       then Inl WorkerErrInvalidEvent
     else if length operations < 1 \<or> length operations > 64 \<or> maxConcurrency < 1 \<or> maxConcurrency > 128
       then Inl WorkerErrInvalidEvent
     else identity_loop [] operations)"

definition normalizeOperations :: "string list \<Rightarrow> string list" where
  "normalizeOperations values = map TrimSpace values"

definition heartbeat_status :: "string \<Rightarrow> worker_status option" where
  "heartbeat_status s =
    (if s = ''STARTING'' then Some WStarting
     else if s = ''READY'' then Some WReady
     else if s = ''BUSY'' then Some WBusy
     else if s = ''DRAINING'' then Some WDraining
     else if s = ''UNHEALTHY'' then Some WUnhealthy
     else if s = ''OFFLINE'' then Some WOffline
     else None)"

definition isHeartbeatStatus :: "string \<Rightarrow> bool" where
  "isHeartbeatStatus s \<longleftrightarrow> heartbeat_status s \<noteq> None"

definition ParseRegistration :: "Runtime \<Rightarrow> Envelope \<Rightarrow> Registration result" where
  "ParseRegistration rt envelope =
    (if env_MessageType envelope \<noteq> MessageWorkerRegistered then Inl WorkerErrInvalidEvent
     else case decodeStrict rt (registration_fields rt) (env_Payload envelope) zero_registration of
       None \<Rightarrow> Inl WorkerErrInvalidEvent
     | Some p \<Rightarrow>
       bindE (validateIdentity (reg_WorkerID p) (reg_InstanceID p) (reg_Hostname p) (reg_SoftwareVersion p)
           (reg_SupportedOperations p) (reg_MaxConcurrency p)) (\<lambda>_.
       if time_IsZero (reg_StartedAt p) then Inl WorkerErrInvalidEvent
       else Inr \<lparr>reg_WorkerID = reg_WorkerID p, reg_InstanceID = TrimSpace (reg_InstanceID p),
          reg_Hostname = TrimSpace (reg_Hostname p),
          reg_SupportedOperations = normalizeOperations (reg_SupportedOperations p),
          reg_SoftwareVersion = TrimSpace (reg_SoftwareVersion p),
          reg_MaxConcurrency = reg_MaxConcurrency p, reg_StartedAt = reg_StartedAt p\<rparr>))"

definition ParseHeartbeat :: "Runtime \<Rightarrow> Envelope \<Rightarrow> Heartbeat result" where
  "ParseHeartbeat rt envelope =
    (if env_MessageType envelope \<noteq> MessageWorkerHeartbeat then Inl WorkerErrInvalidEvent
     else case decodeStrict rt (heartbeat_fields rt) (env_Payload envelope) zero_heartbeat of
       None \<Rightarrow> Inl WorkerErrInvalidEvent
     | Some p \<Rightarrow>
       bindE (validateIdentity (hbp_WorkerID p) (hbp_InstanceID p) (hbp_Hostname p) (hbp_SoftwareVersion p)
           (hbp_SupportedOperations p) (hbp_MaxConcurrency p)) (\<lambda>_.
       if \<not> isHeartbeatStatus (hbp_Status p) then Inl WorkerErrInvalidEvent
       else if hbp_CurrentConcurrency p < 0 \<or> hbp_CurrentConcurrency p > hbp_MaxConcurrency p
         then Inl WorkerErrInvalidEvent
       else if length (hbp_CurrentJobIDs p) > 128 \<or> time_IsZero (hbp_ObservedAt p)
         then Inl WorkerErrInvalidEvent
       else if uuid_Nil \<in> set (hbp_CurrentJobIDs p) then Inl WorkerErrInvalidEvent
       else Inr \<lparr>hb_WorkerID = hbp_WorkerID p, hb_InstanceID = TrimSpace (hbp_InstanceID p),
          hb_Hostname = TrimSpace (hbp_Hostname p),
          hb_SupportedOperations = normalizeOperations (hbp_SupportedOperations p),
          hb_SoftwareVersion = TrimSpace (hbp_SoftwareVersion p), hb_Status = hbp_Status p,
          hb_CurrentConcurrency = hbp_CurrentConcurrency p, hb_MaxConcurrency = hbp_MaxConcurrency p,
          hb_CurrentJobIDs = set (hbp_CurrentJobIDs p), hb_ObservedAt = hbp_ObservedAt p\<rparr>))"

section \<open>Repository\<close>

definition Workers_NewRepository :: "duration \<Rightarrow> duration result" where
  "Workers_NewRepository heartbeatTTL =
    (let ttl = (if heartbeatTTL = 0 then DefaultHeartbeatTTL else heartbeatTTL)
     in if ttl \<le> 0 \<or> ttl > MaxHeartbeatTTL
        then Inl (ErrText ''worker heartbeat TTL must be positive and bounded'')
        else Inr ttl)"

definition validateEventTimestamp :: "time \<Rightarrow> time \<Rightarrow> unit result" where
  "validateEventTimestamp now observed =
    (if time_IsZero observed then Inl WorkerErrInvalidEvent
     else if observed > now + MaxFutureClockSkew then Inl WorkerErrInvalidEvent
     else Inr ())"

text \<open>
  The upsert of a registration: a row that exists is replaced only by a later start, and its
  assignment time stays.
\<close>

definition register_row :: "Registration \<Rightarrow> Worker \<Rightarrow> Worker" where
  "register_row r w =
    w\<lparr>w_instance := reg_InstanceID r, w_host := reg_Hostname r, w_ops := reg_SupportedOperations r,
      w_software := reg_SoftwareVersion r, w_status := WStarting, w_current := 0,
      w_max := reg_MaxConcurrency r, w_started := reg_StartedAt r, w_observed := reg_StartedAt r,
      w_heartbeat := None\<rparr>"

definition ApplyRegistration :: "time \<Rightarrow> Registration \<Rightarrow> DB \<Rightarrow> DB result" where
  "ApplyRegistration now r db =
    bindE (validateEventTimestamp now (reg_StartedAt r)) (\<lambda>_.
      if reg_WorkerID r \<in> w_id ` set (db_workers db)
      then Inr (db\<lparr>db_workers := rows_update (\<lambda>w. w_id w = reg_WorkerID r \<and> w_started w < reg_StartedAt r)
             (register_row r) (db_workers db)\<rparr>)
      else Inr (db\<lparr>db_workers := db_workers db @
             [\<lparr>w_id = reg_WorkerID r, w_instance = reg_InstanceID r, w_host = reg_Hostname r,
               w_ops = reg_SupportedOperations r, w_software = reg_SoftwareVersion r,
               w_status = WStarting, w_current = 0, w_max = reg_MaxConcurrency r,
               w_started = reg_StartedAt r, w_observed = reg_StartedAt r, w_heartbeat = None,
               w_assigned = None\<rparr>]\<rparr>))"

text \<open>The row a heartbeat is for: the same instance, and nothing observed later.\<close>

definition heartbeat_row :: "Heartbeat \<Rightarrow> Worker \<Rightarrow> bool" where
  "heartbeat_row h w \<longleftrightarrow>
     w_id w = hb_WorkerID h \<and> w_instance w = hb_InstanceID h \<and> w_observed w \<le> hb_ObservedAt h"

definition ApplyHeartbeat :: "time \<Rightarrow> Heartbeat \<Rightarrow> DB \<Rightarrow> DB result" where
  "ApplyHeartbeat now h db =
    bindE (validateEventTimestamp now (hb_ObservedAt h)) (\<lambda>_.
      case heartbeat_status (hb_Status h) of
        None \<Rightarrow> Inl (ErrDatabase ''worker status check'')
      | Some status \<Rightarrow>
          Inr (db\<lparr>db_workers := rows_update (heartbeat_row h)
            (\<lambda>w. w\<lparr>w_host := hb_Hostname h, w_ops := hb_SupportedOperations h,
                   w_software := hb_SoftwareVersion h, w_status := status,
                   w_current := hb_CurrentConcurrency h, w_max := hb_MaxConcurrency h,
                   w_observed := hb_ObservedAt h, w_heartbeat := Some now\<rparr>) (db_workers db)\<rparr>))"

definition ApplyEnvelope :: "Runtime \<Rightarrow> time \<Rightarrow> Envelope \<Rightarrow> DB \<Rightarrow> DB result" where
  "ApplyEnvelope rt now envelope db =
    (if env_MessageType envelope = MessageWorkerRegistered then
       bindE (ParseRegistration rt envelope) (\<lambda>r. ApplyRegistration now r db)
     else if env_MessageType envelope = MessageWorkerHeartbeat then
       bindE (ParseHeartbeat rt envelope) (\<lambda>h. ApplyHeartbeat now h db)
     else Inl WorkerErrInvalidEvent)"

section \<open>Selection\<close>

definition normalizedRequiredOperations :: "string list \<Rightarrow> string list result" where
  "normalizedRequiredOperations operations =
    (if list_all (\<lambda>operation. operationPattern (TrimSpace operation)) operations
     then Inr (sort (remdups (map TrimSpace operations)))
     else Inl (ErrText ''required operation is invalid''))"

definition eligible :: "duration \<Rightarrow> string list \<Rightarrow> time \<Rightarrow> Worker \<Rightarrow> bool" where
  "eligible ttl required now w \<longleftrightarrow>
     (w_status w = WReady \<or> w_status w = WBusy) \<and>
     (case w_heartbeat w of None \<Rightarrow> False | Some t \<Rightarrow> t \<ge> now - ttl) \<and>
     set required \<subseteq> set (w_ops w)"

text \<open>\<open>ORDER BY last_assigned_at NULLS FIRST, worker_id\<close>\<close>

definition worker_order :: "Worker \<Rightarrow> bool \<times> time \<times> uuid" where
  "worker_order w =
    (w_assigned w \<noteq> None, (case w_assigned w of None \<Rightarrow> 0 | Some t \<Rightarrow> t), w_id w)"

definition active_leases :: "uuid \<Rightarrow> DB \<Rightarrow> int" where
  "active_leases workerID db =
    count_rows (\<lambda>a. a_worker a = Some workerID \<and> (a_state a = ALeased \<or> a_state a = ARunning)) (db_attempts db)"

definition mark_assigned :: "uuid \<Rightarrow> time \<Rightarrow> DB \<Rightarrow> DB" where
  "mark_assigned workerID now db =
    db\<lparr>db_workers := row_update w_id workerID (\<lambda>w. w\<lparr>w_assigned := Some now\<rparr>) (db_workers db)\<rparr>"

text \<open>Each round of the loop excludes one more row of the table.\<close>

function select_loop :: "duration \<Rightarrow> string list \<Rightarrow> time \<Rightarrow> uuid list \<Rightarrow> DB \<Rightarrow> (uuid \<times> bool) \<times> DB" where
  "select_loop ttl required now excluded db =
    (case sort_key worker_order
        (filter (\<lambda>w. eligible ttl required now w \<and> w_id w \<notin> set excluded) (db_workers db)) of
       [] \<Rightarrow> ((uuid_Nil, False), db)
     | w # _ \<Rightarrow>
         if active_leases (w_id w) db \<ge> w_max w
         then select_loop ttl required now (excluded @ [w_id w]) db
         else ((w_id w, True), mark_assigned (w_id w) now db))"
  by pat_completeness auto
termination
proof (relation "measure (\<lambda>(ttl, required, now, excluded, db).
    length (filter (\<lambda>w. w_id w \<notin> set excluded) (db_workers db)))", goal_cases)
  case (2 ttl required now excluded db w ws)
  then have "w \<in> set (sort_key worker_order
      (filter (\<lambda>w. eligible ttl required now w \<and> w_id w \<notin> set excluded) (db_workers db)))"
    by simp
  then have w: "w \<in> set (db_workers db)" "w_id w \<notin> set excluded" by auto
  have "length (filter (\<lambda>v. w_id v \<notin> set excluded \<and> w_id v \<noteq> w_id w) rows) <
      length (filter (\<lambda>v. w_id v \<notin> set excluded) rows)" if "w \<in> set rows" for rows
    using that
  proof (induction rows)
    case (Cons v rows)
    have "length (filter (\<lambda>v. w_id v \<notin> set excluded \<and> w_id v \<noteq> w_id w) rows) \<le>
        length (filter (\<lambda>v. w_id v \<notin> set excluded) rows)"
      by (induction rows) auto
    then show ?case using Cons w(2) by (cases "v = w") auto
  qed simp
  from this [OF w(1)] show ?case by (simp add: conj_commute)
qed simp

declare select_loop.simps [simp del]

definition SelectForLease :: "duration \<Rightarrow> string list \<Rightarrow> time \<Rightarrow> DB \<Rightarrow> ((uuid \<times> bool) \<times> DB) result" where
  "SelectForLease ttl operations now db =
    (if operations = [] then Inl (ErrText ''worker selection requires a registry transaction and operations'')
     else bindE (normalizedRequiredOperations operations) (\<lambda>required.
       Inr (select_loop ttl required now [] db)))"

section \<open>The loop takes the least recently assigned worker with room\<close>

definition eligible_workers :: "duration \<Rightarrow> string list \<Rightarrow> time \<Rightarrow> DB \<Rightarrow> Worker list" where
  "eligible_workers ttl required now db = sort_key worker_order (filter (eligible ttl required now) (db_workers db))"

lemma select_loop_find:
  assumes "distinct (map w_id (db_workers db))"
  shows "select_loop ttl required now excluded db =
    (case find (\<lambda>w. active_leases (w_id w) db < w_max w)
        (filter (\<lambda>w. w_id w \<notin> set excluded) (eligible_workers ttl required now db)) of
       None \<Rightarrow> ((uuid_Nil, False), db)
     | Some w \<Rightarrow> ((w_id w, True), mark_assigned (w_id w) now db))"
  using assms
proof (induction ttl required now excluded db rule: select_loop.induct)
  case (1 ttl required now excluded db)
  let ?L = "filter (\<lambda>w. w_id w \<notin> set excluded) (eligible_workers ttl required now db)"
  have L: "sort_key worker_order
      (filter (\<lambda>w. eligible ttl required now w \<and> w_id w \<notin> set excluded) (db_workers db)) = ?L"
    by (simp add: eligible_workers_def filter_sort conj_commute)
  have "distinct (map w_id (eligible_workers ttl required now db))"
    using "1.prems" by (simp add: eligible_workers_def distinct_map inj_on_def)
  then have dist: "distinct (map w_id ?L)" by (simp add: distinct_map inj_on_def)
  show ?case
  proof (cases ?L)
    case Nil
    then show ?thesis using L by (simp add: select_loop.simps [of ttl required now excluded])
  next
    case (Cons w ws)
    have "filter (\<lambda>v. w_id v \<notin> set (excluded @ [w_id w])) (eligible_workers ttl required now db) =
        filter (\<lambda>v. w_id v \<noteq> w_id w) ?L"
      by (simp add: conj_commute)
    also have "\<dots> = ws" using Cons dist by (auto simp: filter_id_conv) (metis image_eqI)
    finally have rest: "filter (\<lambda>v. w_id v \<notin> set (excluded @ [w_id w])) (eligible_workers ttl required now db) = ws" .
    show ?thesis
    proof (cases "active_leases (w_id w) db \<ge> w_max w")
      case True
      then have "select_loop ttl required now excluded db = select_loop ttl required now (excluded @ [w_id w]) db"
        using L Cons by (simp add: select_loop.simps [of ttl required now excluded])
      moreover note "1.IH" [OF L [unfolded Cons] True "1.prems"]
      ultimately show ?thesis using True rest Cons by (simp del: filter_filter)
    next
      case False
      then show ?thesis using L Cons by (simp add: select_loop.simps [of ttl required now excluded])
    qed
  qed
qed

section \<open>What the lease repository relies on\<close>

text \<open>
  A selector that answers with a worker has found it in the registry, able to run the
  operations and with room for one more lease, and has written to the registry only; a
  selector that finds none has written nothing.
\<close>

locale worker_selector =
  fixes select :: "string list \<Rightarrow> time \<Rightarrow> DB \<Rightarrow> ((uuid \<times> bool) \<times> DB) result"
  assumes select_room: "select operations now db = Inr ((workerID, True), db') \<Longrightarrow>
      \<exists>w \<in> set (db_workers db). w_id w = workerID \<and> active_leases workerID db < w_max w \<and>
        TrimSpace ` set operations \<subseteq> set (w_ops w) \<and> (w_status w = WReady \<or> w_status w = WBusy)"
    and select_writes: "select operations now db = Inr ((workerID, found), db') \<Longrightarrow>
      \<exists>ws. db' = db\<lparr>db_workers := ws\<rparr> \<and> map (\<lambda>w. (w_id w, w_max w)) ws = map (\<lambda>w. (w_id w, w_max w)) (db_workers db)"
    and select_none: "select operations now db = Inr ((workerID, False), db') \<Longrightarrow> db' = db"
begin

lemma select_frame:
  assumes "select operations now db = Inr ((workerID, found), db')"
  shows "db_jobs db' = db_jobs db" "db_attempts db' = db_attempts db" "db_quotas db' = db_quotas db"
    "db_history db' = db_history db" "db_projections db' = db_projections db" "db_outbox db' = db_outbox db"
    "active_leases k db' = active_leases k db"
  using select_writes [OF assms] by (auto simp: active_leases_def)

end

lemma normalizedRequiredOperations_Inr:
  "normalizedRequiredOperations operations = Inr required \<Longrightarrow> set required = TrimSpace ` set operations"
  by (auto simp: normalizedRequiredOperations_def split: if_splits)

text \<open>The loop may stop only at a row with room, whether or not identifiers repeat.\<close>

lemma select_loop_room:
  assumes "select_loop ttl required now excluded db = ((workerID, found), db')"
  shows "(found \<longrightarrow> db' = mark_assigned workerID now db \<and>
      (\<exists>w \<in> set (db_workers db). w_id w = workerID \<and> active_leases workerID db < w_max w \<and> eligible ttl required now w)) \<and>
    (\<not> found \<longrightarrow> db' = db)"
  using assms
proof (induction ttl required now excluded db rule: select_loop.induct)
  case (1 ttl required now excluded db)
  let ?L = "sort_key worker_order
      (filter (\<lambda>w. eligible ttl required now w \<and> w_id w \<notin> set excluded) (db_workers db))"
  show ?case
  proof (cases ?L)
    case Nil
    then show ?thesis using "1.prems" by (simp add: select_loop.simps [of ttl required now excluded])
  next
    case (Cons w ws)
    then have "w \<in> set ?L" by simp
    then have w: "w \<in> set (db_workers db)" "eligible ttl required now w" by auto
    show ?thesis
    proof (cases "active_leases (w_id w) db \<ge> w_max w")
      case True
      then show ?thesis using "1.IH" [OF Cons True] "1.prems" Cons
        by (simp add: select_loop.simps [of ttl required now excluded])
    next
      case False
      then show ?thesis using "1.prems" Cons w
        by (auto simp: select_loop.simps [of ttl required now excluded])
    qed
  qed
qed

text \<open>The worker that is selected is alive: its last heartbeat is no older than the registry allows.\<close>

lemma SelectForLease_live:
  assumes "SelectForLease ttl operations now db = Inr ((workerID, True), db')"
  shows "\<exists>w \<in> set (db_workers db). w_id w = workerID \<and> active_leases workerID db < w_max w \<and>
    TrimSpace ` set operations \<subseteq> set (w_ops w) \<and> (w_status w = WReady \<or> w_status w = WBusy) \<and>
    (\<exists>t. w_heartbeat w = Some t \<and> now - ttl \<le> t)"
proof -
  from assms obtain required where req: "normalizedRequiredOperations operations = Inr required"
    and loop: "select_loop ttl required now [] db = ((workerID, True), db')"
    by (auto simp: SelectForLease_def bindE_Inr split: if_splits)
  from select_loop_room [OF loop] obtain w where "w \<in> set (db_workers db)" "w_id w = workerID"
    "active_leases workerID db < w_max w" "eligible ttl required now w" by blast
  then show ?thesis
    using normalizedRequiredOperations_Inr [OF req] by (intro bexI [of _ w]) (auto simp: eligible_def split: option.splits)
qed

interpretation registry_selector: worker_selector "SelectForLease ttl" for ttl
proof unfold_locales
  fix operations now db workerID db'
  assume "SelectForLease ttl operations now db = Inr ((workerID, True), db')"
  then show "\<exists>w \<in> set (db_workers db). w_id w = workerID \<and> active_leases workerID db < w_max w \<and>
        TrimSpace ` set operations \<subseteq> set (w_ops w) \<and> (w_status w = WReady \<or> w_status w = WBusy)"
    using SelectForLease_live by blast
next
  fix operations now db workerID found db'
  assume "SelectForLease ttl operations now db = Inr ((workerID, found), db')"
  then obtain required where "select_loop ttl required now [] db = ((workerID, found), db')"
    by (auto simp: SelectForLease_def bindE_Inr split: if_splits)
  then have "db' = db \<or> db' = mark_assigned workerID now db" using select_loop_room by blast
  then show "\<exists>ws. db' = db\<lparr>db_workers := ws\<rparr> \<and>
      map (\<lambda>w. (w_id w, w_max w)) ws = map (\<lambda>w. (w_id w, w_max w)) (db_workers db)"
    by (elim disjE) (rule exI [of _ "db_workers db'"], simp add: mark_assigned_def row_update_def)+
next
  fix operations now db workerID db'
  assume "SelectForLease ttl operations now db = Inr ((workerID, False), db')"
  then obtain required where "select_loop ttl required now [] db = ((workerID, False), db')"
    by (auto simp: SelectForLease_def bindE_Inr split: if_splits)
  then show "db' = db" using select_loop_room by blast
qed

end
