(* ===== verification/Leases.thy ===== *)
theory Leases
  imports Workers Outbox Retry JobValidation
begin

text \<open>
  Leases (\<open>internal/lease\<close>): acquisition of a queued job for a selected worker, renewal, and
  the sweep that times out expired attempts and retries, dead-letters or cancels their jobs.
  The clock, the worker selector, the outbox writer, the randomness of the retry jitter and
  the identifiers drawn from \<open>uuid.New()\<close> are arguments.
\<close>

section \<open>Configuration\<close>

abbreviation DefaultLeaseDuration :: duration where "DefaultLeaseDuration \<equiv> 2 * Minute"
abbreviation DefaultRenewalWindow :: duration where "DefaultRenewalWindow \<equiv> 2 * Minute"
abbreviation MaxLeaseDuration :: duration where "MaxLeaseDuration \<equiv> 30 * Minute"
abbreviation DefaultSweepBatchLimit :: int where "DefaultSweepBatchLimit \<equiv> 100"
abbreviation MaxSweepBatchLimit :: int where "MaxSweepBatchLimit \<equiv> 1000"

record LeaseConfig =
  lc_LeaseDuration :: duration
  lc_RenewalWindow :: duration
  lc_SweepLimit :: int
  lc_RetryPolicy :: Policy

definition normalizeDuration :: "duration \<Rightarrow> duration \<Rightarrow> duration result" where
  "normalizeDuration value0 fallback =
    (let value = (if value0 = 0 then fallback else value0)
     in if value \<le> 0 \<or> value > MaxLeaseDuration then Inl LeaseErrInvalidInput else Inr value)"

definition validateConfig :: "LeaseConfig \<Rightarrow> unit result" where
  "validateConfig config =
    bindE (normalizeDuration (lc_LeaseDuration config) 0) (\<lambda>_.
    bindE (normalizeDuration (lc_RenewalWindow config) 0) (\<lambda>_.
    if lc_SweepLimit config < 1 \<or> lc_SweepLimit config > MaxSweepBatchLimit then Inl LeaseErrInvalidInput
    else Policy_Validate (lc_RetryPolicy config)))"

definition Lease_NewRepository :: "LeaseConfig \<Rightarrow> LeaseConfig result" where
  "Lease_NewRepository config =
    (let c1 = (if lc_LeaseDuration config = 0 then config\<lparr>lc_LeaseDuration := DefaultLeaseDuration\<rparr> else config);
         c2 = (if lc_RenewalWindow c1 = 0 then c1\<lparr>lc_RenewalWindow := DefaultRenewalWindow\<rparr> else c1);
         c3 = (if lc_SweepLimit c2 = 0 then c2\<lparr>lc_SweepLimit := DefaultSweepBatchLimit\<rparr> else c2);
         c4 = (if pol_MaxAttempts (lc_RetryPolicy c3) = 0 then c3\<lparr>lc_RetryPolicy := DefaultPolicy\<rparr> else c3)
     in bindE (validateConfig c4) (\<lambda>_. Inr c4))"

definition Lease_recordHistory :: "uuid \<Rightarrow> job_state \<Rightarrow> job_state \<Rightarrow> string \<Rightarrow> DB \<Rightarrow> DB" where
  "Lease_recordHistory jobID fromState toState reason db =
    add_history jobID (Some fromState) toState reason None db"

section \<open>Acquisition\<close>

record Lease =
  l_LeaseID :: uuid
  l_JobID :: uuid
  l_AttemptID :: uuid
  l_WorkerID :: uuid
  l_AttemptNumber :: int
  l_LeasedAt :: time
  l_LeaseExpiresAt :: time
  l_LastRenewedAt :: time

record AcquireCommand =
  ac_JobID :: uuid
  ac_Duration :: duration

record leaseCandidate =
  lcd_JobID :: uuid
  lcd_JobState :: job_state
  lcd_NextAttemptAt :: "time option"
  lcd_DatasetVersionID :: uuid
  lcd_Operations :: "Operation list"
  lcd_AttemptID :: uuid
  lcd_AttemptNumber :: int
  lcd_AttemptState :: attempt_state
  lcd_ObjectKey :: string
  lcd_ContentType :: string
  lcd_Format :: string
  lcd_SizeBytes :: "int option"

text \<open>The job, its attempt with the largest number and its dataset version, joined.\<close>

definition lockLeaseCandidate :: "uuid \<Rightarrow> DB \<Rightarrow> leaseCandidate result" where
  "lockLeaseCandidate jobID db =
    (case find_job jobID db of
       None \<Rightarrow> Inl JobErrJobNotFound
     | Some j \<Rightarrow>
       (case (max_row a_num (attempts_of jobID db), row_find v_id (j_version j) (db_versions db)) of
          (Some a, Some v) \<Rightarrow>
            Inr \<lparr>lcd_JobID = j_id j, lcd_JobState = j_state j, lcd_NextAttemptAt = j_next j,
                 lcd_DatasetVersionID = j_version j, lcd_Operations = j_ops j, lcd_AttemptID = a_id a,
                 lcd_AttemptNumber = a_num a, lcd_AttemptState = a_state a, lcd_ObjectKey = v_object v,
                 lcd_ContentType = v_ctype v, lcd_Format = v_format v, lcd_SizeBytes = v_size v\<rparr>
        | _ \<Rightarrow> Inl JobErrJobNotFound))"

fun operation_types :: "string list \<Rightarrow> Operation list \<Rightarrow> string list result" where
  "operation_types seen [] = Inr []"
| "operation_types seen (operation # rest) =
    (if op_Type operation = [] then Inl LeaseErrInvalidInput
     else if op_Type operation \<in> set seen then operation_types seen rest
     else bindE (operation_types (op_Type operation # seen) rest) (\<lambda>types. Inr (op_Type operation # types)))"

definition decodeOperationTypes :: "Operation list \<Rightarrow> string list result" where
  "decodeOperationTypes operations =
    (if operations = [] then Inl LeaseErrInvalidInput else operation_types [] operations)"

definition assign_attempt :: "Lease \<Rightarrow> Attempt \<Rightarrow> Attempt" where
  "assign_attempt lease a =
    a\<lparr>a_state := ALeased, a_lease := Some (l_LeaseID lease), a_worker := Some (l_WorkerID lease),
      a_leased := Some (l_LeasedAt lease), a_renewed := Some (l_LeasedAt lease),
      a_expires := Some (l_LeaseExpiresAt lease)\<rparr>"

text \<open>The unique index on lease identifiers refuses one that another attempt has.\<close>

definition assignLease :: "leaseCandidate \<Rightarrow> Lease \<Rightarrow> DB \<Rightarrow> DB result" where
  "assignLease item lease db =
    (if \<exists>a \<in> set (db_attempts db). a_lease a = Some (l_LeaseID lease) \<and> a_id a \<noteq> lcd_AttemptID item
     then Inl (ErrDatabase ''duplicate lease'')
     else
       let db1 = update_attempt (lcd_AttemptID item) (assign_attempt lease) db;
           db2 = update_job (lcd_JobID item)
             (\<lambda>j. j\<lparr>j_state := Leased, j_next := None, j_updated := l_LeasedAt lease\<rparr>) db1;
           db3 = (case find_job (lcd_JobID item) db2 of
                    None \<Rightarrow> db2
                  | Some j \<Rightarrow> update_quota (j_owner j)
                      (\<lambda>q. q\<lparr>q_queued := max (q_queued q - 1) 0, q_active := q_active q + 1,
                             q_updated := l_LeasedAt lease\<rparr>) db2)
       in Inr (Lease_recordHistory (lcd_JobID item) Queued Leased ''lease_assigned'' db3))"

definition newAcquireCommand :: "Runtime \<Rightarrow> uuid \<Rightarrow> time \<Rightarrow> leaseCandidate \<Rightarrow> Lease \<Rightarrow> Message result" where
  "newAcquireCommand rt msgID now item lease =
    (case lcd_SizeBytes item of
       None \<Rightarrow> Inl (ErrText ''lease source size is missing'')
     | Some size' \<Rightarrow>
       (case those (map (operation_json rt) (lcd_Operations item)) of
          None \<Rightarrow> Inl (ErrText ''json: unsupported value'')
        | Some operations \<Rightarrow>
          bindE (NewEnvelope rt msgID now MessageJobRequested (uuid_String rt (lcd_JobID item))
              (uuid_String rt (lcd_JobID item)) (uuid_String rt (l_LeaseID lease))
              (JObj [(''jobId'', JStr (uuid_String rt (lcd_JobID item))),
                (''datasetVersionId'', JStr (uuid_String rt (lcd_DatasetVersionID item))),
                (''attemptId'', JStr (uuid_String rt (l_AttemptID lease))),
                (''leaseId'', JStr (uuid_String rt (l_LeaseID lease))),
                (''workerId'', JStr (uuid_String rt (l_WorkerID lease))),
                (''attemptNumber'', JNum (int_text (l_AttemptNumber lease))),
                (''operations'', JArr operations),
                (''source'', JObj [(''objectKey'', JStr (lcd_ObjectKey item)),
                   (''contentType'', JStr (lcd_ContentType item)), (''format'', JStr (lcd_Format item)),
                   (''sizeBytes'', JNum (int_text size'))])])) (\<lambda>envelope.
          bindE (WorkerRoutingKey rt MessageJobRequested (l_WorkerID lease)) (\<lambda>routingKey.
          Inr (command_message envelope CommandsExchange routingKey 0)))))"

definition enqueueAcquireCommand ::
  "Runtime \<Rightarrow> (time \<Rightarrow> Message \<Rightarrow> DB \<Rightarrow> DB result) \<Rightarrow> uuid \<Rightarrow> time \<Rightarrow> leaseCandidate \<Rightarrow> Lease \<Rightarrow> time \<Rightarrow> DB \<Rightarrow> DB result" where
  "enqueueAcquireCommand rt enqueue msgID now item lease availableAt db =
    bindE (newAcquireCommand rt msgID now item lease) (\<lambda>message.
      enqueue now (message\<lparr>m_Available := availableAt\<rparr>) db)"

definition Acquire ::
  "Runtime \<Rightarrow> (time \<Rightarrow> Message \<Rightarrow> DB \<Rightarrow> DB result) \<Rightarrow>
   (string list \<Rightarrow> time \<Rightarrow> DB \<Rightarrow> ((uuid \<times> bool) \<times> DB) result) \<Rightarrow> LeaseConfig \<Rightarrow> uuid \<Rightarrow> uuid \<Rightarrow> time \<Rightarrow>
   AcquireCommand \<Rightarrow> DB \<Rightarrow> (Lease \<times> DB) result" where
  "Acquire rt enqueue select config leaseID msgID now c db =
    (if ac_JobID c = uuid_Nil then Inl LeaseErrInvalidInput
     else
       bindE (normalizeDuration (ac_Duration c) (lc_LeaseDuration config)) (\<lambda>leaseFor.
       bindE (lockLeaseCandidate (ac_JobID c) db) (\<lambda>item.
       if lcd_JobState item \<noteq> Queued \<or> lcd_AttemptState item \<noteq> ACreated then Inl JobErrJobState
       else if (case lcd_NextAttemptAt item of None \<Rightarrow> False | Some t \<Rightarrow> t > now) then Inl LeaseErrLeaseNotReady
       else if lcd_SizeBytes item = None then Inl (ErrText ''lease source size is missing for dataset version'')
       else
         bindE (decodeOperationTypes (lcd_Operations item)) (\<lambda>operationTypes.
         bindE (select operationTypes now db) (\<lambda>((workerID, available), db1).
         if \<not> available \<or> workerID = uuid_Nil then Inl LeaseErrWorkerUnavailable
         else
           let lease = \<lparr>l_LeaseID = leaseID, l_JobID = lcd_JobID item, l_AttemptID = lcd_AttemptID item,
                 l_WorkerID = workerID, l_AttemptNumber = lcd_AttemptNumber item, l_LeasedAt = now,
                 l_LeaseExpiresAt = now + leaseFor, l_LastRenewedAt = now\<rparr>
           in bindE (assignLease item lease db1) (\<lambda>db2.
              bindE (enqueueAcquireCommand rt enqueue msgID now item lease now db2) (\<lambda>db3.
              Inr (lease, db3))))))))"

section \<open>Renewal\<close>

record RenewCommand =
  rn_LeaseID :: uuid
  rn_WorkerID :: uuid
  rn_Duration :: duration

definition leased_to :: "uuid \<Rightarrow> uuid \<Rightarrow> Attempt \<Rightarrow> bool" where
  "leased_to leaseID workerID a \<longleftrightarrow> a_lease a = Some leaseID \<and> a_worker a = Some workerID"

definition Renew :: "LeaseConfig \<Rightarrow> time \<Rightarrow> RenewCommand \<Rightarrow> DB \<Rightarrow> (Lease \<times> DB) result" where
  "Renew config now c db =
    (if rn_LeaseID c = uuid_Nil \<or> rn_WorkerID c = uuid_Nil then Inl LeaseErrInvalidInput
     else
       bindE (normalizeDuration (rn_Duration c) (lc_RenewalWindow config)) (\<lambda>extension.
       case find (leased_to (rn_LeaseID c) (rn_WorkerID c)) (db_attempts db) of
         None \<Rightarrow> Inl LeaseErrLeaseNotFound
       | Some a \<Rightarrow>
           if a_state a \<noteq> ALeased \<and> a_state a \<noteq> ARunning then Inl LeaseErrLeaseState
           else if (case a_expires a of None \<Rightarrow> True | Some t \<Rightarrow> \<not> t > now) then Inl LeaseErrLeaseExpired
           else Inr (\<lparr>l_LeaseID = rn_LeaseID c, l_JobID = a_job a, l_AttemptID = a_id a,
                   l_WorkerID = rn_WorkerID c, l_AttemptNumber = a_num a,
                   l_LeasedAt = (case a_leased a of None \<Rightarrow> 0 | Some t \<Rightarrow> t),
                   l_LeaseExpiresAt = now + extension, l_LastRenewedAt = now\<rparr>,
                 db\<lparr>db_attempts := rows_update (leased_to (rn_LeaseID c) (rn_WorkerID c))
                   (\<lambda>a. a\<lparr>a_renewed := Some now, a_expires := Some (now + extension)\<rparr>) (db_attempts db)\<rparr>)))"

section \<open>Sweep\<close>

record expiredCandidate =
  ec_JobID :: uuid
  ec_AttemptID :: uuid
  ec_LeaseID :: uuid
  ec_WorkerID :: uuid
  ec_OwnerUserID :: uuid
  ec_JobState :: job_state
  ec_AttemptState :: attempt_state
  ec_AttemptNumber :: int
  ec_MaxAttempts :: int

record SweepReport =
  sr_Claimed :: int
  sr_Retried :: int
  sr_DeadLettered :: int
  sr_Cancelled :: int
  sr_Skipped :: int

record SweepDraws =
  sd_attempt :: uuid
  sd_message :: uuid
  sd_dead :: uuid
  sd_random :: "int \<Rightarrow> int"

definition expired :: "time \<Rightarrow> Job \<times> Attempt \<Rightarrow> bool" where
  "expired now r \<longleftrightarrow>
     (j_state (fst r) = Leased \<or> j_state (fst r) = Running \<or> j_state (fst r) = CancelRequested) \<and>
     (a_state (snd r) = ALeased \<or> a_state (snd r) = ARunning) \<and>
     (case a_expires (snd r) of None \<Rightarrow> False | Some t \<Rightarrow> t \<le> now)"

definition job_attempt_rows :: "DB \<Rightarrow> (Job \<times> Attempt) list" where
  "job_attempt_rows db =
    List.map_filter (\<lambda>a. map_option (\<lambda>j. (j, a)) (find_job (a_job a) db)) (db_attempts db)"

text \<open>A row whose lease or worker is NULL does not scan into the candidate.\<close>

fun scanExpired :: "Job \<times> Attempt \<Rightarrow> expiredCandidate result" where
  "scanExpired (j, a) =
    (case (a_lease a, a_worker a) of
       (Some leaseID, Some workerID) \<Rightarrow>
         Inr \<lparr>ec_JobID = j_id j, ec_AttemptID = a_id a, ec_LeaseID = leaseID, ec_WorkerID = workerID,
              ec_OwnerUserID = j_owner j, ec_JobState = j_state j, ec_AttemptState = a_state a,
              ec_AttemptNumber = a_num a, ec_MaxAttempts = j_max j\<rparr>
     | _ \<Rightarrow> Inl (ErrText ''scan expired lease''))"

definition enqueueRetry ::
  "Runtime \<Rightarrow> (time \<Rightarrow> Message \<Rightarrow> DB \<Rightarrow> DB result) \<Rightarrow> uuid \<Rightarrow> time \<Rightarrow> expiredCandidate \<Rightarrow> time \<Rightarrow> DB \<Rightarrow> DB result" where
  "enqueueRetry rt enqueue msgID now item availableAt db =
    (let traceID = uuid_String rt (ec_JobID item)
     in bindE (NewEnvelope rt msgID now MessageJobQueued traceID traceID (uuid_String rt (ec_LeaseID item))
          (JObj [(''jobId'', JStr traceID)])) (\<lambda>envelope.
        enqueue now (command_message envelope CommandsExchange (env_MessageType envelope) availableAt) db))"

definition time_out :: "time \<Rightarrow> Attempt \<Rightarrow> Attempt" where
  "time_out now a = a\<lparr>a_state := ATimedOut, a_finished := Some now, a_expires := Some now\<rparr>"

definition release_active :: "time \<Rightarrow> Quota \<Rightarrow> Quota" where
  "release_active now q = q\<lparr>q_active := max (q_active q - 1) 0, q_updated := now\<rparr>"

definition requeue_active :: "time \<Rightarrow> Quota \<Rightarrow> Quota" where
  "requeue_active now q =
    q\<lparr>q_active := max (q_active q - 1) 0, q_queued := q_queued q + 1, q_updated := now\<rparr>"

definition expireOne ::
  "Runtime \<Rightarrow> (time \<Rightarrow> Message \<Rightarrow> DB \<Rightarrow> DB result) \<Rightarrow> LeaseConfig \<Rightarrow> SweepDraws \<Rightarrow> expiredCandidate \<Rightarrow> time \<Rightarrow>
   SweepReport \<Rightarrow> DB \<Rightarrow> (SweepReport \<times> DB) result" where
  "expireOne rt enqueue config draws item now report db =
    (let db1 = update_attempt (ec_AttemptID item) (time_out now) db
     in if ec_JobState item = CancelRequested then
          let db2 = update_attempt (ec_AttemptID item)
                (\<lambda>a. a\<lparr>a_state := ACancelled, a_finished := Some now, a_errcode := None, a_errmsg := None,
                       a_retryable := False\<rparr>) db1;
              db3 = update_job (ec_JobID item)
                (\<lambda>j. j\<lparr>j_state := Cancelled, j_next := None, j_completed := Some now, j_finished := Some now,
                       j_updated := now, j_errcode := None, j_errmsg := None\<rparr>) db2;
              db4 = update_quota (ec_OwnerUserID item) (release_active now) db3;
              db5 = add_projection (cancelled_projection (ec_JobID item) (ec_AttemptID item)
                ''worker lease expired after cancellation request'') db4;
              db6 = Lease_recordHistory (ec_JobID item) CancelRequested Cancelled ''cancellation_lease_expired'' db5
          in Inr (report\<lparr>sr_Cancelled := sr_Cancelled report + 1\<rparr>, db6)
        else
          let nextAttempt = ec_AttemptNumber item + 1
          in if ec_AttemptNumber item \<ge> 1 \<and> nextAttempt \<le> ec_MaxAttempts item then
               let policy = (if pol_MaxAttempts (lc_RetryPolicy config) < ec_MaxAttempts item
                     then (lc_RetryPolicy config)\<lparr>pol_MaxAttempts := ec_MaxAttempts item\<rparr>
                     else lc_RetryPolicy config)
               in bindE (Policy_Delay policy nextAttempt (Some (sd_random draws))) (\<lambda>delay.
                  let nextAt = now + delay
                  in bindE (insert_attempt (new_attempt (sd_attempt draws) (ec_JobID item) nextAttempt now) db1) (\<lambda>db2.
                     let db3 = update_job (ec_JobID item)
                           (\<lambda>j. j\<lparr>j_state := Queued, j_next := Some nextAt, j_updated := now,
                                  j_errcode := Some ''LEASE_EXPIRED'', j_errmsg := Some ''worker lease expired''\<rparr>) db2;
                         db4 = update_quota (ec_OwnerUserID item) (requeue_active now) db3;
                         db5 = Lease_recordHistory (ec_JobID item) (ec_JobState item) Queued
                           ''lease_expired_retry_scheduled'' db4
                     in bindE (enqueueRetry rt enqueue (sd_message draws) now item nextAt db5) (\<lambda>db6.
                        Inr (report\<lparr>sr_Retried := sr_Retried report + 1\<rparr>, db6))))
             else
               let db2 = update_job (ec_JobID item)
                     (\<lambda>j. j\<lparr>j_state := DeadLettered, j_next := None, j_updated := now, j_finished := Some now,
                            j_errcode := Some ''LEASE_EXPIRED'', j_errmsg := Some ''worker lease expired''\<rparr>) db1;
                   db3 = update_quota (ec_OwnerUserID item) (release_active now) db2
               in bindE (insert_dead_letter
                    \<lparr>d_id = sd_dead draws, d_job = ec_JobID item, d_attempt = ec_AttemptID item,
                     d_lease = ec_LeaseID item, d_worker = ec_WorkerID item, d_num = ec_AttemptNumber item,
                     d_errcode = ''LEASE_EXPIRED'', d_errmsg = ''worker lease expired'', d_retryable = True,
                     d_diagnostic = None, d_created = now, d_replayed = None, d_replayer = None\<rparr> db3) (\<lambda>db4.
                  Inr (report\<lparr>sr_DeadLettered := sr_DeadLettered report + 1\<rparr>,
                    Lease_recordHistory (ec_JobID item) (ec_JobState item) DeadLettered
                      ''lease_expired_dead_lettered'' db4)))"

fun expire_loop ::
  "Runtime \<Rightarrow> (time \<Rightarrow> Message \<Rightarrow> DB \<Rightarrow> DB result) \<Rightarrow> LeaseConfig \<Rightarrow> (uuid \<Rightarrow> SweepDraws) \<Rightarrow> time \<Rightarrow>
   expiredCandidate list \<Rightarrow> SweepReport \<Rightarrow> DB \<Rightarrow> (SweepReport \<times> DB) result" where
  "expire_loop rt enqueue config draws now [] report db = Inr (report, db)"
| "expire_loop rt enqueue config draws now (item # items) report db =
    bindE (expireOne rt enqueue config (draws (ec_AttemptID item)) item now report db) (\<lambda>(report', db').
      expire_loop rt enqueue config draws now items report' db')"

definition SweepExpired ::
  "Runtime \<Rightarrow> (time \<Rightarrow> Message \<Rightarrow> DB \<Rightarrow> DB result) \<Rightarrow> LeaseConfig \<Rightarrow> (uuid \<Rightarrow> SweepDraws) \<Rightarrow> time \<Rightarrow> int \<Rightarrow> DB \<Rightarrow>
   (SweepReport \<times> DB) result" where
  "SweepExpired rt enqueue config draws now limit0 db =
    (let limit = (if limit0 = 0 then lc_SweepLimit config else limit0)
     in if limit < 1 \<or> limit > MaxSweepBatchLimit then Inl LeaseErrInvalidInput
        else
          let rows = take (nat limit)
                (sort_key (\<lambda>(j, a). ((case a_expires a of None \<Rightarrow> 0 | Some t \<Rightarrow> t), a_id a))
                  (filter (expired now) (job_attempt_rows db)))
          in bindE (mapE scanExpired rows) (\<lambda>candidates.
             expire_loop rt enqueue config draws now candidates
               \<lparr>sr_Claimed = int (length candidates), sr_Retried = 0, sr_DeadLettered = 0, sr_Cancelled = 0,
                sr_Skipped = 0\<rparr> db))"

section \<open>Facts about the configuration\<close>

lemma normalizeDuration_Inr:
  "normalizeDuration v fallback = Inr d \<Longrightarrow> 0 < d \<and> d \<le> MaxLeaseDuration \<and> d = (if v = 0 then fallback else v)"
  by (auto simp: normalizeDuration_def Let_def split: if_splits)

lemma Lease_NewRepository_Inr:
  "Lease_NewRepository config = Inr c \<Longrightarrow> Policy_Validate (lc_RetryPolicy c) = Inr () \<and>
     0 < lc_LeaseDuration c \<and> lc_LeaseDuration c \<le> MaxLeaseDuration \<and> 1 \<le> lc_SweepLimit c \<and> lc_SweepLimit c \<le> MaxSweepBatchLimit"
  by (auto simp: Lease_NewRepository_def validateConfig_def Let_def bindE_Inr dest!: normalizeDuration_Inr split: if_splits)

section \<open>Acquisition and renewal as changes\<close>

locale lease_repository = enqueuer enqueue + worker_selector select
  for enqueue :: "time \<Rightarrow> Message \<Rightarrow> DB \<Rightarrow> DB result"
    and select :: "string list \<Rightarrow> time \<Rightarrow> DB \<Rightarrow> ((uuid \<times> bool) \<times> DB) result"
begin

lemma enqueueAcquireCommand_row:
  assumes "enqueueAcquireCommand rt enqueue msgID now item lease t db = Inr db'"
  shows "\<exists>r. db' = db\<lparr>db_outbox := db_outbox db @ [r]\<rparr> \<and> ob_state r = Pending \<and>
    env_MessageType (ob_env r) = MessageJobRequested \<and>
    ob_key r = MessageJobRequested @ ''.'' @ uuid_String rt (l_WorkerID lease) \<and>
    (\<exists>kvs. raw_value (env_Payload (ob_env r)) = Some (JObj kvs) \<and>
       json_field kvs ''leaseId'' = Some (JStr (uuid_String rt (l_LeaseID lease))) \<and>
       json_field kvs ''attemptId'' = Some (JStr (uuid_String rt (l_AttemptID lease))) \<and>
       json_field kvs ''workerId'' = Some (JStr (uuid_String rt (l_WorkerID lease))))"
proof -
  from assms obtain m where m: "newAcquireCommand rt msgID now item lease = Inr m"
    and enq: "enqueue now (m\<lparr>m_Available := t\<rparr>) db = Inr db'"
    by (auto simp: enqueueAcquireCommand_def bindE_Inr)
  from m obtain size' ops envelope key where
    env: "NewEnvelope rt msgID now MessageJobRequested (uuid_String rt (lcd_JobID item))
              (uuid_String rt (lcd_JobID item)) (uuid_String rt (l_LeaseID lease))
              (JObj [(''jobId'', JStr (uuid_String rt (lcd_JobID item))),
                (''datasetVersionId'', JStr (uuid_String rt (lcd_DatasetVersionID item))),
                (''attemptId'', JStr (uuid_String rt (l_AttemptID lease))),
                (''leaseId'', JStr (uuid_String rt (l_LeaseID lease))),
                (''workerId'', JStr (uuid_String rt (l_WorkerID lease))),
                (''attemptNumber'', JNum (int_text (l_AttemptNumber lease))),
                (''operations'', JArr ops),
                (''source'', JObj [(''objectKey'', JStr (lcd_ObjectKey item)),
                   (''contentType'', JStr (lcd_ContentType item)), (''format'', JStr (lcd_Format item)),
                   (''sizeBytes'', JNum (int_text size'))])]) = Inr envelope"
    and key: "WorkerRoutingKey rt MessageJobRequested (l_WorkerID lease) = Inr key"
    and msg: "m = command_message envelope CommandsExchange key 0"
    by (auto simp: newAcquireCommand_def bindE_Inr split: option.splits)
  have "key = MessageJobRequested @ ''.'' @ uuid_String rt (l_WorkerID lease)"
    using key by (auto simp: WorkerRoutingKey_def split: if_splits)
  moreover obtain r where "db' = db\<lparr>db_outbox := db_outbox db @ [r]\<rparr>" "ob_state r = Pending"
    "ob_env r = envelope" "ob_key r = key"
    using enqueue_row [OF enq] msg by (auto simp: command_message_def)
  ultimately show ?thesis using NewEnvelopeD [OF env] by (auto simp: json_field_def)
qed

text \<open>A successful acquisition, statement by statement.\<close>

lemma Acquire_cases:
  assumes "Acquire rt enqueue select config leaseID msgID now c db = Inr (lease, db')"
  obtains j a item db1 r where "find_job (ac_JobID c) db = Some j" "j_state j = Queued"
    "case j_next j of None \<Rightarrow> True | Some t \<Rightarrow> t \<le> now"
    "max_row a_num (attempts_of (j_id j) db) = Some a" "a_state a = ACreated"
    "lease = \<lparr>l_LeaseID = leaseID, l_JobID = j_id j, l_AttemptID = a_id a, l_WorkerID = l_WorkerID lease,
       l_AttemptNumber = a_num a, l_LeasedAt = now, l_LeaseExpiresAt = l_LeaseExpiresAt lease, l_LastRenewedAt = now\<rparr>"
    "now < l_LeaseExpiresAt lease" "l_LeaseExpiresAt lease \<le> now + MaxLeaseDuration" "l_WorkerID lease \<noteq> uuid_Nil"
    "decodeOperationTypes (j_ops j) = Inr item" "select item now db = Inr ((l_WorkerID lease, True), db1)"
    "\<forall>b \<in> set (db_attempts db). a_lease b = Some leaseID \<longrightarrow> a_id b = a_id a"
    "db' = (Lease_recordHistory (j_id j) Queued Leased ''lease_assigned''
        (update_quota (j_owner j) (\<lambda>q. q\<lparr>q_queued := max (q_queued q - 1) 0, q_active := q_active q + 1, q_updated := now\<rparr>)
          (update_job (j_id j) (\<lambda>j. j\<lparr>j_state := Leased, j_next := None, j_updated := now\<rparr>)
            (update_attempt (a_id a) (assign_attempt lease) db1))))\<lparr>db_outbox := db_outbox db @ [r]\<rparr>"
    "ob_state r = Pending" "env_MessageType (ob_env r) = MessageJobRequested"
    "ob_key r = MessageJobRequested @ ''.'' @ uuid_String rt (l_WorkerID lease)"
    "\<exists>kvs. raw_value (env_Payload (ob_env r)) = Some (JObj kvs) \<and>
       json_field kvs ''leaseId'' = Some (JStr (uuid_String rt leaseID)) \<and>
       json_field kvs ''attemptId'' = Some (JStr (uuid_String rt (a_id a))) \<and>
       json_field kvs ''workerId'' = Some (JStr (uuid_String rt (l_WorkerID lease)))"
proof -
  from assms obtain d cand where dur: "normalizeDuration (ac_Duration c) (lc_LeaseDuration config) = Inr d"
    and cand: "lockLeaseCandidate (ac_JobID c) db = Inr cand"
    by (auto simp: Acquire_def bindE_Inr split: if_splits)
  note step1 = assms [unfolded Acquire_def dur cand bindE_simps]
  from cand obtain j a v where j: "find_job (ac_JobID c) db = Some j"
    and a: "max_row a_num (attempts_of (ac_JobID c) db) = Some a"
    and "row_find v_id (j_version j) (db_versions db) = Some v"
    and cd: "cand = \<lparr>lcd_JobID = j_id j, lcd_JobState = j_state j, lcd_NextAttemptAt = j_next j,
                 lcd_DatasetVersionID = j_version j, lcd_Operations = j_ops j, lcd_AttemptID = a_id a,
                 lcd_AttemptNumber = a_num a, lcd_AttemptState = a_state a, lcd_ObjectKey = v_object v,
                 lcd_ContentType = v_ctype v, lcd_Format = v_format v, lcd_SizeBytes = v_size v\<rparr>"
    by (auto simp: lockLeaseCandidate_def split: option.splits)
  have jid: "ac_JobID c = j_id j" using find_jobD [OF j] by simp
  from step1 have state: "j_state j = Queued" "a_state a = ACreated"
    "case j_next j of None \<Rightarrow> True | Some t \<Rightarrow> t \<le> now"
    by (auto simp: cd split: if_splits option.splits)
  from step1 obtain types workerID db1 where types: "decodeOperationTypes (j_ops j) = Inr types"
    and sel: "select types now db = Inr ((workerID, True), db1)" and nz: "workerID \<noteq> uuid_Nil"
    by (auto simp: cd bindE_Inr split: if_splits)
  let ?lease = "\<lparr>l_LeaseID = leaseID, l_JobID = j_id j, l_AttemptID = a_id a, l_WorkerID = workerID,
       l_AttemptNumber = a_num a, l_LeasedAt = now, l_LeaseExpiresAt = now + d, l_LastRenewedAt = now\<rparr>"
  from step1 types sel obtain db2 where assign: "assignLease cand ?lease db1 = Inr db2"
    and enq: "enqueueAcquireCommand rt enqueue msgID now cand ?lease now db2 = Inr db'" and lease: "lease = ?lease"
    by (auto simp: cd bindE_Inr Let_def split: if_splits)
  note frame = select_frame [OF sel]
  have find: "find_job (j_id j) (update_job (j_id j) (\<lambda>j. j\<lparr>j_state := Leased, j_next := None, j_updated := now\<rparr>)
      (update_attempt (a_id a) (assign_attempt ?lease) db1)) = Some (j\<lparr>j_state := Leased, j_next := None, j_updated := now\<rparr>)"
    using j jid frame(1) by (simp add: find_job_def update_job_def update_attempt_def row_find_update)
  have uniq: "\<forall>b \<in> set (db_attempts db). a_lease b = Some leaseID \<longrightarrow> a_id b = a_id a"
    and db2: "db2 = Lease_recordHistory (j_id j) Queued Leased ''lease_assigned''
        (update_quota (j_owner j) (\<lambda>q. q\<lparr>q_queued := max (q_queued q - 1) 0, q_active := q_active q + 1, q_updated := now\<rparr>)
          (update_job (j_id j) (\<lambda>j. j\<lparr>j_state := Leased, j_next := None, j_updated := now\<rparr>)
            (update_attempt (a_id a) (assign_attempt ?lease) db1)))"
    using assign find frame(2) by (auto simp: assignLease_def Let_def cd split: if_splits)
  have ob2: "db_outbox db2 = db_outbox db"
    using frame(6) by (simp add: db2 Lease_recordHistory_def add_history_def update_quota_def update_job_def update_attempt_def)
  from enqueueAcquireCommand_row [OF enq] obtain r where r: "db' = db2\<lparr>db_outbox := db_outbox db2 @ [r]\<rparr>"
    "ob_state r = Pending" "env_MessageType (ob_env r) = MessageJobRequested"
    "ob_key r = MessageJobRequested @ ''.'' @ uuid_String rt workerID"
    "\<exists>kvs. raw_value (env_Payload (ob_env r)) = Some (JObj kvs) \<and>
       json_field kvs ''leaseId'' = Some (JStr (uuid_String rt leaseID)) \<and>
       json_field kvs ''attemptId'' = Some (JStr (uuid_String rt (a_id a))) \<and>
       json_field kvs ''workerId'' = Some (JStr (uuid_String rt workerID))"
    by (auto simp: cd)
  show ?thesis
    by (rule that [of j a types db1 r]) (use j jid state a types sel nz uniq r db2 ob2 normalizeDuration_Inr [OF dur] lease in simp_all)
qed

lemma Acquire_change:
  assumes "Acquire rt enqueue select config leaseID msgID now c db = Inr (lease, db')" and con: "consistent db"
  shows "change db db'"
  using assms(1)
proof (cases rule: Acquire_cases)
  case (1 j a item db1 r)
  note frame = select_frame [OF 1(11)]
  have job: "j \<in> set (db_jobs db)" using 1(1) find_jobD by blast
  obtain xs where atts: "attempts_of (j_id j) db = xs @ [a]"
    by (rule consistent_job [OF con job]) (use 1(4) in auto)
  let ?f = "\<lambda>j. j\<lparr>j_state := Leased, j_next := None, j_updated := now\<rparr>"
  have tables: "db_jobs db' = row_update j_id (j_id j) ?f (db_jobs db)"
    "db_attempts db' = row_update a_id (a_id a) (assign_attempt lease) (db_attempts db)"
    "db_quotas db' = row_update q_owner (j_owner j)
       (\<lambda>q. q\<lparr>q_queued := max (q_queued q - 1) 0, q_active := q_active q + 1, q_updated := now\<rparr>) (db_quotas db)"
    "db_projections db' = db_projections db"
    "\<exists>reason actor. db_history db' = db_history db @
       [\<lparr>h_job = j_id j, h_from = Some (j_state j), h_to = j_state (?f j), h_reason = reason, h_actor = actor\<rparr>]"
    using 1(2) frame by (simp_all add: 1(13) Lease_recordHistory_def add_history_def update_quota_def update_job_def update_attempt_def)
  have "lifecycle (Queued, map a_state xs @ [ACreated]) (Leased, map a_state xs @ [ALeased])"
    by (rule lifecycle.lease)
  moreover have "quota_moved (j_owner j) (Some (j_state j)) (j_state (?f j)) db db'"
    by (rule quota_moved_row [OF con job _ tables(3)])
      (use 1(2) in \<open>simp_all add: queued_weight_def active_weight_def is_active_def\<close>)
  ultimately show ?thesis using 1(2,5,9)
    by (intro change_move_last [OF job atts tables(1,2,5)])
      (simp_all add: tables(4) assign_attempt_def has_lease_def)
qed

end

interpretation lease_repo: lease_repository Outbox_Enqueue "SelectForLease ttl" for ttl
  by unfold_locales

lemma Renew_cases:
  assumes "Renew config now c db = Inr (lease, db')"
  obtains a d t where "a \<in> set (db_attempts db)" "leased_to (rn_LeaseID c) (rn_WorkerID c) a"
    "held (a_state a)" "a_expires a = Some t" "now < t" "0 < d" "d \<le> MaxLeaseDuration"
    "l_AttemptID lease = a_id a" "l_LeaseExpiresAt lease = now + d"
    "db' = db\<lparr>db_attempts := rows_update (leased_to (rn_LeaseID c) (rn_WorkerID c))
      (\<lambda>a. a\<lparr>a_renewed := Some now, a_expires := Some (now + d)\<rparr>) (db_attempts db)\<rparr>"
proof -
  from assms obtain d where d: "normalizeDuration (rn_Duration c) (lc_RenewalWindow config) = Inr d"
    by (auto simp: Renew_def bindE_Inr split: if_splits)
  note step = assms [unfolded Renew_def d bindE_simps]
  then obtain a where a: "find (leased_to (rn_LeaseID c) (rn_WorkerID c)) (db_attempts db) = Some a"
    by (auto split: if_splits option.splits)
  have "a \<in> set (db_attempts db)" "leased_to (rn_LeaseID c) (rn_WorkerID c) a"
    using a by (auto simp: find_Some_iff)
  moreover have "held (a_state a)" using step a by (auto simp: held_def split: if_splits)
  moreover obtain t where "a_expires a = Some t" "now < t"
    using step a by (auto split: if_splits option.splits)
  ultimately show thesis
    using that [of a t d] normalizeDuration_Inr [OF d] step a by (auto split: if_splits)
qed

lemma Renew_change:
  assumes "Renew config now c db = Inr (lease, db')"
  shows "change db db'"
  using assms
proof (cases rule: Renew_cases)
  case (1 a d t)
  then show ?thesis
    by (intro change.touch [where g = "\<lambda>a. if leased_to (rn_LeaseID c) (rn_WorkerID c) a
        then a\<lparr>a_renewed := Some now, a_expires := Some (now + d)\<rparr> else a"])
      (auto simp: rows_update_def has_lease_def)
qed

section \<open>The sweep as a sequence of changes\<close>

text \<open>What the sweep knows of a candidate while it handles it.\<close>

definition current :: "expiredCandidate \<Rightarrow> DB \<Rightarrow> bool" where
  "current item db \<longleftrightarrow>
     (\<exists>j xs a. find_job (ec_JobID item) db = Some j \<and> attempts_of (ec_JobID item) db = xs @ [a] \<and>
        j_state j = ec_JobState item \<and> j_owner j = ec_OwnerUserID item \<and> j_max j = ec_MaxAttempts item \<and>
        a_id a = ec_AttemptID item \<and> a_num a = ec_AttemptNumber item \<and> held (a_state a) \<and>
        is_active (j_state j))"

lemma row_update_twice:
  "(\<And>r. key (f r) = key r) \<Longrightarrow> row_update key k g (row_update key k f rows) = row_update key k (g \<circ> f) rows"
  by (auto simp: row_update_def)

lemma max_pred: "(1 :: int) \<le> n \<Longrightarrow> max (n - 1) 0 = n - 1"
  by simp

text \<open>Three ways one expired attempt ends; each is the tables after it.\<close>

definition expired_tables ::
  "expiredCandidate \<Rightarrow> (Attempt \<Rightarrow> Attempt) \<Rightarrow> (Job \<Rightarrow> Job) \<Rightarrow> (Quota \<Rightarrow> Quota) \<Rightarrow> Attempt list \<Rightarrow> DB \<Rightarrow> DB \<Rightarrow> bool" where
  "expired_tables item g f q new db db' \<longleftrightarrow>
     db_jobs db' = row_update j_id (ec_JobID item) f (db_jobs db) \<and>
     db_attempts db' = row_update a_id (ec_AttemptID item) g (db_attempts db) @ new \<and>
     db_quotas db' = row_update q_owner (ec_OwnerUserID item) q (db_quotas db) \<and>
     (\<exists>t reason. db_history db' = db_history db @ [\<lparr>h_job = ec_JobID item, h_from = Some (ec_JobState item),
        h_to = t, h_reason = reason, h_actor = None\<rparr>] \<and> (\<forall>j. j_state (f j) = t)) \<and>
     (\<forall>p \<in> set (db_projections db'). p \<in> set (db_projections db) \<or> p_attempt p = ec_AttemptID item) \<and>
     (\<forall>a. a_id (g a) = a_id a \<and> a_job (g a) = a_job a \<and> a_num (g a) = a_num a \<and> \<not> is_open (a_state (g a))) \<and>
     (\<forall>j. j_id (f j) = j_id j \<and> j_owner (f j) = j_owner j \<and> j_max (f j) = j_max j) \<and>
     (\<forall>r. q_owner (q r) = q_owner r)"

context enqueuer
begin

lemma enqueueRetry_row:
  assumes "enqueueRetry rt enqueue msgID now item t db = Inr db'"
  shows "\<exists>r. db' = db\<lparr>db_outbox := db_outbox db @ [r]\<rparr> \<and> ob_state r = Pending \<and>
    env_MessageType (ob_env r) = MessageJobQueued \<and> ob_available r = (if t = 0 then now else t)"
proof -
  from assms obtain envelope where env: "NewEnvelope rt msgID now MessageJobQueued (uuid_String rt (ec_JobID item))
        (uuid_String rt (ec_JobID item)) (uuid_String rt (ec_LeaseID item))
        (JObj [(''jobId'', JStr (uuid_String rt (ec_JobID item)))]) = Inr envelope"
    and enq: "enqueue now (command_message envelope CommandsExchange (env_MessageType envelope) t) db = Inr db'"
    by (auto simp: enqueueRetry_def bindE_Inr Let_def)
  show ?thesis using enqueue_row [OF enq] NewEnvelopeD [OF env] by (auto simp: command_message_def time_IsZero_def)
qed

lemma expireOne_cases:
  assumes "expireOne rt enqueue config draws item now report db = Inr (report', db')"
  obtains (cancelled) g f where "ec_JobState item = CancelRequested"
      "expired_tables item g f (release_active now) [] db db'" "\<And>j. j_state (f j) = Cancelled"
      "\<And>a. a_state (g a) = ACancelled" "report' = report\<lparr>sr_Cancelled := sr_Cancelled report + 1\<rparr>"
    | (retried) f delay where "ec_JobState item \<noteq> CancelRequested" "ec_AttemptNumber item < ec_MaxAttempts item"
      "sd_attempt draws \<notin> a_id ` set (db_attempts db)"
      "expired_tables item (time_out now) f (requeue_active now)
        [new_attempt (sd_attempt draws) (ec_JobID item) (ec_AttemptNumber item + 1) now] db db'"
      "\<And>j. j_state (f j) = Queued" "\<And>j. j_next (f j) = Some (now + delay)"
      "report' = report\<lparr>sr_Retried := sr_Retried report + 1\<rparr>"
    | (dead) f where "ec_JobState item \<noteq> CancelRequested"
      "\<not> (1 \<le> ec_AttemptNumber item \<and> ec_AttemptNumber item < ec_MaxAttempts item)"
      "expired_tables item (time_out now) f (release_active now) [] db db'" "\<And>j. j_state (f j) = DeadLettered"
      "report' = report\<lparr>sr_DeadLettered := sr_DeadLettered report + 1\<rparr>"
      "(ec_JobID item, ec_AttemptID item) \<in> (\<lambda>d. (d_job d, d_attempt d)) ` set (db_dead db')"
proof -
  let ?db1 = "update_attempt (ec_AttemptID item) (time_out now) db"
  consider "ec_JobState item = CancelRequested"
    | "ec_JobState item \<noteq> CancelRequested" "ec_AttemptNumber item \<ge> 1 \<and> ec_AttemptNumber item + 1 \<le> ec_MaxAttempts item"
    | "ec_JobState item \<noteq> CancelRequested" "\<not> (ec_AttemptNumber item \<ge> 1 \<and> ec_AttemptNumber item + 1 \<le> ec_MaxAttempts item)"
    by blast
  then show thesis
  proof cases
    case 1
    show ?thesis
      by (rule cancelled [of "(\<lambda>a. a\<lparr>a_state := ACancelled, a_finished := Some now, a_errcode := None, a_errmsg := None,
               a_retryable := False\<rparr>) \<circ> time_out now"
             "\<lambda>j. j\<lparr>j_state := Cancelled, j_next := None, j_completed := Some now, j_finished := Some now,
               j_updated := now, j_errcode := None, j_errmsg := None\<rparr>", OF 1])
        (use assms 1 in \<open>auto simp: expireOne_def Let_def expired_tables_def update_attempt_def update_job_def
          update_quota_def cancelled_projection_def Lease_recordHistory_def
          row_update_twice time_out_def release_active_def dest!: add_projection_mem\<close>)
  next
    case 2
    from assms [unfolded expireOne_def Let_def if_not_P [OF 2(1)] if_P [OF 2(2)]] obtain delay db2 where
      ins: "insert_attempt (new_attempt (sd_attempt draws) (ec_JobID item) (ec_AttemptNumber item + 1) now) ?db1 = Inr db2"
      and enq: "enqueueRetry rt enqueue (sd_message draws) now item (now + delay)
        (Lease_recordHistory (ec_JobID item) (ec_JobState item) Queued ''lease_expired_retry_scheduled''
          (update_quota (ec_OwnerUserID item) (requeue_active now)
            (update_job (ec_JobID item) (\<lambda>j. j\<lparr>j_state := Queued, j_next := Some (now + delay), j_updated := now,
               j_errcode := Some ''LEASE_EXPIRED'', j_errmsg := Some ''worker lease expired''\<rparr>) db2))) = Inr db'"
      and report: "report' = report\<lparr>sr_Retried := sr_Retried report + 1\<rparr>"
      by (auto simp: bindE_Inr)
    have ids: "a_id ` set (db_attempts ?db1) = a_id ` set (db_attempts db)"
    proof -
      have "map a_id (db_attempts ?db1) = map a_id (db_attempts db)"
        by (simp add: update_attempt_def row_update_keys time_out_def)
      then show ?thesis by (metis set_map)
    qed
    have fresh: "sd_attempt draws \<notin> a_id ` set (db_attempts db)"
      and db2: "db2 = ?db1\<lparr>db_attempts := db_attempts ?db1 @
        [new_attempt (sd_attempt draws) (ec_JobID item) (ec_AttemptNumber item + 1) now]\<rparr>"
      using ins ids by (auto simp: insert_attempt_Inr)
    from enqueueRetry_row [OF enq] have tables: "expired_tables item (time_out now)
        (\<lambda>j. j\<lparr>j_state := Queued, j_next := Some (now + delay), j_updated := now,
           j_errcode := Some ''LEASE_EXPIRED'', j_errmsg := Some ''worker lease expired''\<rparr>) (requeue_active now)
        [new_attempt (sd_attempt draws) (ec_JobID item) (ec_AttemptNumber item + 1) now] db db'"
      by (auto simp: db2 expired_tables_def update_attempt_def update_job_def update_quota_def
          Lease_recordHistory_def add_history_def time_out_def requeue_active_def)
    show ?thesis by (rule retried [where delay = delay, OF 2(1) _ fresh tables]) (use 2(2) report in auto)
  next
    case 3
    let ?f = "\<lambda>j. j\<lparr>j_state := DeadLettered, j_next := None, j_updated := now, j_finished := Some now,
                j_errcode := Some ''LEASE_EXPIRED'', j_errmsg := Some ''worker lease expired''\<rparr>"
    let ?db3 = "update_quota (ec_OwnerUserID item) (release_active now) (update_job (ec_JobID item) ?f ?db1)"
    from assms [unfolded expireOne_def Let_def if_not_P [OF 3(1)] if_not_P [OF 3(2)]] obtain d db4 where
      letter: "insert_dead_letter d ?db3 = Inr db4" "d_job d = ec_JobID item" "d_attempt d = ec_AttemptID item"
      and db': "db' = Lease_recordHistory (ec_JobID item) (ec_JobState item) DeadLettered ''lease_expired_dead_lettered'' db4"
      and report: "report' = report\<lparr>sr_DeadLettered := sr_DeadLettered report + 1\<rparr>"
      by (auto simp: bindE_Inr)
    obtain ds where db4: "db4 = ?db3\<lparr>db_dead := ds\<rparr>" and mem: "(d_job d, d_attempt d) \<in> (\<lambda>d. (d_job d, d_attempt d)) ` set ds"
    proof (cases "(d_job d, d_attempt d) \<in> (\<lambda>r. (d_job r, d_attempt r)) ` set (db_dead ?db3)")
      case True
      then show thesis using that [of "db_dead ?db3"] letter(1) by (simp add: insert_dead_letter_def)
    next
      case False
      then show thesis using that [of "db_dead ?db3 @ [d]"] letter(1)
        by (auto simp: insert_dead_letter_def split: if_splits)
    qed
    have tables: "expired_tables item (time_out now) ?f (release_active now) [] db db'"
      by (auto simp: db' db4 expired_tables_def update_attempt_def update_job_def update_quota_def
          Lease_recordHistory_def add_history_def time_out_def release_active_def)
    show ?thesis
      by (rule dead [OF 3(1) _ tables])
        (use 3 report mem letter(2,3) db' db4 in \<open>auto simp: Lease_recordHistory_def add_history_def\<close>)
  qed
qed

lemma expired_tables_change:
  assumes con: "consistent db" and cur: "current item db" and tables: "expired_tables item g f q new db db'"
    and new: "new = [] \<or> (\<exists>i t. new = [new_attempt i (ec_JobID item) (ec_AttemptNumber item + 1) t] \<and>
      i \<notin> a_id ` set (db_attempts db))"
    and life: "\<And>(j :: Job) (xs :: Attempt list) (a :: Attempt). j_state j = ec_JobState item \<Longrightarrow> is_active (j_state j) \<Longrightarrow> held (a_state a) \<Longrightarrow>
      lifecycle (j_state j, map a_state xs @ [a_state a]) (j_state (f j), map a_state xs @ a_state (g a) # map a_state new)"
    and quota: "\<And>r. 0 \<le> q_queued r \<Longrightarrow> 1 \<le> q_active r \<Longrightarrow>
      q_queued (q r) = q_queued r + queued_weight (Some (j_state (f undefined))) \<and>
      q_active (q r) = q_active r + active_weight (Some (j_state (f undefined))) - 1"
  shows "change db db'" "k \<noteq> ec_JobID item \<Longrightarrow> find_job k db' = find_job k db \<and> attempts_of k db' = attempts_of k db"
proof -
  from cur obtain j xs a where find: "find_job (ec_JobID item) db = Some j"
    and atts: "attempts_of (ec_JobID item) db = xs @ [a]" and state: "j_state j = ec_JobState item"
    and facts: "j_owner j = ec_OwnerUserID item" "a_id a = ec_AttemptID item" "a_num a = ec_AttemptNumber item"
    "held (a_state a)" "is_active (j_state j)"
    by (auto simp: current_def)
  note T = tables [unfolded expired_tables_def]
  have job: "j \<in> set (db_jobs db)" "j_id j = ec_JobID item" using find_jobD [OF find] by auto
  obtain h where hist: "db_history db' = db_history db @ [h]" "h_job h = j_id j" "h_from h = Some (j_state j)"
    "h_to h = j_state (f j)"
    using T job(2) state by fastforce
  have same: "j_state (f j') = j_state (f j)" for j' using T by metis
  have "quota_moved (j_owner j) (Some (j_state j)) (j_state (f j)) db db'"
  proof (rule quota_moved_row [OF con job(1)])
    show "j_state j = Queued \<or> is_active (j_state j)" using facts(5) by simp
    show "db_quotas db' = row_update q_owner (j_owner j) q (db_quotas db)" using T facts(1) by simp
    show "q_owner (q r) = q_owner r" for r using T by blast
    have "j_state j \<noteq> Queued" using facts(5) by (auto simp: is_active_def)
    then show "q_queued (q r) = q_queued r + queued_weight (Some (j_state (f j))) - queued_weight (Some (j_state j)) \<and>
        q_active (q r) = q_active r + active_weight (Some (j_state (f j))) - active_weight (Some (j_state j))"
      if "0 \<le> q_queued r" "is_active (j_state j) \<Longrightarrow> 1 \<le> q_active r" for r
      using quota [OF that(1)] that(2) facts(5) same [of undefined] by (simp add: queued_weight_def active_weight_def)
  qed
  then show "change db db'"
    using T new life [OF state facts(5,4), of xs] facts job hist atts
    by (intro change.move [of j db xs a db' f g new h]) (auto dest: held_open)
  have "\<forall>b \<in> set new. a_job b = ec_JobID item" using new by auto
  moreover have "a_job (g a) = ec_JobID item"
    using T atts attempts_of_mem [of a "ec_JobID item" db] by auto
  ultimately have "attempts_of k db' = attempts_of k db" if "k \<noteq> ec_JobID item" for k
    using attempts_of_update [OF consistentD(2) [OF con] atts, of db' g new k] T facts(2) that by simp
  moreover have "find_job k db' = find_job k db" if "k \<noteq> ec_JobID item" for k
    using T that row_find_update [of j_id f k "ec_JobID item" "db_jobs db"] by (simp add: find_job_def)
  ultimately show "k \<noteq> ec_JobID item \<Longrightarrow> find_job k db' = find_job k db \<and> attempts_of k db' = attempts_of k db"
    by blast
qed

lemma expireOne_change:
  assumes run: "expireOne rt enqueue config draws item now report db = Inr (report', db')"
    and con: "consistent db" and cur: "current item db"
  shows "change db db' \<and> (\<forall>k. k \<noteq> ec_JobID item \<longrightarrow> find_job k db' = find_job k db \<and> attempts_of k db' = attempts_of k db) \<and>
    sr_Retried report' + sr_DeadLettered report' + sr_Cancelled report' =
      sr_Retried report + sr_DeadLettered report + sr_Cancelled report + 1 \<and>
    sr_Claimed report' = sr_Claimed report"
proof -
  have active: "is_active (ec_JobState item)" using cur by (auto simp: current_def)
  from run show ?thesis
  proof (cases rule: expireOne_cases)
    case (cancelled g f)
    have life: "lifecycle (j_state j, map a_state xs @ [a_state a]) (j_state (f j), map a_state xs @ a_state (g a) # map a_state [])"
      if "j_state j = ec_JobState item" "held (a_state a)" for j :: Job and xs :: "Attempt list" and a :: Attempt
      using lifecycle.cancelled [OF that(2), of "map a_state xs"] that(1) cancelled(1,3,4) by simp
    note step = expired_tables_change [OF con cur cancelled(2) disjI1 [OF refl] life]
    have "q_queued (release_active now r) = q_queued r + queued_weight (Some (j_state (f undefined))) \<and>
        q_active (release_active now r) = q_active r + active_weight (Some (j_state (f undefined))) - 1" if "1 \<le> q_active r" for r
      using that cancelled(3) by (simp add: release_active_def queued_weight_def active_weight_def is_active_def)
    then show ?thesis using step cancelled(5) by simp
  next
    case (retried f delay)
    have ls: "ec_JobState item = Leased \<or> ec_JobState item = Running" using active retried(1) by (auto simp: is_active_def)
    have life: "lifecycle (j_state j, map a_state xs @ [a_state a]) (j_state (f j), map a_state xs @ a_state (time_out now a) #
        map a_state [new_attempt (sd_attempt draws) (ec_JobID item) (ec_AttemptNumber item + 1) now])"
      if "j_state j = ec_JobState item" "held (a_state a)" for j :: Job and xs :: "Attempt list" and a :: Attempt
      using lifecycle.expire_retry [OF ls that(2), of "map a_state xs"] that(1) retried(5) by (simp add: time_out_def)
    have new: "[new_attempt (sd_attempt draws) (ec_JobID item) (ec_AttemptNumber item + 1) now] = [] \<or>
        (\<exists>i t. [new_attempt (sd_attempt draws) (ec_JobID item) (ec_AttemptNumber item + 1) now] =
          [new_attempt i (ec_JobID item) (ec_AttemptNumber item + 1) t] \<and> i \<notin> a_id ` set (db_attempts db))"
      using retried(3) by blast
    note step = expired_tables_change [OF con cur retried(4) new life]
    have "q_queued (requeue_active now r) = q_queued r + queued_weight (Some (j_state (f undefined))) \<and>
        q_active (requeue_active now r) = q_active r + active_weight (Some (j_state (f undefined))) - 1" if "1 \<le> q_active r" for r
      using that retried(5) by (simp add: requeue_active_def queued_weight_def active_weight_def is_active_def)
    then show ?thesis using step retried(7) by simp
  next
    case (dead f)
    have ls: "ec_JobState item = Leased \<or> ec_JobState item = Running" using active dead(1) by (auto simp: is_active_def)
    have life: "lifecycle (j_state j, map a_state xs @ [a_state a]) (j_state (f j), map a_state xs @ a_state (time_out now a) # map a_state [])"
      if "j_state j = ec_JobState item" "held (a_state a)" for j :: Job and xs :: "Attempt list" and a :: Attempt
      using lifecycle.expire_dead [OF ls that(2), of "map a_state xs"] that(1) dead(4) by (simp add: time_out_def)
    note step = expired_tables_change [OF con cur dead(3) disjI1 [OF refl] life]
    have "q_queued (release_active now r) = q_queued r + queued_weight (Some (j_state (f undefined))) \<and>
        q_active (release_active now r) = q_active r + active_weight (Some (j_state (f undefined))) - 1" if "1 \<le> q_active r" for r
      using that dead(4) by (simp add: release_active_def queued_weight_def active_weight_def is_active_def)
    then show ?thesis using step dead(5) by simp
  qed
qed

lemma expire_loop_change:
  assumes "expire_loop rt enqueue config draws now items report db = Inr (report', db')"
    "consistent db" "distinct (map ec_JobID items)" "\<And>item. item \<in> set items \<Longrightarrow> current item db"
  shows "change\<^sup>*\<^sup>* db db' \<and> sr_Claimed report' = sr_Claimed report \<and>
    sr_Retried report' + sr_DeadLettered report' + sr_Cancelled report' =
      sr_Retried report + sr_DeadLettered report + sr_Cancelled report + int (length items)"
  using assms
proof (induction items arbitrary: report db)
  case (Cons item items)
  from Cons.prems(1) obtain report1 db1 where
    one: "expireOne rt enqueue config (draws (ec_AttemptID item)) item now report db = Inr (report1, db1)"
    and rest: "expire_loop rt enqueue config draws now items report1 db1 = Inr (report', db')"
    by (auto simp: bindE_Inr)
  note step = expireOne_change [OF one Cons.prems(2) Cons.prems(4) [of item, simplified]]
  have con: "consistent db1" using step change_consistent Cons.prems(2) by blast
  have cur: "current i db1" if "i \<in> set items" for i
  proof -
    have "ec_JobID i \<noteq> ec_JobID item" using Cons.prems(3) that by (metis distinct.simps(2) image_eqI list.set_map list.simps(9))
    then show ?thesis using step Cons.prems(4) [of i] that by (simp add: current_def)
  qed
  have "distinct (map ec_JobID items)" using Cons.prems(3) by simp
  from Cons.IH [OF rest con this cur] step show ?case
    by (auto intro: converse_rtranclp_into_rtranclp)
qed simp

end

lemma scanExpired_Inr:
  assumes "scanExpired r = Inr item"
  shows "ec_JobID item = j_id (fst r)" "ec_AttemptID item = a_id (snd r)" "ec_OwnerUserID item = j_owner (fst r)"
    "ec_JobState item = j_state (fst r)" "ec_AttemptNumber item = a_num (snd r)" "ec_MaxAttempts item = j_max (fst r)"
  using assms by (cases r; auto split: option.splits)+

lemma job_attempt_rows_mem:
  "r \<in> set (job_attempt_rows db) \<longleftrightarrow> snd r \<in> set (db_attempts db) \<and> find_job (a_job (snd r)) db = Some (fst r)"
  by (cases r) (force simp: job_attempt_rows_def map_filter_def)

lemma job_attempt_rows_ids:
  "distinct (map a_id (db_attempts db)) \<Longrightarrow> distinct (map (\<lambda>r. a_id (snd r)) (job_attempt_rows db))"
proof -
  assume d: "distinct (map a_id (db_attempts db))"
  have eq: "map (\<lambda>r. a_id (snd r)) (List.map_filter (\<lambda>a. map_option (\<lambda>j. (j, a)) (find_job (a_job a) db)) rows) =
      map a_id (filter (\<lambda>a. find_job (a_job a) db \<noteq> None) rows)" for rows
    by (induction rows) (auto simp: map_filter_def)
  from d show ?thesis unfolding job_attempt_rows_def eq by (rule distinct_map_filter)
qed

text \<open>
  The candidates of one sweep belong to different jobs, because a job has at most one held
  attempt, and each is the latest attempt of its job.
\<close>

lemma expired_current:
  assumes con: "consistent db" and r: "r \<in> set (job_attempt_rows db)" "expired now r" "scanExpired r = Inr item"
  shows "current item db"
proof -
  note S = scanExpired_Inr [OF r(3)]
  have mem: "snd r \<in> set (db_attempts db)" "find_job (a_job (snd r)) db = Some (fst r)"
    using r(1) by (simp_all add: job_attempt_rows_mem)
  then have j: "fst r \<in> set (db_jobs db)" "j_id (fst r) = a_job (snd r)" using find_jobD by blast+
  obtain xs a where atts: "attempts_of (j_id (fst r)) db = xs @ [a]"
    by (rule consistent_job [OF con j(1)]) blast
  have held: "held (a_state (snd r))" using r(2) by (auto simp: expired_def held_def)
  have "snd r = a" by (rule open_attempt_last [OF con j(1) mem(1) j(2) [symmetric] held_open [OF held] atts])
  then show ?thesis unfolding current_def using S mem j atts held r(2)
    by (intro exI [of _ "fst r"] exI [of _ xs] exI [of _ a]) (auto simp: expired_def is_active_def)
qed

lemma expired_distinct:
  assumes con: "consistent db" and rows: "\<And>r. r \<in> set rows \<Longrightarrow> r \<in> set (job_attempt_rows db) \<and> expired now r"
    and ids: "distinct (map (\<lambda>r. a_id (snd r)) rows)" and scan: "mapE scanExpired rows = Inr items"
  shows "distinct (map ec_JobID items)"
proof -
  have len: "list_all2 (\<lambda>r i. scanExpired r = Inr i) rows items" using scan by (simp add: mapE_Inr)
  then have jobs: "map ec_JobID items = map (\<lambda>r. j_id (fst r)) rows" and atts: "map ec_AttemptID items = map (\<lambda>r. a_id (snd r)) rows"
    by (induction rule: list_all2_induct) (auto dest: scanExpired_Inr)
  have "r = r'" if in_rows: "r \<in> set rows" "r' \<in> set rows" and same: "j_id (fst r) = j_id (fst r')" for r r'
  proof -
    obtain i i' where s: "scanExpired r = Inr i" "scanExpired r' = Inr i'"
      using mapE_defined [OF scan in_rows(1)] mapE_defined [OF scan in_rows(2)] by blast
    have "current i db" "current i' db" using expired_current [OF con] rows in_rows s by blast+
    moreover have "ec_JobID i = ec_JobID i'" using scanExpired_Inr(1) [OF s(1)] scanExpired_Inr(1) [OF s(2)] same by simp
    ultimately have "ec_AttemptID i = ec_AttemptID i'" by (auto simp: current_def)
    then have "a_id (snd r) = a_id (snd r')" using scanExpired_Inr(2) [OF s(1)] scanExpired_Inr(2) [OF s(2)] by simp
    then show ?thesis using ids in_rows by (auto simp: distinct_map inj_on_def)
  qed
  then have "inj_on (\<lambda>r. j_id (fst r)) (set rows)" by (auto intro: inj_onI)
  moreover have "distinct rows" using ids by (simp add: distinct_map)
  ultimately show ?thesis using jobs by (simp add: distinct_map)
qed

context enqueuer
begin

lemma SweepExpired_changes:
  assumes "SweepExpired rt enqueue config draws now limit db = Inr (report, db')" and con: "consistent db"
  shows "change\<^sup>*\<^sup>* db db'" "sr_Claimed report = sr_Retried report + sr_DeadLettered report + sr_Cancelled report"
    "sr_Claimed report \<le> (if limit = 0 then lc_SweepLimit config else limit)"
proof -
  let ?limit = "if limit = 0 then lc_SweepLimit config else limit"
  let ?key = "\<lambda>(j :: Job, a). ((case a_expires a of None \<Rightarrow> 0 | Some t \<Rightarrow> t), a_id a)"
  define rows where "rows = take (nat ?limit) (sort_key ?key (filter (expired now) (job_attempt_rows db)))"
  from assms(1) obtain items where scan: "mapE scanExpired rows = Inr items"
    and loop: "expire_loop rt enqueue config draws now items
      \<lparr>sr_Claimed = int (length items), sr_Retried = 0, sr_DeadLettered = 0, sr_Cancelled = 0, sr_Skipped = 0\<rparr> db = Inr (report, db')"
    and limit: "1 \<le> ?limit"
    unfolding SweepExpired_def Let_def rows_def [symmetric] by (auto simp: bindE_Inr split: if_splits)
  have mem: "r \<in> set (job_attempt_rows db) \<and> expired now r" if "r \<in> set rows" for r
    using that select_rows [of "nat ?limit" ?key "expired now" "job_attempt_rows db"] unfolding rows_def by blast
  have ids: "distinct (map (\<lambda>r. a_id (snd r)) rows)"
    unfolding rows_def by (rule select_distinct [OF job_attempt_rows_ids [OF consistentD(2) [OF con]]])
  have "current item db" if "item \<in> set items" for item
  proof -
    obtain r where "r \<in> set rows" "scanExpired r = Inr item"
      using mapE_image [OF scan \<open>item \<in> set items\<close>] by blast
    then show ?thesis using expired_current [OF con] mem by blast
  qed
  note step = expire_loop_change [OF loop con expired_distinct [OF con mem ids scan] this]
  then show "change\<^sup>*\<^sup>* db db'" "sr_Claimed report = sr_Retried report + sr_DeadLettered report + sr_Cancelled report"
    by simp_all
  have "length items = length rows" by (rule mapE_length [OF scan])
  then show "sr_Claimed report \<le> ?limit" using step limit by (simp add: rows_def)
qed

end

end
