(* ===== verification/Events.thy ===== *)
theory Events
  imports Decode
begin

text \<open>
  The events workers publish about an attempt (\<open>internal/result/validation.go\<close>): their
  strict decoding from an envelope and the validation of their fields.
\<close>

section \<open>Events\<close>

abbreviation MaxArtifactsPerResult :: nat where "MaxArtifactsPerResult \<equiv> 32"

record StartedEvent =
  st_JobID :: uuid
  st_AttemptID :: uuid
  st_LeaseID :: uuid
  st_WorkerID :: uuid
  st_AttemptNumber :: int

record ProgressedEvent =
  pr_JobID :: uuid
  pr_AttemptID :: uuid
  pr_LeaseID :: uuid
  pr_Stage :: string
  pr_ProcessedRows :: int
  pr_EstimatedTotalRows :: "int option"
  pr_ProgressPercent :: rat
  pr_Throughput :: rat
  pr_UpdatedAt :: time

record SucceededEvent =
  su_JobID :: uuid
  su_AttemptID :: uuid
  su_LeaseID :: uuid
  su_WorkerID :: uuid
  su_Artifacts :: "string list"

record FailureInfo =
  fi_Code :: string
  fi_Message :: string
  fi_Retryable :: bool
  fi_DiagnosticRef :: "string option"

record FailedEvent =
  fa_JobID :: uuid
  fa_AttemptID :: uuid
  fa_LeaseID :: uuid
  fa_WorkerID :: uuid
  fa_Error :: FailureInfo

record CancelledEvent =
  ca_JobID :: uuid
  ca_AttemptID :: uuid
  ca_LeaseID :: uuid
  ca_WorkerID :: uuid
  ca_Reason :: string

record ArtifactCreatedEvent =
  ar_JobID :: uuid
  ar_AttemptID :: uuid
  ar_LeaseID :: uuid
  ar_ArtifactID :: uuid
  ar_Kind :: string
  ar_ObjectKey :: string
  ar_SizeBytes :: int
  ar_ContentType :: string
  ar_ChecksumSHA256 :: string

datatype event =
    Started StartedEvent
  | Progressed ProgressedEvent
  | SucceededE SucceededEvent
  | Failed FailedEvent
  | CancelledE CancelledEvent
  | ArtifactCreated ArtifactCreatedEvent

section \<open>Fields\<close>

definition started_fields :: "Runtime \<Rightarrow> (string \<times> StartedEvent setter) list" where
  "started_fields rt =
    [(''jobId'', put (decode_uuid rt) (\<lambda>x. st_JobID_update (\<lambda>_. x))),
     (''attemptId'', put (decode_uuid rt) (\<lambda>x. st_AttemptID_update (\<lambda>_. x))),
     (''leaseId'', put (decode_uuid rt) (\<lambda>x. st_LeaseID_update (\<lambda>_. x))),
     (''workerId'', put (decode_uuid rt) (\<lambda>x. st_WorkerID_update (\<lambda>_. x))),
     (''attemptNumber'', put decode_int (\<lambda>x. st_AttemptNumber_update (\<lambda>_. x)))]"

definition progressed_fields :: "Runtime \<Rightarrow> (string \<times> ProgressedEvent setter) list" where
  "progressed_fields rt =
    [(''jobId'', put (decode_uuid rt) (\<lambda>x. pr_JobID_update (\<lambda>_. x))),
     (''attemptId'', put (decode_uuid rt) (\<lambda>x. pr_AttemptID_update (\<lambda>_. x))),
     (''leaseId'', put (decode_uuid rt) (\<lambda>x. pr_LeaseID_update (\<lambda>_. x))),
     (''stage'', put decode_string (\<lambda>x. pr_Stage_update (\<lambda>_. x))),
     (''processedRows'', put decode_int (\<lambda>x. pr_ProcessedRows_update (\<lambda>_. x))),
     (''estimatedTotalRows'', put_pointer decode_int (\<lambda>x. pr_EstimatedTotalRows_update (\<lambda>_. x))),
     (''progressPercent'', put (decode_float rt) (\<lambda>x. pr_ProgressPercent_update (\<lambda>_. x))),
     (''throughput'', put (decode_float rt) (\<lambda>x. pr_Throughput_update (\<lambda>_. x))),
     (''updatedAt'', put (decode_time rt) (\<lambda>x. pr_UpdatedAt_update (\<lambda>_. x)))]"

definition succeeded_fields :: "Runtime \<Rightarrow> (string \<times> SucceededEvent setter) list" where
  "succeeded_fields rt =
    [(''jobId'', put (decode_uuid rt) (\<lambda>x. su_JobID_update (\<lambda>_. x))),
     (''attemptId'', put (decode_uuid rt) (\<lambda>x. su_AttemptID_update (\<lambda>_. x))),
     (''leaseId'', put (decode_uuid rt) (\<lambda>x. su_LeaseID_update (\<lambda>_. x))),
     (''workerId'', put (decode_uuid rt) (\<lambda>x. su_WorkerID_update (\<lambda>_. x))),
     (''artifacts'', put_slice [] decode_string (\<lambda>x. su_Artifacts_update (\<lambda>_. x)))]"

definition failure_fields :: "(string \<times> FailureInfo setter) list" where
  "failure_fields =
    [(''code'', put decode_string (\<lambda>x. fi_Code_update (\<lambda>_. x))),
     (''message'', put decode_string (\<lambda>x. fi_Message_update (\<lambda>_. x))),
     (''retryable'', put decode_bool (\<lambda>x. fi_Retryable_update (\<lambda>_. x))),
     (''diagnosticRef'', put_pointer decode_string (\<lambda>x. fi_DiagnosticRef_update (\<lambda>_. x)))]"

definition failed_fields :: "Runtime \<Rightarrow> (string \<times> FailedEvent setter) list" where
  "failed_fields rt =
    [(''jobId'', put (decode_uuid rt) (\<lambda>x. fa_JobID_update (\<lambda>_. x))),
     (''attemptId'', put (decode_uuid rt) (\<lambda>x. fa_AttemptID_update (\<lambda>_. x))),
     (''leaseId'', put (decode_uuid rt) (\<lambda>x. fa_LeaseID_update (\<lambda>_. x))),
     (''workerId'', put (decode_uuid rt) (\<lambda>x. fa_WorkerID_update (\<lambda>_. x))),
     (''error'', \<lambda>v r. map_option (\<lambda>x. r\<lparr>fa_Error := x\<rparr>) (decode_struct rt failure_fields v (fa_Error r)))]"

definition cancelled_fields :: "Runtime \<Rightarrow> (string \<times> CancelledEvent setter) list" where
  "cancelled_fields rt =
    [(''jobId'', put (decode_uuid rt) (\<lambda>x. ca_JobID_update (\<lambda>_. x))),
     (''attemptId'', put (decode_uuid rt) (\<lambda>x. ca_AttemptID_update (\<lambda>_. x))),
     (''leaseId'', put (decode_uuid rt) (\<lambda>x. ca_LeaseID_update (\<lambda>_. x))),
     (''workerId'', put (decode_uuid rt) (\<lambda>x. ca_WorkerID_update (\<lambda>_. x))),
     (''reason'', put decode_string (\<lambda>x. ca_Reason_update (\<lambda>_. x)))]"

definition artifact_fields :: "Runtime \<Rightarrow> (string \<times> ArtifactCreatedEvent setter) list" where
  "artifact_fields rt =
    [(''jobId'', put (decode_uuid rt) (\<lambda>x. ar_JobID_update (\<lambda>_. x))),
     (''attemptId'', put (decode_uuid rt) (\<lambda>x. ar_AttemptID_update (\<lambda>_. x))),
     (''leaseId'', put (decode_uuid rt) (\<lambda>x. ar_LeaseID_update (\<lambda>_. x))),
     (''artifactId'', put (decode_uuid rt) (\<lambda>x. ar_ArtifactID_update (\<lambda>_. x))),
     (''kind'', put decode_string (\<lambda>x. ar_Kind_update (\<lambda>_. x))),
     (''objectKey'', put decode_string (\<lambda>x. ar_ObjectKey_update (\<lambda>_. x))),
     (''sizeBytes'', put decode_int (\<lambda>x. ar_SizeBytes_update (\<lambda>_. x))),
     (''contentType'', put decode_string (\<lambda>x. ar_ContentType_update (\<lambda>_. x))),
     (''checksumSha256'', put decode_string (\<lambda>x. ar_ChecksumSHA256_update (\<lambda>_. x)))]"

section \<open>Validation\<close>

definition key_char :: "char \<Rightarrow> bool" where
  "key_char c \<longleftrightarrow> is_lower c \<or> is_digit c \<or> c = CHR ''/'' \<or> c = CHR ''_'' \<or> c = CHR ''-''"

text \<open>The pattern \<open>^[a-z0-9/_-]+\.[a-z0-9]+$\<close>: exactly one dot, with text on both sides.\<close>

definition artifactKeyPattern :: "string \<Rightarrow> bool" where
  "artifactKeyPattern s =
    (case split_on (CHR ''.'') s of
       [name, ext] \<Rightarrow> name \<noteq> [] \<and> list_all key_char name \<and> ext \<noteq> [] \<and> list_all is_alnum ext
     | _ \<Rightarrow> False)"

definition artifactKindPattern :: "string \<Rightarrow> bool" where
  "artifactKindPattern s \<longleftrightarrow>
     1 \<le> length s \<and> length s \<le> 64 \<and>
     list_all (\<lambda>c. is_lower c \<or> is_digit c \<or> c = CHR ''_'' \<or> c = CHR ''-'') s"

definition stagePattern :: "string \<Rightarrow> bool" where
  "stagePattern s \<longleftrightarrow>
     1 \<le> length s \<and> length s \<le> 64 \<and>
     list_all (\<lambda>c. is_upper c \<or> is_lower c \<or> is_digit c \<or> c = CHR ''_'' \<or> c = CHR ''-'') s"

definition checksumPattern :: "string \<Rightarrow> bool" where
  "checksumPattern s \<longleftrightarrow> length s = 64 \<and> list_all (\<lambda>c. is_digit c \<or> char_in 97 102 c) s"

definition validateAttemptIdentity :: "uuid \<Rightarrow> uuid \<Rightarrow> uuid \<Rightarrow> unit result" where
  "validateAttemptIdentity jobID attemptID leaseID =
    (if jobID = uuid_Nil \<or> attemptID = uuid_Nil \<or> leaseID = uuid_Nil
     then Inl (ErrText ''jobId, attemptId, and leaseId are required'') else Inr ())"

fun keys_loop :: "string list \<Rightarrow> string list \<Rightarrow> unit result" where
  "keys_loop seen [] = Inr ()"
| "keys_loop seen (key # rest) =
    (if \<not> artifactKeyPattern key \<or> length key > 512 then Inl (ErrText ''artifact object key is invalid'')
     else if key \<in> set seen then Inl (ErrText ''artifact object keys must be unique'')
     else keys_loop (key # seen) rest)"

definition validateObjectKeys :: "string list \<Rightarrow> unit result" where
  "validateObjectKeys keys = keys_loop [] keys"

fun validateEvent :: "event \<Rightarrow> unit result" where
  "validateEvent (Started e) =
    bindE (validateAttemptIdentity (st_JobID e) (st_AttemptID e) (st_LeaseID e)) (\<lambda>_.
    if st_WorkerID e = uuid_Nil then Inl (ErrText ''workerId is required'')
    else if st_AttemptNumber e < 1 then Inl (ErrText ''attemptNumber must be positive'')
    else Inr ())"
| "validateEvent (Progressed e) =
    bindE (validateAttemptIdentity (pr_JobID e) (pr_AttemptID e) (pr_LeaseID e)) (\<lambda>_.
    if \<not> stagePattern (pr_Stage e) \<or> pr_ProcessedRows e < 0 \<or> pr_ProgressPercent e < 0 \<or>
       pr_ProgressPercent e > 100 \<or> pr_Throughput e < 0 \<or> time_IsZero (pr_UpdatedAt e)
    then Inl (ErrText ''progress fields are invalid'')
    else case pr_EstimatedTotalRows e of
      None \<Rightarrow> Inr ()
    | Some estimate \<Rightarrow>
        if estimate < 0 then Inl (ErrText ''estimatedTotalRows must not be negative'')
        else if estimate < pr_ProcessedRows e
          then Inl (ErrText ''estimatedTotalRows must not be less than processedRows'')
        else Inr ())"
| "validateEvent (SucceededE e) =
    bindE (validateAttemptIdentity (su_JobID e) (su_AttemptID e) (su_LeaseID e)) (\<lambda>_.
    if su_WorkerID e = uuid_Nil then Inl (ErrText ''workerId is required'')
    else if length (su_Artifacts e) > MaxArtifactsPerResult then Inl (ErrText ''artifacts must contain at most 32 items'')
    else validateObjectKeys (su_Artifacts e))"
| "validateEvent (Failed e) =
    bindE (validateAttemptIdentity (fa_JobID e) (fa_AttemptID e) (fa_LeaseID e)) (\<lambda>_.
    if fa_WorkerID e = uuid_Nil then Inl (ErrText ''workerId is required'')
    else if TrimSpace (fi_Code (fa_Error e)) = [] \<or> length (fi_Code (fa_Error e)) > 128 \<or>
        length (fi_Message (fa_Error e)) = 0 \<or> length (fi_Message (fa_Error e)) > 500
      then Inl (ErrText ''failure details are invalid'')
    else case fi_DiagnosticRef (fa_Error e) of
      None \<Rightarrow> Inr ()
    | Some ref \<Rightarrow> if length ref > 512 then Inl (ErrText ''diagnosticRef is too long'') else Inr ())"
| "validateEvent (CancelledE e) =
    bindE (validateAttemptIdentity (ca_JobID e) (ca_AttemptID e) (ca_LeaseID e)) (\<lambda>_.
    if ca_WorkerID e = uuid_Nil \<or> TrimSpace (ca_Reason e) = [] \<or> length (ca_Reason e) > 500
    then Inl (ErrText ''cancellation fields are invalid'') else Inr ())"
| "validateEvent (ArtifactCreated e) =
    bindE (validateAttemptIdentity (ar_JobID e) (ar_AttemptID e) (ar_LeaseID e)) (\<lambda>_.
    if ar_ArtifactID e = uuid_Nil \<or> \<not> artifactKindPattern (ar_Kind e) \<or> \<not> artifactKeyPattern (ar_ObjectKey e) \<or>
       ar_SizeBytes e < 0 \<or> TrimSpace (ar_ContentType e) = [] \<or> length (ar_ContentType e) > 128 \<or>
       \<not> checksumPattern (ar_ChecksumSHA256 e)
    then Inl (ErrText ''artifact fields are invalid'') else Inr ())"

definition decode_event :: "Runtime \<Rightarrow> string \<Rightarrow> RawMessage \<Rightarrow> event option" where
  "decode_event rt messageType payload =
    (if messageType = MessageJobStarted then
       map_option Started (decodeStrict rt (started_fields rt) payload
         \<lparr>st_JobID = uuid_Nil, st_AttemptID = uuid_Nil, st_LeaseID = uuid_Nil, st_WorkerID = uuid_Nil, st_AttemptNumber = 0\<rparr>)
     else if messageType = MessageJobProgressed then
       map_option Progressed (decodeStrict rt (progressed_fields rt) payload
         \<lparr>pr_JobID = uuid_Nil, pr_AttemptID = uuid_Nil, pr_LeaseID = uuid_Nil, pr_Stage = [], pr_ProcessedRows = 0,
          pr_EstimatedTotalRows = None, pr_ProgressPercent = 0, pr_Throughput = 0, pr_UpdatedAt = 0\<rparr>)
     else if messageType = MessageJobSucceeded then
       map_option SucceededE (decodeStrict rt (succeeded_fields rt) payload
         \<lparr>su_JobID = uuid_Nil, su_AttemptID = uuid_Nil, su_LeaseID = uuid_Nil, su_WorkerID = uuid_Nil, su_Artifacts = []\<rparr>)
     else if messageType = MessageJobFailed then
       map_option Failed (decodeStrict rt (failed_fields rt) payload
         \<lparr>fa_JobID = uuid_Nil, fa_AttemptID = uuid_Nil, fa_LeaseID = uuid_Nil, fa_WorkerID = uuid_Nil,
          fa_Error = \<lparr>fi_Code = [], fi_Message = [], fi_Retryable = False, fi_DiagnosticRef = None\<rparr>\<rparr>)
     else if messageType = MessageJobCancelled then
       map_option CancelledE (decodeStrict rt (cancelled_fields rt) payload
         \<lparr>ca_JobID = uuid_Nil, ca_AttemptID = uuid_Nil, ca_LeaseID = uuid_Nil, ca_WorkerID = uuid_Nil, ca_Reason = []\<rparr>)
     else if messageType = MessageArtifactCreated then
       map_option ArtifactCreated (decodeStrict rt (artifact_fields rt) payload
         \<lparr>ar_JobID = uuid_Nil, ar_AttemptID = uuid_Nil, ar_LeaseID = uuid_Nil, ar_ArtifactID = uuid_Nil, ar_Kind = [],
          ar_ObjectKey = [], ar_SizeBytes = 0, ar_ContentType = [], ar_ChecksumSHA256 = []\<rparr>)
     else None)"

definition DecodeEvent :: "Runtime \<Rightarrow> Envelope \<Rightarrow> event result" where
  "DecodeEvent rt envelope =
    (case Envelope_Validate envelope of
       Inl _ \<Rightarrow> Inl ResultErrInvalidEvent
     | Inr _ \<Rightarrow>
       (case decode_event rt (env_MessageType envelope) (env_Payload envelope) of
          None \<Rightarrow> Inl ResultErrInvalidEvent
        | Some event \<Rightarrow>
          (case validateEvent event of Inl _ \<Rightarrow> Inl ResultErrInvalidEvent | Inr _ \<Rightarrow> Inr event)))"

section \<open>Identity of an event\<close>

fun event_job :: "event \<Rightarrow> uuid" where
  "event_job (Started e) = st_JobID e"
| "event_job (Progressed e) = pr_JobID e"
| "event_job (SucceededE e) = su_JobID e"
| "event_job (Failed e) = fa_JobID e"
| "event_job (CancelledE e) = ca_JobID e"
| "event_job (ArtifactCreated e) = ar_JobID e"

fun event_attempt :: "event \<Rightarrow> uuid" where
  "event_attempt (Started e) = st_AttemptID e"
| "event_attempt (Progressed e) = pr_AttemptID e"
| "event_attempt (SucceededE e) = su_AttemptID e"
| "event_attempt (Failed e) = fa_AttemptID e"
| "event_attempt (CancelledE e) = ca_AttemptID e"
| "event_attempt (ArtifactCreated e) = ar_AttemptID e"

fun event_lease :: "event \<Rightarrow> uuid" where
  "event_lease (Started e) = st_LeaseID e"
| "event_lease (Progressed e) = pr_LeaseID e"
| "event_lease (SucceededE e) = su_LeaseID e"
| "event_lease (Failed e) = fa_LeaseID e"
| "event_lease (CancelledE e) = ca_LeaseID e"
| "event_lease (ArtifactCreated e) = ar_LeaseID e"

lemma validateAttemptIdentity_Inr [result_simps]:
  "validateAttemptIdentity j a l = Inr u \<longleftrightarrow> j \<noteq> uuid_Nil \<and> a \<noteq> uuid_Nil \<and> l \<noteq> uuid_Nil"
  by (auto simp: validateAttemptIdentity_def)

lemma validateEvent_identity:
  "validateEvent e = Inr u \<Longrightarrow> event_job e \<noteq> uuid_Nil \<and> event_attempt e \<noteq> uuid_Nil \<and> event_lease e \<noteq> uuid_Nil"
  by (cases e) (auto simp: bindE_Inr validateAttemptIdentity_Inr)

lemma DecodeEvent_Inr:
  assumes "DecodeEvent rt envelope = Inr e"
  shows "Envelope_Validate envelope = Inr ()" "validateEvent e = Inr ()"
    "decode_event rt (env_MessageType envelope) (env_Payload envelope) = Some e"
  using assms by (auto simp: DecodeEvent_def split: sum.splits option.splits)

lemma keys_loop_Inr:
  "keys_loop seen keys = Inr u \<longleftrightarrow>
     distinct keys \<and> set keys \<inter> set seen = {} \<and> (\<forall>k \<in> set keys. artifactKeyPattern k \<and> length k \<le> 512)"
  by (induction seen keys rule: keys_loop.induct) auto

end
