(* ===== verification/Results.thy ===== *)
theory Results
  imports Events Leases Authz
begin

text \<open>
  The result repository and service (\<open>internal/result\<close>): each event is applied in one
  transaction behind an inbox that drops repeated messages, fenced by the lease of the
  attempt it names; queries over canonical artifacts and progress; the delivery handler. The
  optional outbox writer is the argument \<open>writer\<close>.
\<close>

section \<open>The attempt an event is about\<close>

record attemptContext =
  cx_OwnerUserID :: uuid
  cx_JobState :: job_state
  cx_JobID :: uuid
  cx_MaxAttempts :: int
  cx_AttemptID :: uuid
  cx_AttemptNumber :: int
  cx_AttemptState :: attempt_state
  cx_LeaseID :: "uuid option"
  cx_WorkerID :: "uuid option"

text \<open>
  \<open>None\<close> is the zero context the code returns when no row matches; the callers recognise it
  by its nil job identifier, which a validated event never names.
\<close>

definition lockAttempt :: "uuid \<Rightarrow> uuid \<Rightarrow> DB \<Rightarrow> attemptContext option" where
  "lockAttempt jobID attemptID db =
    (case find_job jobID db of
       None \<Rightarrow> None
     | Some j \<Rightarrow>
       (case find (\<lambda>a. a_id a = attemptID \<and> a_job a = jobID) (db_attempts db) of
          None \<Rightarrow> None
        | Some a \<Rightarrow>
            Some \<lparr>cx_OwnerUserID = j_owner j, cx_JobState = j_state j, cx_JobID = j_id j,
                  cx_MaxAttempts = j_max j, cx_AttemptID = a_id a, cx_AttemptNumber = a_num a,
                  cx_AttemptState = a_state a, cx_LeaseID = a_lease a, cx_WorkerID = a_worker a\<rparr>))"

definition matchesLease :: "attemptContext \<Rightarrow> uuid \<Rightarrow> uuid \<Rightarrow> bool" where
  "matchesLease item leaseID workerID =
    (if cx_LeaseID item \<noteq> Some leaseID then False
     else if workerID = uuid_Nil then True
     else cx_WorkerID item = Some workerID)"

definition truncateText :: "string \<Rightarrow> nat \<Rightarrow> string" where
  "truncateText value maximum = (if length value > maximum then take maximum value else value)"

definition Result_recordHistory :: "uuid \<Rightarrow> job_state \<Rightarrow> job_state \<Rightarrow> string \<Rightarrow> DB \<Rightarrow> DB" where
  "Result_recordHistory jobID fromState toState reason db =
    add_history jobID (Some fromState) toState (truncateText reason 256) None db"

definition insertResultProjection ::
  "uuid \<Rightarrow> uuid \<Rightarrow> projection_outcome \<Rightarrow> string list \<Rightarrow> FailureInfo option \<Rightarrow> DB \<Rightarrow> DB result" where
  "insertResultProjection jobID attemptID outcome artifactKeys failure db =
    bindE (row_insert (\<lambda>p. (p_job p, p_attempt p))
        \<lparr>p_job = jobID, p_attempt = attemptID, p_outcome = outcome, p_keys = artifactKeys,
         p_errcode = map_option (\<lambda>f. truncateText (fi_Code f) 128) failure,
         p_errmsg = map_option (\<lambda>f. truncateText (fi_Message f) 500) failure,
         p_retryable = map_option fi_Retryable failure\<rparr> (db_projections db)) (\<lambda>rows.
      Inr (db\<lparr>db_projections := rows\<rparr>))"

type_synonym outcome = "event_outcome \<times> string"

section \<open>Events\<close>

text \<open>The identifiers one event may draw.\<close>

record ResultDraws =
  rd_attempt :: uuid
  rd_message :: uuid
  rd_dead :: uuid

definition start_attempt :: "time \<Rightarrow> Attempt \<Rightarrow> Attempt" where
  "start_attempt now a =
    a\<lparr>a_state := ARunning, a_started := (case a_started a of None \<Rightarrow> Some now | Some t \<Rightarrow> Some t)\<rparr>"

definition start_job :: "time \<Rightarrow> Job \<Rightarrow> Job" where
  "start_job now j =
    j\<lparr>j_state := Running, j_started := (case j_started j of None \<Rightarrow> Some now | Some t \<Rightarrow> Some t), j_updated := now\<rparr>"

definition applyStarted :: "time \<Rightarrow> StartedEvent \<Rightarrow> DB \<Rightarrow> (outcome \<times> DB) result" where
  "applyStarted now e db =
    (case lockAttempt (st_JobID e) (st_AttemptID e) db of
       None \<Rightarrow> Inr ((Ignored, ''attempt_not_found''), db)
     | Some item \<Rightarrow>
       if cx_AttemptNumber item \<noteq> st_AttemptNumber e \<or> \<not> matchesLease item (st_LeaseID e) (st_WorkerID e)
       then Inr ((Ignored, ''stale_or_wrong_lease''), db)
       else if (cx_JobState item \<noteq> Leased \<and> cx_JobState item \<noteq> Running) \<or>
           (cx_AttemptState item \<noteq> ALeased \<and> cx_AttemptState item \<noteq> ARunning)
       then Inr ((Ignored, ''result_before_start_or_terminal_attempt''), db)
       else
         let db1 = (if cx_AttemptState item = ALeased
                    then update_attempt (st_AttemptID e) (start_attempt now) db else db);
             db2 = (if cx_JobState item = Leased
                    then Result_recordHistory (st_JobID e) Leased Running ''worker_started''
                           (update_job (st_JobID e) (start_job now) db1)
                    else db1)
         in Inr ((Applied, ''started''), db2))"

definition progress_row :: "int \<Rightarrow> ProgressedEvent \<Rightarrow> Progress" where
  "progress_row rowID e =
    \<lparr>pg_id = rowID, pg_job = pr_JobID e, pg_attempt = pr_AttemptID e, pg_lease = pr_LeaseID e,
     pg_stage = pr_Stage e, pg_rows = pr_ProcessedRows e, pg_total = pr_EstimatedTotalRows e,
     pg_percent = pr_ProgressPercent e, pg_throughput = pr_Throughput e, pg_updated = pr_UpdatedAt e\<rparr>"

text \<open>The condition under which the snapshot of a job is replaced.\<close>

definition supersedes :: "ProgressedEvent \<Rightarrow> Progress \<Rightarrow> bool" where
  "supersedes e p \<longleftrightarrow>
     pg_attempt p \<noteq> pr_AttemptID e \<or>
     (pr_UpdatedAt e > pg_updated p \<and> pr_ProcessedRows e \<ge> pg_rows p \<and> pr_ProgressPercent e \<ge> pg_percent p)"

definition progress_order :: "Progress \<Rightarrow> time \<times> int" where
  "progress_order p = (- pg_updated p, - pg_id p)"

definition trim_history :: "uuid \<Rightarrow> Progress list \<Rightarrow> Progress list" where
  "trim_history jobID rows =
    (let keep = pg_id ` set (take 100 (sort_key progress_order (filter (\<lambda>p. pg_job p = jobID) rows)))
     in filter (\<lambda>p. \<not> (pg_job p = jobID \<and> pg_id p \<notin> keep)) rows)"

definition applyProgressed :: "ProgressedEvent \<Rightarrow> DB \<Rightarrow> (outcome \<times> DB) result" where
  "applyProgressed e db =
    (case lockAttempt (pr_JobID e) (pr_AttemptID e) db of
       None \<Rightarrow> Inr ((Ignored, ''attempt_not_found''), db)
     | Some item \<Rightarrow>
       if \<not> matchesLease item (pr_LeaseID e) uuid_Nil then Inr ((Ignored, ''stale_or_wrong_lease''), db)
       else if cx_JobState item \<noteq> Running \<or> cx_AttemptState item \<noteq> ARunning
       then Inr ((Ignored, ''progress_for_non_running_attempt''), db)
       else
         let snapshots =
           (case row_find pg_job (pr_JobID e) (db_progress db) of
              None \<Rightarrow> Some (db_progress db @ [progress_row 0 e])
            | Some p \<Rightarrow>
                if supersedes e p
                then Some (row_update pg_job (pr_JobID e) (\<lambda>p. (progress_row 0 e)\<lparr>pg_id := pg_id p\<rparr>) (db_progress db))
                else None)
         in case snapshots of
              None \<Rightarrow> Inr ((Ignored, ''stale_progress''), db)
            | Some rows \<Rightarrow>
                Inr ((Applied, ''progressed''),
                  db\<lparr>db_progress := rows,
                     db_progress_history := trim_history (pr_JobID e)
                       (db_progress_history db @ [progress_row (db_progress_seq db) e]),
                     db_progress_seq := db_progress_seq db + 1\<rparr>))"

definition applySucceeded :: "time \<Rightarrow> SucceededEvent \<Rightarrow> DB \<Rightarrow> (outcome \<times> DB) result" where
  "applySucceeded now e db =
    (case lockAttempt (su_JobID e) (su_AttemptID e) db of
       None \<Rightarrow> Inr ((Ignored, ''attempt_not_found''), db)
     | Some item \<Rightarrow>
       if \<not> matchesLease item (su_LeaseID e) (su_WorkerID e) then Inr ((Ignored, ''stale_or_wrong_lease''), db)
       else if cx_JobState item \<noteq> Running \<or> cx_AttemptState item \<noteq> ARunning
       then Inr ((Ignored, ''result_before_start_or_terminal_attempt''), db)
       else
         let db1 = update_job (su_JobID e)
               (\<lambda>j. j\<lparr>j_state := Succeeded, j_completed := Some now, j_finished := Some now, j_updated := now\<rparr>) db;
             db2 = update_attempt (su_AttemptID e) (\<lambda>a. a\<lparr>a_state := ASucceeded, a_finished := Some now\<rparr>) db1;
             db3 = update_quota (cx_OwnerUserID item) (release_active now) db2;
             db4 = Result_recordHistory (su_JobID e) Running Succeeded ''worker_succeeded'' db3
         in bindE (insertResultProjection (su_JobID e) (su_AttemptID e) ProjSucceeded (su_Artifacts e) None db4) (\<lambda>db5.
            Inr ((Applied, ''succeeded''),
              if su_Artifacts e \<noteq> []
              then db5\<lparr>db_artifacts := rows_update
                     (\<lambda>r. art_job r = su_JobID e \<and> art_attempt r = su_AttemptID e \<and> art_key r \<in> set (su_Artifacts e))
                     (\<lambda>r. r\<lparr>art_state := Canonical\<rparr>) (db_artifacts db5)\<rparr>
              else db5)))"

definition enqueueResultRetry ::
  "Runtime \<Rightarrow> (time \<Rightarrow> Message \<Rightarrow> DB \<Rightarrow> DB result) \<Rightarrow> uuid \<Rightarrow> time \<Rightarrow> attemptContext \<Rightarrow> time \<Rightarrow> DB \<Rightarrow> DB result" where
  "enqueueResultRetry rt enqueue msgID now item availableAt db =
    (let traceID = uuid_String rt (cx_JobID item)
     in bindE (NewEnvelope rt msgID now MessageJobQueued traceID traceID traceID (JObj [(''jobId'', JStr traceID)])) (\<lambda>envelope.
        enqueue now (command_message envelope CommandsExchange (env_MessageType envelope) availableAt) db))"

definition fail_attempt :: "time \<Rightarrow> FailureInfo \<Rightarrow> Attempt \<Rightarrow> Attempt" where
  "fail_attempt now f a =
    a\<lparr>a_state := AFailed, a_finished := Some now, a_errcode := Some (truncateText (fi_Code f) 128),
      a_errmsg := Some (truncateText (fi_Message f) 500), a_retryable := fi_Retryable f\<rparr>"

definition requeue_failed :: "time \<Rightarrow> time \<Rightarrow> FailureInfo \<Rightarrow> Job \<Rightarrow> Job" where
  "requeue_failed now nextAt f j =
    j\<lparr>j_state := Queued, j_next := Some nextAt, j_finished := None, j_updated := now,
      j_errcode := Some (truncateText (fi_Code f) 128), j_errmsg := Some (truncateText (fi_Message f) 500)\<rparr>"

definition finish_failed :: "job_state \<Rightarrow> time \<Rightarrow> FailureInfo \<Rightarrow> Job \<Rightarrow> Job" where
  "finish_failed state now f j =
    j\<lparr>j_state := state, j_next := None, j_finished := Some now, j_updated := now,
      j_errcode := Some (truncateText (fi_Code f) 128), j_errmsg := Some (truncateText (fi_Message f) 500)\<rparr>"

definition applyFailed ::
  "Runtime \<Rightarrow> (time \<Rightarrow> Message \<Rightarrow> DB \<Rightarrow> DB result) option \<Rightarrow> Policy \<Rightarrow> ResultDraws \<Rightarrow> time \<Rightarrow> FailedEvent \<Rightarrow> DB \<Rightarrow>
   (outcome \<times> DB) result" where
  "applyFailed rt writer retryPolicy draws now e db =
    (case lockAttempt (fa_JobID e) (fa_AttemptID e) db of
       None \<Rightarrow> Inr ((Ignored, ''attempt_not_found''), db)
     | Some item \<Rightarrow>
       if \<not> matchesLease item (fa_LeaseID e) (fa_WorkerID e) then Inr ((Ignored, ''stale_or_wrong_lease''), db)
       else if cx_JobState item \<noteq> Running \<or> cx_AttemptState item \<noteq> ARunning
       then Inr ((Ignored, ''result_before_start_or_terminal_attempt''), db)
       else
         let failure = fa_Error e;
             db1 = update_attempt (fa_AttemptID e) (fail_attempt now failure) db
         in bindE (insertResultProjection (fa_JobID e) (fa_AttemptID e) ProjFailed [] (Some failure) db1) (\<lambda>db2.
            if fi_Retryable failure \<and> cx_AttemptNumber item < cx_MaxAttempts item then
              (case writer of
                 None \<Rightarrow> Inl (ErrText ''retryable result requires an outbox writer'')
               | Some enqueue \<Rightarrow>
                   let nextAttempt = cx_AttemptNumber item + 1;
                       policy = (if pol_MaxAttempts retryPolicy < cx_MaxAttempts item
                                 then retryPolicy\<lparr>pol_MaxAttempts := cx_MaxAttempts item\<rparr> else retryPolicy)
                   in bindE (Policy_Delay policy nextAttempt None) (\<lambda>delay.
                      let nextAt = now + delay
                      in bindE (insert_attempt (new_attempt (rd_attempt draws) (fa_JobID e) nextAttempt now) db2) (\<lambda>db3.
                         let db4 = update_job (fa_JobID e) (requeue_failed now nextAt failure) db3;
                             db5 = update_quota (cx_OwnerUserID item) (requeue_active now) db4;
                             db6 = Result_recordHistory (fa_JobID e) Running Queued ''worker_failed_retry_scheduled'' db5
                         in bindE (enqueueResultRetry rt enqueue (rd_message draws) now item nextAt db6) (\<lambda>db7.
                            Inr ((Applied, ''retry_scheduled''), db7)))))
            else
              let state = (if fi_Retryable failure then DeadLettered else FailedPermanent);
                  reason = (if fi_Retryable failure then ''retry_exhausted_dead_lettered'' else ''worker_failed'')
              in bindE (if fi_Retryable failure
                        then insert_dead_letter
                          \<lparr>d_id = rd_dead draws, d_job = fa_JobID e, d_attempt = fa_AttemptID e,
                           d_lease = fa_LeaseID e, d_worker = fa_WorkerID e, d_num = cx_AttemptNumber item,
                           d_errcode = truncateText (fi_Code failure) 128, d_errmsg = truncateText (fi_Message failure) 500,
                           d_retryable = True, d_diagnostic = fi_DiagnosticRef failure, d_created = now,
                           d_replayed = None, d_replayer = None\<rparr> db2
                        else Inr db2) (\<lambda>db3.
                 let db4 = update_job (fa_JobID e) (finish_failed state now failure) db3;
                     db5 = update_quota (cx_OwnerUserID item) (release_active now) db4
                 in Inr ((Applied, reason), Result_recordHistory (fa_JobID e) Running state reason db5))))"

definition applyCancelled :: "time \<Rightarrow> CancelledEvent \<Rightarrow> DB \<Rightarrow> (outcome \<times> DB) result" where
  "applyCancelled now e db =
    (case lockAttempt (ca_JobID e) (ca_AttemptID e) db of
       None \<Rightarrow> Inr ((Ignored, ''attempt_not_found''), db)
     | Some item \<Rightarrow>
       if \<not> matchesLease item (ca_LeaseID e) (ca_WorkerID e) then Inr ((Ignored, ''stale_or_wrong_lease''), db)
       else if cx_JobState item \<noteq> CancelRequested \<or> (cx_AttemptState item \<noteq> ALeased \<and> cx_AttemptState item \<noteq> ARunning)
       then Inr ((Ignored, ''cancellation_for_non_requested_attempt''), db)
       else
         let db1 = update_attempt (ca_AttemptID e)
               (\<lambda>a. a\<lparr>a_state := ACancelled, a_finished := Some now, a_errcode := None, a_errmsg := None\<rparr>) db;
             db2 = update_job (ca_JobID e)
               (\<lambda>j. j\<lparr>j_state := Cancelled, j_completed := Some now, j_finished := Some now, j_updated := now,
                      j_errcode := None, j_errmsg := None\<rparr>) db1;
             db3 = update_quota (cx_OwnerUserID item) (release_active now) db2
         in bindE (insertResultProjection (ca_JobID e) (ca_AttemptID e) ProjCancelled []
                (Some \<lparr>fi_Code = ''CANCELLED'', fi_Message = truncateText (ca_Reason e) 500, fi_Retryable = False,
                       fi_DiagnosticRef = None\<rparr>) db3) (\<lambda>db4.
            Inr ((Applied, ''cancelled''),
              Result_recordHistory (ca_JobID e) CancelRequested Cancelled ''worker_cancelled'' db4)))"

text \<open>
  The upsert of an artifact: a canonical row stays canonical. The schema bounds the object key
  by 512 characters.
\<close>

definition insert_artifact :: "Artifact \<Rightarrow> DB \<Rightarrow> DB result" where
  "insert_artifact r db =
    (if length (art_key r) > 512 then Inl (ErrDatabase ''object_key check'')
     else if (art_job r, art_attempt r, art_key r) \<in> (\<lambda>s. (art_job s, art_attempt s, art_key s)) ` set (db_artifacts db)
     then Inr (db\<lparr>db_artifacts := rows_update
            (\<lambda>s. art_job s = art_job r \<and> art_attempt s = art_attempt r \<and> art_key s = art_key r)
            (\<lambda>s. s\<lparr>art_state := (if art_state s = Canonical then Canonical else art_state r)\<rparr>) (db_artifacts db)\<rparr>)
     else bindE (row_insert art_id r (db_artifacts db)) (\<lambda>rows. Inr (db\<lparr>db_artifacts := rows\<rparr>)))"

definition referenced :: "uuid \<Rightarrow> uuid \<Rightarrow> string \<Rightarrow> DB \<Rightarrow> bool" where
  "referenced jobID attemptID objectKey db \<longleftrightarrow>
     list_ex (\<lambda>p. p_job p = jobID \<and> p_attempt p = attemptID \<and> p_outcome p = ProjSucceeded \<and> objectKey \<in> set (p_keys p))
       (db_projections db)"

definition applyArtifact :: "time \<Rightarrow> ArtifactCreatedEvent \<Rightarrow> DB \<Rightarrow> (outcome \<times> DB) result" where
  "applyArtifact now e db =
    (case lockAttempt (ar_JobID e) (ar_AttemptID e) db of
       None \<Rightarrow> Inr ((Ignored, ''attempt_not_found''), db)
     | Some item \<Rightarrow>
       if \<not> matchesLease item (ar_LeaseID e) uuid_Nil then Inr ((Ignored, ''stale_or_wrong_lease''), db)
       else if cx_JobState item \<noteq> Leased \<and> cx_JobState item \<noteq> Running \<and> cx_JobState item \<noteq> Succeeded
       then Inr ((Ignored, ''artifact_for_terminal_or_invalid_job''), db)
       else
         let canonical = referenced (ar_JobID e) (ar_AttemptID e) (ar_ObjectKey e) db
         in if cx_JobState item = Succeeded \<and> \<not> canonical
            then Inr ((Ignored, ''artifact_not_referenced_by_succeeded_attempt''), db)
            else bindE (insert_artifact
                \<lparr>art_id = ar_ArtifactID e, art_owner = cx_OwnerUserID item, art_job = ar_JobID e,
                 art_attempt = ar_AttemptID e, art_lease = ar_LeaseID e, art_kind = ar_Kind e,
                 art_key = ar_ObjectKey e, art_size = ar_SizeBytes e, art_ctype = ar_ContentType e,
                 art_checksum = ar_ChecksumSHA256 e, art_state = (if canonical then Canonical else Staged),
                 art_created = now\<rparr> db) (\<lambda>db'. Inr ((Applied, ''artifact_created''), db')))"

section \<open>Processing\<close>

fun applyEvent ::
  "Runtime \<Rightarrow> (time \<Rightarrow> Message \<Rightarrow> DB \<Rightarrow> DB result) option \<Rightarrow> Policy \<Rightarrow> ResultDraws \<Rightarrow> time \<Rightarrow> event \<Rightarrow> DB \<Rightarrow>
   (outcome \<times> DB) result" where
  "applyEvent rt writer policy draws now (Started e) db = applyStarted now e db"
| "applyEvent rt writer policy draws now (Progressed e) db = applyProgressed e db"
| "applyEvent rt writer policy draws now (SucceededE e) db = applySucceeded now e db"
| "applyEvent rt writer policy draws now (Failed e) db = applyFailed rt writer policy draws now e db"
| "applyEvent rt writer policy draws now (CancelledE e) db = applyCancelled now e db"
| "applyEvent rt writer policy draws now (ArtifactCreated e) db = applyArtifact now e db"

definition insertInbox :: "Envelope \<Rightarrow> DB \<Rightarrow> bool \<times> DB" where
  "insertInbox envelope db =
    (if env_MessageID envelope \<in> in_id ` set (db_inbox db) then (False, db)
     else (True, db\<lparr>db_inbox := db_inbox db @ [\<lparr>in_id = env_MessageID envelope,
       in_type = env_MessageType envelope, in_outcome = Processing, in_reason = None\<rparr>]\<rparr>))"

definition Process ::
  "Runtime \<Rightarrow> (time \<Rightarrow> Message \<Rightarrow> DB \<Rightarrow> DB result) option \<Rightarrow> Policy \<Rightarrow> ResultDraws \<Rightarrow> time \<Rightarrow> Envelope \<Rightarrow> DB \<Rightarrow>
   (outcome \<times> DB) result" where
  "Process rt writer policy draws now envelope db =
    bindE (DecodeEvent rt envelope) (\<lambda>event.
      let (inserted, db1) = insertInbox envelope db
      in if \<not> inserted then Inr ((Duplicate, ''message_id_already_processed''), db)
         else bindE (applyEvent rt writer policy draws now event db1) (\<lambda>((status, reason), db2).
           Inr ((status, reason),
             db2\<lparr>db_inbox := row_update in_id (env_MessageID envelope)
               (\<lambda>r. r\<lparr>in_outcome := status, in_reason := (if reason = [] then None else Some reason)\<rparr>) (db_inbox db2)\<rparr>)))"

text \<open>
  The calls of \<open>DeliveryAcknowledger\<close> with their arguments: \<open>multiple\<close>, and for the negative ones
  \<open>requeue\<close>; the broker gives a message back to its queue exactly when \<open>requeue\<close> is true, and
  else sends it where the queue's dead letters go.
\<close>

datatype delivery_call = Ack bool | Nack bool bool | Reject bool

text \<open>
  The handler: what it calls on the delivery, the error it returns, and the database. A missing
  processor or delivery is \<open>None\<close>; \<open>answer\<close> is what a call of the delivery answers.
\<close>

definition HandleDelivery ::
  "(Envelope \<Rightarrow> DB \<Rightarrow> (outcome \<times> DB) result) option \<Rightarrow> (delivery_call \<Rightarrow> unit result) option \<Rightarrow> wire \<Rightarrow> DB \<Rightarrow>
   (delivery_call list \<times> unit result) \<times> DB" where
  "HandleDelivery processor delivery body db =
    (case (processor, delivery) of
       (Some process, Some answer) \<Rightarrow>
         (case UnmarshalEnvelope body of
            Inl err \<Rightarrow>
              (([Reject False],
                case answer (Reject False) of Inl rejectErr \<Rightarrow> Inl (ErrJoin [err, rejectErr]) | Inr _ \<Rightarrow> Inl err), db)
          | Inr envelope \<Rightarrow>
              (case process envelope db of
                 Inl err \<Rightarrow>
                   (([Nack False False],
                     case answer (Nack False False) of Inl nackErr \<Rightarrow> Inl (ErrJoin [err, nackErr]) | Inr _ \<Rightarrow> Inl err), db)
               | Inr (_, db') \<Rightarrow> (([Ack False], answer (Ack False)), db')))
     | _ \<Rightarrow> (([], Inl (ErrText ''result delivery dependencies are required'')), db))"

section \<open>Queries and service\<close>

record ArtifactListQuery =
  al_OwnerUserID :: "uuid option"
  al_JobID :: "uuid option"
  al_Kind :: string
  al_Page :: int
  al_PageSize :: int

record ArtifactPage =
  ap_Items :: "Artifact list"
  ap_Page :: int
  ap_PageSize :: int
  ap_Total :: int

definition artifact_listed :: "ArtifactListQuery \<Rightarrow> Artifact \<Rightarrow> bool" where
  "artifact_listed q r \<longleftrightarrow>
     art_state r = Canonical \<and>
     (case al_OwnerUserID q of None \<Rightarrow> True | Some o' \<Rightarrow> art_owner r = o') \<and>
     (case al_JobID q of None \<Rightarrow> True | Some j \<Rightarrow> art_job r = j) \<and>
     (al_Kind q = [] \<or> art_kind r = al_Kind q)"

definition ListArtifacts :: "ArtifactListQuery \<Rightarrow> DB \<Rightarrow> ArtifactPage result" where
  "ListArtifacts q db =
    (if al_Page q < 1 \<or> al_PageSize q < 1 \<or> al_PageSize q > 100 then Inl (ErrText ''invalid artifact pagination'')
     else
       let offset = signed_take_bit 63 ((al_Page q - 1) * al_PageSize q)
       in if offset < 0 then Inl (ErrDatabase ''OFFSET must not be negative'')
          else Inr \<lparr>ap_Items = take (nat (al_PageSize q)) (drop (nat offset)
                 (sort_key (\<lambda>r. (- art_created r, art_id r)) (filter (artifact_listed q) (db_artifacts db)))),
               ap_Page = al_Page q, ap_PageSize = al_PageSize q,
               ap_Total = count_rows (artifact_listed q) (db_artifacts db)\<rparr>)"

definition GetArtifact :: "uuid \<Rightarrow> DB \<Rightarrow> Artifact result" where
  "GetArtifact artifactID db =
    (case find (\<lambda>r. art_id r = artifactID \<and> art_state r = Canonical) (db_artifacts db) of
       None \<Rightarrow> Inl ResultErrArtifactNotFound
     | Some r \<Rightarrow> Inr r)"

record ProgressQuery =
  pq_OwnerUserID :: "uuid option"
  pq_JobID :: uuid
  pq_Page :: int
  pq_PageSize :: int

record ProgressPage =
  pp_Items :: "Progress list"
  pp_Page :: int
  pp_PageSize :: int
  pp_Total :: int

text \<open>The rows of a job, when the job belongs to the owner the query is restricted to.\<close>

definition progress_listed :: "ProgressQuery \<Rightarrow> DB \<Rightarrow> Progress \<Rightarrow> bool" where
  "progress_listed q db p \<longleftrightarrow>
     pg_job p = pq_JobID q \<and>
     (case find_job (pg_job p) db of
        None \<Rightarrow> False
      | Some j \<Rightarrow> (case pq_OwnerUserID q of None \<Rightarrow> True | Some o' \<Rightarrow> j_owner j = o'))"

definition GetProgress :: "ProgressQuery \<Rightarrow> DB \<Rightarrow> Progress result" where
  "GetProgress q db =
    (if pq_JobID q = uuid_Nil then Inl ResultErrInvalidInput
     else case find (progress_listed q db) (db_progress db) of
       None \<Rightarrow> Inl ResultErrProgressNotFound
     | Some p \<Rightarrow> Inr p)"

definition ListProgress :: "ProgressQuery \<Rightarrow> DB \<Rightarrow> ProgressPage result" where
  "ListProgress q db =
    (if pq_JobID q = uuid_Nil \<or> pq_Page q < 1 \<or> pq_PageSize q < 1 \<or> pq_PageSize q > 100 then Inl ResultErrInvalidInput
     else
       let offset = signed_take_bit 63 ((pq_Page q - 1) * pq_PageSize q)
       in if offset < 0 then Inl (ErrDatabase ''OFFSET must not be negative'')
          else Inr \<lparr>pp_Items = take (nat (pq_PageSize q)) (drop (nat offset)
                 (sort_key progress_order (filter (progress_listed q db) (db_progress_history db)))),
               pp_Page = pq_Page q, pp_PageSize = pq_PageSize q,
               pp_Total = count_rows (progress_listed q db) (db_progress_history db)\<rparr>)"

definition normalizeArtifactPagination :: "int \<Rightarrow> int \<Rightarrow> (int \<times> int) result" where
  "normalizeArtifactPagination page0 pageSize0 =
    (let page = (if page0 = 0 then 1 else page0);
         pageSize = (if pageSize0 = 0 then 20 else pageSize0)
     in if page < 1 \<or> pageSize < 1 \<or> pageSize > 100 then Inl ResultErrInvalidInput else Inr (page, pageSize))"

definition owner_filter :: "Principal \<Rightarrow> uuid option" where
  "owner_filter p = (if prin_Role p \<noteq> RoleAdmin then Some (prin_UserID p) else None)"

definition Result_Service_ListArtifacts ::
  "Principal \<Rightarrow> uuid option \<Rightarrow> string \<Rightarrow> int \<Rightarrow> int \<Rightarrow> DB \<Rightarrow> ArtifactPage result" where
  "Result_Service_ListArtifacts p jobID kind page pageSize db =
    bindE (RequireScope p ScopeArtifactsRead) (\<lambda>_.
    bindE (normalizeArtifactPagination page pageSize) (\<lambda>(page, pageSize).
    ListArtifacts \<lparr>al_OwnerUserID = owner_filter p, al_JobID = jobID, al_Kind = kind, al_Page = page,
      al_PageSize = pageSize\<rparr> db))"

definition Result_Service_GetArtifact :: "Principal \<Rightarrow> uuid \<Rightarrow> DB \<Rightarrow> Artifact result" where
  "Result_Service_GetArtifact p artifactID db =
    bindE (RequireScope p ScopeArtifactsRead) (\<lambda>_.
    bindE (GetArtifact artifactID db) (\<lambda>item.
    if art_state item \<noteq> Canonical then Inl ResultErrArtifactNotFound
    else if \<not> CanAccessOwner p (art_owner item) ScopeArtifactsRead then Inl AuthzErrForbidden
    else Inr item))"

definition Result_Service_GetProgress :: "Principal \<Rightarrow> uuid \<Rightarrow> DB \<Rightarrow> Progress result" where
  "Result_Service_GetProgress p jobID db =
    bindE (RequireScope p ScopeJobsRead) (\<lambda>_.
    if jobID = uuid_Nil then Inl ResultErrInvalidInput
    else GetProgress \<lparr>pq_OwnerUserID = owner_filter p, pq_JobID = jobID, pq_Page = 0, pq_PageSize = 0\<rparr> db)"

definition Result_Service_ListProgress :: "Principal \<Rightarrow> uuid \<Rightarrow> int \<Rightarrow> int \<Rightarrow> DB \<Rightarrow> ProgressPage result" where
  "Result_Service_ListProgress p jobID page pageSize db =
    bindE (RequireScope p ScopeJobsRead) (\<lambda>_.
    bindE (normalizeArtifactPagination page pageSize) (\<lambda>(page, pageSize).
    if jobID = uuid_Nil then Inl ResultErrInvalidInput
    else ListProgress \<lparr>pq_OwnerUserID = owner_filter p, pq_JobID = jobID, pq_Page = page, pq_PageSize = pageSize\<rparr> db))"

abbreviation MaxArtifactDownloadBytes :: int where "MaxArtifactDownloadBytes \<equiv> 512 * 1024 * 1024"

text \<open>
  \<open>objects\<close> is the object store, \<open>None\<close> when the service has none; it answers with a reader,
  or with an error that tells whether the object is missing.
\<close>

definition OpenArtifact ::
  "(string \<Rightarrow> (bool \<times> go_error) + 'reader) option \<Rightarrow> Principal \<Rightarrow> uuid \<Rightarrow> DB \<Rightarrow> (Artifact \<times> 'reader) result" where
  "OpenArtifact objects p artifactID db =
    bindE (Result_Service_GetArtifact p artifactID db) (\<lambda>item.
    if art_size item > MaxArtifactDownloadBytes then Inl ResultErrArtifactTooLarge
    else case objects of
      None \<Rightarrow> Inl ResultErrArtifactUnavailable
    | Some get \<Rightarrow>
        (case get (art_key item) of
           Inl (missing, e) \<Rightarrow> if missing then Inl ResultErrArtifactUnavailable else Inl e
         | Inr reader \<Rightarrow> Inr (item, reader)))"

section \<open>The events are changes of the job tables\<close>

lemma lockAttempt_Some:
  assumes "lockAttempt jobID attemptID db = Some item"
  obtains j a where "find_job jobID db = Some j" "a \<in> set (db_attempts db)" "a_id a = attemptID" "a_job a = jobID"
    "cx_OwnerUserID item = j_owner j" "cx_JobState item = j_state j" "cx_JobID item = jobID"
    "cx_MaxAttempts item = j_max j" "cx_AttemptNumber item = a_num a" "cx_AttemptState item = a_state a"
    "cx_LeaseID item = a_lease a" "cx_WorkerID item = a_worker a"
proof -
  from assms obtain j a where "find_job jobID db = Some j"
    "find (\<lambda>a. a_id a = attemptID \<and> a_job a = jobID) (db_attempts db) = Some a"
    "item = \<lparr>cx_OwnerUserID = j_owner j, cx_JobState = j_state j, cx_JobID = j_id j,
                  cx_MaxAttempts = j_max j, cx_AttemptID = a_id a, cx_AttemptNumber = a_num a,
                  cx_AttemptState = a_state a, cx_LeaseID = a_lease a, cx_WorkerID = a_worker a\<rparr>"
    by (auto simp: lockAttempt_def split: option.splits)
  then show thesis using that [of j a] find_jobD [of jobID db j] by (auto simp: find_Some_iff)
qed

text \<open>An open attempt that an event names is the last one of its job.\<close>

lemma lockAttempt_open:
  assumes con: "consistent db" and item: "lockAttempt jobID attemptID db = Some item" "is_open (cx_AttemptState item)"
  obtains j xs a where "j \<in> set (db_jobs db)" "find_job (j_id j) db = Some j" "jobID = j_id j" "attemptID = a_id a"
    "attempts_of (j_id j) db = xs @ [a]" "agree (j_state j) (a_state a)" "held (a_state a) \<Longrightarrow> has_lease a"
    "a \<in> set (db_attempts db)" "cx_OwnerUserID item = j_owner j" "cx_JobState item = j_state j"
    "cx_AttemptState item = a_state a" "cx_AttemptNumber item = a_num a" "cx_MaxAttempts item = j_max j"
    "cx_JobID item = j_id j" "1 \<le> a_num a" "1 \<le> j_max j" "j_max j \<le> 20"
proof -
  from item(1) obtain j b where f: "find_job jobID db = Some j" "b \<in> set (db_attempts db)" "a_id b = attemptID" "a_job b = jobID"
    "cx_OwnerUserID item = j_owner j" "cx_JobState item = j_state j" "cx_JobID item = jobID"
    "cx_MaxAttempts item = j_max j" "cx_AttemptNumber item = a_num b" "cx_AttemptState item = a_state b"
    by (rule lockAttempt_Some) blast
  have j: "j \<in> set (db_jobs db)" "j_id j = jobID" using find_jobD [OF f(1)] by auto
  obtain xs a where a: "attempts_of (j_id j) db = xs @ [a]" "agree (j_state j) (a_state a)"
    "held (a_state a) \<Longrightarrow> has_lease a" "job_ok j (xs @ [a]) (history_of (j_id j) db)" "a_num a = int (length xs) + 1"
    by (rule consistent_job [OF con j(1)]) blast
  have "b = a" using open_attempt_last [OF con j(1) f(2) _ _ a(1)] f(4,10) j(2) item(2) by simp
  then have b: "a_state b = a_state a" "a_num b = a_num a" "a_id a = attemptID" "a \<in> set (db_attempts db)"
    using f(2,3) by simp_all
  have bounds: "1 \<le> j_max j" "j_max j \<le> 20" using a(4) by (simp_all add: job_ok_def)
  show thesis
    by (rule that [of j a xs, OF j(1) _ _ _ a(1,2)]) (use f j a(3,5) b bounds in simp_all)
qed

lemma quota_release:
  assumes "consistent db" "j \<in> set (db_jobs db)" "is_active (j_state j)" "t \<noteq> Queued" "\<not> is_active t"
    "db_quotas db' = row_update q_owner (j_owner j) (release_active now) (db_quotas db)"
  shows "quota_moved (j_owner j) (Some (j_state j)) t db db'"
  by (rule quota_moved_row [OF assms(1,2) disjI2 [OF assms(3)] assms(6)])
    (use assms(3-5) in \<open>auto simp: release_active_def queued_weight_def active_weight_def is_active_def\<close>)

lemma quota_requeue:
  assumes "consistent db" "j \<in> set (db_jobs db)" "is_active (j_state j)"
    "db_quotas db' = row_update q_owner (j_owner j) (requeue_active now) (db_quotas db)"
  shows "quota_moved (j_owner j) (Some (j_state j)) Queued db db'"
  by (rule quota_moved_row [OF assms(1,2) disjI2 [OF assms(3)] assms(4)])
    (use assms(3) in \<open>auto simp: requeue_active_def queued_weight_def active_weight_def is_active_def\<close>)

lemma insertResultProjection_Inr:
  assumes "insertResultProjection jobID attemptID outcome keys failure db = Inr db'"
  obtains p where "db' = db\<lparr>db_projections := db_projections db @ [p]\<rparr>" "p_job p = jobID" "p_attempt p = attemptID"
    "p_outcome p = outcome" "p_keys p = keys"
  using assms by (auto simp: insertResultProjection_def bindE_Inr row_insert_Inr)

lemma applyStarted_change:
  assumes run: "applyStarted now e db = Inr (out, db')" and con: "consistent db"
  shows "change db db'"
proof (cases "db' = db")
  case True
  then show ?thesis using change_same [of db' db] by simp
next
  case False
  with run obtain item where item: "lockAttempt (st_JobID e) (st_AttemptID e) db = Some item"
    and states: "cx_JobState item = Leased \<or> cx_JobState item = Running" "cx_AttemptState item = ALeased \<or> cx_AttemptState item = ARunning"
    by (auto simp: applyStarted_def split: option.splits if_splits)
  have "is_open (cx_AttemptState item)" using states(2) by auto
  with con item obtain j xs a where j: "j \<in> set (db_jobs db)" "st_JobID e = j_id j" "st_AttemptID e = a_id a"
    "attempts_of (j_id j) db = xs @ [a]" "agree (j_state j) (a_state a)" "held (a_state a) \<Longrightarrow> has_lease a"
    "cx_JobState item = j_state j" "cx_AttemptState item = a_state a"
    by (rule lockAttempt_open) blast
  have "j_state j \<noteq> Running"
  proof
    assume "j_state j = Running"
    with j(5,7,8) run item False states show False by (auto simp: applyStarted_def split: if_splits)
  qed
  with states j(5,7) have st: "j_state j = Leased" "a_state a = ALeased" by auto
  have db': "db' = Result_recordHistory (j_id j) Leased Running ''worker_started''
      (update_job (j_id j) (start_job now) (update_attempt (a_id a) (start_attempt now) db))"
    using run item False st j(2,3,7,8) by (auto simp: applyStarted_def split: if_splits)
  have "lifecycle (Leased, map a_state xs @ [ALeased]) (Running, map a_state xs @ [ARunning])"
    by (rule lifecycle.start)
  moreover have "quota_moved (j_owner j) (Some Leased) Running db db'"
    by (rule quota_moved_same [OF con])
      (simp_all add: db' Result_recordHistory_def update_job_def update_attempt_def queued_weight_def active_weight_def is_active_def)
  ultimately show ?thesis using st j(6)
    by (intro change_move_last [of j db xs a db' "start_job now" "start_attempt now", OF j(1,4)])
      (simp_all add: db' Result_recordHistory_def update_job_def update_attempt_def start_job_def start_attempt_def has_lease_def)
qed

lemma applySucceeded_change:
  assumes run: "applySucceeded now e db = Inr (out, db')" and con: "consistent db"
  shows "change db db'"
proof (cases "db' = db")
  case True
  then show ?thesis using change_same [of db' db] by simp
next
  case False
  with run obtain item where item: "lockAttempt (su_JobID e) (su_AttemptID e) db = Some item"
    and states: "cx_JobState item = Running" "cx_AttemptState item = ARunning"
    by (auto simp: applySucceeded_def split: option.splits if_splits)
  have "is_open (cx_AttemptState item)" using states(2) by auto
  with con item obtain j xs a where j: "j \<in> set (db_jobs db)" "su_JobID e = j_id j" "su_AttemptID e = a_id a"
    "attempts_of (j_id j) db = xs @ [a]" "cx_OwnerUserID item = j_owner j"
    "cx_JobState item = j_state j" "cx_AttemptState item = a_state a"
    by (rule lockAttempt_open) blast
  let ?f = "\<lambda>j. j\<lparr>j_state := Succeeded, j_completed := Some now, j_finished := Some now, j_updated := now\<rparr>"
  let ?g = "\<lambda>a. a\<lparr>a_state := ASucceeded, a_finished := Some now\<rparr>"
  from run item False states j(2,3,5) obtain db5 rows where
    ins: "insertResultProjection (j_id j) (a_id a) ProjSucceeded (su_Artifacts e) None
      (Result_recordHistory (j_id j) Running Succeeded ''worker_succeeded''
        (update_quota (j_owner j) (release_active now) (update_attempt (a_id a) ?g (update_job (j_id j) ?f db)))) = Inr db5"
    and db': "db' = db5\<lparr>db_artifacts := rows\<rparr>"
    by (auto simp: applySucceeded_def Let_def bindE_Inr split: if_splits intro: that [of _ "db_artifacts db'"])
  from ins obtain p where db5: "db5 = (Result_recordHistory (j_id j) Running Succeeded ''worker_succeeded''
        (update_quota (j_owner j) (release_active now) (update_attempt (a_id a) ?g (update_job (j_id j) ?f db))))
        \<lparr>db_projections := db_projections db @ [p]\<rparr>" "p_attempt p = a_id a"
    by (rule insertResultProjection_Inr) (auto simp: Result_recordHistory_def update_job_def update_attempt_def update_quota_def)
  have "lifecycle (Running, map a_state xs @ [ARunning]) (Succeeded, map a_state xs @ [ASucceeded])"
    by (rule lifecycle.succeed)
  moreover have "quota_moved (j_owner j) (Some (j_state j)) Succeeded db db'"
    by (rule quota_release [OF con j(1), of _ _ now])
      (use states j(6) in \<open>auto simp: db' db5(1) Result_recordHistory_def update_job_def update_attempt_def update_quota_def is_active_def\<close>)
  ultimately show ?thesis using states j(6,7) db5(2)
    by (intro change_move_last [of j db xs a db' ?f ?g, OF j(1,4)])
      (auto simp: db' db5(1) Result_recordHistory_def update_job_def update_attempt_def update_quota_def)
qed

lemma applyCancelled_change:
  assumes run: "applyCancelled now e db = Inr (out, db')" and con: "consistent db"
  shows "change db db'"
proof (cases "db' = db")
  case True
  then show ?thesis using change_same [of db' db] by simp
next
  case False
  with run obtain item where item: "lockAttempt (ca_JobID e) (ca_AttemptID e) db = Some item"
    and states: "cx_JobState item = CancelRequested" "cx_AttemptState item = ALeased \<or> cx_AttemptState item = ARunning"
    by (auto simp: applyCancelled_def split: option.splits if_splits)
  have "is_open (cx_AttemptState item)" using states(2) by auto
  with con item obtain j xs a where j: "j \<in> set (db_jobs db)" "ca_JobID e = j_id j" "ca_AttemptID e = a_id a"
    "attempts_of (j_id j) db = xs @ [a]" "cx_OwnerUserID item = j_owner j"
    "cx_JobState item = j_state j" "cx_AttemptState item = a_state a"
    by (rule lockAttempt_open) blast
  have held: "held (a_state a)" using states(2) j(7) by auto
  let ?f = "\<lambda>j. j\<lparr>j_state := Cancelled, j_completed := Some now, j_finished := Some now, j_updated := now,
                      j_errcode := None, j_errmsg := None\<rparr>"
  let ?g = "\<lambda>a. a\<lparr>a_state := ACancelled, a_finished := Some now, a_errcode := None, a_errmsg := None\<rparr>"
  let ?db3 = "update_quota (j_owner j) (release_active now) (update_job (j_id j) ?f (update_attempt (a_id a) ?g db))"
  from run item False states j(2,3,5) obtain db4 failure where
    ins: "insertResultProjection (j_id j) (a_id a) ProjCancelled [] failure ?db3 = Inr db4"
    and db': "db' = Result_recordHistory (j_id j) CancelRequested Cancelled ''worker_cancelled'' db4"
    by (auto simp: applyCancelled_def Let_def bindE_Inr split: if_splits)
  from ins obtain p where db4: "db4 = ?db3\<lparr>db_projections := db_projections db @ [p]\<rparr>" "p_attempt p = a_id a"
    by (rule insertResultProjection_Inr) (auto simp: update_job_def update_attempt_def update_quota_def)
  have "lifecycle (CancelRequested, map a_state xs @ [a_state a]) (Cancelled, map a_state xs @ [ACancelled])"
    by (rule lifecycle.cancelled [OF held])
  moreover have "quota_moved (j_owner j) (Some (j_state j)) Cancelled db db'"
    by (rule quota_release [OF con j(1), of _ _ now])
      (use states j(6) in \<open>auto simp: db' db4(1) Result_recordHistory_def update_job_def update_attempt_def update_quota_def is_active_def\<close>)
  ultimately show ?thesis using states j(6,7) db4(2)
    by (intro change_move_last [of j db xs a db' ?f ?g, OF j(1,4)])
      (auto simp: db' db4(1) Result_recordHistory_def update_job_def update_attempt_def update_quota_def)
qed

lemma applyProgressed_change: "applyProgressed e db = Inr (out, db') \<Longrightarrow> change db db'"
  by (rule change_same) (auto simp: applyProgressed_def Let_def split: option.splits if_splits)

lemma insert_artifact_frame:
  "insert_artifact r db = Inr db' \<Longrightarrow> \<exists>rows. db' = db\<lparr>db_artifacts := rows\<rparr>"
  by (auto simp: insert_artifact_def bindE_Inr split: if_splits)

lemma applyArtifact_frame:
  assumes "applyArtifact now e db = Inr (out, db')"
  shows "\<exists>rows. db' = db\<lparr>db_artifacts := rows\<rparr>"
proof -
  have self: "\<exists>rows. db1 = db1\<lparr>db_artifacts := rows\<rparr>" for db1 :: DB
    by (rule exI [of _ "db_artifacts db1"]) simp
  from assms show ?thesis
    by (auto simp: applyArtifact_def Let_def bindE_Inr intro: self dest: insert_artifact_frame split: option.splits if_splits)
qed

lemma applyArtifact_change: "applyArtifact now e db = Inr (out, db') \<Longrightarrow> change db db'"
  by (rule change_same) (auto dest!: applyArtifact_frame)

text \<open>The three ends of a failed attempt.\<close>

context enqueuer
begin

lemma enqueueResultRetry_row:
  assumes "enqueueResultRetry rt enqueue msgID now item t db = Inr db'"
  shows "\<exists>r. db' = db\<lparr>db_outbox := db_outbox db @ [r]\<rparr> \<and> ob_state r = Pending \<and>
    env_MessageType (ob_env r) = MessageJobQueued \<and> ob_available r = (if t = 0 then now else t)"
proof -
  from assms obtain envelope where env: "NewEnvelope rt msgID now MessageJobQueued (uuid_String rt (cx_JobID item))
        (uuid_String rt (cx_JobID item)) (uuid_String rt (cx_JobID item))
        (JObj [(''jobId'', JStr (uuid_String rt (cx_JobID item)))]) = Inr envelope"
    and enq: "enqueue now (command_message envelope CommandsExchange (env_MessageType envelope) t) db = Inr db'"
    by (auto simp: enqueueResultRetry_def bindE_Inr Let_def)
  show ?thesis using enqueue_row [OF enq] NewEnvelopeD [OF env] by (auto simp: command_message_def time_IsZero_def)
qed

lemma applyFailed_cases:
  assumes "applyFailed rt (Some enqueue) policy draws now e db = Inr (out, db')"
  obtains (ignored) "db' = db" "fst out = Ignored"
    | (retried) item db2 delay r where "lockAttempt (fa_JobID e) (fa_AttemptID e) db = Some item"
      "cx_JobState item = Running" "cx_AttemptState item = ARunning"
      "insertResultProjection (fa_JobID e) (fa_AttemptID e) ProjFailed [] (Some (fa_Error e))
         (update_attempt (fa_AttemptID e) (fail_attempt now (fa_Error e)) db) = Inr db2"
      "fi_Retryable (fa_Error e)" "cx_AttemptNumber item < cx_MaxAttempts item"
      "rd_attempt draws \<notin> a_id ` set (db_attempts db2)"
      "db' = (Result_recordHistory (fa_JobID e) Running Queued ''worker_failed_retry_scheduled''
         (update_quota (cx_OwnerUserID item) (requeue_active now)
           (update_job (fa_JobID e) (requeue_failed now (now + delay) (fa_Error e))
             (db2\<lparr>db_attempts := db_attempts db2 @
               [new_attempt (rd_attempt draws) (fa_JobID e) (cx_AttemptNumber item + 1) now]\<rparr>))))
         \<lparr>db_outbox := db_outbox db2 @ [r]\<rparr>"
      "out = (Applied, ''retry_scheduled'')"
    | (finished) item db2 state reason db3 where "lockAttempt (fa_JobID e) (fa_AttemptID e) db = Some item"
      "cx_JobState item = Running" "cx_AttemptState item = ARunning"
      "insertResultProjection (fa_JobID e) (fa_AttemptID e) ProjFailed [] (Some (fa_Error e))
         (update_attempt (fa_AttemptID e) (fail_attempt now (fa_Error e)) db) = Inr db2"
      "\<not> (fi_Retryable (fa_Error e) \<and> cx_AttemptNumber item < cx_MaxAttempts item)"
      "state = (if fi_Retryable (fa_Error e) then DeadLettered else FailedPermanent)"
      "\<exists>ds. db3 = db2\<lparr>db_dead := ds\<rparr>"
      "db' = Result_recordHistory (fa_JobID e) Running state reason
         (update_quota (cx_OwnerUserID item) (release_active now)
           (update_job (fa_JobID e) (finish_failed state now (fa_Error e)) db3))"
      "out = (Applied, reason)"
proof (cases "fst out = Ignored \<and> db' = db")
  case False
  with assms obtain item where item: "lockAttempt (fa_JobID e) (fa_AttemptID e) db = Some item"
    and states: "cx_JobState item = Running" "cx_AttemptState item = ARunning"
    and lease: "matchesLease item (fa_LeaseID e) (fa_WorkerID e)"
    by (auto simp: applyFailed_def split: option.splits if_splits)
  let ?db1 = "update_attempt (fa_AttemptID e) (fail_attempt now (fa_Error e)) db"
  from assms item states lease obtain db2 where
    proj: "insertResultProjection (fa_JobID e) (fa_AttemptID e) ProjFailed [] (Some (fa_Error e)) ?db1 = Inr db2"
    by (auto simp: applyFailed_def Let_def bindE_Inr)
  note step = assms [unfolded applyFailed_def item option.case Let_def proj bindE_simps states lease simp_thms if_False]
  show ?thesis
  proof (cases "fi_Retryable (fa_Error e) \<and> cx_AttemptNumber item < cx_MaxAttempts item")
    case True
    have "bindE (Policy_Delay (if pol_MaxAttempts policy < cx_MaxAttempts item
            then policy\<lparr>pol_MaxAttempts := cx_MaxAttempts item\<rparr> else policy) (cx_AttemptNumber item + 1) None) (\<lambda>delay.
          bindE (insert_attempt (new_attempt (rd_attempt draws) (fa_JobID e) (cx_AttemptNumber item + 1) now) db2) (\<lambda>db3.
            bindE (enqueueResultRetry rt enqueue (rd_message draws) now item (now + delay)
              (Result_recordHistory (fa_JobID e) Running Queued ''worker_failed_retry_scheduled''
                (update_quota (cx_OwnerUserID item) (requeue_active now)
                  (update_job (fa_JobID e) (requeue_failed now (now + delay) (fa_Error e)) db3))))
              (\<lambda>db7. Inr ((Applied, ''retry_scheduled''), db7)))) = Inr (out, db')"
      using step True lease by simp
    then obtain delay db3 db7 where
      ins: "insert_attempt (new_attempt (rd_attempt draws) (fa_JobID e) (cx_AttemptNumber item + 1) now) db2 = Inr db3"
      and enq: "enqueueResultRetry rt enqueue (rd_message draws) now item (now + delay)
        (Result_recordHistory (fa_JobID e) Running Queued ''worker_failed_retry_scheduled''
         (update_quota (cx_OwnerUserID item) (requeue_active now)
           (update_job (fa_JobID e) (requeue_failed now (now + delay) (fa_Error e)) db3))) = Inr db7"
      and ret: "Inr ((Applied, ''retry_scheduled''), db7) = Inr (out, db')"
      unfolding bindE_Inr by blast
    from ret have out: "out = (Applied, ''retry_scheduled'')" and db7: "db7 = db'" by simp_all
    have fresh: "rd_attempt draws \<notin> a_id ` set (db_attempts db2)"
      and db3: "db3 = db2\<lparr>db_attempts := db_attempts db2 @
        [new_attempt (rd_attempt draws) (fa_JobID e) (cx_AttemptNumber item + 1) now]\<rparr>"
      using ins by (auto simp: insert_attempt_Inr)
    from enqueueResultRetry_row [OF enq [unfolded db7]] obtain r where
      "db' = (Result_recordHistory (fa_JobID e) Running Queued ''worker_failed_retry_scheduled''
         (update_quota (cx_OwnerUserID item) (requeue_active now)
           (update_job (fa_JobID e) (requeue_failed now (now + delay) (fa_Error e)) db3)))\<lparr>db_outbox := db_outbox db2 @ [r]\<rparr>"
      by (auto simp: Result_recordHistory_def update_quota_def update_job_def db3)
    then show ?thesis using True out by (intro retried [OF item states proj _ _ fresh]) (simp_all add: db3)
  next
    case no: False
    let ?state = "if fi_Retryable (fa_Error e) then DeadLettered else FailedPermanent"
    let ?reason = "if fi_Retryable (fa_Error e) then ''retry_exhausted_dead_lettered'' else ''worker_failed''"
    let ?d = "\<lparr>d_id = rd_dead draws, d_job = fa_JobID e, d_attempt = fa_AttemptID e,
        d_lease = fa_LeaseID e, d_worker = fa_WorkerID e, d_num = cx_AttemptNumber item,
        d_errcode = truncateText (fi_Code (fa_Error e)) 128, d_errmsg = truncateText (fi_Message (fa_Error e)) 500,
        d_retryable = True, d_diagnostic = fi_DiagnosticRef (fa_Error e), d_created = now,
        d_replayed = None, d_replayer = None\<rparr>"
    have "bindE (if fi_Retryable (fa_Error e) then insert_dead_letter ?d db2 else Inr db2) (\<lambda>db3.
        Inr ((Applied, ?reason), Result_recordHistory (fa_JobID e) Running ?state ?reason
         (update_quota (cx_OwnerUserID item) (release_active now)
           (update_job (fa_JobID e) (finish_failed ?state now (fa_Error e)) db3)))) = Inr (out, db')"
      using step no lease by simp
    then obtain db3 where
      dead: "db3 = db2 \<or> (\<exists>d. insert_dead_letter d db2 = Inr db3)"
      and db': "db' = Result_recordHistory (fa_JobID e) Running ?state ?reason
         (update_quota (cx_OwnerUserID item) (release_active now)
           (update_job (fa_JobID e) (finish_failed ?state now (fa_Error e)) db3))"
      and out: "out = (Applied, ?reason)"
      by (cases "fi_Retryable (fa_Error e)") (auto simp: bindE_Inr)
    have self: "\<exists>ds. db1 = db1\<lparr>db_dead := ds\<rparr>" for db1 :: DB
      by (rule exI [of _ "db_dead db1"]) simp
    from dead have "\<exists>ds. db3 = db2\<lparr>db_dead := ds\<rparr>"
      by (auto simp: insert_dead_letter_def intro: self split: if_splits)
    then show ?thesis by (rule finished [OF item states proj no refl _ db' out])
  qed
qed (use ignored in auto)

lemma applyFailed_change:
  assumes run: "applyFailed rt (Some enqueue) policy draws now e db = Inr (out, db')" and con: "consistent db"
  shows "change db db'"
  using run
proof (cases rule: applyFailed_cases)
  case ignored
  then show ?thesis using change_same [of db' db] by simp
next
  case (retried item db2 delay r)
  have "is_open (cx_AttemptState item)" using retried(3) by simp
  with con retried(1) obtain j xs a where j: "j \<in> set (db_jobs db)" "fa_JobID e = j_id j" "fa_AttemptID e = a_id a"
    "attempts_of (j_id j) db = xs @ [a]" "cx_OwnerUserID item = j_owner j"
    "cx_JobState item = j_state j" "cx_AttemptState item = a_state a" "cx_AttemptNumber item = a_num a"
    by (rule lockAttempt_open) blast
  let ?g = "fail_attempt now (fa_Error e)"
  from retried(4) obtain p where db2: "db2 = (update_attempt (a_id a) ?g db)\<lparr>db_projections := db_projections db @ [p]\<rparr>"
    "p_attempt p = a_id a"
    by (rule insertResultProjection_Inr) (auto simp: update_attempt_def j(3))
  have "map a_id (db_attempts db2) = map a_id (db_attempts db)"
    by (simp add: db2(1) update_attempt_def row_update_keys fail_attempt_def)
  then have fresh: "rd_attempt draws \<notin> a_id ` set (db_attempts db)" using retried(7) by (metis set_map)
  have "lifecycle (Running, map a_state xs @ [ARunning]) (Queued, map a_state xs @ [AFailed, ACreated])"
    by (rule lifecycle.fail_retry)
  moreover have "quota_moved (j_owner j) (Some (j_state j)) Queued db db'"
    by (rule quota_requeue [OF con j(1), of _ now])
      (use retried(2) j(5,6) in \<open>auto simp: retried(8) db2(1) Result_recordHistory_def update_job_def update_attempt_def update_quota_def is_active_def\<close>)
  ultimately show ?thesis using retried(2,3) j db2(2) fresh
    by (intro change_move_next [of j db xs a db' "requeue_failed now (now + delay) (fa_Error e)" ?g "rd_attempt draws" now, OF j(1,4)])
      (auto simp: retried(8) db2(1) Result_recordHistory_def update_job_def update_attempt_def update_quota_def
        requeue_failed_def fail_attempt_def)
next
  case (finished item db2 state reason db3)
  have "is_open (cx_AttemptState item)" using finished(3) by simp
  with con finished(1) obtain j xs a where j: "j \<in> set (db_jobs db)" "fa_JobID e = j_id j" "fa_AttemptID e = a_id a"
    "attempts_of (j_id j) db = xs @ [a]" "cx_OwnerUserID item = j_owner j"
    "cx_JobState item = j_state j" "cx_AttemptState item = a_state a"
    by (rule lockAttempt_open) blast
  let ?g = "fail_attempt now (fa_Error e)"
  from finished(4) obtain p where db2: "db2 = (update_attempt (a_id a) ?g db)\<lparr>db_projections := db_projections db @ [p]\<rparr>"
    "p_attempt p = a_id a"
    by (rule insertResultProjection_Inr) (auto simp: update_attempt_def j(3))
  from finished(7) obtain ds where db3: "db3 = db2\<lparr>db_dead := ds\<rparr>" by blast
  have "lifecycle (Running, map a_state xs @ [ARunning]) (state, map a_state xs @ [AFailed])"
    unfolding finished(6) by (auto intro: lifecycle.fail lifecycle.exhaust)
  moreover have "quota_moved (j_owner j) (Some (j_state j)) state db db'"
    by (rule quota_release [OF con j(1), of _ _ now])
      (use finished(2,6) j(5,6) in \<open>auto simp: finished(8) db3 db2(1) Result_recordHistory_def update_job_def update_attempt_def update_quota_def is_active_def\<close>)
  ultimately show ?thesis using finished(2,3) j db2(2)
    by (intro change_move_last [of j db xs a db' "finish_failed state now (fa_Error e)" ?g, OF j(1,4)])
      (auto simp: finished(8) db3 db2(1) Result_recordHistory_def update_job_def update_attempt_def update_quota_def
        finish_failed_def fail_attempt_def)
qed

lemma applyEvent_change:
  "applyEvent rt (Some enqueue) policy draws now e db = Inr (out, db') \<Longrightarrow> consistent db \<Longrightarrow> change db db'"
  by (cases e) (auto intro: applyStarted_change applyProgressed_change applySucceeded_change applyFailed_change
      applyCancelled_change applyArtifact_change)

lemma Process_change:
  assumes "Process rt (Some enqueue) policy draws now envelope db = Inr (out, db')" "consistent db"
  shows "change db db'"
proof (cases "env_MessageID envelope \<in> in_id ` set (db_inbox db)")
  case True
  with assms(1) have "db' = db" by (auto simp: Process_def bindE_Inr insertInbox_def)
  then show ?thesis using change_same [of db' db] by simp
next
  case False
  let ?db1 = "db\<lparr>db_inbox := db_inbox db @ [\<lparr>in_id = env_MessageID envelope,
       in_type = env_MessageType envelope, in_outcome = Processing, in_reason = None\<rparr>]\<rparr>"
  from assms(1) False obtain event db2 rows where run: "applyEvent rt (Some enqueue) policy draws now event ?db1 = Inr (out, db2)"
    and db': "db' = db2\<lparr>db_inbox := rows\<rparr>"
    by (auto simp: Process_def bindE_Inr insertInbox_def)
  have "change db ?db1" by (rule change_same) simp_all
  then have con: "consistent ?db1" using change_consistent assms(2) by blast
  have "change ?db1 db2" by (rule applyEvent_change [OF run con])
  then have "change ?db1 db'" by (rule change_frame) (simp_all add: db')
  then show ?thesis by (rule change_source) simp_all
qed

end

end
