(* ===== verification/Dlq.thy ===== *)
theory Dlq
  imports Jobs Leases
begin

text \<open>
  Dead letters (\<open>internal/dlq\<close>): the queries, the replay of a dead-lettered job and the
  service in front of them. A record is the row of the table joined with the owner of its job.
\<close>

section \<open>Queries\<close>

record DlqRecord =
  dr_Row :: DeadLetter
  dr_OwnerUserID :: uuid

record DlqQuery =
  dq_OwnerUserID :: "uuid option"
  dq_Page :: int
  dq_PageSize :: int
  dq_OpenOnly :: bool

record DlqPage =
  dp_Items :: "DlqRecord list"
  dp_Page :: int
  dp_PageSize :: int
  dp_Total :: int

text \<open>\<open>job_dead_letters d JOIN processing_jobs j ON j.id = d.job_id\<close>\<close>

definition deadLetterSelect :: "DB \<Rightarrow> DlqRecord list" where
  "deadLetterSelect db =
    List.map_filter (\<lambda>d. map_option (\<lambda>j. \<lparr>dr_Row = d, dr_OwnerUserID = j_owner j\<rparr>) (find_job (d_job d) db)) (db_dead db)"

definition dlq_listed :: "DlqQuery \<Rightarrow> DlqRecord \<Rightarrow> bool" where
  "dlq_listed q r \<longleftrightarrow>
     (case dq_OwnerUserID q of None \<Rightarrow> True | Some u \<Rightarrow> dr_OwnerUserID r = u) \<and>
     (\<not> dq_OpenOnly q \<or> d_replayed (dr_Row r) = None)"

definition Dlq_List :: "DlqQuery \<Rightarrow> DB \<Rightarrow> DlqPage result" where
  "Dlq_List q db =
    (if dq_Page q < 1 \<or> dq_PageSize q < 1 \<or> dq_PageSize q > 100 then Inl DlqErrInvalidInput
     else
       let offset = signed_take_bit 63 ((dq_Page q - 1) * dq_PageSize q)
       in if offset < 0 then Inl (ErrDatabase ''OFFSET must not be negative'')
          else Inr \<lparr>dp_Items = take (nat (dq_PageSize q)) (drop (nat offset)
                 (sort_key (\<lambda>r. (- d_created (dr_Row r), d_id (dr_Row r))) (filter (dlq_listed q) (deadLetterSelect db)))),
               dp_Page = dq_Page q, dp_PageSize = dq_PageSize q,
               dp_Total = count_rows (dlq_listed q) (deadLetterSelect db)\<rparr>)"

definition Dlq_Get :: "uuid \<Rightarrow> DB \<Rightarrow> DlqRecord result" where
  "Dlq_Get recordID db =
    (case find (\<lambda>r. d_id (dr_Row r) = recordID) (deadLetterSelect db) of
       None \<Rightarrow> Inl DlqErrNotFound
     | Some r \<Rightarrow> Inr r)"

section \<open>Replay\<close>

record ReplayCommand =
  rp_RecordID :: uuid
  rp_ActorUserID :: uuid
  rp_AllowCrossOwner :: bool
  rp_TraceID :: string
  rp_RequestID :: string

record ReplayResult =
  rr_Record :: DlqRecord
  rr_JobID :: uuid
  rr_AttemptID :: uuid

definition Dlq_incrementQuota :: "time \<Rightarrow> uuid \<Rightarrow> DB \<Rightarrow> DB result" where
  "Dlq_incrementQuota now ownerID db =
    (case row_find q_owner ownerID (db_quotas db) of
       None \<Rightarrow> Inr (db\<lparr>db_quotas := db_quotas db @
         [\<lparr>q_owner = ownerID, q_queued = 1, q_active = 0, q_updated = now\<rparr>]\<rparr>)
     | Some q \<Rightarrow>
         if q_queued q < 100
         then Inr (update_quota ownerID (\<lambda>q. q\<lparr>q_queued := q_queued q + 1, q_updated := now\<rparr>) db)
         else Inl DlqErrQuotaExceeded)"

definition Dlq_recordHistory :: "uuid \<Rightarrow> job_state \<Rightarrow> job_state \<Rightarrow> string \<Rightarrow> uuid \<Rightarrow> DB \<Rightarrow> DB" where
  "Dlq_recordHistory jobID fromState toState reason actorID db =
    add_history jobID (Some fromState) toState reason (Some actorID) db"

text \<open>The row of the dead letter is locked with the row of its job.\<close>

definition lock_replay :: "uuid \<Rightarrow> DB \<Rightarrow> (DlqRecord \<times> Job) result" where
  "lock_replay recordID db =
    bindE (Dlq_Get recordID db) (\<lambda>record.
      case find_job (d_job (dr_Row record)) db of
        None \<Rightarrow> Inl DlqErrNotFound
      | Some j \<Rightarrow> Inr (record, j))"

definition replay_envelope ::
  "Runtime \<Rightarrow> uuid \<Rightarrow> time \<Rightarrow> ReplayCommand \<Rightarrow> Job \<Rightarrow> Envelope result" where
  "replay_envelope rt msgID now c j =
    (let jobText = uuid_String rt (j_id j);
         traceID = (if rp_TraceID c = [] then jobText else rp_TraceID c);
         causationID = (if rp_RequestID c = [] then traceID else rp_RequestID c)
     in case those (map (operation_json rt) (j_ops j)) of
          None \<Rightarrow> Inl (ErrText ''json: unsupported value'')
        | Some operations \<Rightarrow>
            NewEnvelope rt msgID now MessageJobRequested traceID jobText causationID
              (JObj [(''jobId'', JStr jobText),
                (''datasetVersionId'', JStr (uuid_String rt (j_version j))),
                (''operations'', JArr operations)]))"

definition Replay ::
  "Runtime \<Rightarrow> (time \<Rightarrow> Message \<Rightarrow> DB \<Rightarrow> DB result) \<Rightarrow> uuid \<Rightarrow> uuid \<Rightarrow> time \<Rightarrow> ReplayCommand \<Rightarrow> DB \<Rightarrow>
   (ReplayResult \<times> DB) result" where
  "Replay rt enqueue attemptID msgID now c db =
    (if rp_RecordID c = uuid_Nil \<or> rp_ActorUserID c = uuid_Nil then Inl DlqErrInvalidInput
     else
       bindE (lock_replay (rp_RecordID c) db) (\<lambda>(record, j).
       if \<not> rp_AllowCrossOwner c \<and> dr_OwnerUserID record \<noteq> rp_ActorUserID c then Inl AuthzErrForbidden
       else if d_replayed (dr_Row record) \<noteq> None then Inl DlqErrAlreadyReplayed
       else if j_state j \<noteq> DeadLettered then Inl DlqErrJobState
       else if j_max j < 1 \<or> j_max j > MaxAttempts then Inl DlqErrInvalidInput
       else
         bindE (Dlq_incrementQuota now (dr_OwnerUserID record) db) (\<lambda>db1.
         bindE (insert_attempt (new_attempt attemptID (j_id j) (next_attempt_number (j_id j) db1) now) db1) (\<lambda>db2.
         let db3 = update_job (j_id j)
               (\<lambda>j. j\<lparr>j_state := Queued, j_next := None, j_queued := Some now, j_updated := now,
                      j_errcode := None, j_errmsg := None\<rparr>) db2;
             replayed = (\<lambda>d. d\<lparr>d_replayed := Some now, d_replayer := Some (rp_ActorUserID c)\<rparr>);
             db4 = db3\<lparr>db_dead := row_update d_id (d_id (dr_Row record)) replayed (db_dead db3)\<rparr>;
             db5 = Dlq_recordHistory (j_id j) DeadLettered Queued ''dead_letter_replayed'' (rp_ActorUserID c) db4
         in bindE (replay_envelope rt msgID now c j) (\<lambda>envelope.
            bindE (enqueue now (command_message envelope CommandsExchange (env_MessageType envelope) now) db5) (\<lambda>db6.
            let db7 = db6\<lparr>db_audit := db_audit db6 @
                  [\<lparr>au_actor = Some (rp_ActorUserID c), au_action = ''job.dead_letter_replayed'',
                    au_resource = uuid_String rt (j_id j), au_request = rp_RequestID c\<rparr>]\<rparr>
            in Inr (\<lparr>rr_Record = record\<lparr>dr_Row := replayed (dr_Row record)\<rparr>, rr_JobID = j_id j,
                     rr_AttemptID = attemptID\<rparr>, db7)))))))"

section \<open>Service\<close>

definition Dlq_normalizePagination :: "int \<Rightarrow> int \<Rightarrow> (int \<times> int) result" where
  "Dlq_normalizePagination page0 pageSize0 =
    (let page = (if page0 = 0 then 1 else page0);
         pageSize = (if pageSize0 = 0 then 20 else pageSize0)
     in if page < 1 \<or> pageSize < 1 \<or> pageSize > 100 then Inl DlqErrInvalidInput else Inr (page, pageSize))"

definition Dlq_Service_List :: "Principal \<Rightarrow> int \<Rightarrow> int \<Rightarrow> bool \<Rightarrow> DB \<Rightarrow> DlqPage result" where
  "Dlq_Service_List prin page pageSize openOnly db =
    bindE (RequireScope prin ScopeJobsRead) (\<lambda>_.
    bindE (Dlq_normalizePagination page pageSize) (\<lambda>(page, pageSize).
    Dlq_List \<lparr>dq_OwnerUserID = (if prin_Role prin \<noteq> RoleAdmin then Some (prin_UserID prin) else None),
      dq_Page = page, dq_PageSize = pageSize, dq_OpenOnly = openOnly\<rparr> db))"

definition Dlq_Service_Replay ::
  "Runtime \<Rightarrow> (time \<Rightarrow> Message \<Rightarrow> DB \<Rightarrow> DB result) \<Rightarrow> uuid \<Rightarrow> uuid \<Rightarrow> time \<Rightarrow> Principal \<Rightarrow> ReplayCommand \<Rightarrow> DB \<Rightarrow>
   (ReplayResult \<times> DB) result" where
  "Dlq_Service_Replay rt enqueue attemptID msgID now prin c db =
    bindE (RequireScope prin ScopeJobsWrite) (\<lambda>_.
    if rp_RecordID c = uuid_Nil then Inl DlqErrInvalidInput
    else bindE (Dlq_Get (rp_RecordID c) db) (\<lambda>item.
      if \<not> CanAccessOwner prin (dr_OwnerUserID item) ScopeJobsWrite then Inl AuthzErrForbidden
      else Replay rt enqueue attemptID msgID now
        (c\<lparr>rp_ActorUserID := prin_UserID prin, rp_AllowCrossOwner := (prin_Role prin = RoleAdmin),
           rp_TraceID := TrimSpace (rp_TraceID c), rp_RequestID := TrimSpace (rp_RequestID c)\<rparr>) db))"

section \<open>The replay command is refused\<close>

text \<open>
  The envelope of a replay carries the job, the version and the operations; the table of known
  message types asks a request for its attempt, lease, worker, attempt number and source too.
\<close>

lemma replay_envelope_refused: "\<exists>e. replay_envelope rt msgID now c j = Inl e"
proof (cases "replay_envelope rt msgID now c j")
  case (Inr envelope)
  then obtain operations where payload: "raw_value (env_Payload envelope) = Some
      (JObj [(''jobId'', JStr (uuid_String rt (j_id j))),
        (''datasetVersionId'', JStr (uuid_String rt (j_version j))), (''operations'', JArr operations)])"
    and mtype: "env_MessageType envelope = MessageJobRequested" and ok: "Envelope_Validate envelope = Inr ()"
    unfolding replay_envelope_def Let_def
    by (auto split: option.splits dest: NewEnvelopeD)
  have "map_of knownMessageTypes MessageJobRequested =
      Some [''jobId'', ''datasetVersionId'', ''attemptId'', ''leaseId'', ''workerId'', ''attemptNumber'',
        ''operations'', ''source'']"
    by code_simp
  with Envelope_ValidateD(7) [OF ok] payload mtype show ?thesis
    by (simp add: field_present_def json_field_def)
qed simp

end
