(* ===== verification/Scheduler.thy ===== *)
theory Scheduler
  imports Jobs Leases Results
begin

text \<open>
  The scheduler (\<open>internal/scheduler\<close>): fair selection of queued jobs across owners, and the
  dispatch cycle that acquires a lease for each; and the scheduler process
  (\<open>cmd/scheduler\<close>): what it does with a dispatch signal, a worker event and a maintenance
  tick. A Go map is ranged over in no particular order: \<open>iter\<close> is the order of one run.
\<close>

section \<open>Fair selection\<close>

abbreviation DefaultBatchSize :: int where "DefaultBatchSize \<equiv> 20"
abbreviation DefaultCandidateFactor :: int where "DefaultCandidateFactor \<equiv> 4"

record SchedulerConfig =
  sc_BatchSize :: int
  sc_CandidateFactor :: int

definition Scheduler_New :: "SchedulerConfig \<Rightarrow> SchedulerConfig" where
  "Scheduler_New config =
    (let c1 = (if sc_BatchSize config < 1 then config\<lparr>sc_BatchSize := DefaultBatchSize\<rparr> else config)
     in if sc_CandidateFactor c1 < 2 then c1\<lparr>sc_CandidateFactor := DefaultCandidateFactor\<rparr> else c1)"

definition candidateBefore :: "Runtime \<Rightarrow> QueuedJob \<Rightarrow> QueuedJob \<Rightarrow> bool" where
  "candidateBefore rt left right =
    (if j_priority (qj_Job left) \<noteq> j_priority (qj_Job right)
     then j_priority (qj_Job left) > j_priority (qj_Job right)
     else if j_created (qj_Job left) \<noteq> j_created (qj_Job right)
     then j_created (qj_Job left) < j_created (qj_Job right)
     else uuid_String rt (j_id (qj_Job left)) < uuid_String rt (j_id (qj_Job right)))"

text \<open>The key whose order \<open>candidateBefore\<close> is; sorting by the comparison is sorting by it.\<close>

definition candidate_key :: "Runtime \<Rightarrow> QueuedJob \<Rightarrow> int \<times> time \<times> string" where
  "candidate_key rt q =
    (- j_priority (qj_Job q), j_created (qj_Job q), uuid_String rt (j_id (qj_Job q)))"

definition candidate_owner :: "Runtime \<Rightarrow> QueuedJob \<Rightarrow> string" where
  "candidate_owner rt q = uuid_String rt (j_owner (qj_Job q))"

definition owner_items :: "Runtime \<Rightarrow> QueuedJob list \<Rightarrow> string \<Rightarrow> QueuedJob list" where
  "owner_items rt candidates owner =
    sort_key (candidate_key rt) (filter (\<lambda>q. candidate_owner rt q = owner) candidates)"

definition sorted_owners :: "Runtime \<Rightarrow> (string list \<Rightarrow> string list) \<Rightarrow> QueuedJob list \<Rightarrow> string list" where
  "sorted_owners rt iter candidates =
    sort_key (\<lambda>owner. candidate_key rt (hd (owner_items rt candidates owner)))
      (iter (remdups (map (candidate_owner rt) candidates)))"

text \<open>One round over the owners: the job of that round of each owner, until the limit.\<close>

fun round_pass :: "int \<Rightarrow> nat \<Rightarrow> 'a list list \<Rightarrow> 'a list \<Rightarrow> bool \<Rightarrow> 'a list \<times> bool" where
  "round_pass limit n [] selected added = (selected, added)"
| "round_pass limit n (items # rest) selected added =
    (if n \<ge> length items then round_pass limit n rest selected added
     else
       let selected' = selected @ [items ! n]
       in if int (length selected') = limit then (selected', True)
          else round_pass limit n rest selected' True)"

lemma round_pass_added:
  "snd (round_pass limit n buckets selected added) \<Longrightarrow> \<not> added \<Longrightarrow> \<exists>items \<in> set buckets. n < length items"
  by (induction limit n buckets selected added rule: round_pass.induct) (auto simp: Let_def split: if_splits)

text \<open>A round that adds nothing ends the loop, so the longest list bounds the rounds.\<close>

function fair_rounds :: "int \<Rightarrow> 'a list list \<Rightarrow> nat \<Rightarrow> 'a list \<Rightarrow> 'a list" where
  "fair_rounds limit buckets n selected =
    (if int (length selected) < limit then
       let r = round_pass limit n buckets selected False
       in if \<not> snd r then fst r else fair_rounds limit buckets (Suc n) (fst r)
     else selected)"
  by pat_completeness auto
termination
proof (relation "measure (\<lambda>(limit, buckets, n, selected). foldr max (map length buckets) 0 - n)", goal_cases)
  case (2 limit buckets n selected r)
  then obtain items where "items \<in> set buckets" "n < length items"
    using round_pass_added [of limit n buckets selected False] by auto
  moreover have "items \<in> set buckets \<Longrightarrow> length items \<le> foldr max (map length buckets) 0" for items
    by (induction buckets) (auto simp: le_max_iff_disj)
  ultimately show ?case by fastforce
qed simp

declare fair_rounds.simps [simp del]

definition FairSelect :: "Runtime \<Rightarrow> (string list \<Rightarrow> string list) \<Rightarrow> QueuedJob list \<Rightarrow> int \<Rightarrow> QueuedJob list" where
  "FairSelect rt iter candidates limit =
    (if limit \<le> 0 \<or> candidates = [] then []
     else fair_rounds limit (map (owner_items rt candidates) (sorted_owners rt iter candidates)) 0 [])"

text \<open>\<open>selectQueued\<close> is the method of the store; the product is 64-bit.\<close>

definition Scheduler_Select ::
  "Runtime \<Rightarrow> (string list \<Rightarrow> string list) \<Rightarrow> (int \<Rightarrow> DB \<Rightarrow> QueuedJob list result) \<Rightarrow> SchedulerConfig \<Rightarrow> DB \<Rightarrow>
   QueuedJob list result" where
  "Scheduler_Select rt iter selectQueued config db =
    (let product = signed_take_bit 63 (sc_BatchSize config * sc_CandidateFactor config);
         limit = (if product > 1000 then 1000 else product)
     in bindE (selectQueued limit db) (\<lambda>candidates. Inr (FairSelect rt iter candidates (sc_BatchSize config))))"

section \<open>Dispatch\<close>

record SchedulerReport =
  sp_Selected :: int
  sp_Acquired :: int
  sp_Skipped :: int
  sp_Failures :: "(uuid \<times> go_error) list"

definition skipped_error :: "go_error \<Rightarrow> bool" where
  "skipped_error e \<longleftrightarrow>
     e = LeaseErrLeaseNotReady \<or> e = LeaseErrWorkerUnavailable \<or> e = JobErrJobNotFound \<or> e = JobErrJobState"

text \<open>
  \<open>ctxErr\<close> is the state of the context before an item is handled. An acquisition that fails
  leaves the database as it was.
\<close>

fun dispatch_items ::
  "(AcquireCommand \<Rightarrow> DB \<Rightarrow> (Lease \<times> DB) result) \<Rightarrow> (QueuedJob \<Rightarrow> go_error option) \<Rightarrow> duration \<Rightarrow> QueuedJob list \<Rightarrow>
   SchedulerReport \<Rightarrow> DB \<Rightarrow> (SchedulerReport \<times> go_error option) \<times> DB" where
  "dispatch_items acquire ctxErr leaseDuration [] report db = ((report, None), db)"
| "dispatch_items acquire ctxErr leaseDuration (item # items) report db =
    (case ctxErr item of
       Some e \<Rightarrow> ((report, Some e), db)
     | None \<Rightarrow>
       (case acquire \<lparr>ac_JobID = j_id (qj_Job item), ac_Duration = leaseDuration\<rparr> db of
          Inr (lease, db') \<Rightarrow>
            dispatch_items acquire ctxErr leaseDuration items (report\<lparr>sp_Acquired := sp_Acquired report + 1\<rparr>) db'
        | Inl e \<Rightarrow>
            if skipped_error e
            then dispatch_items acquire ctxErr leaseDuration items (report\<lparr>sp_Skipped := sp_Skipped report + 1\<rparr>) db
            else dispatch_items acquire ctxErr leaseDuration items
              (report\<lparr>sp_Failures := sp_Failures report @ [(j_id (qj_Job item), e)]\<rparr>) db))"

definition Scheduler_NewDispatcher :: "duration \<Rightarrow> duration result" where
  "Scheduler_NewDispatcher leaseDuration =
    (if leaseDuration \<le> 0 then Inl (ErrText ''scheduler dispatcher requires selector, acquirer, and lease duration'')
     else Inr leaseDuration)"

definition Scheduler_Dispatch ::
  "(DB \<Rightarrow> QueuedJob list result) \<Rightarrow> (AcquireCommand \<Rightarrow> DB \<Rightarrow> (Lease \<times> DB) result) \<Rightarrow> (QueuedJob \<Rightarrow> go_error option) \<Rightarrow>
   duration \<Rightarrow> DB \<Rightarrow> (SchedulerReport \<times> go_error option) \<times> DB" where
  "Scheduler_Dispatch select acquire ctxErr leaseDuration db =
    (let empty = \<lparr>sp_Selected = 0, sp_Acquired = 0, sp_Skipped = 0, sp_Failures = []\<rparr>
     in if leaseDuration \<le> 0 then ((empty, Some (ErrText ''scheduler dispatcher is not configured'')), db)
        else case select db of
          Inl e \<Rightarrow> ((empty, Some e), db)
        | Inr queued \<Rightarrow>
            dispatch_items acquire ctxErr leaseDuration queued (empty\<lparr>sp_Selected := int (length queued)\<rparr>) db)"

section \<open>The scheduler process\<close>

definition dispatchEligible ::
  "(DB \<Rightarrow> (SchedulerReport \<times> go_error option) \<times> DB) \<Rightarrow> DB \<Rightarrow> unit result \<times> DB" where
  "dispatchEligible dispatch db =
    (case dispatch db of ((report, err), db') \<Rightarrow>
       (case err of
          Some e \<Rightarrow> (Inl e, db')
        | None \<Rightarrow>
            if sp_Failures report \<noteq> [] then (Inl (ErrText ''lease acquisition had failures''), db')
            else (Inr (), db')))"

definition dispatchOutbox :: "(DB \<Rightarrow> (DispatchReport \<times> DB) result) \<Rightarrow> DB \<Rightarrow> unit result \<times> DB" where
  "dispatchOutbox dispatch db =
    (case dispatch db of
       Inl e \<Rightarrow> (Inl e, db)
     | Inr (report, db') \<Rightarrow>
         if dr_Failures report \<noteq> [] then (Inl (ErrText ''outbox dispatch had failures''), db') else (Inr (), db'))"

definition decodeQueuedJobSignal :: "Runtime \<Rightarrow> RawMessage \<Rightarrow> uuid result" where
  "decodeQueuedJobSignal rt payload =
    (case decodeStrict rt [(''jobId'', put (decode_uuid rt) (\<lambda>x _. x))] payload uuid_Nil of
       None \<Rightarrow> Inl (ErrText ''decode'')
     | Some jobID \<Rightarrow>
         if jobID = uuid_Nil then Inl (ErrText ''jobId must be a non-zero UUID'') else Inr jobID)"

text \<open>A signal only triggers reconciliation: which job it names does not matter.\<close>

definition processDelivery ::
  "Runtime \<Rightarrow> (DB \<Rightarrow> unit result \<times> DB) \<Rightarrow> (DB \<Rightarrow> unit result \<times> DB) \<Rightarrow> wire \<Rightarrow> DB \<Rightarrow> unit result \<times> DB" where
  "processDelivery rt eligibleJobs outboxCycle body db =
    (case bindE (UnmarshalEnvelope body) (\<lambda>envelope.
        if env_MessageType envelope \<noteq> MessageJobQueued then Inl (ErrText ''unexpected scheduler message type'')
        else decodeQueuedJobSignal rt (env_Payload envelope)) of
       Inl e \<Rightarrow> (Inl e, db)
     | Inr _ \<Rightarrow>
       (case eligibleJobs db of
          (Inl e, db') \<Rightarrow> (Inl e, db')
        | (Inr _, db') \<Rightarrow> outboxCycle db'))"

text \<open>The call on the delivery; its own error, like that of the processing, is only logged.\<close>

definition handleDelivery :: "(DB \<Rightarrow> unit result \<times> DB) \<Rightarrow> DB \<Rightarrow> delivery_call \<times> DB" where
  "handleDelivery process db =
    (case process db of (Inl e, db') \<Rightarrow> (Nack False False, db') | (Inr u, db') \<Rightarrow> (Ack False, db'))"

text \<open>
  Retrying a worker event: \<open>answers n\<close> is what the store does at the n-th call. The loop stops
  at the first success or invalid event and after the last delay; \<open>cancelled n\<close> tells whether
  the context ends during the n-th delay.
\<close>

function apply_retry ::
  "(nat \<Rightarrow> DB \<Rightarrow> DB result) \<Rightarrow> (nat \<Rightarrow> bool) \<Rightarrow> duration list \<Rightarrow> nat \<Rightarrow> DB \<Rightarrow> unit result \<times> DB" where
  "apply_retry answers cancelled delays attempt db =
    (case answers attempt db of
       Inr db' \<Rightarrow> (Inr (), db')
     | Inl e \<Rightarrow>
         if e = WorkerErrInvalidEvent \<or> attempt \<ge> length delays then (Inl e, db)
         else if delays ! attempt > 0 \<and> cancelled attempt then (Inl (ErrText ''context canceled''), db)
         else apply_retry answers cancelled delays (Suc attempt) db)"
  by pat_completeness auto
termination
  by (relation "measure (\<lambda>(answers, cancelled, delays, attempt, db). length delays - attempt)") auto

declare apply_retry.simps [simp del]

definition processWorkerDelivery ::
  "(Envelope \<Rightarrow> nat \<Rightarrow> DB \<Rightarrow> DB result) \<Rightarrow> (nat \<Rightarrow> bool) \<Rightarrow> duration list \<Rightarrow> wire \<Rightarrow> DB \<Rightarrow> unit result \<times> DB" where
  "processWorkerDelivery applyEnvelope cancelled delays body db =
    (case UnmarshalEnvelope body of
       Inl e \<Rightarrow> (Inl e, db)
     | Inr envelope \<Rightarrow>
         if env_MessageType envelope \<noteq> MessageWorkerRegistered \<and> env_MessageType envelope \<noteq> MessageWorkerHeartbeat
         then (Inl (ErrText ''unexpected worker event type''), db)
         else apply_retry (applyEnvelope envelope) cancelled delays 0 db)"

text \<open>The maintenance tick: cleanup of uploads, then the lease sweep.\<close>

definition runMaintenance ::
  "(DB \<Rightarrow> (int \<times> DB) result) \<Rightarrow> (DB \<Rightarrow> (SweepReport \<times> DB) result) \<Rightarrow> DB \<Rightarrow> unit result \<times> DB" where
  "runMaintenance cleanupExpired sweepExpired db =
    (case cleanupExpired db of
       Inl e \<Rightarrow> (Inl e, db)
     | Inr (failures, db1) \<Rightarrow>
         if failures > 0 then (Inl (ErrText ''multipart cleanup had failures''), db1)
         else case sweepExpired db1 of
           Inl e \<Rightarrow> (Inl e, db1)
         | Inr (report, db2) \<Rightarrow> (Inr (), db2))"

text \<open>
  The loop of the process: what arrives on its channels, in order. \<open>None\<close> is a closed
  channel, which ends the loop with an error; the end of the context ends it without one. A
  cycle that fails is logged and the loop goes on. The four cycles are arguments, each what
  one call of it does.
\<close>

datatype scheduler_input =
    ContextDone
  | DispatchDelivery "wire option"
  | WorkerDelivery "wire option"
  | DispatchTick
  | OutboxTick
  | MaintenanceTick

definition logCycleError :: "(DB \<Rightarrow> unit result \<times> DB) \<Rightarrow> DB \<Rightarrow> DB" where
  "logCycleError run db = snd (run db)"

definition runStartup ::
  "(DB \<Rightarrow> unit result \<times> DB) \<Rightarrow> (DB \<Rightarrow> unit result \<times> DB) \<Rightarrow> (DB \<Rightarrow> unit result \<times> DB) \<Rightarrow> DB \<Rightarrow> DB" where
  "runStartup outboxCycle eligibleJobs maintenance db =
    logCycleError maintenance (logCycleError outboxCycle (logCycleError eligibleJobs (logCycleError outboxCycle db)))"

fun run_loop ::
  "(wire \<Rightarrow> DB \<Rightarrow> unit result \<times> DB) \<Rightarrow> (wire \<Rightarrow> DB \<Rightarrow> unit result \<times> DB) \<Rightarrow> (DB \<Rightarrow> unit result \<times> DB) \<Rightarrow>
   (DB \<Rightarrow> unit result \<times> DB) \<Rightarrow> (DB \<Rightarrow> unit result \<times> DB) \<Rightarrow> scheduler_input list \<Rightarrow> DB \<Rightarrow> unit result option \<times> DB" where
  "run_loop dispatch workerEvent eligibleJobs outboxCycle maintenance [] db = (None, db)"
| "run_loop dispatch workerEvent eligibleJobs outboxCycle maintenance (i # inputs) db =
    (let continue = run_loop dispatch workerEvent eligibleJobs outboxCycle maintenance inputs
     in case i of
       ContextDone \<Rightarrow> (Some (Inr ()), db)
     | DispatchDelivery None \<Rightarrow> (Some (Inl (ErrText ''scheduler delivery channel closed'')), db)
     | DispatchDelivery (Some body) \<Rightarrow> continue (snd (handleDelivery (dispatch body) db))
     | WorkerDelivery None \<Rightarrow> (Some (Inl (ErrText ''worker events delivery channel closed'')), db)
     | WorkerDelivery (Some body) \<Rightarrow> continue (snd (handleDelivery (workerEvent body) db))
     | DispatchTick \<Rightarrow> continue (logCycleError eligibleJobs db)
     | OutboxTick \<Rightarrow> continue (logCycleError outboxCycle db)
     | MaintenanceTick \<Rightarrow> continue (logCycleError maintenance db))"

section \<open>What fair selection selects\<close>

text \<open>The comparison of the source is the order of the key.\<close>

lemma candidateBefore_key: "candidateBefore rt l r \<longleftrightarrow> candidate_key rt l < candidate_key rt r"
  by (auto simp: candidateBefore_def candidate_key_def)

text \<open>
  The reference: round \<open>n\<close> is the \<open>n\<close>-th row of the transposed buckets, and the selection
  is a prefix of the rounds one after the other.
\<close>

lemma round_pass_row:
  "int (length selected) < limit \<Longrightarrow>
   round_pass limit n buckets selected added =
     (take (nat limit) (selected @ map (\<lambda>items. items ! n) (filter (\<lambda>items. n < length items) buckets)),
      added \<or> (\<exists>items \<in> set buckets. n < length items))"
proof (induction limit n buckets selected added rule: round_pass.induct)
  case (2 limit n items rest selected added)
  show ?case
  proof (cases "n \<ge> length items")
    case False
    show ?thesis
    proof (cases "int (length (selected @ [items ! n])) = limit")
      case True
      then have "nat limit = Suc (length selected)" by simp
      with True False show ?thesis by simp
    next
      case neq: False
      with 2(2) [OF False refl neq] "2.prems" False show ?thesis by simp
    qed
  qed (use 2 in simp)
qed simp

lemma transpose_rows: "(\<exists>items \<in> set buckets. n < length items) \<longleftrightarrow> n < length (transpose buckets)"
  by (induction buckets) (auto simp: length_transpose less_max_iff_disj)

lemma take_twice: "take n (take n xs @ ys) = take n (xs @ ys)"
  by (cases "n \<le> length xs") simp_all

lemma fair_rounds_transpose:
  "int (length selected) \<le> limit \<Longrightarrow>
   fair_rounds limit buckets n selected = take (nat limit) (selected @ concat (drop n (transpose buckets)))"
proof (induction limit buckets n selected rule: fair_rounds.induct)
  case (1 limit buckets n selected)
  let ?T = "transpose buckets"
  show ?case
  proof (cases "int (length selected) < limit")
    case less: True
    let ?row = "map (\<lambda>items. items ! n) (filter (\<lambda>items. n < length items) buckets)"
    have pass: "round_pass limit n buckets selected False = (take (nat limit) (selected @ ?row), n < length ?T)"
      using round_pass_row [OF less, of n buckets False] by (simp add: transpose_rows)
    show ?thesis
    proof (cases "n < length ?T")
      case True
      have "fair_rounds limit buckets n selected = fair_rounds limit buckets (Suc n) (take (nat limit) (selected @ ?row))"
        using less pass True fair_rounds.simps [of limit buckets n selected] by simp
      also have "\<dots> = take (nat limit) (take (nat limit) (selected @ ?row) @ concat (drop (Suc n) ?T))"
        using "1.IH" [OF less refl] pass True less by simp
      also have "\<dots> = take (nat limit) (selected @ ?T ! n @ concat (drop (Suc n) ?T))"
        by (simp only: nth_transpose [OF True] take_twice append_assoc)
      also have "?T ! n @ concat (drop (Suc n) ?T) = concat (drop n ?T)"
        using True by (simp add: Cons_nth_drop_Suc [symmetric])
      finally show ?thesis .
    next
      case False
      then have "?row = []"
        using transpose_rows [of buckets n] by (auto simp: filter_empty_conv)
      then show ?thesis
        using less pass False fair_rounds.simps [of limit buckets n selected] by (simp add: Let_def)
    qed
  qed (use "1.prems" in \<open>simp add: fair_rounds.simps\<close>)
qed

lemma transpose_mset: "mset (concat (transpose xss)) = mset (concat xss)"
proof (induction xss rule: transpose.induct)
  case (3 x xs xss)
  have split: "mset (concat yss) = mset (concat (map (case_list [] (\<lambda>h t. [h])) yss)) +
      mset (concat (concat (map (case_list [] (\<lambda>h t. [t])) yss)))" for yss :: "'a list list"
    by (induction yss) (auto split: list.splits)
  show ?case using 3 by (simp add: split [of xss])
qed simp_all

text \<open>
  What one owner gets: its rows of the first rounds are the first jobs of its own list.
\<close>

lemma transpose_owner_rows:
  assumes "distinct os" and "\<forall>p \<in> set os. \<forall>x \<in> set (g p). f x = p" and "p \<in> set os"
  shows "k < length (transpose (map g os)) \<Longrightarrow>
      filter (\<lambda>x. f x = p) (transpose (map g os) ! k) = (if k < length (g p) then [g p ! k] else [])"
    and "filter (\<lambda>x. f x = p) (concat (take m (transpose (map g os)))) = take m (g p)"
proof -
  let ?T = "transpose (map g os)"
  have row: "filter (\<lambda>x. f x = p) (?T ! k) = (if k < length (g p) then [g p ! k] else [])"
    if "k < length ?T" for k
  proof -
    have "?T ! k = map (\<lambda>q. g q ! k) (filter (\<lambda>q. k < length (g q)) os)"
      using that by (simp add: nth_transpose filter_map comp_def)
    also have "filter (\<lambda>x. f x = p) \<dots> = map (\<lambda>q. g q ! k) (filter (\<lambda>q. k < length (g q) \<and> q = p) os)"
      using assms(2) by (auto simp: filter_map comp_def intro!: arg_cong [where f = "map _"] filter_cong)
    also have "filter (\<lambda>q. k < length (g q) \<and> q = p) os = (if k < length (g p) then [p] else [])"
      using assms(1,3) by (induction os) (auto simp: filter_empty_conv)
    finally show ?thesis by simp
  qed
  show "k < length ?T \<Longrightarrow> filter (\<lambda>x. f x = p) (?T ! k) = (if k < length (g p) then [g p ! k] else [])"
    by (rule row)
  have short: "length (g p) \<le> length ?T"
    using transpose_rows [of "map g os" "length ?T"] assms(3) by auto
  show "filter (\<lambda>x. f x = p) (concat (take m ?T)) = take m (g p)"
  proof (induction m)
    case (Suc m)
    show ?case
    proof (cases "m < length ?T")
      case True
      then show ?thesis using Suc row [OF True] by (simp add: take_Suc_conv_app_nth)
    qed (use Suc short in simp)
  qed simp
qed

text \<open>A prefix of rounds is some full rounds and a prefix of the next.\<close>

lemma take_concat_rounds:
  obtains m r where "take n (concat xss) = concat (take m xss) @ r"
    "r = [] \<or> m < length xss \<and> (\<exists>k. r = take k (xss ! m))"
proof (induction xss arbitrary: n thesis)
  case Nil
  show ?case by (rule Nil [of 0 "[]"]) simp_all
next
  case (Cons xs xss)
  show ?case
  proof (cases "n \<le> length xs")
    case True
    then show ?thesis by (intro Cons.prems [of 0 "take n xs"]) auto
  next
    case False
    obtain m r where "take (n - length xs) (concat xss) = concat (take m xss) @ r"
      "r = [] \<or> m < length xss \<and> (\<exists>k. r = take k (xss ! m))"
      by (rule Cons.IH)
    with False show ?thesis by (intro Cons.prems [of "Suc m" r]) auto
  qed
qed

lemma fair_prefix:
  assumes "distinct os" and "\<forall>p \<in> set os. \<forall>x \<in> set (g p). f x = p"
  shows "\<exists>m. \<forall>p \<in> set os. filter (\<lambda>x. f x = p) (take n (concat (transpose (map g os)))) \<in>
    {take m (g p), take (Suc m) (g p)}"
proof -
  let ?T = "transpose (map g os)"
  obtain m r where S: "take n (concat ?T) = concat (take m ?T) @ r"
    and r: "r = [] \<or> m < length ?T \<and> (\<exists>k. r = take k (?T ! m))"
    by (rule take_concat_rounds)
  have "filter (\<lambda>x. f x = p) (take n (concat ?T)) \<in> {take m (g p), take (Suc m) (g p)}" if p: "p \<in> set os" for p
  proof -
    note rows = transpose_owner_rows [OF assms p]
    have full: "filter (\<lambda>x. f x = p) (concat (take m ?T)) = take m (g p)" by (rule rows(2))
    show ?thesis
    proof (cases "filter (\<lambda>x. f x = p) r = []")
      case False
      then obtain k where m: "m < length ?T" and k: "r = take k (?T ! m)" using r by auto
      have "filter (\<lambda>x. f x = p) (?T ! m) = filter (\<lambda>x. f x = p) r @ filter (\<lambda>x. f x = p) (drop k (?T ! m))"
        by (simp add: k flip: filter_append)
      with False rows(1) [OF m] have "m < length (g p)" "filter (\<lambda>x. f x = p) r = [g p ! m]"
        by (auto simp: append_eq_Cons_conv Cons_eq_append_conv split: if_splits)
      then show ?thesis using full by (simp add: S take_Suc_conv_app_nth)
    qed (use full in \<open>simp add: S\<close>)
  qed
  then show ?thesis by blast
qed

text \<open>The buckets hold every candidate once, whatever the order of the map.\<close>

lemma sorted_owners_set:
  assumes "\<And>xs. mset (iter xs) = mset xs"
  shows "set (sorted_owners rt iter cs) = candidate_owner rt ` set cs" "distinct (sorted_owners rt iter cs)"
proof -
  have "mset (sorted_owners rt iter cs) = mset (remdups (map (candidate_owner rt) cs))"
    by (simp add: sorted_owners_def assms)
  then show "set (sorted_owners rt iter cs) = candidate_owner rt ` set cs" "distinct (sorted_owners rt iter cs)"
    by (metis list.set_map mset_eq_setD set_remdups, metis distinct_remdups mset_eq_imp_distinct_iff)
qed

lemma buckets_mset:
  assumes "\<And>xs. mset (iter xs) = mset xs"
  shows "mset (concat (map (owner_items rt cs) (sorted_owners rt iter cs))) = mset cs"
proof -
  have part: "mset (concat (map (\<lambda>p. filter (\<lambda>q. h q = p) cs) os)) = mset (filter (\<lambda>q. h q \<in> set os) cs)"
    if "distinct os" for os and h :: "QueuedJob \<Rightarrow> string"
    using that
  proof (induction os)
    case (Cons p os)
    have "filter (\<lambda>q. h q \<in> set (p # os)) cs = filter (\<lambda>q. h q = p \<or> h q \<in> set os) cs" by simp
    moreover have "mset (filter (\<lambda>q. h q = p \<or> h q \<in> set os) cs) =
        mset (filter (\<lambda>q. h q = p) cs) + mset (filter (\<lambda>q. h q \<in> set os) cs)"
      using Cons.prems by (induction cs) auto
    ultimately show ?case using Cons by simp
  qed simp
  have "mset (concat (map (owner_items rt cs) os)) =
      mset (concat (map (\<lambda>p. filter (\<lambda>q. candidate_owner rt q = p) cs) os))" for os
    by (induction os) (simp_all add: owner_items_def)
  also have "\<dots> (sorted_owners rt iter cs) =
      mset (filter (\<lambda>q. candidate_owner rt q \<in> set (sorted_owners rt iter cs)) cs)"
    by (rule part) (rule sorted_owners_set(2) [OF assms])
  also have "\<dots> = mset cs"
    by (simp add: sorted_owners_set(1) [OF assms] cong: filter_cong)
  finally show ?thesis .
qed

lemma FairSelect_rounds:
  assumes "\<And>xs. mset (iter xs) = mset xs"
  shows "FairSelect rt iter cs limit =
    take (nat limit) (concat (transpose (map (owner_items rt cs) (sorted_owners rt iter cs))))"
proof (cases "limit \<le> 0 \<or> cs = []")
  case True
  have "sorted_owners rt iter [] = []"
    using sorted_owners_set(1) [OF assms, of rt "[]"] by simp
  with True show ?thesis by (auto simp: FairSelect_def)
next
  case False
  then have pos: "int (length []) \<le> limit" by simp
  with False show ?thesis unfolding FairSelect_def by (simp add: fair_rounds_transpose)
qed

section \<open>The dispatch cycle\<close>

text \<open>
  What the dispatcher needs of a \<open>LeaseAcquirer\<close>: an acquisition that succeeds is one step
  of the job tables from a state that satisfies the invariant, and keeps it.
\<close>

locale lease_acquirer =
  fixes acquire :: "AcquireCommand \<Rightarrow> DB \<Rightarrow> (Lease \<times> DB) result"
    and inv :: "DB \<Rightarrow> bool"
    and step :: "DB \<Rightarrow> DB \<Rightarrow> bool"
  assumes acquire_step: "inv db \<Longrightarrow> acquire c db = Inr (lease, db') \<Longrightarrow> step db db'"
    and step_inv: "inv db \<Longrightarrow> step db db' \<Longrightarrow> inv db'"
begin

lemma items_steps:
  "dispatch_items acquire ctxErr d items report db = ((report', err), db') \<Longrightarrow> inv db \<Longrightarrow> step\<^sup>*\<^sup>* db db' \<and> inv db'"
proof (induction items arbitrary: report db)
  case (Cons item items)
  show ?case
  proof (cases "ctxErr item")
    case None
    show ?thesis
    proof (cases "acquire \<lparr>ac_JobID = j_id (qj_Job item), ac_Duration = d\<rparr> db")
      case (Inl e)
      with None Cons show ?thesis by (auto split: if_splits)
    next
      case (Inr ld)
      obtain lease db1 where ld: "ld = (lease, db1)" by force
      have st: "step db db1" "inv db1"
        using acquire_step [OF Cons.prems(2)] step_inv [OF Cons.prems(2)] Inr ld by blast+
      moreover have "step\<^sup>*\<^sup>* db1 db' \<and> inv db'"
        using Cons.IH [OF _ st(2)] Cons.prems(1) None Inr ld by auto
      ultimately show ?thesis by (meson converse_rtranclp_into_rtranclp)
    qed
  qed (use Cons in auto)
qed auto

lemma items_count:
  "dispatch_items acquire ctxErr d items report db = ((report', None), db') \<Longrightarrow>
   sp_Acquired report' + sp_Skipped report' + int (length (sp_Failures report')) =
     sp_Acquired report + sp_Skipped report + int (length (sp_Failures report)) + int (length items) \<and>
   sp_Selected report' = sp_Selected report"
proof (induction items arbitrary: report db)
  case (Cons item items)
  show ?case
  proof (cases "ctxErr item")
    case None
    show ?thesis
    proof (cases "acquire \<lparr>ac_JobID = j_id (qj_Job item), ac_Duration = d\<rparr> db")
      case (Inl e)
      with None Cons.prems Cons.IH show ?thesis by (auto split: if_splits)
    next
      case (Inr ld)
      obtain lease db1 where ld: "ld = (lease, db1)" by force
      from Cons.prems None Inr ld
      have "dispatch_items acquire ctxErr d items (report\<lparr>sp_Acquired := sp_Acquired report + 1\<rparr>) db1 = ((report', None), db')"
        by simp
      from Cons.IH [OF this] show ?thesis by simp
    qed
  qed (use Cons.prems in simp)
qed simp

lemma dispatch_steps:
  assumes "Scheduler_Dispatch select acquire ctxErr d db = ((report, err), db')" "inv db"
  shows "step\<^sup>*\<^sup>* db db' \<and> inv db'"
  using assms items_steps by (auto simp: Scheduler_Dispatch_def Let_def split: if_splits sum.splits)

lemma dispatch_count:
  assumes "Scheduler_Dispatch select acquire ctxErr d db = ((report, None), db')"
  shows "sp_Acquired report + sp_Skipped report + int (length (sp_Failures report)) = sp_Selected report"
  using assms items_count by (fastforce simp: Scheduler_Dispatch_def Let_def split: if_splits sum.splits)

end

text \<open>
  The lease repository is such an acquirer. \<open>leaseIDs\<close>, \<open>msgIDs\<close> and \<open>clock\<close> give the random
  identifiers and the time of the acquisition of a job.
\<close>

definition repository_acquire ::
  "Runtime \<Rightarrow> duration \<Rightarrow> LeaseConfig \<Rightarrow> (uuid \<Rightarrow> uuid) \<Rightarrow> (uuid \<Rightarrow> uuid) \<Rightarrow> (uuid \<Rightarrow> time) \<Rightarrow> AcquireCommand \<Rightarrow> DB \<Rightarrow>
   (Lease \<times> DB) result" where
  "repository_acquire rt ttl config leaseIDs msgIDs clock c db =
    Acquire rt Outbox_Enqueue (SelectForLease ttl) config (leaseIDs (ac_JobID c)) (msgIDs (ac_JobID c))
      (clock (ac_JobID c)) c db"

interpretation repo_acquirer:
  lease_acquirer "repository_acquire rt ttl config leaseIDs msgIDs clock" consistent change
  for rt ttl config leaseIDs msgIDs clock
  by unfold_locales (auto simp: repository_acquire_def intro: lease_repo.Acquire_change change_consistent)

text \<open>
  A worker event is stored when one of the \<open>length delays + 1\<close> calls succeeds, the earlier ones
  failed for another reason than an invalid event, and the context lasts.
\<close>

lemma apply_retry_stores:
  "attempt \<le> k \<Longrightarrow> k \<le> length delays \<Longrightarrow> answers k db = Inr db' \<Longrightarrow>
   \<forall>m \<in> {attempt..<k}. \<exists>e. answers m db = Inl e \<and> e \<noteq> WorkerErrInvalidEvent \<and> \<not> cancelled m \<Longrightarrow>
   apply_retry answers cancelled delays attempt db = (Inr (), db')"
proof (induction "k - attempt" arbitrary: attempt)
  case 0
  then show ?case by (simp add: apply_retry.simps)
next
  case (Suc n)
  then have lt: "attempt < k" by simp
  then obtain e where e: "answers attempt db = Inl e" "e \<noteq> WorkerErrInvalidEvent" "\<not> cancelled attempt"
    using Suc.prems(4) by (meson atLeastLessThan_iff order_refl)
  have "apply_retry answers cancelled delays (Suc attempt) db = (Inr (), db')"
    using Suc.prems Suc.hyps(2) lt by (intro Suc.hyps(1)) auto
  with e lt Suc.prems(2) show ?case by (simp add: apply_retry.simps [of answers cancelled delays attempt])
qed

end
