(* ===== verification/Multipart.thy ===== *)
theory Multipart
  imports Datasets
begin

text \<open>
  Multipart uploads (\<open>internal/multipart\<close>): the sessions and parts in the database, and the
  service that initiates, completes, aborts and cleans up a session together with the remote
  upload and the dataset version. What the object store answers to each call is an argument.
\<close>

section \<open>Sessions\<close>

definition update_session :: "uuid \<Rightarrow> (Session \<Rightarrow> Session) \<Rightarrow> DB \<Rightarrow> DB" where
  "update_session k f db = db\<lparr>db_sessions := row_update us_id k f (db_sessions db)\<rparr>"

text \<open>The states that the index on idempotency keys covers.\<close>

definition keeps_key :: "session_state \<Rightarrow> bool" where
  "keeps_key st \<longleftrightarrow> st \<in> {Initiated, Completing, Aborting, Completed}"

definition same_key :: "uuid \<Rightarrow> uuid \<Rightarrow> string \<Rightarrow> Session \<Rightarrow> bool" where
  "same_key ownerID datasetID key s \<longleftrightarrow>
     us_owner s = ownerID \<and> us_dataset s = datasetID \<and> us_idem s = Some key \<and> keeps_key (us_state s)"

text \<open>
  The insert names no error, token or time of completion, so these columns are NULL whatever the
  argument holds.
\<close>

definition session_row :: "Session \<Rightarrow> Session" where
  "session_row s =
    s\<lparr>us_idem := (case us_idem s of Some k \<Rightarrow> if k = [] then None else Some k | None \<Rightarrow> None),
      us_completed := None, us_aborted := None, us_error := None, us_token := None, us_started := None\<rparr>"

definition CreateSession :: "Session \<Rightarrow> DB \<Rightarrow> (unit \<times> DB) result" where
  "CreateSession session db =
    (let s = session_row session
     in if char_length (us_filename s) < 1 \<or> char_length (us_filename s) > 255 \<or>
           us_format s \<notin> {FormatCSV, FormatJSONL, FormatParquet} \<or> us_size s \<le> 0 \<or>
           (case us_checksum s of None \<Rightarrow> False | Some c \<Rightarrow> \<not> lower_hex c) \<or>
           us_partsize s \<le> 0 \<or> us_parts s < 1 \<or> us_parts s > 10000
        then Inl (ErrDatabase ''insert multipart session'')
        else if list_ex (\<lambda>o'. us_id o' = us_id s \<or> us_version o' = us_version s \<or> us_upload o' = us_upload s \<or>
              us_object o' = us_object s) (db_sessions db) \<or>
           (case us_idem s of None \<Rightarrow> False
            | Some key \<Rightarrow> keeps_key (us_state s) \<and> list_ex (same_key (us_owner s) (us_dataset s) key) (db_sessions db))
        then Inl MultipartErrIdempotencyConflict
        else if us_version s \<notin> v_id ` set (db_versions db) \<or> us_dataset s \<notin> ds_id ` set (db_datasets db)
        then Inl (ErrDatabase ''insert multipart session'')
        else Inr ((), db\<lparr>db_sessions := db_sessions db @ [s]\<rparr>))"

definition FindSession :: "uuid \<Rightarrow> DB \<Rightarrow> Session result" where
  "FindSession sessionID db =
    (case row_find us_id sessionID (db_sessions db) of None \<Rightarrow> Inl MultipartErrSessionNotFound | Some s \<Rightarrow> Inr s)"

definition FindActiveByIdempotency :: "uuid \<Rightarrow> uuid \<Rightarrow> string \<Rightarrow> DB \<Rightarrow> Session result" where
  "FindActiveByIdempotency ownerID datasetID key db =
    (case find (same_key ownerID datasetID key) (db_sessions db) of
       None \<Rightarrow> Inl MultipartErrSessionNotFound
     | Some s \<Rightarrow> Inr s)"

definition locked_session :: "uuid \<Rightarrow> uuid \<Rightarrow> DB \<Rightarrow> Session option" where
  "locked_session sessionID ownerID db = find (\<lambda>s. us_id s = sessionID \<and> us_owner s = ownerID) (db_sessions db)"

text \<open>The claim of a session by an operation.\<close>

definition start_completion :: "time \<Rightarrow> uuid \<Rightarrow> Session \<Rightarrow> Session" where
  "start_completion now token s =
    s\<lparr>us_state := Completing, us_updated := now, us_token := Some token, us_started := Some now\<rparr>"

definition expire_session :: "time \<Rightarrow> Session \<Rightarrow> Session" where
  "expire_session now s =
    s\<lparr>us_state := Aborting, us_updated := now, us_error := Some ''session_expired'', us_token := None, us_started := None\<rparr>"

text \<open>A completion of an expired session is refused, and the refusal is committed.\<close>

definition BeginComplete :: "uuid \<Rightarrow> uuid \<Rightarrow> uuid \<Rightarrow> time \<Rightarrow> time \<Rightarrow> DB \<Rightarrow> Session result \<times> DB" where
  "BeginComplete token sessionID ownerID now staleBefore db =
    (case locked_session sessionID ownerID db of
       None \<Rightarrow> (Inl MultipartErrSessionNotFound, db)
     | Some s \<Rightarrow>
         let claim = (Inr (start_completion now token s), update_session sessionID (start_completion now token) db)
         in (case us_state s of
               Completed \<Rightarrow> (Inl MultipartErrSessionCompleted, db)
             | Completing \<Rightarrow>
                 (case (us_token s, us_started s) of
                    (Some _, Some t) \<Rightarrow> if t > staleBefore then (Inl MultipartErrSessionInProgress, db) else claim
                  | _ \<Rightarrow> claim)
             | Initiated \<Rightarrow>
                 if \<not> now < us_expires s
                 then (Inl MultipartErrSessionExpired, update_session sessionID (expire_session now) db)
                 else claim
             | _ \<Rightarrow> (Inl MultipartErrSessionState, db)))"

definition BeginAbort :: "uuid \<Rightarrow> uuid \<Rightarrow> time \<Rightarrow> DB \<Rightarrow> (Session \<times> DB) result" where
  "BeginAbort sessionID ownerID now db =
    (case locked_session sessionID ownerID db of
       None \<Rightarrow> Inl MultipartErrSessionNotFound
     | Some s \<Rightarrow>
         (case us_state s of
            Completed \<Rightarrow> Inl MultipartErrSessionCompleted
          | Completing \<Rightarrow> Inl MultipartErrSessionState
          | Initiated \<Rightarrow> Inr (s\<lparr>us_state := Aborting, us_updated := now\<rparr>,
              update_session sessionID (\<lambda>s. s\<lparr>us_state := Aborting, us_updated := now\<rparr>) db)
          | SessionFailed \<Rightarrow> Inr (s\<lparr>us_state := Aborting, us_updated := now\<rparr>,
              update_session sessionID (\<lambda>s. s\<lparr>us_state := Aborting, us_updated := now\<rparr>) db)
          | _ \<Rightarrow> Inr (s, db)))"

definition BeginReconciliation :: "uuid \<Rightarrow> uuid \<Rightarrow> time \<Rightarrow> DB \<Rightarrow> (Session \<times> DB) result" where
  "BeginReconciliation token sessionID now db =
    (case row_find us_id sessionID (db_sessions db) of
       None \<Rightarrow> Inl MultipartErrSessionNotFound
     | Some s \<Rightarrow>
         if us_state s \<noteq> Aborting then Inl MultipartErrSessionState
         else Inr (start_completion now token s, update_session sessionID (start_completion now token) db))"

definition truncateSessionError :: "string \<Rightarrow> string" where
  "truncateSessionError value = (if length value > 1000 then take 1000 value else value)"

text \<open>An UPDATE of the session that reports how many rows it changed.\<close>

definition update_where :: "(Session \<Rightarrow> bool) \<Rightarrow> (Session \<Rightarrow> Session) \<Rightarrow> DB \<Rightarrow> (unit \<times> DB) result" where
  "update_where P f db =
    (if \<not> list_ex P (db_sessions db) then Inl MultipartErrSessionState
     else Inr ((), db\<lparr>db_sessions := rows_update P f (db_sessions db)\<rparr>))"

definition operation_owns :: "uuid \<Rightarrow> uuid \<Rightarrow> Session \<Rightarrow> bool" where
  "operation_owns sessionID token s \<longleftrightarrow> us_id s = sessionID \<and> us_state s = Completing \<and> us_token s = Some token"

definition ResetCompletion :: "time \<Rightarrow> uuid \<Rightarrow> uuid \<Rightarrow> string \<Rightarrow> DB \<Rightarrow> (unit \<times> DB) result" where
  "ResetCompletion now sessionID token lastError =
    update_where (operation_owns sessionID token)
      (\<lambda>s. s\<lparr>us_state := Initiated, us_updated := now, us_error := Some (truncateSessionError lastError),
             us_token := None, us_started := None\<rparr>)"

definition MarkCompleted :: "uuid \<Rightarrow> uuid \<Rightarrow> time \<Rightarrow> DB \<Rightarrow> (unit \<times> DB) result" where
  "MarkCompleted sessionID token completedAt =
    update_where (operation_owns sessionID token)
      (\<lambda>s. s\<lparr>us_state := Completed, us_updated := completedAt, us_completed := Some completedAt, us_error := None,
             us_token := None, us_started := None\<rparr>)"

definition MarkAborted :: "uuid \<Rightarrow> time \<Rightarrow> DB \<Rightarrow> (unit \<times> DB) result" where
  "MarkAborted sessionID abortedAt =
    update_where (\<lambda>s. us_id s = sessionID \<and> us_state s \<in> {Aborting, SessionFailed})
      (\<lambda>s. s\<lparr>us_state := Aborted, us_updated := abortedAt, us_aborted := Some abortedAt\<rparr>)"

definition MarkFailed :: "time \<Rightarrow> uuid \<Rightarrow> uuid \<Rightarrow> string \<Rightarrow> DB \<Rightarrow> (unit \<times> DB) result" where
  "MarkFailed now sessionID token lastError =
    update_where (\<lambda>s. us_id s = sessionID \<and> us_state s \<noteq> Completed \<and>
        ((us_state s = Completing \<and> us_token s = Some token) \<or> (us_state s = Aborting \<and> token = uuid_Nil)))
      (\<lambda>s. s\<lparr>us_state := SessionFailed, us_updated := now, us_error := Some (truncateSessionError lastError),
             us_token := None, us_started := None\<rparr>)"

definition MarkExpired :: "uuid \<Rightarrow> string \<Rightarrow> time \<Rightarrow> DB \<Rightarrow> (unit \<times> DB) result" where
  "MarkExpired sessionID lastError expiredAt =
    update_where (\<lambda>s. us_id s = sessionID \<and> us_state s = Aborting)
      (\<lambda>s. s\<lparr>us_state := Expired, us_updated := expiredAt, us_aborted := Some expiredAt,
             us_error := Some (truncateSessionError lastError)\<rparr>)"

definition claimable_session :: "time \<Rightarrow> time \<Rightarrow> Session \<Rightarrow> bool" where
  "claimable_session now staleBefore s \<longleftrightarrow>
     us_expires s \<le> now \<and>
     (us_state s \<in> {Initiated, Aborting} \<or> (us_state s = Completing \<and> us_updated s \<le> staleBefore))"

definition ClaimExpired :: "time \<Rightarrow> time \<Rightarrow> int \<Rightarrow> DB \<Rightarrow> (Session list \<times> DB) result" where
  "ClaimExpired now staleBefore limit db =
    (let ids = map us_id (take (nat limit)
           (sort_key (\<lambda>s. (us_expires s, us_id s)) (filter (claimable_session now staleBefore) (db_sessions db))));
         db' = db\<lparr>db_sessions := rows_update (\<lambda>s. us_id s \<in> set ids) (expire_session now) (db_sessions db)\<rparr>
     in bindE (mapE (\<lambda>i. FindSession i db') ids) (\<lambda>sessions. Inr (sessions, db')))"

section \<open>Parts\<close>

definition FindPart :: "uuid \<Rightarrow> int \<Rightarrow> DB \<Rightarrow> Part result" where
  "FindPart sessionID partNumber db =
    (case row_find (\<lambda>p. (pt_session p, pt_number p)) (sessionID, partNumber) (db_parts db) of
       None \<Rightarrow> Inl MultipartErrPartNotFound
     | Some p \<Rightarrow> Inr p)"

definition ListParts :: "uuid \<Rightarrow> DB \<Rightarrow> Part list" where
  "ListParts sessionID db = sort_key pt_number (filter (\<lambda>p. pt_session p = sessionID) (db_parts db))"

text \<open>
  The insert takes place while the session is open and no part has this number; otherwise the
  part that is there is compared. \<open>clock\<close> is the clock of the process.
\<close>

definition insertable_part :: "time \<Rightarrow> uuid \<Rightarrow> int \<Rightarrow> DB \<Rightarrow> bool" where
  "insertable_part now sessionID partNumber db \<longleftrightarrow>
     list_ex (\<lambda>s. us_id s = sessionID \<and> us_state s = Initiated \<and> us_expires s > now) (db_sessions db) \<and>
     (sessionID, partNumber) \<notin> (\<lambda>p. (pt_session p, pt_number p)) ` set (db_parts db)"

definition RegisterPart :: "time \<Rightarrow> time \<Rightarrow> uuid \<Rightarrow> int \<Rightarrow> string \<Rightarrow> int \<Rightarrow> DB \<Rightarrow> (Part \<times> DB) result" where
  "RegisterPart now clock sessionID partNumber etag bytes db =
    (let inserted = insertable_part now sessionID partNumber db
     in bindE
       (if inserted then
          if partNumber < 1 \<or> partNumber > 10000 \<or> bytes < 0 then Inl (ErrDatabase ''register multipart part'')
          else Inr (db\<lparr>db_parts := db_parts db @ [\<lparr>pt_session = sessionID, pt_number = partNumber, pt_etag = etag,
            pt_size = bytes, pt_created = now\<rparr>]\<rparr>)
        else
          bindE (FindSession sessionID db) (\<lambda>s.
          if us_state s \<noteq> Initiated then Inl MultipartErrSessionState
          else if \<not> clock < us_expires s then Inl MultipartErrSessionExpired
          else Inr db)) (\<lambda>db1.
     bindE (FindPart sessionID partNumber db1) (\<lambda>part.
     if pt_etag part \<noteq> etag \<or> pt_size part \<noteq> bytes then Inl MultipartErrPartConflict else Inr (part, db1))))"

section \<open>Configuration and requests\<close>

record MultipartConfig =
  mc_PartSize :: int
  mc_MaxParts :: int
  mc_MaxBytes :: int
  mc_SessionTTL :: duration
  mc_PartURLTTL :: duration
  mc_CompletionGrace :: duration

definition MultipartConfig_validate :: "MultipartConfig \<Rightarrow> unit result" where
  "MultipartConfig_validate c =
    (if mc_PartSize c < 5 * 1024 * 1024 \<or> mc_PartSize c > 5 * 1024 * 1024 * 1024
     then Inl (ErrText ''multipart part size'')
     else if mc_MaxParts c < 1 \<or> mc_MaxParts c > 10000 then Inl (ErrText ''multipart max parts'')
     else if mc_MaxBytes c < mc_PartSize c \<or> mc_MaxBytes c > mc_PartSize c * mc_MaxParts c
     then Inl (ErrText ''multipart max bytes'')
     else if mc_SessionTTL c \<le> 0 \<or> mc_PartURLTTL c \<le> 0 \<or> mc_PartURLTTL c > 7 * 24 * Hour \<or> mc_CompletionGrace c \<le> 0
     then Inl (ErrText ''multipart session, URL TTL, and completion grace are invalid'')
     else Inr ())"

record InitiateRequest =
  ir_Filename :: string
  ir_ContentType :: string
  ir_ExpectedSize :: int
  ir_ExpectedChecksum :: string
  ir_IdempotencyKey :: string

definition multipart_input :: "'a result \<Rightarrow> 'a result" where
  "multipart_input r = (case r of Inl _ \<Rightarrow> Inl MultipartErrInvalidInput | Inr x \<Rightarrow> Inr x)"

definition validateInitiateRequest ::
  "InitiateRequest \<Rightarrow> (string \<times> string \<times> string \<times> string \<times> string) result" where
  "validateInitiateRequest r =
    bindE (multipart_input (NormalizeFilename (ir_Filename r))) (\<lambda>filename.
    let contentType = normalizeContentType (ir_ContentType r)
    in bindE (multipart_input (DetectDeclaredFormat filename contentType)) (\<lambda>declared.
       bindE (if TrimSpace (ir_ExpectedChecksum r) \<noteq> [] then multipart_input (NormalizeChecksum (ir_ExpectedChecksum r))
              else Inr []) (\<lambda>checksum.
       let key = TrimSpace (ir_IdempotencyKey r)
       in if length key > 128 \<or> has_newline key then Inl MultipartErrInvalidInput
          else Inr (filename, contentType, declared, checksum, key))))"

definition sameInitiateRequest :: "Session \<Rightarrow> string \<Rightarrow> string \<Rightarrow> string \<Rightarrow> int \<Rightarrow> string \<Rightarrow> bool" where
  "sameInitiateRequest s filename contentType declared expectedSize checksum \<longleftrightarrow>
     us_filename s = filename \<and> us_ctype s = contentType \<and> us_format s = declared \<and> us_size s = expectedSize \<and>
     (case us_checksum s of None \<Rightarrow> checksum = [] | Some c \<Rightarrow> c = checksum)"

text \<open>\<open>int((expectedSize-1)/partSize + 1)\<close>, for a positive size.\<close>

definition part_count :: "MultipartConfig \<Rightarrow> int \<Rightarrow> int" where
  "part_count c expectedSize = (expectedSize - 1) div mc_PartSize c + 1"

text \<open>The size a part must have: all parts are full but the last one.\<close>

definition expected_part_size :: "Session \<Rightarrow> int \<Rightarrow> int" where
  "expected_part_size s partNumber =
    (if partNumber = us_parts s then signed_take_bit 63 (us_size s - signed_take_bit 63 (us_partsize s * (us_parts s - 1)))
     else us_partsize s)"

definition validateMutablePart :: "Session \<Rightarrow> int \<Rightarrow> int \<Rightarrow> time \<Rightarrow> unit result" where
  "validateMutablePart s partNumber bytes now =
    (if us_state s \<noteq> Initiated then
       (if us_state s = Completed then Inl MultipartErrSessionCompleted else Inl MultipartErrSessionState)
     else if \<not> now < us_expires s then Inl MultipartErrSessionExpired
     else if partNumber < 1 \<or> partNumber > us_parts s \<or> bytes \<le> 0 then Inl MultipartErrInvalidInput
     else if bytes \<noteq> expected_part_size s partNumber then Inl MultipartErrSizeMismatch
     else Inr ())"

definition trim_quotes :: "string \<Rightarrow> string" where
  "trim_quotes s = (let q = (\<lambda>c. c = CHR 0x22) in rev (dropWhile q (rev (dropWhile q s))))"

definition normalizeETag :: "string \<Rightarrow> string result" where
  "normalizeETag value =
    (let etag = trim_quotes (TrimSpace value)
     in if etag = [] \<or> length etag > 256 \<or> has_newline etag then Inl MultipartErrInvalidInput else Inr etag)"

definition authorizedSession :: "Principal \<Rightarrow> uuid \<Rightarrow> string \<Rightarrow> DB \<Rightarrow> Session result" where
  "authorizedSession prin sessionID scope db =
    bindE (FindSession sessionID db) (\<lambda>s.
    if \<not> CanAccessOwner prin (us_owner s) scope then Inl AuthzErrForbidden else Inr s)"

section \<open>Initiation\<close>

text \<open>
  The identifiers drawn, the answers of the remote store, to the initiation and, in the
  cleanup, to the abort, and the context of the request.
\<close>

record InitiateEnv =
  ie_Session :: uuid
  ie_Version :: uuid
  ie_Initiate :: "string result"
  ie_Abort :: "unit result"
  ie_Context :: Context

definition new_session ::
  "Runtime \<Rightarrow> MultipartConfig \<Rightarrow> InitiateEnv \<Rightarrow> time \<Rightarrow> uuid \<Rightarrow> uuid \<Rightarrow> string \<Rightarrow> InitiateRequest \<Rightarrow>
   string \<times> string \<times> string \<times> string \<times> string \<Rightarrow> Session" where
  "new_session rt c env now ownerID datasetID uploadID r =
    (\<lambda>(filename, contentType, declared, checksum, key).
      \<lparr>us_id = ie_Session env, us_owner = ownerID, us_dataset = datasetID, us_version = ie_Version env,
       us_upload = uploadID, us_object = ObjectKey rt datasetID (ie_Version env), us_state = Initiated,
       us_filename = filename, us_ctype = contentType, us_format = declared, us_size = ir_ExpectedSize r,
       us_checksum = (if checksum = [] then None else Some checksum), us_partsize = mc_PartSize c,
       us_parts = part_count c (ir_ExpectedSize r), us_idem = (if key = [] then None else Some key),
       us_expires = now + mc_SessionTTL c, us_created = now, us_updated = now, us_completed = None, us_aborted = None,
       us_error = None, us_token = None, us_started = None\<rparr>)"

definition cleanupReserved :: "Context \<Rightarrow> time \<Rightarrow> uuid \<Rightarrow> uuid \<Rightarrow> uuid \<Rightarrow> go_error \<Rightarrow> DB \<Rightarrow> unit result \<times> DB" where
  "cleanupReserved ctx now datasetID versionID actorID primary db =
    (case run_tx (in_context ctx ''AbortVersion'' (AbortVersion now datasetID versionID actorID)) db of
       (abortErr, db') \<Rightarrow> (errors_Join [Inl primary, abortErr], db'))"

definition cleanupReservedRemote ::
  "Context \<Rightarrow> unit result \<Rightarrow> time \<Rightarrow> uuid \<Rightarrow> uuid \<Rightarrow> uuid \<Rightarrow> DB \<Rightarrow> unit result \<times> DB" where
  "cleanupReservedRemote ctx abortRemote now datasetID versionID actorID db =
    (case run_tx (in_context ctx ''AbortVersion'' (AbortVersion now datasetID versionID actorID)) db of
       (abortErr, db') \<Rightarrow> (errors_Join [abortRemote, abortErr], db'))"

definition persistOrphanSession :: "Session \<Rightarrow> time \<Rightarrow> string \<Rightarrow> DB \<Rightarrow> (unit \<times> DB) result" where
  "persistOrphanSession s now reason db =
    CreateSession (s\<lparr>us_state := Aborting, us_idem := None, us_expires := now, us_updated := now, us_error := Some reason\<rparr>) db"

text \<open>What happens when the session cannot be stored.\<close>

definition compensate_initiation ::
  "InitiateEnv \<Rightarrow> time \<Rightarrow> Session \<Rightarrow> uuid \<Rightarrow> go_error \<Rightarrow> DB \<Rightarrow> Session result \<times> DB" where
  "compensate_initiation env now s actorID err db =
    (let (cleanupErr, db1) = cleanupReservedRemote (ie_Context env) (ie_Abort env) now (us_dataset s) (us_version s) actorID db
     in if isl cleanupErr then
          (let (orphanErr, db2) = run_tx (in_context (ie_Context env) ''persistOrphanSession''
                  (persistOrphanSession s now ''initiation_compensation_failed'')) db1
           in (Inl (ErrJoin (error_list [Inl err, cleanupErr, orphanErr])), db2))
        else
          (case us_idem s of
             Some key \<Rightarrow>
               if err = MultipartErrIdempotencyConflict then
                 (case in_context (ie_Context env) ''FindActiveByIdempotency again''
                     (FindActiveByIdempotency (us_owner s) (us_dataset s) key) db1 of
                    Inr existing \<Rightarrow>
                      if sameInitiateRequest existing (us_filename s) (us_ctype s) (us_format s) (us_size s)
                          (case us_checksum s of None \<Rightarrow> [] | Some c \<Rightarrow> c)
                      then (Inr existing, db1) else (Inl err, db1)
                  | Inl lookupErr \<Rightarrow> (Inl (ErrJoin [err, lookupErr]), db1))
               else (Inl err, db1)
           | None \<Rightarrow> (Inl err, db1)))"

definition initiate_session ::
  "Runtime \<Rightarrow> MultipartConfig \<Rightarrow> InitiateEnv \<Rightarrow> time \<Rightarrow> Principal \<Rightarrow> uuid \<Rightarrow> InitiateRequest \<Rightarrow>
   string \<times> string \<times> string \<times> string \<times> string \<Rightarrow> DB \<Rightarrow> Session result \<times> DB" where
  "initiate_session rt c env now prin datasetID r request db =
    (case request of (filename, contentType, declared, checksum, key) \<Rightarrow>
      (case in_context (ie_Context env) ''ReserveVersion'' (ReserveVersion now
          \<lparr>vr_ID = ie_Version env, vr_DatasetID = datasetID, vr_CreatedBy = prin_UserID prin,
           vr_OriginalFilename = filename, vr_ContentType = contentType, vr_Format = declared,
           vr_ObjectKey = ObjectKey rt datasetID (ie_Version env),
           vr_ArtifactPrefix = ArtifactPrefix rt datasetID (ie_Version env),
           vr_SourceInfo = [(''uploadMode'', ''multipart''), (''sessionId'', uuid_String rt (ie_Session env))]\<rparr>) db of
         Inl e \<Rightarrow> (Inl e, db)
       | Inr (v, db1) \<Rightarrow>
           (case ie_Initiate env of
              Inl _ \<Rightarrow>
                (case cleanupReserved (ie_Context env) now datasetID (ie_Version env) (prin_UserID prin) MultipartErrRemoteStorage db1 of
                   (Inl e, db2) \<Rightarrow> (Inl e, db2)
                 | (Inr _, db2) \<Rightarrow> (Inl MultipartErrRemoteStorage, db2))
            | Inr uploadID \<Rightarrow>
                (let s = new_session rt c env now (prin_UserID prin) datasetID uploadID r request
                 in case in_context (ie_Context env) ''CreateSession'' (CreateSession s) db1 of
                      Inl e \<Rightarrow> compensate_initiation env now s (prin_UserID prin) e db1
                    | Inr (_, db2) \<Rightarrow> (Inr s, db2)))))"

definition Initiate ::
  "Runtime \<Rightarrow> MultipartConfig \<Rightarrow> InitiateEnv \<Rightarrow> time \<Rightarrow> Principal \<Rightarrow> uuid \<Rightarrow> InitiateRequest \<Rightarrow> DB \<Rightarrow> Session result \<times> DB" where
  "Initiate rt c env now prin datasetID r db =
    (case
      bindE (RequireScope prin ScopeDatasetsWrite) (\<lambda>_.
      if prin_UserID prin = uuid_Nil then Inl AuthzErrUnauthenticated
      else
        bindE (authorized_dataset prin datasetID ScopeDatasetsWrite db) (\<lambda>_.
        bindE (validateInitiateRequest r) (\<lambda>request.
        if ir_ExpectedSize r \<le> 0 then Inl MultipartErrInvalidInput
        else if ir_ExpectedSize r > mc_MaxBytes c then Inl MultipartErrUploadTooLarge
        else if part_count c (ir_ExpectedSize r) < 1 \<or> part_count c (ir_ExpectedSize r) > mc_MaxParts c
        then Inl MultipartErrInvalidInput
        else Inr request))) of
       Inl e \<Rightarrow> (Inl e, db)
     | Inr (filename, contentType, declared, checksum, key) \<Rightarrow>
         (case (if key = [] then Inl MultipartErrSessionNotFound
                else in_context (ie_Context env) ''FindActiveByIdempotency'' (FindActiveByIdempotency (prin_UserID prin) datasetID key) db) of
            Inr existing \<Rightarrow>
              if sameInitiateRequest existing filename contentType declared (ir_ExpectedSize r) checksum
              then (Inr existing, db) else (Inl MultipartErrIdempotencyConflict, db)
          | Inl lookupErr \<Rightarrow>
              if lookupErr \<noteq> MultipartErrSessionNotFound then (Inl lookupErr, db)
              else initiate_session rt c env now prin datasetID r (filename, contentType, declared, checksum, key) db))"

section \<open>Reading and registering parts\<close>

definition Multipart_Service_Get :: "Principal \<Rightarrow> uuid \<Rightarrow> DB \<Rightarrow> (Session \<times> Part list) result" where
  "Multipart_Service_Get prin sessionID db =
    bindE (RequireScope prin ScopeDatasetsRead) (\<lambda>_.
    bindE (authorizedSession prin sessionID ScopeDatasetsRead db) (\<lambda>s. Inr (s, ListParts sessionID db)))"

definition Multipart_Service_ListParts :: "Principal \<Rightarrow> uuid \<Rightarrow> DB \<Rightarrow> Part list result" where
  "Multipart_Service_ListParts prin sessionID db =
    bindE (Multipart_Service_Get prin sessionID db) (\<lambda>(s, parts). Inr parts)"

record PartURL =
  pu_PartNumber :: int
  pu_URL :: string
  pu_ExpiresAt :: time

text \<open>\<open>presign\<close> answers for the key, the upload, the part and how long the URL is to live.\<close>

definition PresignPart ::
  "MultipartConfig \<Rightarrow> (string \<Rightarrow> string \<Rightarrow> int \<Rightarrow> duration \<Rightarrow> string result) \<Rightarrow> time \<Rightarrow> Principal \<Rightarrow> uuid \<Rightarrow> int \<Rightarrow> DB \<Rightarrow>
   PartURL result" where
  "PresignPart c presign now prin sessionID partNumber db =
    bindE (RequireScope prin ScopeDatasetsWrite) (\<lambda>_.
    bindE (authorizedSession prin sessionID ScopeDatasetsWrite db) (\<lambda>s.
    if \<not> now < us_expires s then Inl MultipartErrSessionExpired
    else if us_state s \<noteq> Initiated then
      (if us_state s = Completed then Inl MultipartErrSessionCompleted else Inl MultipartErrSessionState)
    else if partNumber < 1 \<or> partNumber > us_parts s then Inl MultipartErrInvalidInput
    else
      let expiresAt = min (now + mc_PartURLTTL c) (us_expires s)
      in case presign (us_object s) (us_upload s) partNumber (expiresAt - now) of
           Inl _ \<Rightarrow> Inl MultipartErrRemoteStorage
         | Inr url \<Rightarrow> Inr \<lparr>pu_PartNumber = partNumber, pu_URL = url, pu_ExpiresAt = expiresAt\<rparr>))"

text \<open>A part as the remote store knows it.\<close>

record MultipartPart =
  mp_PartNumber :: int
  mp_ETag :: string
  mp_Size :: int

definition Multipart_Service_RegisterPart ::
  "(string \<Rightarrow> string \<Rightarrow> int \<Rightarrow> MultipartPart result) \<Rightarrow> time \<Rightarrow> Principal \<Rightarrow> uuid \<Rightarrow> int \<Rightarrow> string \<Rightarrow> int \<Rightarrow> DB \<Rightarrow>
   (Part \<times> DB) result" where
  "Multipart_Service_RegisterPart getPart now prin sessionID partNumber etag bytes db =
    bindE (RequireScope prin ScopeDatasetsWrite) (\<lambda>_.
    bindE (authorizedSession prin sessionID ScopeDatasetsWrite db) (\<lambda>s.
    bindE (validateMutablePart s partNumber bytes now) (\<lambda>_.
    bindE (normalizeETag etag) (\<lambda>normalizedETag.
    case FindPart sessionID partNumber db of
      Inr existing \<Rightarrow>
        if pt_etag existing = normalizedETag \<and> pt_size existing = bytes then Inr (existing, db)
        else Inl MultipartErrPartConflict
    | Inl _ \<Rightarrow>
        (case getPart (us_object s) (us_upload s) partNumber of
           Inl e \<Rightarrow> if e = StorageErrMultipartPartNotFound then Inl MultipartErrPartNotFound else Inl MultipartErrRemoteStorage
         | Inr remote \<Rightarrow>
             if trim_quotes (mp_ETag remote) \<noteq> normalizedETag \<or> mp_Size remote \<noteq> bytes then Inl MultipartErrPartConflict
             else RegisterPart now now sessionID partNumber normalizedETag bytes db)))))"

section \<open>Abort\<close>

definition Multipart_Service_Abort :: "Context \<Rightarrow> unit result \<Rightarrow> time \<Rightarrow> Principal \<Rightarrow> uuid \<Rightarrow> DB \<Rightarrow> unit result \<times> DB" where
  "Multipart_Service_Abort ctx abortRemote now prin sessionID db =
    (case bindE (RequireScope prin ScopeDatasetsWrite) (\<lambda>_.
        bindE (authorizedSession prin sessionID ScopeDatasetsWrite db) (\<lambda>s.
        in_context ctx ''BeginAbort'' (BeginAbort sessionID (us_owner s) now) db)) of
       Inl e \<Rightarrow> (Inl e, db)
     | Inr (s, db1) \<Rightarrow>
         if us_state s = Aborted \<or> us_state s = Expired then (Inr (), db1)
         else if us_state s \<noteq> Aborting then (Inl MultipartErrSessionState, db1)
         else if isl abortRemote then (Inl MultipartErrRemoteStorage, db1)
         else
           (let (versionErr, db2) = run_tx (in_context ctx ''FailVersion'' (FailVersion now (us_dataset s) (us_version s) (prin_UserID prin)
                  ''multipart_upload_aborted'')) db1;
                (markErr, db3) = run_tx (in_context ctx ''MarkAborted'' (MarkAborted sessionID now)) db2
            in (errors_Join [versionErr, markErr], db3)))"

section \<open>Completion\<close>

definition sessionOperationToken :: "Session \<Rightarrow> uuid result" where
  "sessionOperationToken s =
    (case us_token s of
       None \<Rightarrow> Inl MultipartErrSessionState
     | Some token \<Rightarrow> if token = uuid_Nil then Inl MultipartErrSessionState else Inr token)"

text \<open>The text of an error is what \<open>err.Error()\<close> gives; it is only stored.\<close>

definition resetCompletion ::
  "Context \<Rightarrow> (go_error \<Rightarrow> string) \<Rightarrow> time \<Rightarrow> uuid \<Rightarrow> uuid \<Rightarrow> go_error \<Rightarrow> DB \<Rightarrow> go_error \<times> DB" where
  "resetCompletion ctx errText now sessionID token primary db =
    (case run_tx (in_context ctx ''ResetCompletion'' (ResetCompletion now sessionID token (errText primary))) db of
       (r, db') \<Rightarrow> (if isl r then ErrJoin (error_list [Inl primary, r]) else primary, db'))"

definition failInvalidObject ::
  "Context \<Rightarrow> (go_error \<Rightarrow> string) \<Rightarrow> unit result \<Rightarrow> time \<Rightarrow> Session \<Rightarrow> uuid \<Rightarrow> go_error \<Rightarrow> DB \<Rightarrow> go_error \<times> DB" where
  "failInvalidObject ctx errText deleteObject now s token primary db =
    (let (versionErr, db1) = run_tx (in_context ctx ''FailVersion'' (FailVersion now (us_dataset s) (us_version s) uuid_Nil
           ''multipart_object_verification_failed'')) db;
         (markErr, db2) = run_tx (in_context ctx ''MarkFailed'' (MarkFailed now (us_id s) token (errText primary))) db1
     in (ErrJoin (error_list [Inl primary, deleteObject, versionErr, markErr]), db2))"

record CompletePart =
  cp_PartNumber :: int
  cp_ETag :: string

fun complete_parts_loop :: "int \<Rightarrow> CompletePart list \<Rightarrow> CompletePart list result" where
  "complete_parts_loop index [] = Inr []"
| "complete_parts_loop index (p # ps) =
    (if cp_PartNumber p \<noteq> index + 1 then Inl MultipartErrInvalidInput
     else bindE (normalizeETag (cp_ETag p)) (\<lambda>etag.
       bindE (complete_parts_loop (index + 1) ps) (\<lambda>rest.
       Inr (\<lparr>cp_PartNumber = cp_PartNumber p, cp_ETag = etag\<rparr> # rest))))"

definition normalizeCompleteParts :: "CompletePart list \<Rightarrow> int \<Rightarrow> CompletePart list result" where
  "normalizeCompleteParts requested expectedCount =
    (if int (length requested) \<noteq> expectedCount then Inl MultipartErrInvalidInput
     else complete_parts_loop 0 requested)"

fun registered_loop :: "int \<Rightarrow> int \<Rightarrow> nat \<Rightarrow> nat \<Rightarrow> CompletePart list \<Rightarrow> Part list \<Rightarrow> unit result" where
  "registered_loop expectedSize partSize n index (q # qs) (p # ps) =
    (if pt_number p \<noteq> cp_PartNumber q \<or> pt_etag p \<noteq> cp_ETag q then Inl MultipartErrPartConflict
     else if pt_size p \<noteq>
       (if index = n - 1 then signed_take_bit 63 (expectedSize - signed_take_bit 63 (partSize * (int n - 1))) else partSize)
     then Inl MultipartErrSizeMismatch
     else registered_loop expectedSize partSize n (Suc index) qs ps)"
| "registered_loop expectedSize partSize n index _ _ = Inr ()"

definition verifyRegisteredParts :: "CompletePart list \<Rightarrow> Part list \<Rightarrow> int \<Rightarrow> int \<Rightarrow> unit result" where
  "verifyRegisteredParts requested registered expectedSize partSize =
    (if length registered \<noteq> length requested then Inl MultipartErrPartNotFound
     else registered_loop expectedSize partSize (length requested) 0 requested registered)"

definition verifyRemoteParts :: "CompletePart list \<Rightarrow> MultipartPart list \<Rightarrow> unit result" where
  "verifyRemoteParts requested remote =
    (if length remote \<noteq> length requested then Inl MultipartErrPartNotFound
     else if \<not> distinct (map mp_PartNumber remote) then Inl MultipartErrPartConflict
     else if list_all (\<lambda>q. case find (\<lambda>p. mp_PartNumber p = cp_PartNumber q) remote of
            None \<Rightarrow> False
          | Some p \<Rightarrow> trim_quotes (TrimSpace (mp_ETag p)) = cp_ETag q) requested
     then Inr () else Inl MultipartErrPartConflict)"

text \<open>
  The answers of the object store during a completion, in the order of the calls: the list of
  parts, \<open>Head\<close> when it fails, the completion, \<open>Head\<close> when it fails, \<open>Head\<close> of the object (its
  size), its content or the error of reading it, and its deletion; and the context of the request.
\<close>

record CompleteEnv =
  ce_List :: "MultipartPart list result"
  ce_HeadListed :: "int result"
  ce_Complete :: "unit result"
  ce_HeadCompleted :: "int result"
  ce_Head :: "int result"
  ce_Get :: "string result"
  ce_Delete :: "unit result"
  ce_Context :: Context

text \<open>At most one byte more than expected is read.\<close>

definition inspectObject :: "Runtime \<Rightarrow> string \<Rightarrow> int \<Rightarrow> int \<times> string \<times> string" where
  "inspectObject rt content expectedSize =
    (let data = take (nat (signed_take_bit 63 (expectedSize + 1))) content
     in (int (length data), sha256_hex rt data, take SniffBytes data))"

text \<open>
  What the inspection of the stored object leads to: its size and checksum, an object that is
  invalid for good, or an error after which the completion may be tried again.
\<close>

datatype verdict = Verified int string | Invalid go_error | Again go_error

definition judge_object :: "Runtime \<Rightarrow> (string \<Rightarrow> bool) \<Rightarrow> Session \<Rightarrow> int \<Rightarrow> string result \<Rightarrow> verdict" where
  "judge_object rt jsonValid s objectSize content =
    (if objectSize \<noteq> us_size s then Invalid MultipartErrSizeMismatch
     else case content of
       Inl e \<Rightarrow> if e = StorageErrObjectNotFound then Invalid MultipartErrRemoteStorage else Again MultipartErrRemoteStorage
     | Inr bytes \<Rightarrow>
         (case inspectObject rt bytes (us_size s) of (actualSize, checksum, pre) \<Rightarrow>
            if actualSize \<noteq> us_size s then Invalid MultipartErrSizeMismatch
            else if isl (DetectFormat jsonValid (us_filename s) (us_ctype s) pre) then Invalid MultipartErrInvalidInput
            else if (case us_checksum s of None \<Rightarrow> False | Some c \<Rightarrow> c \<noteq> checksum) then Invalid MultipartErrChecksumMismatch
            else Verified actualSize checksum))"

text \<open>The remote half: whether there is an object to verify.\<close>

definition complete_remote :: "CompleteEnv \<Rightarrow> CompletePart list \<Rightarrow> unit result" where
  "complete_remote env parts =
    (case ce_List env of
       Inr remote \<Rightarrow>
         bindE (verifyRemoteParts parts remote) (\<lambda>_.
           if isl (ce_Complete env) \<and> isl (ce_HeadCompleted env) then Inl MultipartErrRemoteStorage else Inr ())
     | Inl _ \<Rightarrow> if isl (ce_HeadListed env) then Inl MultipartErrRemoteStorage else Inr ())"

definition completion_verdict ::
  "Runtime \<Rightarrow> (string \<Rightarrow> bool) \<Rightarrow> CompleteEnv \<Rightarrow> Session \<Rightarrow> CompletePart list \<Rightarrow> DB \<Rightarrow> verdict" where
  "completion_verdict rt jsonValid env s requested db =
    (case bindE (normalizeCompleteParts requested (us_parts s)) (\<lambda>parts.
       bindE (in_context (ce_Context env) ''ListParts'' (\<lambda>db. Inr (ListParts (us_id s) db)) db) (\<lambda>registered.
       bindE (verifyRegisteredParts parts registered (us_size s) (us_partsize s)) (\<lambda>_.
       bindE (complete_remote env parts) (\<lambda>_.
       case ce_Head env of Inl _ \<Rightarrow> Inl MultipartErrRemoteStorage | Inr objectSize \<Rightarrow> Inr objectSize)))) of
       Inl e \<Rightarrow> Again e
     | Inr objectSize \<Rightarrow> judge_object rt jsonValid s objectSize (ce_Get env))"

text \<open>
  What a claimed session comes to: published, reset for another attempt, or failed for good.
  \<open>fatal\<close> are the errors of the finalization that a reconciliation takes for invalid objects.
\<close>

definition settle ::
  "Context \<Rightarrow> (go_error \<Rightarrow> string) \<Rightarrow> unit result \<Rightarrow> (go_error \<Rightarrow> bool) \<Rightarrow> time \<Rightarrow> uuid \<Rightarrow> Session \<Rightarrow> uuid \<Rightarrow> verdict \<Rightarrow> DB \<Rightarrow>
   Version result \<times> DB" where
  "settle ctx errText deleteObject fatal now actorID s token v db =
    (let again = (\<lambda>e. apfst Inl (resetCompletion ctx errText now (us_id s) token e db));
         invalid = (\<lambda>e. apfst Inl (failInvalidObject ctx errText deleteObject now s token e db))
     in case v of
          Invalid e \<Rightarrow> invalid e
        | Again e \<Rightarrow> again e
        | Verified actualSize checksum \<Rightarrow>
            (case in_context ctx ''FinalizeVersionForUpload''
                (FinalizeVersionForUpload now (us_dataset s) (us_version s) actorID actualSize checksum (us_id s) token) db of
               Inl e \<Rightarrow> if fatal e then invalid e else again e
             | Inr (version, db2) \<Rightarrow>
                 (case in_context ctx ''MarkCompleted'' (MarkCompleted (us_id s) token now) db2 of
                    Inl e \<Rightarrow> (Inl e, db2)
                  | Inr (_, db3) \<Rightarrow> (Inr version, db3))))"

definition Multipart_Service_Complete ::
  "Runtime \<Rightarrow> (string \<Rightarrow> bool) \<Rightarrow> (go_error \<Rightarrow> string) \<Rightarrow> MultipartConfig \<Rightarrow> CompleteEnv \<Rightarrow> uuid \<Rightarrow> time \<Rightarrow> Principal \<Rightarrow> uuid \<Rightarrow>
   CompletePart list \<Rightarrow> DB \<Rightarrow> Version result \<times> DB" where
  "Multipart_Service_Complete rt jsonValid errText c env token0 now prin sessionID requested db =
    (case bindE (RequireScope prin ScopeDatasetsWrite) (\<lambda>_. authorizedSession prin sessionID ScopeDatasetsWrite db) of
       Inl e \<Rightarrow> (Inl e, db)
     | Inr authorized \<Rightarrow>
         (case (case ce_Context env ''BeginComplete'' of
                  Some e \<Rightarrow> (Inl e, db)
                | None \<Rightarrow> BeginComplete token0 sessionID (us_owner authorized) now (now - mc_CompletionGrace c) db) of
            (Inl e, db1) \<Rightarrow> (Inl e, db1)
          | (Inr s, db1) \<Rightarrow>
              (case sessionOperationToken s of
                 Inl e \<Rightarrow> (Inl e, db1)
               | Inr token \<Rightarrow>
                   settle (ce_Context env) errText (ce_Delete env) (\<lambda>_. False) now (prin_UserID prin) s token
                     (completion_verdict rt jsonValid env s requested db1) db1)))"

section \<open>Cleanup\<close>

definition reconciliation_verdict :: "Runtime \<Rightarrow> (string \<Rightarrow> bool) \<Rightarrow> CompleteEnv \<Rightarrow> Session \<Rightarrow> verdict" where
  "reconciliation_verdict rt jsonValid env s =
    (case ce_Head env of
       Inl e \<Rightarrow> if e = StorageErrObjectNotFound then Invalid MultipartErrRemoteStorage else Again MultipartErrRemoteStorage
     | Inr objectSize \<Rightarrow> judge_object rt jsonValid s objectSize (ce_Get env))"

definition reconcileCompletedObject ::
  "Runtime \<Rightarrow> (string \<Rightarrow> bool) \<Rightarrow> (go_error \<Rightarrow> string) \<Rightarrow> CompleteEnv \<Rightarrow> uuid \<Rightarrow> time \<Rightarrow> Session \<Rightarrow> DB \<Rightarrow> Version result \<times> DB" where
  "reconcileCompletedObject rt jsonValid errText env token0 now session db =
    (case in_context (ce_Context env) ''BeginReconciliation'' (BeginReconciliation token0 (us_id session) now) db of
       Inl e \<Rightarrow> (Inl e, db)
     | Inr (s, db1) \<Rightarrow>
         (case sessionOperationToken s of
            Inl e \<Rightarrow> (Inl e, db1)
          | Inr token \<Rightarrow>
              settle (ce_Context env) errText (ce_Delete env) (\<lambda>e. e = DatasetErrDatasetDeleted) now uuid_Nil s token
                (reconciliation_verdict rt jsonValid env s) db1))"

record CleanupReport =
  cr_Claimed :: int
  cr_Expired :: int
  cr_Reconciled :: int
  cr_Failed :: int
  cr_Failures :: "go_error list"

text \<open>
  The answers for one session: \<open>Head\<close> before the decision, the abort of the remote upload, those
  of a reconciliation, and the token it draws.
\<close>

record CleanupEnv =
  cl_Head :: "int result"
  cl_Abort :: "unit result"
  cl_Complete :: CompleteEnv
  cl_Token :: uuid

definition failed_cleanup :: "go_error \<Rightarrow> CleanupReport \<Rightarrow> CleanupReport" where
  "failed_cleanup e report = report\<lparr>cr_Failed := cr_Failed report + 1, cr_Failures := cr_Failures report @ [e]\<rparr>"

definition cleanup_one ::
  "Runtime \<Rightarrow> (string \<Rightarrow> bool) \<Rightarrow> (go_error \<Rightarrow> string) \<Rightarrow> CleanupEnv \<Rightarrow> time \<Rightarrow> Session \<Rightarrow> CleanupReport \<Rightarrow> DB \<Rightarrow>
   CleanupReport \<times> DB" where
  "cleanup_one rt jsonValid errText env now s report db =
    (case cl_Head env of
       Inr _ \<Rightarrow>
         (case reconcileCompletedObject rt jsonValid errText (cl_Complete env) (cl_Token env) now s db of
            (Inl e, db') \<Rightarrow> (failed_cleanup e report, db')
          | (Inr _, db') \<Rightarrow> (report\<lparr>cr_Reconciled := cr_Reconciled report + 1\<rparr>, db'))
     | Inl headErr \<Rightarrow>
         if headErr \<noteq> StorageErrObjectNotFound then (failed_cleanup headErr report, db)
         else
           (let ctx = ce_Context (cl_Complete env);
                (versionErr, db1) = run_tx (in_context ctx ''FailVersion''
                  (FailVersion now (us_dataset s) (us_version s) uuid_Nil ''multipart_session_expired'')) db;
                versionErr = (if versionErr = Inl DatasetErrVersionNotFound then Inr () else versionErr)
            in if isl (cl_Abort env) \<or> isl versionErr
               then (failed_cleanup (ErrJoin (error_list [cl_Abort env, versionErr])) report, db1)
               else
                 (case in_context ctx ''MarkExpired'' (MarkExpired (us_id s) ''session_expired'' now) db1 of
                    Inl e \<Rightarrow> (failed_cleanup e report, db1)
                  | Inr (_, db2) \<Rightarrow> (report\<lparr>cr_Expired := cr_Expired report + 1\<rparr>, db2))))"

fun cleanup_loop ::
  "Runtime \<Rightarrow> (string \<Rightarrow> bool) \<Rightarrow> (go_error \<Rightarrow> string) \<Rightarrow> (uuid \<Rightarrow> CleanupEnv) \<Rightarrow> time \<Rightarrow> Session list \<Rightarrow> CleanupReport \<Rightarrow> DB \<Rightarrow>
   CleanupReport \<times> DB" where
  "cleanup_loop rt jsonValid errText env now [] report db = (report, db)"
| "cleanup_loop rt jsonValid errText env now (s # ss) report db =
    (case cleanup_one rt jsonValid errText (env (us_id s)) now s report db of
       (report', db') \<Rightarrow> cleanup_loop rt jsonValid errText env now ss report' db')"

definition CleanupExpired ::
  "Runtime \<Rightarrow> (string \<Rightarrow> bool) \<Rightarrow> (go_error \<Rightarrow> string) \<Rightarrow> MultipartConfig \<Rightarrow> (uuid \<Rightarrow> CleanupEnv) \<Rightarrow> time \<Rightarrow> int \<Rightarrow> DB \<Rightarrow>
   (CleanupReport \<times> DB) result" where
  "CleanupExpired rt jsonValid errText c env now limit db =
    (if limit < 1 \<or> limit > 1000 then Inl MultipartErrInvalidInput
     else bindE (ClaimExpired now (now - mc_CompletionGrace c) limit db) (\<lambda>(sessions, db1).
       Inr (cleanup_loop rt jsonValid errText env now sessions
         \<lparr>cr_Claimed = int (length sessions), cr_Expired = 0, cr_Reconciled = 0, cr_Failed = 0, cr_Failures = []\<rparr> db1)))"

end
