(* ===== verification/Quality.thy ===== *)
theory Quality
  imports JobValidation Datasets
begin

text \<open>
  Quality rules (\<open>internal/quality\<close>): the validation of a rule definition and of the snapshot of
  rules a job carries, the rules of a dataset in the database and the service in front of them.
  \<open>compiles\<close> is whether \<open>regexp.Compile\<close> accepts a pattern, and \<open>nil_null\<close> whether the database
  driver sends NULL for a nil slice (as pgx does) and not an empty array.
\<close>

section \<open>Values of a configuration\<close>

abbreviation MaxRulesPerDataset :: nat where "MaxRulesPerDataset \<equiv> 256"
abbreviation MaxRuleNameLength :: nat where "MaxRuleNameLength \<equiv> 120"

definition config_value :: "config \<Rightarrow> string \<Rightarrow> any" where
  "config_value cfg key = (case map_of cfg key of None \<Rightarrow> AnyNil | Some v \<Rightarrow> v)"

fun sliceValue :: "any \<Rightarrow> any list option" where
  "sliceValue (AnySlice xs) = Some xs"
| "sliceValue (AnyStrings xs) = Some (map AnyString xs)"
| "sliceValue (AnyFloats fs) = Some (map AnyFloat64 fs)"
| "sliceValue _ = None"

fun string_value :: "any \<Rightarrow> string option" where
  "string_value (AnyString s) = Some s"
| "string_value _ = None"

definition stringsValue :: "any \<Rightarrow> string list option" where
  "stringsValue v = (case sliceValue v of None \<Rightarrow> None | Some xs \<Rightarrow> those (map string_value xs))"

fun isScalar :: "any \<Rightarrow> bool" where
  "isScalar (AnySlice _) = False"
| "isScalar (AnyStrings _) = False"
| "isScalar (AnyFloats _) = False"
| "isScalar (AnyMap _) = False"
| "isScalar _ = True"

text \<open>The unsigned integer types are scalars but not numbers.\<close>

fun numberValue :: "Runtime \<Rightarrow> any \<Rightarrow> float64 option" where
  "numberValue rt (AnyFloat32 f) = (if is_finite f then Some f else None)"
| "numberValue rt (AnyFloat64 f) = (if is_finite f then Some f else None)"
| "numberValue rt (AnyInt k i) =
     (if k \<in> {KInt, KInt8, KInt16, KInt32, KInt64} then Some (float_of_int i) else None)"
| "numberValue rt (AnyNumber s) = map_option Fin (parse_float rt s)"
| "numberValue rt _ = None"

definition Quality_integerValue :: "Runtime \<Rightarrow> any \<Rightarrow> int option" where
  "Quality_integerValue rt v =
    (case numberValue rt v of
       Some (Fin r) \<Rightarrow>
         if r \<noteq> of_int \<lfloor>r\<rfloor> \<or> r < - (2 ^ 63) \<or> r > 2 ^ 63 then None
         else Some (signed_take_bit 63 \<lfloor>r\<rfloor>)
     | _ \<Rightarrow> None)"

definition Quality_boundedText :: "config \<Rightarrow> string \<Rightarrow> nat \<Rightarrow> unit result" where
  "Quality_boundedText cfg key maximum =
    (case config_value cfg key of
       AnyString s \<Rightarrow> if s = [] \<or> length s > maximum \<or> has_newline s then Inl (ErrText ''outside the supported bound'') else Inr ()
     | _ \<Rightarrow> Inl (ErrText ''outside the supported bound''))"

definition Quality_boundedInteger :: "Runtime \<Rightarrow> config \<Rightarrow> string \<Rightarrow> int \<Rightarrow> int \<Rightarrow> unit result" where
  "Quality_boundedInteger rt cfg key minimum maximum =
    (case Quality_integerValue rt (config_value cfg key) of
       None \<Rightarrow> Inl (ErrText ''outside the supported bound'')
     | Some i \<Rightarrow> if i < minimum \<or> i > maximum then Inl (ErrText ''outside the supported bound'') else Inr ())"

definition requiredNumber :: "Runtime \<Rightarrow> config \<Rightarrow> string \<Rightarrow> float64 result" where
  "requiredNumber rt cfg key =
    (case numberValue rt (config_value cfg key) of
       None \<Rightarrow> Inl (ErrText ''must be a finite number'')
     | Some f \<Rightarrow> Inr f)"

definition scalarValues :: "config \<Rightarrow> string \<Rightarrow> unit result" where
  "scalarValues cfg key =
    (case sliceValue (config_value cfg key) of
       None \<Rightarrow> Inl (ErrText ''must contain 1 to 10000 items'')
     | Some xs \<Rightarrow>
         if length xs < 1 \<or> length xs > 10000 then Inl (ErrText ''must contain 1 to 10000 items'')
         else if \<not> list_all isScalar xs then Inl (ErrText ''must contain scalar values'')
         else Inr ())"

fun strings_Contains :: "string \<Rightarrow> string \<Rightarrow> bool" where
  "strings_Contains [] p = (p = [])"
| "strings_Contains (c # s) p = (HasPrefix (c # s) p \<or> strings_Contains s p)"

section \<open>Definitions of rules\<close>

record Definition =
  qd_Name :: string
  qd_ColumnScope :: "string list"
  qd_RuleType :: string
  qd_Configuration :: "config option"
  qd_Severity :: string
  qd_Enabled :: bool

definition isRuleType :: "string \<Rightarrow> bool" where
  "isRuleType t \<longleftrightarrow>
     t \<in> set [''NOT_NULL'', ''UNIQUE'', ''BETWEEN'', ''MIN_LENGTH'', ''MAX_LENGTH'', ''REGEX'', ''EMAIL_FORMAT'',
       ''DATE_FORMAT'', ''ALLOWED_VALUES'', ''COLUMN_TYPE'', ''ROW_COUNT_BETWEEN'', ''REFERENTIAL_SET'',
       ''CUSTOM_EXPRESSION'']"

definition isSeverity :: "string \<Rightarrow> bool" where
  "isSeverity s \<longleftrightarrow> s \<in> set [''INFO'', ''WARNING'', ''ERROR'', ''CRITICAL'']"

definition cloneMap :: "config option \<Rightarrow> config" where
  "cloneMap m = (case m of None \<Rightarrow> [] | Some cfg \<Rightarrow> cfg)"

fun columns_ok :: "string list \<Rightarrow> string list \<Rightarrow> bool" where
  "columns_ok seen [] = True"
| "columns_ok seen (c # cs) = (validColumnName c \<and> c \<notin> set seen \<and> columns_ok (c # seen) cs)"

definition normalizeColumns :: "string list \<Rightarrow> string list result" where
  "normalizeColumns columns =
    (if length columns > 256 then Inl QualityErrInvalidInput
     else if \<not> columns_ok [] columns then Inl QualityErrInvalidInput
     else Inr columns)"

definition allowed_fields :: "(string \<times> string list) list" where
  "allowed_fields =
    [(''NOT_NULL'', []), (''UNIQUE'', [''maxTrackedValues'']), (''BETWEEN'', [''min'', ''max'']),
     (''MIN_LENGTH'', [''value'']), (''MAX_LENGTH'', [''value'']), (''REGEX'', [''pattern'']),
     (''EMAIL_FORMAT'', []), (''DATE_FORMAT'', [''format'']), (''ALLOWED_VALUES'', [''values'']),
     (''COLUMN_TYPE'', [''type'']), (''ROW_COUNT_BETWEEN'', [''min'', ''max'']), (''REFERENTIAL_SET'', [''values''])]"

definition validate_pattern :: "(string \<Rightarrow> bool) \<Rightarrow> any \<Rightarrow> unit result" where
  "validate_pattern compiles v =
    (case v of
       AnyString p \<Rightarrow>
         if length p = 0 \<or> length p > 512 then Inl (ErrText ''pattern is outside the supported bound'')
         else if ContainsAny p ''()|'' \<or> strings_Contains p [CHR 0x5C, CHR ''1''] \<or> strings_Contains p [CHR 0x5C, CHR ''2'']
         then Inl (ErrText ''pattern uses an unsafe regex construct'')
         else if \<not> compiles p then Inl (ErrText ''pattern is invalid'')
         else Inr ()
     | _ \<Rightarrow> Inl (ErrText ''pattern is outside the supported bound''))"

text \<open>The switch over the rule type.\<close>

definition validate_fields :: "Runtime \<Rightarrow> (string \<Rightarrow> bool) \<Rightarrow> string \<Rightarrow> config \<Rightarrow> unit result" where
  "validate_fields rt compiles ruleType cfg =
    (if ruleType = ''BETWEEN'' \<or> ruleType = ''ROW_COUNT_BETWEEN'' then
       bindE (requiredNumber rt cfg ''min'') (\<lambda>minimum.
       bindE (requiredNumber rt cfg ''max'') (\<lambda>maximum.
       if float_less maximum minimum then Inl (ErrText ''min must not exceed max'') else Inr ()))
     else if ruleType = ''MIN_LENGTH'' \<or> ruleType = ''MAX_LENGTH'' then
       Quality_boundedInteger rt cfg ''value'' 0 1000000
     else if ruleType = ''UNIQUE'' then
       (if ''maxTrackedValues'' \<in> fst ` set cfg then Quality_boundedInteger rt cfg ''maxTrackedValues'' 1 2000000 else Inr ())
     else if ruleType = ''REGEX'' then validate_pattern compiles (config_value cfg ''pattern'')
     else if ruleType = ''DATE_FORMAT'' then Quality_boundedText cfg ''format'' 64
     else if ruleType = ''ALLOWED_VALUES'' \<or> ruleType = ''REFERENTIAL_SET'' then scalarValues cfg ''values''
     else if ruleType = ''COLUMN_TYPE'' then
       (case string_value (config_value cfg ''type'') of
          None \<Rightarrow> Inl (ErrText ''type is unsupported'')
        | Some t \<Rightarrow> if t \<in> set [''string'', ''integer'', ''number'', ''boolean'', ''date'', ''datetime''] then Inr ()
                    else Inl (ErrText ''type is unsupported''))
     else Inr ())"

definition column_bounds :: "string \<Rightarrow> nat \<Rightarrow> bool" where
  "column_bounds ruleType n =
    (if ruleType = ''ROW_COUNT_BETWEEN'' then n = 0
     else 1 \<le> n \<and> n \<le> (if ruleType = ''UNIQUE'' then 16 else 1))"

definition validateConfiguration ::
  "Runtime \<Rightarrow> (string \<Rightarrow> bool) \<Rightarrow> string \<Rightarrow> string list \<Rightarrow> config \<Rightarrow> unit result" where
  "validateConfiguration rt compiles ruleType columns cfg =
    (if \<not> column_bounds ruleType (length columns) then Inl (ErrText ''columns'')
     else case map_of allowed_fields ruleType of
       None \<Rightarrow> Inl (ErrText ''unsupported rule type'')
     | Some keys \<Rightarrow>
         if \<not> list_all (\<lambda>kv. fst kv \<in> set keys) cfg then Inl (ErrText ''unknown field'')
         else validate_fields rt compiles ruleType cfg)"

definition ValidateDefinition :: "Runtime \<Rightarrow> (string \<Rightarrow> bool) \<Rightarrow> Definition \<Rightarrow> Definition result" where
  "ValidateDefinition rt compiles d =
    (let name = TrimSpace (qd_Name d)
     in if name = [] \<or> length name > MaxRuleNameLength \<or> has_newline name then Inl QualityErrInvalidInput
        else
          bindE (normalizeColumns (qd_ColumnScope d)) (\<lambda>columns.
          if \<not> isRuleType (qd_RuleType d) \<or> qd_RuleType d = ''CUSTOM_EXPRESSION'' then Inl QualityErrInvalidInput
          else if \<not> isSeverity (qd_Severity d) then Inl QualityErrInvalidInput
          else
            let configuration = cloneMap (qd_Configuration d)
            in (case validateConfiguration rt compiles (qd_RuleType d) columns configuration of
                  Inl _ \<Rightarrow> Inl QualityErrInvalidInput
                | Inr _ \<Rightarrow> Inr (d\<lparr>qd_Name := name, qd_ColumnScope := columns, qd_Configuration := Some configuration\<rparr>))))"

section \<open>Snapshots\<close>

text \<open>The rules a \<open>VALIDATE_QUALITY\<close> operation of a job carries; a failed assertion yields the zero value.\<close>

definition validateSnapshotRule :: "Runtime \<Rightarrow> (string \<Rightarrow> bool) \<Rightarrow> config \<Rightarrow> unit result" where
  "validateSnapshotRule rt compiles obj =
    (if \<not> list_all (\<lambda>kv. fst kv \<in> set [''id'', ''name'', ''columnScope'', ''ruleType'', ''configuration'', ''severity'', ''enabled'']) obj
     then Inl (ErrText ''unknown field'')
     else case (string_value (config_value obj ''id''), string_value (config_value obj ''name'')) of
       (Some ident, Some name) \<Rightarrow>
         if TrimSpace ident = [] \<or> length ident > 128 \<or> has_newline ident then Inl (ErrText ''id is invalid'')
         else (case stringsValue (config_value obj ''columnScope'') of
             None \<Rightarrow> Inl (ErrText ''columnScope'')
           | Some columns \<Rightarrow>
               (case (string_value (config_value obj ''ruleType''), config_value obj ''enabled'', config_value obj ''configuration'') of
                  (Some ruleType, AnyBool enabled, AnyMap configuration) \<Rightarrow>
                    bindE (ValidateDefinition rt compiles
                      \<lparr>qd_Name = name, qd_ColumnScope = columns, qd_RuleType = ruleType, qd_Configuration = Some configuration,
                       qd_Severity = (case string_value (config_value obj ''severity'') of None \<Rightarrow> [] | Some s \<Rightarrow> s),
                       qd_Enabled = enabled\<rparr>) (\<lambda>_. Inr ())
                | _ \<Rightarrow> Inl (ErrText ''ruleType, enabled and configuration are required'')))
     | _ \<Rightarrow> Inl (ErrText ''id or name is invalid''))"

fun snapshot_loop :: "Runtime \<Rightarrow> (string \<Rightarrow> bool) \<Rightarrow> string list \<Rightarrow> any list \<Rightarrow> unit result" where
  "snapshot_loop rt compiles seen [] = Inr ()"
| "snapshot_loop rt compiles seen (raw # rest) =
    (case raw of
       AnyMap obj \<Rightarrow>
         (case validateSnapshotRule rt compiles obj of
            Inl _ \<Rightarrow> Inl QualityErrInvalidInput
          | Inr _ \<Rightarrow>
              (let ident = (case string_value (config_value obj ''id'') of None \<Rightarrow> [] | Some s \<Rightarrow> s)
               in if ident \<in> set seen then Inl QualityErrInvalidInput
                  else snapshot_loop rt compiles (ident # seen) rest))
     | _ \<Rightarrow> Inl QualityErrInvalidInput)"

definition ValidateSnapshotRules :: "Runtime \<Rightarrow> (string \<Rightarrow> bool) \<Rightarrow> any \<Rightarrow> unit result" where
  "ValidateSnapshotRules rt compiles v =
    (case sliceValue v of
       None \<Rightarrow> Inl QualityErrInvalidInput
     | Some rules \<Rightarrow>
         if length rules < 1 \<or> length rules > MaxRulesPerDataset then Inl QualityErrInvalidInput
         else snapshot_loop rt compiles [] rules)"

section \<open>Rules in the database\<close>

text \<open>
  A configuration is stored as JSON and decoded into a \<open>map[string]any\<close> when a row is read, so that
  a stored configuration is what the decoder makes of it: its numbers are float64 values.
\<close>

fun json_any :: "Runtime \<Rightarrow> json \<Rightarrow> any option" where
  "json_any rt JNull = Some AnyNil"
| "json_any rt (JBool b) = Some (AnyBool b)"
| "json_any rt (JNum s) = map_option (AnyFloat64 \<circ> Fin) (parse_float rt s)"
| "json_any rt (JStr s) = Some (AnyString s)"
| "json_any rt (JArr xs) = map_option AnySlice (those (map (json_any rt) xs))"
| "json_any rt (JObj kvs) = map_option (AnyMap \<circ> zip (map fst kvs)) (those (map (\<lambda>(k, v). json_any rt v) kvs))"

definition stored_config :: "Runtime \<Rightarrow> config \<Rightarrow> config option" where
  "stored_config rt cfg =
    (case Option.bind (any_json rt (AnyMap cfg)) (json_any rt) of
       Some (AnyMap cfg') \<Rightarrow> Some cfg'
     | _ \<Rightarrow> None)"

text \<open>The nil slice: \<open>append([]string(nil), columns...)\<close> of no columns.\<close>

definition column_array :: "bool \<Rightarrow> string list \<Rightarrow> string list option" where
  "column_array nil_null columns = (if columns = [] \<and> nil_null then None else Some columns)"

text \<open>The constraints of the table on one row, apart from its uniqueness.\<close>

definition rule_checks :: "Rule \<Rightarrow> bool" where
  "rule_checks r \<longleftrightarrow>
     1 \<le> char_length (qr_name r) \<and> char_length (qr_name r) \<le> 120 \<and> \<not> has_newline (qr_name r) \<and>
     isRuleType (qr_type r) \<and> qr_type r \<noteq> ''CUSTOM_EXPRESSION'' \<and> isSeverity (qr_severity r) \<and>
     length (qr_columns r) \<le> 256"

definition name_taken :: "uuid \<Rightarrow> string \<Rightarrow> Rule list \<Rightarrow> bool" where
  "name_taken datasetID name rules \<longleftrightarrow>
     list_ex (\<lambda>r. qr_deleted r = None \<and> qr_dataset r = datasetID \<and> qr_name r = name) rules"

definition rule_audit :: "Runtime \<Rightarrow> uuid \<Rightarrow> string \<Rightarrow> uuid \<Rightarrow> DB \<Rightarrow> DB" where
  "rule_audit rt actorID action ruleID db =
    db\<lparr>db_audit := db_audit db @
      [\<lparr>au_actor = Some actorID, au_action = action, au_resource = uuid_String rt ruleID, au_request = []\<rparr>]\<rparr>"

record QualityCreateRequest =
  qc_DatasetID :: uuid
  qc_Name :: string
  qc_ColumnScope :: "string list"
  qc_RuleType :: string
  qc_Configuration :: "config option"
  qc_Severity :: string
  qc_Enabled :: "bool option"

definition enabledValue :: "bool option \<Rightarrow> bool" where
  "enabledValue v = (case v of None \<Rightarrow> True | Some b \<Rightarrow> b)"

definition Quality_Create ::
  "Runtime \<Rightarrow> bool \<Rightarrow> uuid \<Rightarrow> time \<Rightarrow> uuid \<Rightarrow> uuid \<Rightarrow> QualityCreateRequest \<Rightarrow> DB \<Rightarrow> (Rule \<times> DB) result" where
  "Quality_Create rt nil_null ruleID now ownerID actorID request db =
    (case qc_Configuration request of
       None \<Rightarrow> Inl (ErrDatabase ''configuration is not an object'')
     | Some cfg \<Rightarrow>
         (case (stored_config rt cfg, column_array nil_null (qc_ColumnScope request)) of
            (Some configuration, Some columns) \<Rightarrow>
              let r = \<lparr>qr_id = ruleID, qr_owner = ownerID, qr_dataset = qc_DatasetID request, qr_name = qc_Name request,
                       qr_columns = columns, qr_type = qc_RuleType request, qr_config = configuration,
                       qr_severity = qc_Severity request, qr_enabled = enabledValue (qc_Enabled request),
                       qr_creator = actorID, qr_created = now, qr_updated = now, qr_deleted = None\<rparr>
              in if \<not> rule_checks r then Inl (ErrDatabase ''insert quality rule'')
                 else if ruleID \<in> qr_id ` set (db_rules db) \<or> name_taken (qr_dataset r) (qr_name r) (db_rules db)
                 then Inl QualityErrRuleNameUsed
                 else if qr_dataset r \<notin> ds_id ` set (db_datasets db) then Inl (ErrDatabase ''insert quality rule'')
                 else Inr (r, rule_audit rt actorID ''quality_rule.created'' ruleID (db\<lparr>db_rules := db_rules db @ [r]\<rparr>))
          | _ \<Rightarrow> Inl (ErrDatabase ''insert quality rule'')))"

record QualityListQuery =
  qq_OwnerUserID :: "uuid option"
  qq_DatasetID :: "uuid option"
  qq_Page :: int
  qq_PageSize :: int

record QualityPage =
  qp_Items :: "Rule list"
  qp_Page :: int
  qp_PageSize :: int
  qp_Total :: int

definition rule_listed :: "QualityListQuery \<Rightarrow> Rule \<Rightarrow> bool" where
  "rule_listed q r \<longleftrightarrow>
     qr_deleted r = None \<and>
     (case qq_OwnerUserID q of None \<Rightarrow> True | Some u \<Rightarrow> qr_owner r = u) \<and>
     (case qq_DatasetID q of None \<Rightarrow> True | Some d \<Rightarrow> qr_dataset r = d)"

definition Quality_List :: "QualityListQuery \<Rightarrow> DB \<Rightarrow> QualityPage result" where
  "Quality_List q db =
    (if qq_Page q < 1 \<or> qq_PageSize q < 1 \<or> qq_PageSize q > 100 then Inl QualityErrInvalidInput
     else
       let offset = signed_take_bit 63 ((qq_Page q - 1) * qq_PageSize q);
           rows = filter (rule_listed q) (db_rules db)
       in if offset < 0 then Inl (ErrDatabase ''OFFSET must not be negative'')
          else Inr \<lparr>qp_Items = take (nat (qq_PageSize q)) (drop (nat offset) (sort_key (\<lambda>r. (- qr_created r, qr_id r)) rows)),
                    qp_Page = qq_Page q, qp_PageSize = qq_PageSize q, qp_Total = int (length rows)\<rparr>)"

definition active_rule :: "uuid \<Rightarrow> Rule \<Rightarrow> bool" where
  "active_rule ruleID r \<longleftrightarrow> qr_id r = ruleID \<and> qr_deleted r = None"

definition Quality_Get :: "uuid \<Rightarrow> DB \<Rightarrow> Rule result" where
  "Quality_Get ruleID db =
    (case find (active_rule ruleID) (db_rules db) of None \<Rightarrow> Inl QualityErrRuleNotFound | Some r \<Rightarrow> Inr r)"

record QualityUpdateRequest =
  qu_Name :: "string option"
  qu_ColumnScope :: "string list option"
  qu_RuleType :: "string option"
  qu_Configuration :: "config option"
  qu_Severity :: "string option"
  qu_Enabled :: "bool option"

definition coalesce :: "'a option \<Rightarrow> 'a \<Rightarrow> 'a" where
  "coalesce x y = (case x of None \<Rightarrow> y | Some v \<Rightarrow> v)"

definition updated_rule ::
  "bool \<Rightarrow> time \<Rightarrow> QualityUpdateRequest \<Rightarrow> config option \<Rightarrow> Rule \<Rightarrow> Rule" where
  "updated_rule nil_null now request configuration r =
    r\<lparr>qr_name := coalesce (qu_Name request) (qr_name r),
      qr_columns := coalesce (Option.bind (qu_ColumnScope request) (column_array nil_null)) (qr_columns r),
      qr_type := coalesce (qu_RuleType request) (qr_type r),
      qr_config := coalesce configuration (qr_config r),
      qr_severity := coalesce (qu_Severity request) (qr_severity r),
      qr_enabled := coalesce (qu_Enabled request) (qr_enabled r), qr_updated := now\<rparr>"

definition Quality_Update ::
  "Runtime \<Rightarrow> bool \<Rightarrow> time \<Rightarrow> uuid \<Rightarrow> uuid \<Rightarrow> QualityUpdateRequest \<Rightarrow> DB \<Rightarrow> (Rule \<times> DB) result" where
  "Quality_Update rt nil_null now ruleID actorID request db =
    (case (case qu_Configuration request of None \<Rightarrow> Some None | Some cfg \<Rightarrow> map_option Some (stored_config rt cfg)) of
       None \<Rightarrow> Inl (ErrDatabase ''update quality rule'')
     | Some configuration \<Rightarrow>
         (case find (active_rule ruleID) (db_rules db) of
            None \<Rightarrow> Inl QualityErrRuleNotFound
          | Some r0 \<Rightarrow>
              let r = updated_rule nil_null now request configuration r0
              in if \<not> rule_checks r then Inl (ErrDatabase ''update quality rule'')
                 else if name_taken (qr_dataset r) (qr_name r) (filter (\<lambda>o'. qr_id o' \<noteq> ruleID) (db_rules db))
                 then Inl QualityErrRuleNameUsed
                 else Inr (r, rule_audit rt actorID ''quality_rule.updated'' ruleID
                   (db\<lparr>db_rules := rows_update (active_rule ruleID) (updated_rule nil_null now request configuration) (db_rules db)\<rparr>))))"

definition Quality_Delete :: "Runtime \<Rightarrow> time \<Rightarrow> uuid \<Rightarrow> uuid \<Rightarrow> DB \<Rightarrow> (unit \<times> DB) result" where
  "Quality_Delete rt now ruleID actorID db =
    (if \<not> list_ex (active_rule ruleID) (db_rules db) then Inl QualityErrRuleNotFound
     else Inr ((), rule_audit rt actorID ''quality_rule.deleted'' ruleID
       (db\<lparr>db_rules := rows_update (active_rule ruleID) (\<lambda>r. r\<lparr>qr_deleted := Some now, qr_updated := now\<rparr>) (db_rules db)\<rparr>)))"

section \<open>Service\<close>

definition authorizeDataset :: "Principal \<Rightarrow> uuid \<Rightarrow> string \<Rightarrow> DB \<Rightarrow> Dataset result" where
  "authorizeDataset prin datasetID scope db =
    (if datasetID = uuid_Nil then Inl QualityErrInvalidInput
     else bindE (FindDataset datasetID db) (\<lambda>d.
       if ds_deleted d \<noteq> None \<or> \<not> CanAccessOwner prin (ds_owner d) scope then Inl AuthzErrForbidden else Inr d))"

definition Quality_normalizePagination :: "int \<Rightarrow> int \<Rightarrow> (int \<times> int) result" where
  "Quality_normalizePagination page0 pageSize0 =
    (let page = (if page0 = 0 then 1 else page0);
         pageSize = (if pageSize0 = 0 then 20 else pageSize0)
     in if page < 1 \<or> pageSize < 1 \<or> pageSize > 100 then Inl QualityErrInvalidInput else Inr (page, pageSize))"

definition Quality_Service_Create ::
  "Runtime \<Rightarrow> (string \<Rightarrow> bool) \<Rightarrow> bool \<Rightarrow> uuid \<Rightarrow> time \<Rightarrow> Principal \<Rightarrow> QualityCreateRequest \<Rightarrow> DB \<Rightarrow>
   (Rule \<times> DB) result" where
  "Quality_Service_Create rt compiles nil_null ruleID now prin request db =
    bindE (RequireScope prin ScopeDatasetsWrite) (\<lambda>_.
    bindE (authorizeDataset prin (qc_DatasetID request) ScopeDatasetsWrite db) (\<lambda>d.
    bindE (ValidateDefinition rt compiles
      \<lparr>qd_Name = qc_Name request, qd_ColumnScope = qc_ColumnScope request, qd_RuleType = qc_RuleType request,
       qd_Configuration = qc_Configuration request, qd_Severity = qc_Severity request,
       qd_Enabled = enabledValue (qc_Enabled request)\<rparr>) (\<lambda>def.
    Quality_Create rt nil_null ruleID now (ds_owner d) (prin_UserID prin)
      \<lparr>qc_DatasetID = ds_id d, qc_Name = qd_Name def, qc_ColumnScope = qd_ColumnScope def, qc_RuleType = qd_RuleType def,
       qc_Configuration = qd_Configuration def, qc_Severity = qd_Severity def, qc_Enabled = Some (qd_Enabled def)\<rparr> db)))"

definition Quality_Service_List :: "Principal \<Rightarrow> uuid option \<Rightarrow> int \<Rightarrow> int \<Rightarrow> DB \<Rightarrow> QualityPage result" where
  "Quality_Service_List prin datasetID page0 pageSize0 db =
    bindE (RequireScope prin ScopeDatasetsRead) (\<lambda>_.
    bindE (Quality_normalizePagination page0 pageSize0) (\<lambda>(page, pageSize).
    bindE (case datasetID of None \<Rightarrow> Inr ()
           | Some k \<Rightarrow> bindE (authorizeDataset prin k ScopeDatasetsRead db) (\<lambda>_. Inr ())) (\<lambda>_.
    Quality_List \<lparr>qq_OwnerUserID = (if prin_Role prin \<noteq> RoleAdmin then Some (prin_UserID prin) else None),
      qq_DatasetID = datasetID, qq_Page = page, qq_PageSize = pageSize\<rparr> db)))"

definition Quality_Service_Get :: "Principal \<Rightarrow> uuid \<Rightarrow> DB \<Rightarrow> Rule result" where
  "Quality_Service_Get prin ruleID db =
    bindE (RequireScope prin ScopeDatasetsRead) (\<lambda>_.
    bindE (Quality_Get ruleID db) (\<lambda>r.
    bindE (authorizeDataset prin (qr_dataset r) ScopeDatasetsRead db) (\<lambda>_. Inr r)))"

text \<open>The definition after the change: the fields of the request over those of the stored rule.\<close>

definition merged_definition :: "Rule \<Rightarrow> QualityUpdateRequest \<Rightarrow> Definition" where
  "merged_definition r request =
    \<lparr>qd_Name = coalesce (qu_Name request) (qr_name r),
     qd_ColumnScope = coalesce (qu_ColumnScope request) (qr_columns r),
     qd_RuleType = coalesce (qu_RuleType request) (qr_type r),
     qd_Configuration = Some (coalesce (qu_Configuration request) (qr_config r)),
     qd_Severity = coalesce (qu_Severity request) (qr_severity r),
     qd_Enabled = coalesce (qu_Enabled request) (qr_enabled r)\<rparr>"

text \<open>The request with which the service stores a validated definition over an existing rule.\<close>

definition whole_update :: "Definition \<Rightarrow> QualityUpdateRequest" where
  "whole_update d =
    \<lparr>qu_Name = Some (qd_Name d), qu_ColumnScope = Some (qd_ColumnScope d), qu_RuleType = Some (qd_RuleType d),
     qu_Configuration = qd_Configuration d, qu_Severity = Some (qd_Severity d), qu_Enabled = Some (qd_Enabled d)\<rparr>"

definition Quality_Service_Update ::
  "Runtime \<Rightarrow> (string \<Rightarrow> bool) \<Rightarrow> bool \<Rightarrow> time \<Rightarrow> Principal \<Rightarrow> uuid \<Rightarrow> QualityUpdateRequest \<Rightarrow> DB \<Rightarrow>
   (Rule \<times> DB) result" where
  "Quality_Service_Update rt compiles nil_null now prin ruleID request db =
    bindE (RequireScope prin ScopeDatasetsWrite) (\<lambda>_.
    bindE (Quality_Get ruleID db) (\<lambda>existing.
    bindE (authorizeDataset prin (qr_dataset existing) ScopeDatasetsWrite db) (\<lambda>_.
    bindE (ValidateDefinition rt compiles (merged_definition existing request)) (\<lambda>def.
    Quality_Update rt nil_null now ruleID (prin_UserID prin) (whole_update def) db))))"

definition Quality_Service_Delete :: "Runtime \<Rightarrow> time \<Rightarrow> Principal \<Rightarrow> uuid \<Rightarrow> DB \<Rightarrow> (unit \<times> DB) result" where
  "Quality_Service_Delete rt now prin ruleID db =
    bindE (RequireScope prin ScopeDatasetsWrite) (\<lambda>_.
    bindE (Quality_Get ruleID db) (\<lambda>r.
    bindE (authorizeDataset prin (qr_dataset r) ScopeDatasetsWrite db) (\<lambda>_.
    Quality_Delete rt now ruleID (prin_UserID prin) db)))"

section \<open>The rules that are stored\<close>

lemma Quality_Create_frame:
  assumes "Quality_Create rt nil_null ruleID now ownerID actorID request db = Inr (q, db')"
  obtains cfg a where "db' = db\<lparr>db_rules := db_rules db @ [q], db_audit := a\<rparr>" "qc_Configuration request = Some cfg"
    "stored_config rt cfg = Some (qr_config q)" "column_array nil_null (qc_ColumnScope request) = Some (qr_columns q)"
    "rule_checks q" "qr_id q \<notin> qr_id ` set (db_rules db)" "\<not> name_taken (qr_dataset q) (qr_name q) (db_rules db)"
    "qr_type q = qc_RuleType request" "qr_name q = qc_Name request" "qr_deleted q = None"
proof -
  from assms obtain cfg where cfg: "qc_Configuration request = Some cfg"
    by (auto simp: Quality_Create_def split: option.splits)
  with assms obtain c cols where c: "stored_config rt cfg = Some c"
    "column_array nil_null (qc_ColumnScope request) = Some cols"
    by (auto simp: Quality_Create_def split: option.splits)
  show thesis
    by (rule that [of "db_audit db'" cfg])
      (use assms cfg c in \<open>auto simp: Quality_Create_def Let_def rule_audit_def split: if_splits\<close>)
qed

lemma Quality_Update_frame:
  assumes "Quality_Update rt nil_null now ruleID actorID request db = Inr (q, db')"
  obtains cfg a r where "find (active_rule ruleID) (db_rules db) = Some r"
    "q = updated_rule nil_null now request cfg r" "rule_checks q"
    "qu_Configuration request = None \<and> cfg = None \<or>
     (\<exists>c c'. qu_Configuration request = Some c \<and> stored_config rt c = Some c' \<and> cfg = Some c')"
    "\<not> name_taken (qr_dataset q) (qr_name q) (filter (\<lambda>o'. qr_id o' \<noteq> ruleID) (db_rules db))"
    "db' = db\<lparr>db_rules := rows_update (active_rule ruleID) (updated_rule nil_null now request cfg) (db_rules db),
       db_audit := a\<rparr>"
proof -
  from assms obtain cfg where cfg: "(case qu_Configuration request of None \<Rightarrow> Some None
      | Some cfg \<Rightarrow> map_option Some (stored_config rt cfg)) = Some cfg"
    unfolding Quality_Update_def by (auto split: option.splits)
  note run = assms [unfolded Quality_Update_def cfg option.case]
  from run obtain r where r: "find (active_rule ruleID) (db_rules db) = Some r"
    by (auto split: option.splits)
  have "qu_Configuration request = None \<and> cfg = None \<or>
     (\<exists>c c'. qu_Configuration request = Some c \<and> stored_config rt c = Some c' \<and> cfg = Some c')"
    using cfg by (auto split: option.splits)
  then show thesis
    by (intro that [of r cfg "db_audit db'"])
      (use run r in \<open>auto simp: Let_def rule_audit_def split: if_splits\<close>)
qed

lemma ValidateDefinition_Inr:
  "ValidateDefinition rt compiles d = Inr d' \<Longrightarrow>
   qd_Name d' = TrimSpace (qd_Name d) \<and> qd_Name d' \<noteq> [] \<and> length (qd_Name d') \<le> MaxRuleNameLength \<and> \<not> has_newline (qd_Name d') \<and>
   qd_ColumnScope d' = qd_ColumnScope d \<and> columns_ok [] (qd_ColumnScope d') \<and> qd_RuleType d' = qd_RuleType d \<and>
   (\<exists>cfg. qd_Configuration d' = Some cfg \<and> validateConfiguration rt compiles (qd_RuleType d') (qd_ColumnScope d') cfg = Inr ()) \<and>
   qd_Severity d' = qd_Severity d \<and> qd_Enabled d' = qd_Enabled d"
  by (auto simp: ValidateDefinition_def Let_def bindE_Inr normalizeColumns_def split: if_splits sum.splits)

text \<open>
  A stored configuration is the encoding of one that passed validation. The columns are those it
  was validated with, except that a rule turned into one on the number of rows may keep the columns
  it had: the update sends NULL for no columns.
\<close>

definition rule_ok :: "Runtime \<Rightarrow> (string \<Rightarrow> bool) \<Rightarrow> Rule \<Rightarrow> bool" where
  "rule_ok rt compiles r \<longleftrightarrow>
     qr_name r \<noteq> [] \<and> length (qr_name r) \<le> MaxRuleNameLength \<and> \<not> has_newline (qr_name r) \<and> columns_ok [] (qr_columns r) \<and>
     isRuleType (qr_type r) \<and> qr_type r \<noteq> ''CUSTOM_EXPRESSION'' \<and> isSeverity (qr_severity r) \<and>
     (\<exists>cfg columns. stored_config rt cfg = Some (qr_config r) \<and> validateConfiguration rt compiles (qr_type r) columns cfg = Inr () \<and>
        (columns = qr_columns r \<or> columns = [] \<and> qr_type r = ''ROW_COUNT_BETWEEN''))"

definition rules_ok :: "Runtime \<Rightarrow> (string \<Rightarrow> bool) \<Rightarrow> Rule list \<Rightarrow> bool" where
  "rules_ok rt compiles rules \<longleftrightarrow>
     distinct (map qr_id rules) \<and>
     (\<forall>r \<in> set rules. \<forall>r' \<in> set rules. qr_deleted r = None \<and> qr_deleted r' = None \<and> qr_dataset r = qr_dataset r' \<and>
        qr_name r = qr_name r' \<longrightarrow> r = r') \<and>
     (\<forall>r \<in> set rules. rule_ok rt compiles r)"

lemma validateConfiguration_empty:
  "validateConfiguration rt compiles t [] cfg = Inr () \<Longrightarrow> t = ''ROW_COUNT_BETWEEN''"
  by (auto simp: validateConfiguration_def column_bounds_def split: if_splits)

lemma rule_okI:
  assumes "ValidateDefinition rt compiles d0 = Inr d" "rule_checks r" "qr_name r = qd_Name d" "qr_type r = qd_RuleType d"
    "qd_Configuration d = Some cfg" "stored_config rt cfg = Some (qr_config r)" "columns_ok [] (qr_columns r)"
    "qr_columns r = qd_ColumnScope d \<or> qd_ColumnScope d = []"
  shows "rule_ok rt compiles r"
proof -
  note def = ValidateDefinition_Inr [OF assms(1)]
  then have val: "validateConfiguration rt compiles (qr_type r) (qd_ColumnScope d) cfg = Inr ()"
    using assms(4,5) by auto
  moreover have "qd_ColumnScope d = qr_columns r \<or> qd_ColumnScope d = [] \<and> qr_type r = ''ROW_COUNT_BETWEEN''"
    using val assms(8) validateConfiguration_empty by metis
  ultimately show ?thesis
    using assms(2,3,6,7) def unfolding rule_ok_def rule_checks_def by metis
qed

lemma create_rules_ok:
  assumes "Quality_Service_Create rt compiles nil_null ruleID now prin request db = Inr (q, db')" "rules_ok rt compiles (db_rules db)"
  shows "rules_ok rt compiles (db_rules db')"
proof -
  let ?r = "\<lambda>k def. \<lparr>qc_DatasetID = k, qc_Name = qd_Name def, qc_ColumnScope = qd_ColumnScope def,
    qc_RuleType = qd_RuleType def, qc_Configuration = qd_Configuration def, qc_Severity = qd_Severity def,
    qc_Enabled = Some (qd_Enabled def)\<rparr>"
  from assms(1) obtain d def k owner where val: "ValidateDefinition rt compiles d = Inr def"
    and run: "Quality_Create rt nil_null ruleID now owner (prin_UserID prin) (?r k def) db = Inr (q, db')"
    unfolding Quality_Service_Create_def bindE_Inr by blast
  note def = ValidateDefinition_Inr [OF val]
  from run show ?thesis
  proof (cases rule: Quality_Create_frame)
    case (1 cfg a)
    have "qr_columns q = qd_ColumnScope def"
      using 1(4) by (auto simp: column_array_def split: if_splits)
    then have "rule_ok rt compiles q"
      using rule_okI [OF val 1(5) _ _ _ 1(3)] 1 def by auto
    then show ?thesis using assms(2) 1(1,6,7,10)
      by (auto simp: rules_ok_def name_taken_def list_ex_iff)
  qed
qed

lemma find_active:
  "distinct (map qr_id rules) \<Longrightarrow> find (active_rule ruleID) rules = Some r \<Longrightarrow>
   r \<in> set rules \<and> qr_id r = ruleID \<and> qr_deleted r = None \<and> (\<forall>x \<in> set rules. active_rule ruleID x \<longrightarrow> x = r)"
  by (auto simp: find_Some_iff active_rule_def distinct_map dest: inj_onD)

lemma update_rules_ok:
  assumes "ValidateDefinition rt compiles d0 = Inr d" "rules_ok rt compiles (db_rules db)"
    "Quality_Update rt nil_null now ruleID actorID (whole_update d) db = Inr (q, db')"
  shows "rules_ok rt compiles (db_rules db')"
  using assms(3)
proof (cases rule: Quality_Update_frame)
  case (1 cfg a r)
  note def = ValidateDefinition_Inr [OF assms(1)]
  from assms(2) have dist: "distinct (map qr_id (db_rules db))" by (simp add: rules_ok_def)
  note r = find_active [OF dist 1(1)]
  have q: "qr_id q = ruleID" "qr_dataset q = qr_dataset r" "qr_deleted q = None" "qr_name q = qd_Name d" "qr_type q = qd_RuleType d"
    "qr_severity q = qd_Severity d" "qr_columns q = qd_ColumnScope d \<or> qd_ColumnScope d = [] \<and> qr_columns q = qr_columns r"
    using r by (auto simp: 1(2) updated_rule_def whole_update_def coalesce_def column_array_def)
  have upd: "rows_update (active_rule ruleID) (updated_rule nil_null now (whole_update d) cfg) (db_rules db) =
      row_update qr_id ruleID (\<lambda>_. q) (db_rules db)"
    using r dist by (auto simp: rows_update_def row_update_def 1(2) active_rule_def distinct_map dest: inj_onD)
  obtain c c' where c: "qd_Configuration d = Some c" "stored_config rt c = Some c'" "cfg = Some c'"
    using 1(4) def by (auto simp: whole_update_def)
  have "qr_config q = c'" by (simp add: 1(2) c(3) updated_rule_def coalesce_def)
  moreover have "columns_ok [] (qr_columns q)" "qr_columns q = qd_ColumnScope d \<or> qd_ColumnScope d = []"
    using q(7) def r assms(2) by (auto simp: rules_ok_def rule_ok_def)
  ultimately have "rule_ok rt compiles q"
    using rule_okI [OF assms(1) 1(3) q(4,5) c(1)] c(2) by simp
  moreover have mem: "set (db_rules db') = insert q (set (db_rules db) - {r})"
    using row_update_mem [OF dist, of r ruleID "\<lambda>_. q"] r by (simp add: 1(6) upd)
  moreover have "map qr_id (db_rules db') = map qr_id (db_rules db)"
    using q(1) by (auto simp: 1(6) upd row_update_def)
  moreover have other: "qr_id x \<noteq> ruleID" if "x \<in> set (db_rules db) - {r}" for x
    using that r dist by (auto simp: distinct_map dest: inj_onD)
  moreover have "qr_dataset x \<noteq> qr_dataset q \<or> qr_name x \<noteq> qr_name q"
    if "x \<in> set (db_rules db) - {r}" "qr_deleted x = None" for x
    using that 1(5) other [OF that(1)] by (auto simp: name_taken_def list_ex_iff)
  ultimately show ?thesis using assms(2) unfolding rules_ok_def by (metis DiffE insertE)
qed

lemma delete_rules_ok:
  assumes "Quality_Delete rt now ruleID actorID db = Inr (u, db')" "rules_ok rt compiles (db_rules db)"
  shows "rules_ok rt compiles (db_rules db')"
proof -
  have db': "db_rules db' = rows_update (active_rule ruleID) (\<lambda>r. r\<lparr>qr_deleted := Some now, qr_updated := now\<rparr>) (db_rules db)"
    using assms(1) by (auto simp: Quality_Delete_def rule_audit_def split: if_splits)
  have "map qr_id (db_rules db') = map qr_id (db_rules db)" by (simp add: db' rows_update_proj)
  moreover have "rule_ok rt compiles (r\<lparr>qr_deleted := t, qr_updated := now\<rparr>) = rule_ok rt compiles r" for r t
    by (simp add: rule_ok_def)
  moreover from this assms(2) have "\<forall>r \<in> set (db_rules db'). rule_ok rt compiles r"
    by (auto simp: rules_ok_def db' rows_update_def)
  moreover have "r \<in> set (db_rules db)" if "r \<in> set (db_rules db')" "qr_deleted r = None" for r
    using that by (auto simp: db' rows_update_def split: if_splits)
  ultimately show ?thesis using assms(2) unfolding rules_ok_def by metis
qed

end
