(* ===== verification/Storage.thy ===== *)
theory Storage
  imports Multipart Quality Transition
begin

text \<open>
  The storage side as a transition system: every transaction on datasets, versions, upload
  sessions, parts and quality rules, in any order, and the machines that single versions and
  sessions follow. The operations of the dataset and multipart services are runs of it.
\<close>

section \<open>Transactions\<close>

text \<open>What \<open>Initiate\<close> has checked of a request before it stores the session.\<close>

definition admissible :: "MultipartConfig \<Rightarrow> InitiateRequest \<Rightarrow> bool" where
  "admissible c r \<longleftrightarrow>
     MultipartConfig_validate c = Inr () \<and> 0 < ir_ExpectedSize r \<and> ir_ExpectedSize r \<le> mc_MaxBytes c \<and>
     1 \<le> part_count c (ir_ExpectedSize r) \<and> part_count c (ir_ExpectedSize r) \<le> mc_MaxParts c"

text \<open>
  One rule per transaction, with any arguments the services may pass; \<open>RegisterPart\<close> is only called
  with a part that fits the session, whose columns for the geometry never change.
\<close>

inductive storage :: "Runtime \<Rightarrow> (string \<Rightarrow> bool) \<Rightarrow> DB \<Rightarrow> DB \<Rightarrow> bool" for rt compiles where
  create_dataset: "CreateDataset lower datasetID now ownerID name description db = Inr (d, db') \<Longrightarrow> storage rt compiles db db'"
| delete_dataset: "DeleteDataset now datasetID actorID db = Inr (u, db') \<Longrightarrow> storage rt compiles db db'"
| reserve: "ReserveVersion now r db = Inr (v, db') \<Longrightarrow> storage rt compiles db db'"
| finalize: "finalizeVersion now datasetID versionID actorID bytes checksum sessionID token db = Inr (v, db') \<Longrightarrow>
    storage rt compiles db db'"
| abort_version: "AbortVersion now datasetID versionID actorID db = Inr (u, db') \<Longrightarrow> storage rt compiles db db'"
| fail_version: "FailVersion now datasetID versionID actorID reason db = Inr (u, db') \<Longrightarrow> storage rt compiles db db'"
| create_session: "admissible c r \<Longrightarrow>
    CreateSession (new_session rt c env now ownerID datasetID uploadID r request) db = Inr (u, db') \<Longrightarrow> storage rt compiles db db'"
| orphan_session: "admissible c r \<Longrightarrow>
    persistOrphanSession (new_session rt c env now ownerID datasetID uploadID r request) now' reason db = Inr (u, db') \<Longrightarrow>
    storage rt compiles db db'"
| begin_complete: "BeginComplete token sessionID ownerID now staleBefore db = (res, db') \<Longrightarrow> storage rt compiles db db'"
| begin_abort: "BeginAbort sessionID ownerID now db = Inr (s, db') \<Longrightarrow> storage rt compiles db db'"
| begin_reconciliation: "BeginReconciliation token sessionID now db = Inr (s, db') \<Longrightarrow> storage rt compiles db db'"
| reset: "ResetCompletion now sessionID token e db = Inr (u, db') \<Longrightarrow> storage rt compiles db db'"
| mark_completed: "MarkCompleted sessionID token now db = Inr (u, db') \<Longrightarrow> storage rt compiles db db'"
| mark_aborted: "MarkAborted sessionID now db = Inr (u, db') \<Longrightarrow> storage rt compiles db db'"
| mark_failed: "MarkFailed now sessionID token e db = Inr (u, db') \<Longrightarrow> storage rt compiles db db'"
| mark_expired: "MarkExpired sessionID e now db = Inr (u, db') \<Longrightarrow> storage rt compiles db db'"
| claim_expired: "ClaimExpired now staleBefore limit db = Inr (ss, db') \<Longrightarrow> storage rt compiles db db'"
| register_part: "row_find us_id sessionID (db_sessions db) = Some s \<Longrightarrow> 1 \<le> n \<Longrightarrow> n \<le> us_parts s \<Longrightarrow>
    bytes = expected_part_size s n \<Longrightarrow> RegisterPart now clock sessionID n etag bytes db = Inr (p, db') \<Longrightarrow>
    storage rt compiles db db'"
| create_rule: "Quality_Service_Create rt compiles nil_null ruleID now prin request db = Inr (q, db') \<Longrightarrow>
    storage rt compiles db db'"
| update_rule: "ValidateDefinition rt compiles d0 = Inr d \<Longrightarrow>
    Quality_Update rt nil_null now ruleID actorID (whole_update d) db = Inr (q, db') \<Longrightarrow> storage rt compiles db db'"
| delete_rule: "Quality_Delete rt now ruleID actorID db = Inr (u, db') \<Longrightarrow> storage rt compiles db db'"

section \<open>The life of a version\<close>

text \<open>
  A version is reserved under a fresh identifier, key and number; only while it is uploading can
  it be published, fail or be removed.
\<close>

inductive version_change :: "Version list \<Rightarrow> Version list \<Rightarrow> bool" where
  same: "version_change vs vs"
| reserved: "v_id v \<notin> v_id ` set vs \<Longrightarrow> v_object v \<notin> v_object ` set vs \<Longrightarrow>
    (\<And>u. u \<in> set vs \<Longrightarrow> v_dataset u = v_dataset v \<Longrightarrow> v_number u < v_number v) \<Longrightarrow>
    v_state v = ''UPLOADING'' \<Longrightarrow> version_change vs (vs @ [v])"
| published: "v \<in> set vs \<Longrightarrow> v_state v = ''UPLOADING'' \<Longrightarrow> 0 \<le> bytes \<Longrightarrow> lower_hex checksum \<Longrightarrow>
    version_change vs (row_update v_id (v_id v) (make_available now bytes checksum) vs)"
| failed: "v \<in> set vs \<Longrightarrow> v_state v = ''UPLOADING'' \<Longrightarrow>
    version_change vs (row_update v_id (v_id v) (\<lambda>v. v\<lparr>v_state := ''FAILED''\<rparr>) vs)"
| removed: "v \<in> set vs \<Longrightarrow> v_state v = ''UPLOADING'' \<Longrightarrow> version_change vs (filter (\<lambda>u. v_id u \<noteq> v_id v) vs)"

definition versions_ok :: "Version list \<Rightarrow> bool" where
  "versions_ok vs \<longleftrightarrow>
     distinct (map v_id vs) \<and> distinct (map v_object vs) \<and> distinct (map (\<lambda>v. (v_dataset v, v_number v)) vs) \<and>
     (\<forall>v \<in> set vs. v_state v \<in> {''UPLOADING'', ''AVAILABLE'', ''FAILED''} \<and>
        (v_state v = ''AVAILABLE'' \<longrightarrow>
          (\<exists>n c t. v_size v = Some n \<and> 0 \<le> n \<and> v_checksum v = Some c \<and> lower_hex c \<and> v_available v = Some t)))"

lemma make_available_simps [simp]:
  "v_id (make_available now n c v) = v_id v" "v_object (make_available now n c v) = v_object v"
  "v_dataset (make_available now n c v) = v_dataset v" "v_number (make_available now n c v) = v_number v"
  "v_state (make_available now n c v) = ''AVAILABLE''" "v_size (make_available now n c v) = Some n"
  "v_checksum (make_available now n c v) = Some c" "v_available (make_available now n c v) = Some now"
  by (simp_all add: make_available_def)

lemma find_versionD: "find_version datasetID versionID db = Some v \<Longrightarrow>
    v \<in> set (db_versions db) \<and> v_id v = versionID \<and> v_dataset v = datasetID"
  by (auto simp: find_version_def find_Some_iff)

lemma next_version_number:
  "v \<in> set (db_versions db) \<Longrightarrow> v_dataset v = datasetID \<Longrightarrow> v_number v < next_version_number datasetID db"
proof -
  assume "v \<in> set (db_versions db)" "v_dataset v = datasetID"
  then have mem: "v \<in> set (versions_of datasetID db)" by (simp add: versions_of_def)
  then obtain u where "max_row v_number (versions_of datasetID db) = Some u"
    by (metis empty_iff list.set(1) max_row_None option.exhaust)
  then show ?thesis using max_row_max [OF _ mem, of v_number u] by (simp add: next_version_number_def)
qed

lemma version_change_ok: "version_change vs vs' \<Longrightarrow> versions_ok vs \<Longrightarrow> versions_ok vs'"
proof (induction rule: version_change.induct)
  case (reserved v vs)
  then show ?case by (fastforce simp: versions_ok_def)
next
  case (published v vs bytes checksum now)
  then have d: "distinct (map v_id vs)" by (simp add: versions_ok_def)
  show ?case using published row_update_mem [OF d published(1) refl]
    by (simp add: versions_ok_def row_update_proj)
next
  case (failed v vs)
  then have d: "distinct (map v_id vs)" by (simp add: versions_ok_def)
  show ?case using failed row_update_mem [OF d failed(1) refl]
    by (simp add: versions_ok_def row_update_proj)
next
  case (removed v vs)
  then show ?case by (auto simp: versions_ok_def distinct_map_filter)
qed

text \<open>What is published stays as it is.\<close>

lemma version_change_keeps:
  "version_change vs vs' \<Longrightarrow> versions_ok vs \<Longrightarrow> u \<in> set vs \<Longrightarrow> v_state u \<noteq> ''UPLOADING'' \<Longrightarrow> u \<in> set vs'"
proof (induction rule: version_change.induct)
  case (published v vs bytes checksum now)
  then have d: "distinct (map v_id vs)" by (simp add: versions_ok_def)
  show ?case using published row_update_mem [OF d published(1) refl] by auto
next
  case (failed v vs)
  then have d: "distinct (map v_id vs)" by (simp add: versions_ok_def)
  show ?case using failed row_update_mem [OF d failed(1) refl] by auto
next
  case (removed v vs)
  then have "v_id u \<noteq> v_id v" by (auto simp: versions_ok_def distinct_map dest: inj_onD)
  then show ?case using removed by simp
qed auto

section \<open>What each transaction changes\<close>

lemmas statements = add_dataset_history_def update_dataset_def update_version_def restore_dataset_def update_session_def

lemma CreateDataset_frame:
  "CreateDataset lower datasetID now ownerID name description db = Inr (d, db') \<Longrightarrow>
   \<exists>h. db' = db\<lparr>db_datasets := db_datasets db @ [d], db_dataset_history := h\<rparr> \<and>
     ds_id d \<notin> ds_id ` set (db_datasets db) \<and> ds_state d = ''REGISTERED'' \<and> ds_deleted d = None"
  by (auto simp: CreateDataset_def Let_def statements split: if_splits)

lemma DeleteDataset_frame:
  "DeleteDataset now datasetID actorID db = Inr (u, db') \<Longrightarrow>
   db' = db \<or> (\<exists>h d. row_find ds_id datasetID (db_datasets db) = Some d \<and> ds_state d \<noteq> ''DELETED'' \<and>
     db' = db\<lparr>db_datasets := row_update ds_id datasetID (\<lambda>d. d\<lparr>ds_state := ''DELETED'',
       ds_deleted := (case ds_deleted d of None \<Rightarrow> Some now | Some t \<Rightarrow> Some t), ds_updated := now\<rparr>) (db_datasets db),
       db_sessions := rows_update (active_session datasetID) (cancel_session now) (db_sessions db),
       db_dataset_history := h\<rparr>)"
  by (auto simp: DeleteDataset_def Let_def statements split: if_splits option.splits)

text \<open>A dataset follows its versions: what a transaction does to the row of one dataset.\<close>

lemma ReserveVersion_frame:
  assumes "ReserveVersion now r db = Inr (v, db')"
  obtains d h where "row_find ds_id (v_dataset v) (db_datasets db) = Some d" "ds_state d \<noteq> ''DELETED''"
    "v_state v = ''UPLOADING''" "vr_ID r = v_id v" "v_id v \<notin> v_id ` set (db_versions db)"
    "v_object v \<notin> v_object ` set (db_versions db)" "v_number v = next_version_number (v_dataset v) db"
    "db' = db\<lparr>db_versions := db_versions db @ [v], db_dataset_history := h,
       db_datasets := (if ds_state d = ''UPLOADING'' then db_datasets db
         else row_update ds_id (v_dataset v) (\<lambda>d. d\<lparr>ds_state := ''UPLOADING'', ds_updated := now\<rparr>) (db_datasets db))\<rparr>"
proof -
  from assms obtain d where d: "row_find ds_id (vr_DatasetID r) (db_datasets db) = Some d"
    by (auto simp: ReserveVersion_def split: option.splits)
  note run = assms [unfolded ReserveVersion_def d option.case Let_def statements]
  show thesis
    by (rule that [of d "db_dataset_history db'"]) (use d run in \<open>auto split: if_splits\<close>)
qed

lemma finalizeVersion_frame:
  assumes "finalizeVersion now datasetID versionID actorID bytes checksum sessionID token db = Inr (v, db')"
  obtains (same) "db' = db" "find_version datasetID versionID db = Some v" "v_state v = ''AVAILABLE''"
      "v_size v = Some bytes" "v_checksum v = Some checksum"
  | (published) u h where "find_version datasetID versionID db = Some u" "v_state u = ''UPLOADING''" "0 \<le> bytes"
      "lower_hex checksum" "v = make_available now bytes checksum u"
      "db' = db\<lparr>db_versions := row_update v_id versionID (make_available now bytes checksum) (db_versions db),
         db_dataset_history := h, db_datasets := row_update ds_id datasetID
           (\<lambda>d. if ds_deleted d = None then d\<lparr>ds_state := ''AVAILABLE'', ds_updated := now\<rparr> else d) (db_datasets db)\<rparr>"
proof -
  from assms obtain u where u: "find_version datasetID versionID db = Some u"
    by (auto simp: finalizeVersion_def split: option.splits if_splits)
  show thesis
  proof (cases "v_state u = ''AVAILABLE''")
    case True
    then show thesis using assms u
      by (intro same) (auto simp: finalizeVersion_def split: option.splits if_splits)
  next
    case False
    then show thesis using assms u
      by (intro published [of u "db_dataset_history db'"])
        (auto simp: finalizeVersion_def statements split: option.splits if_splits)
  qed
qed

lemma AbortVersion_frame:
  assumes "AbortVersion now datasetID versionID actorID db = Inr (u, db')"
  obtains d v h st where "row_find ds_id datasetID (db_datasets db) = Some d"
    "find_version datasetID versionID db = Some v" "v_state v = ''UPLOADING''"
    "ds_state d \<noteq> ''DELETED'' \<Longrightarrow> st = restored_state datasetID db'"
    "\<not> list_ex (\<lambda>j. j_version j = versionID) (db_jobs db)"
    "db' = db\<lparr>db_versions := filter (\<lambda>v. v_id v \<noteq> versionID) (db_versions db),
       db_sessions := filter (\<lambda>s. us_version s \<noteq> versionID) (db_sessions db),
       db_parts := filter (\<lambda>p. pt_session p \<notin> us_id ` {s \<in> set (db_sessions db). us_version s = versionID}) (db_parts db),
       db_dataset_history := h, db_datasets := row_update ds_id datasetID
         (\<lambda>x. if ds_state x \<noteq> ''DELETED'' then x\<lparr>ds_state := st, ds_updated := now\<rparr> else x) (db_datasets db)\<rparr>"
proof -
  from assms obtain d v where dv: "row_find ds_id datasetID (db_datasets db) = Some d"
    "find_version datasetID versionID db = Some v" "v_state v = ''UPLOADING''"
    by (auto simp: AbortVersion_def split: option.splits if_splits)
  obtain db1 where db1: "delete_version versionID db = Inr db1"
    using assms dv by (auto simp: AbortVersion_def bindE_Inr)
  let ?st = "if ds_state d \<noteq> ''DELETED'' then restored_state datasetID db1 else ds_state d"
  have db': "db' = add_dataset_history datasetID (Some ''UPLOADING'') ?st ''version_upload_aborted''
      (nullable_actor actorID) (restore_dataset now datasetID ?st db1)"
    using assms dv by (simp add: AbortVersion_def db1 Let_def)
  show thesis
    by (rule that [of d v ?st "db_dataset_history db'"])
      (use dv db1 in \<open>auto simp: db' delete_version_def statements restored_state_def Let_def split: if_splits\<close>)
qed

lemma FailVersion_frame:
  assumes "FailVersion now datasetID versionID actorID reason db = Inr (u, db')"
  obtains (same) v where "db' = db" "find_version datasetID versionID db = Some v" "v_state v = ''FAILED''"
  | (failed) d v h st where "row_find ds_id datasetID (db_datasets db) = Some d"
    "find_version datasetID versionID db = Some v" "v_state v = ''UPLOADING''"
    "ds_state d \<noteq> ''DELETED'' \<Longrightarrow> st = restored_state datasetID db'"
    "db' = db\<lparr>db_versions := row_update v_id versionID (\<lambda>v. v\<lparr>v_state := ''FAILED''\<rparr>) (db_versions db),
       db_dataset_history := h, db_datasets := row_update ds_id datasetID
         (\<lambda>x. if ds_state x \<noteq> ''DELETED'' then x\<lparr>ds_state := st, ds_updated := now\<rparr> else x) (db_datasets db)\<rparr>"
proof -
  from assms obtain d v where dv: "row_find ds_id datasetID (db_datasets db) = Some d"
    "find_version datasetID versionID db = Some v"
    by (auto simp: FailVersion_def split: option.splits if_splits)
  show thesis
  proof (cases "v_state v = ''FAILED''")
    case True
    then show thesis using same dv assms by (simp add: FailVersion_def)
  next
    case False
    let ?db1 = "update_version versionID (\<lambda>v. v\<lparr>v_state := ''FAILED''\<rparr>) db"
    let ?st = "if ds_state d \<noteq> ''DELETED'' then restored_state datasetID ?db1 else ds_state d"
    have db': "db' = add_dataset_history datasetID (Some ''UPLOADING'') ?st (truncateStateReason reason)
      (nullable_actor actorID) (restore_dataset now datasetID ?st ?db1)" and up: "v_state v = ''UPLOADING''"
      using assms dv False by (auto simp: FailVersion_def Let_def split: if_splits)
    show thesis
      by (rule failed [of d v ?st "db_dataset_history db'"])
        (use dv up in \<open>auto simp: db' statements restored_state_def\<close>)
  qed
qed

text \<open>The transactions by the tables they write: sessions and parts, rules, or those of the dataset.\<close>

lemma storage_kinds [consumes 1, case_names create_dataset delete_dataset reserve finalize abort_version fail_version sessions rules]:
  assumes "storage rt compiles db db'"
  obtains lower datasetID now ownerID name description d where
      "CreateDataset lower datasetID now ownerID name description db = Inr (d, db')"
  | now datasetID actorID u where "DeleteDataset now datasetID actorID db = Inr (u, db')"
  | now r v where "ReserveVersion now r db = Inr (v, db')"
  | now datasetID versionID actorID bytes checksum sessionID token v where
      "finalizeVersion now datasetID versionID actorID bytes checksum sessionID token db = Inr (v, db')"
  | now datasetID versionID actorID u where "AbortVersion now datasetID versionID actorID db = Inr (u, db')"
  | now datasetID versionID actorID reason u where "FailVersion now datasetID versionID actorID reason db = Inr (u, db')"
  | ss ps where "db' = db\<lparr>db_sessions := ss, db_parts := ps\<rparr>"
  | rs a where "db' = db\<lparr>db_rules := rs, db_audit := a\<rparr>" "rules_ok rt compiles (db_rules db) \<Longrightarrow> rules_ok rt compiles rs"
proof -
  note sessions = that(7) [where ss = "db_sessions db'" and ps = "db_parts db'"]
  note rules = that(8) [where rs = "db_rules db'" and a = "db_audit db'"]
  from assms show thesis
  proof cases
    case begin_complete
    then show thesis by (intro sessions) (auto simp: BeginComplete_def Let_def statements split: option.splits if_splits session_state.splits)
  next
    case begin_abort
    then show thesis by (intro sessions) (auto simp: BeginAbort_def statements split: option.splits session_state.splits)
  next
    case create_rule
    then show thesis
      by (intro rules create_rules_ok [OF create_rule])
        (auto simp: Quality_Service_Create_def bindE_Inr elim!: Quality_Create_frame)
  next
    case update_rule
    then show thesis by (intro rules update_rules_ok [OF update_rule(1) _ update_rule(2)]) (auto elim!: Quality_Update_frame)
  next
    case delete_rule
    then show thesis
      by (intro rules delete_rules_ok [OF delete_rule]) (auto simp: Quality_Delete_def rule_audit_def split: if_splits)
  next
    case register_part
    then show thesis by (intro sessions) (auto simp: RegisterPart_def bindE_Inr split: if_splits)
  next
    case create_session
    then show thesis by (intro sessions) (auto simp: CreateSession_def Let_def split: if_splits)
  next
    case orphan_session
    then show thesis by (intro sessions) (auto simp: persistOrphanSession_def CreateSession_def Let_def split: if_splits)
  next
    case begin_reconciliation
    then show thesis by (intro sessions) (auto simp: BeginReconciliation_def statements split: option.splits if_splits)
  next
    case claim_expired
    then show thesis by (intro sessions) (auto simp: ClaimExpired_def bindE_Inr Let_def)
  next
    case create_dataset
    then show thesis by (rule that(1))
  next
    case delete_dataset
    then show thesis by (rule that(2))
  next
    case reserve
    then show thesis by (rule that(3))
  next
    case finalize
    then show thesis by (rule that(4))
  next
    case abort_version
    then show thesis by (rule that(5))
  next
    case fail_version
    then show thesis by (rule that(6))
  next
    case reset
    then show thesis by (intro sessions) (auto simp: ResetCompletion_def update_where_def split: if_splits)
  next
    case mark_completed
    then show thesis by (intro sessions) (auto simp: MarkCompleted_def update_where_def split: if_splits)
  next
    case mark_aborted
    then show thesis by (intro sessions) (auto simp: MarkAborted_def update_where_def split: if_splits)
  next
    case mark_failed
    then show thesis by (intro sessions) (auto simp: MarkFailed_def update_where_def split: if_splits)
  next
    case mark_expired
    then show thesis by (intro sessions) (auto simp: MarkExpired_def update_where_def split: if_splits)
  qed
qed

lemma storage_versions:
  assumes "storage rt compiles db db'" "versions_ok (db_versions db)"
  shows "version_change (db_versions db) (db_versions db')"
  using assms(1)
proof (cases rule: storage_kinds)
  case (reserve now r v)
  then show ?thesis
    by (elim ReserveVersion_frame) (auto intro!: version_change.reserved next_version_number)
next
  case (finalize now datasetID versionID actorID bytes checksum sessionID token v)
  then show ?thesis
  proof (cases rule: finalizeVersion_frame)
    case (published u h)
    then show ?thesis using find_versionD version_change.published [of u] by fastforce
  qed (simp add: version_change.same)
next
  case (abort_version now datasetID versionID actorID u)
  then show ?thesis
    by (elim AbortVersion_frame) (use find_versionD version_change.removed in fastforce)
next
  case (fail_version now datasetID versionID actorID reason u)
  then show ?thesis
  proof (cases rule: FailVersion_frame)
    case (failed d v h st)
    then show ?thesis using find_versionD version_change.failed [of v] by fastforce
  qed (simp add: version_change.same)
next
  case create_dataset
  then show ?thesis by (auto dest!: CreateDataset_frame intro: version_change.same)
next
  case delete_dataset
  then show ?thesis by (auto dest!: DeleteDataset_frame intro: version_change.same)
qed (auto intro: version_change.same)

section \<open>The life of a session\<close>

text \<open>The states an upload session may move to; completed, aborted and expired sessions are final.\<close>

fun session_next :: "session_state \<Rightarrow> session_state list" where
  "session_next Initiated = [Completing, Aborting]"
| "session_next Completing = [Initiated, Completed, SessionFailed, Aborting]"
| "session_next Aborting = [Completing, Aborted, Expired, SessionFailed]"
| "session_next SessionFailed = [Aborting, Aborted]"
| "session_next _ = []"

text \<open>The columns written once, when the session is created.\<close>

definition session_key :: "Session \<Rightarrow> Session" where
  "session_key s =
    s\<lparr>us_state := Initiated, us_expires := 0, us_updated := 0, us_completed := None, us_aborted := None, us_error := None,
      us_token := None, us_started := None\<rparr>"

definition session_move :: "Session \<Rightarrow> Session \<Rightarrow> bool" where
  "session_move s s' \<longleftrightarrow>
     session_key s' = session_key s \<and> (us_state s' = us_state s \<or> us_state s' \<in> set (session_next (us_state s))) \<and>
     ((us_state s = Completing \<longleftrightarrow> us_token s \<noteq> None) \<longrightarrow> (us_state s' = Completing \<longleftrightarrow> us_token s' \<noteq> None))"

lemma session_keyD:
  assumes "session_key s' = session_key s"
  shows "us_id s' = us_id s" "us_version s' = us_version s" "us_size s' = us_size s" "us_parts s' = us_parts s"
    "us_partsize s' = us_partsize s" "us_dataset s' = us_dataset s" "us_owner s' = us_owner s" "us_object s' = us_object s"
    "us_checksum s' = us_checksum s" "us_upload s' = us_upload s" "us_idem s' = us_idem s"
  using assms by (cases s, cases s', simp add: session_key_def)+

lemma session_move_keys:
  "session_move s s' \<Longrightarrow> us_id s' = us_id s \<and> us_version s' = us_version s \<and> us_parts s' = us_parts s \<and>
     us_partsize s' = us_partsize s \<and> us_size s' = us_size s"
  using session_keyD [of s' s] by (simp add: session_move_def)

lemma session_move_refl [simp]: "session_move s s"
  by (simp add: session_move_def)

text \<open>The sizes of a session: as many parts as the size needs, no wrap-around of 64 bits.\<close>

definition session_ok :: "Session \<Rightarrow> bool" where
  "session_ok s \<longleftrightarrow>
     (us_state s = Completing \<longleftrightarrow> us_token s \<noteq> None) \<and> 0 < us_size s \<and> 0 < us_partsize s \<and>
     us_parts s = (us_size s - 1) div us_partsize s + 1 \<and> us_parts s \<le> 10000 \<and> us_partsize s \<le> 5 * 1024 * 1024 * 1024"

lemma session_move_ok: "session_move s s' \<Longrightarrow> session_ok s \<Longrightarrow> session_ok s'"
  using session_keyD [of s' s] by (auto simp: session_move_def session_ok_def)

inductive session_change :: "DB \<Rightarrow> DB \<Rightarrow> bool" where
  moved: "list_all2 session_move (db_sessions db) (db_sessions db') \<Longrightarrow> db_parts db' = db_parts db \<Longrightarrow> session_change db db'"
| created: "us_id s \<notin> us_id ` set (db_sessions db) \<Longrightarrow> us_version s \<notin> us_version ` set (db_sessions db) \<Longrightarrow>
    us_version s \<in> v_id ` set (db_versions db) \<Longrightarrow>
    session_ok s \<Longrightarrow> db_sessions db' = db_sessions db @ [s] \<Longrightarrow> db_parts db' = db_parts db \<Longrightarrow> session_change db db'"
| registered: "s \<in> set (db_sessions db) \<Longrightarrow> us_id s = pt_session p \<Longrightarrow> 1 \<le> pt_number p \<Longrightarrow> pt_number p \<le> us_parts s \<Longrightarrow>
    pt_size p = expected_part_size s (pt_number p) \<Longrightarrow>
    (pt_session p, pt_number p) \<notin> (\<lambda>p. (pt_session p, pt_number p)) ` set (db_parts db) \<Longrightarrow>
    db_sessions db' = db_sessions db \<Longrightarrow> db_parts db' = db_parts db @ [p] \<Longrightarrow> session_change db db'"
| removed: "db_sessions db' = filter (\<lambda>s. us_version s \<noteq> k) (db_sessions db) \<Longrightarrow>
    db_parts db' = filter (\<lambda>p. pt_session p \<notin> us_id ` {s \<in> set (db_sessions db). us_version s = k}) (db_parts db) \<Longrightarrow>
    session_change db db'"

text \<open>
  Registered parts belong to a session, within its bounds, and have the size it expects of them.
\<close>

definition parts_ok :: "DB \<Rightarrow> bool" where
  "parts_ok db \<longleftrightarrow>
     distinct (map (\<lambda>p. (pt_session p, pt_number p)) (db_parts db)) \<and>
     (\<forall>p \<in> set (db_parts db). \<exists>s \<in> set (db_sessions db). us_id s = pt_session p \<and> 1 \<le> pt_number p \<and>
        pt_number p \<le> us_parts s \<and> pt_size p = expected_part_size s (pt_number p))"

definition sessions_ok :: "Session list \<Rightarrow> bool" where
  "sessions_ok ss \<longleftrightarrow> distinct (map us_id ss) \<and> distinct (map us_version ss) \<and> (\<forall>s \<in> set ss. session_ok s)"

lemma session_change_ok:
  "session_change db db' \<Longrightarrow> sessions_ok (db_sessions db) \<Longrightarrow> sessions_ok (db_sessions db')"
proof (induction rule: session_change.induct)
  case (moved db db')
  have "map us_id (db_sessions db') = map us_id (db_sessions db)" "map us_version (db_sessions db') = map us_version (db_sessions db)"
    by (rule all2_map_eq [OF moved(1)], simp add: session_move_keys)+
  moreover have "session_ok s'" if "s' \<in> set (db_sessions db')" for s'
    using all2_image [OF moved(1) that] moved(3) session_move_ok by (auto simp: sessions_ok_def)
  ultimately show ?case using moved(3) by (simp add: sessions_ok_def)
qed (auto simp: sessions_ok_def distinct_map_filter)

lemma expected_part_size_move: "session_move s s' \<Longrightarrow> expected_part_size s' n = expected_part_size s n"
  by (simp add: expected_part_size_def session_move_keys)

lemma session_change_parts: "session_change db db' \<Longrightarrow> parts_ok db \<Longrightarrow> parts_ok db'"
proof (induction rule: session_change.induct)
  case (moved db db')
  have "\<exists>s' \<in> set (db_sessions db'). us_id s' = pt_session p \<and> pt_number p \<le> us_parts s' \<and> pt_size p = expected_part_size s' (pt_number p)"
    if "s \<in> set (db_sessions db)" "us_id s = pt_session p" "pt_number p \<le> us_parts s" "pt_size p = expected_part_size s (pt_number p)"
    for s p
    using all2_forward [OF moved(1) that(1)] that session_move_keys expected_part_size_move by metis
  then show ?case using moved by (fastforce simp: parts_ok_def)
next
  case (removed db' k db)
  have "\<exists>s \<in> set (db_sessions db'). us_id s = pt_session p \<and> 1 \<le> pt_number p \<and> pt_number p \<le> us_parts s \<and>
      pt_size p = expected_part_size s (pt_number p)" if p: "p \<in> set (db_parts db')" for p
  proof -
    from p removed obtain s where s: "s \<in> set (db_sessions db)" "us_id s = pt_session p" "1 \<le> pt_number p"
      "pt_number p \<le> us_parts s" "pt_size p = expected_part_size s (pt_number p)"
      by (auto simp: parts_ok_def)
    moreover have "us_version s \<noteq> k" using p s(1,2) removed(2) by (auto simp: image_iff)
    ultimately show ?thesis using removed(1) by auto
  qed
  then show ?case using removed by (auto simp: parts_ok_def distinct_map_filter)
qed (fastforce simp: parts_ok_def)+

text \<open>Claims and marks of one operation on one session.\<close>

lemma session_moves:
  "us_state s \<in> {Initiated, Completing, Aborting} \<Longrightarrow> session_move s (start_completion now token s)"
  "us_state s \<in> {Initiated, Completing, Aborting} \<Longrightarrow> session_move s (expire_session now s)"
  "us_state s \<in> {Initiated, Completing, Aborting} \<Longrightarrow> session_move s (cancel_session now s)"
  "us_state s \<in> {Initiated, SessionFailed} \<Longrightarrow> session_move s (s\<lparr>us_state := Aborting, us_updated := now\<rparr>)"
  by (cases "us_state s"; simp add: session_move_def session_key_def start_completion_def expire_session_def cancel_session_def)+

lemma update_where_change:
  assumes "update_where P f db = Inr (u, db')" "\<And>s. P s \<Longrightarrow> session_move s (f s)"
  shows "session_change db db'"
  using assms by (auto simp: update_where_def split: if_splits intro!: session_change.moved rows_update_all2)

lemma new_session_ok:
  assumes "admissible c r" "us_state s = Initiated \<or> us_state s = Aborting" "us_token s = None"
    "us_size s = ir_ExpectedSize r" "us_partsize s = mc_PartSize c" "us_parts s = part_count c (ir_ExpectedSize r)"
  shows "session_ok s"
  using assms by (auto simp: admissible_def session_ok_def part_count_def MultipartConfig_validate_def split: if_splits)

lemma CreateSession_frame:
  "CreateSession s db = Inr (u, db') \<Longrightarrow>
   db' = db\<lparr>db_sessions := db_sessions db @ [session_row s]\<rparr> \<and> us_id s \<notin> us_id ` set (db_sessions db) \<and>
     us_version s \<notin> us_version ` set (db_sessions db) \<and> us_version s \<in> v_id ` set (db_versions db)"
  by (auto simp: CreateSession_def Let_def session_row_def list_ex_iff split: if_splits)

lemma CreateSession_change:
  assumes "CreateSession s db = Inr (u, db')" "session_ok (session_row s)"
  shows "session_change db db'"
  using CreateSession_frame [OF assms(1)] assms(2)
  by (intro session_change.created [of "session_row s"]) (auto simp: session_row_def)

lemma session_change_refl [simp]: "session_change db db"
  by (auto intro!: session_change.moved list.rel_refl)

lemma update_session_change:
  assumes "sessions_ok (db_sessions db)" "s \<in> set (db_sessions db)" "us_id s = k" "session_move s (f s)"
  shows "session_change db (update_session k f db)"
  using assms row_update_all2 [of us_id "db_sessions db" s k session_move f]
  by (auto simp: update_session_def sessions_ok_def intro: session_change.moved)

lemma BeginComplete_change:
  assumes "BeginComplete token sessionID ownerID now staleBefore db = (res, db')" "sessions_ok (db_sessions db)"
  shows "session_change db db'"
proof (cases "locked_session sessionID ownerID db")
  case None
  then show ?thesis using assms by (simp add: BeginComplete_def)
next
  case (Some s)
  then have s: "s \<in> set (db_sessions db)" "us_id s = sessionID"
    by (auto simp: locked_session_def find_Some_iff)
  show ?thesis
    using assms(1) Some update_session_change [OF assms(2) s] session_moves(1,2) [of s]
    by (cases "us_state s") (auto simp: BeginComplete_def Let_def split: if_splits option.splits)
qed

lemma BeginAbort_change:
  assumes "BeginAbort sessionID ownerID now db = Inr (r, db')" "sessions_ok (db_sessions db)"
  shows "session_change db db'"
proof (cases "locked_session sessionID ownerID db")
  case (Some s)
  then have s: "s \<in> set (db_sessions db)" "us_id s = sessionID"
    by (auto simp: locked_session_def find_Some_iff)
  show ?thesis
    using assms(1) Some update_session_change [OF assms(2) s] session_moves(4) [of s]
    by (cases "us_state s") (auto simp: BeginAbort_def)
qed (use assms in \<open>simp add: BeginAbort_def\<close>)

lemma BeginReconciliation_change:
  assumes "BeginReconciliation token sessionID now db = Inr (r, db')" "sessions_ok (db_sessions db)"
  shows "session_change db db'"
proof (cases "row_find us_id sessionID (db_sessions db)")
  case (Some s)
  then show ?thesis
    using assms(1) update_session_change [OF assms(2), of s] row_find_SomeD [OF Some] session_moves(1) [of s]
    by (auto simp: BeginReconciliation_def split: if_splits)
qed (use assms in \<open>simp add: BeginReconciliation_def\<close>)

lemma ClaimExpired_change:
  assumes "ClaimExpired now staleBefore limit db = Inr (ss, db')" "sessions_ok (db_sessions db)"
  shows "session_change db db'"
proof -
  let ?sel = "take (nat limit) (sort_key (\<lambda>s. (us_expires s, us_id s)) (filter (claimable_session now staleBefore) (db_sessions db)))"
  have db': "db_sessions db' = rows_update (\<lambda>s. us_id s \<in> set (map us_id ?sel)) (expire_session now) (db_sessions db)"
    using assms(1) by (auto simp: ClaimExpired_def Let_def bindE_Inr)
  have "claimable_session now staleBefore s" if "s \<in> set (db_sessions db)" "us_id s \<in> set (map us_id ?sel)" for s
  proof -
    from that(2) obtain t where "t \<in> set ?sel" "us_id t = us_id s" by auto
    moreover from this(1) have "t \<in> set (db_sessions db)" "claimable_session now staleBefore t"
      by (auto dest!: in_set_takeD)
    moreover have "inj_on us_id (set (db_sessions db))" using assms(2) by (simp add: sessions_ok_def distinct_map)
    ultimately show ?thesis using that(1) by (metis inj_onD)
  qed
  then have "us_state s \<in> {Initiated, Completing, Aborting}"
    if "s \<in> set (db_sessions db)" "us_id s \<in> set (map us_id ?sel)" for s
    using that unfolding claimable_session_def by blast
  then have "list_all2 session_move (db_sessions db) (db_sessions db')" unfolding db'
    by (intro rows_update_all2 session_moves(2) session_move_refl)
  then show ?thesis using assms(1) by (auto simp: ClaimExpired_def Let_def bindE_Inr intro: session_change.moved)
qed

lemma mark_moves:
  "operation_owns k token s \<Longrightarrow> session_move s (s\<lparr>us_state := Initiated, us_updated := now, us_error := e, us_token := None,
     us_started := None\<rparr>)"
  "operation_owns k token s \<Longrightarrow> session_move s (s\<lparr>us_state := Completed, us_updated := now, us_completed := t, us_error := e,
     us_token := None, us_started := None\<rparr>)"
  "us_state s \<in> {Aborting, SessionFailed} \<Longrightarrow> session_move s (s\<lparr>us_state := Aborted, us_updated := now, us_aborted := t\<rparr>)"
  "us_state s \<in> {Completing, Aborting} \<Longrightarrow> session_move s (s\<lparr>us_state := SessionFailed, us_updated := now, us_error := e,
     us_token := None, us_started := None\<rparr>)"
  "us_state s = Aborting \<Longrightarrow> session_move s (s\<lparr>us_state := Expired, us_updated := now, us_aborted := t, us_error := e\<rparr>)"
  by (auto simp: session_move_def session_key_def operation_owns_def)

lemma session_change_same:
  "db_sessions db' = db_sessions db \<Longrightarrow> db_parts db' = db_parts db \<Longrightarrow> session_change db db'"
  by (auto intro!: session_change.moved list.rel_refl)

lemma RegisterPart_change:
  assumes "RegisterPart now clock sessionID n etag bytes db = Inr (p, db')" "row_find us_id sessionID (db_sessions db) = Some s"
    "1 \<le> n" "n \<le> us_parts s" "bytes = expected_part_size s n"
  shows "session_change db db'"
proof (cases "insertable_part now sessionID n db")
  case True
  then have "db' = db\<lparr>db_parts := db_parts db @ [\<lparr>pt_session = sessionID, pt_number = n, pt_etag = etag,
      pt_size = bytes, pt_created = now\<rparr>]\<rparr>"
    using assms(1) by (auto simp: RegisterPart_def bindE_Inr split: if_splits)
  then show ?thesis
    using assms row_find_SomeD [OF assms(2)] True by (intro session_change.registered [of s]) (auto simp: insertable_part_def)
next
  case False
  then show ?thesis using assms(1) by (auto simp: RegisterPart_def bindE_Inr split: if_splits)
qed

lemma storage_sessions:
  assumes "storage rt compiles db db'" "sessions_ok (db_sessions db)"
  shows "session_change db db'"
  using assms(1)
proof cases
  case (delete_dataset now datasetID actorID u)
  then show ?thesis
    by (auto dest!: DeleteDataset_frame
        intro!: session_change.moved rows_update_all2 session_moves(3) list.rel_refl simp: active_session_def)
next
  case (finalize now datasetID versionID actorID bytes checksum sessionID token v)
  then show ?thesis by (cases rule: finalizeVersion_frame) (auto intro!: session_change_same)
next
  case (fail_version now datasetID versionID actorID reason u)
  then show ?thesis by (cases rule: FailVersion_frame) (auto intro!: session_change_same)
next
  case (create_session c r env now ownerID datasetID uploadID request u)
  then show ?thesis
    by (intro CreateSession_change [OF create_session(2)] new_session_ok [OF create_session(1)])
      (auto simp: session_row_def new_session_def split: prod.splits)
next
  case (orphan_session c r env now ownerID datasetID uploadID request now' reason u)
  then show ?thesis
    by (intro CreateSession_change [OF orphan_session(2) [unfolded persistOrphanSession_def]] new_session_ok [OF orphan_session(1)])
      (auto simp: session_row_def new_session_def split: prod.splits)
next
  case reset
  then show ?thesis unfolding ResetCompletion_def by (rule update_where_change) (rule mark_moves)
next
  case mark_completed
  then show ?thesis unfolding MarkCompleted_def by (rule update_where_change) (rule mark_moves)
next
  case mark_aborted
  then show ?thesis unfolding MarkAborted_def by (rule update_where_change) (auto intro: mark_moves)
next
  case mark_failed
  then show ?thesis unfolding MarkFailed_def by (rule update_where_change) (auto intro: mark_moves)
next
  case mark_expired
  then show ?thesis unfolding MarkExpired_def by (rule update_where_change) (auto intro: mark_moves)
next
  case create_dataset
  then show ?thesis by (auto dest!: CreateDataset_frame intro!: session_change_same)
next
  case reserve
  then show ?thesis by (auto elim!: ReserveVersion_frame intro!: session_change_same)
next
  case (abort_version now datasetID versionID actorID u)
  then show ?thesis by (auto elim!: AbortVersion_frame intro!: session_change.removed [where k = versionID])
next
  case (register_part sessionID s n bytes now clock etag p)
  then show ?thesis by (auto intro: RegisterPart_change)
next
  case create_rule
  then show ?thesis
    by (auto simp: Quality_Service_Create_def bindE_Inr elim!: Quality_Create_frame intro!: session_change_same)
next
  case update_rule
  then show ?thesis by (auto elim!: Quality_Update_frame intro!: session_change_same)
next
  case delete_rule
  then show ?thesis by (auto simp: Quality_Delete_def rule_audit_def split: if_splits intro!: session_change_same)
qed (use assms(2) in \<open>auto intro: BeginComplete_change BeginAbort_change BeginReconciliation_change ClaimExpired_change\<close>)

section \<open>Datasets follow their versions\<close>

definition states_of :: "uuid \<Rightarrow> Version list \<Rightarrow> string set" where
  "states_of k vs = v_state ` {v \<in> set vs. v_dataset v = k}"

definition dataset_ok :: "Dataset \<Rightarrow> string set \<Rightarrow> bool" where
  "dataset_ok d S \<longleftrightarrow>
     ds_state d \<in> {''REGISTERED'', ''UPLOADING'', ''AVAILABLE'', ''DELETED''} \<and>
     (ds_state d = ''DELETED'' \<longleftrightarrow> ds_deleted d \<noteq> None) \<and>
     (ds_state d = ''REGISTERED'' \<longrightarrow> ''AVAILABLE'' \<notin> S) \<and>
     (ds_state d = ''AVAILABLE'' \<longrightarrow> ''AVAILABLE'' \<in> S) \<and>
     (ds_state d = ''UPLOADING'' \<longrightarrow> ''UPLOADING'' \<in> S)"

definition datasets_ok :: "DB \<Rightarrow> bool" where
  "datasets_ok db \<longleftrightarrow>
     distinct (map ds_id (db_datasets db)) \<and> v_dataset ` set (db_versions db) \<subseteq> ds_id ` set (db_datasets db) \<and>
     (\<forall>d \<in> set (db_datasets db). dataset_ok d (states_of (ds_id d) (db_versions db)))"

lemma states_of_append: "states_of k (vs @ [v]) = states_of k vs \<union> (if v_dataset v = k then {v_state v} else {})"
  by (auto simp: states_of_def)

lemma states_of_update:
  assumes "distinct (map v_id vs)" "v \<in> set vs" "v_dataset (f v) = v_dataset v"
  shows "k \<noteq> v_dataset v \<Longrightarrow> states_of k (row_update v_id (v_id v) f vs) = states_of k vs"
    "v_state (f v) \<in> states_of (v_dataset v) (row_update v_id (v_id v) f vs)"
  using assms row_update_mem [OF assms(1,2) refl, of f] by (auto simp: states_of_def)

lemma states_of_filter: 
  assumes "distinct (map v_id vs)" "v \<in> set vs" "k \<noteq> v_dataset v"
  shows "states_of k (filter (\<lambda>u. v_id u \<noteq> v_id v) vs) = states_of k vs"
  using assms by (auto simp: states_of_def distinct_map inj_on_def)

lemma restored_state_of: "restored_state k db = (if ''AVAILABLE'' \<in> states_of k (db_versions db) then ''AVAILABLE'' else ''REGISTERED'')"
  by (force simp: restored_state_def states_of_def list_ex_iff)

lemma datasets_ok_update:
  assumes "datasets_ok db" "d \<in> set (db_datasets db)" "ds_id (f d) = ds_id d"
    "dataset_ok (f d) (states_of (ds_id d) vs)" "v_dataset ` set vs \<subseteq> insert (ds_id d) (v_dataset ` set (db_versions db))"
    "\<And>k. k \<noteq> ds_id d \<Longrightarrow> states_of k vs = states_of k (db_versions db)"
    "db_datasets db' = row_update ds_id (ds_id d) f (db_datasets db)" "db_versions db' = vs"
  shows "datasets_ok db'"
proof -
  have dist: "distinct (map ds_id (db_datasets db))" using assms(1) by (simp add: datasets_ok_def)
  note mem = row_update_mem [OF dist assms(2) refl, of f]
  have "ds_id x \<noteq> ds_id d" if "x \<in> set (db_datasets db) - {d}" for x
    using dist that assms(2) by (auto simp: distinct_map dest: inj_onD)
  then have "dataset_ok x (states_of (ds_id x) vs)" if "x \<in> set (db_datasets db')" for x
    using that assms mem by (auto simp: datasets_ok_def)
  moreover have "map ds_id (db_datasets db') = map ds_id (db_datasets db)"
    using dist assms(2,3,7) by (auto simp: row_update_def distinct_map inj_on_def)
  moreover from this have "ds_id ` set (db_datasets db') = ds_id ` set (db_datasets db)"
    by (metis set_map)
  moreover have "v_dataset ` set vs \<subseteq> ds_id ` set (db_datasets db)"
    using assms(1,2,5) by (auto simp: datasets_ok_def)
  ultimately show ?thesis using assms(8) dist by (simp add: datasets_ok_def)
qed

text \<open>The four transactions that change a version also set the state of its dataset.\<close>

lemma datasets_ok_unique: "datasets_ok db \<Longrightarrow> row_find ds_id k (db_datasets db) = Some d \<Longrightarrow> x \<in> set (db_datasets db) \<Longrightarrow> ds_id x = k \<Longrightarrow> x = d"
  by (auto simp: datasets_ok_def distinct_map dest!: row_find_SomeD dest: inj_onD)

lemma storage_datasets:
  assumes "storage rt compiles db db'" "datasets_ok db" "versions_ok (db_versions db)"
  shows "datasets_ok db'"
  using assms(1)
proof (cases rule: storage_kinds)
  case (create_dataset lower datasetID now ownerID name description d)
  then obtain h where db': "db' = db\<lparr>db_datasets := db_datasets db @ [d], db_dataset_history := h\<rparr>"
    and d: "ds_id d \<notin> ds_id ` set (db_datasets db)" "ds_state d = ''REGISTERED''" "ds_deleted d = None"
    by (auto dest!: CreateDataset_frame)
  have "v_dataset v \<noteq> ds_id d" if "v \<in> set (db_versions db)" for v
    using assms(2) d(1) that unfolding datasets_ok_def by (metis image_subset_iff)
  then have "states_of (ds_id d) (db_versions db) = {}" by (auto simp: states_of_def)
  then show ?thesis using assms(2) d by (auto simp: db' datasets_ok_def dataset_ok_def)
next
  case (delete_dataset now datasetID actorID u)
  from DeleteDataset_frame [OF this] show ?thesis
  proof (elim disjE exE conjE)
    fix h d
    assume d: "row_find ds_id datasetID (db_datasets db) = Some d" and db': "db' = db\<lparr>db_datasets :=
      row_update ds_id datasetID (\<lambda>d. d\<lparr>ds_state := ''DELETED'', ds_deleted := (case ds_deleted d of None \<Rightarrow> Some now | Some t \<Rightarrow> Some t),
        ds_updated := now\<rparr>) (db_datasets db),
      db_sessions := rows_update (active_session datasetID) (cancel_session now) (db_sessions db), db_dataset_history := h\<rparr>"
    note d' = row_find_SomeD [OF d]
    show ?thesis
      by (rule datasets_ok_update [OF assms(2), of d _ "db_versions db"])
        (use d' in \<open>auto simp: db' dataset_ok_def split: option.splits\<close>)
  qed (use assms(2) in simp)
next
  case (reserve now r v)
  then show ?thesis
  proof (cases rule: ReserveVersion_frame)
    case (1 d h)
    note d' = row_find_SomeD [OF 1(1)]
    then have ok: "dataset_ok d (states_of (ds_id d) (db_versions db))" using assms(2) unfolding datasets_ok_def by blast
    let ?f = "if ds_state d = ''UPLOADING'' then id else (\<lambda>x. x\<lparr>ds_state := ''UPLOADING'', ds_updated := now\<rparr>)"
    show ?thesis
      by (rule datasets_ok_update [OF assms(2), of d ?f "db_versions db @ [v]"])
        (use d' ok 1 in \<open>auto simp: dataset_ok_def states_of_append\<close>)
  qed
next
  case (finalize now datasetID versionID actorID bytes checksum sessionID token v)
  then obtain d where d: "row_find ds_id datasetID (db_datasets db) = Some d" "ds_deleted d = None"
    by (auto simp: finalizeVersion_def split: option.splits if_splits)
  note d' = row_find_SomeD [OF d(1)]
  from finalize show ?thesis
  proof (cases rule: finalizeVersion_frame)
    case (published u h)
    note u = find_versionD [OF published(1)]
    let ?f = "\<lambda>d. if ds_deleted d = None then d\<lparr>ds_state := ''AVAILABLE'', ds_updated := now\<rparr> else d"
    note st = states_of_update [of "db_versions db" u "make_available now bytes checksum"]
    show ?thesis
      by (rule datasets_ok_update [OF assms(2), of d ?f])
        (use d d' u st assms(3) published(6) in \<open>auto simp: dataset_ok_def versions_ok_def row_update_def\<close>)
  qed (use assms(2) in simp)
next
  case (abort_version now datasetID versionID actorID u)
  then show ?thesis
  proof (cases rule: AbortVersion_frame)
    case (1 d v h st)
    note d' = row_find_SomeD [OF 1(1)] and v = find_versionD [OF 1(2)]
    have ok: "dataset_ok d (states_of (ds_id d) (db_versions db))" using assms(2) d' unfolding datasets_ok_def by blast
    let ?f = "\<lambda>x. if ds_state x \<noteq> ''DELETED'' then x\<lparr>ds_state := st, ds_updated := now\<rparr> else x"
    have vs: "db_versions db' = filter (\<lambda>u. v_id u \<noteq> v_id v) (db_versions db)" using 1(6) v by simp
    have new: "dataset_ok (?f d) (states_of (ds_id d) (db_versions db'))"
      using ok 1(4) d' by (auto simp: dataset_ok_def restored_state_of)
    have other: "states_of k (db_versions db') = states_of k (db_versions db)" if "k \<noteq> ds_id d" for k
      using states_of_filter [of "db_versions db" v k] v d' that assms(3) by (simp add: vs versions_ok_def)
    show ?thesis
      by (rule datasets_ok_update [OF assms(2), of d ?f, OF _ _ new _ other]) (use d' vs 1(6) in auto)
  qed
next
  case (fail_version now datasetID versionID actorID reason u)
  then show ?thesis
  proof (cases rule: FailVersion_frame)
    case (failed d v h st)
    note d' = row_find_SomeD [OF failed(1)] and v = find_versionD [OF failed(2)]
    have ok: "dataset_ok d (states_of (ds_id d) (db_versions db))" using assms(2) d' unfolding datasets_ok_def by blast
    let ?f = "\<lambda>x. if ds_state x \<noteq> ''DELETED'' then x\<lparr>ds_state := st, ds_updated := now\<rparr> else x"
    note st = states_of_update [of "db_versions db" v "\<lambda>v. v\<lparr>v_state := ''FAILED''\<rparr>"]
    have vs: "db_versions db' = row_update v_id (v_id v) (\<lambda>v. v\<lparr>v_state := ''FAILED''\<rparr>) (db_versions db)" using failed(5) v by simp
    have new: "dataset_ok (?f d) (states_of (ds_id d) (db_versions db'))"
      using ok failed(4) d' by (auto simp: dataset_ok_def restored_state_of)
    have other: "states_of k (db_versions db') = states_of k (db_versions db)" if "k \<noteq> ds_id d" for k
      using st(1) [of k] v d' that assms(3) by (simp add: vs versions_ok_def)
    show ?thesis
      by (rule datasets_ok_update [OF assms(2), of d ?f, OF _ _ new _ other])
        (use d' failed(5) in \<open>auto simp: row_update_def\<close>)
  qed (use assms(2) in simp)
qed (use assms(2) in \<open>auto simp: datasets_ok_def\<close>)

text \<open>A session refers to a version that is there.\<close>

definition sessions_refer :: "DB \<Rightarrow> bool" where
  "sessions_refer db \<longleftrightarrow> us_version ` set (db_sessions db) \<subseteq> v_id ` set (db_versions db)"

lemma session_change_refer:
  assumes "session_change db db'" "sessions_refer db" "v_id ` set (db_versions db) \<subseteq> v_id ` set (db_versions db')"
  shows "sessions_refer db'"
  using assms(1)
proof cases
  case moved
  have "map us_version (db_sessions db') = map us_version (db_sessions db)"
    by (rule all2_map_eq [OF moved(1)], simp add: session_move_keys)
  then have "us_version ` set (db_sessions db') = us_version ` set (db_sessions db)" by (metis set_map)
  then show ?thesis using assms(2,3) by (simp add: sessions_refer_def)
qed (use assms(2,3) in \<open>auto simp: sessions_refer_def image_subset_iff\<close>)

lemma storage_refer:
  assumes "storage rt compiles db db'" "sessions_refer db" "sessions_ok (db_sessions db)" "versions_ok (db_versions db)"
  shows "sessions_refer db'"
proof -
  note sess = session_change_refer [OF storage_sessions [OF assms(1,3)] assms(2)]
  show ?thesis
  proof (cases "\<exists>now datasetID versionID actorID u. AbortVersion now datasetID versionID actorID db = Inr (u, db')")
    case True
    then show ?thesis using assms(2) by (force simp: sessions_refer_def elim!: AbortVersion_frame)
  next
    case False
    from assms(1) have "v_id ` set (db_versions db) \<subseteq> v_id ` set (db_versions db')"
    proof (cases rule: storage_kinds)
      case finalize
      then show ?thesis by (cases rule: finalizeVersion_frame) (auto simp: row_update_image)
    next
      case fail_version
      then show ?thesis by (cases rule: FailVersion_frame) (auto simp: row_update_image)
    qed (use False in \<open>auto dest!: CreateDataset_frame DeleteDataset_frame elim!: ReserveVersion_frame\<close>)
    then show ?thesis by (rule sess)
  qed
qed

section \<open>The invariant\<close>

definition storage_ok :: "Runtime \<Rightarrow> (string \<Rightarrow> bool) \<Rightarrow> DB \<Rightarrow> bool" where
  "storage_ok rt compiles db \<longleftrightarrow>
     versions_ok (db_versions db) \<and> sessions_ok (db_sessions db) \<and> parts_ok db \<and> sessions_refer db \<and> datasets_ok db \<and>
     rules_ok rt compiles (db_rules db)"

text \<open>Before the first dataset.\<close>

definition no_storage :: "DB \<Rightarrow> bool" where
  "no_storage db \<longleftrightarrow> db_datasets db = [] \<and> db_versions db = [] \<and> db_sessions db = [] \<and> db_parts db = [] \<and> db_rules db = []"

lemma storage_rules:
  assumes "storage rt compiles db db'" "rules_ok rt compiles (db_rules db)"
  shows "rules_ok rt compiles (db_rules db')"
  using assms(1)
proof (cases rule: storage_kinds)
  case finalize
  then show ?thesis using assms(2) by (cases rule: finalizeVersion_frame) auto
next
  case fail_version
  then show ?thesis using assms(2) by (cases rule: FailVersion_frame) auto
qed (use assms(2) in \<open>auto dest!: CreateDataset_frame DeleteDataset_frame elim!: ReserveVersion_frame AbortVersion_frame\<close>)

lemma storage_ok_step:
  assumes "storage_ok rt compiles db" "storage rt compiles db db'"
  shows "storage_ok rt compiles db'"
proof -
  have ok: "versions_ok (db_versions db)" "sessions_ok (db_sessions db)" "parts_ok db" "sessions_refer db" "datasets_ok db"
    "rules_ok rt compiles (db_rules db)" using assms(1) by (simp_all add: storage_ok_def)
  note change = storage_sessions [OF assms(2) ok(2)]
  show ?thesis unfolding storage_ok_def
    using version_change_ok [OF storage_versions [OF assms(2) ok(1)] ok(1)] session_change_ok [OF change ok(2)]
      session_change_parts [OF change ok(3)] storage_refer [OF assms(2) ok(4,2,1)] storage_datasets [OF assms(2) ok(5,1)]
      storage_rules [OF assms(2) ok(6)] by (intro conjI)
qed

lemma no_storage_ok: "no_storage db \<Longrightarrow> storage_ok rt compiles db"
  by (simp add: no_storage_def storage_ok_def versions_ok_def sessions_ok_def parts_ok_def sessions_refer_def datasets_ok_def
      rules_ok_def)

interpretation store: invariant_system no_storage "storage rt compiles" "storage_ok rt compiles" for rt compiles
  by unfold_locales (rule no_storage_ok, assumption, rule storage_ok_step)

text \<open>What is published, or has failed, stays as it is in every run.\<close>

lemma storage_run_keeps:
  assumes "(storage rt compiles)\<^sup>*\<^sup>* db db'" "storage_ok rt compiles db" "v \<in> set (db_versions db)" "v_state v \<noteq> ''UPLOADING''"
  shows "v \<in> set (db_versions db')"
  using assms(1)
proof (induction rule: rtranclp_induct)
  case (step y z)
  then have "versions_ok (db_versions y)"
    using store.steps_inv [OF step(1) assms(2)] by (simp add: storage_ok_def)
  then show ?case using version_change_keeps [OF storage_versions [OF step(2)]] step.IH assms(4) by blast
qed (rule assms(3))

text \<open>The tables of the jobs and of the messages are not written.\<close>

lemma storage_frame:
  assumes "storage rt compiles db db'"
  shows "db_jobs db' = db_jobs db \<and> db_history db' = db_history db \<and> db_quotas db' = db_quotas db \<and>
    db_projections db' = db_projections db \<and> db_attempts db' = db_attempts db \<and>
    db_inbox db' = db_inbox db \<and> db_outbox db' = db_outbox db"
  using assms
proof (cases rule: storage_kinds)
  case finalize
  then show ?thesis by (cases rule: finalizeVersion_frame) auto
next
  case fail_version
  then show ?thesis by (cases rule: FailVersion_frame) auto
qed (auto dest!: CreateDataset_frame DeleteDataset_frame elim!: ReserveVersion_frame AbortVersion_frame)

end
