(* ===== verification/System.thy ===== *)
theory System
  imports Jobs Leases Results Dlq Scheduler Storage
begin

text \<open>
  The control plane as one transition system: a step is one committed transaction of any of
  its processes (the API, the scheduler, the result consumer) on the shared database, in any
  order. The invariant and the refinement of \<open>Lifecycle\<close> hold in every reachable state.
\<close>

section \<open>The transactions of the control plane\<close>

text \<open>
  One rule per transaction; those on datasets, uploads and rules are the steps of \<open>Storage\<close>.
\<close>

inductive plane :: "Runtime \<Rightarrow> DB \<Rightarrow> DB \<Rightarrow> bool" for rt where
  create: "Job_Service_Create rt rules Outbox_Enqueue draws fresh now prin versionID request key requestID db =
      Inr (created, db') \<Longrightarrow> plane rt db db'"
| cancel: "Job_Service_Cancel rt Outbox_Enqueue msgID now prin jobID reason requestID db = Inr (job, db') \<Longrightarrow>
    plane rt db db'"
| retry: "Job_Service_Retry rt Outbox_Enqueue attemptID msgID now prin jobID requestID db = Inr (job, db') \<Longrightarrow>
    plane rt db db'"
| replay: "Dlq_Service_Replay rt Outbox_Enqueue attemptID msgID now prin c db = Inr (r, db') \<Longrightarrow> plane rt db db'"
| acquire: "Acquire rt Outbox_Enqueue (SelectForLease ttl) config leaseID msgID now c db = Inr (lease, db') \<Longrightarrow>
    plane rt db db'"
| renew: "Renew config now rc db = Inr (lease, db') \<Longrightarrow> plane rt db db'"
| sweep: "SweepExpired rt Outbox_Enqueue config draws' now limit db = Inr (report, db') \<Longrightarrow> plane rt db db'"
| result: "Process rt (Some Outbox_Enqueue) policy rdraws now envelope db = Inr (out, db') \<Longrightarrow> plane rt db db'"
| worker: "ApplyEnvelope rt now envelope db = Inr db' \<Longrightarrow> plane rt db db'"
| claim: "Claim tok now d limit db = Inr (ms, db') \<Longrightarrow> plane rt db db'"
| published: "MarkPublished messageID token now db = Inr db' \<Longrightarrow> plane rt db db'"
| unpublished: "MarkRetry messageID token nextAttempt e maxAttempts db = Inr db' \<Longrightarrow> plane rt db db'"
| store: "storage rt compiles db db' \<Longrightarrow> plane rt db db'"

text \<open>Before the first job: no row in any table that the jobs own.\<close>

definition no_jobs :: "DB \<Rightarrow> bool" where
  "no_jobs db \<longleftrightarrow> db_jobs db = [] \<and> db_attempts db = [] \<and> db_history db = [] \<and> db_quotas db = [] \<and>
     db_projections db = []"

lemma no_jobs_consistent: "no_jobs db \<Longrightarrow> consistent db"
  by (simp add: no_jobs_def consistent_def quota_exact_def queued_of_def active_of_def queued_jobs_def
      active_jobs_def row_find_def count_rows_def)

lemma Service_Create_Inr:
  "Job_Service_Create rt rules enqueue draws fresh now prin versionID request key requestID db = Inr (created, db') \<Longrightarrow>
   \<exists>c. Job_Create rt rules enqueue draws now c db = Inr (created, db')"
  by (auto simp: Job_Service_Create_def bindE_Inr Let_def split: if_splits prod.splits)

lemma Service_Cancel_Inr:
  "Job_Service_Cancel rt enqueue msgID now prin jobID reason requestID db = Inr r \<Longrightarrow>
   \<exists>c. RequestCancel rt enqueue msgID now c db = Inr r"
  by (auto simp: Job_Service_Cancel_def bindE_Inr split: if_splits)

lemma Service_Retry_Inr:
  "Job_Service_Retry rt enqueue attemptID msgID now prin jobID requestID db = Inr r \<Longrightarrow>
   \<exists>c. RequestRetry rt enqueue attemptID msgID now c db = Inr r"
  by (auto simp: Job_Service_Retry_def bindE_Inr split: if_splits)

lemma Replay_not_Inr: "Replay rt enqueue attemptID msgID now c db \<noteq> Inr r"
proof
  assume "Replay rt enqueue attemptID msgID now c db = Inr r"
  then have "\<exists>j envelope. replay_envelope rt msgID now c j = Inr envelope"
    unfolding Replay_def by (auto simp: bindE_Inr Let_def split: if_splits prod.splits)
  then show False using replay_envelope_refused [of rt msgID now c] by (metis Inl_Inr_False)
qed

lemma Service_Replay_not_Inr: "Dlq_Service_Replay rt enqueue attemptID msgID now prin c db \<noteq> Inr r"
  using Replay_not_Inr by (auto simp: Dlq_Service_Replay_def bindE_Inr split: if_splits)

lemma ApplyEnvelope_frame: "ApplyEnvelope rt now envelope db = Inr db' \<Longrightarrow> \<exists>ws. db' = db\<lparr>db_workers := ws\<rparr>"
  by (auto simp: ApplyEnvelope_def ApplyRegistration_def ApplyHeartbeat_def bindE_Inr
      split: if_splits option.splits)

lemma claim_loop_frame:
  "claim_loop now d tok ms db = Inr (ms', db') \<Longrightarrow> \<exists>rows. db' = db\<lparr>db_outbox := rows\<rparr>"
proof (induction ms arbitrary: db ms')
  case Nil
  then show ?case by (intro exI [of _ "db_outbox db"]) simp
next
  case (Cons m ms)
  then show ?case by (fastforce simp: bindE_Inr Let_def split: if_splits)
qed

lemma Claim_frame: "Claim tok now d limit db = Inr (ms, db') \<Longrightarrow> \<exists>rows. db' = db\<lparr>db_outbox := rows\<rparr>"
  by (auto simp: Claim_def bindE_Inr Let_def split: if_splits dest: claim_loop_frame)

lemma Mark_frame:
  "MarkPublished i t now db = Inr db' \<Longrightarrow> \<exists>rows. db' = db\<lparr>db_outbox := rows\<rparr>"
  "MarkRetry i t nx e mx db = Inr db' \<Longrightarrow> \<exists>rows. db' = db\<lparr>db_outbox := rows\<rparr>"
  by (auto simp: MarkPublished_def MarkRetry_def split: if_splits)

lemma frame_change:
  "\<exists>rows. db' = db\<lparr>db_outbox := rows\<rparr> \<Longrightarrow> change db db'"
  "\<exists>ws. db' = db\<lparr>db_workers := ws\<rparr> \<Longrightarrow> change db db'"
  by (auto intro: change_same)

text \<open>Every transaction is a sequence of changes of the job tables.\<close>

lemma plane_changes: "consistent db \<Longrightarrow> plane rt db db' \<Longrightarrow> change\<^sup>*\<^sup>* db db'"
proof (erule plane.cases, goal_cases)
  case (1 rules draws fresh now prin versionID request key requestID db created db')
  then obtain c item replay where "Job_Create rt rules Outbox_Enqueue draws now c db = Inr ((item, replay), db')"
    using Service_Create_Inr by (metis surj_pair)
  then show ?case using 1 outbox_enqueuer.Create_change by blast
next
  case 2
  then show ?case using Service_Cancel_Inr outbox_enqueuer.RequestCancel_change by blast
next
  case 3
  then show ?case using Service_Retry_Inr outbox_enqueuer.RequestRetry_change by blast
next
  case 4
  then show ?case using Service_Replay_not_Inr by blast
next
  case 5
  then show ?case using lease_repo.Acquire_change by blast
next
  case 6
  then show ?case using Renew_change by blast
next
  case 7
  then show ?case using outbox_enqueuer.SweepExpired_changes(1) by blast
next
  case 8
  then show ?case using outbox_enqueuer.Process_change by blast
next
  case 9
  then show ?case using frame_change(2) [OF ApplyEnvelope_frame] by blast
next
  case 10
  then show ?case using frame_change(1) [OF Claim_frame] by blast
next
  case 11
  then show ?case using frame_change(1) [OF Mark_frame(1)] by blast
next
  case 12
  then show ?case using frame_change(1) [OF Mark_frame(2)] by blast
next
  case 13
  then show ?case using storage_frame by (blast intro: change_same)
qed

lemma changes_consistent: "change\<^sup>*\<^sup>* db db' \<Longrightarrow> consistent db \<Longrightarrow> consistent db'"
  by (induction rule: rtranclp_induct) (auto intro: change_consistent)

interpretation control_plane: simulated_system no_jobs "plane rt" consistent change life_of refines for rt
  by unfold_locales
    (auto intro: no_jobs_consistent plane_changes change_consistent change_refines
      dest: plane_changes changes_consistent)

section \<open>The life of a job in a run\<close>

text \<open>Read on one job, a run of the abstract machine is a run of its lifecycle.\<close>

lemma refines_job:
  assumes "refines m m'" "m k = Some l"
  shows "\<exists>l'. m' k = Some l' \<and> lifecycle\<^sup>*\<^sup>* l l'"
proof -
  from assms(1) consider "m' = m" | i where "m i = None" "m' = m(i \<mapsto> (Queued, [ACreated]))"
    | i l0 l1 where "m i = Some l0" "lifecycle l0 l1" "m' = m(i \<mapsto> l1)"
    unfolding refines_def by blast
  then show ?thesis
  proof cases
    case (2 i)
    then have "m' k = Some l" using assms(2) by auto
    then show ?thesis by blast
  next
    case 3
    then show ?thesis using assms(2) by (cases "k = i") auto
  qed (use assms(2) in blast)
qed

lemma refines_run_job:
  "refines\<^sup>*\<^sup>* m m' \<Longrightarrow> m k = Some l \<Longrightarrow> \<exists>l'. m' k = Some l' \<and> lifecycle\<^sup>*\<^sup>* l l'"
proof (induction rule: rtranclp_induct)
  case (step y z)
  then obtain l1 where l1: "y k = Some l1" "lifecycle\<^sup>*\<^sup>* l l1" by blast
  from refines_job [OF step.hyps(2) l1(1)] obtain l2 where "z k = Some l2" "lifecycle\<^sup>*\<^sup>* l1 l2" by blast
  then show ?case using l1(2) by (meson rtranclp_trans)
qed auto

lemma lifecycle_final: "lifecycle l l' \<Longrightarrow> fst l \<noteq> Succeeded \<and> fst l \<noteq> Cancelled"
  by (cases rule: lifecycle.cases) auto

lemma lifecycle_run_final: "lifecycle\<^sup>*\<^sup>* l l' \<Longrightarrow> fst l = Succeeded \<or> fst l = Cancelled \<Longrightarrow> l' = l"
  by (induction rule: converse_rtranclp_induct) (auto dest: lifecycle_final)

text \<open>An attempt that is closed keeps its state, and attempts are only added at the end.\<close>

lemma lifecycle_grows: "lifecycle l l' \<Longrightarrow> length (snd l) \<le> length (snd l')"
  by (induction rule: lifecycle.induct) auto

lemma lifecycle_keeps:
  "lifecycle l l' \<Longrightarrow> i < length (snd l) \<Longrightarrow> \<not> is_open (snd l ! i) \<Longrightarrow> snd l' ! i = snd l ! i"
  by (induction rule: lifecycle.induct) (auto simp: nth_append held_open split: if_splits)

lemma lifecycle_run_keeps:
  "lifecycle\<^sup>*\<^sup>* l l' \<Longrightarrow> i < length (snd l) \<Longrightarrow> \<not> is_open (snd l ! i) \<Longrightarrow>
   i < length (snd l') \<and> snd l' ! i = snd l ! i"
proof (induction rule: rtranclp_induct)
  case (step y z)
  then show ?case using lifecycle_keeps [of y z i] lifecycle_grows [of y z] by auto
qed simp

end
