(* ===== verification/Samples.thy ===== *)
theory Samples
  imports System "HOL-Library.Code_Target_Nat"
begin

text \<open>
  Concrete inputs on which the properties are exercised: an instance of the functions the
  program takes from elsewhere, one owner with a dataset version and a worker, and a database
  for each stage of the life of one job.
\<close>

text \<open>Reducing a small number to a word needs no division.\<close>

lemma take_bit_small [code]:
  "take_bit n (k :: int) = (if 0 \<le> k \<and> k < 9223372036854775808 \<and> 63 \<le> n then k else k mod 2 ^ n)"
proof (cases "0 \<le> k \<and> k < 9223372036854775808 \<and> 63 \<le> n")
  case True
  have "k < 2 ^ 63" using True by simp
  also have "(2 :: int) ^ 63 \<le> 2 ^ n" using True by (intro power_increasing) auto
  finally show ?thesis using True by (simp add: take_bit_int_eq_self_iff)
qed (auto simp: take_bit_eq_mod)

section \<open>A runtime\<close>

text \<open>A UUID is written in unary, which is injective and has the parser as its inverse.\<close>

definition sample_runtime :: Runtime where
  "sample_runtime =
    \<lparr>uuid_String = (\<lambda>u. replicate (unat u) (CHR ''u'')), json_size = (\<lambda>v. 1), json_quote = (\<lambda>s. s),
     float64_text = (\<lambda>r. ''0''), float32_text = (\<lambda>r. ''0''), parse_float = (\<lambda>s. Some (of_nat (length s))),
     sha256_hex = (\<lambda>s. s), uuid_Parse = (\<lambda>s. Some (of_nat (length s))),
     time_Parse = (\<lambda>s. Some (int (length s))), json_fold = (\<lambda>s. s)\<rparr>"

lemma sample_runtime_inj: "inj (uuid_String sample_runtime)"
  by (rule injI) (simp add: sample_runtime_def word_unat_eq_iff)

section \<open>A database and its users\<close>

definition sample_user :: Principal where
  "sample_user = \<lparr>prin_UserID = 7, prin_Role = RoleUser, prin_Scopes = DefaultUserScopes, prin_AuthMethod = AuthMethodBearer\<rparr>"

definition sample_worker :: Worker where
  "sample_worker =
    \<lparr>w_id = 21, w_instance = ''w'', w_host = ''h'', w_ops = [''PROFILE_DATASET''], w_software = ''1'',
     w_status = WReady, w_current = 0, w_max = 1, w_started = 1, w_observed = 1, w_heartbeat = Some 900,
     w_assigned = None\<rparr>"

definition sample_base :: DB where
  "sample_base = empty_db
    \<lparr>db_datasets := [\<lparr>ds_id = 11, ds_owner = 7, ds_name = ''d'', ds_description = [], ds_state = ''AVAILABLE'', ds_created = 1,
       ds_updated = 1, ds_deleted = None\<rparr>],
     db_versions := [\<lparr>v_id = 12, v_dataset = 11, v_number = 1, v_state = ''AVAILABLE'', v_filename = ''a.csv'', v_ctype = ''text/csv'',
       v_format = ''CSV'', v_size = Some 10, v_object = ''k'', v_checksum = Some (replicate 64 (CHR ''a'')), v_source = [], v_prefix = ''p'',
       v_creator = 7, v_created = 1, v_available = Some 1\<rparr>],
     db_workers := [sample_worker]\<rparr>"

definition sample_operation :: Operation where
  "sample_operation = \<lparr>op_Type = ''PROFILE_DATASET'', op_Config = Some []\<rparr>"

definition sample_rules :: "any \<Rightarrow> unit result" where
  "sample_rules v = Inr ()"

definition sample_draws :: CreateDraws where
  "sample_draws = \<lparr>cd_job = 31, cd_attempt = 32, cd_idem = 33, cd_message = 34\<rparr>"

definition sample_command :: CreateCommand where
  "sample_command =
    \<lparr>cc_OwnerUserID = 7, cc_ActorUserID = 7, cc_DatasetVersionID = 12, cc_Operations = [sample_operation],
     cc_IdempotencyKey = ''key'', cc_Priority = 0, cc_MaxAttempts = 2, cc_TraceID = ''t'', cc_CorrelationID = [],
     cc_CausationID = ''t''\<rparr>"

section \<open>The stages of a job\<close>

definition sample_job :: "job_state \<Rightarrow> Job" where
  "sample_job s = (new_job 31 sample_command ''f'' 1000)\<lparr>j_state := s\<rparr>"

definition sample_attempt :: "attempt_state \<Rightarrow> Attempt" where
  "sample_attempt s =
    (if s = ACreated then new_attempt 32 31 1 1000
     else (new_attempt 32 31 1 1000)\<lparr>a_state := s, a_lease := Some 41, a_worker := Some 21, a_leased := Some 1100,
       a_renewed := Some 1100, a_expires := Some 2000\<rparr>)"

definition sample_history :: "job_state option \<Rightarrow> job_state \<Rightarrow> History" where
  "sample_history s t = \<lparr>h_job = 31, h_from = s, h_to = t, h_reason = ''r'', h_actor = None\<rparr>"

definition sample_db :: "job_state \<Rightarrow> attempt_state \<Rightarrow> History list \<Rightarrow> int \<Rightarrow> int \<Rightarrow> DB" where
  "sample_db s a hs queued active = sample_base
    \<lparr>db_jobs := [sample_job s], db_attempts := [sample_attempt a], db_history := hs,
     db_quotas := [\<lparr>q_owner = 7, q_queued = queued, q_active = active, q_updated = 1000\<rparr>]\<rparr>"

definition sample_queued :: DB where
  "sample_queued = sample_db Queued ACreated [sample_history None Queued] 1 0"

definition sample_leased :: DB where
  "sample_leased = sample_db Leased ALeased [sample_history None Queued, sample_history (Some Queued) Leased] 0 1"

definition sample_running :: DB where
  "sample_running = sample_db Running ARunning
    [sample_history None Queued, sample_history (Some Queued) Leased, sample_history (Some Leased) Running] 0 1"

definition sample_dead :: DB where
  "sample_dead = sample_db DeadLettered ATimedOut
    [sample_history None Queued, sample_history (Some Queued) Leased, sample_history (Some Leased) DeadLettered] 0 0"

definition sample_done :: DB where
  "sample_done = sample_db Succeeded ASucceeded
    [sample_history None Queued, sample_history (Some Queued) Leased, sample_history (Some Leased) Running,
     sample_history (Some Running) Succeeded] 0 0"

lemmas sample_defs = sample_db_def sample_base_def empty_db_def sample_job_def sample_attempt_def sample_history_def
  new_job_def new_attempt_def sample_command_def

lemma sample_base_no_jobs: "no_jobs sample_base"
  by (simp add: no_jobs_def sample_base_def empty_db_def)

lemma sample_db_consistent:
  assumes "agree s a" "hist_path None hs s" "\<forall>h \<in> set hs. h_job h = 31"
    "queued = (if s = Queued then 1 else 0)" "active = (if is_active s then 1 else 0)"
  shows "consistent (sample_db s a hs queued active)"
  using assms
  by (auto simp: consistent_def sample_defs job_ok_def life_ok_def attempts_of_def history_of_def numbered_def
      has_lease_def held_def quota_exact_def queued_of_def active_of_def queued_jobs_def active_jobs_def
      row_find_def count_rows_def)

lemma samples_consistent:
  "consistent sample_queued" "consistent sample_leased" "consistent sample_running" "consistent sample_dead"
  "consistent sample_done"
  unfolding sample_queued_def sample_leased_def sample_running_def sample_dead_def sample_done_def
  by (rule sample_db_consistent; simp add: sample_history_def transition_ok_iff is_active_def)+

section \<open>Messages\<close>

definition sample_event :: "uuid \<Rightarrow> string \<Rightarrow> (string \<times> json) list \<Rightarrow> Envelope" where
  "sample_event msgID messageType kvs =
    \<lparr>env_MessageID = msgID, env_MessageType = messageType, env_SchemaVersion = 1, env_OccurredAt = 1200,
     env_TraceID = ''t'', env_CorrelationID = ''t'', env_CausationID = ''t'',
     env_Payload = \<lparr>raw_len = 10, raw_value = Some (JObj kvs)\<rparr>\<rparr>"

definition sample_uuid :: "uuid \<Rightarrow> json" where
  "sample_uuid u = JStr (uuid_String sample_runtime u)"

definition sample_identity :: "uuid \<Rightarrow> (string \<times> json) list" where
  "sample_identity leaseID =
    [(''jobId'', sample_uuid 31), (''attemptId'', sample_uuid 32), (''leaseId'', sample_uuid leaseID)]"

definition sample_started :: Envelope where
  "sample_started = sample_event 51 MessageJobStarted
    (sample_identity 41 @ [(''workerId'', sample_uuid 21), (''attemptNumber'', JNum ''1'')])"

definition sample_succeeded :: "uuid \<Rightarrow> Envelope" where
  "sample_succeeded leaseID = sample_event 52 MessageJobSucceeded
    (sample_identity leaseID @ [(''workerId'', sample_uuid 21), (''artifacts'', JArr [])])"

definition sample_failed :: Envelope where
  "sample_failed = sample_event 53 MessageJobFailed
    (sample_identity 41 @ [(''workerId'', sample_uuid 21),
      (''error'', JObj [(''code'', JStr ''X''), (''message'', JStr ''m''), (''retryable'', JBool True)])])"

definition sample_result_draws :: ResultDraws where
  "sample_result_draws = \<lparr>rd_attempt = 61, rd_message = 62, rd_dead = 63\<rparr>"

definition sample_config :: LeaseConfig where
  "sample_config = \<lparr>lc_LeaseDuration = 60, lc_RenewalWindow = 60, lc_SweepLimit = 10, lc_RetryPolicy = DefaultPolicy\<rparr>"

text \<open>The committed database of a call that succeeds.\<close>

definition committed :: "('a \<times> DB) result \<Rightarrow> DB" where
  "committed r = (case r of Inl e \<Rightarrow> empty_db | Inr (x, db) \<Rightarrow> db)"

definition returned :: "('a \<times> DB) result \<Rightarrow> 'a" where
  "returned r = fst (projr r)"

lemma committed_Inr: "\<not> isl r \<Longrightarrow> r = Inr (returned r, committed r)"
  by (cases r) (auto simp: committed_def returned_def split: prod.splits)

section \<open>One run\<close>

definition sample_create :: "((Job \<times> bool) \<times> DB) result" where
  "sample_create =
    Job_Service_Create sample_runtime sample_rules Outbox_Enqueue sample_draws ''r'' 1000 sample_user 12
      \<lparr>cr_Operations = [sample_operation], cr_Priority = 0, cr_MaxAttempts = 2\<rparr> ''key'' ''t'' sample_base"

definition sample_created :: DB where
  "sample_created = committed sample_create"

lemma sample_create_step: "plane sample_runtime sample_base sample_created"
proof -
  have "\<not> isl sample_create" by code_simp
  from committed_Inr [OF this] show ?thesis
    unfolding sample_created_def sample_create_def by (rule plane.create)
qed

lemma sample_created_reachable: "reachable no_jobs (plane sample_runtime) sample_created"
  using reachable.more [OF reachable.start, of no_jobs sample_base "plane sample_runtime"]
    sample_base_no_jobs sample_create_step by blast

end
