(* ===== verification/JobProperties.thy ===== *)
theory JobProperties
  imports Samples
begin

text \<open>
  Properties of the job repository and service: idempotent creation, the quota, cancellation
  and retry, ownership, pagination, and the canonical form behind the fingerprint.
\<close>

section \<open>Creation\<close>

lemma row_find_snoc: "k \<notin> key ` set rows \<Longrightarrow> key r = k \<Longrightarrow> row_find key k (rows @ [r]) = Some r"
  by (induction rows) (auto simp: row_find_def)

lemma findIdempotentJob_hit:
  assumes "(owner, key) \<notin> (\<lambda>s. (ik_owner s, ik_key s)) ` set rows" "ik_owner r = owner" "ik_key r = key"
    "db_idem db = rows @ [r]" "find_job (ik_job r) db = Some item"
  shows "findIdempotentJob owner key fp db =
    (if ik_fingerprint r = fp then Inr (Some item) else Inl JobErrIdempotencyConflict)"
proof -
  have "row_find (\<lambda>s. (ik_owner s, ik_key s)) (owner, key) (db_idem db) = Some r"
    using assms(1-3) unfolding assms(4) by (intro row_find_snoc) auto
  then show ?thesis using assms(5) by (simp add: findIdempotentJob_def getJob_def)
qed

text \<open>What a fresh creation under a key leaves behind for a later request with that key.\<close>

lemma create_leaves_record:
  assumes "Job_Create rt rules Outbox_Enqueue draws now c db = Inr ((item, False), db')" "cc_IdempotencyKey c \<noteq> []"
  obtains fp where "ValidateCreateCommand rt rules c = Inr fp"
    "\<And>fp'. findIdempotentJob (cc_OwnerUserID c) (cc_IdempotencyKey c) fp' db' =
       (if fp = fp' then Inr (Some item) else Inl JobErrIdempotencyConflict)"
proof -
  obtain fp db1 rows r where fp: "ValidateCreateCommand rt rules c = Inr fp"
    and db1: "incrementQuota now (cc_OwnerUserID c) db = Inr db1" "cd_job draws \<notin> j_id ` set (db_jobs db1)"
    and db': "db' = db1\<lparr>db_jobs := db_jobs db1 @ [new_job (cd_job draws) c fp now],
       db_attempts := db_attempts db1 @ [new_attempt (cd_attempt draws) (cd_job draws) 1 now],
       db_history := db_history db1 @ [\<lparr>h_job = cd_job draws, h_from = None, h_to = Queued,
         h_reason = ''job_created'',
         h_actor = (if cc_ActorUserID c \<noteq> uuid_Nil then Some (cc_ActorUserID c) else None)\<rparr>],
       db_idem := rows, db_outbox := db_outbox db1 @ [r]\<rparr>"
    and rows: "cc_IdempotencyKey c \<noteq> [] \<Longrightarrow> rows = db_idem db1 @ [\<lparr>ik_id = cd_idem draws, ik_owner = cc_OwnerUserID c,
       ik_key = cc_IdempotencyKey c, ik_fingerprint = fp, ik_job = cd_job draws\<rparr>]"
    and item: "item = new_job (cd_job draws) c fp now"
    by (rule outbox_enqueuer.Create_fresh [OF assms(1)]) blast
  have idem: "db_idem db1 = db_idem db"
    using db1(1) by (auto simp: incrementQuota_def update_quota_def split: option.splits if_splits)
  have none: "findIdempotentJob (cc_OwnerUserID c) (cc_IdempotencyKey c) fp db = Inr None"
    using assms fp by (auto simp: Job_Create_def bindE_Inr split: option.splits if_splits)
  have fresh: "(cc_OwnerUserID c, cc_IdempotencyKey c) \<notin> (\<lambda>s. (ik_owner s, ik_key s)) ` set (db_idem db1)"
  proof
    assume "(cc_OwnerUserID c, cc_IdempotencyKey c) \<in> (\<lambda>s. (ik_owner s, ik_key s)) ` set (db_idem db1)"
    then have "row_find (\<lambda>s. (ik_owner s, ik_key s)) (cc_OwnerUserID c, cc_IdempotencyKey c) (db_idem db) \<noteq> None"
      unfolding row_find_None idem by blast
    with none show False by (auto simp: findIdempotentJob_def bindE_Inr split: option.splits if_splits)
  qed
  have find: "find_job (cd_job draws) db' = Some item"
    using row_find_snoc [OF db1(2)] by (simp add: db' item find_job_def new_job_def)
  let ?r = "\<lparr>ik_id = cd_idem draws, ik_owner = cc_OwnerUserID c, ik_key = cc_IdempotencyKey c,
    ik_fingerprint = fp, ik_job = cd_job draws\<rparr>"
  have "findIdempotentJob (cc_OwnerUserID c) (cc_IdempotencyKey c) fp' db' =
      (if ik_fingerprint ?r = fp' then Inr (Some item) else Inl JobErrIdempotencyConflict)" for fp'
    by (rule findIdempotentJob_hit [OF fresh]) (simp_all add: find, simp add: db' rows [OF assms(2)])
  then show thesis by (intro that [OF fp]) simp
qed

text \<open>
  C25. Creation is idempotent under its key: once a request with an idempotency key has been
  answered, the same request, repeated at any later time with any fresh identifiers, is
  answered with the same job, marked as a replay, and changes nothing.
\<close>

theorem create_idempotent:
  assumes "Job_Create rt rules Outbox_Enqueue draws now c db = Inr ((item, replay), db')"
    "cc_IdempotencyKey c \<noteq> []"
  shows "Job_Create rt rules Outbox_Enqueue draws' now' c db' = Inr ((item, True), db')"
proof (cases replay)
  case False
  with assms(1) have "Job_Create rt rules Outbox_Enqueue draws now c db = Inr ((item, False), db')" by simp
  from create_leaves_record [OF this assms(2)] obtain fp where "ValidateCreateCommand rt rules c = Inr fp"
    "findIdempotentJob (cc_OwnerUserID c) (cc_IdempotencyKey c) fp db' = Inr (Some item)" by metis
  then show ?thesis using assms(2) by (simp add: Job_Create_def)
next
  case True
  with assms(1) have same: "db' = db" using outbox_enqueuer.Create_replay by (metis (full_types))
  obtain fp where fp: "ValidateCreateCommand rt rules c = Inr fp"
    using assms(1) by (auto simp: Job_Create_def bindE_Inr)
  have "findIdempotentJob (cc_OwnerUserID c) (cc_IdempotencyKey c) fp db \<noteq> Inr None"
  proof
    assume none: "findIdempotentJob (cc_OwnerUserID c) (cc_IdempotencyKey c) fp db = Inr None"
    then have absent: "(cc_OwnerUserID c, cc_IdempotencyKey c) \<notin> (\<lambda>s. (ik_owner s, ik_key s)) ` set (db_idem db)"
      by (auto simp: findIdempotentJob_def bindE_Inr row_find_None split: option.splits if_splits)
    from assms(1) True fp none assms(2) obtain db1 db2 where
      db1: "incrementQuota now (cc_OwnerUserID c) db = Inr db1"
      and db2: "db_idem db2 = db_idem db1"
      and ins: "insert_idempotency \<lparr>ik_id = cd_idem draws, ik_owner = cc_OwnerUserID c, ik_key = cc_IdempotencyKey c,
                ik_fingerprint = fp, ik_job = cd_job draws\<rparr> db2 = Inr (False, db2)"
      by (auto simp: Job_Create_def bindE_Inr Let_def insert_attempt_Inr Job_recordHistory_def insert_idempotency_def
          split: option.splits if_splits prod.splits)
    have "db_idem db1 = db_idem db"
      using db1 by (auto simp: incrementQuota_def update_quota_def split: option.splits if_splits)
    with ins absent db2 show False by (auto simp: insert_idempotency_def split: if_splits)
  qed
  then obtain item' where hit: "findIdempotentJob (cc_OwnerUserID c) (cc_IdempotencyKey c) fp db = Inr (Some item')"
    using assms fp by (cases "findIdempotentJob (cc_OwnerUserID c) (cc_IdempotencyKey c) fp db")
      (auto simp: Job_Create_def split: option.splits)
  then have "item' = item" using assms fp by (simp add: Job_Create_def)
  then show ?thesis using hit fp assms(2) same by (simp add: Job_Create_def)
qed

theorem create_idempotent_witness:
  "let r = Job_Create sample_runtime sample_rules Outbox_Enqueue sample_draws 1000 sample_command sample_base
   in Job_Create sample_runtime sample_rules Outbox_Enqueue (sample_draws\<lparr>cd_job := 91\<rparr>) 2000 sample_command (committed r) =
     Inr ((fst (returned r), True), committed r)"
proof -
  let ?r = "Job_Create sample_runtime sample_rules Outbox_Enqueue sample_draws 1000 sample_command sample_base"
  have "\<not> isl ?r" by code_simp
  from committed_Inr [OF this]
  have "?r = Inr ((fst (returned ?r), snd (returned ?r)), committed ?r)" by simp
  from create_idempotent [OF this] show ?thesis by (simp add: sample_command_def Let_def)
qed

text \<open>
  A key that has been used belongs to its request: another request of the same owner under
  the same key, whose fingerprint differs, is refused with the conflict error.
\<close>

theorem create_conflict:
  assumes "Job_Create rt rules Outbox_Enqueue draws now c db = Inr ((item, False), db')" "cc_IdempotencyKey c \<noteq> []"
    "cc_OwnerUserID c' = cc_OwnerUserID c" "cc_IdempotencyKey c' = cc_IdempotencyKey c"
    "ValidateCreateCommand rt rules c = Inr fp" "ValidateCreateCommand rt rules c' = Inr fp'" "fp \<noteq> fp'"
  shows "Job_Create rt rules Outbox_Enqueue draws' now' c' db' = Inl JobErrIdempotencyConflict"
proof -
  from create_leaves_record [OF assms(1,2)] assms(5)
  have "findIdempotentJob (cc_OwnerUserID c) (cc_IdempotencyKey c) fp' db' = Inl JobErrIdempotencyConflict"
    using assms(7) by (metis sum.inject(2))
  then show ?thesis using assms(2,3,4,6) by (simp add: Job_Create_def)
qed

theorem create_conflict_witness:
  "let r = Job_Create sample_runtime sample_rules Outbox_Enqueue sample_draws 1000 sample_command sample_base
   in Job_Create sample_runtime sample_rules Outbox_Enqueue sample_draws 2000 (sample_command\<lparr>cc_Priority := 5\<rparr>) (committed r) =
     Inl JobErrIdempotencyConflict"
proof -
  let ?r = "Job_Create sample_runtime sample_rules Outbox_Enqueue sample_draws 1000 sample_command sample_base"
  let ?v = "\<lambda>p. ValidateCreateCommand sample_runtime sample_rules (sample_command\<lparr>cc_Priority := p\<rparr>)"
  have "\<not> isl ?r" "snd (returned ?r) = False" by code_simp+
  with committed_Inr [of ?r] have r: "?r = Inr ((fst (returned ?r), False), committed ?r)"
    by (metis prod.collapse)
  have same: "sample_command\<lparr>cc_Priority := 0\<rparr> = sample_command" by (simp add: sample_command_def)
  have "\<not> isl (?v 0)" "\<not> isl (?v 5)" "projr (?v 0) \<noteq> projr (?v 5)" by code_simp+
  then have v: "?v 0 = Inr (projr (?v 0))" "?v 5 = Inr (projr (?v 5))" "projr (?v 0) \<noteq> projr (?v 5)"
    by simp_all
  show ?thesis unfolding Let_def
    by (rule create_conflict [OF r _ _ _ v(1) [unfolded same] v(2) v(3) [unfolded same]])
      (simp_all add: sample_command_def)
qed

text \<open>
  C26. The quota holds: a creation that is not a replay takes the owner's queued jobs up by
  exactly one, never above 100, and an owner with 100 queued jobs gets the quota error for
  every valid new request on an available version.
\<close>

theorem create_within_quota:
  assumes con: "consistent db"
  shows "(Job_Create rt rules Outbox_Enqueue draws now c db = Inr ((item, False), db') \<longrightarrow>
      queued_jobs (cc_OwnerUserID c) db' = queued_jobs (cc_OwnerUserID c) db + 1 \<and>
      queued_jobs (cc_OwnerUserID c) db' \<le> 100) \<and>
    (100 \<le> queued_jobs (cc_OwnerUserID c) db \<and> ValidateCreateCommand rt rules c = Inr fp \<and>
      (cc_IdempotencyKey c = [] \<or> findIdempotentJob (cc_OwnerUserID c) (cc_IdempotencyKey c) fp db = Inr None) \<and>
      lockAvailableVersion c db = Inr () \<longrightarrow>
      Job_Create rt rules Outbox_Enqueue draws now c db = Inl JobErrQuotaExceeded)"
proof (intro conjI)
  have exact: "queued_of (cc_OwnerUserID c) db = queued_jobs (cc_OwnerUserID c) db"
    using consistentD(8) [OF con] by (simp add: quota_exact_def)
  show "Job_Create rt rules Outbox_Enqueue draws now c db = Inr ((item, False), db') \<longrightarrow>
      queued_jobs (cc_OwnerUserID c) db' = queued_jobs (cc_OwnerUserID c) db + 1 \<and>
      queued_jobs (cc_OwnerUserID c) db' \<le> 100"
  proof
    assume run: "Job_Create rt rules Outbox_Enqueue draws now c db = Inr ((item, False), db')"
    then obtain fp db1 where db1: "incrementQuota now (cc_OwnerUserID c) db = Inr db1"
      and jobs: "db_jobs db' = db_jobs db1 @ [new_job (cd_job draws) c fp now]"
      by (rule outbox_enqueuer.Create_fresh) simp
    have "db_jobs db1 = db_jobs db" and "queued_of (cc_OwnerUserID c) db < 100"
      using db1 by (auto simp: incrementQuota_def update_quota_def queued_of_def split: option.splits if_splits)
    then show "queued_jobs (cc_OwnerUserID c) db' = queued_jobs (cc_OwnerUserID c) db + 1 \<and>
        queued_jobs (cc_OwnerUserID c) db' \<le> 100"
      using jobs exact by (simp add: queued_jobs_def table_simps new_job_def)
  qed
  show "100 \<le> queued_jobs (cc_OwnerUserID c) db \<and> ValidateCreateCommand rt rules c = Inr fp \<and>
      (cc_IdempotencyKey c = [] \<or> findIdempotentJob (cc_OwnerUserID c) (cc_IdempotencyKey c) fp db = Inr None) \<and>
      lockAvailableVersion c db = Inr () \<longrightarrow>
      Job_Create rt rules Outbox_Enqueue draws now c db = Inl JobErrQuotaExceeded"
  proof
    assume a: "100 \<le> queued_jobs (cc_OwnerUserID c) db \<and> ValidateCreateCommand rt rules c = Inr fp \<and>
      (cc_IdempotencyKey c = [] \<or> findIdempotentJob (cc_OwnerUserID c) (cc_IdempotencyKey c) fp db = Inr None) \<and>
      lockAvailableVersion c db = Inr ()"
    then have "incrementQuota now (cc_OwnerUserID c) db = Inl JobErrQuotaExceeded"
      using exact by (auto simp: incrementQuota_def queued_of_def split: option.splits)
    with a show "Job_Create rt rules Outbox_Enqueue draws now c db = Inl JobErrQuotaExceeded"
      by (auto simp: Job_Create_def)
  qed
qed

theorem create_within_quota_witness:
  "let r = Job_Create sample_runtime sample_rules Outbox_Enqueue sample_draws 1000 sample_command sample_base
   in queued_jobs 7 (committed r) = 1 \<and> queued_jobs 7 (committed r) \<le> 100"
proof -
  let ?r = "Job_Create sample_runtime sample_rules Outbox_Enqueue sample_draws 1000 sample_command sample_base"
  have "\<not> isl ?r" "snd (returned ?r) = False" by code_simp+
  with committed_Inr [of ?r] have r: "?r = Inr ((fst (returned ?r), False), committed ?r)"
    by (metis prod.collapse)
  have "queued_jobs 7 sample_base = 0" by (simp add: queued_jobs_def sample_base_def empty_db_def count_rows_def)
  then show ?thesis
    using create_within_quota [OF no_jobs_consistent [OF sample_base_no_jobs], THEN conjunct1, rule_format, OF r]
    by (simp add: Let_def sample_command_def)
qed

section \<open>Cancellation and retry\<close>

text \<open>
  Cancellation by state: a queued job is cancelled at once and no worker is told; a leased
  or running job becomes \<open>CANCEL_REQUESTED\<close> and exactly one command is enqueued, routed to the
  worker of the open attempt and naming its lease; a job already cancelled or being cancelled
  is returned as it is; every other job is refused with the state error.
\<close>

theorem cancel_by_state:
  assumes con: "consistent db" and job: "find_job (xc_JobID c) db = Some item"
  shows "case RequestCancel rt Outbox_Enqueue msgID now c db of
      Inr (job, db') \<Rightarrow>
        (if j_state item = Queued then j_state job = Cancelled \<and> db_outbox db' = db_outbox db
         else if j_state item = Leased \<or> j_state item = Running then
           j_state job = CancelRequested \<and>
           (\<exists>a r w l. latest_attempt (j_id item) db = Some a \<and> a_worker a = Some w \<and> a_lease a = Some l \<and>
              db_outbox db' = db_outbox db @ [r] \<and> ob_key r = MessageJobCancel @ ''.'' @ uuid_String rt w \<and>
              (\<exists>kvs. raw_value (env_Payload (ob_env r)) = Some (JObj kvs) \<and>
                 json_field kvs ''leaseId'' = Some (JStr (uuid_String rt l))))
         else (j_state item = CancelRequested \<or> j_state item = Cancelled) \<and> job = item \<and> db' = db)
    | Inl e \<Rightarrow> j_state item \<in> {Succeeded, FailedRetryable, FailedPermanent, DeadLettered} \<longrightarrow>
        xc_JobID c \<noteq> uuid_Nil \<and> xc_ActorUserID c \<noteq> uuid_Nil \<and> (xc_AllowCrossOwner c \<or> j_owner item = xc_ActorUserID c) \<longrightarrow>
        e = JobErrJobState"
proof (cases "RequestCancel rt Outbox_Enqueue msgID now c db")
  case (Inl e)
  have "RequestCancel rt Outbox_Enqueue msgID now c db = Inl JobErrJobState"
    if "j_state item \<in> {Succeeded, FailedRetryable, FailedPermanent, DeadLettered}"
      "xc_JobID c \<noteq> uuid_Nil" "xc_ActorUserID c \<noteq> uuid_Nil" "xc_AllowCrossOwner c \<or> j_owner item = xc_ActorUserID c"
  proof -
    have "\<not> transition_ok (j_state item) CancelRequested" using that(1) by (auto simp: transition_ok_iff)
    then obtain e' where "ValidateTransition (state_text (j_state item)) (state_text CancelRequested) = Inl e'"
      by (cases "ValidateTransition (state_text (j_state item)) (state_text CancelRequested)")
        (auto simp: transition_ok_def)
    then show ?thesis using that job by (auto simp: RequestCancel_def getJob_def)
  qed
  then show ?thesis using Inl by simp
next
  case (Inr r)
  obtain job' db' where r: "r = (job', db')" by force
  with Inr have run: "RequestCancel rt Outbox_Enqueue msgID now c db = Inr (job', db')" by simp
  from run show ?thesis
  proof (cases rule: outbox_enqueuer.RequestCancel_cases)
    case replay
    then show ?thesis using run job by (auto split: if_splits)
  next
    case (queued item' reason)
    have "j_state job' = Cancelled" "db_outbox db' = db_outbox db"
      using queued job
      by (auto simp: cancel_queued_def Let_def Job_recordHistory_def decrementQuota_def update_quota_def update_job_def
          update_attempt_def cancel_queued_job_def find_job_def row_find_update split: option.splits)
    then show ?thesis using run queued job by simp
  next
    case (active item' target reason r')
    then have same: "item' = item" using job by simp
    have "j_state job' = CancelRequested"
      using active same by (auto simp: find_job_def update_job_def Job_recordHistory_def row_find_update)
    moreover obtain a where "latest_attempt (j_id item) db = Some a" "a_worker a = Some (ct_WorkerID target)"
      "a_lease a = Some (ct_LeaseID target)"
      using active(4) same by (auto simp: currentCancellationTarget_def split: option.splits if_splits)
    moreover have "db_outbox db' = db_outbox db @ [r']" using active(5) by simp
    moreover have "json_field [(''jobId'', JStr (uuid_String rt (j_id item'))),
         (''attemptId'', JStr (uuid_String rt (ct_AttemptID target))),
         (''leaseId'', JStr (uuid_String rt (ct_LeaseID target))), (''reason'', JStr reason)] ''leaseId'' =
        Some (JStr (uuid_String rt (ct_LeaseID target)))"
      by (simp add: json_field_def)
    ultimately show ?thesis using run active same by (auto simp: is_active_def)
  qed
qed

theorem cancel_by_state_witness:
  "case RequestCancel sample_runtime Outbox_Enqueue 71 1500
      \<lparr>xc_JobID = 31, xc_ActorUserID = 7, xc_Reason = ''r'', xc_TraceID = ''t'', xc_RequestID = ''t'', xc_AllowCrossOwner = False\<rparr>
      sample_running of
     Inr (job, db') \<Rightarrow> j_state job = CancelRequested \<and> (\<exists>r. db_outbox db' = db_outbox sample_running @ [r])
   | Inl e \<Rightarrow> False"
proof -
  let ?c = "\<lparr>xc_JobID = 31, xc_ActorUserID = 7, xc_Reason = ''r'', xc_TraceID = ''t'', xc_RequestID = ''t'', xc_AllowCrossOwner = False\<rparr>"
  let ?r = "RequestCancel sample_runtime Outbox_Enqueue 71 1500 ?c sample_running"
  have ok: "\<not> isl ?r" by code_simp
  have "find_job (xc_JobID ?c) sample_running = Some (sample_job Running)"
    by (simp add: find_job_def row_find_def sample_running_def sample_defs)
  from cancel_by_state [OF samples_consistent(3) this, of sample_runtime 71 1500] ok
  show ?thesis by (cases ?r) (auto simp: sample_job_def split: prod.splits)
qed

text \<open>
  A manual retry starts one new attempt with the next number, puts the job back in the queue
  and enqueues one signal for the scheduler; below a dead letter it stays within the attempt
  budget of the job. A queued job is returned as it is; other states are refused.
\<close>

theorem retry_by_state:
  assumes con: "consistent db" and run: "RequestRetry rt Outbox_Enqueue attemptID msgID now c db = Inr (job, db')"
  shows "\<exists>item. find_job (rc_JobID c) db = Some item \<and>
    (if j_state item = Queued then job = item \<and> db' = db
     else j_state item \<in> {FailedPermanent, DeadLettered} \<and> j_state job = Queued \<and>
       (\<exists>r. db_outbox db' = db_outbox db @ [r] \<and> env_MessageType (ob_env r) = MessageJobQueued) \<and>
       attempts_of (j_id item) db' = attempts_of (j_id item) db @
         [new_attempt attemptID (j_id item) (int (length (attempts_of (j_id item) db)) + 1) now] \<and>
       (j_state item \<noteq> DeadLettered \<longrightarrow> int (length (attempts_of (j_id item) db')) \<le> j_max item))"
  using run
proof (cases rule: outbox_enqueuer.RequestRetry_cases)
  case replay
  then show ?thesis by simp
next
  case (requeued item db1 r)
  have frame: "db_attempts db1 = db_attempts db" "db_jobs db1 = db_jobs db" "db_outbox db1 = db_outbox db"
    using requeued(4) by (auto simp: incrementQuota_def update_quota_def split: option.splits if_splits)
  have item: "item \<in> set (db_jobs db)" "j_id item = rc_JobID c" using find_jobD [OF requeued(1)] by simp_all
  obtain xs a where atts: "attempts_of (j_id item) db = xs @ [a]" "agree (j_state item) (a_state a)"
    "max_row a_num (attempts_of (j_id item) db) = Some a" "a_num a = int (length xs) + 1"
    by (rule consistent_job [OF con item(1)]) blast
  have num: "next_attempt_number (j_id item) db1 = int (length (attempts_of (j_id item) db)) + 1"
    using atts frame by (simp add: next_attempt_number_def attempts_of_def)
  have grown: "attempts_of (j_id item) db' = attempts_of (j_id item) db @
         [new_attempt attemptID (j_id item) (int (length (attempts_of (j_id item) db)) + 1) now]"
    using requeued(7) frame num by (simp add: attempts_of_def)
  have "find_job (j_id item) db' = map_option (retry_job now) (find_job (j_id item) db)"
    using row_find_update [of j_id "retry_job now" "j_id item" "j_id item" "db_jobs db"] frame
    by (simp add: requeued(7) find_job_def retry_job_def)
  then have "j_state job = Queued" using requeued(1,10) item(2) by (auto simp: retry_job_def)
  moreover have "j_state item \<noteq> FailedRetryable" using atts(2) by (cases "j_state item") auto
  ultimately show ?thesis
    using requeued grown num frame by (intro exI [of _ item]) auto
qed

theorem retry_by_state_witness:
  "let r = RequestRetry sample_runtime Outbox_Enqueue 72 73 1500
       \<lparr>rc_JobID = 31, rc_ActorUserID = 7, rc_TraceID = ''t'', rc_RequestID = ''t'', rc_AllowCrossOwner = False\<rparr> sample_dead
   in j_state (returned r) = Queued \<and> length (attempts_of 31 (committed r)) = 2"
proof -
  let ?c = "\<lparr>rc_JobID = 31, rc_ActorUserID = 7, rc_TraceID = ''t'', rc_RequestID = ''t'', rc_AllowCrossOwner = False\<rparr>"
  let ?r = "RequestRetry sample_runtime Outbox_Enqueue 72 73 1500 ?c sample_dead"
  have "\<not> isl ?r" by code_simp
  from retry_by_state [OF samples_consistent(4) committed_Inr [OF this]]
  show ?thesis
    by (simp add: Let_def find_job_def row_find_def sample_dead_def sample_defs) (simp add: attempts_of_def)
qed

section \<open>Ownership\<close>

text \<open>
  C29. No service shows or touches what another owner has: for a principal that is not an
  administrator, every job that can be read, listed, cancelled or retried, every canonical
  artifact and every dead letter that can be read or listed belongs to the principal.
\<close>

theorem services_respect_owner:
  assumes "prin_Role p \<noteq> RoleAdmin"
  shows "(Job_Service_Get p k db = Inr j \<longrightarrow> j_owner j = prin_UserID p) \<and>
    (Job_Service_List p page pageSize state db = Inr js \<longrightarrow> (\<forall>i \<in> set (jp_Items js). j_owner i = prin_UserID p)) \<and>
    (Job_Service_Cancel rt enqueue msgID now p k reason requestID db = Inr (cancelled, db') \<longrightarrow>
       (\<exists>i. find_job k db = Some i \<and> j_owner i = prin_UserID p)) \<and>
    (Job_Service_Retry rt enqueue attemptID msgID now p k requestID db = Inr (retried, db') \<longrightarrow>
       (\<exists>i. find_job k db = Some i \<and> j_owner i = prin_UserID p)) \<and>
    (Result_Service_GetArtifact p k db = Inr artifact \<longrightarrow> art_owner artifact = prin_UserID p \<and> art_state artifact = Canonical) \<and>
    (Result_Service_ListArtifacts p jobID kind page pageSize db = Inr artifacts \<longrightarrow>
       (\<forall>i \<in> set (ap_Items artifacts). art_owner i = prin_UserID p \<and> art_state i = Canonical)) \<and>
    (Dlq_Service_List p page pageSize openOnly db = Inr letters \<longrightarrow>
       (\<forall>i \<in> set (dp_Items letters). dr_OwnerUserID i = prin_UserID p))"
proof (intro conjI impI)
  note owner = CanAccessOwner_owner assms
  show "j_owner j = prin_UserID p" if "Job_Service_Get p k db = Inr j"
    using that owner by (auto simp: Job_Service_Get_def bindE_Inr split: if_splits)
  show "\<forall>i \<in> set (jp_Items js). j_owner i = prin_UserID p" if "Job_Service_List p page pageSize state db = Inr js"
    using that assms
    by (auto simp: Job_Service_List_def Job_List_def bindE_Inr Let_def listed_def
        split: if_splits prod.splits dest!: in_set_takeD in_set_dropD)
  show "\<exists>i. find_job k db = Some i \<and> j_owner i = prin_UserID p"
    if "Job_Service_Cancel rt enqueue msgID now p k reason requestID db = Inr (cancelled, db')"
    using that owner by (auto simp: Job_Service_Cancel_def bindE_Inr getJob_Inr split: if_splits)
  show "\<exists>i. find_job k db = Some i \<and> j_owner i = prin_UserID p"
    if "Job_Service_Retry rt enqueue attemptID msgID now p k requestID db = Inr (retried, db')"
    using that owner by (auto simp: Job_Service_Retry_def bindE_Inr getJob_Inr split: if_splits)
  show "art_owner artifact = prin_UserID p" "art_state artifact = Canonical"
    if "Result_Service_GetArtifact p k db = Inr artifact"
    using that owner by (auto simp: Result_Service_GetArtifact_def bindE_Inr split: if_splits)
  show "\<forall>i \<in> set (ap_Items artifacts). art_owner i = prin_UserID p \<and> art_state i = Canonical"
    if "Result_Service_ListArtifacts p jobID kind page pageSize db = Inr artifacts"
    using that assms
    by (auto simp: Result_Service_ListArtifacts_def ListArtifacts_def bindE_Inr Let_def artifact_listed_def owner_filter_def
        split: if_splits prod.splits dest!: in_set_takeD in_set_dropD)
  show "\<forall>i \<in> set (dp_Items letters). dr_OwnerUserID i = prin_UserID p"
    if "Dlq_Service_List p page pageSize openOnly db = Inr letters"
    using that assms
    by (auto simp: Dlq_Service_List_def Dlq_List_def bindE_Inr Let_def dlq_listed_def
        split: if_splits prod.splits dest!: in_set_takeD in_set_dropD)
qed

theorem services_respect_owner_witness:
  "Job_Service_Get sample_user 31 sample_running = Inr (sample_job Running) \<and>
   j_owner (sample_job Running) = prin_UserID sample_user"
proof -
  have get: "Job_Service_Get sample_user 31 sample_running = Inr (sample_job Running)"
    by (simp add: Job_Service_Get_def RequireScope_def HasScope_def CanAccessOwner_def IsKnownScope_def knownScopes_def
        sample_user_def DefaultUserScopes_def getJob_def find_job_def row_find_def sample_running_def sample_defs)
  have "prin_Role sample_user \<noteq> RoleAdmin" by (simp add: sample_user_def)
  from services_respect_owner [OF this, THEN conjunct1, rule_format, OF get] get show ?thesis by simp
qed

lemma concat_pages: "concat (map (\<lambda>i. take k (drop (i * k) xs)) [0..<n]) = take (n * k) xs"
proof (induction n)
  case (Suc n)
  have "take (Suc n * k) xs = take (n * k) xs @ take k (drop (n * k) xs)"
    using take_add [of "n * k" k xs] by (simp add: add.commute)
  with Suc show ?case by simp
qed simp

text \<open>
  The pages of a listing are the listing: the first \<open>n\<close> pages one after the other are the
  first \<open>n * pageSize\<close> jobs that match, newest first, none missing and none twice, and the
  total of every page is the number of jobs that match.
\<close>

theorem pages_cover_listing:
  assumes "1 \<le> lq_PageSize q" "lq_PageSize q \<le> 100" "n < 2 ^ 56"
  shows "concat (map (\<lambda>i. jp_Items (projr (Job_List (q\<lparr>lq_Page := int i + 1\<rparr>) db))) [0..<n]) =
      take (n * nat (lq_PageSize q)) (sort_key (\<lambda>j. (- j_created j, j_id j)) (filter (listed q) (db_jobs db))) \<and>
    (\<forall>i < n. jp_Total (projr (Job_List (q\<lparr>lq_Page := int i + 1\<rparr>) db)) = count_rows (listed q) (db_jobs db))"
proof -
  let ?S = "sort_key (\<lambda>j. (- j_created j, j_id j)) (filter (listed q) (db_jobs db))"
  have same: "listed (q\<lparr>lq_Page := m\<rparr>) = listed q" for m by (simp add: listed_def fun_eq_iff)
  have page: "Job_List (q\<lparr>lq_Page := int i + 1\<rparr>) db =
      Inr \<lparr>jp_Items = take (nat (lq_PageSize q)) (drop (i * nat (lq_PageSize q)) ?S), jp_Page = int i + 1,
           jp_PageSize = lq_PageSize q, jp_Total = count_rows (listed q) (db_jobs db)\<rparr>" if "i < n" for i
  proof -
    have "int i * lq_PageSize q \<le> 2 ^ 56 * 100"
      using that assms by (intro mult_mono) auto
    moreover have nonneg: "0 \<le> int i * lq_PageSize q" using assms by simp
    ultimately have "signed_take_bit 63 (int i * lq_PageSize q) = int i * lq_PageSize q"
      by (intro signed_take_bit_int_eq_self) auto
    moreover have "nat (int i * lq_PageSize q) = i * nat (lq_PageSize q)"
      using assms by (simp add: nat_mult_distrib)
    ultimately show ?thesis using assms nonneg by (simp add: Job_List_def same Let_def not_less)
  qed
  have "map (\<lambda>i. jp_Items (projr (Job_List (q\<lparr>lq_Page := int i + 1\<rparr>) db))) [0..<n] =
      map (\<lambda>i. take (nat (lq_PageSize q)) (drop (i * nat (lq_PageSize q)) ?S)) [0..<n]"
    by (rule map_cong) (simp_all add: page)
  then show ?thesis using page concat_pages [of "nat (lq_PageSize q)" ?S n] by (simp only: sum.sel JobPage.simps) simp
qed

theorem pages_cover_listing_witness:
  "concat (map (\<lambda>i. jp_Items (projr (Job_List
      (\<lparr>lq_OwnerUserID = None, lq_Page = 1, lq_PageSize = 5, lq_State = []\<rparr>\<lparr>lq_Page := int i + 1\<rparr>) sample_running))) [0..<2]) =
    [sample_job Running]"
proof -
  let ?q = "\<lparr>lq_OwnerUserID = None, lq_Page = 1, lq_PageSize = 5, lq_State = []\<rparr>"
  have "db_jobs sample_running = [sample_job Running]" by (simp add: sample_running_def sample_db_def)
  then show ?thesis
    using pages_cover_listing [of ?q 2 sample_running, THEN conjunct1] by (simp add: listed_def)
qed

section \<open>Canonical form\<close>

text \<open>
  The canonical form of a JSON object, and with it the fingerprint of a request, does not
  depend on the order in which the names of the object are written: two requests that differ
  only in the order of a configuration are the same request.
\<close>

theorem canonical_order_irrelevant:
  assumes "distinct (map fst kvs)" "mset kvs' = mset kvs"
  shows "canonicalValue rt (JObj kvs') = canonicalValue rt (JObj kvs)"
proof -
  let ?f = "\<lambda>(k, v). (k, canonicalValue rt v)"
  have "distinct (map fst (map ?f kvs))" using assms(1) by (simp add: comp_def case_prod_beta)
  then have inj: "inj_on fst (set (map ?f kvs))" by (simp only: distinct_map)
  moreover have m: "mset (map ?f kvs') = mset (map ?f kvs)" using assms(2) by simp
  ultimately have "inj_on fst (set (map ?f kvs'))" using mset_eq_setD by metis
  from sort_key_inj_key_eq [OF _ this, of "sort_key fst (map ?f kvs)"] m
  have "sort_key fst (map ?f kvs') = sort_key fst (map ?f kvs)" by simp
  then show ?thesis by simp
qed

theorem canonical_order_irrelevant_witness:
  "canonicalValue sample_runtime (JObj [(''b'', JNum ''2''), (''a'', JNum ''1'')]) =
   canonicalValue sample_runtime (JObj [(''a'', JNum ''1''), (''b'', JNum ''2'')])"
  by (rule canonical_order_irrelevant) simp_all

lemma digits_value_append: "digits_value (xs @ ys) acc = (case digits_value xs acc of None \<Rightarrow> None | Some n \<Rightarrow> digits_value ys n)"
  by (induction xs arbitrary: acc) auto

lemma digit_char: "d < 10 \<Longrightarrow> is_digit (char_of (48 + d)) \<and> of_char (char_of (48 + d) :: char) = (48 + int d)"
proof -
  assume d: "d < 10"
  then have n: "of_char (char_of (48 + d) :: char) = (48 + d :: nat)" by (simp add: of_char_of)
  moreover have "of_char (char_of (48 + d) :: char) = int (of_char (char_of (48 + d) :: char))"
    by (simp add: of_char_def)
  ultimately show ?thesis using d by (simp add: is_digit_def char_in_def)
qed

lemma digits_value_nat_text: "digits_value (nat_text n) acc = Some (acc * 10 ^ length (nat_text n) + int n)"
proof (induction n arbitrary: acc rule: nat_text.induct)
  case (1 n)
  show ?case
  proof (cases "n < 10")
    case True
    then show ?thesis using digit_char [OF True] by (simp add: nat_text.simps [of n])
  next
    case False
    have "n mod 10 < 10" by simp
    note d = digit_char [OF this]
    have "int n = 10 * int (n div 10) + int (n mod 10)" by presburger
    then show ?thesis using 1 [OF False] False d
      by (simp add: nat_text.simps [of n] digits_value_append algebra_simps)
  qed
qed

lemma nat_text_digits: "nat_text n \<noteq> [] \<and> hd (nat_text n) \<noteq> CHR ''-'' \<and> hd (nat_text n) \<noteq> CHR ''+''"
proof (induction n rule: nat_text.induct)
  case (1 n)
  show ?case
  proof (cases "n < 10")
    case True
    then have digit: "is_digit (char_of (48 + n))" using digit_char by blast
    have "\<not> is_digit (CHR ''-'')" "\<not> is_digit (CHR ''+'')" by (simp_all add: is_digit_def char_in_def)
    with digit have "char_of (48 + n) \<noteq> CHR ''-''" "char_of (48 + n) \<noteq> CHR ''+''" by metis+
    then show ?thesis using True by (simp add: nat_text.simps [of n])
  qed (use 1 in \<open>simp add: nat_text.simps [of n]\<close>)
qed

text \<open>
  Integers survive the wire: the decimal text the program writes for a 64-bit integer is
  the one its decoders read back as that integer, and a text that stands for no 64-bit integer
  is refused.
\<close>

theorem int_text_roundtrip:
  "parse_int64 (int_text i) = (if - (2 ^ 63) \<le> i \<and> i < 2 ^ 63 then Some i else None)"
proof (cases "i < 0")
  case True
  then show ?thesis
    using nat_text_digits [of "nat (- i)"] digits_value_nat_text [of "nat (- i)" 0]
    by (simp add: parse_int64_def int_text_def)
next
  case False
  obtain c cs where cs: "nat_text (nat i) = c # cs" "c \<noteq> CHR ''-''" "c \<noteq> CHR ''+''"
    using nat_text_digits [of "nat i"] by (cases "nat_text (nat i)") auto
  then show ?thesis
    using False digits_value_nat_text [of "nat i" 0] by (simp add: parse_int64_def int_text_def del: digits_value.simps)
qed

end
