(* ===== verification/Inputs.thy ===== *)
theory Inputs
  imports System
begin

text \<open>
  What the jobs read: the transactions on jobs, leases, results, workers and the outbox leave
  datasets, versions, upload sessions, parts and rules alone and never change which version a
  job reads, so the invariants of the storage and of the job tables hold together.
\<close>

section \<open>The tables the jobs only read\<close>

named_theorems input_simps \<open>what a statement leaves of the inputs of the jobs\<close>

definition inputs :: "DB \<Rightarrow> Dataset list \<times> Version list \<times> Session list \<times> Part list \<times> Rule list \<times> (uuid \<times> uuid) list" where
  "inputs db =
    (db_datasets db, db_versions db, db_sessions db, db_parts db, db_rules db, map (\<lambda>j. (j_id j, j_version j)) (db_jobs db))"

lemma inputs_statements [input_simps]:
  "(\<And>j. j_id (f j) = j_id j \<and> j_version (f j) = j_version j) \<Longrightarrow> inputs (update_job k f db) = inputs db"
  "inputs (update_attempt k g db) = inputs db"
  "inputs (update_quota k q db) = inputs db"
  "inputs (add_history k s t reason actor db) = inputs db"
  "inputs (add_projection p db) = inputs db"
  by (auto simp: inputs_def update_job_def update_attempt_def update_quota_def add_history_def add_projection_def row_update_proj)

lemma inputs_records [input_simps]:
  "inputs (Job_recordHistory k s t reason actor db) = inputs db"
  "inputs (Lease_recordHistory k s' t reason db) = inputs db"
  "inputs (Result_recordHistory k s' t reason db) = inputs db"
  "inputs (decrementQuota now owner db) = inputs db"
  by (simp_all add: Job_recordHistory_def Lease_recordHistory_def Result_recordHistory_def decrementQuota_def input_simps)

lemma inputs_fields [input_simps]:
  "inputs (db\<lparr>db_outbox := x1\<rparr>) = inputs db" "inputs (db\<lparr>db_workers := x2\<rparr>) = inputs db"
  "inputs (db\<lparr>db_attempts := x3\<rparr>) = inputs db" "inputs (db\<lparr>db_artifacts := x4\<rparr>) = inputs db"
  "inputs (db\<lparr>db_inbox := x5\<rparr>) = inputs db" "inputs (db\<lparr>db_quotas := x6\<rparr>) = inputs db"
  "inputs (db\<lparr>db_projections := x7\<rparr>) = inputs db" "inputs (db\<lparr>db_dead := x8\<rparr>) = inputs db"
  "inputs (db\<lparr>db_progress := p, db_progress_history := h, db_progress_seq := n\<rparr>) = inputs db"
  by (simp_all add: inputs_def)

lemma inputs_inserts:
  "incrementQuota now owner db = Inr db' \<Longrightarrow> inputs db' = inputs db"
  "insert_attempt a db = Inr db' \<Longrightarrow> inputs db' = inputs db"
  "insert_dead_letter d db = Inr db' \<Longrightarrow> inputs db' = inputs db"
  "insert_artifact r db = Inr db' \<Longrightarrow> inputs db' = inputs db"
  "insertResultProjection k a' oc keys e db = Inr db' \<Longrightarrow> inputs db' = inputs db"
  by (auto simp: incrementQuota_def insert_attempt_def insert_dead_letter_def insert_artifact_def insertResultProjection_def
      bindE_Inr input_simps split: option.splits if_splits)

lemma inputs_cancel_queued [input_simps]: "inputs (cancel_queued now j reason actor db) = inputs db"
  by (auto simp: cancel_queued_def cancel_queued_job_def Let_def input_simps split: option.splits)

lemma inputs_row: "\<exists>r. db' = db\<lparr>db_outbox := db_outbox db @ [r]\<rparr> \<and> P r \<Longrightarrow> inputs db' = inputs db"
  by (auto simp: input_simps)

section \<open>The transactions on jobs, leases and results\<close>

context enqueuer
begin

lemma RequestCancel_inputs:
  assumes "RequestCancel rt enqueue msgID now c db = Inr (job, db')"
  shows "inputs db' = inputs db"
  using assms by (cases rule: RequestCancel_cases) (simp_all add: input_simps)

lemma RequestRetry_inputs:
  assumes "RequestRetry rt enqueue attemptID msgID now c db = Inr (job, db')"
  shows "inputs db' = inputs db"
proof -
  have enq: "enqueueRetryQueued rt enqueue msgID now item t cs d = Inr d' \<Longrightarrow> inputs d' = inputs d" for item t cs d d'
    using enqueueRetryQueued_row inputs_row by blast
  show ?thesis
    using assms by (auto simp: RequestRetry_def bindE_Inr Let_def retry_job_def input_simps
        dest!: enq inputs_inserts(1,2) split: if_splits)
qed

lemma expireOne_inputs:
  assumes "expireOne rt enqueue config draws item now report db = Inr (report', db')"
  shows "inputs db' = inputs db"
  using assms
  by (auto simp: expireOne_def bindE_Inr Let_def input_simps dest!: inputs_inserts(2,3) split: if_splits
      dest!: enqueueRetry_row)

lemma expire_loop_inputs:
  "expire_loop rt enqueue config draws now items report db = Inr (report', db') \<Longrightarrow> inputs db' = inputs db"
  by (induction items arbitrary: report db) (auto simp: bindE_Inr dest!: expireOne_inputs)

lemma SweepExpired_inputs:
  "SweepExpired rt enqueue config draws now limit db = Inr (report, db') \<Longrightarrow> inputs db' = inputs db"
  by (auto simp: SweepExpired_def bindE_Inr Let_def split: if_splits dest!: expire_loop_inputs)

lemma applyFailed_inputs:
  "applyFailed rt (Some enqueue) policy draws now e db = Inr (out, db') \<Longrightarrow> inputs db' = inputs db"
  by (auto simp: applyFailed_def bindE_Inr Let_def input_simps requeue_failed_def finish_failed_def
      dest!: inputs_inserts enqueueResultRetry_row split: option.splits if_splits)

lemma applyEvent_inputs:
  assumes "applyEvent rt (Some enqueue) policy draws now e db = Inr (out, db')"
  shows "inputs db' = inputs db"
  using assms
  by (cases e)
    (auto simp: applyStarted_def applyProgressed_def applySucceeded_def applyCancelled_def applyArtifact_def start_job_def
      bindE_Inr Let_def input_simps dest!: applyFailed_inputs inputs_inserts split: option.splits if_splits)

lemma Process_inputs:
  "Process rt (Some enqueue) policy draws now envelope db = Inr (out, db') \<Longrightarrow> inputs db' = inputs db"
  by (auto simp: Process_def insertInbox_def bindE_Inr Let_def input_simps dest!: applyEvent_inputs split: if_splits prod.splits)

end

lemma Acquire_inputs:
  assumes "Acquire rt Outbox_Enqueue (SelectForLease ttl) config leaseID msgID now c db = Inr (lease, db')"
  shows "inputs db' = inputs db"
  using assms
proof (cases rule: lease_repo.Acquire_cases)
  case (1 j a item db1 r)
  then obtain ws where "db1 = db\<lparr>db_workers := ws\<rparr>" using registry_selector.select_writes by blast
  then show ?thesis using 1(13) by (simp add: input_simps)
qed

text \<open>A job is created on a version that is published.\<close>

definition published_version :: "uuid \<Rightarrow> DB \<Rightarrow> bool" where
  "published_version k db \<longleftrightarrow> (\<exists>v. row_find v_id k (db_versions db) = Some v \<and> v_state v = ''AVAILABLE'')"

lemma Create_inputs:
  assumes "Job_Create rt rules Outbox_Enqueue draws now c db = Inr ((item, replay), db')"
  shows "inputs db' = inputs db \<or>
    (\<exists>j. inputs db' = inputs (db\<lparr>db_jobs := db_jobs db @ [j]\<rparr>) \<and> published_version (j_version j) db)"
proof (cases replay)
  case True
  then have "db' = db" using assms outbox_enqueuer.Create_replay by simp
  then show ?thesis by simp
next
  case False
  then have "Job_Create rt rules Outbox_Enqueue draws now c db = Inr ((item, False), db')" using assms by simp
  then show ?thesis
  proof (cases rule: outbox_enqueuer.Create_fresh)
    case (1 fp db1 rows r)
    have "inputs db1 = inputs db" by (rule inputs_inserts(1) [OF 1(3)])
    then have "inputs db' = inputs (db\<lparr>db_jobs := db_jobs db @ [item]\<rparr>)" using 1(6,14) by (simp add: inputs_def)
    moreover have "published_version (j_version item) db"
      using 1(2,14)
      by (auto simp: published_version_def lockAvailableVersion_def new_job_def split: option.splits if_splits)
    ultimately show ?thesis by blast
  qed
qed

lemma plane_inputs:
  assumes "plane rt db db'"
  obtains (store) compiles where "storage rt compiles db db'"
  | (same) "inputs db' = inputs db"
  | (created) j where "inputs db' = inputs (db\<lparr>db_jobs := db_jobs db @ [j]\<rparr>)" "published_version (j_version j) db"
  using assms
proof cases
  case (create rules draws fresh now prin versionID request key requestID made)
  then show thesis using Service_Create_Inr Create_inputs same created by (metis surj_pair)
next
  case cancel
  then show thesis using Service_Cancel_Inr outbox_enqueuer.RequestCancel_inputs same by blast
next
  case retry
  then show thesis using Service_Retry_Inr outbox_enqueuer.RequestRetry_inputs same by blast
next
  case replay
  then show thesis using Service_Replay_not_Inr by blast
next
  case acquire
  then show thesis using Acquire_inputs same by blast
next
  case renew
  then show thesis by (cases rule: Renew_cases) (use same in \<open>simp add: input_simps\<close>)
next
  case sweep
  then show thesis using outbox_enqueuer.SweepExpired_inputs same by blast
next
  case result
  then show thesis using outbox_enqueuer.Process_inputs same by blast
next
  case worker
  then show thesis using ApplyEnvelope_frame inputs_fields(2) same by metis
next
  case claim
  then show thesis using Claim_frame inputs_fields(1) same by metis
next
  case published
  then show thesis using Mark_frame(1) inputs_fields(1) same by metis
next
  case unpublished
  then show thesis using Mark_frame(2) inputs_fields(1) same by metis
qed (rule store)

section \<open>Jobs and storage together\<close>

text \<open>The storage is in order and every job reads a published version.\<close>

definition supplied :: "DB \<Rightarrow> bool" where
  "supplied db \<longleftrightarrow>
     versions_ok (db_versions db) \<and> sessions_ok (db_sessions db) \<and> parts_ok db \<and> sessions_refer db \<and> datasets_ok db \<and>
     (\<forall>j \<in> set (db_jobs db). published_version (j_version j) db)"

definition nothing_stored :: "DB \<Rightarrow> bool" where
  "nothing_stored db \<longleftrightarrow> no_jobs db \<and> no_storage db"

lemma nothing_stored_supplied: "nothing_stored db \<Longrightarrow> supplied db"
  using no_storage_ok [of db] by (simp add: nothing_stored_def supplied_def storage_ok_def no_jobs_def)

lemma supplied_inputs: "inputs db' = inputs db \<Longrightarrow> supplied db \<Longrightarrow> supplied db'"
proof -
  assume same: "inputs db' = inputs db" and ok: "supplied db"
  then have "map snd (map (\<lambda>j. (j_id j, j_version j)) (db_jobs db')) = map snd (map (\<lambda>j. (j_id j, j_version j)) (db_jobs db))"
    by (simp only: inputs_def prod.inject)
  then have "j_version ` set (db_jobs db') = j_version ` set (db_jobs db)"
    by (simp add: comp_def flip: set_map)
  moreover have "published_version k db' = published_version k db" for k using same by (simp add: published_version_def inputs_def)
  moreover have "\<forall>n \<in> j_version ` set (db_jobs db). published_version n db" using ok by (simp add: supplied_def)
  ultimately have "\<forall>j \<in> set (db_jobs db'). published_version (j_version j) db'" by blast
  then show "supplied db'" using same ok
    by (simp add: supplied_def inputs_def parts_ok_def sessions_refer_def datasets_ok_def)
qed

lemma published_version_keeps:
  assumes "storage rt compiles db db'" "versions_ok (db_versions db)" "row_find v_id k (db_versions db) = Some v"
    "v_state v = ''AVAILABLE''"
  shows "row_find v_id k (db_versions db') = Some v"
proof -
  note change = storage_versions [OF assms(1,2)]
  have "v \<in> set (db_versions db')" "v_id v = k"
    using version_change_keeps [OF change assms(2)] row_find_SomeD [OF assms(3)] assms(4) by auto
  moreover have "distinct (map v_id (db_versions db'))" using version_change_ok [OF change assms(2)] by (simp add: versions_ok_def)
  ultimately show ?thesis by (simp add: row_find_distinct)
qed

lemma supplied_step:
  assumes "supplied db" "plane rt db db'"
  shows "supplied db'"
  using assms(2)
proof (cases rule: plane_inputs)
  case (store compiles)
  have ok: "versions_ok (db_versions db)" "sessions_ok (db_sessions db)" "parts_ok db" "sessions_refer db" "datasets_ok db"
    using assms(1) by (simp_all add: supplied_def)
  note change = storage_sessions [OF store ok(2)]
  have "published_version (j_version j) db'" if "j \<in> set (db_jobs db')" for j
    using that assms(1) storage_frame [OF store] published_version_keeps [OF store ok(1)]
    unfolding supplied_def published_version_def by metis
  then show ?thesis unfolding supplied_def
    using version_change_ok [OF storage_versions [OF store ok(1)] ok(1)] session_change_ok [OF change ok(2)]
      session_change_parts [OF change ok(3)] storage_refer [OF store ok(4,2,1)] storage_datasets [OF store ok(5,1)]
    by blast
next
  case same
  then show ?thesis using supplied_inputs assms(1) by blast
next
  case (created j)
  then have "supplied (db\<lparr>db_jobs := db_jobs db @ [j]\<rparr>)" using assms(1)
    by (auto simp: supplied_def parts_ok_def sessions_refer_def datasets_ok_def published_version_def)
  then show ?thesis using supplied_inputs created(1) by blast
qed

interpretation job_inputs: invariant_system nothing_stored "plane rt" supplied for rt
  by unfold_locales (rule nothing_stored_supplied, assumption, rule supplied_step)

text \<open>A job, once created, reads the same published version in every later state.\<close>

lemma plane_prefix:
  assumes "plane rt db db'"
  obtains ys where "map (\<lambda>j. (j_id j, j_version j)) (db_jobs db') = map (\<lambda>j. (j_id j, j_version j)) (db_jobs db) @ ys"
  using assms
proof (cases rule: plane_inputs)
  case store
  then show thesis using that [of "[]"] storage_frame by simp
next
  case same
  then show thesis using that [of "[]"] by (simp add: inputs_def)
next
  case (created j)
  then show thesis using that [of "[(j_id j, j_version j)]"] by (simp add: inputs_def)
qed

lemma find_pair: "map_option j_version (row_find j_id k js) = map_of (map (\<lambda>j. (j_id j, j_version j)) js) k"
  by (induction js) (auto simp: row_find_def)

lemma plane_job_version:
  assumes "plane rt db db'" "map_option j_version (find_job k db) = Some n"
  shows "map_option j_version (find_job k db') = Some n"
proof -
  obtain ys where "map (\<lambda>j. (j_id j, j_version j)) (db_jobs db') = map (\<lambda>j. (j_id j, j_version j)) (db_jobs db) @ ys"
    using plane_prefix [OF assms(1)] .
  then show ?thesis using assms(2) by (simp add: find_job_def find_pair map_add_Some_iff)
qed

lemma plane_run_version:
  assumes "(plane rt)\<^sup>*\<^sup>* db db'" "supplied db" "map_option j_version (find_job k db) = Some n"
    "row_find v_id n (db_versions db) = Some v" "v_state v = ''AVAILABLE''"
  shows "map_option j_version (find_job k db') = Some n \<and> row_find v_id n (db_versions db') = Some v"
  using assms(1)
proof (induction rule: rtranclp_induct)
  case (step y z)
  have ok: "versions_ok (db_versions y)" using job_inputs.steps_inv [OF step(1) assms(2)] by (simp add: supplied_def)
  have "row_find v_id n (db_versions z) = Some v"
    using step(2)
  proof (cases rule: plane_inputs)
    case store
    then show ?thesis using published_version_keeps ok step.IH assms(5) by blast
  qed (use step.IH in \<open>auto simp: inputs_def\<close>)
  then show ?case using plane_job_version [OF step(2)] step.IH by blast
qed (use assms in simp)

end
