(* ===== verification/Mail.thy ===== *)
theory Mail
  imports Inputs
begin

text \<open>
  The inbox and the outbox in every run of the control plane: a message that was recorded as
  processed stays recorded, and a row of the outbox only changes through the claim and the
  two marks of the dispatcher, which follow its state machine.
\<close>

section \<open>What a transaction leaves of the two boxes\<close>

named_theorems mail_simps \<open>what a statement leaves of the inbox and the outbox\<close>

definition mail :: "DB \<Rightarrow> Inbox list \<times> Outbox list" where
  "mail db = (db_inbox db, db_outbox db)"

text \<open>The inbox is as it was, and the outbox may have got new rows at its end, under new identifiers.\<close>

definition posted :: "Inbox list \<times> Outbox list \<Rightarrow> Inbox list \<times> Outbox list \<Rightarrow> bool" where
  "posted m m' \<longleftrightarrow> fst m' = fst m \<and>
     (\<exists>new. snd m' = snd m @ new \<and> (distinct (map ob_id (snd m)) \<longrightarrow> distinct (map ob_id (snd m'))))"

lemma posted_refl [simp]: "posted m m"
  by (simp add: posted_def)

lemma posted_trans: "posted m m' \<Longrightarrow> posted m' m'' \<Longrightarrow> posted m m''"
  by (auto simp: posted_def)

lemma mail_statements [mail_simps]:
  "mail (update_job k f db) = mail db" "mail (update_attempt k g db) = mail db" "mail (update_quota k q db) = mail db"
  "mail (add_history k s t reason actor db) = mail db" "mail (add_projection p db) = mail db"
  by (simp_all add: mail_def update_job_def update_attempt_def update_quota_def add_history_def add_projection_def)

lemma mail_records [mail_simps]:
  "mail (Job_recordHistory k s t reason actor db) = mail db" "mail (Lease_recordHistory k s' t reason db) = mail db"
  "mail (Result_recordHistory k s' t reason db) = mail db" "mail (decrementQuota now owner db) = mail db"
  by (simp_all add: Job_recordHistory_def Lease_recordHistory_def Result_recordHistory_def decrementQuota_def mail_simps)

lemma mail_fields [mail_simps]:
  "mail (db\<lparr>db_workers := x1\<rparr>) = mail db" "mail (db\<lparr>db_attempts := x2\<rparr>) = mail db"
  "mail (db\<lparr>db_artifacts := x3\<rparr>) = mail db" "mail (db\<lparr>db_quotas := x4\<rparr>) = mail db"
  "mail (db\<lparr>db_projections := x5\<rparr>) = mail db" "mail (db\<lparr>db_dead := x6\<rparr>) = mail db"
  "mail (db\<lparr>db_jobs := x7\<rparr>) = mail db" "mail (db\<lparr>db_idem := x8\<rparr>) = mail db"
  "mail (db\<lparr>db_progress := p, db_progress_history := h, db_progress_seq := n\<rparr>) = mail db"
  by (simp_all add: mail_def)

lemma mail_inserts:
  "incrementQuota now owner db = Inr db' \<Longrightarrow> mail db' = mail db"
  "insert_attempt a db = Inr db' \<Longrightarrow> mail db' = mail db"
  "insert_dead_letter d db = Inr db' \<Longrightarrow> mail db' = mail db"
  "insert_artifact r db = Inr db' \<Longrightarrow> mail db' = mail db"
  "insertResultProjection k a' oc keys e db = Inr db' \<Longrightarrow> mail db' = mail db"
  "insert_idempotency i db = Inr (ins, db') \<Longrightarrow> mail db' = mail db"
  by (auto simp: incrementQuota_def insert_attempt_def insert_dead_letter_def insert_artifact_def insertResultProjection_def
      insert_idempotency_def bindE_Inr mail_simps split: option.splits if_splits)

lemma mail_cancel_queued [mail_simps]: "mail (cancel_queued now j reason actor db) = mail db"
  by (auto simp: cancel_queued_def Let_def mail_simps split: option.splits)

lemma refused_or: "(case s of Inl a \<Rightarrow> Inl e | Inr b \<Rightarrow> k) = Inr y \<longleftrightarrow> \<not> isl s \<and> k = Inr y"
  by (cases s) auto

context enqueuer
begin

lemma enqueue_posted: "enqueue now m db = Inr db' \<Longrightarrow> posted (mail db) (mail db')"
  using enqueue_row by (fastforce simp: posted_def mail_def)

lemma commands_posted:
  "enqueueCancel rt enqueue msgID now j target reason c db = Inr db' \<Longrightarrow> posted (mail db) (mail db')"
  "enqueueRetryQueued rt enqueue msgID now j trace cause db = Inr db' \<Longrightarrow> posted (mail db) (mail db')"
  "enqueueRetry rt enqueue msgID now item availableAt db = Inr db' \<Longrightarrow> posted (mail db) (mail db')"
  "enqueueResultRetry rt enqueue msgID now item' availableAt db = Inr db' \<Longrightarrow> posted (mail db) (mail db')"
  "enqueueAcquireCommand rt enqueue msgID now item'' l t db = Inr db' \<Longrightarrow> posted (mail db) (mail db')"
  by (auto simp: enqueueCancel_def enqueueRetryQueued_def enqueueEnvelope_def enqueueEnvelopeWithRoutingKey_def enqueueRetry_def
      enqueueResultRetry_def enqueueAcquireCommand_def bindE_Inr Let_def split: option.splits if_splits intro: enqueue_posted)

lemma Create_posted:
  "Job_Create rt rules enqueue draws now c db = Inr (made, db') \<Longrightarrow> posted (mail db) (mail db')"
  by (auto simp: Job_Create_def bindE_Inr Let_def mail_simps split: option.splits if_splits
      dest!: mail_inserts(1,2,6) enqueue_posted)

lemma RequestCancel_posted:
  "RequestCancel rt enqueue msgID now c db = Inr (job, db') \<Longrightarrow> posted (mail db) (mail db')"
  by (auto simp: RequestCancel_def bindE_Inr Let_def mail_simps refused_or split: if_splits dest!: commands_posted(1))

lemma RequestRetry_posted:
  "RequestRetry rt enqueue attemptID msgID now c db = Inr (job, db') \<Longrightarrow> posted (mail db) (mail db')"
  by (auto simp: RequestRetry_def bindE_Inr Let_def mail_simps split: if_splits dest!: commands_posted(2) mail_inserts(1,2))

lemma expireOne_posted:
  "expireOne rt enqueue config draws item now report db = Inr (report', db') \<Longrightarrow> posted (mail db) (mail db')"
  by (auto simp: expireOne_def bindE_Inr Let_def mail_simps split: if_splits dest!: commands_posted(3) mail_inserts(2,3))

lemma expire_loop_posted:
  "expire_loop rt enqueue config draws now items report db = Inr (report', db') \<Longrightarrow> posted (mail db) (mail db')"
  by (induction items arbitrary: report db) (auto simp: bindE_Inr dest: expireOne_posted intro: posted_trans)

lemma SweepExpired_posted:
  "SweepExpired rt enqueue config draws now limit db = Inr (report, db') \<Longrightarrow> posted (mail db) (mail db')"
  by (auto simp: SweepExpired_def bindE_Inr Let_def split: if_splits dest!: expire_loop_posted)

lemma applyFailed_posted:
  "applyFailed rt (Some enqueue) policy draws now e db = Inr (out, db') \<Longrightarrow> posted (mail db) (mail db')"
  by (auto simp: applyFailed_def bindE_Inr Let_def mail_simps split: option.splits if_splits
      dest!: mail_inserts commands_posted(4))

lemma applyEvent_posted:
  "applyEvent rt (Some enqueue) policy draws now e db = Inr (out, db') \<Longrightarrow> posted (mail db) (mail db')"
  by (cases e)
    (auto simp: applyStarted_def applyProgressed_def applySucceeded_def applyCancelled_def applyArtifact_def bindE_Inr Let_def
      mail_simps split: option.splits if_splits dest!: applyFailed_posted mail_inserts)

end

lemma assignLease_mail: "assignLease item lease db = Inr db' \<Longrightarrow> mail db' = mail db"
  by (auto simp: assignLease_def bindE_Inr Let_def mail_simps split: option.splits if_splits)

lemma Acquire_posted:
  "Acquire rt Outbox_Enqueue (SelectForLease ttl) config leaseID msgID now c db = Inr (lease, db') \<Longrightarrow>
   posted (mail db) (mail db')"
  by (auto simp: Acquire_def bindE_Inr Let_def mail_simps split: if_splits
      dest!: assignLease_mail outbox_enqueuer.commands_posted(5) registry_selector.select_writes)

lemma row_update_single: "row_update key k f [r] = [if key r = k then f r else r]"
  by (simp add: row_update_def)

lemma Process_inbox:
  assumes "Process rt (Some Outbox_Enqueue) policy draws now envelope db = Inr (out, db')"
  shows "(db' = db \<and> env_MessageID envelope \<in> in_id ` set (db_inbox db)) \<or>
    (\<exists>r. db_inbox db' = db_inbox db @ [r] \<and> in_id r = env_MessageID envelope \<and> in_outcome r = fst out \<and>
       env_MessageID envelope \<notin> in_id ` set (db_inbox db) \<and>
       posted (mail db) (mail (db'\<lparr>db_inbox := db_inbox db\<rparr>)))"
proof (cases "env_MessageID envelope \<in> in_id ` set (db_inbox db)")
  case True
  then show ?thesis using assms by (auto simp: Process_def insertInbox_def bindE_Inr)
next
  case False
  let ?r = "\<lparr>in_id = env_MessageID envelope, in_type = env_MessageType envelope, in_outcome = Processing, in_reason = None\<rparr>"
  let ?f = "\<lambda>r. r\<lparr>in_outcome := fst out, in_reason := (if snd out = [] then None else Some (snd out))\<rparr>"
  from assms False obtain e db2 where
    run: "applyEvent rt (Some Outbox_Enqueue) policy draws now e (db\<lparr>db_inbox := db_inbox db @ [?r]\<rparr>) = Inr (out, db2)"
    and db': "db' = db2\<lparr>db_inbox := row_update in_id (env_MessageID envelope) ?f (db_inbox db2)\<rparr>"
    by (auto simp: Process_def insertInbox_def bindE_Inr)
  have "db_inbox db' = db_inbox db @ [?f ?r]" and "posted (mail db) (mail (db'\<lparr>db_inbox := db_inbox db\<rparr>))"
    using outbox_enqueuer.applyEvent_posted [OF run] False
    by (simp_all add: db' posted_def mail_def row_update_append row_update_absent row_update_single)
  then show ?thesis using False by (intro disjI2 exI [of _ "?f ?r"]) simp
qed

lemma storage_mail: "storage rt compiles db db' \<Longrightarrow> mail db' = mail db"
  by (simp add: mail_def storage_frame)

text \<open>
  Every transaction of the control plane only posts, or it is the one that processes a message,
  or one of the three operations of the dispatcher.
\<close>

lemma plane_mail:
  assumes "plane rt db db'"
  obtains (post) "posted (mail db) (mail db')"
  | (inbox) r where "db_inbox db' = db_inbox db @ [r]" "posted (mail db) (mail (db'\<lparr>db_inbox := db_inbox db\<rparr>))"
  | (claim) tok now d limit ms where "Claim tok now d limit db = Inr (ms, db')"
  | (published) i t now where "MarkPublished i t now db = Inr db'"
  | (retry) i t nx e mx where "MarkRetry i t nx e mx db = Inr db'"
  using assms
proof cases
  case create
  then show thesis using Service_Create_Inr outbox_enqueuer.Create_posted post by metis
next
  case cancel
  then show thesis using Service_Cancel_Inr outbox_enqueuer.RequestCancel_posted post by blast
next
  case retry
  then show thesis using Service_Retry_Inr outbox_enqueuer.RequestRetry_posted post by blast
next
  case replay
  then show thesis using Service_Replay_not_Inr by blast
next
  case acquire
  then show thesis using Acquire_posted post by blast
next
  case renew
  then show thesis by (cases rule: Renew_cases) (use post in \<open>simp add: mail_simps\<close>)
next
  case sweep
  then show thesis using outbox_enqueuer.SweepExpired_posted post by blast
next
  case result
  then show thesis using Process_inbox post inbox by (metis posted_refl)
next
  case worker
  then show thesis using ApplyEnvelope_frame mail_fields(1) post posted_refl by metis
next
  case store
  then show thesis using storage_mail post posted_refl by metis
qed (use claim published retry in blast)+

section \<open>The inbox in a run\<close>

text \<open>A message that is recorded stays recorded.\<close>

lemma plane_inbox: "plane rt db db' \<Longrightarrow> in_id ` set (db_inbox db) \<subseteq> in_id ` set (db_inbox db')"
  by (erule plane_mail) (auto simp: posted_def mail_def dest!: Claim_frame Mark_frame)

lemma run_inbox: "(plane rt)\<^sup>*\<^sup>* db db' \<Longrightarrow> in_id ` set (db_inbox db) \<subseteq> in_id ` set (db_inbox db')"
  by (induction rule: rtranclp_induct) (use plane_inbox in blast)+

section \<open>The outbox in a run\<close>

lemma plane_outbox:
  assumes "plane rt db db'"
  obtains (post) new where "db_outbox db' = db_outbox db @ new" "outbox_keys db \<Longrightarrow> outbox_keys db'"
  | (claim) tok now d limit ms where "Claim tok now d limit db = Inr (ms, db')"
  | (published) i t now where "MarkPublished i t now db = Inr db'"
  | (retry) i t nx e mx where "MarkRetry i t nx e mx db = Inr db'"
  using assms by (cases rule: plane_mail) (auto simp: posted_def mail_def outbox_keys_def)

lemma Claim_keys: "Claim tok now d limit db = Inr (ms, db') \<Longrightarrow> outbox_keys db \<Longrightarrow> outbox_keys db'"
  using Claim_Inr(5) by (fastforce simp: outbox_keys_def claimed_rows_def o_def if_distrib cong: if_cong)

lemma rows_update_ids: "(\<And>r. ob_id (f r) = ob_id r) \<Longrightarrow> map ob_id (rows_update P f rows) = map ob_id rows"
  by (auto simp: rows_update_def)

lemma plane_keys:
  assumes "plane rt db db'" "outbox_keys db"
  shows "outbox_keys db'"
  using assms(1)
  by (cases rule: plane_outbox)
    (use assms(2) Claim_keys in \<open>auto simp: outbox_keys_def MarkPublished_Inr MarkRetry_Inr rows_update_ids\<close>)

lemma run_keys: "(plane rt)\<^sup>*\<^sup>* db db' \<Longrightarrow> outbox_keys db \<Longrightarrow> outbox_keys db'"
  by (induction rule: rtranclp_induct) (auto dest: plane_keys)

text \<open>A claim takes only rows that are due; under distinct identifiers it leaves any other row alone.\<close>

lemma Claim_takes:
  assumes "Claim tok now d limit db = Inr (ms, db')" "outbox_keys db" "r \<in> set (db_outbox db)" "ob_id r \<in> m_ID ` set ms"
  shows "claimable now r"
proof -
  obtain r' where "r' \<in> set (db_outbox db)" "ob_id r' = ob_id r" "claimable now r'"
    using Claim_Inr(4) [OF assms(1)] assms(2,4) by (fastforce simp: outbox_keys_def)
  moreover have "inj_on ob_id (set (db_outbox db))" using assms(2) by (simp add: outbox_keys_def distinct_map)
  ultimately show ?thesis using assms(3) by (metis inj_onD)
qed

lemma Claim_leaves:
  assumes "Claim tok now d limit db = Inr (ms, db')" "outbox_keys db" "r \<in> set (db_outbox db)" "ob_id r \<notin> m_ID ` set ms"
  shows "r \<in> set (db_outbox db')"
  using Claim_Inr(5) [OF assms(1)] assms(2-4) by (force simp: outbox_keys_def claimed_rows_def)

lemma Mark_leaves:
  "MarkPublished i t now db = Inr db' \<Longrightarrow> r \<in> set (db_outbox db) \<Longrightarrow> \<not> owned i t r \<Longrightarrow> r \<in> set (db_outbox db')"
  "MarkRetry i t nx e mx db = Inr db' \<Longrightarrow> r \<in> set (db_outbox db) \<Longrightarrow> \<not> owned i t r \<Longrightarrow> r \<in> set (db_outbox db')"
  by (auto simp: MarkPublished_Inr MarkRetry_Inr intro: rows_update_miss)

text \<open>A published row is final.\<close>

lemma plane_published:
  assumes "plane rt db db'" "outbox_keys db" "r \<in> set (db_outbox db)" "ob_state r = Published"
  shows "r \<in> set (db_outbox db')"
  using assms(1)
proof (cases rule: plane_outbox)
  case claim
  then show ?thesis using Claim_takes [OF claim assms(2,3)] Claim_leaves [OF claim assms(2,3)] assms(4)
    by (auto simp: claimable_def)
next
  case published
  then show ?thesis using Mark_leaves(1) [OF published assms(3)] assms(4) by (simp add: owned_def)
next
  case retry
  then show ?thesis using Mark_leaves(2) [OF retry assms(3)] assms(4) by (simp add: owned_def)
qed (use assms(3) in simp)

lemma run_published:
  "(plane rt)\<^sup>*\<^sup>* db db' \<Longrightarrow> outbox_keys db \<Longrightarrow> r \<in> set (db_outbox db) \<Longrightarrow> ob_state r = Published \<Longrightarrow>
   r \<in> set (db_outbox db')"
  by (induction rule: rtranclp_induct) (auto dest: run_keys plane_published)

text \<open>
  What ends a claim: the dispatcher that holds the token reports the outcome, or the message is
  claimed again after the lease.
\<close>

definition claim_ends :: "uuid \<Rightarrow> uuid \<Rightarrow> time \<Rightarrow> DB \<Rightarrow> DB \<Rightarrow> bool" where
  "claim_ends i t until db db' \<longleftrightarrow>
     (\<exists>now. MarkPublished i t now db = Inr db') \<or>
     (\<exists>next e maxAttempts. MarkRetry i t next e maxAttempts db = Inr db') \<or>
     (\<exists>tok now d limit ms. Claim tok now d limit db = Inr (ms, db') \<and> i \<in> m_ID ` set ms \<and> until \<le> now)"

lemma plane_claimed:
  assumes "plane rt db db'" "outbox_keys db" "r \<in> set (db_outbox db)" "owned i t r" "ob_until r = Some until"
  shows "r \<in> set (db_outbox db') \<or> claim_ends i t until db db'"
  using assms(1)
proof (cases rule: plane_outbox)
  case (claim tok now d limit ms)
  show ?thesis
  proof (cases "i \<in> m_ID ` set ms")
    case True
    then have "until \<le> now" using Claim_takes [OF claim assms(2,3)] assms(4,5) by (simp add: owned_def claimable_def)
    then show ?thesis using claim True unfolding claim_ends_def by blast
  next
    case False
    then show ?thesis using Claim_leaves [OF claim assms(2,3)] assms(4) by (simp add: owned_def)
  qed
next
  case (published i' t' now)
  then show ?thesis using Mark_leaves(1) [OF published assms(3)] assms(4) by (auto simp: owned_def claim_ends_def)
next
  case (retry i' t' nx e mx)
  then show ?thesis using Mark_leaves(2) [OF retry assms(3)] assms(4) by (auto simp: owned_def claim_ends_def)
qed (use assms(3) in simp)

lemma run_claimed:
  assumes "(plane rt)\<^sup>*\<^sup>* db db'" "outbox_keys db" "r \<in> set (db_outbox db)" "owned i t r" "ob_until r = Some until"
  shows "r \<in> set (db_outbox db') \<or>
    (\<exists>db1 db2. (plane rt)\<^sup>*\<^sup>* db db1 \<and> r \<in> set (db_outbox db1) \<and> claim_ends i t until db1 db2 \<and> (plane rt)\<^sup>*\<^sup>* db2 db')"
  using assms(1)
proof (induction rule: rtranclp_induct)
  case (step y z)
  show ?case
  proof (cases "r \<in> set (db_outbox y)")
    case True
    from plane_claimed [OF step(2) run_keys [OF step(1) assms(2)] this assms(4,5)] show ?thesis
      using step(1) True by blast
  next
    case False
    then show ?thesis using step.IH step(2) by (meson rtranclp.rtrancl_into_rtrancl)
  qed
qed (use assms(3) in simp)

end
