(* ===== verification/ResultProperties.thy ===== *)
theory ResultProperties
  imports Samples Mail
begin

text \<open>
  Properties of the result consumer: each message is applied once, only the holder of the
  lease of an open attempt changes anything, progress is monotone and bounded.
\<close>

section \<open>Each message once\<close>

lemma Process_decodes: "Process rt writer policy draws now envelope db = Inr r \<Longrightarrow> \<exists>e. DecodeEvent rt envelope = Inr e"
  by (auto simp: Process_def bindE_Inr)

lemma Process_records:
  "Process rt (Some Outbox_Enqueue) policy draws now envelope db = Inr (out, db') \<Longrightarrow>
   env_MessageID envelope \<in> in_id ` set (db_inbox db')"
  by (frule Process_inbox) auto

lemma Process_duplicate:
  "env_MessageID envelope \<in> in_id ` set (db_inbox db) \<Longrightarrow> DecodeEvent rt envelope = Inr e \<Longrightarrow>
   Process rt writer policy draws now envelope db = Inr ((Duplicate, ''message_id_already_processed''), db)"
  by (simp add: Process_def insertInbox_def)

text \<open>
  C8. A message is processed at most once: after an event has been processed, whatever its
  outcome, and in every later state of the control plane, whatever other messages were processed
  and whatever the API, the scheduler and the dispatcher did meanwhile, processing the same
  message again, or any valid message with the same identifier, at any time and with any fresh
  identifiers, reports a duplicate and changes nothing.
\<close>

theorem process_once:
  assumes "Process rt (Some Outbox_Enqueue) policy draws now envelope db = Inr (out, db')" "(plane rt)\<^sup>*\<^sup>* db' later"
  shows "Process rt (Some Outbox_Enqueue) policy' draws' now' envelope later = Inr ((Duplicate, ''message_id_already_processed''), later) \<and>
    (\<forall>again e. env_MessageID again = env_MessageID envelope \<and> DecodeEvent rt again = Inr e \<longrightarrow>
      Process rt (Some Outbox_Enqueue) policy' draws' now' again later = Inr ((Duplicate, ''message_id_already_processed''), later))"
proof -
  have seen: "env_MessageID envelope \<in> in_id ` set (db_inbox later)"
    using Process_records [OF assms(1)] run_inbox [OF assms(2)] by blast
  obtain e where "DecodeEvent rt envelope = Inr e" using Process_decodes [OF assms(1)] by blast
  with seen show ?thesis using Process_duplicate by metis
qed

text \<open>The start of the job, then its success, then the start once more.\<close>

theorem process_once_witness:
  "let r = Process sample_runtime (Some Outbox_Enqueue) DefaultPolicy sample_result_draws 1200 sample_started sample_leased;
       r2 = Process sample_runtime (Some Outbox_Enqueue) DefaultPolicy sample_result_draws 1300 (sample_succeeded 41) (committed r)
   in fst (returned r) = Applied \<and> fst (returned r2) = Applied \<and>
      Process sample_runtime (Some Outbox_Enqueue) DefaultPolicy sample_result_draws 1400 sample_started (committed r2) =
        Inr ((Duplicate, ''message_id_already_processed''), committed r2)"
proof -
  let ?r = "Process sample_runtime (Some Outbox_Enqueue) DefaultPolicy sample_result_draws 1200 sample_started sample_leased"
  let ?r2 = "Process sample_runtime (Some Outbox_Enqueue) DefaultPolicy sample_result_draws 1300 (sample_succeeded 41) (committed ?r)"
  have ok: "\<not> isl ?r" "fst (returned ?r) = Applied" "\<not> isl ?r2" "fst (returned ?r2) = Applied" by code_simp+
  have "(plane sample_runtime)\<^sup>*\<^sup>* (committed ?r) (committed ?r2)"
    using plane.result [OF committed_Inr [OF ok(3)]] by blast
  then show ?thesis
    using process_once [OF committed_Inr [OF ok(1)], of "committed ?r2" DefaultPolicy sample_result_draws 1400] ok by (simp add: Let_def)
qed

section \<open>Only the holder of the lease\<close>

fun event_worker :: "event \<Rightarrow> uuid option" where
  "event_worker (Started e) = Some (st_WorkerID e)"
| "event_worker (SucceededE e) = Some (su_WorkerID e)"
| "event_worker (Failed e) = Some (fa_WorkerID e)"
| "event_worker (CancelledE e) = Some (ca_WorkerID e)"
| "event_worker (Progressed e) = None"
| "event_worker (ArtifactCreated e) = None"

lemma applyEvent_fenced:
  assumes "validateEvent e = Inr ()" "applyEvent rt (Some Outbox_Enqueue) policy draws now e db = Inr ((status, reason), db')"
  shows "if status = Applied
    then \<exists>item. lockAttempt (event_job e) (event_attempt e) db = Some item \<and> cx_LeaseID item = Some (event_lease e) \<and>
      (\<forall>w. event_worker e = Some w \<longrightarrow> cx_WorkerID item = Some w) \<and>
      (held (cx_AttemptState item) \<or> (\<exists>f. e = ArtifactCreated f))
    else status = Ignored \<and> reason \<noteq> [] \<and> db' = db"
proof (cases e)
  case (Failed f)
  then show ?thesis using assms
    by (auto simp: applyFailed_def Let_def bindE_Inr matchesLease_def split: option.splits if_splits)
qed (use assms in \<open>auto simp: applyStarted_def applyProgressed_def applySucceeded_def applyCancelled_def applyArtifact_def
    Let_def bindE_Inr matchesLease_def held_def split: option.splits if_splits\<close>)

lemma lockAttempt_frame:
  assumes "db_jobs db' = db_jobs db" "db_attempts db' = db_attempts db"
  shows "lockAttempt k a db' = lockAttempt k a db"
  unfolding lockAttempt_def find_job_def assms ..

text \<open>
  C7. Fencing, of the whole transaction that processes a message. An event is applied only when
  it names the lease the attempt has, the worker that holds it when the event names a worker, and,
  artifacts apart, an attempt that is leased or running; any other event is ignored, and then the
  transaction writes one row, the inbox record of the message with the outcome \<open>IGNORED\<close> and the
  reason, and nothing else. A repeated message writes nothing at all. So a worker whose lease
  expired, or an attempt that was retried elsewhere, can no longer report.
\<close>

theorem events_fenced:
  assumes "Process rt (Some Outbox_Enqueue) policy draws now envelope db = Inr ((status, reason), db')"
  shows "\<exists>e. DecodeEvent rt envelope = Inr e \<and>
    (if status = Applied
     then \<exists>item. lockAttempt (event_job e) (event_attempt e) db = Some item \<and> cx_LeaseID item = Some (event_lease e) \<and>
       (\<forall>w. event_worker e = Some w \<longrightarrow> cx_WorkerID item = Some w) \<and>
       (held (cx_AttemptState item) \<or> (\<exists>f. e = ArtifactCreated f))
     else if status = Ignored
     then db' = db\<lparr>db_inbox := db_inbox db @ [\<lparr>in_id = env_MessageID envelope, in_type = env_MessageType envelope,
       in_outcome = Ignored, in_reason = Some reason\<rparr>]\<rparr>
     else status = Duplicate \<and> env_MessageID envelope \<in> in_id ` set (db_inbox db) \<and> db' = db)"
proof -
  obtain e where e: "DecodeEvent rt envelope = Inr e" using Process_decodes [OF assms] by blast
  show ?thesis
  proof (cases "env_MessageID envelope \<in> in_id ` set (db_inbox db)")
    case True
    then show ?thesis using assms e by (auto simp: Process_def insertInbox_def)
  next
    case False
    let ?r = "\<lparr>in_id = env_MessageID envelope, in_type = env_MessageType envelope, in_outcome = Processing, in_reason = None\<rparr>"
    let ?db1 = "db\<lparr>db_inbox := db_inbox db @ [?r]\<rparr>"
    let ?f = "\<lambda>r. r\<lparr>in_outcome := status, in_reason := (if reason = [] then None else Some reason)\<rparr>"
    from assms e False obtain db2 where
      run: "applyEvent rt (Some Outbox_Enqueue) policy draws now e ?db1 = Inr ((status, reason), db2)"
      and db': "db' = db2\<lparr>db_inbox := row_update in_id (env_MessageID envelope) ?f (db_inbox db2)\<rparr>"
      by (auto simp: Process_def insertInbox_def bindE_Inr)
    have lock: "lockAttempt k a ?db1 = lockAttempt k a db" for k a by (rule lockAttempt_frame) simp_all
    note fenced = applyEvent_fenced [OF DecodeEvent_Inr(2) [OF e] run, unfolded lock]
    show ?thesis
    proof (cases "status = Applied")
      case True
      then show ?thesis using e fenced by simp
    next
      case not_applied: False
      then have "db' = db\<lparr>db_inbox := db_inbox db @ [?f ?r]\<rparr>" "status = Ignored" "reason \<noteq> []"
        using fenced False by (simp_all add: db' row_update_append row_update_absent row_update_single)
      then show ?thesis using e by simp
    qed
  qed
qed

theorem events_fenced_witness:
  "Process sample_runtime (Some Outbox_Enqueue) DefaultPolicy sample_result_draws 1300 (sample_succeeded 40) sample_running =
     Inr ((Ignored, ''stale_or_wrong_lease''), sample_running\<lparr>db_inbox := db_inbox sample_running @
       [\<lparr>in_id = 52, in_type = MessageJobSucceeded, in_outcome = Ignored, in_reason = Some ''stale_or_wrong_lease''\<rparr>]\<rparr>)"
proof -
  let ?r = "Process sample_runtime (Some Outbox_Enqueue) DefaultPolicy sample_result_draws 1300 (sample_succeeded 40) sample_running"
  have "\<not> isl ?r" "returned ?r = (Ignored, ''stale_or_wrong_lease'')" by code_simp+
  with committed_Inr [of ?r] have r: "?r = Inr ((Ignored, ''stale_or_wrong_lease''), committed ?r)" by simp
  have "env_MessageID (sample_succeeded 40) = 52" "env_MessageType (sample_succeeded 40) = MessageJobSucceeded"
    by (simp_all add: sample_succeeded_def sample_event_def)
  with events_fenced [OF r] r show ?thesis by simp
qed

section \<open>Progress\<close>

definition job_progress :: "uuid \<Rightarrow> DB \<Rightarrow> Progress option" where
  "job_progress k db = row_find pg_job k (db_progress db)"

text \<open>
  C27. Progress never goes back: as long as the snapshot of a job is about the same attempt, an
  accepted progress event is strictly newer and reports at least as many rows and at least the
  same percentage as the snapshot it replaces; an older or smaller report is ignored and
  leaves the snapshot and the history as they are.
\<close>

theorem progress_monotone:
  assumes "applyProgressed e db = Inr ((status, reason), db')" "job_progress (pr_JobID e) db = Some p"
    "pg_attempt p = pr_AttemptID e"
  shows "\<exists>p'. job_progress (pr_JobID e) db' = Some p' \<and> pg_rows p \<le> pg_rows p' \<and> pg_percent p \<le> pg_percent p' \<and>
    pg_updated p \<le> pg_updated p' \<and>
    (if status = Applied then pg_updated p < pg_updated p' \<and> pg_rows p' = pr_ProcessedRows e else db' = db)"
proof (cases "status = Applied")
  case True
  let ?f = "\<lambda>p. (progress_row 0 e)\<lparr>pg_id := pg_id p\<rparr>"
  have sup: "supersedes e p" and rows: "db_progress db' = row_update pg_job (pr_JobID e) ?f (db_progress db)"
    using assms(1,2) True
    by (auto simp: applyProgressed_def Let_def job_progress_def split: option.splits if_splits)
  have job: "pg_job p = pr_JobID e" using assms(2) row_find_SomeD unfolding job_progress_def by metis
  have upd: "row_find pg_job k (map (\<lambda>r. if pg_job r = k then ?f r else r) rs) =
      map_option ?f (row_find pg_job k rs)" if "k = pr_JobID e" for k rs
    using that by (induction rs) (auto simp: row_find_def progress_row_def)
  have "job_progress (pr_JobID e) db' = Some (?f p)"
    using upd [OF refl, of "db_progress db"] assms(2) rows by (simp add: job_progress_def row_update_def)
  then show ?thesis using True sup assms(3) by (auto simp: supersedes_def progress_row_def)
next
  case False
  then have "db' = db"
    using assms(1) by (auto simp: applyProgressed_def Let_def split: option.splits if_splits)
  then show ?thesis using assms(2) False by simp
qed

definition sample_progress :: "int \<Rightarrow> ProgressedEvent" where
  "sample_progress rows =
    \<lparr>pr_JobID = 31, pr_AttemptID = 32, pr_LeaseID = 41, pr_Stage = ''s'', pr_ProcessedRows = rows,
     pr_EstimatedTotalRows = None, pr_ProgressPercent = 10, pr_Throughput = 0, pr_UpdatedAt = 1300 + rows\<rparr>"

theorem progress_monotone_witness:
  "\<exists>p'. job_progress 31 (committed (applyProgressed (sample_progress 8)
      (committed (applyProgressed (sample_progress 5) sample_running)))) = Some p' \<and> 5 \<le> pg_rows p'"
proof -
  let ?db = "committed (applyProgressed (sample_progress 5) sample_running)"
  let ?r = "applyProgressed (sample_progress 8) ?db"
  have "\<not> isl ?r" by code_simp
  with committed_Inr [of ?r] have r: "?r = Inr ((fst (returned ?r), snd (returned ?r)), committed ?r)" by simp
  have p: "job_progress (pr_JobID (sample_progress 8)) ?db = Some (progress_row 0 (sample_progress 5))" by code_simp
  from progress_monotone [OF r p] show ?thesis by (auto simp: sample_progress_def progress_row_def)
qed

definition progress_serial :: "DB \<Rightarrow> bool" where
  "progress_serial db \<longleftrightarrow> distinct (map pg_id (db_progress_history db)) \<and>
     (\<forall>p \<in> set (db_progress_history db). pg_id p < db_progress_seq db)"

lemma trim_history_rows:
  "set (trim_history k rows) \<subseteq> set rows" "distinct (map pg_id rows) \<Longrightarrow> distinct (map pg_id (trim_history k rows))"
  by (auto simp: trim_history_def Let_def intro: distinct_map_filter)

lemma trim_history_bounded:
  assumes "distinct (map pg_id rows)"
  shows "length (filter (\<lambda>p. pg_job p = k) (trim_history k rows)) \<le> 100"
proof -
  let ?top = "take 100 (sort_key progress_order (filter (\<lambda>p. pg_job p = k) rows))"
  let ?F = "filter (\<lambda>p. pg_job p = k) (trim_history k rows)"
  have "set (map pg_id ?F) \<subseteq> set (map pg_id ?top)" by (auto simp: trim_history_def)
  moreover have "distinct (map pg_id ?F)"
    using assms by (auto simp: trim_history_def distinct_map inj_on_def)
  ultimately have "length (map pg_id ?F) \<le> card (set (map pg_id ?top))"
    by (metis List.finite_set card_mono distinct_card)
  also have "\<dots> \<le> 100" by (rule order_trans [OF card_length]) simp
  finally show ?thesis by simp
qed

text \<open>
  The history of progress is bounded: after an accepted progress event the history of the
  job holds at most 100 entries, the entries of other jobs are untouched, and the serial
  numbers stay unique.
\<close>

theorem progress_history_bounded:
  assumes "applyProgressed e db = Inr ((Applied, reason), db')" "progress_serial db"
  shows "length (filter (\<lambda>p. pg_job p = pr_JobID e) (db_progress_history db')) \<le> 100 \<and>
    filter (\<lambda>p. pg_job p \<noteq> pr_JobID e) (db_progress_history db') =
      filter (\<lambda>p. pg_job p \<noteq> pr_JobID e) (db_progress_history db) \<and> progress_serial db'"
proof -
  let ?rows = "db_progress_history db @ [progress_row (db_progress_seq db) e]"
  have hist: "db_progress_history db' = trim_history (pr_JobID e) ?rows" "db_progress_seq db' = db_progress_seq db + 1"
    using assms(1) by (auto simp: applyProgressed_def Let_def split: option.splits if_splits)
  have dist: "distinct (map pg_id ?rows)"
    using assms(2) by (auto simp: progress_serial_def progress_row_def)
  have "filter (\<lambda>p. pg_job p \<noteq> pr_JobID e) (trim_history (pr_JobID e) ?rows) =
      filter (\<lambda>p. pg_job p \<noteq> pr_JobID e) ?rows"
    unfolding trim_history_def Let_def filter_filter by (rule filter_cong) auto
  moreover have "progress_serial db'"
    using assms(2) trim_history_rows(1) [of "pr_JobID e" ?rows] trim_history_rows(2) [OF dist, of "pr_JobID e"]
    by (auto simp: progress_serial_def hist progress_row_def dest!: subsetD)
  ultimately show ?thesis using trim_history_bounded [OF dist] by (simp add: hist progress_row_def)
qed

theorem progress_history_bounded_witness:
  "length (filter (\<lambda>p. pg_job p = 31) (db_progress_history (committed (applyProgressed (sample_progress 5) sample_running)))) \<le> 100"
proof -
  let ?r = "applyProgressed (sample_progress 5) sample_running"
  have "\<not> isl ?r" "returned ?r = (Applied, ''progressed'')" by code_simp+
  with committed_Inr [of ?r] have r: "?r = Inr ((Applied, ''progressed''), committed ?r)" by simp
  have "progress_serial sample_running"
    by (simp add: progress_serial_def sample_running_def sample_defs)
  from progress_history_bounded [OF r this] show ?thesis by (simp add: sample_progress_def)
qed

section \<open>Failures\<close>

text \<open>
  What an accepted failure leads to: a retryable failure with attempts left puts the job
  back in the queue with the next attempt, due after the delay of the retry policy, which is
  also when the scheduler is signalled; a retryable failure of the last attempt dead-letters
  the job and records the dead letter; any other failure is permanent.
\<close>

theorem failed_event_outcome:
  assumes "applyFailed rt (Some Outbox_Enqueue) policy draws now e db = Inr ((Applied, reason), db')"
  shows "\<exists>item j'. lockAttempt (fa_JobID e) (fa_AttemptID e) db = Some item \<and> find_job (fa_JobID e) db' = Some j' \<and>
    (if fi_Retryable (fa_Error e) \<and> cx_AttemptNumber item < cx_MaxAttempts item
     then \<exists>d r. Policy_Delay (if pol_MaxAttempts policy < cx_MaxAttempts item
             then policy\<lparr>pol_MaxAttempts := cx_MaxAttempts item\<rparr> else policy) (cx_AttemptNumber item + 1) None = Inr d \<and>
         j_state j' = Queued \<and> j_next j' = Some (now + d) \<and>
         new_attempt (rd_attempt draws) (fa_JobID e) (cx_AttemptNumber item + 1) now \<in> set (db_attempts db') \<and>
         db_outbox db' = db_outbox db @ [r] \<and> (now + d \<noteq> 0 \<longrightarrow> ob_available r = now + d)
     else if fi_Retryable (fa_Error e)
     then j_state j' = DeadLettered \<and> (fa_JobID e, fa_AttemptID e) \<in> (\<lambda>d. (d_job d, d_attempt d)) ` set (db_dead db')
     else j_state j' = FailedPermanent)"
proof -
  let ?policy = "\<lambda>item. if pol_MaxAttempts policy < cx_MaxAttempts item
    then policy\<lparr>pol_MaxAttempts := cx_MaxAttempts item\<rparr> else policy"
  obtain item db2 where item: "lockAttempt (fa_JobID e) (fa_AttemptID e) db = Some item"
    and db2: "insertResultProjection (fa_JobID e) (fa_AttemptID e) ProjFailed [] (Some (fa_Error e))
        (update_attempt (fa_AttemptID e) (fail_attempt now (fa_Error e)) db) = Inr db2"
    using assms by (auto simp: applyFailed_def Let_def bindE_Inr split: option.splits if_splits)
  have frame: "db_jobs db2 = db_jobs db" "db_outbox db2 = db_outbox db"
    using db2 by (auto simp: insertResultProjection_def bindE_Inr update_attempt_def)
  obtain j where j: "row_find j_id (fa_JobID e) (db_jobs db) = Some j"
    using item by (auto simp: lockAttempt_def find_job_def split: option.splits)
  consider (retry) "fi_Retryable (fa_Error e)" "cx_AttemptNumber item < cx_MaxAttempts item"
    | (dead) "fi_Retryable (fa_Error e)" "\<not> cx_AttemptNumber item < cx_MaxAttempts item"
    | (permanent) "\<not> fi_Retryable (fa_Error e)" by blast
  then show ?thesis
  proof cases
    case retry
    obtain d db3 r where d: "Policy_Delay (?policy item) (cx_AttemptNumber item + 1) None = Inr d"
      and db3: "insert_attempt (new_attempt (rd_attempt draws) (fa_JobID e) (cx_AttemptNumber item + 1) now) db2 = Inr db3"
      and run: "enqueueResultRetry rt Outbox_Enqueue (rd_message draws) now item (now + d)
        (Result_recordHistory (fa_JobID e) Running Queued ''worker_failed_retry_scheduled''
          (update_quota (cx_OwnerUserID item) (requeue_active now)
            (update_job (fa_JobID e) (requeue_failed now (now + d) (fa_Error e)) db3))) = Inr db'"
      using assms item db2 retry
      by (auto simp: applyFailed_def Let_def bindE_Inr split: if_splits)
    from run obtain envelope r where
      "db' = (Result_recordHistory (fa_JobID e) Running Queued ''worker_failed_retry_scheduled''
          (update_quota (cx_OwnerUserID item) (requeue_active now)
            (update_job (fa_JobID e) (requeue_failed now (now + d) (fa_Error e)) db3)))\<lparr>db_outbox := db_outbox db2 @ [r]\<rparr>"
      "now + d \<noteq> 0 \<longrightarrow> ob_available r = now + d"
      using db3 unfolding enqueueResultRetry_def Let_def
      by (auto simp: bindE_Inr command_message_def Result_recordHistory_def update_quota_def update_job_def
          insert_attempt_Inr time_IsZero_def dest!: outbox_enqueuer.enqueue_row)
    with db3 d item frame j retry show ?thesis
      by (intro exI [of _ item] exI [of _ "requeue_failed now (now + d) (fa_Error e) j"])
        (auto simp: find_job_def Result_recordHistory_def update_quota_def update_job_def insert_attempt_Inr
          row_find_update requeue_failed_def)
  next
    case dead
    obtain letter db3 where db3: "insert_dead_letter letter db2 = Inr db3" "d_job letter = fa_JobID e" "d_attempt letter = fa_AttemptID e"
      and db': "db' = Result_recordHistory (fa_JobID e) Running DeadLettered ''retry_exhausted_dead_lettered''
        (update_quota (cx_OwnerUserID item) (release_active now)
          (update_job (fa_JobID e) (finish_failed DeadLettered now (fa_Error e)) db3))"
      using assms item db2 dead
      by (auto simp: applyFailed_def Let_def bindE_Inr split: if_splits)
    have "(fa_JobID e, fa_AttemptID e) \<in> (\<lambda>d. (d_job d, d_attempt d)) ` set (db_dead db3)" "db_jobs db3 = db_jobs db2"
      using db3 by (auto simp: insert_dead_letter_def split: if_splits)
    then show ?thesis using item frame j dead db'
      by (intro exI [of _ item] exI [of _ "finish_failed DeadLettered now (fa_Error e) j"])
        (auto simp: find_job_def Result_recordHistory_def update_quota_def update_job_def add_history_def
          row_find_update finish_failed_def)
  next
    case permanent
    then have "db' = Result_recordHistory (fa_JobID e) Running FailedPermanent ''worker_failed''
        (update_quota (cx_OwnerUserID item) (release_active now)
          (update_job (fa_JobID e) (finish_failed FailedPermanent now (fa_Error e)) db2))"
      using assms item db2 by (auto simp: applyFailed_def Let_def bindE_Inr split: if_splits)
    then show ?thesis using item frame j permanent
      by (intro exI [of _ item] exI [of _ "finish_failed FailedPermanent now (fa_Error e) j"])
        (auto simp: find_job_def Result_recordHistory_def update_quota_def update_job_def
          row_find_update finish_failed_def)
  qed
qed

definition sample_failure :: FailedEvent where
  "sample_failure =
    \<lparr>fa_JobID = 31, fa_AttemptID = 32, fa_LeaseID = 41, fa_WorkerID = 21,
     fa_Error = \<lparr>fi_Code = ''X'', fi_Message = ''m'', fi_Retryable = True, fi_DiagnosticRef = None\<rparr>\<rparr>"

theorem failed_event_outcome_witness:
  "\<exists>j'. find_job 31 (committed (applyFailed sample_runtime (Some Outbox_Enqueue) DefaultPolicy sample_result_draws 1300
     sample_failure sample_running)) = Some j' \<and> j_state j' = Queued"
proof -
  let ?r = "applyFailed sample_runtime (Some Outbox_Enqueue) DefaultPolicy sample_result_draws 1300 sample_failure sample_running"
  have "\<not> isl ?r" "fst (returned ?r) = Applied" by code_simp+
  with committed_Inr [of ?r] have r: "?r = Inr ((Applied, snd (returned ?r)), committed ?r)"
    by (metis prod.collapse)
  have "lockAttempt 31 32 sample_running = Some
      \<lparr>cx_OwnerUserID = 7, cx_JobState = Running, cx_JobID = 31, cx_MaxAttempts = 2, cx_AttemptID = 32, cx_AttemptNumber = 1,
       cx_AttemptState = ARunning, cx_LeaseID = Some 41, cx_WorkerID = Some 21\<rparr>" by code_simp
  with failed_event_outcome [OF r] show ?thesis by (auto simp: sample_failure_def)
qed

section \<open>Deliveries\<close>

lemma HandleDelivery_acked:
  "UnmarshalEnvelope body = Inr envelope \<Longrightarrow> process envelope db = Inr (out, db') \<Longrightarrow>
   HandleDelivery (Some process) (Some answer) body db = (([Ack False], answer (Ack False)), db')"
  by (simp add: HandleDelivery_def)

text \<open>
  C28. The result consumer loses no delivery and applies none twice. It settles each delivery with
  exactly one call. It acknowledges exactly when the event was processed and committed, and if the
  acknowledgement is lost, so that the broker delivers the message again, then in any later state
  of the control plane the redelivery is acknowledged as well and changes nothing. It rejects a
  body that is no valid envelope and negatively acknowledges an event whose processing fails,
  neither of them with requeue, so the broker dead-letters the message, and the declared topology
  routes the dead letters of the result queue to a declared queue bound for them; then the
  database is as it was and an error is returned.
\<close>

theorem delivery_settled_once:
  assumes "HandleDelivery (Some (Process rt (Some Outbox_Enqueue) policy draws now)) (Some answer) body db = ((calls, err), db')"
  shows "if calls = [Ack False]
    then (\<exists>envelope out. UnmarshalEnvelope body = Inr envelope \<and>
        Process rt (Some Outbox_Enqueue) policy draws now envelope db = Inr (out, db')) \<and> err = answer (Ack False) \<and>
      (\<forall>later policy' draws' now' answer'. (plane rt)\<^sup>*\<^sup>* db' later \<longrightarrow>
        HandleDelivery (Some (Process rt (Some Outbox_Enqueue) policy' draws' now')) (Some answer') body later =
          (([Ack False], answer' (Ack False)), later))
    else db' = db \<and> isl err \<and>
      (calls = [Reject False] \<and> isl (UnmarshalEnvelope body) \<or>
       calls = [Nack False False] \<and> (\<exists>envelope. UnmarshalEnvelope body = Inr envelope \<and>
         isl (Process rt (Some Outbox_Enqueue) policy draws now envelope db))) \<and>
      (\<exists>dlq. (''control-plane.results'', dlq) \<in> set (top_Queues DefaultTopology) \<and> (dlq, []) \<in> set (top_Queues DefaultTopology) \<and>
        (DeadLetterExchange, dlq, dlq) \<in> set (top_Bindings DefaultTopology))"
proof -
  have route: "\<exists>dlq. (''control-plane.results'', dlq) \<in> set (top_Queues DefaultTopology) \<and> (dlq, []) \<in> set (top_Queues DefaultTopology) \<and>
      (DeadLetterExchange, dlq, dlq) \<in> set (top_Bindings DefaultTopology)"
    by (rule exI [of _ "''control-plane.results.dlq''"]) (simp add: DefaultTopology_def)
  show ?thesis
  proof (cases "UnmarshalEnvelope body")
    case (Inl e)
    then show ?thesis using assms route by (auto simp: HandleDelivery_def split: sum.splits)
  next
    case (Inr envelope)
    show ?thesis
    proof (cases "Process rt (Some Outbox_Enqueue) policy draws now envelope db")
      case (Inl e)
      then show ?thesis using assms route \<open>UnmarshalEnvelope body = _\<close> by (auto simp: HandleDelivery_def split: sum.splits)
    next
      case processed: (Inr r)
      then have run: "Process rt (Some Outbox_Enqueue) policy draws now envelope db = Inr (fst r, db')" and
        out: "calls = [Ack False]" "err = answer (Ack False)"
        using assms Inr by (cases r; simp add: HandleDelivery_def)+
      obtain e where e: "DecodeEvent rt envelope = Inr e" using Process_decodes [OF run] by blast
      have "HandleDelivery (Some (Process rt (Some Outbox_Enqueue) policy' draws' now')) (Some answer') body later =
          (([Ack False], answer' (Ack False)), later)" if "(plane rt)\<^sup>*\<^sup>* db' later" for later policy' draws' now' answer'
      proof -
        have "env_MessageID envelope \<in> in_id ` set (db_inbox later)"
          using Process_records [OF run] run_inbox [OF that] by (rule subsetD [rotated])
        then have "Process rt (Some Outbox_Enqueue) policy' draws' now' envelope later =
            Inr ((Duplicate, ''message_id_already_processed''), later)" using e by (rule Process_duplicate)
        with Inr show ?thesis by (rule HandleDelivery_acked)
      qed
      then show ?thesis using run Inr out by auto
    qed
  qed
qed

text \<open>The acknowledgement of the start is lost, the job succeeds, and the start is delivered again.\<close>

theorem delivery_settled_once_witness:
  "let process = (\<lambda>now. Some (Process sample_runtime (Some Outbox_Enqueue) DefaultPolicy sample_result_draws now));
       lost = HandleDelivery (process 1200) (Some (\<lambda>_. Inl (ErrText ''channel closed''))) (100, Some sample_started) sample_leased;
       next = HandleDelivery (process 1300) (Some (\<lambda>_. Inr ())) (100, Some (sample_succeeded 41)) (snd lost)
   in fst lost = ([Ack False], Inl (ErrText ''channel closed'')) \<and> fst next = ([Ack False], Inr ()) \<and>
      HandleDelivery (process 1400) (Some (\<lambda>_. Inr ())) (100, Some sample_started) (snd next) = (([Ack False], Inr ()), snd next)"
proof -
  let ?process = "\<lambda>now. Some (Process sample_runtime (Some Outbox_Enqueue) DefaultPolicy sample_result_draws now)"
  let ?lost = "HandleDelivery (?process 1200) (Some (\<lambda>_. Inl (ErrText ''channel closed''))) (100, Some sample_started) sample_leased"
  let ?next = "HandleDelivery (?process 1300) (Some (\<lambda>_. Inr ())) (100, Some (sample_succeeded 41)) (snd ?lost)"
  have calls: "fst (fst ?lost) = [Ack False]" "fst (fst ?next) = [Ack False]" by code_simp+
  then have first: "?lost = (([Ack False], snd (fst ?lost)), snd ?lost)"
    and second: "?next = (([Ack False], snd (fst ?next)), snd ?next)" by (metis prod.collapse)+
  from delivery_settled_once [OF second] obtain envelope out where
    "Process sample_runtime (Some Outbox_Enqueue) DefaultPolicy sample_result_draws 1300 envelope (snd ?lost) = Inr (out, snd ?next)"
    by auto
  then have "(plane sample_runtime)\<^sup>*\<^sup>* (snd ?lost) (snd ?next)" by (blast intro: plane.result)
  moreover have "fst ?lost = ([Ack False], Inl (ErrText ''channel closed''))" "fst ?next = ([Ack False], Inr ())"
    using delivery_settled_once [OF first] delivery_settled_once [OF second] calls by (simp_all add: prod_eq_iff)
  ultimately show ?thesis using delivery_settled_once [OF first] by (simp add: Let_def)
qed

text \<open>
  The validation of artifact events bounds no key length while the table does: the event of
  a live attempt whose object key is longer than 512 bytes is decoded as valid and then fails
  in the database, so it is dead-lettered instead of being rejected as invalid.
\<close>

theorem long_artifact_key_fails_late:
  assumes "DecodeEvent rt envelope = Inr (ArtifactCreated e)" "512 < length (ar_ObjectKey e)"
    "env_MessageID envelope \<notin> in_id ` set (db_inbox db)"
    "lockAttempt (ar_JobID e) (ar_AttemptID e) db = Some item" "cx_LeaseID item = Some (ar_LeaseID e)"
    "cx_JobState item = Leased \<or> cx_JobState item = Running"
  shows "Process rt writer policy draws now envelope db = Inl (ErrDatabase ''object_key check'')"
proof -
  have "lockAttempt (ar_JobID e) (ar_AttemptID e) (db\<lparr>db_inbox := rows\<rparr>) = Some item" for rows
    using assms(4) lockAttempt_frame [of "db\<lparr>db_inbox := rows\<rparr>" db] by simp
  moreover have "insert_artifact r x = Inl (ErrDatabase ''object_key check'')" if "art_key r = ar_ObjectKey e" for r x
    using that assms(2) by (simp add: insert_artifact_def)
  ultimately show ?thesis
    using assms by (auto simp: Process_def insertInbox_def applyArtifact_def matchesLease_def Let_def)
qed

definition sample_artifact :: "nat \<Rightarrow> ArtifactCreatedEvent" where
  "sample_artifact n =
    \<lparr>ar_JobID = 31, ar_AttemptID = 32, ar_LeaseID = 41, ar_ArtifactID = 81, ar_Kind = ''report'',
     ar_ObjectKey = replicate n (CHR ''a'') @ ''.csv'', ar_SizeBytes = 1, ar_ContentType = ''c'',
     ar_ChecksumSHA256 = replicate 64 (CHR ''0'')\<rparr>"

definition sample_artifact_event :: "nat \<Rightarrow> Envelope" where
  "sample_artifact_event n = sample_event 54 MessageArtifactCreated
    (sample_identity 41 @ [(''artifactId'', sample_uuid 81), (''kind'', JStr ''report''),
      (''objectKey'', JStr (replicate n (CHR ''a'') @ ''.csv'')), (''sizeBytes'', JNum ''1''), (''contentType'', JStr ''c''),
      (''checksumSha256'', JStr (replicate 64 (CHR ''0'')))])"

theorem long_artifact_key_fails_late_witness:
  "DecodeEvent sample_runtime (sample_artifact_event 509) = Inr (ArtifactCreated (sample_artifact 509)) \<and>
   Process sample_runtime (Some Outbox_Enqueue) DefaultPolicy sample_result_draws 1300 (sample_artifact_event 509) sample_running =
     Inl (ErrDatabase ''object_key check'')"
proof -
  have dec: "DecodeEvent sample_runtime (sample_artifact_event 509) = Inr (ArtifactCreated (sample_artifact 509))" by code_simp
  have lock: "lockAttempt 31 32 sample_running = Some
      \<lparr>cx_OwnerUserID = 7, cx_JobState = Running, cx_JobID = 31, cx_MaxAttempts = 2, cx_AttemptID = 32, cx_AttemptNumber = 1,
       cx_AttemptState = ARunning, cx_LeaseID = Some 41, cx_WorkerID = Some 21\<rparr>" by code_simp
  have "db_inbox sample_running = []" by (simp add: sample_running_def sample_defs)
  then show ?thesis
    using dec long_artifact_key_fails_late [OF dec, of sample_running, OF _ _ _ _ _] lock by (simp add: sample_artifact_def)
qed

end
