(* ===== verification/LeaseProperties.thy ===== *)
theory LeaseProperties
  imports Samples
begin

text \<open>
  Properties of leases, workers and the retry policy: capacity and fencing of an acquisition,
  renewal, the sweep, the choice of a worker, and the delays between attempts.
\<close>

section \<open>Acquisition\<close>

lemma active_leases_assign:
  assumes "distinct (map a_id (db_attempts db))" "a \<in> set (db_attempts db)" "a_state a = ACreated"
    "db_attempts db' = row_update a_id (a_id a) (assign_attempt lease) (db_attempts db)"
  shows "active_leases w db' = active_leases w db + (if w = l_WorkerID lease then 1 else 0)"
  unfolding active_leases_def assms(4)
  using count_rows_update [OF assms(1,2) refl, of "\<lambda>a. a_worker a = Some w \<and> (a_state a = ALeased \<or> a_state a = ARunning)"
      "assign_attempt lease"] assms(3)
  by (auto simp: assign_attempt_def)

text \<open>
  C11. A lease is granted only for a queued job that is due, on its open attempt, to a worker of
  the registry that is ready or busy, whose last heartbeat is no older than the registry's bound,
  that supports every operation of the job and is below its concurrency limit; the worker then
  holds exactly one lease more, no other worker's count changes, and the limit is not exceeded.
  The lease ends after now, within thirty minutes.
\<close>

theorem acquire_within_capacity:
  assumes con: "consistent db"
    and run: "Acquire rt Outbox_Enqueue (SelectForLease ttl) config leaseID msgID now c db = Inr (lease, db')"
  shows "\<exists>j a w. find_job (ac_JobID c) db = Some j \<and> due now j \<and>
    a \<in> set (db_attempts db) \<and> a_job a = j_id j \<and> a_id a = l_AttemptID lease \<and> a_state a = ACreated \<and> w \<in> set (db_workers db) \<and> w_id w = l_WorkerID lease \<and>
    (w_status w = WReady \<or> w_status w = WBusy) \<and> (\<exists>t. w_heartbeat w = Some t \<and> now - ttl \<le> t) \<and>
    (\<forall>op \<in> set (j_ops j). TrimSpace (op_Type op) \<in> set (w_ops w)) \<and>
    active_leases (w_id w) db' = active_leases (w_id w) db + 1 \<and> active_leases (w_id w) db' \<le> w_max w \<and>
    (\<forall>k. k \<noteq> w_id w \<longrightarrow> active_leases k db' = active_leases k db) \<and>
    now < l_LeaseExpiresAt lease \<and> l_LeaseExpiresAt lease \<le> now + MaxLeaseDuration"
  using run
proof (cases rule: lease_repo.Acquire_cases)
  case (1 j a item db1 r)
  note C = consistentD [OF con]
  have j: "j \<in> set (db_jobs db)" using find_jobD [OF 1(1)] by simp
  have a: "a \<in> set (db_attempts db)" and job: "a_job a = j_id j" using max_row_mem [OF 1(4)] by (simp_all add: attempts_of_def)
  note sel = registry_selector.select_frame [OF 1(11)]
  have upd: "db_attempts db' = row_update a_id (a_id a) (assign_attempt lease) (db_attempts db)"
    using 1(13) sel(2) by (simp add: Lease_recordHistory_def update_quota_def update_job_def update_attempt_def)
  note count = active_leases_assign [OF C(2) a 1(5) upd]
  from SelectForLease_live [OF 1(11)] obtain w t where w: "w \<in> set (db_workers db)" "w_id w = l_WorkerID lease"
    "active_leases (l_WorkerID lease) db < w_max w" "TrimSpace ` set item \<subseteq> set (w_ops w)"
    "w_status w = WReady \<or> w_status w = WBusy" "w_heartbeat w = Some t" "now - ttl \<le> t" by blast
  have types: "operation_types seen ops = Inr ts \<Longrightarrow> op \<in> set ops \<Longrightarrow> op_Type op \<in> set ts \<union> set seen" for seen ops ts op
    by (induction seen ops arbitrary: ts rule: operation_types.induct) (auto simp: bindE_Inr split: if_splits)
  have "op_Type op \<in> set item" if "op \<in> set (j_ops j)" for op
    using 1(10) types [of "[]" "j_ops j" item op] that by (simp add: decodeOperationTypes_def split: if_splits)
  then have ops: "\<forall>op \<in> set (j_ops j). TrimSpace (op_Type op) \<in> set (w_ops w)" using w(4) by auto
  have "l_AttemptID lease = a_id a" using arg_cong [OF 1(6), of l_AttemptID] by simp
  then show ?thesis
    by (intro exI [of _ j] exI [of _ a] exI [of _ w] conjI) (use 1 w a job count ops in \<open>auto simp: due_def\<close>)
qed

theorem acquire_within_capacity_witness:
  "w_heartbeat sample_worker = Some 900 \<and> 1100 - 5000 \<le> (900 :: int) \<and> active_leases 21 (committed (Acquire sample_runtime Outbox_Enqueue (SelectForLease 5000) sample_config 41 42 1100
      \<lparr>ac_JobID = 31, ac_Duration = 0\<rparr> sample_queued)) \<le> 1"
proof -
  let ?r = "Acquire sample_runtime Outbox_Enqueue (SelectForLease 5000) sample_config 41 42 1100
      \<lparr>ac_JobID = 31, ac_Duration = 0\<rparr> sample_queued"
  have "\<not> isl ?r" by code_simp
  from acquire_within_capacity [OF samples_consistent(1) committed_Inr [OF this]]
  obtain w where w: "w \<in> set (db_workers sample_queued)" "active_leases (w_id w) (committed ?r) \<le> w_max w" by blast
  moreover have "db_workers sample_queued = [sample_worker]" by (simp add: sample_queued_def sample_defs)
  ultimately show ?thesis by (simp add: sample_worker_def)
qed

text \<open>
  C12. The transaction that grants a lease also writes the command for it: exactly one outbox row
  is added, routed to the chosen worker, and its payload carries the lease, the attempt and the
  worker that later events are checked against; when the acquisition fails nothing is granted
  and nothing is sent. No other attempt has the lease's identifier.
\<close>

theorem acquire_sends_command:
  assumes con: "consistent db"
  shows "case Acquire rt Outbox_Enqueue (SelectForLease ttl) config leaseID msgID now c db of
      Inl e \<Rightarrow> snd (run_tx (Acquire rt Outbox_Enqueue (SelectForLease ttl) config leaseID msgID now c) db) = db
    | Inr (lease, db') \<Rightarrow>
        (\<exists>a r kvs. a \<in> set (db_attempts db') \<and> a_id a = l_AttemptID lease \<and> a_state a = ALeased \<and>
           a_lease a = Some leaseID \<and> a_worker a = Some (l_WorkerID lease) \<and>
           (\<forall>b \<in> set (db_attempts db'). a_lease b = Some leaseID \<longrightarrow> b = a) \<and>
           db_outbox db' = db_outbox db @ [r] \<and> ob_state r = Pending \<and>
           ob_key r = MessageJobRequested @ ''.'' @ uuid_String rt (l_WorkerID lease) \<and>
           raw_value (env_Payload (ob_env r)) = Some (JObj kvs) \<and>
           json_field kvs ''leaseId'' = Some (JStr (uuid_String rt leaseID)) \<and>
           json_field kvs ''attemptId'' = Some (JStr (uuid_String rt (l_AttemptID lease))) \<and>
           json_field kvs ''workerId'' = Some (JStr (uuid_String rt (l_WorkerID lease))))"
proof (cases "Acquire rt Outbox_Enqueue (SelectForLease ttl) config leaseID msgID now c db")
  case (Inl e)
  then show ?thesis by (simp add: run_tx_def)
next
  case (Inr ld)
  obtain lease db' where ld: "ld = (lease, db')" by force
  with Inr have run: "Acquire rt Outbox_Enqueue (SelectForLease ttl) config leaseID msgID now c db = Inr (lease, db')" by simp
  from run show ?thesis
  proof (cases rule: lease_repo.Acquire_cases)
    case (1 j a item db1 r)
    note C = consistentD [OF con]
    have a: "a \<in> set (db_attempts db)" using max_row_mem [OF 1(4)] by (simp add: attempts_of_def)
    note sel = registry_selector.select_frame [OF 1(11)]
    have upd: "db_attempts db' = row_update a_id (a_id a) (assign_attempt lease) (db_attempts db)"
      using 1(13) sel(2) by (simp add: Lease_recordHistory_def update_quota_def update_job_def update_attempt_def)
    then have rows: "set (db_attempts db') = insert (assign_attempt lease a) (set (db_attempts db) - {a})"
      using row_update_mem [OF C(2) a refl] by simp
    have only: "b = assign_attempt lease a" if "b \<in> set (db_attempts db')" "a_lease b = Some leaseID" for b
    proof (rule ccontr)
      assume "b \<noteq> assign_attempt lease a"
      with that(1) rows have b: "b \<in> set (db_attempts db)" "b \<noteq> a" by auto
      then have "a_id b = a_id a" using 1(12) that(2) by blast
      then show False using C(2) a b by (auto simp: distinct_map inj_on_def)
    qed
    from 1(17) obtain kvs where kvs: "raw_value (env_Payload (ob_env r)) = Some (JObj kvs)"
      "json_field kvs ''leaseId'' = Some (JStr (uuid_String rt leaseID))"
      "json_field kvs ''attemptId'' = Some (JStr (uuid_String rt (a_id a)))"
      "json_field kvs ''workerId'' = Some (JStr (uuid_String rt (l_WorkerID lease)))" by blast
    have l: "l_LeaseID lease = leaseID" "l_AttemptID lease = a_id a"
      by (subst 1(6), simp)+
    have out: "db_outbox db' = db_outbox db @ [r]" using 1(13) by simp
    have "\<exists>a' r kvs. a' \<in> set (db_attempts db') \<and> a_id a' = l_AttemptID lease \<and> a_state a' = ALeased \<and>
           a_lease a' = Some leaseID \<and> a_worker a' = Some (l_WorkerID lease) \<and>
           (\<forall>b \<in> set (db_attempts db'). a_lease b = Some leaseID \<longrightarrow> b = a') \<and>
           db_outbox db' = db_outbox db @ [r] \<and> ob_state r = Pending \<and>
           ob_key r = MessageJobRequested @ ''.'' @ uuid_String rt (l_WorkerID lease) \<and>
           raw_value (env_Payload (ob_env r)) = Some (JObj kvs) \<and>
           json_field kvs ''leaseId'' = Some (JStr (uuid_String rt leaseID)) \<and>
           json_field kvs ''attemptId'' = Some (JStr (uuid_String rt (l_AttemptID lease))) \<and>
           json_field kvs ''workerId'' = Some (JStr (uuid_String rt (l_WorkerID lease)))"
      by (intro exI [of _ "assign_attempt lease a"] exI [of _ r] exI [of _ kvs] conjI ballI impI)
        (use rows only kvs l out 1(14,16) in \<open>simp_all add: assign_attempt_def\<close>)
    then show ?thesis using run by simp
  qed
qed

theorem acquire_sends_command_witness:
  "length (db_outbox (committed (Acquire sample_runtime Outbox_Enqueue (SelectForLease 5000) sample_config 41 42 1100
      \<lparr>ac_JobID = 31, ac_Duration = 0\<rparr> sample_queued))) = 1"
proof -
  let ?r = "Acquire sample_runtime Outbox_Enqueue (SelectForLease 5000) sample_config 41 42 1100
      \<lparr>ac_JobID = 31, ac_Duration = 0\<rparr> sample_queued"
  have ok: "\<not> isl ?r" by code_simp
  have "db_outbox sample_queued = []" by (simp add: sample_queued_def sample_defs)
  with acquire_sends_command [OF samples_consistent(1), of sample_runtime 5000 sample_config 41 42 1100
      "\<lparr>ac_JobID = 31, ac_Duration = 0\<rparr>"] committed_Inr [OF ok] ok
  show ?thesis by (cases ?r) (auto simp: committed_def split: prod.splits)
qed

section \<open>Renewal\<close>

text \<open>
  C13. Only the worker that holds an unexpired lease of an open attempt can renew it: the renewal
  moves the expiry of attempts with this lease and worker, and of no other, to a later instant
  at most thirty minutes away. An unknown pair of lease and worker, a closed attempt and an
  expired lease each get their own error.
\<close>

theorem renew_only_live_lease:
  "case Renew config now c db of
     Inr (lease, db') \<Rightarrow>
       (\<exists>a \<in> set (db_attempts db). a_lease a = Some (rn_LeaseID c) \<and> a_worker a = Some (rn_WorkerID c) \<and> held (a_state a) \<and>
          (\<exists>t. a_expires a = Some t \<and> now < t)) \<and>
       now < l_LeaseExpiresAt lease \<and> l_LeaseExpiresAt lease \<le> now + MaxLeaseDuration \<and>
       db_attempts db' = map (\<lambda>a. if a_lease a = Some (rn_LeaseID c) \<and> a_worker a = Some (rn_WorkerID c)
         then a\<lparr>a_renewed := Some now, a_expires := Some (l_LeaseExpiresAt lease)\<rparr> else a) (db_attempts db) \<and>
       db' = db\<lparr>db_attempts := db_attempts db'\<rparr>
   | Inl e \<Rightarrow>
       rn_LeaseID c \<noteq> uuid_Nil \<and> rn_WorkerID c \<noteq> uuid_Nil \<and> \<not> isl (normalizeDuration (rn_Duration c) (lc_RenewalWindow config)) \<longrightarrow>
       (case find (leased_to (rn_LeaseID c) (rn_WorkerID c)) (db_attempts db) of
          None \<Rightarrow> e = LeaseErrLeaseNotFound
        | Some a \<Rightarrow> e = (if held (a_state a) then LeaseErrLeaseExpired else LeaseErrLeaseState))"
proof (cases "Renew config now c db")
  case (Inl e)
  then show ?thesis
    by (auto simp: Renew_def bindE_Inl held_def split: if_splits option.splits sum.splits)
next
  case (Inr ld)
  obtain lease db' where ld: "ld = (lease, db')" by force
  with Inr have run: "Renew config now c db = Inr (lease, db')" by simp
  then show ?thesis
  proof (cases rule: Renew_cases)
    case (1 a d t)
    then show ?thesis using run by (auto simp: leased_to_def rows_update_def)
  qed
qed

theorem renew_only_live_lease_witness:
  "let r = Renew sample_config 1500 \<lparr>rn_LeaseID = 41, rn_WorkerID = 21, rn_Duration = 0\<rparr> sample_running
   in map a_expires (db_attempts (committed r)) = [Some 1560]"
proof -
  let ?r = "Renew sample_config 1500 \<lparr>rn_LeaseID = 41, rn_WorkerID = 21, rn_Duration = 0\<rparr> sample_running"
  have ok: "\<not> isl ?r" "l_LeaseExpiresAt (returned ?r) = 1560" by code_simp+
  have rows: "db_attempts sample_running = [sample_attempt ARunning]" by (simp add: sample_running_def sample_db_def)
  from ok obtain lease db' where r: "?r = Inr (lease, db')" and lease: "l_LeaseExpiresAt lease = 1560"
    by (cases ?r) (auto simp: returned_def split: prod.splits)
  have "db_attempts db' = map (\<lambda>a. if a_lease a = Some 41 \<and> a_worker a = Some 21
         then a\<lparr>a_renewed := Some 1500, a_expires := Some 1560\<rparr> else a) (db_attempts sample_running)"
    using renew_only_live_lease [where config = sample_config and now = 1500 and db = sample_running
      and c = "\<lparr>rn_LeaseID = 41, rn_WorkerID = 21, rn_Duration = 0\<rparr>"] unfolding r by (simp add: lease)
  then have "map a_expires (db_attempts db') = [Some 1560]" using rows by (simp add: sample_attempt_def)
  then show ?thesis by (simp add: r committed_def)
qed

section \<open>The sweep\<close>

lemma take_all_shorter: "int (length (take (nat k) xs)) < k \<Longrightarrow> take (nat k) xs = xs"
  by (cases "length xs \<le> nat k") (auto split: if_splits)

lemma expireOne_held:
  assumes "expireOne rt Outbox_Enqueue config draws item now report db = Inr (report', db')"
    "a \<in> set (db_attempts db')" "held (a_state a)"
  shows "a \<in> set (db_attempts db) \<and> a_id a \<noteq> ec_AttemptID item"
proof -
  from assms(1) obtain g new where rows: "db_attempts db' = row_update a_id (ec_AttemptID item) g (db_attempts db) @ new"
    and closed: "\<And>b. \<not> held (a_state (g b))" and fresh: "\<And>b. b \<in> set new \<Longrightarrow> a_state b = ACreated"
  proof (cases rule: outbox_enqueuer.expireOne_cases)
    case (cancelled g f)
    then show thesis by (intro that [of g "[]"]) (simp_all add: expired_tables_def held_def)
  next
    case (retried f delay)
    show thesis
      by (rule that [of "time_out now" "[new_attempt (sd_attempt draws) (ec_JobID item) (ec_AttemptNumber item + 1) now]"])
        (use retried(4) in \<open>simp_all add: expired_tables_def held_def time_out_def new_attempt_def\<close>)
  next
    case (dead f)
    then show thesis by (intro that [of "time_out now" "[]"]) (simp_all add: expired_tables_def held_def time_out_def)
  qed
  have "a \<notin> set new" using fresh assms(3) by (auto simp: held_def)
  then show ?thesis using assms(2,3) closed unfolding rows by (auto simp: row_update_def split: if_splits)
qed

lemma expire_loop_held:
  "expire_loop rt Outbox_Enqueue config draws now items report db = Inr (report', db') \<Longrightarrow>
   a \<in> set (db_attempts db') \<Longrightarrow> held (a_state a) \<Longrightarrow> a \<in> set (db_attempts db) \<and> a_id a \<notin> ec_AttemptID ` set items"
proof (induction items arbitrary: report db)
  case (Cons item items)
  from Cons.prems(1) obtain report1 db1 where
    one: "expireOne rt Outbox_Enqueue config (draws (ec_AttemptID item)) item now report db = Inr (report1, db1)"
    and rest: "expire_loop rt Outbox_Enqueue config draws now items report1 db1 = Inr (report', db')"
    by (auto simp: bindE_Inr)
  from Cons.IH [OF rest Cons.prems(2,3)] have "a \<in> set (db_attempts db1)" "a_id a \<notin> ec_AttemptID ` set items" by auto
  with expireOne_held [OF one _ Cons.prems(3)] show ?case by auto
qed simp

text \<open>
  C14. The sweep accounts for every lease it claims, as a retry, a dead letter or a cancellation,
  claims at most its limit, and keeps the job tables consistent; when it claims fewer than its
  limit, no lease that expired by now is left: every attempt still leased or running expires
  later.
\<close>

theorem sweep_leaves_no_expired_lease:
  assumes con: "consistent db"
    and run: "SweepExpired rt Outbox_Enqueue config draws now limit db = Inr (report, db')"
  shows "consistent db' \<and> sr_Claimed report = sr_Retried report + sr_DeadLettered report + sr_Cancelled report \<and>
    sr_Claimed report \<le> (if limit = 0 then lc_SweepLimit config else limit) \<and>
    (sr_Claimed report < (if limit = 0 then lc_SweepLimit config else limit) \<longrightarrow>
      (\<forall>a \<in> set (db_attempts db'). a_state a = ALeased \<or> a_state a = ARunning \<longrightarrow> (\<exists>t. a_expires a = Some t \<and> now < t)))"
proof -
  let ?limit = "if limit = 0 then lc_SweepLimit config else limit"
  let ?key = "\<lambda>(j :: Job, a). ((case a_expires a of None \<Rightarrow> 0 | Some t \<Rightarrow> t), a_id a)"
  define rows where "rows = take (nat ?limit) (sort_key ?key (filter (expired now) (job_attempt_rows db)))"
  note facts = outbox_enqueuer.SweepExpired_changes [OF run con]
  from run obtain items where scan: "mapE scanExpired rows = Inr items"
    and loop: "expire_loop rt Outbox_Enqueue config draws now items
      \<lparr>sr_Claimed = int (length items), sr_Retried = 0, sr_DeadLettered = 0, sr_Cancelled = 0, sr_Skipped = 0\<rparr> db = Inr (report, db')"
    unfolding SweepExpired_def Let_def rows_def [symmetric] by (auto simp: bindE_Inr split: if_splits)
  have claimed: "expire_loop rt Outbox_Enqueue config draws now its rep d = Inr (rep', d') \<Longrightarrow> sr_Claimed rep' = sr_Claimed rep"
    for its rep d rep' d'
    by (induction its arbitrary: rep d)
      (auto simp: bindE_Inr expireOne_def Let_def split: if_splits)
  have late: "\<exists>t. a_expires a = Some t \<and> now < t"
    if few: "sr_Claimed report < ?limit" and a: "a \<in> set (db_attempts db')" "held (a_state a)" for a
  proof -
    have old: "a \<in> set (db_attempts db)" "a_id a \<notin> ec_AttemptID ` set items"
      using expire_loop_held [OF loop a] by simp_all
    obtain j where j: "j \<in> set (db_jobs db)" "j_id j = a_job a" using consistentD(4) [OF con old(1)] by auto
    obtain xs b where b: "attempts_of (j_id j) db = xs @ [b]" "agree (j_state j) (a_state b)" "held (a_state b) \<Longrightarrow> has_lease b"
      by (rule consistent_job [OF con j(1)]) blast
    have "a = b" by (rule open_attempt_last [OF con j(1) old(1) j(2) [symmetric] held_open [OF a(2)] b(1)])
    with b a(2) have state: "j_state j = Leased \<or> j_state j = Running \<or> j_state j = CancelRequested" and lease: "has_lease a"
      by (cases "j_state j"; auto simp: held_def)+
    have found: "find_job (a_job a) db = Some j"
      using j find_job_distinct [OF consistentD(1) [OF con]] by simp
    have "\<not> expired now (j, a)"
    proof
      assume exp: "expired now (j, a)"
      have "length items = length rows" by (rule mapE_length [OF scan])
      then have "int (length rows) < ?limit" using claimed [OF loop] few by simp
      then have "rows = sort_key ?key (filter (expired now) (job_attempt_rows db))"
        unfolding rows_def by (rule take_all_shorter)
      then have "(j, a) \<in> set rows" using exp old(1) found by (simp add: job_attempt_rows_mem)
      then obtain i where "i \<in> set items" "scanExpired (j, a) = Inr i" using mapE_defined [OF scan] by blast
      then have "a_id a \<in> ec_AttemptID ` set items" using scanExpired_Inr(2) by force
      then show False using old(2) by simp
    qed
    then show ?thesis using state lease a(2) by (auto simp: expired_def has_lease_def held_def)
  qed
  have "consistent db'" using changes_consistent [OF facts(1) con] .
  then show ?thesis using facts(2,3) late by (auto simp: held_def)
qed

definition sample_sweep_draws :: "uuid \<Rightarrow> SweepDraws" where
  "sample_sweep_draws a = \<lparr>sd_attempt = a + 100, sd_message = a + 200, sd_dead = a + 300, sd_random = (\<lambda>n. 0)\<rparr>"

theorem sweep_leaves_no_expired_lease_witness:
  "let r = SweepExpired sample_runtime Outbox_Enqueue sample_config sample_sweep_draws 3000 0 sample_running
   in consistent (committed r) \<and> sr_Claimed (returned r) = 1 \<and> sr_Retried (returned r) = 1"
proof -
  let ?r = "SweepExpired sample_runtime Outbox_Enqueue sample_config sample_sweep_draws 3000 0 sample_running"
  have "\<not> isl ?r" "sr_Claimed (returned ?r) = 1 \<and> sr_Retried (returned ?r) = 1" by code_simp+
  then show ?thesis
    using sweep_leaves_no_expired_lease [OF samples_consistent(3) committed_Inr [of ?r]] by (simp add: Let_def)
qed

section \<open>The worker registry\<close>

text \<open>
  The loop that selects a worker is the search for the first worker with room in the list of
  able and live workers, least recently assigned first: it ends, and it answers that no worker
  is available exactly when each able and live worker has as many leases as it allows.
\<close>

theorem selection_is_search:
  assumes keys: "distinct (map w_id (db_workers db))" and ops: "operations \<noteq> []"
    and required: "normalizedRequiredOperations operations = Inr required"
  shows "let able = sort_key worker_order (filter (eligible ttl required now) (db_workers db))
    in SelectForLease ttl operations now db =
      Inr (case find (\<lambda>w. active_leases (w_id w) db < w_max w) able of
        None \<Rightarrow> ((uuid_Nil, False), db)
      | Some w \<Rightarrow> ((w_id w, True), mark_assigned (w_id w) now db))"
  using select_loop_find [OF keys, of ttl required now "[]"] ops required
  by (simp add: SelectForLease_def eligible_workers_def Let_def)

theorem selection_is_search_witness:
  "SelectForLease 5000 [''PROFILE_DATASET''] 1100 sample_queued = Inr ((21, True), mark_assigned 21 1100 sample_queued)"
proof -
  have "distinct (map w_id (db_workers sample_queued))" "[''PROFILE_DATASET''] \<noteq> []"
    "normalizedRequiredOperations [''PROFILE_DATASET''] = Inr [''PROFILE_DATASET'']"
    by code_simp+
  note search = selection_is_search [OF this, of 5000 1100, unfolded Let_def]
  have "map_option w_id (find (\<lambda>w. active_leases (w_id w) sample_queued < w_max w)
      (sort_key worker_order (filter (eligible 5000 [''PROFILE_DATASET''] 1100) (db_workers sample_queued)))) = Some 21"
    by code_simp
  then obtain w where "find (\<lambda>w. active_leases (w_id w) sample_queued < w_max w)
      (sort_key worker_order (filter (eligible 5000 [''PROFILE_DATASET''] 1100) (db_workers sample_queued))) = Some w" "w_id w = 21"
    by auto
  with search show ?thesis by simp
qed

text \<open>
  Events of workers are applied in their order: an event changes the row of its worker only
  as a registration with a later start, which resets the row until the next heartbeat, or as a
  heartbeat of the registered instance that is not older than the last; its time is at most the
  allowed skew ahead. Assignments, rows of other workers and all other tables stay.
\<close>

theorem worker_events_ordered:
  assumes run: "ApplyEnvelope rt now envelope db = Inr db'"
  shows "\<exists>f new. db' = db\<lparr>db_workers := map f (db_workers db) @ new\<rparr> \<and>
    (\<forall>w \<in> set new. w_id w \<notin> w_id ` set (db_workers db) \<and> w_status w = WStarting \<and> w_heartbeat w = None) \<and>
    (\<forall>w \<in> set (db_workers db). w_id (f w) = w_id w \<and> w_assigned (f w) = w_assigned w \<and>
      (f w = w \<or>
       w_started w < w_started (f w) \<and> w_status (f w) = WStarting \<and> w_heartbeat (f w) = None \<and>
         w_started (f w) \<le> now + MaxFutureClockSkew \<or>
       w_instance (f w) = w_instance w \<and> w_started (f w) = w_started w \<and> w_observed w \<le> w_observed (f w) \<and>
         w_observed (f w) \<le> now + MaxFutureClockSkew \<and> w_heartbeat (f w) = Some now))"
    (is "\<exists>f new. ?P f new")
proof -
  from run consider
      (register) r where "ApplyRegistration now r db = Inr db'"
    | (beat) h where "ApplyHeartbeat now h db = Inr db'"
    by (auto simp: ApplyEnvelope_def bindE_Inr split: if_splits)
  then show ?thesis
  proof cases
    case register
    then have late: "reg_StartedAt r \<le> now + MaxFutureClockSkew"
      by (auto simp: ApplyRegistration_def bindE_Inr validateEventTimestamp_def split: if_splits)
    show ?thesis
    proof (cases "reg_WorkerID r \<in> w_id ` set (db_workers db)")
      case True
      let ?f = "\<lambda>w. if w_id w = reg_WorkerID r \<and> w_started w < reg_StartedAt r then register_row r w else w"
      have "?P ?f []"
        using register True late by (auto simp: ApplyRegistration_def bindE_Inr rows_update_def register_row_def)
      then show ?thesis by blast
    next
      case False
      then obtain new where "db' = db\<lparr>db_workers := map id (db_workers db) @ new\<rparr>"
        "\<forall>w \<in> set new. w_id w = reg_WorkerID r \<and> w_status w = WStarting \<and> w_heartbeat w = None"
        using register by (auto simp: ApplyRegistration_def bindE_Inr)
      then have "?P id new" using False by auto
      then show ?thesis by blast
    qed
  next
    case beat
    then obtain status where status: "heartbeat_status (hb_Status h) = Some status"
      and late: "hb_ObservedAt h \<le> now + MaxFutureClockSkew"
      by (auto simp: ApplyHeartbeat_def bindE_Inr validateEventTimestamp_def split: if_splits option.splits)
    let ?f = "\<lambda>w. if heartbeat_row h w then w\<lparr>w_host := hb_Hostname h, w_ops := hb_SupportedOperations h,
                   w_software := hb_SoftwareVersion h, w_status := status,
                   w_current := hb_CurrentConcurrency h, w_max := hb_MaxConcurrency h,
                   w_observed := hb_ObservedAt h, w_heartbeat := Some now\<rparr> else w"
    have "?P ?f []"
      using beat status late by (auto simp: ApplyHeartbeat_def bindE_Inr rows_update_def heartbeat_row_def)
    then show ?thesis by blast
  qed
qed

definition sample_heartbeat :: Envelope where
  "sample_heartbeat = sample_event 51 MessageWorkerHeartbeat
    [(''workerId'', sample_uuid 21), (''instanceId'', JStr ''w''), (''hostname'', JStr ''h''),
     (''supportedOperations'', JArr [JStr ''PROFILE_DATASET'']), (''softwareVersion'', JStr ''1''),
     (''status'', JStr ''READY''), (''currentConcurrency'', JNum ''0''), (''maxConcurrency'', JNum ''2''),
     (''currentJobIds'', JArr []), (''observedAt'', JStr ''2026'')]"

theorem worker_events_ordered_witness:
  "db_attempts (case ApplyEnvelope sample_runtime 1300 sample_heartbeat sample_running of Inr db' \<Rightarrow> db') =
   db_attempts sample_running"
proof -
  let ?r = "ApplyEnvelope sample_runtime 1300 sample_heartbeat sample_running"
  have "\<not> isl ?r" by code_simp
  then obtain db' where r: "?r = Inr db'" by (cases ?r) auto
  from worker_events_ordered [OF this] r show ?thesis by auto
qed

end
