(* ===== verification/SchedulerProperties.thy ===== *)
theory SchedulerProperties
  imports Samples
begin

text \<open>
  Properties of the scheduler: what fair selection selects and in which order, what a dispatch
  cycle does to the job tables, and that the process keeps them consistent for as long as it
  runs.
\<close>

section \<open>Fair selection\<close>

text \<open>
  C30. Fair selection is a round robin over the owners: the selected jobs are a prefix of the
  rounds, where round \<open>n\<close> holds the \<open>n\<close>-th job of every owner, owners and jobs in the order of
  priority, age and identifier. As many jobs are selected as the limit and the candidates
  allow, each candidate at most as often as it was offered.
\<close>

theorem fair_select_rounds:
  assumes iter: "\<And>xs. mset (iter xs) = mset xs"
  shows "FairSelect rt iter cs limit =
      take (nat limit) (concat (transpose (map (owner_items rt cs) (sorted_owners rt iter cs)))) \<and>
    length (FairSelect rt iter cs limit) = min (nat limit) (length cs) \<and>
    mset (FairSelect rt iter cs limit) \<subseteq># mset cs"
proof -
  let ?all = "concat (transpose (map (owner_items rt cs) (sorted_owners rt iter cs)))"
  have all: "mset ?all = mset cs" using transpose_mset buckets_mset [OF iter] by metis
  then have "length ?all = length cs" by (metis size_mset)
  moreover have "mset (take (nat limit) ?all) \<subseteq># mset ?all"
    by (metis append_take_drop_id mset_append mset_subset_eq_add_left)
  ultimately show ?thesis using FairSelect_rounds [OF iter] all by simp
qed

definition sample_queue :: "uuid \<Rightarrow> uuid \<Rightarrow> QueuedJob" where
  "sample_queue jobID owner = \<lparr>qj_Job = (sample_job Queued)\<lparr>j_id := jobID, j_owner := owner\<rparr>, qj_AttemptID = jobID + 100\<rparr>"

theorem fair_select_rounds_witness:
  "length (FairSelect sample_runtime rev [sample_queue 31 7, sample_queue 32 7, sample_queue 33 8] 2) = 2"
  using fair_select_rounds [of rev sample_runtime "[sample_queue 31 7, sample_queue 32 7, sample_queue 33 8]" 2,
      OF mset_rev, THEN conjunct2, THEN conjunct1] by simp

text \<open>
  No owner is starved: of each owner the best jobs are selected, and an owner whose jobs
  are not all selected has at most one selected job less than any other owner.
\<close>

theorem fair_share:
  assumes iter: "\<And>xs. mset (iter xs) = mset xs"
    and owners: "p \<in> candidate_owner rt ` set cs" "q \<in> candidate_owner rt ` set cs"
  shows "let got = (\<lambda>o'. filter (\<lambda>c. candidate_owner rt c = o') (FairSelect rt iter cs limit))
    in got p = take (length (got p)) (owner_items rt cs p) \<and>
       (length (got q) < length (owner_items rt cs q) \<longrightarrow> length (got p) \<le> length (got q) + 1)"
proof -
  let ?os = "sorted_owners rt iter cs"
  let ?got = "\<lambda>o'. filter (\<lambda>c. candidate_owner rt c = o') (FairSelect rt iter cs limit)"
  have "\<forall>o' \<in> set ?os. \<forall>x \<in> set (owner_items rt cs o'). candidate_owner rt x = o'"
    by (simp add: owner_items_def)
  from fair_prefix [OF sorted_owners_set(2) [OF iter] this, of "nat limit"] obtain m where
    m: "\<And>o'. o' \<in> set ?os \<Longrightarrow> ?got o' \<in> {take m (owner_items rt cs o'), take (Suc m) (owner_items rt cs o')}"
    unfolding FairSelect_rounds [OF iter, symmetric] by blast
  have pq: "p \<in> set ?os" "q \<in> set ?os" using owners sorted_owners_set(1) [OF iter] by auto
  have "?got p = take (length (?got p)) (owner_items rt cs p)" using m [OF pq(1)] by (auto simp: min_def)
  moreover have "length (?got p) \<le> length (?got q) + 1" if "length (?got q) < length (owner_items rt cs q)"
    using m [OF pq(1)] m [OF pq(2)] that by auto
  ultimately show ?thesis by (simp add: Let_def)
qed

theorem fair_share_witness:
  "let cs = [sample_queue 31 7, sample_queue 32 7, sample_queue 33 8];
       got = filter (\<lambda>c. candidate_owner sample_runtime c = replicate 7 (CHR ''u'')) (FairSelect sample_runtime rev cs 2)
   in got = take (length got) (owner_items sample_runtime cs (replicate 7 (CHR ''u'')))"
proof -
  let ?cs = "[sample_queue 31 7, sample_queue 32 7, sample_queue 33 8]"
  have "replicate 7 (CHR ''u'') \<in> candidate_owner sample_runtime ` set ?cs"
    "replicate 8 (CHR ''u'') \<in> candidate_owner sample_runtime ` set ?cs"
    by code_simp+
  from fair_share [of rev, OF mset_rev this, of 2] show ?thesis unfolding Let_def by (rule conjunct1)
qed

text \<open>
  The selection does not depend on the order in which the map of owners is traversed, as
  long as jobs have distinct identifiers and identifiers distinct texts.
\<close>

theorem fair_select_deterministic:
  assumes iter: "\<And>xs. mset (iter xs) = mset xs" "\<And>xs. mset (iter' xs) = mset xs"
    and inj: "inj (uuid_String rt)" and ids: "distinct (map (\<lambda>c. j_id (qj_Job c)) cs)"
  shows "FairSelect rt iter cs limit = FairSelect rt iter' cs limit"
proof -
  let ?key = "\<lambda>o'. candidate_key rt (hd (owner_items rt cs o'))"
  let ?os = "remdups (map (candidate_owner rt) cs)"
  have hd: "hd (owner_items rt cs o') \<in> set cs \<and> candidate_owner rt (hd (owner_items rt cs o')) = o'" if "o' \<in> set ?os" for o'
  proof -
    have "set (owner_items rt cs o') \<noteq> {}" using that by (auto simp: owner_items_def)
    then have "hd (owner_items rt cs o') \<in> set (owner_items rt cs o')" by simp
    then show ?thesis by (simp add: owner_items_def)
  qed
  have "inj_on ?key (set ?os)"
  proof (rule inj_onI)
    fix x y assume xy: "x \<in> set ?os" "y \<in> set ?os" "?key x = ?key y"
    then have "j_id (qj_Job (hd (owner_items rt cs x))) = j_id (qj_Job (hd (owner_items rt cs y)))"
      using inj by (simp add: candidate_key_def inj_eq)
    moreover have "inj_on (\<lambda>c. j_id (qj_Job c)) (set cs)" using ids by (simp add: distinct_map)
    ultimately have "hd (owner_items rt cs x) = hd (owner_items rt cs y)"
      using hd [OF xy(1)] hd [OF xy(2)] by (blast dest: inj_onD)
    then show "x = y" using hd [OF xy(1)] hd [OF xy(2)] by metis
  qed
  then have "sort_key ?key (iter ?os) = sort_key ?key (iter' ?os)"
    by (intro sort_key_inj_key_eq) (simp_all add: iter mset_eq_setD [OF iter(1)] del: set_remdups)
  then show ?thesis by (simp add: FairSelect_def sorted_owners_def)
qed

theorem fair_select_deterministic_witness:
  "FairSelect sample_runtime rev [sample_queue 31 7, sample_queue 33 8] 2 =
   FairSelect sample_runtime id [sample_queue 31 7, sample_queue 33 8] 2"
  by (rule fair_select_deterministic) (simp_all add: sample_runtime_inj sample_queue_def)

section \<open>A dispatch cycle\<close>

text \<open>
  A dispatch cycle over the repositories keeps the job tables consistent, whatever happens
  to single acquisitions; it selects at most a batch, and unless the context ends, every
  selected job is acquired, skipped or reported as a failure, exactly one of them.
\<close>

theorem dispatch_cycle_accounts:
  assumes con: "consistent db" and iter: "\<And>xs. mset (iter xs) = mset xs"
    and run: "Scheduler_Dispatch (Scheduler_Select rt iter (SelectQueued now) config)
      (repository_acquire rt ttl leases leaseIDs msgIDs clock) ctxErr d db = ((report, err), db')"
  shows "consistent db' \<and> change\<^sup>*\<^sup>* db db' \<and> sp_Selected report \<le> max 0 (sc_BatchSize config) \<and>
    (err = None \<longrightarrow> sp_Acquired report + sp_Skipped report + int (length (sp_Failures report)) = sp_Selected report)"
proof -
  let ?select = "Scheduler_Select rt iter (SelectQueued now) config"
  have "length cs \<le> nat (sc_BatchSize config)" if "?select db = Inr cs" for cs
    using that by (auto simp: Scheduler_Select_def Let_def bindE_Inr FairSelect_rounds [OF iter])
  then have batch: "int (length cs) \<le> max 0 (sc_BatchSize config)" if "?select db = Inr cs" for cs
    using that by fastforce
  have kept: "sp_Selected r' = sp_Selected r" if "dispatch_items acquire ctxErr d items r db1 = ((r', e), db2)"
    for acquire items r db1 r' e db2
    using that by (induction items arbitrary: r db1) (auto split: option.splits sum.splits prod.splits if_splits)
  have "sp_Selected report \<le> max 0 (sc_BatchSize config)"
    using run batch unfolding Scheduler_Dispatch_def Let_def
    by (auto split: if_splits sum.splits dest!: kept)
  moreover have "err = None \<Longrightarrow> sp_Acquired report + sp_Skipped report + int (length (sp_Failures report)) = sp_Selected report"
    using repo_acquirer.dispatch_count run by blast
  ultimately show ?thesis using repo_acquirer.dispatch_steps [OF run con] by blast
qed

theorem dispatch_cycle_accounts_witness:
  "consistent (snd (Scheduler_Dispatch (Scheduler_Select sample_runtime rev (SelectQueued 1100) \<lparr>sc_BatchSize = 10, sc_CandidateFactor = 4\<rparr>)
      (repository_acquire sample_runtime 5000 sample_config (\<lambda>_. 41) (\<lambda>_. 42) (\<lambda>_. 1100)) (\<lambda>_. None) 100 sample_queued))"
  using dispatch_cycle_accounts [OF samples_consistent(1) mset_rev] by (metis prod.collapse)

end
