(* ===== verification/MessagingProperties.thy ===== *)
theory MessagingProperties
  imports Samples Mail
begin

text \<open>
  Properties of the messages that leave the control plane: the outbox and its dispatcher, the
  delays between attempts, the envelopes on the wire, and the replay of dead letters.
\<close>

section \<open>The outbox\<close>

text \<open>
  A dispatch of the outbox accounts for every message it claimed: the confirmed ones are
  marked as published, each of the others is scheduled again or given up, and the counts of the
  report are exact. The lease tokens never fail the dispatcher that drew them.
\<close>

theorem outbox_dispatch_exact:
  assumes run: "Outbox_Dispatch (Claim tok) MarkPublished MarkRetry publish config now limit db = Inr (report, db')"
    and keys: "outbox_keys db" and attempts: "1 \<le> dc_MaxAttempts config"
  shows "\<exists>ms db1. Claim tok now (dc_LeaseDuration config) limit db = Inr (ms, db1) \<and>
    int (length ms) \<le> limit \<and> dr_Claimed report = int (length ms) \<and>
    dr_Published report = count_rows (\<lambda>m. publish m = None) ms \<and>
    dr_Failed report = count_rows (\<lambda>m. publish m \<noteq> None) ms \<and>
    dr_Retried report + dr_Poisoned report = dr_Failed report \<and>
    (\<forall>m \<in> set ms. publish m = None \<longrightarrow> row_published (m_ID m) db')"
  using repo_store.dispatch_exact [OF run keys attempts] Claim_Inr(3) keys unfolding outbox_keys_def by blast

definition sample_dispatcher :: DispatcherConfig where
  "sample_dispatcher = \<lparr>dc_LeaseDuration = 30, dc_RetryBase = 5, dc_MaxAttempts = 5\<rparr>"

theorem outbox_dispatch_exact_witness:
  "let r = Outbox_Dispatch (Claim (\<lambda>i. i + 1)) MarkPublished MarkRetry (\<lambda>m. None) sample_dispatcher 2000 10 sample_created
   in dr_Published (returned r) = dr_Claimed (returned r) \<and> dr_Claimed (returned r) = 1"
proof -
  let ?r = "Outbox_Dispatch (Claim (\<lambda>i. i + 1)) MarkPublished MarkRetry (\<lambda>m. None) sample_dispatcher 2000 10 sample_created"
  have ok: "\<not> isl ?r" by code_simp
  have one: "dr_Claimed (returned ?r) = 1" by code_simp
  have "outbox_keys sample_created" by code_simp
  from outbox_dispatch_exact [OF committed_Inr [OF ok] this]
  have "dr_Published (returned ?r) = dr_Claimed (returned ?r)" by (auto simp: sample_dispatcher_def count_rows_def)
  with one show ?thesis by (simp add: Let_def)
qed

lemma owned_only:
  assumes "outbox_keys db" "r \<in> set (db_outbox db)" "owned i t r"
  shows "(\<forall>ms db'. Claim tok now d limit db = Inr (ms, db') \<and> (\<exists>until. ob_until r = Some until \<and> now < until) \<longrightarrow> i \<notin> m_ID ` set ms) \<and>
    (t' \<noteq> t \<longrightarrow> MarkPublished i t' publishedAt db = Inl OutboxErrLeaseLost \<and>
      (1 \<le> mx \<longrightarrow> MarkRetry i t' next e mx db = Inl OutboxErrLeaseLost))"
proof -
  have only: "u = r" if "u \<in> set (db_outbox db)" "ob_id u = i" for u
    using that assms by (auto simp: outbox_keys_def distinct_map owned_def dest: inj_onD)
  have "t' = t" if "u \<in> set (db_outbox db)" "owned i t' u" for u
    using only [of u] that assms(3) by (simp add: owned_def)
  then have "\<not> list_ex (owned i t') (db_outbox db)" if "t' \<noteq> t"
    using that by (auto simp: list_ex_iff)
  moreover have "i \<notin> m_ID ` set ms"
    if "Claim tok now d limit db = Inr (ms, db')" "ob_until r = Some until" "now < until" for ms db' until
    using Claim_takes [OF that(1) assms(1,2)] assms(3) that(2,3) by (auto simp: owned_def claimable_def)
  ultimately show ?thesis by (auto simp: MarkPublished_def MarkRetry_def)
qed

lemma published_unclaimed:
  assumes "outbox_keys db" "r \<in> set (db_outbox db)" "ob_state r = Published" "Claim tok now d limit db = Inr (ms, db')"
  shows "ob_id r \<notin> m_ID ` set ms"
  using Claim_takes [OF assms(4,1,2)] assms(3) by (auto simp: claimable_def)

text \<open>
  C31. A claimed message belongs to one dispatcher. The claim leases its row under a token until
  \<open>now + lease\<close>. In every later state of the control plane, either the row is still exactly so, and
  then no claim made before the lease ends returns it and marking it under any other token fails
  with the lost lease; or on the way there its claim ended, and this happened only by the mark of
  the owner of the token or by a claim made after the lease (\<open>claim_ends\<close>). And once its owner has
  marked it as published it stays published in every later state, and no claim ever returns it.
\<close>

theorem outbox_claim_exclusive:
  assumes claim: "Claim tok now lease limit db = Inr (ms, db')" and keys: "outbox_keys db" and m: "m \<in> set ms"
    and run: "(plane rt)\<^sup>*\<^sup>* db' later"
  shows "\<exists>r. r \<in> set (db_outbox db') \<and> owned (m_ID m) (m_Token m) r \<and> ob_until r = Some (now + lease) \<and>
    (r \<in> set (db_outbox later) \<and>
       (\<forall>tok2 now2 lease2 limit2 ms2 db2. Claim tok2 now2 lease2 limit2 later = Inr (ms2, db2) \<and> now2 < now + lease \<longrightarrow>
          m_ID m \<notin> m_ID ` set ms2) \<and>
       (\<forall>t publishedAt next e mx. t \<noteq> m_Token m \<longrightarrow> MarkPublished (m_ID m) t publishedAt later = Inl OutboxErrLeaseLost \<and>
          (1 \<le> mx \<longrightarrow> MarkRetry (m_ID m) t next e mx later = Inl OutboxErrLeaseLost)) \<or>
     (\<exists>db1 db2. (plane rt)\<^sup>*\<^sup>* db' db1 \<and> r \<in> set (db_outbox db1) \<and> claim_ends (m_ID m) (m_Token m) (now + lease) db1 db2 \<and>
        (plane rt)\<^sup>*\<^sup>* db2 later)) \<and>
    (\<forall>publishedAt published after. MarkPublished (m_ID m) (m_Token m) publishedAt later = Inr published \<and> (plane rt)\<^sup>*\<^sup>* published after \<longrightarrow>
       row_published (m_ID m) after \<and>
       (\<forall>tok3 now3 lease3 limit3 ms3 db3. Claim tok3 now3 lease3 limit3 after = Inr (ms3, db3) \<longrightarrow> m_ID m \<notin> m_ID ` set ms3))"
proof -
  note facts = Claim_Inr [OF claim keys [unfolded outbox_keys_def]]
  obtain r0 where "r0 \<in> set (db_outbox db)" "ob_id r0 = m_ID m" using facts(4) m by blast
  then have "claim_row now lease (tok (m_ID m)) r0 \<in> set (db_outbox db')" using m facts(5) by (force simp: claimed_rows_def)
  then obtain r where r: "r \<in> set (db_outbox db')" "owned (m_ID m) (m_Token m) r" "ob_until r = Some (now + lease)"
    using facts(2) m \<open>ob_id r0 = _\<close> that by (auto simp: owned_def claim_row_def)
  have keys': "outbox_keys later" using run_keys [OF run] Claim_keys [OF claim keys] by blast
  have gone: "row_published (m_ID m) after \<and>
      (\<forall>tok3 now3 lease3 limit3 ms3 db3. Claim tok3 now3 lease3 limit3 after = Inr (ms3, db3) \<longrightarrow> m_ID m \<notin> m_ID ` set ms3)"
    if "MarkPublished (m_ID m) (m_Token m) publishedAt later = Inr published" "(plane rt)\<^sup>*\<^sup>* published after" for publishedAt published after
  proof -
    have kp: "outbox_keys published" using plane_keys [OF plane.published [OF that(1)] keys'] .
    from repo_store.published_done [OF that(1)] obtain p where p: "p \<in> set (db_outbox published)" "ob_id p = m_ID m" "ob_state p = Published"
      by (auto simp: row_published_def)
    note stays = run_published [OF that(2) kp p(1,3)]
    then show ?thesis using p(2,3) published_unclaimed [OF run_keys [OF that(2) kp] stays p(3)] by (auto simp: row_published_def)
  qed
  have held: "r \<in> set (db_outbox later) \<Longrightarrow>
       (\<forall>tok2 now2 lease2 limit2 ms2 db2. Claim tok2 now2 lease2 limit2 later = Inr (ms2, db2) \<and> now2 < now + lease \<longrightarrow>
          m_ID m \<notin> m_ID ` set ms2) \<and>
       (\<forall>t publishedAt next e mx. t \<noteq> m_Token m \<longrightarrow> MarkPublished (m_ID m) t publishedAt later = Inl OutboxErrLeaseLost \<and>
          (1 \<le> mx \<longrightarrow> MarkRetry (m_ID m) t next e mx later = Inl OutboxErrLeaseLost))"
    using owned_only [OF keys' _ r(2)] r(3) by blast
  note ends = run_claimed [OF run Claim_keys [OF claim keys] r]
  show ?thesis
  proof (intro exI [of _ r] conjI [OF r(1)] conjI [OF r(2)] conjI [OF r(3)] conjI)
  qed (use ends held in blast, intro allI impI, elim conjE, rule gone)
qed

text \<open>A message is claimed and published; the claim of another dispatcher later does not return it.\<close>

theorem outbox_claim_exclusive_witness:
  "let r = Claim (\<lambda>i. i + 1) 2000 30 10 sample_created;
       p = MarkPublished 34 35 2001 (committed r)
   in map m_ID (returned r) = [34] \<and> \<not> isl p \<and> MarkPublished 34 99 2001 (committed r) = Inl OutboxErrLeaseLost \<and>
      (\<forall>ms db. Claim (\<lambda>i. i + 2) 9000 30 10 (projr p) = Inr (ms, db) \<longrightarrow> 34 \<notin> m_ID ` set ms)"
proof -
  let ?r = "Claim (\<lambda>i. i + 1) 2000 30 10 sample_created"
  let ?p = "MarkPublished 34 35 2001 (committed ?r)"
  have ok: "\<not> isl ?r" "map m_ID (returned ?r) = [34]" "map m_Token (returned ?r) = [35]" "\<not> isl ?p" by code_simp+
  have keys: "outbox_keys sample_created" by code_simp
  obtain m where m: "m \<in> set (returned ?r)" "m_ID m = 34" "m_Token m = 35" using ok(2,3) by (cases "returned ?r") auto
  have p: "?p = Inr (projr ?p)" using ok(4) by (simp add: sum.collapse)
  note * = outbox_claim_exclusive [OF committed_Inr [OF ok(1)] keys m(1) rtranclp.rtrancl_refl]
  from * have "MarkPublished 34 99 2001 (committed ?r) = Inl OutboxErrLeaseLost"
    using owned_only [OF Claim_keys [OF committed_Inr [OF ok(1)] keys]] m(2,3) by fastforce
  moreover from * have "\<forall>ms db. Claim (\<lambda>i. i + 2) 9000 30 10 (projr ?p) = Inr (ms, db) \<longrightarrow> 34 \<notin> m_ID ` set ms"
    using m(2,3) p rtranclp.rtrancl_refl by metis
  ultimately show ?thesis using ok by (simp add: Let_def)
qed

text \<open>
  The delay between two attempts to publish doubles with each attempt and stays at the
  maximum once it is reached; the 64-bit doubling never wraps around.
\<close>

theorem retry_delay_doubles:
  assumes "0 < base" "base \<le> MaxRetryDelay" "1 \<le> attempts"
  shows "retryDelay base attempts = min MaxRetryDelay (base * 2 ^ nat (attempts - 1))"
  using assms retry_loop_closed [of base 1 attempts] by (cases "attempts = 1") (simp_all add: retryDelay_def)

theorem retry_delay_doubles_witness: "retryDelay (5 * Second) 3 = 20 * Second"
  using retry_delay_doubles [of "5 * Second" 3] by simp

section \<open>The retry policy\<close>

text \<open>
  The delay before the next attempt of a job is defined for every attempt within the budget
  of a valid policy and lies between the configured delay of that attempt and one and a half
  times it, whatever the random source draws below its argument; it is never negative and never
  wraps around.
\<close>

theorem policy_delay_bounds:
  assumes valid: "Policy_Validate p = Inr ()" and n: "2 \<le> n" "n \<le> pol_MaxAttempts p"
    and small: "\<forall>d \<in> set (pol_Delays p). d < 2 ^ 53"
    and draws: "\<And>r k. src = Some r \<Longrightarrow> 0 < k \<Longrightarrow> 0 \<le> r k \<and> r k < k"
  shows "\<exists>d. Policy_Delay p n src = Inr d \<and> base_delay p n \<in> set (pol_Delays p) \<and>
    0 \<le> base_delay p n \<and> base_delay p n \<le> d \<and> 2 * d \<le> 3 * base_delay p n"
proof -
  let ?b = "base_delay p n"
  have p: "pol_Delays p \<noteq> []" "0 \<le> pol_JitterFraction p" "pol_JitterFraction p \<le> 1 / 2" "\<forall>d \<in> set (pol_Delays p). 0 \<le> d"
    using valid by (simp_all add: result_simps)
  have b: "?b \<in> set (pol_Delays p)" by (rule base_delay_in [OF p(1) n(1)])
  then have range: "0 \<le> ?b" "?b < 2 ^ 53" using p(4) small by auto
  show ?thesis
  proof (cases src)
    case None
    then show ?thesis using Policy_Delay_nil [OF valid n] b range(1) by (intro exI [of _ ?b]) simp
  next
    case (Some r)
    let ?max = "jitter_maximum ?b (pol_JitterFraction p)"
    let ?d = "if ?b = 0 \<or> pol_JitterFraction p = 0 \<or> ?max < 1 then ?b else ?b + r (?max + 1)"
    have jitter: "2 * ?max \<le> ?b" by (rule jitter_maximum_bound [OF range p(2,3)])
    have bounds: "?b \<le> ?d \<and> 2 * ?d \<le> 3 * ?b"
      using draws [OF Some, of "?max + 1"] jitter range(1) by auto
    have "signed_take_bit 63 ?d = ?d"
      using bounds range by (intro signed_take_bit_int_eq_self) auto
    then have "Policy_Delay p n src = Inr ?d"
      using valid n Some by (auto simp: Policy_Delay_def Let_def)
    then show ?thesis using bounds b range(1) by blast
  qed
qed

theorem policy_delay_bounds_witness:
  "\<exists>d. Policy_Delay DefaultPolicy 2 (Some (\<lambda>k. k - 1)) = Inr d \<and> 2 * d \<le> 3 * base_delay DefaultPolicy 2"
proof -
  have "2 \<le> pol_MaxAttempts DefaultPolicy" "\<forall>d \<in> set (pol_Delays DefaultPolicy). d < 2 ^ 53"
    by (simp_all add: DefaultPolicy_def)
  moreover have "0 \<le> r k \<and> r k < k" if "Some (\<lambda>k. k - 1) = Some r" "0 < k" for r and k :: int
    using that by auto
  ultimately show ?thesis using policy_delay_bounds [OF DefaultPolicy_valid, of 2 "Some (\<lambda>k. k - 1)"] by auto
qed

section \<open>Replaying a dead letter\<close>

text \<open>
  C33. The replay of a dead letter never succeeds: the command it builds lacks fields that the
  validation of its own envelope requires, so every call ends in an error and the transaction
  is rolled back, even for an owner replaying its own open dead letter.
\<close>

theorem replay_never_succeeds:
  "isl (Dlq_Service_Replay rt enqueue attemptID msgID now prin c db) \<and>
   isl (Replay rt enqueue attemptID msgID now command db)"
  using Service_Replay_not_Inr Replay_not_Inr by (metis isl_def sum.exhaust)

end
