(* ===== verification/StorageServices.thy ===== *)
theory StorageServices
  imports Storage
begin

text \<open>
  The services over the storage: every operation of the dataset and multipart services, with
  whatever the object store answers, is a run of the transactions of \<open>Storage\<close>, and what a
  completion, an upload, a registration and a cleanup achieve.
\<close>

section \<open>Operations are runs\<close>

lemma storage_refl [simp]: "(storage rt compiles)\<^sup>*\<^sup>* db db"
  by simp

lemma run_tx_run:
  assumes "run_tx f db = (r, db')" "\<And>x db1. f db = Inr (x, db1) \<Longrightarrow> storage rt compiles db db1"
  shows "(storage rt compiles)\<^sup>*\<^sup>* db db'"
  using assms by (cases "f db") (auto simp: run_tx_def)

lemma run_context_run:
  assumes "run_tx (in_context ctx name f) db = (r, db')" "\<And>x db1. f db = Inr (x, db1) \<Longrightarrow> storage rt compiles db db1"
  shows "(storage rt compiles)\<^sup>*\<^sup>* db db'"
  using assms(1) by (rule run_tx_run) (simp add: in_context_Inr assms(2))

lemma cleanupUpload_run:
  "cleanupUpload ctx os now datasetID versionID actorID objectKey primary db = (e, db') \<Longrightarrow> (storage rt compiles)\<^sup>*\<^sup>* db db'"
  by (auto simp: cleanupUpload_def Let_def split: prod.splits intro!: run_context_run storage.abort_version)

lemma prepare_upload_Inr:
  "prepare_upload rt jsonValid maxBytes versionID prin datasetID request db = Inr (r, checksum) \<Longrightarrow>
   vr_ID r = versionID \<and> vr_DatasetID r = datasetID \<and>
   (\<exists>d. authorized_dataset prin datasetID ScopeDatasetsWrite db = Inr d) \<and> ur_Body request \<noteq> None"
  by (auto simp: prepare_upload_def bindE_Inr Let_def split: if_splits)

lemma store_stream_Inr:
  assumes "store_stream rt os maxBytes objectKey contentType checksum request = Inr (bytes, digest)"
  obtains stored rest where "the (ur_Body request) = stored @ rest" "bytes = int (length stored)" "digest = sha256_hex rt stored"
    "bytes \<le> maxBytes" "ur_ContentLength request \<ge> 0 \<Longrightarrow> bytes = ur_ContentLength request" "checksum \<noteq> [] \<Longrightarrow> checksum = digest"
proof -
  let ?limited = "take (nat (signed_take_bit 63 (maxBytes + 1))) (the (ur_Body request))"
  obtain objectSize n where put: "os_Put os objectKey ?limited contentType = Inr (objectSize, n)"
    using assms by (cases "os_Put os objectKey ?limited contentType") (auto simp: store_stream_def)
  define stored where "stored = take n ?limited"
  let ?e = "stored_error maxBytes (ur_ContentLength request) checksum objectSize (int (length stored)) (sha256_hex rt stored)"
  have run: "(case ?e of Some e \<Rightarrow> Inl e | None \<Rightarrow> if isl (os_Head os objectKey) then Inl DatasetErrObjectStorage
      else Inr (int (length stored), sha256_hex rt stored)) = Inr (bytes, digest)"
    using assms unfolding store_stream_def Let_def put sum.case prod.case stored_def .
  then have ok: "?e = None" and out: "bytes = int (length stored)" "digest = sha256_hex rt stored"
    by (cases ?e; simp split: if_splits)+
  have "bytes \<le> maxBytes" "ur_ContentLength request \<ge> 0 \<Longrightarrow> bytes = ur_ContentLength request" "checksum \<noteq> [] \<Longrightarrow> checksum = digest"
    using ok out by (simp_all add: stored_error_def split: if_splits)
  moreover obtain rest where "the (ur_Body request) = stored @ rest"
    using append_take_drop_id [of _ "the (ur_Body request)"] unfolding stored_def take_take by metis
  ultimately show thesis using that out by blast
qed

lemma UploadVersion_cases:
  assumes "UploadVersion rt jsonValid ctx os maxBytes now versionID prin datasetID request db = (res, db')"
  obtains (refused) e where "res = Inl e" "db' = db"
  | (failed) r v db1 e e' where "ctx ''ReserveVersion'' = None" "ReserveVersion now r db = Inr (v, db1)" "vr_ID r = versionID" "vr_DatasetID r = datasetID"
      "cleanupUpload ctx os now datasetID versionID (prin_UserID prin) (v_object v) e' db1 = (e, db')" "res = Inl e"
  | (uploaded) r checksum v db1 bytes digest version where
      "prepare_upload rt jsonValid maxBytes versionID prin datasetID request db = Inr (r, checksum)"
      "ReserveVersion now r db = Inr (v, db1)"
      "store_stream rt os maxBytes (v_object v) (vr_ContentType r) checksum request = Inr (bytes, digest)"
      "FinalizeVersion now datasetID versionID (prin_UserID prin) bytes digest db1 = Inr (version, db')" "res = Inr version"
proof (cases "prepare_upload rt jsonValid maxBytes versionID prin datasetID request db")
  case (Inl e)
  then show thesis using assms refused by (auto simp: UploadVersion_def)
next
  case (Inr rc)
  obtain r checksum where rc: "rc = (r, checksum)" by (cases rc)
  note r = prepare_upload_Inr [OF Inr [unfolded rc]]
  show thesis
  proof (cases "in_context ctx ''ReserveVersion'' (ReserveVersion now r) db")
    case (Inl e)
    then show thesis using assms refused Inr rc by (auto simp: UploadVersion_def)
  next
    case reserved: (Inr vd)
    obtain v db1 where vd: "vd = (v, db1)" by (cases vd)
    note run = assms [unfolded UploadVersion_def Inr rc sum.case prod.case reserved vd]
    let ?m = "bindE (store_stream rt os maxBytes (v_object v) (vr_ContentType r) checksum request)
      (\<lambda>(actualSize, actualChecksum).
        in_context ctx ''FinalizeVersion'' (FinalizeVersion now datasetID versionID (prin_UserID prin) actualSize actualChecksum) db1)"
    show thesis
    proof (cases ?m)
      case (Inl e')
      with run obtain e where "res = Inl e"
        "cleanupUpload ctx os now datasetID versionID (prin_UserID prin) (v_object v) e' db1 = (e, db')"
        by (cases "cleanupUpload ctx os now datasetID versionID (prin_UserID prin) (v_object v) e' db1") auto
      then show thesis using failed reserved vd r by (auto simp: in_context_Inr)
    next
      case (Inr f)
      obtain version db2 where f: "f = (version, db2)" by (cases f)
      then have "res = Inr version" "db' = db2" using run Inr by auto
      then show thesis
        using uploaded [OF \<open>prepare_upload _ _ _ _ _ _ _ _ = Inr rc\<close> [unfolded rc]] reserved vd Inr f
        by (auto simp: bindE_Inr in_context_Inr)
    qed
  qed
qed

lemma UploadVersion_run:
  assumes "UploadVersion rt jsonValid ctx os maxBytes now versionID prin datasetID request db = (res, db')"
  shows "(storage rt compiles)\<^sup>*\<^sup>* db db'"
  using assms
proof (cases rule: UploadVersion_cases)
  case (failed r v db1 e e')
  then show ?thesis by (blast intro: converse_rtranclp_into_rtranclp storage.reserve cleanupUpload_run)
next
  case (uploaded r checksum v db1 bytes digest version)
  then show ?thesis unfolding FinalizeVersion_def
    by (blast intro: converse_rtranclp_into_rtranclp storage.reserve storage.finalize r_into_rtranclp)
qed simp

text \<open>Initiation, with a configuration the constructor of the service accepts.\<close>

lemma cleanup_runs:
  "cleanupReserved ctx now datasetID versionID actorID primary db = (r, db') \<Longrightarrow> (storage rt compiles)\<^sup>*\<^sup>* db db'"
  "cleanupReservedRemote ctx abortRemote now datasetID versionID actorID db = (r, db') \<Longrightarrow> (storage rt compiles)\<^sup>*\<^sup>* db db'"
  by (auto simp: cleanupReserved_def cleanupReservedRemote_def split: prod.splits intro!: run_context_run storage.abort_version)

lemma compensate_run:
  assumes "admissible c r"
    "compensate_initiation env now (new_session rt c env now ownerID datasetID uploadID r request) actorID err db = (res, db')"
  shows "(storage rt compiles)\<^sup>*\<^sup>* db db'"
proof -
  let ?s = "new_session rt c env now ownerID datasetID uploadID r request"
  let ?orphan = "run_tx (in_context (ie_Context env) ''persistOrphanSession'' (persistOrphanSession ?s now ''initiation_compensation_failed''))"
  obtain cleanupErr db1 where c: "cleanupReservedRemote (ie_Context env) (ie_Abort env) now (us_dataset ?s) (us_version ?s) actorID db = (cleanupErr, db1)"
    by (cases "cleanupReservedRemote (ie_Context env) (ie_Abort env) now (us_dataset ?s) (us_version ?s) actorID db")
  note first = cleanup_runs(2) [OF c]
  show ?thesis
  proof (cases "isl cleanupErr")
    case True
    obtain o' db2 where o': "?orphan db1 = (o', db2)"
      by (cases "?orphan db1")
    have "(storage rt compiles)\<^sup>*\<^sup>* db1 db2"
      using o' by (rule run_context_run) (rule storage.orphan_session [OF assms(1)])
    then show ?thesis using first assms(2) True by (auto simp: compensate_initiation_def c o' intro: rtranclp_trans)
  next
    case False
    then have "db' = db1" using assms(2)
      by (auto simp: compensate_initiation_def c split: option.splits if_splits sum.splits)
    then show ?thesis using first by simp
  qed
qed

lemma initiate_session_run:
  assumes "admissible c r" "initiate_session rt c env now prin datasetID r request db = (res, db')"
  shows "(storage rt compiles)\<^sup>*\<^sup>* db db'"
proof -
  obtain filename contentType declared checksum key where req: "request = (filename, contentType, declared, checksum, key)"
    by (cases request)
  let ?r = "\<lparr>vr_ID = ie_Version env, vr_DatasetID = datasetID, vr_CreatedBy = prin_UserID prin,
           vr_OriginalFilename = filename, vr_ContentType = contentType, vr_Format = declared,
           vr_ObjectKey = ObjectKey rt datasetID (ie_Version env),
           vr_ArtifactPrefix = ArtifactPrefix rt datasetID (ie_Version env),
           vr_SourceInfo = [(''uploadMode'', ''multipart''), (''sessionId'', uuid_String rt (ie_Session env))]\<rparr>"
  show ?thesis
  proof (cases "in_context (ie_Context env) ''ReserveVersion'' (ReserveVersion now ?r) db")
    case (Inr vd)
    obtain v db1 where vd: "vd = (v, db1)" by (cases vd)
    then have first: "storage rt compiles db db1" using Inr storage.reserve by (auto simp: in_context_Inr)
    note run = assms(2) [unfolded initiate_session_def req prod.case Inr vd sum.case]
    have "(storage rt compiles)\<^sup>*\<^sup>* db1 db'"
    proof (cases "ie_Initiate env")
      case (Inl e)
      then show ?thesis using run cleanup_runs(1) by (fastforce split: prod.splits sum.splits)
    next
      case (Inr uploadID)
      let ?s = "new_session rt c env now (prin_UserID prin) datasetID uploadID r request"
      show ?thesis
      proof (cases "in_context (ie_Context env) ''CreateSession'' (CreateSession ?s) db1")
        case (Inl e)
        then show ?thesis using run Inr compensate_run [OF assms(1)] by (auto simp: req)
      next
        case created: (Inr ud)
        then have "CreateSession ?s db1 = Inr ((), db')" using run Inr by (cases ud) (auto simp: req in_context_Inr)
        then show ?thesis by (intro r_into_rtranclp storage.create_session [OF assms(1)])
      qed
    qed
    with first show ?thesis by (meson converse_rtranclp_into_rtranclp)
  qed (use assms(2) in \<open>auto simp: initiate_session_def req\<close>)
qed

lemma Initiate_run:
  assumes "MultipartConfig_validate c = Inr ()" "Initiate rt c env now prin datasetID r db = (res, db')"
  shows "(storage rt compiles)\<^sup>*\<^sup>* db db'"
proof (rule ccontr)
  assume no: "\<not> ?thesis"
  then have "db' \<noteq> db" by auto
  with assms(2) have "(\<exists>request. initiate_session rt c env now prin datasetID r request db = (res, db')) \<and> 0 < ir_ExpectedSize r \<and>
      ir_ExpectedSize r \<le> mc_MaxBytes c \<and> 1 \<le> part_count c (ir_ExpectedSize r) \<and> part_count c (ir_ExpectedSize r) \<le> mc_MaxParts c"
    unfolding Initiate_def by (auto simp: bindE_Inr not_less not_le split: sum.splits if_splits) blast+
  with assms(1) show False using no initiate_session_run by (auto simp: admissible_def)
qed

lemma Service_RegisterPart_Inr:
  assumes "Multipart_Service_RegisterPart getPart now prin sessionID n etag bytes db = Inr (p, db')"
  obtains s etag' where "row_find us_id sessionID (db_sessions db) = Some s" "CanAccessOwner prin (us_owner s) ScopeDatasetsWrite"
    "validateMutablePart s n bytes now = Inr ()" "normalizeETag etag = Inr etag'"
    "db' = db \<and> FindPart sessionID n db = Inr p \<and> pt_etag p = etag' \<and> pt_size p = bytes \<or>
     RegisterPart now now sessionID n etag' bytes db = Inr (p, db')"
proof -
  from assms obtain s etag' where s: "row_find us_id sessionID (db_sessions db) = Some s"
      "CanAccessOwner prin (us_owner s) ScopeDatasetsWrite" "validateMutablePart s n bytes now = Inr ()" "normalizeETag etag = Inr etag'"
    unfolding Multipart_Service_RegisterPart_def authorizedSession_def FindSession_def bindE_Inr
    by (auto simp: if_Inl_Inr split: option.splits)
  note run = assms [unfolded Multipart_Service_RegisterPart_def]
  show thesis
  proof (cases "FindPart sessionID n db")
    case (Inl e)
    then show thesis using that [OF s] run s
      by (auto simp: authorizedSession_def FindSession_def bindE_Inr split: sum.splits if_splits)
  next
    case (Inr part)
    then show thesis using that [OF s] run s
      by (auto simp: authorizedSession_def FindSession_def bindE_Inr split: if_splits)
  qed
qed

lemma RegisterPart_run:
  assumes "Multipart_Service_RegisterPart getPart now prin sessionID n etag bytes db = Inr (p, db')"
  shows "(storage rt compiles)\<^sup>*\<^sup>* db db'"
  using assms
proof (cases rule: Service_RegisterPart_Inr)
  case (1 s etag')
  then have fits: "1 \<le> n" "n \<le> us_parts s" "bytes = expected_part_size s n"
    by (auto simp: validateMutablePart_def split: if_splits)
  from 1(5) storage.register_part [OF 1(1) fits] show ?thesis by blast
qed

lemma Abort_run:
  assumes "Multipart_Service_Abort ctx abortRemote now prin sessionID db = (res, db')"
  shows "(storage rt compiles)\<^sup>*\<^sup>* db db'"
proof (cases "bindE (RequireScope prin ScopeDatasetsWrite) (\<lambda>_. bindE (authorizedSession prin sessionID ScopeDatasetsWrite db)
    (\<lambda>s. in_context ctx ''BeginAbort'' (BeginAbort sessionID (us_owner s) now) db))")
  case (Inl e)
  then show ?thesis using assms by (auto simp: Multipart_Service_Abort_def)
next
  case (Inr sd)
  obtain s db1 where sd: "sd = (s, db1)" by (cases sd)
  with Inr have first: "storage rt compiles db db1" by (auto simp: bindE_Inr in_context_Inr intro: storage.begin_abort)
  have "(storage rt compiles)\<^sup>*\<^sup>* db1 db'"
  proof (cases "db' = db1")
    case False
    let ?fail = "in_context ctx ''FailVersion'' (FailVersion now (us_dataset s) (us_version s) (prin_UserID prin) ''multipart_upload_aborted'')"
    obtain versionErr db2 where fv: "run_tx ?fail db1 = (versionErr, db2)" by fastforce
    obtain markErr db3 where ma: "run_tx (in_context ctx ''MarkAborted'' (MarkAborted sessionID now)) db2 = (markErr, db3)" by fastforce
    have "db' = db3"
      using assms False by (auto simp: Multipart_Service_Abort_def Inr sd fv ma split: if_splits)
    moreover have "(storage rt compiles)\<^sup>*\<^sup>* db1 db2" using fv by (rule run_context_run) (rule storage.fail_version)
    moreover have "(storage rt compiles)\<^sup>*\<^sup>* db2 db3" using ma by (rule run_context_run) (rule storage.mark_aborted)
    ultimately show ?thesis by (meson rtranclp_trans)
  qed simp
  with first show ?thesis by (meson converse_rtranclp_into_rtranclp)
qed

text \<open>The three ways in which a claimed session is settled.\<close>

lemma settle_cases:
  assumes "settle ctx errText deleteObject fatal now actorID s token v db = (res, db')"
  obtains (invalid) e e' where "failInvalidObject ctx errText deleteObject now s token e db = (e', db')" "res = Inl e'"
  | (again) e e' where "resetCompletion ctx errText now (us_id s) token e db = (e', db')" "res = Inl e'"
  | (unmarked) bytes digest version e where "v = Verified bytes digest"
      "FinalizeVersionForUpload now (us_dataset s) (us_version s) actorID bytes digest (us_id s) token db = Inr (version, db')"
      "in_context ctx ''MarkCompleted'' (MarkCompleted (us_id s) token now) db' = Inl e" "res = Inl e"
  | (published) bytes digest version db2 where "v = Verified bytes digest"
      "FinalizeVersionForUpload now (us_dataset s) (us_version s) actorID bytes digest (us_id s) token db = Inr (version, db2)"
      "MarkCompleted (us_id s) token now db2 = Inr ((), db')" "res = Inr version"
proof -
  have inv: thesis if "apfst Inl (failInvalidObject ctx errText deleteObject now s token e db) = (res, db')" for e
    using that invalid by (cases "failInvalidObject ctx errText deleteObject now s token e db") auto
  have ag: thesis if "apfst Inl (resetCompletion ctx errText now (us_id s) token e db) = (res, db')" for e
    using that again by (cases "resetCompletion ctx errText now (us_id s) token e db") auto
  show thesis
  proof (cases v)
    case (Verified bytes digest)
    show thesis
    proof (cases "in_context ctx ''FinalizeVersionForUpload''
        (FinalizeVersionForUpload now (us_dataset s) (us_version s) actorID bytes digest (us_id s) token) db")
      case (Inl e)
      then show thesis using assms Verified inv [of e] ag [of e] by (auto simp: settle_def split: if_splits)
    next
      case (Inr vd)
      obtain version db2 where vd: "vd = (version, db2)" by (cases vd)
      have fin: "FinalizeVersionForUpload now (us_dataset s) (us_version s) actorID bytes digest (us_id s) token db = Inr (version, db2)"
        using Inr vd by (simp add: in_context_Inr)
      show thesis
      proof (cases "in_context ctx ''MarkCompleted'' (MarkCompleted (us_id s) token now) db2")
        case (Inl e)
        then show thesis using unmarked [OF Verified, of version e] fin assms Verified \<open>_ = Inr vd\<close> vd by (auto simp: settle_def)
      next
        case mark: (Inr ud)
        then have "MarkCompleted (us_id s) token now db2 = Inr ((), db')" "res = Inr version"
          using assms Verified Inr vd by (cases ud; auto simp: settle_def in_context_Inr)+
        then show thesis using published [OF Verified fin] by blast
      qed
    qed
  qed (use assms inv ag in \<open>auto simp: settle_def\<close>)
qed

lemma resetCompletion_run:
  "resetCompletion ctx errText now sessionID token e db = (e', db') \<Longrightarrow> (storage rt compiles)\<^sup>*\<^sup>* db db'"
  by (auto simp: resetCompletion_def split: prod.splits intro!: run_context_run storage.reset)

lemma failInvalidObject_run:
  assumes "failInvalidObject ctx errText deleteObject now s token e db = (e', db')"
  shows "(storage rt compiles)\<^sup>*\<^sup>* db db'"
proof -
  let ?fail = "in_context ctx ''FailVersion'' (FailVersion now (us_dataset s) (us_version s) uuid_Nil ''multipart_object_verification_failed'')"
  obtain r1 db1 where 1: "run_tx ?fail db = (r1, db1)" by fastforce
  obtain r2 db2 where 2: "run_tx (in_context ctx ''MarkFailed'' (MarkFailed now (us_id s) token (errText e))) db1 = (r2, db2)" by fastforce
  have "db' = db2" using assms by (simp add: failInvalidObject_def 1 2)
  moreover have "(storage rt compiles)\<^sup>*\<^sup>* db db1" using 1 by (rule run_context_run) (rule storage.fail_version)
  moreover have "(storage rt compiles)\<^sup>*\<^sup>* db1 db2" using 2 by (rule run_context_run) (rule storage.mark_failed)
  ultimately show ?thesis by (meson rtranclp_trans)
qed

lemma settle_run:
  assumes "settle ctx errText deleteObject fatal now actorID s token v db = (res, db')"
  shows "(storage rt compiles)\<^sup>*\<^sup>* db db'"
  using assms
proof (cases rule: settle_cases)
  case unmarked
  then show ?thesis unfolding FinalizeVersionForUpload_def by (blast intro: storage.finalize)
next
  case published
  then show ?thesis unfolding FinalizeVersionForUpload_def
    by (blast intro: storage.finalize storage.mark_completed converse_rtranclp_into_rtranclp)
qed (auto intro: failInvalidObject_run resetCompletion_run)

lemma Complete_run:
  assumes "Multipart_Service_Complete rt jsonValid errText c env token0 now prin sessionID requested db = (res, db')"
  shows "(storage rt' compiles)\<^sup>*\<^sup>* db db'"
proof (cases "bindE (RequireScope prin ScopeDatasetsWrite) (\<lambda>_. authorizedSession prin sessionID ScopeDatasetsWrite db)")
  case (Inl e)
  then show ?thesis using assms by (auto simp: Multipart_Service_Complete_def)
next
  case (Inr authorized)
  obtain r db1 where bc: "BeginComplete token0 sessionID (us_owner authorized) now (now - mc_CompletionGrace c) db = (r, db1)"
    by fastforce
  have first: "storage rt' compiles db db1" by (rule storage.begin_complete [OF bc])
  show ?thesis
  proof (cases "ce_Context env ''BeginComplete''")
    case None
    then have "(storage rt' compiles)\<^sup>*\<^sup>* db1 db'"
      using assms settle_run by (cases r) (auto simp: Multipart_Service_Complete_def Inr bc split: sum.splits)
    with first show ?thesis by (meson converse_rtranclp_into_rtranclp)
  qed (use assms in \<open>auto simp: Multipart_Service_Complete_def Inr\<close>)
qed

lemma reconcile_run:
  assumes "reconcileCompletedObject rt jsonValid errText env token0 now session db = (res, db')"
  shows "(storage rt' compiles)\<^sup>*\<^sup>* db db'"
proof (cases "in_context (ce_Context env) ''BeginReconciliation'' (BeginReconciliation token0 (us_id session) now) db")
  case (Inl e)
  then show ?thesis using assms by (auto simp: reconcileCompletedObject_def)
next
  case (Inr sd)
  obtain s db1 where sd: "sd = (s, db1)" by (cases sd)
  then have first: "storage rt' compiles db db1" using Inr by (auto simp: in_context_Inr intro: storage.begin_reconciliation)
  have "(storage rt' compiles)\<^sup>*\<^sup>* db1 db'"
    using assms settle_run by (auto simp: reconcileCompletedObject_def Inr sd split: sum.splits)
  with first show ?thesis by (meson converse_rtranclp_into_rtranclp)
qed

lemma cleanup_one_run:
  assumes "cleanup_one rt jsonValid errText env now s report db = (report', db')"
  shows "(storage rt' compiles)\<^sup>*\<^sup>* db db'"
proof (cases "cl_Head env")
  case (Inr n)
  obtain r db1 where r: "reconcileCompletedObject rt jsonValid errText (cl_Complete env) (cl_Token env) now s db = (r, db1)" by fastforce
  then have "db' = db1" using assms Inr by (cases r) (auto simp: cleanup_one_def)
  then show ?thesis using reconcile_run [OF r] by simp
next
  case (Inl e)
  let ?fail = "in_context (ce_Context (cl_Complete env)) ''FailVersion''
    (FailVersion now (us_dataset s) (us_version s) uuid_Nil ''multipart_session_expired'')"
  obtain r1 db1 where 1: "run_tx ?fail db = (r1, db1)" by fastforce
  have first: "(storage rt' compiles)\<^sup>*\<^sup>* db db1" using 1 by (rule run_context_run) (rule storage.fail_version)
  have "db' = db \<or> db' = db1 \<or> (\<exists>u. MarkExpired (us_id s) ''session_expired'' now db1 = Inr (u, db'))"
    using assms Inl by (auto simp: cleanup_one_def 1 Let_def in_context_Inr split: if_splits sum.splits)
  then show ?thesis using first by (auto intro: rtranclp.rtrancl_into_rtrancl storage.mark_expired)
qed

lemma cleanup_loop_run:
  "cleanup_loop rt jsonValid errText env now ss report db = (report', db') \<Longrightarrow> (storage rt' compiles)\<^sup>*\<^sup>* db db'"
proof (induction ss arbitrary: report db)
  case (Cons s ss)
  obtain report1 db1 where one: "cleanup_one rt jsonValid errText (env (us_id s)) now s report db = (report1, db1)" by fastforce
  then have "(storage rt' compiles)\<^sup>*\<^sup>* db1 db'" using Cons by simp
  with cleanup_one_run [OF one, of rt' compiles] show ?case by (rule rtranclp_trans)
qed simp

lemma CleanupExpired_run:
  "CleanupExpired rt jsonValid errText c env now limit db = Inr (report, db') \<Longrightarrow> (storage rt' compiles)\<^sup>*\<^sup>* db db'"
  by (auto simp: CleanupExpired_def bindE_Inr split: if_splits
      intro: converse_rtranclp_into_rtranclp storage.claim_expired cleanup_loop_run)

end
