(* ===== verification/Completion.thy ===== *)
theory Completion
  imports StorageServices Inputs
begin

text \<open>
  What the multipart service relies on when it completes an upload: the arithmetic of parts, the
  inspection of the stored object, and how a claimed session is settled.
\<close>

section \<open>Parts of an object\<close>

lemma session_size_bounds:
  assumes "session_ok s"
  shows "us_partsize s * (us_parts s - 1) < us_size s" "us_size s \<le> us_partsize s * us_parts s" "us_size s \<le> 53687091200000"
    "0 \<le> us_partsize s * (us_parts s - 1)"
proof -
  let ?q = "(us_size s - 1) div us_partsize s"
  have ok: "0 < us_partsize s" "us_partsize s \<le> 5368709120" "0 < us_size s" "us_parts s = ?q + 1" "?q \<le> 9999"
    using assms by (auto simp: session_ok_def)
  have split: "us_size s - 1 = us_partsize s * ?q + (us_size s - 1) mod us_partsize s" by simp
  have m: "0 \<le> (us_size s - 1) mod us_partsize s" "(us_size s - 1) mod us_partsize s < us_partsize s" using ok(1) by simp_all
  have "us_partsize s * (us_parts s - 1) = us_partsize s * ?q" using ok(4) by simp
  then show "us_partsize s * (us_parts s - 1) < us_size s" using split m by linarith
  have whole: "us_partsize s * us_parts s = us_partsize s * ?q + us_partsize s" using ok(4) by (simp add: algebra_simps)
  then show fits: "us_size s \<le> us_partsize s * us_parts s" using split m by linarith
  have "0 \<le> ?q" using ok(1,3) by (simp add: pos_imp_zdiv_nonneg_iff)
  then show "0 \<le> us_partsize s * (us_parts s - 1)" using ok(1,4) by simp
  have "us_partsize s * us_parts s \<le> 5368709120 * 10000" using ok \<open>0 \<le> ?q\<close> by (intro mult_mono) auto
  then show "us_size s \<le> 53687091200000" using fits by simp
qed

text \<open>The size of the last part is computed without wrap-around.\<close>

lemma last_part_size:
  assumes "session_ok s"
  shows "signed_take_bit 63 (us_size s - signed_take_bit 63 (us_partsize s * (us_parts s - 1))) =
      us_size s - us_partsize s * (us_parts s - 1)"
proof -
  have "signed_take_bit 63 (us_partsize s * (us_parts s - 1)) = us_partsize s * (us_parts s - 1)"
    by (rule signed_take_bit_int_eq_self) (use session_size_bounds [OF assms] in simp_all)
  moreover have "signed_take_bit 63 (us_size s - us_partsize s * (us_parts s - 1)) = us_size s - us_partsize s * (us_parts s - 1)"
    by (rule signed_take_bit_int_eq_self) (use session_size_bounds [OF assms] in simp_all)
  ultimately show ?thesis by simp
qed

lemma complete_parts_numbers:
  "complete_parts_loop index ps = Inr qs \<Longrightarrow> map cp_PartNumber qs = [index + 1..index + int (length ps)]"
proof (induction ps arbitrary: index qs)
  case (Cons p ps)
  from Cons.prems obtain etag rest where "cp_PartNumber p = index + 1" and rest: "complete_parts_loop (index + 1) ps = Inr rest"
    and "qs = \<lparr>cp_PartNumber = cp_PartNumber p, cp_ETag = etag\<rparr> # rest"
    by (auto simp: bindE_Inr split: if_splits)
  then show ?case using Cons.IH [OF rest] by (simp add: upto_rec1 add.assoc)
qed auto

lemma registered_loop_Inr:
  "registered_loop expectedSize partSize n index qs ps = Inr () \<Longrightarrow> length ps = length qs \<Longrightarrow> index + length qs = n \<Longrightarrow> qs \<noteq> [] \<Longrightarrow>
   map pt_number ps = map cp_PartNumber qs \<and> map pt_etag ps = map cp_ETag qs \<and>
   map pt_size ps = replicate (length qs - 1) partSize @
     [signed_take_bit 63 (expectedSize - signed_take_bit 63 (partSize * (int n - 1)))]"
proof (induction qs arbitrary: index ps)
  case (Cons q qs)
  then obtain p ps' where ps: "ps = p # ps'" by (cases ps) auto
  show ?case
  proof (cases "qs = []")
    case True
    then show ?thesis using Cons.prems ps by (auto split: if_splits)
  next
    case False
    then have "length qs = Suc (length qs - 1)" by (cases qs) auto
    then have rep: "replicate (length qs) partSize = partSize # replicate (length qs - 1) partSize" by (metis replicate_Suc)
    have "index \<noteq> n - 1" using Cons.prems(3) False by (cases qs) auto
    then show ?thesis using Cons.IH [of "Suc index" ps'] Cons.prems ps False by (auto simp: rep split: if_splits)
  qed
qed simp

lemma registered_parts_fill:
  assumes "session_ok s" "normalizeCompleteParts requested (us_parts s) = Inr parts"
    "verifyRegisteredParts parts registered (us_size s) (us_partsize s) = Inr ()"
  shows "map pt_number registered = [1..us_parts s] \<and> map pt_etag registered = map cp_ETag parts \<and>
    (\<forall>p \<in> set registered. 0 < pt_size p \<and> pt_size p \<le> us_partsize s) \<and> sum_list (map pt_size registered) = us_size s"
proof -
  have req: "int (length requested) = us_parts s" "complete_parts_loop 0 requested = Inr parts"
    using assms(2) by (auto simp: normalizeCompleteParts_def split: if_splits)
  note nums = complete_parts_numbers [OF req(2)]
  then have len: "int (length parts) = us_parts s" using req(1) by (metis length_map add_0 diff_add_cancel length_upto nat_0_le of_nat_0_le_iff)
  have "1 \<le> us_parts s" using session_size_bounds(4) [OF assms(1)] assms(1)
    by (auto simp: session_ok_def pos_imp_zdiv_nonneg_iff)
  then have "parts \<noteq> []" using len by auto
  moreover have reg: "length registered = length parts" "registered_loop (us_size s) (us_partsize s) (length parts) 0 parts registered = Inr ()"
    using assms(3) by (auto simp: verifyRegisteredParts_def split: if_splits)
  ultimately have loop: "map pt_number registered = map cp_PartNumber parts" "map pt_etag registered = map cp_ETag parts"
    "map pt_size registered = replicate (length parts - 1) (us_partsize s) @ [us_size s - us_partsize s * (us_parts s - 1)]"
    using registered_loop_Inr [OF reg(2,1)] last_part_size [OF assms(1)] len by simp_all
  have n: "int (length parts - 1) = us_parts s - 1" using len \<open>1 \<le> us_parts s\<close> by linarith
  have "pt_size p \<in> set (map pt_size registered)" if "p \<in> set registered" for p using that by simp
  then have "\<forall>p \<in> set registered. 0 < pt_size p \<and> pt_size p \<le> us_partsize s"
    using session_size_bounds(1,2) [OF assms(1)] assms(1) unfolding loop(3)
    by (fastforce simp: session_ok_def algebra_simps)
  moreover have "sum_list (map pt_size registered) = us_size s"
    unfolding loop(3) using n by (simp add: sum_list_replicate)
  ultimately show ?thesis using loop(1,2) nums req(1) by simp
qed

section \<open>Claim, inspection and settlement\<close>

lemma BeginComplete_Inr:
  assumes "BeginComplete token sessionID ownerID now staleBefore db = (Inr s, db')" "sessions_ok (db_sessions db)"
  shows "row_find us_id sessionID (db_sessions db') = Some s \<and> us_id s = sessionID \<and> us_state s = Completing \<and>
    us_token s = Some token \<and> session_ok s \<and> db_versions db' = db_versions db \<and> db_parts db' = db_parts db"
proof -
  obtain u where u: "locked_session sessionID ownerID db = Some u"
    using assms(1) by (cases "locked_session sessionID ownerID db") (auto simp: BeginComplete_def)
  then have mem: "u \<in> set (db_sessions db)" "us_id u = sessionID" by (auto simp: locked_session_def find_Some_iff)
  have run: "s = start_completion now token u" "db' = update_session sessionID (start_completion now token) db"
    "us_state u \<in> {Initiated, Completing}"
    using assms(1) u by (auto simp: BeginComplete_def Let_def split: session_state.splits option.splits if_splits)
  have dist: "distinct (map us_id (db_sessions db))" using assms(2) by (simp add: sessions_ok_def)
  have "row_find us_id sessionID (db_sessions db) = Some u" using mem dist by (simp add: row_find_distinct)
  then have "row_find us_id sessionID (db_sessions db') = Some s"
    by (simp add: run update_session_def row_find_update start_completion_def)
  moreover have "session_ok s" unfolding run(1)
    by (rule session_move_ok [of u]) (use run(3) mem assms(2) in \<open>auto intro: session_moves simp: sessions_ok_def\<close>)
  ultimately show ?thesis using mem(2) run(1,2) by (simp add: start_completion_def update_session_def)
qed

text \<open>A whole object is read exactly when as many bytes are read as expected.\<close>

lemma inspect_all:
  assumes "session_ok s" "inspectObject rt content (us_size s) = (us_size s, digest, pre)"
  shows "int (length content) = us_size s \<and> digest = sha256_hex rt content"
proof -
  have "us_size s + 1 < 2 ^ 63" "0 < us_size s" using session_size_bounds(3) [OF assms(1)] assms(1) by (simp_all add: session_ok_def)
  then have whole: "signed_take_bit 63 (us_size s + 1) = us_size s + 1" by (simp add: signed_take_bit_int_eq_self)
  then have "int (length (take (nat (us_size s + 1)) content)) = us_size s" "digest = sha256_hex rt (take (nat (us_size s + 1)) content)"
    using assms(2) by (auto simp: inspectObject_def Let_def)
  moreover from this(1) have "int (length content) = us_size s" using \<open>0 < us_size s\<close> by (simp add: min_def split: if_splits)
  ultimately show ?thesis by simp
qed

lemma judge_object_Verified:
  assumes "judge_object rt jsonValid s n got = Verified bytes digest" "session_ok s"
  obtains content where "got = Inr content" "n = us_size s" "bytes = us_size s" "int (length content) = us_size s"
    "digest = sha256_hex rt content" "us_checksum s = None \<or> us_checksum s = Some digest"
proof -
  obtain content where got: "got = Inr content" using assms(1) by (cases got) (auto simp: judge_object_def split: if_splits)
  obtain m d pre where i: "inspectObject rt content (us_size s) = (m, d, pre)" by (metis prod_cases3)
  have out: "n = us_size s" "m = us_size s" "bytes = us_size s" "digest = d" "us_checksum s = None \<or> us_checksum s = Some d"
    using assms(1) by (auto simp: judge_object_def got i split: if_splits option.splits)
  then show thesis using that [OF got] inspect_all [OF assms(2)] i by metis
qed

lemma completion_verdict_Verified:
  assumes "completion_verdict rt jsonValid env s requested db = Verified bytes digest" "session_ok s"
  obtains content parts where "ce_Get env = Inr content" "ce_Head env = Inr (us_size s)" "bytes = us_size s"
    "int (length content) = us_size s" "digest = sha256_hex rt content" "us_checksum s = None \<or> us_checksum s = Some digest"
    "normalizeCompleteParts requested (us_parts s) = Inr parts"
    "verifyRegisteredParts parts (ListParts (us_id s) db) (us_size s) (us_partsize s) = Inr ()"
proof -
  from assms(1) obtain n parts where n: "ce_Head env = Inr n" and judge: "judge_object rt jsonValid s n (ce_Get env) = Verified bytes digest"
    and parts: "normalizeCompleteParts requested (us_parts s) = Inr parts"
    "verifyRegisteredParts parts (ListParts (us_id s) db) (us_size s) (us_partsize s) = Inr ()"
    by (auto simp: completion_verdict_def bindE_Inr in_context_Inr split: sum.splits)
  show thesis by (rule judge_object_Verified [OF judge assms(2)]) (use n parts that in simp)
qed

text \<open>An operation that ends with an error publishes nothing.\<close>

lemma FailVersion_publishes_nothing:
  assumes "FailVersion now datasetID versionID actorID reason db = Inr (u, db')" "v \<in> set (db_versions db')" "v_state v = ''AVAILABLE''"
  shows "v \<in> set (db_versions db)"
  using assms(1)
proof (cases rule: FailVersion_frame)
  case failed
  then show ?thesis using assms(2,3) by (auto simp: row_update_def)
qed (use assms(2) in simp)

text \<open>
  One exception: when the call that marks the session completed fails, the version is published
  already, and the session is left to its operation.
\<close>

lemma settle_fails:
  assumes "settle ctx errText deleteObject fatal now actorID s token verdict db = (Inl e, db')"
    "row_find us_id (us_id s) (db_sessions db) = Some s" "us_state s = Completing" "us_token s = Some token"
  obtains (unpublished) "\<And>v. v \<in> set (db_versions db') \<Longrightarrow> v_state v = ''AVAILABLE'' \<Longrightarrow> v \<in> set (db_versions db)"
  | (unmarked) bytes digest version where "ctx ''MarkCompleted'' = Some e" "verdict = Verified bytes digest"
      "FinalizeVersionForUpload now (us_dataset s) (us_version s) actorID bytes digest (us_id s) token db = Inr (version, db')"
      "db_sessions db' = db_sessions db"
  using assms(1)
proof (cases rule: settle_cases)
  case (invalid e1 e2)
  let ?fail = "in_context ctx ''FailVersion'' (FailVersion now (us_dataset s) (us_version s) uuid_Nil ''multipart_object_verification_failed'')"
  obtain r1 db1 where 1: "run_tx ?fail db = (r1, db1)" by fastforce
  obtain r2 db2 where 2: "run_tx (in_context ctx ''MarkFailed'' (MarkFailed now (us_id s) token (errText e1))) db1 = (r2, db2)" by fastforce
  have "db' = db2" using invalid(1) by (simp add: failInvalidObject_def 1 2)
  moreover have "db_versions db2 = db_versions db1" using 2
    by (auto simp: run_tx_def in_context_def MarkFailed_def update_where_def split: if_splits option.splits)
  ultimately have "db_versions db' = db_versions db1" by simp
  then show thesis using 1 FailVersion_publishes_nothing
    by (intro unpublished) (auto simp: run_tx_def in_context_Inr split: sum.splits)
next
  case (again e1 e2)
  then show thesis
    by (intro unpublished)
      (auto simp: resetCompletion_def run_tx_def in_context_def ResetCompletion_def update_where_def split: if_splits option.splits)
next
  case (unmarked bytes digest version e')
  then have same: "db_sessions db' = db_sessions db"
    unfolding FinalizeVersionForUpload_def by (auto elim!: finalizeVersion_frame)
  moreover have "s \<in> set (db_sessions db)" using row_find_SomeD [OF assms(2)] by simp
  ultimately have "list_ex (operation_owns (us_id s) token) (db_sessions db')"
    using assms(3,4) by (auto simp: list_ex_iff operation_owns_def)
  then have "ctx ''MarkCompleted'' = Some e"
    using unmarked(3,4) by (auto simp: in_context_def MarkCompleted_def update_where_def split: option.splits)
  then show thesis using that(2) unmarked(1,2) same by blast
qed simp

lemma Complete_cases:
  assumes "Multipart_Service_Complete rt jsonValid errText c env token now prin sessionID requested db = (res, db')"
    "sessions_ok (db_sessions db)"
  obtains (refused) e where "res = Inl e" "db_versions db' = db_versions db"
  | (settled) s db1 where "row_find us_id sessionID (db_sessions db1) = Some s" "us_id s = sessionID" "us_state s = Completing"
      "us_token s = Some token" "session_ok s" "db_versions db1 = db_versions db \<and> db_parts db1 = db_parts db" "(storage rt' compiles) db db1"
      "settle (ce_Context env) errText (ce_Delete env) (\<lambda>_. False) now (prin_UserID prin) s token
         (completion_verdict rt jsonValid env s requested db1) db1 = (res, db')"
proof (cases "bindE (RequireScope prin ScopeDatasetsWrite) (\<lambda>_. authorizedSession prin sessionID ScopeDatasetsWrite db)")
  case (Inl e)
  then show thesis using assms(1) refused by (auto simp: Multipart_Service_Complete_def)
next
  case (Inr authorized)
  obtain r db1 where bc: "BeginComplete token sessionID (us_owner authorized) now (now - mc_CompletionGrace c) db = (r, db1)"
    by fastforce
  show thesis
  proof (cases "ce_Context env ''BeginComplete''")
    case (Some e)
    then show thesis using assms(1) refused [of e] by (auto simp: Multipart_Service_Complete_def Inr)
  next
    case None
    note run = assms(1) [unfolded Multipart_Service_Complete_def Inr None option.case sum.case bc prod.case]
    show thesis
    proof (cases r)
      case (Inl e)
      then have "db_versions db1 = db_versions db" using bc
        by (auto simp: BeginComplete_def Let_def update_session_def split: option.splits session_state.splits if_splits)
      then show thesis using run Inl refused [of e] by auto
    next
      case (Inr s)
      note s = BeginComplete_Inr [OF bc [unfolded Inr] assms(2)]
      show thesis
      proof (cases "token = uuid_Nil")
        case True
        then show thesis using run s Inr refused [of MultipartErrSessionState] by (auto simp: sessionOperationToken_def)
      next
        case False
        then show thesis using run s Inr storage.begin_complete [OF bc] settled [of db1 s] by (simp add: sessionOperationToken_def)
      qed
    qed
  qed
qed

lemma row_find_rows_update:
  "row_find key k rows = Some r \<Longrightarrow> (\<And>x. key (f x) = key x) \<Longrightarrow> P r \<Longrightarrow> row_find key k (rows_update P f rows) = Some (f r)"
  by (induction rows) (auto simp: row_find_def rows_update_def split: if_splits)

lemma find_row_update:
  "find (\<lambda>v. v_id v = k \<and> v_dataset v = d) vs = Some u \<Longrightarrow> v_id (f u) = v_id u \<Longrightarrow> v_dataset (f u) = v_dataset u \<Longrightarrow>
   (\<And>v. v_id (f v) = v_id v \<and> v_dataset (f v) = v_dataset v) \<Longrightarrow>
   find (\<lambda>v. v_id v = k \<and> v_dataset v = d) (row_update v_id k f vs) = Some (f u)"
  by (induction vs) (auto simp: row_update_def split: if_splits)

lemma FinalizeVersionForUpload_Inr:
  assumes "FinalizeVersionForUpload now datasetID versionID actorID bytes digest sessionID token db = Inr (v, db')"
    "versions_ok (db_versions db)"
  shows "find_version datasetID versionID db' = Some v \<and> v_state v = ''AVAILABLE'' \<and> v_size v = Some bytes \<and>
    v_checksum v = Some digest \<and> db_sessions db' = db_sessions db \<and>
    (\<forall>u \<in> set (db_versions db'). v_state u = ''AVAILABLE'' \<longrightarrow> u = v \<or> u \<in> set (db_versions db))"
  using assms(1) [unfolded FinalizeVersionForUpload_def]
proof (cases rule: finalizeVersion_frame)
  case (published u h)
  have "u \<in> set (db_versions db)" "v_id u = versionID"
    using published(1) by (auto simp: find_version_def find_Some_iff)
  then have only: "x = u" if "x \<in> set (db_versions db)" "v_id x = versionID" for x
    using that assms(2) by (auto simp: versions_ok_def distinct_map dest: inj_onD)
  have "find_version datasetID versionID db' = Some v"
    using find_row_update [of versionID datasetID "db_versions db" u "make_available now bytes digest"] published(1,5,6)
    by (simp add: find_version_def)
  then show ?thesis using published only by (auto simp: row_update_def)
qed simp

lemma settle_publishes:
  assumes "settle ctx errText deleteObject fatal now actorID s token verdict db = (Inr v, db')"
    "row_find us_id (us_id s) (db_sessions db) = Some s" "sessions_ok (db_sessions db)" "versions_ok (db_versions db)"
  obtains bytes digest s' where "verdict = Verified bytes digest" "row_find us_id (us_id s) (db_sessions db') = Some s'"
    "session_key s' = session_key s" "us_state s' = Completed" "FindVersion (us_dataset s) (us_version s) db' = Inr v"
    "v_state v = ''AVAILABLE''" "v_size v = Some bytes" "v_checksum v = Some digest"
  using assms(1)
proof (cases rule: settle_cases)
  case (published bytes digest version db2)
  have v: "find_version (us_dataset s) (us_version s) db2 = Some v \<and> v_state v = ''AVAILABLE'' \<and> v_size v = Some bytes \<and>
      v_checksum v = Some digest \<and> db_sessions db2 = db_sessions db"
    using FinalizeVersionForUpload_Inr [OF published(2) assms(4)] published(4) by simp
  let ?f = "\<lambda>s. s\<lparr>us_state := Completed, us_updated := now, us_completed := Some now, us_error := None, us_token := None, us_started := None\<rparr>"
  have mark: "db' = db2\<lparr>db_sessions := rows_update (operation_owns (us_id s) token) ?f (db_sessions db2)\<rparr>"
    "list_ex (operation_owns (us_id s) token) (db_sessions db2)"
    using published(3) by (auto simp: MarkCompleted_def update_where_def split: if_splits)
  have owner: "operation_owns (us_id s) token s"
  proof -
    obtain u where "u \<in> set (db_sessions db)" "operation_owns (us_id s) token u" using mark(2) v by (auto simp: list_ex_iff)
    moreover have "u = s" using calculation row_find_SomeD [OF assms(2)] assms(3)
      by (auto simp: operation_owns_def sessions_ok_def distinct_map dest: inj_onD)
    ultimately show ?thesis by simp
  qed
  have "row_find us_id (us_id s) (db_sessions db') = Some (?f s)"
    using row_find_rows_update [OF assms(2), of ?f "operation_owns (us_id s) token"] owner mark(1) v by simp
  then show thesis
    by (rule that [OF published(1), of "?f s"]) (use v mark(1) in \<open>simp_all add: session_key_def FindVersion_def find_version_def\<close>)
qed auto

section \<open>What a failed upload leaves\<close>

lemma ReserveVersion_keys:
  "ReserveVersion now r db = Inr (v, db') \<Longrightarrow> v_dataset v = vr_DatasetID r \<and> v_id v = vr_ID r \<and> v_object v = vr_ObjectKey r \<and>
     v_filename v = vr_OriginalFilename r \<and> v_format v = vr_Format r \<and> v_creator v = vr_CreatedBy r"
  by (auto simp: ReserveVersion_def Let_def split: option.splits if_splits)

lemma find_snoc: "(\<And>x. x \<in> set xs \<Longrightarrow> \<not> P x) \<Longrightarrow> P y \<Longrightarrow> find P (xs @ [y]) = Some y"
  by (induction xs) auto

text \<open>A version that has just been reserved can be aborted, and nothing of it remains.\<close>

lemma abort_reserved:
  assumes "supplied db" "ReserveVersion now r db = Inr (v, db1)"
  obtains db2 where "AbortVersion now' (vr_DatasetID r) (vr_ID r) actorID db1 = Inr ((), db2)"
    "db_versions db2 = db_versions db" "db_sessions db2 = db_sessions db" "db_parts db2 = db_parts db" "db_jobs db2 = db_jobs db"
  using assms(2)
proof (cases rule: ReserveVersion_frame)
  case (1 d h)
  note keys = ReserveVersion_keys [OF assms(2)]
  have old: "v_id u \<noteq> v_id v" if "u \<in> set (db_versions db)" for u using 1(5) that by (metis image_eqI)
  have no_job: "\<not> list_ex (\<lambda>j. j_version j = v_id v) (db_jobs db)"
    using assms(1) old by (auto simp: supplied_def published_version_def list_ex_iff dest!: row_find_SomeD)
  have no_session: "us_version s \<noteq> v_id v" if "s \<in> set (db_sessions db)" for s
    using assms(1) old that unfolding supplied_def sessions_refer_def by (metis image_iff image_subset_iff)
  have find: "find_version (v_dataset v) (v_id v) db1 = Some v"
    unfolding find_version_def by (subst 1(8)) (simp add: find_snoc old)
  obtain d1 where d1: "row_find ds_id (v_dataset v) (db_datasets db1) = Some d1"
    using 1(1,8) by (cases "ds_state d = ''UPLOADING''") (auto simp: row_find_update)
  have del: "delete_version (v_id v) db1 = Inr (db1\<lparr>db_versions := db_versions db\<rparr>)"
  proof -
    have "filter (\<lambda>u. v_id u \<noteq> v_id v) (db_versions db1) = db_versions db"
      using old 1(8) by (auto simp: filter_id_conv)
    moreover have "filter (\<lambda>s. us_version s \<noteq> v_id v) (db_sessions db1) = db_sessions db1"
      "filter (\<lambda>s. us_version s = v_id v) (db_sessions db1) = []"
      using no_session 1(8) by (auto simp: filter_id_conv filter_empty_conv)
    ultimately show ?thesis using no_job 1(8) by (simp add: delete_version_def)
  qed
  have "\<exists>db2. AbortVersion now' (v_dataset v) (v_id v) actorID db1 = Inr ((), db2) \<and> db_versions db2 = db_versions db \<and>
      db_sessions db2 = db_sessions db \<and> db_parts db2 = db_parts db \<and> db_jobs db2 = db_jobs db"
    unfolding AbortVersion_def d1 find option.case del bindE_simps Let_def using 1(3,8) by (simp add: statements)
  then show thesis using that keys by auto
qed

lemma UploadVersion_fails:
  assumes "UploadVersion rt jsonValid ctx os maxBytes now versionID prin datasetID request db = (Inl e, db')" "supplied db"
  shows "db_sessions db' = db_sessions db \<and> db_parts db' = db_parts db \<and>
    (db_versions db' = db_versions db \<or>
     ctx ''AbortVersion'' \<noteq> None \<and>
       (\<exists>v. db_versions db' = db_versions db @ [v] \<and> v_id v = versionID \<and> v_dataset v = datasetID \<and> v_state v = ''UPLOADING''))"
  using assms(1)
proof (cases rule: UploadVersion_cases)
  case (failed r v db1 e1 e2)
  obtain db2 where "AbortVersion now datasetID versionID (prin_UserID prin) db1 = Inr ((), db2)"
    "db_versions db2 = db_versions db" "db_sessions db2 = db_sessions db" "db_parts db2 = db_parts db"
    using abort_reserved [OF assms(2) failed(2)] failed(3,4) by metis
  then have done': ?thesis if "ctx ''AbortVersion'' = None"
    using failed(5) that by (auto simp: cleanupUpload_def run_tx_def Let_def split: if_splits)
  have left: "db' = db1" if "ctx ''AbortVersion'' \<noteq> None"
    using failed(5) that by (auto simp: cleanupUpload_def run_tx_def Let_def in_context_def split: if_splits)
  from failed(2) show ?thesis
  proof (cases rule: ReserveVersion_frame)
    case (1 d h)
    then show ?thesis using done' left ReserveVersion_keys [OF failed(2)] failed(3,4)
      by (cases "ctx ''AbortVersion''") auto
  qed
qed auto

lemma initiate_fails:
  assumes "initiate_session rt c env now prin datasetID r request db = (Inl e, db')" "supplied db"
    "ie_Context env ''AbortVersion'' = None"
  shows "db_versions db' = db_versions db \<and> db_sessions db' = db_sessions db \<and> db_parts db' = db_parts db"
proof -
  obtain filename contentType declared checksum key where req: "request = (filename, contentType, declared, checksum, key)"
    by (cases request)
  let ?r = "\<lparr>vr_ID = ie_Version env, vr_DatasetID = datasetID, vr_CreatedBy = prin_UserID prin,
           vr_OriginalFilename = filename, vr_ContentType = contentType, vr_Format = declared,
           vr_ObjectKey = ObjectKey rt datasetID (ie_Version env),
           vr_ArtifactPrefix = ArtifactPrefix rt datasetID (ie_Version env),
           vr_SourceInfo = [(''uploadMode'', ''multipart''), (''sessionId'', uuid_String rt (ie_Session env))]\<rparr>"
  show ?thesis
  proof (cases "in_context (ie_Context env) ''ReserveVersion'' (ReserveVersion now ?r) db")
    case (Inl e)
    then show ?thesis using assms(1) by (auto simp: initiate_session_def req)
  next
    case (Inr vd)
    obtain v db1 where vd: "vd = (v, db1)" by (cases vd)
    have res: "ReserveVersion now ?r db = Inr (v, db1)" using Inr vd by (simp add: in_context_Inr)
    obtain db2 where abort: "AbortVersion now datasetID (ie_Version env) (prin_UserID prin) db1 = Inr ((), db2)"
      and same: "db_versions db2 = db_versions db" "db_sessions db2 = db_sessions db" "db_parts db2 = db_parts db"
      using abort_reserved [OF assms(2) res, of now "prin_UserID prin"] by (metis VersionReservation.simps(1,2))
    have fresh: "ie_Version env \<notin> v_id ` set (db_versions db)"
      using ReserveVersion_frame [OF res] by (metis VersionReservation.simps(1))
    note run = assms(1) [unfolded initiate_session_def req prod.case Inr vd sum.case]
    show ?thesis
    proof (cases "ie_Initiate env")
      case (Inl e)
      then show ?thesis using run same by (auto simp: cleanupReserved_def run_tx_def abort assms(3) errors_Join_def split: if_splits)
    next
      case (Inr uploadID)
      let ?s = "new_session rt c env now (prin_UserID prin) datasetID uploadID r request"
      have s: "us_dataset ?s = datasetID" "us_version ?s = ie_Version env" by (simp_all add: req new_session_def)
      have orphan: "in_context (ie_Context env) name (persistOrphanSession ?s now reason) db2 \<noteq> Inr x" for name reason x
        using fresh same(1) s(2) by (auto simp: in_context_Inr persistOrphanSession_def CreateSession_def Let_def session_row_def)
      from run Inr obtain e1 where "compensate_initiation env now ?s (prin_UserID prin) e1 db1 = (Inl e, db')"
        by (cases "in_context (ie_Context env) ''CreateSession'' (CreateSession ?s) db1") (auto simp: req Let_def)
      then have "db' = db2"
        using orphan by (auto simp: compensate_initiation_def cleanupReservedRemote_def run_tx_def s abort assms(3) Let_def
            split: if_splits sum.splits option.splits)
      then show ?thesis using same by simp
    qed
  qed
qed

end
