(* ===== verification/StorageProperties.thy ===== *)
theory StorageProperties
  imports Samples Completion
begin

text \<open>
  Properties of datasets, uploads and quality rules: what every run of the storage keeps, what a
  completion, an upload and a registration achieve, and where the code falls short.
\<close>

section \<open>One upload from start to end\<close>

definition sample_multipart :: MultipartConfig where
  "sample_multipart = \<lparr>mc_PartSize = 5242880, mc_MaxParts = 1000, mc_MaxBytes = 52428800, mc_SessionTTL = 1000,
     mc_PartURLTTL = 100, mc_CompletionGrace = 60\<rparr>"

definition sample_content :: string where
  "sample_content = replicate 64 (CHR ''a'')"

definition sample_made :: DB where
  "sample_made = committed (CreateDataset (\<lambda>s. s) 11 100 7 ''d'' [] empty_db)"

definition sample_initiation :: InitiateEnv where
  "sample_initiation = \<lparr>ie_Session = 13, ie_Version = 12, ie_Initiate = Inr ''up'', ie_Abort = Inr (),
     ie_Context = (\<lambda>_. None)\<rparr>"

definition sample_request :: InitiateRequest where
  "sample_request = \<lparr>ir_Filename = ''a.jsonl'', ir_ContentType = [], ir_ExpectedSize = 64, ir_ExpectedChecksum = [],
     ir_IdempotencyKey = ''key''\<rparr>"

definition sample_open :: DB where
  "sample_open = snd (Initiate sample_runtime sample_multipart sample_initiation 200 sample_user 11 sample_request sample_made)"

definition sample_remote_part :: MultipartPart where
  "sample_remote_part = \<lparr>mp_PartNumber = 1, mp_ETag = ''e'', mp_Size = 64\<rparr>"

definition sample_register :: "DB \<Rightarrow> (Part \<times> DB) result" where
  "sample_register = Multipart_Service_RegisterPart (\<lambda>_ _ _. Inr sample_remote_part) 300 sample_user 13 1 ''e'' 64"

definition sample_registered :: DB where
  "sample_registered = committed (sample_register sample_open)"

definition sample_store_answers :: CompleteEnv where
  "sample_store_answers =
    \<lparr>ce_List = Inr [sample_remote_part], ce_HeadListed = Inr 64, ce_Complete = Inr (), ce_HeadCompleted = Inr 64, ce_Head = Inr 64,
     ce_Get = Inr sample_content, ce_Delete = Inr (), ce_Context = (\<lambda>_. None)\<rparr>"

definition sample_complete :: "Version result \<times> DB" where
  "sample_complete =
    Multipart_Service_Complete sample_runtime (\<lambda>_. True) (\<lambda>_. []) sample_multipart sample_store_answers 14 400 sample_user 13
      [\<lparr>cp_PartNumber = 1, cp_ETag = ''e''\<rparr>] sample_registered"

lemma sample_made_run: "(storage sample_runtime compiles)\<^sup>*\<^sup>* empty_db sample_made"
proof -
  have "\<not> isl (CreateDataset (\<lambda>s. s) 11 100 7 ''d'' [] empty_db)" by code_simp
  from committed_Inr [OF this] show ?thesis
    unfolding sample_made_def by (intro r_into_rtranclp storage.create_dataset)
qed

lemma sample_open_run: "(storage sample_runtime compiles)\<^sup>*\<^sup>* empty_db sample_open"
proof -
  have "MultipartConfig_validate sample_multipart = Inr ()" by code_simp
  then show ?thesis
    using sample_made_run Initiate_run unfolding sample_open_def by (metis prod.collapse rtranclp_trans)
qed

lemma sample_register_ok: "sample_register sample_open = Inr (returned (sample_register sample_open), sample_registered)"
proof -
  have "\<not> isl (sample_register sample_open)" by code_simp
  then show ?thesis unfolding sample_registered_def by (rule committed_Inr)
qed

lemma sample_registered_run: "(storage sample_runtime compiles)\<^sup>*\<^sup>* empty_db sample_registered"
  using sample_open_run RegisterPart_run [OF sample_register_ok [unfolded sample_register_def]] by (rule rtranclp_trans)

lemma sample_complete_run: "(storage sample_runtime compiles)\<^sup>*\<^sup>* empty_db (snd sample_complete)"
  using sample_registered_run Complete_run unfolding sample_complete_def by (metis prod.collapse rtranclp_trans)

lemma empty_no_storage: "no_storage empty_db"
  by (simp add: no_storage_def empty_db_def)

lemma samples_stored:
  "storage_ok sample_runtime compiles sample_open" "storage_ok sample_runtime compiles sample_registered"
  "storage_ok sample_runtime compiles (snd sample_complete)"
  using store.steps_inv [OF _ no_storage_ok [OF empty_no_storage]] sample_open_run sample_registered_run sample_complete_run
  by blast+

section \<open>What every run keeps\<close>

text \<open>
  C4. In every state that the transactions on datasets, versions, upload sessions, parts and
  quality rules can reach, in any order and with any arguments: identifiers, object keys and
  version numbers are unique, an available version has a size, a checksum of 64 hexadecimal digits
  and a time, a dataset is deleted, uploading or available exactly as its versions and its deletion
  say, a session has a token exactly while it completes and as many parts as its size needs, every
  registered part has the size its session expects, every session has its version, and every rule
  was accepted by the validation and is the only one of its name.
\<close>

theorem storage_consistent: "reachable no_storage (storage rt compiles) db \<Longrightarrow> storage_ok rt compiles db"
  by (rule store.reachable_inv)

theorem storage_consistent_witness: "storage_ok sample_runtime (\<lambda>_. True) (snd sample_complete)"
  by (rule storage_consistent [OF reachable_run [OF sample_complete_run]]) (rule reachable.start [of no_storage, OF empty_no_storage])

text \<open>
  C5. A job reads the same bytes for ever: the version it was created on is published, and in
  every later state of the control plane, whatever is uploaded, aborted, deleted or cleaned up
  meanwhile, the job still names this version and the version is unchanged.
\<close>

theorem jobs_keep_published_version:
  assumes "reachable nothing_stored (plane rt) db" "(plane rt)\<^sup>*\<^sup>* db db'" "find_job k db = Some j"
  shows "\<exists>j' v. find_job k db' = Some j' \<and> j_version j' = j_version j \<and> FindVersionByID (j_version j) db = Inr v \<and>
    FindVersionByID (j_version j) db' = Inr v \<and> v_state v = ''AVAILABLE'' \<and> v_size v \<noteq> None \<and> v_checksum v \<noteq> None"
proof -
  have ok: "supplied db" by (rule job_inputs.reachable_inv [OF assms(1)])
  have "j \<in> set (db_jobs db)" using row_find_SomeD [of j_id k] assms(3) unfolding find_job_def by blast
  then obtain v where v: "row_find v_id (j_version j) (db_versions db) = Some v" "v_state v = ''AVAILABLE''"
    using ok unfolding supplied_def published_version_def by blast
  then have "v_size v \<noteq> None" "v_checksum v \<noteq> None"
    using ok row_find_SomeD [OF v(1)] unfolding supplied_def versions_ok_def by force+
  moreover have "map_option j_version (find_job k db') = Some (j_version j)" "row_find v_id (j_version j) (db_versions db') = Some v"
    using plane_run_version [OF assms(2) ok, of k, OF _ v] assms(3) by simp_all
  ultimately show ?thesis using v by (auto simp: FindVersionByID_def)
qed

definition sample_job_made :: "((Job \<times> bool) \<times> DB) result" where
  "sample_job_made =
    Job_Service_Create sample_runtime sample_rules Outbox_Enqueue sample_draws ''r'' 1000 sample_user 12
      \<lparr>cr_Operations = [sample_operation], cr_Priority = 0, cr_MaxAttempts = 2\<rparr> ''key'' ''t'' (snd sample_complete)"

lemma sample_job_made_ok:
  "plane sample_runtime (snd sample_complete) (committed sample_job_made)" "find_job 31 (committed sample_job_made) \<noteq> None"
proof -
  have "\<not> isl sample_job_made" by code_simp
  from committed_Inr [OF this] show "plane sample_runtime (snd sample_complete) (committed sample_job_made)"
    unfolding sample_job_made_def by (rule plane.create)
qed code_simp

lemma storage_run_plane: "(storage rt compiles)\<^sup>*\<^sup>* db db' \<Longrightarrow> (plane rt)\<^sup>*\<^sup>* db db'"
  by (induction rule: rtranclp_induct) (auto intro: rtranclp.rtrancl_into_rtrancl plane.store)

lemma sample_job_made_reachable: "reachable nothing_stored (plane sample_runtime) (committed sample_job_made)"
proof (rule reachable_run)
  show "(plane sample_runtime)\<^sup>*\<^sup>* empty_db (committed sample_job_made)"
    using storage_run_plane [OF sample_complete_run] sample_job_made_ok(1) by (rule rtranclp.rtrancl_into_rtrancl)
  show "reachable nothing_stored (plane sample_runtime) empty_db"
    by (rule reachable.start) (simp add: nothing_stored_def no_storage_def no_jobs_def empty_db_def)
qed

theorem jobs_keep_published_version_witness:
  "\<exists>j' v. find_job 31 (committed (DeleteDataset 2000 11 7 (committed sample_job_made))) = Some j' \<and>
     FindVersionByID (j_version j') (committed (DeleteDataset 2000 11 7 (committed sample_job_made))) = Inr v \<and>
     v_state v = ''AVAILABLE''"
proof -
  obtain j where j: "find_job 31 (committed sample_job_made) = Some j" using sample_job_made_ok(2) by blast
  have "\<not> isl (DeleteDataset 2000 11 7 (committed sample_job_made))" by code_simp
  from committed_Inr [OF this] have "(plane sample_runtime)\<^sup>*\<^sup>* (committed sample_job_made)
      (committed (DeleteDataset 2000 11 7 (committed sample_job_made)))"
    by (intro r_into_rtranclp plane.store storage.delete_dataset)
  from jobs_keep_published_version [OF sample_job_made_reachable this j] show ?thesis by metis
qed

section \<open>Upload sessions\<close>

text \<open>
  C15. Every transaction moves a session along the machine or leaves its state: open sessions
  complete or are aborted, a completion ends, is reset or is taken away, and a completed, aborted
  or expired session stays what it is; owner, dataset, version, remote upload, object key, sizes and
  expected checksum never change.
\<close>

theorem session_machine:
  assumes "storage_ok rt compiles db" "storage rt compiles db db'" "s \<in> set (db_sessions db)" "s' \<in> set (db_sessions db')"
    "us_id s' = us_id s"
  shows "session_key s' = session_key s \<and> (us_state s' = us_state s \<or> us_state s' \<in> set (session_next (us_state s)))"
proof -
  have ok: "sessions_ok (db_sessions db)" using assms(1) by (simp add: storage_ok_def)
  then have inj: "inj_on us_id (set (db_sessions db))" by (simp add: sessions_ok_def distinct_map)
  from storage_sessions [OF assms(2) ok] show ?thesis
  proof cases
    case moved
    from all2_image [OF moved(1) assms(4)] obtain u where u: "u \<in> set (db_sessions db)" "session_move u s'" by blast
    then have "u = s" using session_move_keys [OF u(2)] assms(3,5) inj by (metis inj_onD)
    then show ?thesis using u(2) by (simp add: session_move_def)
  next
    case (created t)
    then have "s' \<in> set (db_sessions db)" using assms by auto
    then have "s' = s" using assms(3,5) inj by (metis inj_onD)
    then show ?thesis by simp
  next
    case registered
    then have "s' = s" using assms(3-5) inj by (metis inj_onD)
    then show ?thesis by simp
  next
    case removed
    then have "s' = s" using assms(3-5) inj by (metis inj_onD filter_is_subset subsetD)
    then show ?thesis by simp
  qed
qed

lemma sample_open_session:
  "\<exists>s. db_sessions sample_open = [s] \<and> us_id s = 13 \<and> us_owner s = 7 \<and> us_state s = Initiated \<and> us_token s = None"
  by (rule exI [of _ "hd (db_sessions sample_open)"]) code_simp

theorem session_machine_witness:
  "us_state (hd (db_sessions (committed (BeginAbort 13 7 300 sample_open)))) = Aborting \<and>
   session_key (hd (db_sessions (committed (BeginAbort 13 7 300 sample_open)))) = session_key (hd (db_sessions sample_open)) \<and>
   Aborting \<in> set (session_next (us_state (hd (db_sessions sample_open))))"
proof -
  let ?s = "hd (db_sessions sample_open)" and ?s' = "hd (db_sessions (committed (BeginAbort 13 7 300 sample_open)))"
  have ok: "\<not> isl (BeginAbort 13 7 300 sample_open)" by code_simp
  have "db_sessions sample_open \<noteq> [] \<and> db_sessions (committed (BeginAbort 13 7 300 sample_open)) \<noteq> [] \<and> us_id ?s' = us_id ?s \<and>
      us_state ?s = Initiated \<and> us_state ?s' = Aborting"
    by code_simp
  then have heads: "?s \<in> set (db_sessions sample_open)" "?s' \<in> set (db_sessions (committed (BeginAbort 13 7 300 sample_open)))"
    "us_id ?s' = us_id ?s" "us_state ?s = Initiated" "us_state ?s' = Aborting" by (simp_all add: hd_in_set)
  then show ?thesis
    using session_machine [OF samples_stored(1) storage.begin_abort [OF committed_Inr [OF ok]] heads(1,2,3)] by simp
qed

text \<open>
  C16. Once a session is not (or no longer) completed by the operation of a token, because another
  completion or the cleanup took it over, that operation can do nothing to it: it cannot publish the
  version, mark the session completed or failed, or reopen it.
\<close>

theorem stale_operation_fenced:
  assumes "storage_ok rt compiles db" "row_find us_id sessionID (db_sessions db) = Some s"
    "us_state s \<noteq> Completing \<or> us_token s \<noteq> Some token" "sessionID \<noteq> uuid_Nil" "token \<noteq> uuid_Nil"
  shows "isl (FinalizeVersionForUpload now datasetID versionID actorID bytes checksum sessionID token db) \<and>
    MarkCompleted sessionID token now db = Inl MultipartErrSessionState \<and>
    ResetCompletion now sessionID token e db = Inl MultipartErrSessionState \<and>
    MarkFailed now sessionID token e db = Inl MultipartErrSessionState"
proof -
  have dist: "distinct (map us_id (db_sessions db))" using assms(1) by (simp add: storage_ok_def sessions_ok_def)
  have only: "u = s" if "u \<in> set (db_sessions db)" "us_id u = sessionID" for u
    using that row_find_SomeD [OF assms(2)] dist by (metis distinct_map inj_onD)
  have "\<not> fenced_session sessionID datasetID versionID token db"
  proof (cases "find (\<lambda>s. us_id s = sessionID \<and> us_dataset s = datasetID \<and> us_version s = versionID) (db_sessions db)")
    case (Some u)
    then have "u = s" using only by (auto simp: find_Some_iff in_set_conv_nth)
    then show ?thesis using Some assms(3) by (auto simp: fenced_session_def)
  qed (simp add: fenced_session_def)
  then have "isl (FinalizeVersionForUpload now datasetID versionID actorID bytes checksum sessionID token db)"
    using assms(4) by (auto simp: FinalizeVersionForUpload_def finalizeVersion_def split: option.splits)
  moreover have "\<not> list_ex (operation_owns sessionID token) (db_sessions db)"
    using only assms(3) by (auto simp: list_ex_iff operation_owns_def)
  moreover have "MarkFailed now sessionID token e db = Inl MultipartErrSessionState"
    using only assms(3,5) by (auto simp: MarkFailed_def update_where_def list_ex_iff)
  ultimately show ?thesis by (simp add: MarkCompleted_def ResetCompletion_def update_where_def)
qed

theorem stale_operation_fenced_witness:
  "MarkCompleted 13 14 400 sample_open = Inl MultipartErrSessionState"
proof -
  obtain s where "db_sessions sample_open = [s]" "us_id s = 13" "us_state s = Initiated" using sample_open_session by blast
  then show ?thesis using stale_operation_fenced [OF samples_stored(1), of 13 s 14] by (simp add: row_find_def)
qed

section \<open>Completion\<close>

text \<open>
  The version \<open>v\<close> is what the session \<open>s\<close> was opened for: it is available with the size the session
  was opened for and the checksum of exactly the bytes in the object store, which is the expected
  checksum when one was given; the parts registered before were numbered without gaps and their
  sizes add up to the size.
\<close>

definition verified_upload :: "Runtime \<Rightarrow> CompleteEnv \<Rightarrow> DB \<Rightarrow> DB \<Rightarrow> Session \<Rightarrow> Version \<Rightarrow> bool" where
  "verified_upload rt env db db' s v \<longleftrightarrow>
     FindVersion (us_dataset s) (us_version s) db' = Inr v \<and> v_state v = ''AVAILABLE'' \<and> v_size v = Some (us_size s) \<and>
     (\<exists>content. ce_Get env = Inr content \<and> int (length content) = us_size s \<and> v_checksum v = Some (sha256_hex rt content)) \<and>
     (us_checksum s = None \<or> us_checksum s = v_checksum v) \<and>
     map pt_number (ListParts (us_id s) db) = [1..us_parts s] \<and> sum_list (map pt_size (ListParts (us_id s) db)) = us_size s"

lemma verified_upload_kept:
  assumes "verified_upload rt env db db' s v" "session_key s' = session_key s"
  shows "verified_upload rt env db db' s' v"
  using assms(1) unfolding verified_upload_def session_keyD [OF assms(2)] .

lemma verified_uploadI:
  assumes "completion_verdict rt jsonValid env s requested db1 = Verified bytes digest" "session_ok s"
    "db_parts db1 = db_parts db" "FindVersion (us_dataset s) (us_version s) db' = Inr v" "v_state v = ''AVAILABLE''"
    "v_size v = Some bytes" "v_checksum v = Some digest"
  shows "verified_upload rt env db db' s v"
  using assms(1,2)
proof (cases rule: completion_verdict_Verified)
  case (1 content parts)
  have "ListParts (us_id s) db1 = ListParts (us_id s) db" using assms(3) by (simp add: ListParts_def)
  then have "map pt_number (ListParts (us_id s) db) = [1..us_parts s]" "sum_list (map pt_size (ListParts (us_id s) db)) = us_size s"
    using registered_parts_fill [OF assms(2) 1(7,8)] by simp_all
  then show ?thesis using 1 assms(4-7) by (auto simp: verified_upload_def)
qed

text \<open>
  C17. What a completion of a multipart upload achieves, when no other transaction runs between
  its own. If it answers a version, the session is completed and the version is the verified upload
  of the session: available, with the size the session was opened for and the checksum of exactly
  the bytes in the object store, the registered parts numbered without gaps and adding up to the
  size. If it answers an error, it has published nothing, with one exception: when the context of
  the request ends between the publication and the marking of the session, the client gets the
  error of that call although the verified version, and no other, is published; the session is then
  still completing under the token of the operation, for the cleanup to reconcile.
\<close>

theorem complete_publishes_verified:
  assumes "Multipart_Service_Complete rt jsonValid errText c env token now prin sessionID requested db = (res, db')"
    "storage_ok rt' compiles db"
  shows "case res of
      Inr v \<Rightarrow> \<exists>s. row_find us_id sessionID (db_sessions db') = Some s \<and> us_state s = Completed \<and> verified_upload rt env db db' s v
    | Inl e \<Rightarrow>
        (\<forall>v \<in> set (db_versions db'). v_state v = ''AVAILABLE'' \<longrightarrow> v \<in> set (db_versions db)) \<or>
        (ce_Context env ''MarkCompleted'' = Some e \<and>
         (\<exists>s v. row_find us_id sessionID (db_sessions db') = Some s \<and> us_state s = Completing \<and> us_token s = Some token \<and>
            verified_upload rt env db db' s v \<and>
            (\<forall>u \<in> set (db_versions db'). v_state u = ''AVAILABLE'' \<longrightarrow> u = v \<or> u \<in> set (db_versions db))))"
proof -
  have ok: "sessions_ok (db_sessions db)" using assms(2) by (simp add: storage_ok_def)
  from assms(1) ok show ?thesis
  proof (cases rule: Complete_cases [where rt' = rt' and compiles = compiles])
    case (settled s db1)
    have ok1: "sessions_ok (db_sessions db1)" "versions_ok (db_versions db1)"
      using store.inv_step [OF assms(2) settled(7)] by (simp_all add: storage_ok_def)
    note session = settled(1) [folded settled(2)]
    show ?thesis
    proof (cases res)
      case (Inl e)
      from settled(8) [unfolded Inl] session settled(3,4) show ?thesis
      proof (cases rule: settle_fails)
        case unpublished
        then show ?thesis using Inl settled(6) by simp
      next
        case (unmarked bytes digest v)
        note v = FinalizeVersionForUpload_Inr [OF unmarked(3) ok1(2)]
        have "verified_upload rt env db db' s v"
          by (rule verified_uploadI [OF unmarked(2) settled(5)]) (use v settled(6) in \<open>simp_all add: FindVersion_def\<close>)
        then show ?thesis using Inl unmarked(1,4) settled v by auto
      qed
    next
      case (Inr v)
      from settled(8) [unfolded Inr] session ok1 show ?thesis
      proof (cases rule: settle_publishes)
        case (1 bytes digest s')
        have "verified_upload rt env db db' s v"
          by (rule verified_uploadI [OF 1(1) settled(5)]) (use 1 settled(6) in simp_all)
        then show ?thesis using 1(2-4) settled(2) Inr verified_upload_kept by auto
      qed
    qed
  qed simp
qed

definition sample_disconnected :: "Version result \<times> DB" where
  "sample_disconnected =
    Multipart_Service_Complete sample_runtime (\<lambda>_. True) (\<lambda>_. []) sample_multipart
      (sample_store_answers\<lparr>ce_Context := (\<lambda>name. if name = ''MarkCompleted'' then Some (ErrText ''context canceled'') else None)\<rparr>)
      14 400 sample_user 13 [\<lparr>cp_PartNumber = 1, cp_ETag = ''e''\<rparr>] sample_registered"

theorem complete_publishes_verified_witness:
  "(\<exists>v s. fst sample_complete = Inr v \<and> row_find us_id 13 (db_sessions (snd sample_complete)) = Some s \<and> us_state s = Completed \<and>
     v_size v = Some (int (length sample_content)) \<and> v_checksum v = Some (sha256_hex sample_runtime sample_content)) \<and>
   fst sample_disconnected = Inl (ErrText ''context canceled'') \<and> map v_state (db_versions (snd sample_disconnected)) = [''AVAILABLE'']"
proof -
  have "\<not> isl (fst sample_complete)" by code_simp
  then obtain v where v: "fst sample_complete = Inr v" by (cases "fst sample_complete") auto
  then have run: "Multipart_Service_Complete sample_runtime (\<lambda>_. True) (\<lambda>_. []) sample_multipart sample_store_answers 14 400
      sample_user 13 [\<lparr>cp_PartNumber = 1, cp_ETag = ''e''\<rparr>] sample_registered = (Inr v, snd sample_complete)"
    unfolding sample_complete_def by (metis prod.collapse)
  have content: "ce_Get sample_store_answers = Inr sample_content" by (simp add: sample_store_answers_def)
  have "fst sample_disconnected = Inl (ErrText ''context canceled'') \<and>
      map v_state (db_versions (snd sample_disconnected)) = [''AVAILABLE'']" by code_simp
  with complete_publishes_verified [OF run samples_stored(2) [of "\<lambda>_. True"]] show ?thesis
    using v content by (auto simp: verified_upload_def)
qed

section \<open>Parts and direct uploads\<close>

lemma RegisterPart_found:
  assumes "RegisterPart now clock sessionID n etag bytes db = Inr (p, db')"
  shows "FindPart sessionID n db' = Inr p \<and> pt_etag p = etag \<and> pt_size p = bytes \<and> db_sessions db' = db_sessions db"
  using assms by (auto simp: RegisterPart_def bindE_Inr Let_def split: if_splits)

lemma FindPart_listed: "FindPart sessionID n db = Inr p \<Longrightarrow> p \<in> set (ListParts sessionID db) \<and> pt_number p = n"
  by (auto simp: FindPart_def ListParts_def dest!: row_find_SomeD split: option.splits)

text \<open>
  C19. What is registered for a part of an upload is what is read back: the part is found and
  listed under its number with the normalised tag and the size the session expects. Registering
  it again with the same tag answers the same part and changes nothing, whatever the object store
  says by then, and registering another tag is refused as a conflict.
\<close>

theorem register_part_roundtrip:
  assumes "Multipart_Service_RegisterPart getPart now prin sessionID n etag bytes db = Inr (p, db')"
  shows "FindPart sessionID n db' = Inr p \<and> p \<in> set (ListParts sessionID db') \<and> pt_number p = n \<and> pt_size p = bytes \<and>
    normalizeETag etag = Inr (pt_etag p) \<and>
    Multipart_Service_RegisterPart getPart' now prin sessionID n etag bytes db' = Inr (p, db') \<and>
    (normalizeETag other = Inr tag \<and> tag \<noteq> pt_etag p \<longrightarrow>
      Multipart_Service_RegisterPart getPart' now prin sessionID n other bytes db' = Inl MultipartErrPartConflict)"
  using assms
proof (cases rule: Service_RegisterPart_Inr)
  case (1 s etag')
  have p: "FindPart sessionID n db' = Inr p" "pt_etag p = etag'" "pt_size p = bytes" "db_sessions db' = db_sessions db"
    using 1(5) RegisterPart_found by auto
  have "RequireScope prin ScopeDatasetsWrite = Inr ()"
    using assms by (auto simp: Multipart_Service_RegisterPart_def bindE_Inr)
  moreover have "authorizedSession prin sessionID ScopeDatasetsWrite db' = Inr s"
    using 1(1,2) p(4) by (simp add: authorizedSession_def FindSession_def)
  ultimately show ?thesis using 1(3,4) p FindPart_listed [OF p(1)]
    by (simp add: Multipart_Service_RegisterPart_def)
qed

theorem register_part_roundtrip_witness:
  "FindPart 13 1 sample_registered = Inr (returned (sample_register sample_open)) \<and>
   Multipart_Service_RegisterPart (\<lambda>_ _ _. Inl StorageErrMultipartPartNotFound) 300 sample_user 13 1 ''e'' 64 sample_registered =
     Inr (returned (sample_register sample_open), sample_registered)"
  using register_part_roundtrip [OF sample_register_ok [unfolded sample_register_def]] by (simp add: sample_register_def)

lemma upload_success:
  assumes "ReserveVersion now r db = Inr (v0, db1)" "FinalizeVersion now (vr_DatasetID r) (vr_ID r) actorID bytes digest db1 = Inr (v, db')"
  shows "v = make_available now bytes digest v0 \<and> db_versions db' = db_versions db @ [v] \<and> v_id v0 \<notin> v_id ` set (db_versions db) \<and>
    v_number v0 = next_version_number (vr_DatasetID r) db"
  using assms(1)
proof (cases rule: ReserveVersion_frame)
  case (1 d h)
  note keys = ReserveVersion_keys [OF assms(1)]
  have old: "v_id u \<noteq> v_id v0" if "u \<in> set (db_versions db)" for u using 1(5) that by (metis image_eqI)
  have find: "find_version (v_dataset v0) (v_id v0) db1 = Some v0"
    unfolding find_version_def by (subst 1(8)) (simp add: find_snoc old)
  from assms(2) [unfolded FinalizeVersion_def] show ?thesis
  proof (cases rule: finalizeVersion_frame)
    case same
    then show ?thesis using find keys 1(3) by simp
  next
    case (published u h')
    then have "u = v0" using find keys by simp
    moreover have "row_update v_id (v_id v0) (make_available now bytes digest) (db_versions db1) =
        db_versions db @ [make_available now bytes digest v0]"
      using old 1(8) by (auto simp: row_update_def intro!: map_idI)
    ultimately show ?thesis using published keys 1(5,7) by simp
  qed
qed

text \<open>
  C18. A direct upload either publishes a new version, with the next number of the dataset and the
  size and checksum of the bytes the object store took from the body, within the bound and equal
  to the declared length if there was one, and leaves every other version alone; or it fails.
  A failed upload never leaves a session or a part, and no version either as long as its cleanup
  can run. The cleanup runs under the context of the request: when the client has disconnected,
  the abort of the version fails too, and then the reserved version may stay, uploading for ever.
  (No other transaction runs between those of the upload.)
\<close>

theorem upload_version_effect:
  assumes "UploadVersion rt jsonValid ctx os maxBytes now versionID prin datasetID request db = (res, db')" "supplied db"
  shows "case res of
      Inr v \<Rightarrow> \<exists>stored rest. ur_Body request = Some (stored @ rest) \<and> db_versions db' = db_versions db @ [v] \<and> v_id v = versionID \<and>
        v_dataset v = datasetID \<and> v_number v = next_version_number datasetID db \<and> v_state v = ''AVAILABLE'' \<and>
        v_size v = Some (int (length stored)) \<and> v_checksum v = Some (sha256_hex rt stored) \<and> int (length stored) \<le> maxBytes \<and>
        (ur_ContentLength request \<ge> 0 \<longrightarrow> int (length stored) = ur_ContentLength request)
    | Inl e \<Rightarrow> db_sessions db' = db_sessions db \<and> db_parts db' = db_parts db \<and>
        (db_versions db' = db_versions db \<or>
         ctx ''AbortVersion'' \<noteq> None \<and>
           (\<exists>v. db_versions db' = db_versions db @ [v] \<and> v_id v = versionID \<and> v_dataset v = datasetID \<and> v_state v = ''UPLOADING''))"
  using assms(1)
proof (cases rule: UploadVersion_cases)
  case (uploaded r checksum v db1 bytes digest version)
  note prep = prepare_upload_Inr [OF uploaded(1)]
  have "FinalizeVersion now (vr_DatasetID r) (vr_ID r) (prin_UserID prin) bytes digest db1 = Inr (version, db')"
    using uploaded(4) prep by simp
  note done' = upload_success [OF uploaded(2) this] ReserveVersion_keys [OF uploaded(2)]
  from uploaded(3) show ?thesis
    by (rule store_stream_Inr) (use done' prep uploaded(5) in auto)
next
  case refused
  then show ?thesis by simp
next
  case (failed r v db1 e e')
  then show ?thesis using UploadVersion_fails [OF assms(1) [unfolded failed(6)] assms(2)] by simp
qed

definition sample_object_store :: ObjectStore where
  "sample_object_store = \<lparr>os_Put = (\<lambda>_ body _. Inr (int (length body), length body)), os_Head = (\<lambda>_. Inr 64), os_Delete = (\<lambda>_. Inr ())\<rparr>"

definition sample_upload_request :: UploadRequest where
  "sample_upload_request =
    \<lparr>ur_Filename = ''a.jsonl'', ur_ContentType = [], ur_ExpectedChecksum = [], ur_ContentLength = 64, ur_Body = Some sample_content,
      ur_ReadFails = False\<rparr>"

definition sample_upload :: "Version result \<times> DB" where
  "sample_upload =
    UploadVersion sample_runtime (\<lambda>_. True) (\<lambda>_. None) sample_object_store 100 200 12 sample_user 11 sample_upload_request sample_made"

text \<open>The client disconnects while the object is stored.\<close>

definition sample_broken_upload :: "Version result \<times> DB" where
  "sample_broken_upload =
    UploadVersion sample_runtime (\<lambda>_. True) (\<lambda>name. if name = ''ReserveVersion'' then None else Some (ErrText ''context canceled''))
      (sample_object_store\<lparr>os_Put := (\<lambda>_ _ _. Inl (ErrText ''context canceled''))\<rparr>) 100 200 12 sample_user 11 sample_upload_request
      sample_made"

lemma empty_supplied: "supplied empty_db"
  by (rule nothing_stored_supplied) (simp add: nothing_stored_def no_storage_def no_jobs_def empty_db_def)

lemma samples_supplied: "supplied sample_made" "supplied sample_open"
  using job_inputs.steps_inv [OF storage_run_plane empty_supplied] sample_made_run sample_open_run by blast+

theorem upload_version_effect_witness:
  "(\<exists>v. fst sample_upload = Inr v \<and> db_versions (snd sample_upload) = [v] \<and> v_number v = 1 \<and> v_size v = Some 64) \<and>
   isl (fst sample_broken_upload) \<and> map v_state (db_versions (snd sample_broken_upload)) = [''UPLOADING'']"
proof -
  have "\<not> isl (fst sample_upload)" by code_simp
  then obtain v where v: "fst sample_upload = Inr v" by (cases "fst sample_upload") auto
  then have run: "UploadVersion sample_runtime (\<lambda>_. True) (\<lambda>_. None) sample_object_store 100 200 12 sample_user 11 sample_upload_request
      sample_made = (Inr v, snd sample_upload)"
    unfolding sample_upload_def by (metis prod.collapse)
  have start: "db_versions sample_made = [] \<and> next_version_number 11 sample_made = 1 \<and> ur_ContentLength sample_upload_request = 64"
    by code_simp
  have "isl (fst sample_broken_upload) \<and> map v_state (db_versions (snd sample_broken_upload)) = [''UPLOADING'']" by code_simp
  with upload_version_effect [OF run samples_supplied(1)] show ?thesis using v start by auto
qed

lemma expire_uploads: "us_upload ` set (rows_update P (expire_session now) ss) \<subseteq> us_upload ` set ss"
  by (auto simp: rows_update_def expire_session_def)

lemma ClaimExpired_sessions:
  assumes "ClaimExpired now staleBefore limit db = Inr (claimed, db')" "s \<in> set claimed"
  shows "us_upload s \<in> us_upload ` set (db_sessions db)"
proof -
  let ?ids = "map us_id (take (nat limit)
      (sort_key (\<lambda>s. (us_expires s, us_id s)) (filter (claimable_session now staleBefore) (db_sessions db))))"
  have db': "db_sessions db' = rows_update (\<lambda>s. us_id s \<in> set ?ids) (expire_session now) (db_sessions db)"
    and all: "mapE (\<lambda>i. FindSession i db') ?ids = Inr claimed"
    using assms(1) by (auto simp: ClaimExpired_def Let_def bindE_Inr)
  from mapE_image [OF all assms(2)] obtain i where "FindSession i db' = Inr s" by blast
  then have "s \<in> set (db_sessions db')" by (auto simp: FindSession_def split: option.splits dest: row_find_SomeD)
  then have "us_upload s \<in> us_upload ` set (db_sessions db')" by (rule imageI)
  then show ?thesis unfolding db' by (rule subsetD [OF expire_uploads])
qed

text \<open>
  An initiation that fails, and whose compensation can delete the reserved version, leaves no
  session behind: the compensation deletes the reserved
  version first, and the session it then tries to store for the cleanup refers to that version.
  When the remote upload was opened and its abort failed, nothing in the database names it, so the
  cleanup of expired sessions never finds it.
\<close>

theorem orphan_upload_unrecorded:
  assumes "initiate_session rt c env now prin datasetID r request db = (Inl e, db')" "supplied db" "ie_Context env ''AbortVersion'' = None"
    "ie_Initiate env = Inr uploadID" "ie_Abort env = Inl abortErr" "uploadID \<notin> us_upload ` set (db_sessions db)"
  shows "db_sessions db' = db_sessions db \<and> db_versions db' = db_versions db \<and> uploadID \<notin> us_upload ` set (db_sessions db') \<and>
    (ClaimExpired later staleBefore limit db' = Inr (claimed, db'') \<longrightarrow> uploadID \<notin> us_upload ` set claimed)"
proof -
  have same: "db_sessions db' = db_sessions db" "db_versions db' = db_versions db"
    using initiate_fails [OF assms(1-3)] by simp_all
  have "us_upload s \<in> us_upload ` set (db_sessions db')" if "ClaimExpired later staleBefore limit db' = Inr (claimed, db'')" "s \<in> set claimed" for s
    using that ClaimExpired_sessions by blast
  then show ?thesis using same assms(6) by auto
qed

definition sample_losing :: InitiateEnv where
  "sample_losing = \<lparr>ie_Session = 15, ie_Version = 16, ie_Initiate = Inr ''other'', ie_Abort = Inl (ErrText ''timeout''),
     ie_Context = (\<lambda>_. None)\<rparr>"

definition sample_race :: "Session result \<times> DB" where
  "sample_race = initiate_session sample_runtime sample_multipart sample_losing 210 sample_user 11 sample_request
     (''a.jsonl'', ''application/octet-stream'', ''JSONL'', [], ''key'') sample_open"

text \<open>Two initiations with the same idempotency key, the second one losing the race to store its session.\<close>

theorem orphan_upload_unrecorded_witness:
  "isl (fst sample_race) \<and> ''other'' \<notin> us_upload ` set (db_sessions (snd sample_race))"
proof -
  have "isl (fst sample_race) \<and> list_all (\<lambda>s. us_upload s \<noteq> ''other'') (db_sessions sample_open)" by code_simp
  then obtain e where e: "fst sample_race = Inl e" "''other'' \<notin> us_upload ` set (db_sessions sample_open)"
    by (cases "fst sample_race") (fastforce simp: list_all_iff)+
  then have run: "initiate_session sample_runtime sample_multipart sample_losing 210 sample_user 11 sample_request
      (''a.jsonl'', ''application/octet-stream'', ''JSONL'', [], ''key'') sample_open = (Inl e, snd sample_race)"
    unfolding sample_race_def by (metis prod.collapse)
  have "ie_Context sample_losing ''AbortVersion'' = None" "ie_Initiate sample_losing = Inr ''other''" "ie_Abort sample_losing = Inl (ErrText ''timeout'')" by (simp_all add: sample_losing_def)
  from orphan_upload_unrecorded [OF run samples_supplied(2) this e(2)] show ?thesis using e by simp
qed

section \<open>Quality rules\<close>

text \<open>
  A rule on the number of rows can never be created: the validation accepts it only with no
  columns, for which it returns a nil slice, the driver sends NULL, and the column of the table
  does not admit it.
\<close>

theorem row_count_rule_never_created:
  assumes "qc_RuleType request = ''ROW_COUNT_BETWEEN''"
  shows "isl (Quality_Service_Create rt compiles True ruleID now prin request db)"
proof (rule ccontr)
  assume "\<not> ?thesis"
  then obtain q db' where "Quality_Service_Create rt compiles True ruleID now prin request db = Inr (q, db')"
    by (cases "Quality_Service_Create rt compiles True ruleID now prin request db") auto
  then obtain d0 d where def: "ValidateDefinition rt compiles d0 = Inr d" "qd_RuleType d0 = ''ROW_COUNT_BETWEEN''"
    and stored: "column_array True (qd_ColumnScope d) \<noteq> None"
    using assms by (fastforce simp: Quality_Service_Create_def bindE_Inr elim!: Quality_Create_frame)
  from def have "length (qd_ColumnScope d) = 0"
    by (auto simp: ValidateDefinition_def bindE_Inr Let_def validateConfiguration_def column_bounds_def split: if_splits sum.splits)
  then show False using stored by (simp add: column_array_def)
qed

definition sample_rule :: "string \<Rightarrow> string list \<Rightarrow> QualityCreateRequest" where
  "sample_rule ruleType columns =
    \<lparr>qc_DatasetID = 11, qc_Name = ''rows'', qc_ColumnScope = columns, qc_RuleType = ruleType,
     qc_Configuration = Some [(''min'', AnyFloat64 (Fin 1)), (''max'', AnyFloat64 (Fin 9))], qc_Severity = ''ERROR'', qc_Enabled = None\<rparr>"

text \<open>The same rule would be stored if a nil slice were an empty array, and a rule on a column is stored.\<close>

theorem row_count_rule_never_created_witness:
  "isl (Quality_Service_Create sample_runtime (\<lambda>_. True) True 17 300 sample_user (sample_rule ''ROW_COUNT_BETWEEN'' []) sample_made) \<and>
   \<not> isl (Quality_Service_Create sample_runtime (\<lambda>_. True) False 17 300 sample_user (sample_rule ''ROW_COUNT_BETWEEN'' []) sample_made) \<and>
   \<not> isl (Quality_Service_Create sample_runtime (\<lambda>_. True) True 17 300 sample_user (sample_rule ''BETWEEN'' [''c'']) sample_made)"
proof -
  have "\<not> isl (Quality_Service_Create sample_runtime (\<lambda>_. True) False 17 300 sample_user (sample_rule ''ROW_COUNT_BETWEEN'' []) sample_made)"
    "\<not> isl (Quality_Service_Create sample_runtime (\<lambda>_. True) True 17 300 sample_user (sample_rule ''BETWEEN'' [''c'']) sample_made)"
    by code_simp+
  moreover have "qc_RuleType (sample_rule ''ROW_COUNT_BETWEEN'' []) = ''ROW_COUNT_BETWEEN''" by (simp add: sample_rule_def)
  ultimately show ?thesis using row_count_rule_never_created by blast
qed

section \<open>What an upload may be called\<close>

lemma lower_char_not_upper: "\<not> is_upper (lower_char c)"
proof (cases "is_upper c")
  case True
  then have "65 \<le> (of_char c :: nat)" "(of_char c :: nat) \<le> 90" by (simp_all add: is_upper_def char_in_def)
  then show ?thesis using True by (simp add: lower_char_def is_upper_def char_in_def)
qed (simp add: lower_char_def)

lemma ToLower_not_upper: "c \<in> set (ToLower s) \<Longrightarrow> \<not> is_upper c"
proof -
  have "\<not> is_upper (CHR ''i'')" "\<not> is_upper (CHR ''k'')" by (simp_all add: is_upper_def char_in_def)
  then show "c \<in> set (ToLower s) \<Longrightarrow> \<not> is_upper c"
    by (induction s rule: ToLower.induct) (auto simp: lower_char_not_upper split: if_splits)
qed

lemma NormalizeChecksum_lower: "NormalizeChecksum value = Inr checksum \<Longrightarrow> lower_hex checksum"
proof -
  assume "NormalizeChecksum value = Inr checksum"
  then have hex: "checksum = ToLower (TrimSpace value)" "length checksum = 64" "list_all is_hex checksum"
    by (auto simp: NormalizeChecksum_def Let_def split: if_splits)
  have "is_digit c \<or> byte_in 97 102 c" if "c \<in> set checksum" for c
    using that hex(3) ToLower_not_upper [of c "TrimSpace value"] hex(1)
    by (auto simp: list_all_iff is_hex_def byte_in_def is_upper_def char_in_def)
  then show ?thesis using hex(2) by (simp add: lower_hex_def list_all_iff)
qed

lemma invalid_input_Inr: "invalid_input r = Inr x \<longleftrightarrow> r = Inr x"
  by (cases r) (simp_all add: invalid_input_def)

text \<open>
  C34. What a direct upload passes to the repository satisfies the constraints of its columns and
  is safe to use in a path: the file name is trimmed, of 1 to 255 bytes and free of separators,
  control characters and dot names, the format is one of the three and is the one that name and
  content type declare, and an expected checksum is 64 lower-case hexadecimal digits.
\<close>

theorem accepted_upload_metadata:
  assumes "prepare_upload rt jsonValid maxBytes versionID prin datasetID request db = Inr (r, checksum)"
  shows "vr_OriginalFilename r = TrimSpace (ur_Filename request) \<and> vr_OriginalFilename r \<notin> {[], ''.'', ''..''} \<and>
    length (vr_OriginalFilename r) \<le> 255 \<and>
    (\<forall>c \<in> set (vr_OriginalFilename r). c \<noteq> CHR ''/'' \<and> c \<noteq> CHR 0x5C \<and> 0x20 \<le> (of_char c :: nat) \<and> c \<noteq> CHR 0x7F) \<and>
    vr_Format r \<in> {FormatCSV, FormatJSONL, FormatParquet} \<and>
    DetectDeclaredFormat (vr_OriginalFilename r) (vr_ContentType r) = Inr (vr_Format r) \<and>
    (checksum = [] \<or> lower_hex checksum) \<and> ur_ContentLength request \<le> maxBytes"
proof -
  obtain name pre where name: "NormalizeFilename (ur_Filename request) = Inr name" and r: "vr_OriginalFilename r = name"
    and fmt: "DetectFormat jsonValid name (vr_ContentType r) pre = Inr (vr_Format r)"
    and sum': "normalizeExpectedChecksum (ur_ExpectedChecksum request) = Inr checksum" and len: "ur_ContentLength request \<le> maxBytes"
    using assms by (auto simp: prepare_upload_def bindE_Inr invalid_input_Inr Let_def not_less split: if_splits)
  have decl: "DetectDeclaredFormat name (vr_ContentType r) = Inr (vr_Format r)" using fmt by (auto simp: DetectFormat_def bindE_Inr)
  have "checksum = [] \<or> lower_hex checksum"
    using sum' NormalizeChecksum_lower by (auto simp: normalizeExpectedChecksum_def split: if_splits)
  then show ?thesis using NormalizeFilename_safe [OF name] r decl DetectDeclaredFormat_Inr [OF decl] len by auto
qed

theorem accepted_upload_metadata_witness:
  "\<exists>r checksum. prepare_upload sample_runtime (\<lambda>_. True) 100 12 sample_user 11 sample_upload_request sample_made = Inr (r, checksum) \<and>
     vr_OriginalFilename r = ''a.jsonl'' \<and> vr_Format r \<in> {FormatCSV, FormatJSONL, FormatParquet}"
proof -
  have ok: "\<not> isl (prepare_upload sample_runtime (\<lambda>_. True) 100 12 sample_user 11 sample_upload_request sample_made)" by code_simp
  have name: "TrimSpace (ur_Filename sample_upload_request) = ''a.jsonl''" by code_simp
  obtain r checksum where run: "prepare_upload sample_runtime (\<lambda>_. True) 100 12 sample_user 11 sample_upload_request sample_made = Inr (r, checksum)"
    using ok by (cases "prepare_upload sample_runtime (\<lambda>_. True) 100 12 sample_user 11 sample_upload_request sample_made") auto
  then show ?thesis using accepted_upload_metadata [OF run] name by auto
qed

end
