(* ===== verification/Credentials.thy ===== *)
theory Credentials
  imports Authz Uploads JobValidation
begin

text \<open>
  The secrets the control plane hands out and checks (\<open>internal/auth\<close>): password hashes, opaque
  refresh tokens, API keys and access tokens. Argon2, SHA-256, the JWT library, the lower-case
  tables and the address parser are functions of a record; base64 and the text of a password
  hash are modelled.
\<close>

section \<open>What the package calls\<close>

text \<open>
  \<open>lib_IDKey\<close> is \<open>argon2.IDKey\<close> with its arguments in order, \<open>lib_Sum256\<close> the SHA-256
  digest. \<open>lib_SignedString\<close> signs claims with a key under HS256; \<open>lib_ParseWithClaims\<close>
  answers for a key, a required issuer and the instant of the call with the claims of a token
  that parses and is valid. \<open>lib_NewNumericDate\<close> is the precision the library keeps of an
  instant. \<open>lib_ToLower\<close> is \<open>strings.ToLower\<close>, \<open>lib_LOWER\<close> the database's \<open>LOWER\<close>, and
  \<open>lib_ParseAddress\<close> gives the address that \<open>mail.ParseAddress\<close> finds in a text.
\<close>

record accessClaims =
  ac_TokenType :: string
  ac_Issuer :: string
  ac_Subject :: string
  ac_ID :: string
  ac_IssuedAt :: time
  ac_NotBefore :: time
  ac_ExpiresAt :: time

record Libraries = Runtime +
  lib_IDKey :: "string \<Rightarrow> string \<Rightarrow> nat \<Rightarrow> nat \<Rightarrow> nat \<Rightarrow> nat \<Rightarrow> string"
  lib_Sum256 :: "string \<Rightarrow> string"
  lib_SignedString :: "accessClaims \<Rightarrow> string \<Rightarrow> string result"
  lib_ParseWithClaims :: "string \<Rightarrow> string \<Rightarrow> time \<Rightarrow> string \<Rightarrow> accessClaims option"
  lib_NewNumericDate :: "time \<Rightarrow> time"
  lib_ToLower :: "string \<Rightarrow> string"
  lib_LOWER :: "string \<Rightarrow> string"
  lib_ParseAddress :: "string \<Rightarrow> string option"

text \<open>
  \<open>io.ReadFull\<close> on a reader, which is the bytes it would deliver, and
  \<open>subtle.ConstantTimeCompare\<close>.
\<close>

definition ReadFull :: "nat \<Rightarrow> string \<Rightarrow> string result" where
  "ReadFull n random = (if length random < n then Inl (ErrText ''unexpected EOF'') else Inr (take n random))"

definition ConstantTimeCompare :: "string \<Rightarrow> string \<Rightarrow> bool" where
  "ConstantTimeCompare a b \<longleftrightarrow> a = b"

section \<open>Base64 without padding\<close>

definition std_alphabet :: string where
  "std_alphabet = ''ABCDEFGHIJKLMNOPQRSTUVWXYZabcdefghijklmnopqrstuvwxyz0123456789+/''"

definition url_alphabet :: string where
  "url_alphabet = ''ABCDEFGHIJKLMNOPQRSTUVWXYZabcdefghijklmnopqrstuvwxyz0123456789-_''"

text \<open>Three bytes are four groups of six bits; what is left over fills its last group with zeros.\<close>

fun sextets :: "nat list \<Rightarrow> nat list" where
  "sextets (a # b # c # rest) =
     (a div 4) # ((a mod 4) * 16 + b div 16) # ((b mod 16) * 4 + c div 64) # (c mod 64) # sextets rest"
| "sextets [a, b] = [a div 4, (a mod 4) * 16 + b div 16, (b mod 16) * 4]"
| "sextets [a] = [a div 4, (a mod 4) * 16]"
| "sextets [] = []"

text \<open>The decoder ignores the bits left over, as Go's does unless it is strict.\<close>

fun octets :: "nat list \<Rightarrow> nat list option" where
  "octets (a # b # c # d # rest) =
     map_option (\<lambda>os. (a * 4 + b div 16) # ((b mod 16) * 16 + c div 4) # ((c mod 4) * 64 + d) # os) (octets rest)"
| "octets [a, b, c] = Some [a * 4 + b div 16, (b mod 16) * 16 + c div 4]"
| "octets [a, b] = Some [a * 4 + b div 16]"
| "octets [a] = None"
| "octets [] = Some []"

fun position :: "'a \<Rightarrow> 'a list \<Rightarrow> nat option" where
  "position x [] = None"
| "position x (y # ys) = (if x = y then Some 0 else map_option Suc (position x ys))"

definition EncodeToString :: "string \<Rightarrow> string \<Rightarrow> string" where
  "EncodeToString alphabet data = map (\<lambda>n. alphabet ! n) (sextets (map of_char data))"

text \<open>Line breaks in the text are skipped; every other byte must be of the alphabet.\<close>

definition DecodeString :: "string \<Rightarrow> string \<Rightarrow> string option" where
  "DecodeString alphabet text =
    (let digits = filter (\<lambda>c. c \<noteq> CHR 0x0D \<and> c \<noteq> CHR 0x0A) text
     in case those (map (\<lambda>c. position c alphabet) digits) of
          None \<Rightarrow> None
        | Some ns \<Rightarrow> map_option (map char_of) (octets ns))"

lemma position_nth: "distinct xs \<Longrightarrow> n < length xs \<Longrightarrow> position (xs ! n) xs = Some n"
proof (induction xs arbitrary: n)
  case (Cons x xs)
  then show ?case by (cases n) auto
qed simp

lemma octets_sextets: "list_all (\<lambda>n. n < 256) bs \<Longrightarrow> octets (sextets bs) = Some bs"
proof (induction bs rule: sextets.induct)
  case (1 a b c rest)
  then have "a < 256" "b < 256" "c < 256" by auto
  then have "((a mod 4) * 16 + b div 16) div 16 = a mod 4" "((a mod 4) * 16 + b div 16) mod 16 = b div 16"
    "((b mod 16) * 4 + c div 64) div 4 = b mod 16" "((b mod 16) * 4 + c div 64) mod 4 = c div 64"
    by auto
  then show ?case using 1 by (simp add: div_mult_mod_eq)
next
  case (2 a b)
  then have "((a mod 4) * 16 + b div 16) div 16 = a mod 4" "((a mod 4) * 16 + b div 16) mod 16 = b div 16"
    by auto
  then show ?case by (simp add: div_mult_mod_eq)
qed simp_all

lemma sextets_bound: "list_all (\<lambda>n. n < 256) bs \<Longrightarrow> list_all (\<lambda>n. n < 64) (sextets bs)"
  by (induction bs rule: sextets.induct) auto

lemma those_Some: "(\<And>x. x \<in> set xs \<Longrightarrow> f x = Some (g x)) \<Longrightarrow> those (map f xs) = Some (map g xs)"
  by (induction xs) auto

text \<open>Both encodings are one codec over an alphabet of sixty-four letters.\<close>

locale base64 =
  fixes alphabet :: string
  assumes letters: "length alphabet = 64" "distinct alphabet"
    and no_break: "CHR 0x0D \<notin> set alphabet" "CHR 0x0A \<notin> set alphabet"
begin

lemma encode_letters: "set (EncodeToString alphabet data) \<subseteq> set alphabet"
proof -
  have "list_all (\<lambda>n. n < 64) (sextets (map of_char data))"
    by (rule sextets_bound) (simp add: list_all_iff)
  then show ?thesis using letters by (auto simp: EncodeToString_def list_all_iff)
qed

lemma decode_encode: "DecodeString alphabet (EncodeToString alphabet data) = Some data"
proof -
  let ?bs = "map of_char data :: nat list"
  have bytes: "list_all (\<lambda>n. n < 256) ?bs" by (simp add: list_all_iff)
  then have "position (alphabet ! n) alphabet = Some n" if "n \<in> set (sextets ?bs)" for n
    using that sextets_bound [of ?bs] letters by (auto simp: list_all_iff position_nth)
  then have "those (map (\<lambda>c. position c alphabet) (EncodeToString alphabet data)) = Some (sextets ?bs)"
    using those_Some [of "sextets ?bs" "\<lambda>n. position (alphabet ! n) alphabet" "\<lambda>n. n"]
    by (simp add: EncodeToString_def comp_def)
  moreover have "filter (\<lambda>c. c \<noteq> CHR 0x0D \<and> c \<noteq> CHR 0x0A) (EncodeToString alphabet data) = EncodeToString alphabet data"
    using encode_letters [of data] no_break by (auto simp: filter_id_conv)
  ultimately show ?thesis using octets_sextets [OF bytes] by (simp add: DecodeString_def comp_def)
qed

end

interpretation std64: base64 std_alphabet
  by unfold_locales (simp_all add: std_alphabet_def)

interpretation url64: base64 url_alphabet
  by unfold_locales (simp_all add: url_alphabet_def)

section \<open>Passwords\<close>

abbreviation passwordMemory :: nat where "passwordMemory \<equiv> 65536"
abbreviation passwordIterations :: nat where "passwordIterations \<equiv> 3"
abbreviation passwordParallelism :: nat where "passwordParallelism \<equiv> 2"
abbreviation passwordSaltLength :: nat where "passwordSaltLength \<equiv> 16"
abbreviation passwordKeyLength :: nat where "passwordKeyLength \<equiv> 32"
abbreviation minimumPasswordSize :: nat where "minimumPasswordSize \<equiv> 12"
abbreviation maximumPasswordSize :: nat where "maximumPasswordSize \<equiv> 1024"

definition ValidatePassword :: "string \<Rightarrow> unit result" where
  "ValidatePassword password =
    (if \<not> utf8_Valid password then Inl (ErrText ''password must be valid UTF-8'')
     else if length password < minimumPasswordSize \<or> length password > maximumPasswordSize
     then Inl (ErrText ''password must be between 12 and 1024 bytes'')
     else Inr ())"

record passwordParameters =
  pp_memory :: nat
  pp_iterations :: nat
  pp_parallelism :: nat
  pp_keyLength :: nat

definition formatPasswordHash :: "string \<Rightarrow> string \<Rightarrow> string" where
  "formatPasswordHash salt key =
    ''argon2id$v=19$m='' @ nat_text passwordMemory @ '',t='' @ nat_text passwordIterations @ '',p='' @
    nat_text passwordParallelism @ ''$'' @ EncodeToString std_alphabet salt @ ''$'' @ EncodeToString std_alphabet key"

text \<open>\<open>strings.Split\<close> and \<open>strings.Cut\<close> for a separator of one byte, \<open>strconv.ParseUint\<close> in base ten and \<open>strconv.ParseBool\<close>.\<close>

fun strings_Split :: "char \<Rightarrow> string \<Rightarrow> string list" where
  "strings_Split sep [] = [[]]"
| "strings_Split sep (c # cs) =
    (if c = sep then [] # strings_Split sep cs
     else case strings_Split sep cs of p # ps \<Rightarrow> (c # p) # ps | [] \<Rightarrow> [[c]])"

definition strings_Cut :: "char \<Rightarrow> string \<Rightarrow> (string \<times> string) option" where
  "strings_Cut sep s =
    (case dropWhile (\<lambda>c. c \<noteq> sep) s of
       [] \<Rightarrow> None
     | _ # after \<Rightarrow> Some (takeWhile (\<lambda>c. c \<noteq> sep) s, after))"

definition ParseUint :: "nat \<Rightarrow> string \<Rightarrow> nat option" where
  "ParseUint bits raw =
    (if raw = [] \<or> \<not> list_all is_digit raw then None
     else let value = foldl (\<lambda>n c. n * 10 + (of_char c - 48)) 0 raw
          in if value < 2 ^ bits then Some value else None)"

definition ParseBool :: "string \<Rightarrow> bool option" where
  "ParseBool v =
    (if v \<in> set [''1'', ''t'', ''T'', ''TRUE'', ''true'', ''True''] then Some True
     else if v \<in> set [''0'', ''f'', ''F'', ''FALSE'', ''false'', ''False''] then Some False
     else None)"

text \<open>The loop over the cost parameters; the map keeps the last value of a key.\<close>

fun cost_fields :: "(string \<Rightarrow> nat option) \<Rightarrow> string list \<Rightarrow> (string \<Rightarrow> nat option) option" where
  "cost_fields values [] = Some values"
| "cost_fields values (field # rest) =
    (case strings_Cut (CHR ''='') field of
       None \<Rightarrow> None
     | Some (key, raw) \<Rightarrow>
         if key = [] then None
         else case ParseUint 32 raw of
             None \<Rightarrow> None
           | Some value \<Rightarrow> cost_fields (values(key \<mapsto> value)) rest)"

definition costs_in_bounds :: "nat \<Rightarrow> nat \<Rightarrow> nat \<Rightarrow> bool" where
  "costs_in_bounds memory iterations parallelism \<longleftrightarrow>
     \<not> (memory < 8 * parallelism \<or> memory > 512 * 1024 \<or> iterations = 0 \<or> iterations > 10 \<or> parallelism = 0 \<or>
        parallelism > 16)"

definition parsePasswordHash :: "string \<Rightarrow> (passwordParameters \<times> string \<times> string) option" where
  "parsePasswordHash encoded =
    (case strings_Split (CHR ''$'') encoded of
       [algorithm, version, costs, encodedSalt, encodedKey] \<Rightarrow>
         if algorithm \<noteq> ''argon2id'' \<or> version \<noteq> ''v=19'' then None
         else
           (case cost_fields (\<lambda>_. None) (strings_Split (CHR '','') costs) of
              None \<Rightarrow> None
            | Some values \<Rightarrow>
                (case (values ''m'', values ''t'', values ''p'') of
                   (Some memory, Some iterations, Some parallelism) \<Rightarrow>
                     if \<not> costs_in_bounds memory iterations parallelism then None
                     else
                       (case DecodeString std_alphabet encodedSalt of
                          None \<Rightarrow> None
                        | Some salt \<Rightarrow>
                            if length salt < 8 \<or> length salt > 64 then None
                            else
                              (case DecodeString std_alphabet encodedKey of
                                 None \<Rightarrow> None
                               | Some key \<Rightarrow>
                                   if length key < 16 \<or> length key > 64 then None
                                   else Some (\<lparr>pp_memory = memory, pp_iterations = iterations,
                                     pp_parallelism = parallelism, pp_keyLength = length key\<rparr>, salt, key)))
                 | _ \<Rightarrow> None))
     | _ \<Rightarrow> None)"

definition Hash :: "Libraries \<Rightarrow> string \<Rightarrow> string \<Rightarrow> string result" where
  "Hash lib random password =
    bindE (ValidatePassword password) (\<lambda>_.
    bindE (ReadFull passwordSaltLength random) (\<lambda>salt.
    let key = lib_IDKey lib salt password passwordIterations passwordMemory passwordParallelism passwordKeyLength
    in Inr (formatPasswordHash salt key)))"

definition VerifyPassword :: "Libraries \<Rightarrow> string \<Rightarrow> string \<Rightarrow> bool result" where
  "VerifyPassword lib encoded password =
    bindE (ValidatePassword password) (\<lambda>_.
    case parsePasswordHash encoded of
      None \<Rightarrow> Inl AuthErrInvalidPasswordHash
    | Some (parameters, salt, expected) \<Rightarrow>
        let actual = lib_IDKey lib salt password (pp_iterations parameters) (pp_memory parameters)
              (pp_parallelism parameters) (pp_keyLength parameters)
        in Inr (ConstantTimeCompare actual expected))"

lemma Split_none: "sep \<notin> set xs \<Longrightarrow> strings_Split sep xs = [xs]"
  by (induction xs) auto

lemma Split_sep: "sep \<notin> set xs \<Longrightarrow> strings_Split sep (xs @ sep # ys) = xs # strings_Split sep ys"
  by (induction xs) auto

lemma costs_text:
  "nat_text passwordMemory = ''65536''" "nat_text passwordIterations = ''3''" "nat_text passwordParallelism = ''2''"
  by (simp_all add: nat_text.simps char_of_def bit_iff_odd)

lemma formatted_costs:
  "cost_fields (\<lambda>_. None) (strings_Split (CHR '','') ''m=65536,t=3,p=2'') =
   Some [''m'' \<mapsto> 65536, ''t'' \<mapsto> 3, ''p'' \<mapsto> 2]"
  by (simp add: strings_Cut_def ParseUint_def is_digit_def char_in_def of_char_def)

text \<open>A hash in the written form parses to its parts.\<close>

lemma parse_format:
  assumes "8 \<le> length salt" "length salt \<le> 64" "16 \<le> length key" "length key \<le> 64"
  shows "parsePasswordHash (formatPasswordHash salt key) =
    Some (\<lparr>pp_memory = passwordMemory, pp_iterations = passwordIterations, pp_parallelism = passwordParallelism,
      pp_keyLength = length key\<rparr>, salt, key)"
proof -
  let ?sep = "CHR ''$''" and ?e = "EncodeToString std_alphabet"
  have "?sep \<notin> set std_alphabet" by (simp add: std_alphabet_def)
  then have out: "?sep \<notin> set (?e data)" for data using std64.encode_letters [of data] by blast
  have "formatPasswordHash salt key = ''argon2id'' @ ?sep # ''v=19'' @ ?sep # ''m=65536,t=3,p=2'' @ ?sep # ?e salt @ ?sep # ?e key"
    by (simp add: formatPasswordHash_def costs_text)
  moreover have "?sep \<notin> set ''argon2id''" "?sep \<notin> set ''v=19''" "?sep \<notin> set ''m=65536,t=3,p=2''" by simp_all
  ultimately have "strings_Split ?sep (formatPasswordHash salt key) =
      [''argon2id'', ''v=19'', ''m=65536,t=3,p=2'', ?e salt, ?e key]"
    by (simp only: Split_sep Split_none out not_False_eq_True)
  then show ?thesis using assms
    by (simp add: parsePasswordHash_def formatted_costs std64.decode_encode costs_in_bounds_def
      del: strings_Split.simps cost_fields.simps)
qed

lemma parse_bounds:
  "parsePasswordHash encoded = Some (pp, salt, key) \<Longrightarrow>
   costs_in_bounds (pp_memory pp) (pp_iterations pp) (pp_parallelism pp) \<and> pp_keyLength pp = length key \<and>
   8 \<le> length salt \<and> length salt \<le> 64 \<and> 16 \<le> length key \<and> length key \<le> 64"
  by (auto simp: parsePasswordHash_def split: list.splits option.splits prod.splits if_splits)

text \<open>
  What the password check decides. The only law it needs is that Argon2 returns as many bytes as it
  is asked for.
\<close>

definition key_lengths :: "Libraries \<Rightarrow> bool" where
  "key_lengths lib \<longleftrightarrow> (\<forall>password salt t m p n. length (lib_IDKey lib password salt t m p n) = n)"

definition derive :: "Libraries \<Rightarrow> string \<Rightarrow> string \<Rightarrow> string" where
  "derive lib salt password =
     lib_IDKey lib salt password passwordIterations passwordMemory passwordParallelism passwordKeyLength"

lemma Hash_Inr:
  "Hash lib random password = Inr encoded \<longleftrightarrow>
   ValidatePassword password = Inr () \<and> 16 \<le> length random \<and>
   encoded = formatPasswordHash (take 16 random) (derive lib (take 16 random) password)"
  by (auto simp: Hash_def ReadFull_def derive_def Let_def bindE_Inr)

lemma verify_hash:
  assumes "key_lengths lib" "Hash lib random password = Inr encoded"
  shows "VerifyPassword lib encoded candidate =
    bindE (ValidatePassword candidate) (\<lambda>_. Inr (derive lib (take 16 random) candidate = derive lib (take 16 random) password))"
proof -
  have "length (derive lib (take 16 random) password) = 32" using assms(1) by (simp add: key_lengths_def derive_def)
  then show ?thesis using assms(2) parse_format [of "take 16 random" "derive lib (take 16 random) password"]
    by (auto simp: Hash_Inr VerifyPassword_def ConstantTimeCompare_def derive_def)
qed

section \<open>Opaque tokens and API keys\<close>

abbreviation opaqueTokenBytes :: nat where "opaqueTokenBytes \<equiv> 32"
abbreviation apiKeyPrefix :: string where "apiKeyPrefix \<equiv> ''pfk_''"
abbreviation apiKeyPrefixSize :: nat where "apiKeyPrefixSize \<equiv> 12"

definition randomURLValue :: "nat \<Rightarrow> string \<Rightarrow> string result" where
  "randomURLValue n random = bindE (ReadFull n random) (\<lambda>buffer. Inr (EncodeToString url_alphabet buffer))"

definition HashOpaqueToken :: "Libraries \<Rightarrow> string \<Rightarrow> string" where
  "HashOpaqueToken lib value = lib_Sum256 lib value"

definition NewOpaqueToken :: "Libraries \<Rightarrow> string \<Rightarrow> (string \<times> string) result" where
  "NewOpaqueToken lib random =
    bindE (randomURLValue opaqueTokenBytes random) (\<lambda>value. Inr (value, HashOpaqueToken lib value))"

definition APIKeyPrefix :: "string \<Rightarrow> string option" where
  "APIKeyPrefix value =
    (if \<not> HasPrefix value apiKeyPrefix \<or> length value < apiKeyPrefixSize then None
     else Some (take apiKeyPrefixSize value))"

definition NewAPIKey :: "Libraries \<Rightarrow> string \<Rightarrow> (string \<times> string \<times> string) result" where
  "NewAPIKey lib random =
    bindE (randomURLValue opaqueTokenBytes random) (\<lambda>randomValue.
    let value = apiKeyPrefix @ randomValue
    in case APIKeyPrefix value of
         None \<Rightarrow> Inl AuthErrInvalidOpaqueToken
       | Some prefix \<Rightarrow> Inr (value, prefix, HashOpaqueToken lib value))"

lemma APIKeyPrefix_take: "APIKeyPrefix s = Some p \<Longrightarrow> take (length p) s = p \<and> length p = 12"
  by (auto simp: APIKeyPrefix_def split: if_splits)

lemma length_sextets: "length (sextets bs) = (4 * length bs + 2) div 3"
  by (induction bs rule: sextets.induct) auto

text \<open>A new key always has its prefix, so the guard in \<open>NewAPIKey\<close> never fires.\<close>

lemma NewAPIKey_Inr:
  "NewAPIKey lib random = Inr (value, prefix, hash) \<longleftrightarrow>
   32 \<le> length random \<and> value = apiKeyPrefix @ EncodeToString url_alphabet (take 32 random) \<and>
   prefix = take 12 value \<and> hash = HashOpaqueToken lib value \<and> APIKeyPrefix value = Some prefix"
  by (auto simp: NewAPIKey_def randomURLValue_def ReadFull_def APIKeyPrefix_def HasPrefix_def Let_def bindE_Inr
      EncodeToString_def length_sextets)

lemma NewOpaqueToken_Inr:
  "NewOpaqueToken lib random = Inr (value, hash) \<longleftrightarrow>
   32 \<le> length random \<and> value = EncodeToString url_alphabet (take 32 random) \<and> hash = HashOpaqueToken lib value"
  by (auto simp: NewOpaqueToken_def randomURLValue_def ReadFull_def bindE_Inr)

section \<open>Access tokens\<close>

abbreviation AccessTokenIssuer :: string where "AccessTokenIssuer \<equiv> ''pipeforge-api''"

record AccessTokenService =
  at_SigningKey :: string
  at_Issuer :: string
  at_TTL :: duration

definition NewAccessTokenService :: "string \<Rightarrow> duration \<Rightarrow> AccessTokenService" where
  "NewAccessTokenService signingKey ttl =
    \<lparr>at_SigningKey = signingKey, at_Issuer = AccessTokenIssuer, at_TTL = ttl\<rparr>"

text \<open>The clock of the service and the identifier of the token are arguments.\<close>

definition Issue :: "Libraries \<Rightarrow> AccessTokenService \<Rightarrow> time \<Rightarrow> uuid \<Rightarrow> uuid \<Rightarrow> (string \<times> time) result" where
  "Issue lib s now jti userID =
    (if userID = uuid_Nil \<or> length (at_SigningKey s) < 32 \<or> at_TTL s \<le> 0 then Inl AuthErrInvalidAccessToken
     else
       (let expiresAt = now + at_TTL s;
            claims = \<lparr>ac_TokenType = ''access'', ac_Issuer = at_Issuer s, ac_Subject = uuid_String lib userID,
              ac_ID = uuid_String lib jti, ac_IssuedAt = lib_NewNumericDate lib now,
              ac_NotBefore = lib_NewNumericDate lib now, ac_ExpiresAt = lib_NewNumericDate lib expiresAt\<rparr>
        in bindE (lib_SignedString lib claims (at_SigningKey s)) (\<lambda>serialized. Inr (serialized, expiresAt))))"

definition Parse :: "Libraries \<Rightarrow> AccessTokenService \<Rightarrow> time \<Rightarrow> string \<Rightarrow> uuid result" where
  "Parse lib s now serialized =
    (if serialized = [] \<or> length (at_SigningKey s) < 32 \<or> at_Issuer s = [] then Inl AuthErrInvalidAccessToken
     else
       (case lib_ParseWithClaims lib (at_SigningKey s) (at_Issuer s) now serialized of
          None \<Rightarrow> Inl AuthErrInvalidAccessToken
        | Some claims \<Rightarrow>
            if ac_TokenType claims \<noteq> ''access'' then Inl AuthErrInvalidAccessToken
            else
              (case uuid_Parse lib (ac_Subject claims) of
                 None \<Rightarrow> Inl AuthErrInvalidAccessToken
               | Some userID \<Rightarrow> if userID = uuid_Nil then Inl AuthErrInvalidAccessToken else Inr userID)))"

text \<open>
  What the JWT library documents: a token that was signed parses under the same key to its claims
  while it is valid, and not otherwise; a token is never empty. An instant is kept to the second.
\<close>

definition jwt_laws :: "Libraries \<Rightarrow> bool" where
  "jwt_laws lib \<longleftrightarrow>
     (\<forall>key claims text issuer now. lib_SignedString lib claims key = Inr text \<longrightarrow>
        text \<noteq> [] \<and>
        lib_ParseWithClaims lib key issuer now text =
          (if ac_Issuer claims = issuer \<and> ac_NotBefore claims \<le> now \<and> now < ac_ExpiresAt claims then Some claims else None)) \<and>
     (\<forall>t. lib_NewNumericDate lib t \<le> t \<and> t - Second < lib_NewNumericDate lib t) \<and>
     (\<forall>u. uuid_Parse lib (uuid_String lib u) = Some u)"

text \<open>An issued token names its user until its lifetime is over, up to the second that is cut off.\<close>

lemma Issue_Parse:
  assumes "jwt_laws lib" "Issue lib s now jti userID = Inr (serialized, expiresAt)" "at_Issuer s \<noteq> []"
  shows "expiresAt = now + at_TTL s \<and>
    (now \<le> t \<and> t \<le> expiresAt - Second \<longrightarrow> Parse lib s t serialized = Inr userID) \<and>
    (expiresAt \<le> t \<longrightarrow> Parse lib s t serialized = Inl AuthErrInvalidAccessToken)"
proof -
  define claims where "claims = \<lparr>ac_TokenType = ''access'', ac_Issuer = at_Issuer s, ac_Subject = uuid_String lib userID,
    ac_ID = uuid_String lib jti, ac_IssuedAt = lib_NewNumericDate lib now,
    ac_NotBefore = lib_NewNumericDate lib now, ac_ExpiresAt = lib_NewNumericDate lib expiresAt\<rparr>"
  have issued: "userID \<noteq> uuid_Nil" "\<not> length (at_SigningKey s) < 32" "expiresAt = now + at_TTL s"
      "lib_SignedString lib claims (at_SigningKey s) = Inr serialized"
    using assms(2) by (auto simp: Issue_def Let_def bindE_Inr claims_def split: if_splits)
  have "serialized \<noteq> []" and parses: "lib_ParseWithClaims lib (at_SigningKey s) (at_Issuer s) t serialized =
      (if lib_NewNumericDate lib now \<le> t \<and> t < lib_NewNumericDate lib expiresAt then Some claims else None)"
    using assms(1) issued(4) unfolding jwt_laws_def by (fastforce simp: claims_def)+
  moreover have "lib_NewNumericDate lib now \<le> now" "lib_NewNumericDate lib expiresAt \<le> expiresAt"
      "expiresAt - Second < lib_NewNumericDate lib expiresAt" "uuid_Parse lib (uuid_String lib userID) = Some userID"
    using assms(1) by (simp_all add: jwt_laws_def)
  ultimately show ?thesis using issued assms(3) by (auto simp: Parse_def claims_def)
qed

end
