(* ===== verification/Identity.thy ===== *)
theory Identity
  imports Credentials Transition Quality
begin

text \<open>
  Users, refresh-token families and tokens, API keys and the audit trail: the repository
  (\<open>internal/identity/repository_*.go\<close> with the tables of \<open>migrations/000002_identity.sql\<close>) and
  the service on top of it (\<open>service.go\<close>, \<open>service_keys.go\<close>, \<open>validation.go\<close>).
\<close>

section \<open>Tables\<close>

record UserRow =
  usr_id :: uuid
  usr_email :: string
  usr_hash :: string
  usr_role :: Role
  usr_disabled :: "time option"
  usr_created :: time
  usr_updated :: time

record ScopeRow =
  scp_user :: uuid
  scp_scope :: string
  scp_created :: time

record FamilyRow =
  fam_id :: uuid
  fam_user :: uuid
  fam_created :: time
  fam_revoked :: "time option"
  fam_reason :: "string option"

record TokenRow =
  tok_id :: uuid
  tok_family :: uuid
  tok_hash :: string
  tok_issued :: time
  tok_expires :: time
  tok_used :: "time option"
  tok_revoked :: "time option"

record KeyRow =
  key_id :: uuid
  key_user :: uuid
  key_name :: string
  key_prefix :: string
  key_hash :: string
  key_scopes :: "string list"
  key_created :: time
  key_used :: "time option"
  key_revoked :: "time option"

record AuditRow =
  aud_actor :: "uuid option"
  aud_action :: string
  aud_resource_type :: "string option"
  aud_resource_id :: "string option"
  aud_request :: "string option"
  aud_metadata :: json
  aud_created :: time

record IdentityDB =
  id_users :: "UserRow list"
  id_scopes :: "ScopeRow list"
  id_families :: "FamilyRow list"
  id_tokens :: "TokenRow list"
  id_keys :: "KeyRow list"
  id_audit :: "AuditRow list"

section \<open>Values\<close>

record User =
  user_ID :: uuid
  user_Email :: string
  user_PasswordHash :: string
  user_Role :: Role
  user_Scopes :: "string list"
  user_DisabledAt :: "time option"
  user_CreatedAt :: time
  user_UpdatedAt :: time

record APIKey =
  ak_ID :: uuid
  ak_Name :: string
  ak_Prefix :: string
  ak_Scopes :: "string list"
  ak_CreatedAt :: time
  ak_LastUsedAt :: "time option"
  ak_RevokedAt :: "time option"

record APIKeyAuthentication =
  aa_Key :: APIKey
  aa_User :: User
  aa_Scopes :: "string list"

record TokenPair =
  tp_AccessToken :: string
  tp_RefreshToken :: string
  tp_AccessTokenExpiry :: time

text \<open>The metadata of an event is a map; \<open>nil\<close> is \<open>None\<close> and becomes the JSON value null.\<close>

record AuditEvent =
  ae_ActorUserID :: "uuid option"
  ae_Action :: string
  ae_ResourceType :: string
  ae_ResourceID :: string
  ae_RequestID :: string
  ae_Metadata :: "(string \<times> json) list option"

section \<open>Repository: users\<close>

text \<open>\<open>userSelect\<close>: a user with the scopes of the joined table, in the order of its rows.\<close>

definition scopes_of :: "uuid \<Rightarrow> IdentityDB \<Rightarrow> string list" where
  "scopes_of userID db = map scp_scope (filter (\<lambda>r. scp_user r = userID) (id_scopes db))"

definition scanUser :: "IdentityDB \<Rightarrow> UserRow \<Rightarrow> User" where
  "scanUser db r =
    \<lparr>user_ID = usr_id r, user_Email = usr_email r, user_PasswordHash = usr_hash r, user_Role = usr_role r,
     user_Scopes = scopes_of (usr_id r) db, user_DisabledAt = usr_disabled r, user_CreatedAt = usr_created r,
     user_UpdatedAt = usr_updated r\<rparr>"

definition FindUserByEmail :: "string \<Rightarrow> IdentityDB \<Rightarrow> User result" where
  "FindUserByEmail email db =
    (case row_find usr_email email (id_users db) of None \<Rightarrow> Inl IdentityErrUserNotFound | Some r \<Rightarrow> Inr (scanUser db r))"

definition FindUserByID :: "uuid \<Rightarrow> IdentityDB \<Rightarrow> User result" where
  "FindUserByID userID db =
    (case row_find usr_id userID (id_users db) of None \<Rightarrow> Inl IdentityErrUserNotFound | Some r \<Rightarrow> Inr (scanUser db r))"

text \<open>\<open>INSERT INTO user_scopes ... ON CONFLICT DO NOTHING\<close>, for each scope.\<close>

fun insert_scopes :: "time \<Rightarrow> uuid \<Rightarrow> string list \<Rightarrow> ScopeRow list \<Rightarrow> ScopeRow list" where
  "insert_scopes now userID [] rows = rows"
| "insert_scopes now userID (scope # rest) rows =
    insert_scopes now userID rest
      (if (userID, scope) \<in> set (map (\<lambda>r. (scp_user r, scp_scope r)) rows) then rows
       else rows @ [\<lparr>scp_user = userID, scp_scope = scope, scp_created = now\<rparr>])"

text \<open>
  \<open>lower\<close> is the database's \<open>LOWER\<close>, which the table checks the address against. A duplicate
  identifier violates a unique index like a duplicate address does.
\<close>

definition CreateUser ::
  "(string \<Rightarrow> string) \<Rightarrow> uuid \<Rightarrow> time \<Rightarrow> string \<Rightarrow> string \<Rightarrow> Role \<Rightarrow> string list \<Rightarrow> IdentityDB \<Rightarrow> (User \<times> IdentityDB) result" where
  "CreateUser lower userID now email passwordHash role scopes db =
    (if role \<noteq> RoleAdmin \<and> role \<noteq> RoleUser \<and> role \<noteq> RoleService then Inl (ErrText ''invalid user role'')
     else if email \<noteq> lower email then Inl (ErrDatabase ''insert user'')
     else if userID \<in> usr_id ` set (id_users db) \<or> email \<in> usr_email ` set (id_users db)
     then Inl IdentityErrEmailAlreadyExists
     else Inr
       (\<lparr>user_ID = userID, user_Email = email, user_PasswordHash = passwordHash, user_Role = role,
         user_Scopes = scopes, user_DisabledAt = None, user_CreatedAt = 0, user_UpdatedAt = 0\<rparr>,
        db\<lparr>id_users := id_users db @ [\<lparr>usr_id = userID, usr_email = email, usr_hash = passwordHash, usr_role = role,
             usr_disabled = None, usr_created = now, usr_updated = now\<rparr>],
           id_scopes := insert_scopes now userID scopes (id_scopes db)\<rparr>))"

section \<open>Repository: refresh tokens\<close>

definition new_token :: "time \<Rightarrow> uuid \<Rightarrow> uuid \<Rightarrow> string \<Rightarrow> time \<Rightarrow> TokenRow" where
  "new_token now tokenID familyID tokenHash expiresAt =
    \<lparr>tok_id = tokenID, tok_family = familyID, tok_hash = tokenHash, tok_issued = now, tok_expires = expiresAt,
     tok_used = None, tok_revoked = None\<rparr>"

definition new_family :: "time \<Rightarrow> uuid \<Rightarrow> uuid \<Rightarrow> FamilyRow" where
  "new_family now familyID userID =
    \<lparr>fam_id = familyID, fam_user = userID, fam_created = now, fam_revoked = None, fam_reason = None\<rparr>"

definition insert_refresh_token :: "time \<Rightarrow> uuid \<Rightarrow> uuid \<Rightarrow> string \<Rightarrow> time \<Rightarrow> IdentityDB \<Rightarrow> IdentityDB result" where
  "insert_refresh_token now tokenID familyID tokenHash expiresAt db =
    (if tokenID \<in> tok_id ` set (id_tokens db) \<or> tokenHash \<in> tok_hash ` set (id_tokens db) \<or>
        familyID \<notin> fam_id ` set (id_families db)
     then Inl (ErrDatabase ''insert refresh token'')
     else Inr (db\<lparr>id_tokens := id_tokens db @ [new_token now tokenID familyID tokenHash expiresAt]\<rparr>))"

definition CreateRefreshSession ::
  "time \<Rightarrow> uuid \<Rightarrow> uuid \<Rightarrow> uuid \<Rightarrow> string \<Rightarrow> time \<Rightarrow> IdentityDB \<Rightarrow> (unit \<times> IdentityDB) result" where
  "CreateRefreshSession now userID familyID tokenID tokenHash expiresAt db =
    (if familyID \<in> fam_id ` set (id_families db) \<or> userID \<notin> usr_id ` set (id_users db)
     then Inl (ErrDatabase ''insert refresh token family'')
     else
       bindE (insert_refresh_token now tokenID familyID tokenHash expiresAt
         (db\<lparr>id_families := id_families db @ [new_family now familyID userID]\<rparr>)) (\<lambda>db'. Inr ((), db')))"

text \<open>\<open>SET revoked_at = COALESCE(revoked_at, NOW()), revoke_reason = COALESCE(revoke_reason, reason)\<close>.\<close>

definition revoke_family :: "time \<Rightarrow> string \<Rightarrow> uuid \<Rightarrow> IdentityDB \<Rightarrow> IdentityDB" where
  "revoke_family now reason familyID db =
    db\<lparr>id_families := row_update fam_id familyID
      (\<lambda>f. f\<lparr>fam_revoked := Some (coalesce (fam_revoked f) now), fam_reason := Some (coalesce (fam_reason f) reason)\<rparr>) (id_families db)\<rparr>"

text \<open>The statements of a rotation that is accepted: consume the token and insert its successor.\<close>

definition rotate_token ::
  "time \<Rightarrow> TokenRow \<Rightarrow> uuid \<Rightarrow> string \<Rightarrow> time \<Rightarrow> IdentityDB \<Rightarrow> IdentityDB result" where
  "rotate_token now t newTokenID newTokenHash expiresAt db =
    insert_refresh_token now newTokenID (tok_family t) newTokenHash expiresAt
      (db\<lparr>id_tokens := row_update tok_id (tok_id t) (\<lambda>t. t\<lparr>tok_used := Some now\<rparr>) (id_tokens db)\<rparr>)"

definition RotateRefreshToken ::
  "time \<Rightarrow> string \<Rightarrow> uuid \<Rightarrow> string \<Rightarrow> time \<Rightarrow> IdentityDB \<Rightarrow> User result \<times> IdentityDB" where
  "RotateRefreshToken now tokenHash newTokenID newTokenHash expiresAt db =
    (case row_find tok_hash tokenHash (id_tokens db) of
       None \<Rightarrow> (Inl IdentityErrRefreshTokenInvalid, db)
     | Some t \<Rightarrow>
         (case row_find fam_id (tok_family t) (id_families db) of
            None \<Rightarrow> (Inl IdentityErrRefreshTokenInvalid, db)
          | Some f \<Rightarrow>
              if fam_revoked f \<noteq> None then (Inl IdentityErrRefreshTokenInvalid, db)
              else if tok_used t \<noteq> None \<or> tok_revoked t \<noteq> None
              then (Inl IdentityErrRefreshTokenReplay, revoke_family now ''refresh_token_reuse'' (fam_id f) db)
              else if tok_expires t \<le> now then (Inl IdentityErrRefreshTokenExpired, db)
              else
                (case FindUserByID (fam_user f) db of
                   Inl e \<Rightarrow> (Inl e, db)
                 | Inr user \<Rightarrow>
                     (case rotate_token now t newTokenID newTokenHash expiresAt db of
                        Inl e \<Rightarrow> (Inl e, db)
                      | Inr db' \<Rightarrow> (Inr user, db')))))"

definition RevokeRefreshTokenFamily :: "time \<Rightarrow> string \<Rightarrow> IdentityDB \<Rightarrow> IdentityDB" where
  "RevokeRefreshTokenFamily now tokenHash db =
    (case row_find tok_hash tokenHash (id_tokens db) of
       None \<Rightarrow> db
     | Some t \<Rightarrow> revoke_family now ''logout'' (tok_family t) db)"

section \<open>Repository: API keys and audit events\<close>

definition scan_key :: "KeyRow \<Rightarrow> APIKey" where
  "scan_key k =
    \<lparr>ak_ID = key_id k, ak_Name = key_name k, ak_Prefix = key_prefix k, ak_Scopes = key_scopes k,
     ak_CreatedAt = key_created k, ak_LastUsedAt = key_used k, ak_RevokedAt = key_revoked k\<rparr>"

definition CreateAPIKey ::
  "uuid \<Rightarrow> time \<Rightarrow> uuid \<Rightarrow> string \<Rightarrow> string \<Rightarrow> string \<Rightarrow> string list \<Rightarrow> IdentityDB \<Rightarrow> (APIKey \<times> IdentityDB) result" where
  "CreateAPIKey keyID now userID name prefix keyHash scopes db =
    (if keyID \<in> key_id ` set (id_keys db) \<or> prefix \<in> key_prefix ` set (id_keys db) \<or>
        keyHash \<in> key_hash ` set (id_keys db) \<or> userID \<notin> usr_id ` set (id_users db)
     then Inl (ErrDatabase ''create API key'')
     else
       let row = \<lparr>key_id = keyID, key_user = userID, key_name = name, key_prefix = prefix, key_hash = keyHash,
             key_scopes = scopes, key_created = now, key_used = None, key_revoked = None\<rparr>
       in Inr (scan_key row, db\<lparr>id_keys := id_keys db @ [row]\<rparr>))"

definition ListAPIKeys :: "uuid \<Rightarrow> IdentityDB \<Rightarrow> APIKey list" where
  "ListAPIKeys userID db =
    map scan_key (sort_key (\<lambda>k. - key_created k) (filter (\<lambda>k. key_user k = userID) (id_keys db)))"

definition RevokeAPIKey :: "time \<Rightarrow> uuid \<Rightarrow> uuid \<Rightarrow> IdentityDB \<Rightarrow> (unit \<times> IdentityDB) result" where
  "RevokeAPIKey now userID keyID db =
    (if list_ex (\<lambda>k. key_id k = keyID \<and> key_user k = userID) (id_keys db)
     then Inr ((), db\<lparr>id_keys := rows_update (\<lambda>k. key_id k = keyID \<and> key_user k = userID)
       (\<lambda>k. k\<lparr>key_revoked := Some (coalesce (key_revoked k) now)\<rparr>) (id_keys db)\<rparr>)
     else Inl IdentityErrAPIKeyNotFound)"

text \<open>The key of a prefix that is not revoked, joined with its user unless that one is disabled.\<close>

definition active_key :: "string \<Rightarrow> IdentityDB \<Rightarrow> (KeyRow \<times> UserRow) option" where
  "active_key prefix db =
    (case find (\<lambda>k. key_prefix k = prefix \<and> key_revoked k = None \<and>
        list_ex (\<lambda>u. usr_id u = key_user k \<and> usr_disabled u = None) (id_users db)) (id_keys db) of
       None \<Rightarrow> None
     | Some k \<Rightarrow> map_option (\<lambda>u. (k, u)) (row_find usr_id (key_user k) (id_users db)))"

definition AuthenticateAPIKey :: "time \<Rightarrow> string \<Rightarrow> string \<Rightarrow> IdentityDB \<Rightarrow> (APIKeyAuthentication \<times> IdentityDB) result" where
  "AuthenticateAPIKey now value presentedHash db =
    (case APIKeyPrefix value of
       None \<Rightarrow> Inl IdentityErrAPIKeyInvalid
     | Some prefix \<Rightarrow>
         (case active_key prefix db of
            None \<Rightarrow> Inl IdentityErrAPIKeyInvalid
          | Some (k, u) \<Rightarrow>
              if \<not> ConstantTimeCompare (key_hash k) presentedHash then Inl IdentityErrAPIKeyInvalid
              else Inr
                (\<lparr>aa_Key = scan_key k, aa_User = scanUser db u, aa_Scopes = key_scopes k\<rparr>,
                 db\<lparr>id_keys := row_update key_id (key_id k) (\<lambda>k. k\<lparr>key_used := Some now\<rparr>) (id_keys db)\<rparr>)))"

definition nullif_empty :: "string \<Rightarrow> string option" where
  "nullif_empty s = (if s = [] then None else Some s)"

text \<open>
  \<open>fault\<close> is what the connection reports for the insert, when it fails for a reason outside the
  tables. The actor is a foreign key.
\<close>

definition RecordAudit :: "go_error option \<Rightarrow> time \<Rightarrow> AuditEvent \<Rightarrow> IdentityDB \<Rightarrow> (unit \<times> IdentityDB) result" where
  "RecordAudit fault now event db =
    (case fault of
       Some e \<Rightarrow> Inl e
     | None \<Rightarrow>
         if (case ae_ActorUserID event of None \<Rightarrow> False | Some u \<Rightarrow> u \<notin> usr_id ` set (id_users db))
         then Inl (ErrDatabase ''record audit event'')
         else Inr ((), db\<lparr>id_audit := id_audit db @
           [\<lparr>aud_actor = ae_ActorUserID event, aud_action = ae_Action event,
             aud_resource_type = nullif_empty (ae_ResourceType event), aud_resource_id = nullif_empty (ae_ResourceID event),
             aud_request = nullif_empty (ae_RequestID event),
             aud_metadata = (case ae_Metadata event of None \<Rightarrow> JNull | Some m \<Rightarrow> JObj m), aud_created = now\<rparr>]\<rparr>))"

section \<open>Service: input\<close>

record IdentityService =
  sv_AccessTokens :: AccessTokenService
  sv_RefreshTokenTTL :: duration

definition NewIdentityService :: "string \<Rightarrow> duration \<Rightarrow> duration \<Rightarrow> IdentityService result" where
  "NewIdentityService signingKey accessTokenTTL refreshTokenTTL =
    (if length signingKey < 32 \<or> accessTokenTTL \<le> 0 \<or> refreshTokenTTL \<le> 0 then Inl IdentityErrConfiguration
     else Inr \<lparr>sv_AccessTokens = NewAccessTokenService signingKey accessTokenTTL, sv_RefreshTokenTTL = refreshTokenTTL\<rparr>)"

definition validateService :: "IdentityService \<Rightarrow> unit result" where
  "validateService s = (if sv_RefreshTokenTTL s \<le> 0 then Inl IdentityErrConfiguration else Inr ())"

definition normalizeEmail :: "Libraries \<Rightarrow> string \<Rightarrow> string result" where
  "normalizeEmail lib value =
    (let email = lib_ToLower lib (TrimSpace value)
     in if email = [] \<or> length email > 254 then Inl (ErrText ''email must be between 1 and 254 bytes'')
        else if lib_ParseAddress lib email \<noteq> Some email \<or> \<not> strings_Contains email ''@''
        then Inl (ErrText ''email must be a valid address'')
        else Inr email)"

definition validateAPIKeyName :: "string \<Rightarrow> string result" where
  "validateAPIKeyName value =
    (let name = TrimSpace value
     in if name = [] \<or> length name > 100 \<or> has_newline name
        then Inl (ErrText ''API key name must be between 1 and 100 bytes'') else Inr name)"

definition principalForUser :: "User \<Rightarrow> string \<Rightarrow> Principal" where
  "principalForUser user authMethod =
    \<lparr>prin_UserID = user_ID user, prin_Role = user_Role user, prin_Scopes = user_Scopes user, prin_AuthMethod = authMethod\<rparr>"

definition intersectScopes :: "string list \<Rightarrow> string list \<Rightarrow> string list" where
  "intersectScopes left right = filter (\<lambda>scope. scope \<in> set right) left"

section \<open>Service: sessions\<close>

text \<open>
  What one call draws and reads: identifiers, random bytes, its clocks, and the answer of the
  connection to the audit insert.
\<close>

record IdentityDraws =
  dr_User :: uuid
  dr_Family :: uuid
  dr_Token :: uuid
  dr_JTI :: uuid
  dr_Key :: uuid
  dr_Salt :: string
  dr_Secret :: string
  dr_Issued :: time
  dr_Clock :: time
  dr_Fault :: "go_error option"

definition recordAudit ::
  "IdentityDraws \<Rightarrow> time \<Rightarrow> uuid \<Rightarrow> string \<Rightarrow> string \<Rightarrow> (string \<times> json) list option \<Rightarrow> IdentityDB \<Rightarrow> (unit \<times> IdentityDB) result" where
  "recordAudit d now userID action requestID metadata db =
    RecordAudit (dr_Fault d) now
      \<lparr>ae_ActorUserID = Some userID, ae_Action = action, ae_ResourceType = [], ae_ResourceID = [],
       ae_RequestID = requestID, ae_Metadata = metadata\<rparr> db"

definition issueTokenPair ::
  "Libraries \<Rightarrow> IdentityService \<Rightarrow> IdentityDraws \<Rightarrow> time \<Rightarrow> User \<Rightarrow> IdentityDB \<Rightarrow> (TokenPair \<times> IdentityDB) result" where
  "issueTokenPair lib s d now user db =
    bindE (NewOpaqueToken lib (dr_Secret d)) (\<lambda>(refreshToken, refreshHash).
    bindE (Issue lib (sv_AccessTokens s) (dr_Issued d) (dr_JTI d) (user_ID user)) (\<lambda>(accessToken, accessExpiry).
    bindE (CreateRefreshSession now (user_ID user) (dr_Family d) (dr_Token d) refreshHash
      (dr_Clock d + sv_RefreshTokenTTL s) db) (\<lambda>(_, db').
    Inr (\<lparr>tp_AccessToken = accessToken, tp_RefreshToken = refreshToken, tp_AccessTokenExpiry = accessExpiry\<rparr>, db'))))"

text \<open>How registration and login end: a token pair and an audit event.\<close>

definition open_session ::
  "Libraries \<Rightarrow> IdentityService \<Rightarrow> IdentityDraws \<Rightarrow> time \<Rightarrow> User \<Rightarrow> string \<Rightarrow> string \<Rightarrow> (string \<times> json) list option \<Rightarrow>
   IdentityDB \<Rightarrow> (User \<times> TokenPair) result \<times> IdentityDB" where
  "open_session lib s d now user action requestID metadata db =
    (case issueTokenPair lib s d now user db of
       Inl e \<Rightarrow> (Inl e, db)
     | Inr (pair, db1) \<Rightarrow>
         (case recordAudit d now (user_ID user) action requestID metadata db1 of
            Inl e \<Rightarrow> (Inl e, db1)
          | Inr (_, db2) \<Rightarrow> (Inr (user, pair), db2)))"

fun role_text :: "Role \<Rightarrow> string" where
  "role_text RoleAdmin = ''ADMIN''"
| "role_text RoleUser = ''USER''"
| "role_text RoleService = ''SERVICE''"
| "role_text (RoleOther r) = r"

definition Register ::
  "Libraries \<Rightarrow> IdentityService \<Rightarrow> IdentityDraws \<Rightarrow> time \<Rightarrow> string \<Rightarrow> string \<Rightarrow> string \<Rightarrow> IdentityDB \<Rightarrow>
   (User \<times> TokenPair) result \<times> IdentityDB" where
  "Register lib s d now email password requestID db =
    (case validateService s of Inl e \<Rightarrow> (Inl e, db) | Inr _ \<Rightarrow>
    (case normalizeEmail lib email of Inl _ \<Rightarrow> (Inl IdentityErrInvalidInput, db) | Inr normalizedEmail \<Rightarrow>
    (case Hash lib (dr_Salt d) password of Inl _ \<Rightarrow> (Inl IdentityErrInvalidInput, db) | Inr passwordHash \<Rightarrow>
    (case CreateUser (lib_LOWER lib) (dr_User d) now normalizedEmail passwordHash RoleUser DefaultUserScopes db of
       Inl e \<Rightarrow> (Inl e, db)
     | Inr (user, db1) \<Rightarrow>
         open_session lib s d now user ''identity.register'' requestID
           (Some [(''role'', JStr (role_text (user_Role user)))]) db1))))"

definition Login ::
  "Libraries \<Rightarrow> IdentityService \<Rightarrow> IdentityDraws \<Rightarrow> time \<Rightarrow> string \<Rightarrow> string \<Rightarrow> string \<Rightarrow> IdentityDB \<Rightarrow>
   (User \<times> TokenPair) result \<times> IdentityDB" where
  "Login lib s d now email password requestID db =
    (case validateService s of Inl e \<Rightarrow> (Inl e, db) | Inr _ \<Rightarrow>
    (case normalizeEmail lib email of Inl _ \<Rightarrow> (Inl IdentityErrInvalidCredentials, db) | Inr normalizedEmail \<Rightarrow>
    (case FindUserByEmail normalizedEmail db of
       Inl e \<Rightarrow> (Inl (if e = IdentityErrUserNotFound then IdentityErrInvalidCredentials else e), db)
     | Inr user \<Rightarrow>
         if user_DisabledAt user \<noteq> None then (Inl IdentityErrInvalidCredentials, db)
         else if VerifyPassword lib (user_PasswordHash user) password \<noteq> Inr True
         then (Inl IdentityErrInvalidCredentials, db)
         else open_session lib s d now user ''identity.login'' requestID None db)))"

definition Refresh ::
  "Libraries \<Rightarrow> IdentityService \<Rightarrow> IdentityDraws \<Rightarrow> time \<Rightarrow> string \<Rightarrow> string \<Rightarrow> IdentityDB \<Rightarrow>
   (User \<times> TokenPair) result \<times> IdentityDB" where
  "Refresh lib s d now refreshToken requestID db =
    (case validateService s of Inl e \<Rightarrow> (Inl e, db) | Inr _ \<Rightarrow>
    if refreshToken = [] then (Inl IdentityErrRefreshTokenInvalid, db)
    else
      (case NewOpaqueToken lib (dr_Secret d) of Inl e \<Rightarrow> (Inl e, db) | Inr (newRefreshToken, newRefreshHash) \<Rightarrow>
      (case RotateRefreshToken now (HashOpaqueToken lib refreshToken) (dr_Token d) newRefreshHash
          (dr_Clock d + sv_RefreshTokenTTL s) db of
         (Inl e, db1) \<Rightarrow> (Inl e, db1)
       | (Inr user, db1) \<Rightarrow>
           if user_DisabledAt user \<noteq> None then (Inl IdentityErrInvalidCredentials, db1)
           else
             (case Issue lib (sv_AccessTokens s) (dr_Issued d) (dr_JTI d) (user_ID user) of
                Inl e \<Rightarrow> (Inl e, db1)
              | Inr (accessToken, accessExpiry) \<Rightarrow>
                  (case recordAudit d now (user_ID user) ''identity.refresh'' requestID None db1 of
                     Inl e \<Rightarrow> (Inl e, db1)
                   | Inr (_, db2) \<Rightarrow>
                       (Inr (user, \<lparr>tp_AccessToken = accessToken, tp_RefreshToken = newRefreshToken,
                          tp_AccessTokenExpiry = accessExpiry\<rparr>), db2))))))"

definition Logout ::
  "Libraries \<Rightarrow> IdentityService \<Rightarrow> IdentityDraws \<Rightarrow> time \<Rightarrow> string \<Rightarrow> string \<Rightarrow> IdentityDB \<Rightarrow> unit result \<times> IdentityDB" where
  "Logout lib s d now refreshToken requestID db =
    (case validateService s of Inl e \<Rightarrow> (Inl e, db) | Inr _ \<Rightarrow>
    if refreshToken = [] then (Inr (), db)
    else
      (let db1 = RevokeRefreshTokenFamily now (HashOpaqueToken lib refreshToken) db
       in run_tx (RecordAudit (dr_Fault d) now
            \<lparr>ae_ActorUserID = None, ae_Action = ''identity.logout'', ae_ResourceType = [], ae_ResourceID = [],
             ae_RequestID = requestID, ae_Metadata = None\<rparr>) db1))"

section \<open>Service: authentication and API keys\<close>

definition AuthenticateBearer :: "Libraries \<Rightarrow> IdentityService \<Rightarrow> time \<Rightarrow> string \<Rightarrow> IdentityDB \<Rightarrow> Principal result" where
  "AuthenticateBearer lib s now token db =
    bindE (validateService s) (\<lambda>_.
    case Parse lib (sv_AccessTokens s) now token of
      Inl _ \<Rightarrow> Inl IdentityErrInvalidCredentials
    | Inr userID \<Rightarrow>
        (case FindUserByID userID db of
           Inl _ \<Rightarrow> Inl IdentityErrInvalidCredentials
         | Inr user \<Rightarrow>
             if user_DisabledAt user \<noteq> None then Inl IdentityErrInvalidCredentials
             else Inr (principalForUser user AuthMethodBearer)))"

definition Service_AuthenticateAPIKey ::
  "Libraries \<Rightarrow> IdentityService \<Rightarrow> time \<Rightarrow> string \<Rightarrow> IdentityDB \<Rightarrow> (Principal \<times> IdentityDB) result" where
  "Service_AuthenticateAPIKey lib s now value db =
    bindE (validateService s) (\<lambda>_.
    if value = [] then Inl IdentityErrAPIKeyInvalid
    else
      bindE (AuthenticateAPIKey now value (HashOpaqueToken lib value) db) (\<lambda>(result, db').
      Inr ((principalForUser (aa_User result) AuthMethodAPIKey)
        \<lparr>prin_Scopes := intersectScopes (user_Scopes (aa_User result)) (aa_Scopes result)\<rparr>, db')))"

definition Service_CreateAPIKey ::
  "Libraries \<Rightarrow> IdentityService \<Rightarrow> IdentityDraws \<Rightarrow> time \<Rightarrow> Principal \<Rightarrow> string \<Rightarrow> string list \<Rightarrow> string \<Rightarrow> IdentityDB \<Rightarrow>
   (APIKey \<times> string) result \<times> IdentityDB" where
  "Service_CreateAPIKey lib s d now prin name scopes requestID db =
    (case validateService s of Inl e \<Rightarrow> (Inl e, db) | Inr _ \<Rightarrow>
    if prin_UserID prin = uuid_Nil then (Inl AuthzErrUnauthenticated, db)
    else
      (case validateAPIKeyName name of Inl _ \<Rightarrow> (Inl IdentityErrInvalidInput, db) | Inr validatedName \<Rightarrow>
      if scopes = [] then (Inl AuthzErrInvalidScope, db)
      else
        (case ValidateGrantableScopes prin scopes of Inl e \<Rightarrow> (Inl e, db) | Inr _ \<Rightarrow>
        (case NewAPIKey lib (dr_Secret d) of Inl e \<Rightarrow> (Inl e, db) | Inr (plaintext, prefix, keyHash) \<Rightarrow>
        (case CreateAPIKey (dr_Key d) now (prin_UserID prin) validatedName prefix keyHash scopes db of
           Inl e \<Rightarrow> (Inl e, db)
         | Inr (key, db1) \<Rightarrow>
             (case recordAudit d now (prin_UserID prin) ''identity.api_key.create'' requestID
                (Some [(''keyId'', JStr (uuid_String lib (ak_ID key))), (''scopeCount'', JNum (nat_text (length scopes)))]) db1 of
                Inl err \<Rightarrow>
                  (case RevokeAPIKey now (prin_UserID prin) (ak_ID key) db1 of
                     Inl revokeErr \<Rightarrow> (Inl (ErrJoin [err, revokeErr]), db1)
                   | Inr (_, db2) \<Rightarrow> (Inl err, db2))
              | Inr (_, db2) \<Rightarrow> (Inr (key, plaintext), db2)))))))"

definition Service_ListAPIKeys :: "IdentityService \<Rightarrow> Principal \<Rightarrow> IdentityDB \<Rightarrow> APIKey list result" where
  "Service_ListAPIKeys s prin db =
    bindE (validateService s) (\<lambda>_.
    if prin_UserID prin = uuid_Nil then Inl AuthzErrUnauthenticated else Inr (ListAPIKeys (prin_UserID prin) db))"

definition Service_RevokeAPIKey ::
  "Libraries \<Rightarrow> IdentityService \<Rightarrow> IdentityDraws \<Rightarrow> time \<Rightarrow> Principal \<Rightarrow> uuid \<Rightarrow> string \<Rightarrow> IdentityDB \<Rightarrow> unit result \<times> IdentityDB" where
  "Service_RevokeAPIKey lib s d now prin keyID requestID db =
    (case validateService s of Inl e \<Rightarrow> (Inl e, db) | Inr _ \<Rightarrow>
    if prin_UserID prin = uuid_Nil then (Inl AuthzErrUnauthenticated, db)
    else if keyID = uuid_Nil then (Inl IdentityErrAPIKeyNotFound, db)
    else
      (case RevokeAPIKey now (prin_UserID prin) keyID db of
         Inl e \<Rightarrow> (Inl e, db)
       | Inr (_, db1) \<Rightarrow>
           run_tx (recordAudit d now (prin_UserID prin) ''identity.api_key.revoke'' requestID
             (Some [(''keyId'', JStr (uuid_String lib keyID))])) db1))"

end
