(* ===== verification/Accounts.thy ===== *)
theory Accounts
  imports Identity
begin

text \<open>
  The identity tables as a transition system: every transaction of the repository in any order,
  the invariant it keeps, and what a session and a key can become. The operations of the service
  are runs of it.
\<close>

section \<open>Transactions\<close>

text \<open>
  One rule per transaction; a key is a new one, with scopes that \<open>ValidateGrantableScopes\<close> has
  accepted. No operation disables an account: that is a change made to the table.
\<close>

inductive identity :: "Libraries \<Rightarrow> IdentityDB \<Rightarrow> IdentityDB \<Rightarrow> bool" for lib where
  create_user: "CreateUser (lib_LOWER lib) userID now email passwordHash role scopes db = Inr (user, db') \<Longrightarrow> identity lib db db'"
| create_session: "CreateRefreshSession now userID familyID tokenID tokenHash expiresAt db = Inr (u, db') \<Longrightarrow> identity lib db db'"
| rotate: "RotateRefreshToken now tokenHash newTokenID newTokenHash expiresAt db = (res, db') \<Longrightarrow> identity lib db db'"
| revoke: "RevokeRefreshTokenFamily now tokenHash db = db' \<Longrightarrow> identity lib db db'"
| create_key: "scopes \<noteq> [] \<Longrightarrow> ValidateGrantableScopes prin scopes = Inr () \<Longrightarrow>
    NewAPIKey lib random = Inr (plaintext, prefix, keyHash) \<Longrightarrow>
    CreateAPIKey keyID now (prin_UserID prin) name prefix keyHash scopes db = Inr (k, db') \<Longrightarrow> identity lib db db'"
| revoke_key: "RevokeAPIKey now userID keyID db = Inr (u, db') \<Longrightarrow> identity lib db db'"
| use_key: "AuthenticateAPIKey now value presentedHash db = Inr (result, db') \<Longrightarrow> identity lib db db'"
| audit: "RecordAudit fault now event db = Inr (u, db') \<Longrightarrow> identity lib db db'"
| disable: "identity lib db (db\<lparr>id_users := row_update usr_id userID (\<lambda>u. u\<lparr>usr_disabled := disabledAt\<rparr>) (id_users db)\<rparr>)"

section \<open>The life of a session\<close>

text \<open>
  A session is opened with one token; while it is not revoked its unused token can be exchanged
  for a new one; once revoked it stays as it is.
\<close>

inductive family_change :: "FamilyRow list \<Rightarrow> TokenRow list \<Rightarrow> FamilyRow list \<Rightarrow> TokenRow list \<Rightarrow> bool" where
  same: "family_change fs ts fs ts"
| opened: "fam_id f \<notin> fam_id ` set fs \<Longrightarrow> fam_revoked f = None \<Longrightarrow> fam_reason f = None \<Longrightarrow>
    tok_id t \<notin> tok_id ` set ts \<Longrightarrow> tok_hash t \<notin> tok_hash ` set ts \<Longrightarrow> tok_family t = fam_id f \<Longrightarrow>
    tok_used t = None \<Longrightarrow> tok_revoked t = None \<Longrightarrow> family_change fs ts (fs @ [f]) (ts @ [t])"
| rotated: "f \<in> set fs \<Longrightarrow> fam_revoked f = None \<Longrightarrow> t \<in> set ts \<Longrightarrow> tok_family t = fam_id f \<Longrightarrow> tok_used t = None \<Longrightarrow>
    tok_id t' \<notin> tok_id ` set ts \<Longrightarrow> tok_hash t' \<notin> tok_hash ` set ts \<Longrightarrow> tok_family t' = fam_id f \<Longrightarrow>
    tok_used t' = None \<Longrightarrow> tok_revoked t' = None \<Longrightarrow>
    family_change fs ts fs (row_update tok_id (tok_id t) (\<lambda>t. t\<lparr>tok_used := Some now\<rparr>) ts @ [t'])"
| revoked: "family_change fs ts (row_update fam_id i
    (\<lambda>f. f\<lparr>fam_revoked := Some (coalesce (fam_revoked f) now), fam_reason := Some (coalesce (fam_reason f) reason)\<rparr>) fs) ts"

abbreviation unused_in :: "uuid \<Rightarrow> TokenRow \<Rightarrow> bool" where
  "unused_in familyID t \<equiv> tok_family t = familyID \<and> tok_used t = None"

definition sessions_ok :: "FamilyRow list \<Rightarrow> TokenRow list \<Rightarrow> bool" where
  "sessions_ok fs ts \<longleftrightarrow>
     distinct (map fam_id fs) \<and> distinct (map tok_id ts) \<and> distinct (map tok_hash ts) \<and>
     tok_family ` set ts \<subseteq> fam_id ` set fs \<and>
     (\<forall>f \<in> set fs. (fam_revoked f = None \<longleftrightarrow> fam_reason f = None) \<and> count_rows (unused_in (fam_id f)) ts = 1) \<and>
     (\<forall>t \<in> set ts. tok_revoked t = None)"

lemma count_rows_none: "(\<And>r. r \<in> set rows \<Longrightarrow> \<not> P r) \<Longrightarrow> count_rows P rows = 0"
  by (simp add: count_rows_def filter_empty_conv)

lemma family_change_ok: "family_change fs ts fs' ts' \<Longrightarrow> sessions_ok fs ts \<Longrightarrow> sessions_ok fs' ts'"
proof (induction rule: family_change.induct)
  case (opened f fs t ts)
  then have "tok_family r \<noteq> fam_id f" if "r \<in> set ts" for r
    using that unfolding sessions_ok_def by (metis imageI subsetD)
  then have "count_rows (unused_in (fam_id f)) ts = 0" by (intro count_rows_none) simp
  then show ?case using opened by (auto simp: sessions_ok_def count_rows_append count_rows_single)
next
  case (rotated f fs t ts t' now)
  then have d: "distinct (map tok_id ts)" by (simp add: sessions_ok_def)
  note upd = row_update_mem [OF d rotated(3) refl] row_update_proj [of tok_hash] row_update_proj [of tok_id]
    count_rows_update [OF d rotated(3) refl] row_update_image [of tok_id] row_update_image [of tok_hash]
  have "count_rows (unused_in (fam_id g)) (row_update tok_id (tok_id t) (\<lambda>t. t\<lparr>tok_used := Some now\<rparr>) ts @ [t']) = 1"
    if "g \<in> set fs" for g
    using that rotated by (auto simp: sessions_ok_def count_rows_append count_rows_single upd)
  then show ?case using rotated by (auto simp: sessions_ok_def upd)
next
  case (revoked fs ts i reason now)
  then show ?case
    by (auto simp: sessions_ok_def row_update_proj row_update_image) (auto simp: row_update_def)
qed

text \<open>A token stays, under its hash and in its family, and is used only once.\<close>

lemma family_change_used:
  "family_change fs ts fs' ts' \<Longrightarrow> sessions_ok fs ts \<Longrightarrow> t \<in> set ts \<Longrightarrow> tok_used t \<noteq> None \<Longrightarrow> t \<in> set ts'"
proof (induction rule: family_change.induct)
  case (rotated f fs s ts t' now)
  then have d: "distinct (map tok_id ts)" by (simp add: sessions_ok_def)
  show ?case using rotated row_update_mem [OF d rotated(3) refl] by auto
qed auto

text \<open>A revoked session is final.\<close>

lemma family_change_revoked:
  assumes "family_change fs ts fs' ts'" "sessions_ok fs ts" "f \<in> set fs" "fam_revoked f \<noteq> None"
  shows "f \<in> set fs' \<and> filter (\<lambda>t. tok_family t = fam_id f) ts' = filter (\<lambda>t. tok_family t = fam_id f) ts"
  using assms
proof (induction rule: family_change.induct)
  case (rotated g fs t ts t' now)
  then have "fam_id g \<noteq> fam_id f" by (auto simp: sessions_ok_def distinct_map dest: inj_onD)
  moreover have "filter (\<lambda>t. tok_family t = fam_id f) (row_update tok_id (tok_id t) (\<lambda>t. t\<lparr>tok_used := Some now\<rparr>) ts) =
      filter (\<lambda>t. tok_family t = fam_id f) ts"
  proof -
    have "distinct (map tok_id ts)" using rotated by (simp add: sessions_ok_def)
    then obtain xs ys where "ts = xs @ t # ys"
        "row_update tok_id (tok_id t) (\<lambda>t. t\<lparr>tok_used := Some now\<rparr>) ts = xs @ t\<lparr>tok_used := Some now\<rparr> # ys"
      using rotated(3) by (rule row_split) blast
    then show ?thesis using \<open>fam_id g \<noteq> fam_id f\<close> rotated(4) by simp
  qed
  ultimately show ?case using rotated by simp
next
  case (revoked fs ts i reason now)
  then have "fam_revoked f \<noteq> None" "fam_reason f \<noteq> None" by (auto simp: sessions_ok_def)
  then have "f\<lparr>fam_revoked := Some (coalesce (fam_revoked f) now), fam_reason := Some (coalesce (fam_reason f) reason)\<rparr> = f"
    by (auto simp: coalesce_def)
  then show ?case using revoked by (force simp: row_update_def)
qed auto

section \<open>Users and keys\<close>

inductive user_change :: "Libraries \<Rightarrow> UserRow list \<Rightarrow> UserRow list \<Rightarrow> bool" for lib where
  same: "user_change lib us us"
| added: "usr_id u \<notin> usr_id ` set us \<Longrightarrow> usr_email u \<notin> usr_email ` set us \<Longrightarrow> lib_LOWER lib (usr_email u) = usr_email u \<Longrightarrow>
    usr_role u \<in> {RoleAdmin, RoleUser, RoleService} \<Longrightarrow> user_change lib us (us @ [u])"
| flagged: "user_change lib us (row_update usr_id i (\<lambda>u. u\<lparr>usr_disabled := x\<rparr>) us)"

definition users_ok :: "Libraries \<Rightarrow> UserRow list \<Rightarrow> bool" where
  "users_ok lib us \<longleftrightarrow>
     distinct (map usr_id us) \<and> distinct (map usr_email us) \<and>
     (\<forall>u \<in> set us. lib_LOWER lib (usr_email u) = usr_email u \<and> usr_role u \<in> {RoleAdmin, RoleUser, RoleService})"

inductive key_change :: "KeyRow list \<Rightarrow> KeyRow list \<Rightarrow> bool" where
  same: "key_change ks ks"
| added: "key_id k \<notin> key_id ` set ks \<Longrightarrow> key_prefix k \<notin> key_prefix ` set ks \<Longrightarrow> key_hash k \<notin> key_hash ` set ks \<Longrightarrow>
    key_scopes k \<noteq> [] \<Longrightarrow> distinct (key_scopes k) \<Longrightarrow> set (key_scopes k) \<subseteq> set knownScopes \<Longrightarrow>
    length (key_prefix k) = 12 \<Longrightarrow> key_change ks (ks @ [k])"
| revoked: "key_change ks (rows_update P (\<lambda>k. k\<lparr>key_revoked := Some (coalesce (key_revoked k) now)\<rparr>) ks)"
| used: "k \<in> set ks \<Longrightarrow> key_revoked k = None \<Longrightarrow>
    key_change ks (row_update key_id (key_id k) (\<lambda>k. k\<lparr>key_used := Some now\<rparr>) ks)"

definition keys_ok :: "KeyRow list \<Rightarrow> bool" where
  "keys_ok ks \<longleftrightarrow>
     distinct (map key_id ks) \<and> distinct (map key_prefix ks) \<and> distinct (map key_hash ks) \<and>
     (\<forall>k \<in> set ks. key_scopes k \<noteq> [] \<and> distinct (key_scopes k) \<and> set (key_scopes k) \<subseteq> set knownScopes \<and>
        length (key_prefix k) = 12)"

lemma user_change_ok: "user_change lib us us' \<Longrightarrow> users_ok lib us \<Longrightarrow> users_ok lib us'"
proof (induction rule: user_change.induct)
  case (flagged us i x)
  then show ?case
    by (auto simp: users_ok_def row_update_proj) (auto simp: row_update_def)
qed (auto simp: users_ok_def)

text \<open>A user keeps everything but the mark that disables it.\<close>

lemma user_change_kept: "user_change lib us us' \<Longrightarrow> u \<in> set us \<Longrightarrow> \<exists>x. u\<lparr>usr_disabled := x\<rparr> \<in> set us'"
proof (induction rule: user_change.induct)
  case (same us)
  then show ?case by (intro exI [of _ "usr_disabled u"]) simp
next
  case (added v us)
  then show ?case by (intro exI [of _ "usr_disabled u"]) simp
next
  case (flagged us i x)
  then show ?case
    by (intro exI [of _ "if usr_id u = i then x else usr_disabled u"]) (force simp: row_update_def)
qed

lemma user_change_ids: "user_change lib us us' \<Longrightarrow> usr_id ` set us \<subseteq> usr_id ` set us'"
  by (induction rule: user_change.induct) (auto simp: row_update_image)

lemma key_change_ok: "key_change ks ks' \<Longrightarrow> keys_ok ks \<Longrightarrow> keys_ok ks'"
proof (induction rule: key_change.induct)
  case (revoked ks P now)
  then show ?case
    by (simp add: keys_ok_def rows_update_proj) (fastforce simp: rows_update_def)
next
  case (used k ks now)
  then show ?case
    by (simp add: keys_ok_def row_update_proj) (fastforce simp: row_update_def)
qed (auto simp: keys_ok_def)

text \<open>A revoked key is final.\<close>

lemma key_change_revoked:
  "key_change ks ks' \<Longrightarrow> keys_ok ks \<Longrightarrow> k \<in> set ks \<Longrightarrow> key_revoked k \<noteq> None \<Longrightarrow> k \<in> set ks'"
proof (induction rule: key_change.induct)
  case (revoked ks P now)
  then have "k\<lparr>key_revoked := Some (coalesce (key_revoked k) now)\<rparr> = k" by (auto simp: coalesce_def)
  then show ?case using revoked by (force simp: rows_update_def)
next
  case (used j ks now)
  then have d: "distinct (map key_id ks)" by (simp add: keys_ok_def)
  show ?case using used row_update_mem [OF d used(1) refl] by auto
qed auto

section \<open>What each transaction changes\<close>

text \<open>The references between the tables.\<close>

definition references_ok :: "IdentityDB \<Rightarrow> bool" where
  "references_ok db \<longleftrightarrow>
     (let ids = usr_id ` set (id_users db)
      in scp_user ` set (id_scopes db) \<subseteq> ids \<and> fam_user ` set (id_families db) \<subseteq> ids \<and>
         key_user ` set (id_keys db) \<subseteq> ids \<and> (\<forall>a \<in> set (id_audit db). set_option (aud_actor a) \<subseteq> ids))"

definition scopes_ok :: "ScopeRow list \<Rightarrow> bool" where
  "scopes_ok ss \<longleftrightarrow> distinct (map (\<lambda>r. (scp_user r, scp_scope r)) ss)"

definition accounts_ok :: "Libraries \<Rightarrow> IdentityDB \<Rightarrow> bool" where
  "accounts_ok lib db \<longleftrightarrow>
     users_ok lib (id_users db) \<and> scopes_ok (id_scopes db) \<and> sessions_ok (id_families db) (id_tokens db) \<and>
     keys_ok (id_keys db) \<and> references_ok db"

lemma insert_scopes_ok: "scopes_ok ss \<Longrightarrow> scopes_ok (insert_scopes now u scopes ss)"
  by (induction now u scopes ss rule: insert_scopes.induct) (auto simp: scopes_ok_def)

lemma insert_scopes_users: "scp_user ` set (insert_scopes now u scopes ss) \<subseteq> insert u (scp_user ` set ss)"
  by (induction now u scopes ss rule: insert_scopes.induct) (auto split: if_splits)

lemma insert_scopes_other:
  "v \<noteq> u \<Longrightarrow> filter (\<lambda>r. scp_user r = v) (insert_scopes now u scopes ss) = filter (\<lambda>r. scp_user r = v) ss"
  by (induction now u scopes ss rule: insert_scopes.induct) auto

text \<open>Each transaction is one change of each table, and keeps the references.\<close>

lemma CreateUser_frame:
  "CreateUser (lib_LOWER lib) userID now email passwordHash role scopes db = Inr (user, db') \<Longrightarrow>
   \<exists>u. db' = db\<lparr>id_users := id_users db @ [u], id_scopes := insert_scopes now userID scopes (id_scopes db)\<rparr> \<and>
     user_change lib (id_users db) (id_users db @ [u]) \<and> usr_id u = userID \<and> usr_email u = email \<and>
     usr_hash u = passwordHash \<and> usr_disabled u = None \<and> user_ID user = userID \<and> userID \<notin> usr_id ` set (id_users db)"
  by (auto simp: CreateUser_def split: if_splits intro!: user_change.added)

lemma new_rows [simp]:
  "tok_id (new_token now i j h e) = i" "tok_family (new_token now i j h e) = j" "tok_hash (new_token now i j h e) = h"
  "tok_used (new_token now i j h e) = None" "tok_revoked (new_token now i j h e) = None"
  "tok_expires (new_token now i j h e) = e" "fam_id (new_family now j u) = j" "fam_user (new_family now j u) = u"
  "fam_revoked (new_family now j u) = None" "fam_reason (new_family now j u) = None"
  by (simp_all add: new_token_def new_family_def)

text \<open>A transaction on sessions touches these two tables only, and no session changes its user.\<close>

definition session_frame :: "IdentityDB \<Rightarrow> IdentityDB \<Rightarrow> bool" where
  "session_frame db db' \<longleftrightarrow>
     db' = db\<lparr>id_families := id_families db', id_tokens := id_tokens db'\<rparr> \<and>
     family_change (id_families db) (id_tokens db) (id_families db') (id_tokens db') \<and>
     fam_user ` set (id_families db') \<subseteq> fam_user ` set (id_families db) \<union> usr_id ` set (id_users db)"

lemma CreateRefreshSession_frame:
  assumes "CreateRefreshSession now userID familyID tokenID tokenHash expiresAt db = Inr (x, db')"
  shows "db' = db\<lparr>id_families := id_families db @ [new_family now familyID userID],
      id_tokens := id_tokens db @ [new_token now tokenID familyID tokenHash expiresAt]\<rparr> \<and>
    family_change (id_families db) (id_tokens db) (id_families db') (id_tokens db') \<and> userID \<in> usr_id ` set (id_users db)"
proof -
  have fresh: "familyID \<notin> fam_id ` set (id_families db)" "userID \<in> usr_id ` set (id_users db)"
      "tokenID \<notin> tok_id ` set (id_tokens db)" "tokenHash \<notin> tok_hash ` set (id_tokens db)"
    and db': "db' = db\<lparr>id_families := id_families db @ [new_family now familyID userID],
      id_tokens := id_tokens db @ [new_token now tokenID familyID tokenHash expiresAt]\<rparr>"
    using assms by (auto simp: CreateRefreshSession_def insert_refresh_token_def bindE_Inr split: if_splits)
  then have "family_change (id_families db) (id_tokens db) (id_families db') (id_tokens db')"
    by (simp add: family_change.opened)
  with fresh db' show ?thesis by simp
qed

lemma rotate_token_frame:
  assumes "rotate_token now t newTokenID newTokenHash expiresAt db = Inr db'" "t \<in> set (id_tokens db)"
    "f \<in> set (id_families db)" "tok_family t = fam_id f" "fam_revoked f = None" "tok_used t = None"
  shows "db' = db\<lparr>id_tokens := row_update tok_id (tok_id t) (\<lambda>t. t\<lparr>tok_used := Some now\<rparr>) (id_tokens db) @
      [new_token now newTokenID (tok_family t) newTokenHash expiresAt]\<rparr> \<and>
    session_frame db db'"
proof -
  have "newTokenID \<notin> tok_id ` set (id_tokens db)" "newTokenHash \<notin> tok_hash ` set (id_tokens db)" and
      db': "db' = db\<lparr>id_tokens := row_update tok_id (tok_id t) (\<lambda>t. t\<lparr>tok_used := Some now\<rparr>) (id_tokens db) @
        [new_token now newTokenID (tok_family t) newTokenHash expiresAt]\<rparr>"
    using assms(1) by (auto simp: rotate_token_def insert_refresh_token_def row_update_image split: if_splits)
  then have "family_change (id_families db) (id_tokens db) (id_families db) (id_tokens db')"
    using family_change.rotated [OF assms(3,5,2,4,6)] assms(4) by simp
  then have "session_frame db db'" by (simp add: session_frame_def db')
  with db' show ?thesis by simp
qed

lemma revoke_family_change:
  "family_change (id_families db) (id_tokens db) (id_families (revoke_family now reason i db)) (id_tokens db)"
  by (auto simp: revoke_family_def intro: family_change.revoked)

lemma session_frame_same [simp]: "session_frame db db"
  by (simp add: session_frame_def family_change.same)

lemma session_frame_revoke [simp]: "session_frame db (revoke_family now reason i db)"
  by (simp add: session_frame_def revoke_family_def family_change.revoked row_update_image)

lemma session_frame_open:
  "CreateRefreshSession now userID familyID tokenID tokenHash expiresAt db = Inr (x, db') \<Longrightarrow> session_frame db db'"
  by (drule CreateRefreshSession_frame) (auto simp: session_frame_def)

lemma session_frame_rotate:
  assumes "RotateRefreshToken now tokenHash newTokenID newTokenHash expiresAt db = (res, db')"
  shows "session_frame db db'"
proof (cases "db' = db")
  case False
  then obtain t f where t: "row_find tok_hash tokenHash (id_tokens db) = Some t"
      "row_find fam_id (tok_family t) (id_families db) = Some f" "fam_revoked f = None"
    using assms by (auto simp: RotateRefreshToken_def split: option.splits if_splits)
  show ?thesis
  proof (cases "tok_used t \<noteq> None \<or> tok_revoked t \<noteq> None")
    case True
    then show ?thesis using assms t by (auto simp: RotateRefreshToken_def)
  next
    case unused: False
    then have "rotate_token now t newTokenID newTokenHash expiresAt db = Inr db'"
      using assms t False by (auto simp: RotateRefreshToken_def split: sum.splits if_splits)
    moreover have "t \<in> set (id_tokens db)" "f \<in> set (id_families db)" "tok_family t = fam_id f"
      using t by (auto dest: row_find_SomeD)
    ultimately show ?thesis
      using rotate_token_frame [of now t newTokenID newTokenHash expiresAt db db' f] t(3) unused by blast
  qed
qed simp

lemma session_frame_logout: "session_frame db (RevokeRefreshTokenFamily now tokenHash db)"
  by (simp add: RevokeRefreshTokenFamily_def split: option.splits)

text \<open>Likewise for keys.\<close>

definition key_frame :: "IdentityDB \<Rightarrow> IdentityDB \<Rightarrow> bool" where
  "key_frame db db' \<longleftrightarrow>
     db' = db\<lparr>id_keys := id_keys db'\<rparr> \<and> key_change (id_keys db) (id_keys db') \<and>
     key_user ` set (id_keys db') \<subseteq> key_user ` set (id_keys db) \<union> usr_id ` set (id_users db)"

lemma grantable_known: "ValidateGrantableScopes prin scopes = Inr () \<Longrightarrow> distinct scopes \<and> set scopes \<subseteq> set knownScopes"
  using HasScope_known by (fastforce simp: ValidateGrantableScopes_def grantable_loop_iff IsKnownScope_def)

lemma key_frame_create:
  assumes "CreateAPIKey keyID now userID name prefix keyHash scopes db = Inr (k, db')"
    "scopes \<noteq> []" "ValidateGrantableScopes prin scopes = Inr ()" "length prefix = 12"
  shows "key_frame db db'"
proof -
  obtain row where row: "db' = db\<lparr>id_keys := id_keys db @ [row]\<rparr>" "key_id row \<notin> key_id ` set (id_keys db)"
      "key_prefix row \<notin> key_prefix ` set (id_keys db)" "key_hash row \<notin> key_hash ` set (id_keys db)"
      "key_scopes row = scopes" "key_prefix row = prefix" "key_user row \<in> usr_id ` set (id_users db)"
    using assms(1) by (auto simp: CreateAPIKey_def Let_def split: if_splits)
  then have "key_change (id_keys db) (id_keys db @ [row])"
    using assms(2,4) grantable_known [OF assms(3)] by (intro key_change.added) simp_all
  then show ?thesis using row by (simp add: key_frame_def)
qed

lemma key_frame_revoke: "RevokeAPIKey now userID keyID db = Inr (u, db') \<Longrightarrow> key_frame db db'"
proof -
  assume "RevokeAPIKey now userID keyID db = Inr (u, db')"
  then have db': "db' = db\<lparr>id_keys := rows_update (\<lambda>k. key_id k = keyID \<and> key_user k = userID)
      (\<lambda>k. k\<lparr>key_revoked := Some (coalesce (key_revoked k) now)\<rparr>) (id_keys db)\<rparr>"
    by (auto simp: RevokeAPIKey_def split: if_splits)
  then have "map key_user (id_keys db') = map key_user (id_keys db)" by (simp add: rows_update_proj)
  then have "key_user ` set (id_keys db') = key_user ` set (id_keys db)" by (metis set_map)
  with db' show ?thesis by (simp add: key_frame_def key_change.revoked)
qed

lemma active_keyD:
  assumes "active_key prefix db = Some (k, u)" "distinct (map usr_id (id_users db))"
  shows "k \<in> set (id_keys db) \<and> key_prefix k = prefix \<and> key_revoked k = None \<and> u \<in> set (id_users db) \<and>
    usr_id u = key_user k \<and> usr_disabled u = None"
proof -
  have "find (\<lambda>k. key_prefix k = prefix \<and> key_revoked k = None \<and>
        list_ex (\<lambda>u. usr_id u = key_user k \<and> usr_disabled u = None) (id_users db)) (id_keys db) = Some k"
      and u: "row_find usr_id (key_user k) (id_users db) = Some u"
    using assms(1) by (auto simp: active_key_def split: option.splits)
  then have k: "k \<in> set (id_keys db)" "key_prefix k = prefix" "key_revoked k = None"
      "\<exists>v \<in> set (id_users db). usr_id v = key_user k \<and> usr_disabled v = None"
    by (auto simp: find_Some_iff list_ex_iff)
  from u have "u \<in> set (id_users db)" "usr_id u = key_user k" by (auto dest: row_find_SomeD)
  with k assms(2) show ?thesis by (metis distinct_map inj_onD)
qed

lemma session_frame_change:
  assumes "session_frame db db'" "accounts_ok lib db"
  shows "user_change lib (id_users db) (id_users db') \<and>
    family_change (id_families db) (id_tokens db) (id_families db') (id_tokens db') \<and>
    key_change (id_keys db) (id_keys db') \<and> scopes_ok (id_scopes db') \<and> references_ok db'"
proof -
  have "id_users db' = id_users db" "id_scopes db' = id_scopes db" "id_keys db' = id_keys db" "id_audit db' = id_audit db"
    using assms(1) unfolding session_frame_def by (metis IdentityDB.select_convs IdentityDB.surjective IdentityDB.update_convs)+
  moreover have "fam_user ` set (id_families db') \<subseteq> usr_id ` set (id_users db)"
  proof -
    have "fam_user ` set (id_families db') \<subseteq> fam_user ` set (id_families db) \<union> usr_id ` set (id_users db)"
      using assms(1) unfolding session_frame_def by (elim conjE)
    moreover have "fam_user ` set (id_families db) \<subseteq> usr_id ` set (id_users db)"
      using assms(2) by (simp add: accounts_ok_def references_ok_def Let_def)
    ultimately show ?thesis by blast
  qed
  ultimately show ?thesis using assms
    by (simp add: session_frame_def accounts_ok_def references_ok_def Let_def user_change.same key_change.same)
qed

lemma key_frame_change:
  assumes "key_frame db db'" "accounts_ok lib db"
  shows "user_change lib (id_users db) (id_users db') \<and>
    family_change (id_families db) (id_tokens db) (id_families db') (id_tokens db') \<and>
    key_change (id_keys db) (id_keys db') \<and> scopes_ok (id_scopes db') \<and> references_ok db'"
proof -
  have "id_users db' = id_users db" "id_scopes db' = id_scopes db" "id_families db' = id_families db"
      "id_tokens db' = id_tokens db" "id_audit db' = id_audit db"
    using assms(1) unfolding key_frame_def by (metis IdentityDB.select_convs IdentityDB.surjective IdentityDB.update_convs)+
  moreover have "key_user ` set (id_keys db') \<subseteq> usr_id ` set (id_users db)"
  proof -
    have "key_user ` set (id_keys db') \<subseteq> key_user ` set (id_keys db) \<union> usr_id ` set (id_users db)"
      using assms(1) unfolding key_frame_def by (elim conjE)
    moreover have "key_user ` set (id_keys db) \<subseteq> usr_id ` set (id_users db)"
      using assms(2) by (simp add: accounts_ok_def references_ok_def Let_def)
    ultimately show ?thesis by blast
  qed
  ultimately show ?thesis using assms
    by (simp add: key_frame_def accounts_ok_def references_ok_def Let_def user_change.same family_change.same)
qed

lemma key_frame_use:
  assumes "AuthenticateAPIKey now value presentedHash db = Inr (result, db')" "users_ok lib (id_users db)"
  shows "\<exists>k u. APIKeyPrefix value = Some (key_prefix k) \<and> k \<in> set (id_keys db) \<and> u \<in> set (id_users db) \<and>
    usr_id u = key_user k \<and> key_revoked k = None \<and> usr_disabled u = None \<and> key_hash k = presentedHash \<and>
    result = \<lparr>aa_Key = scan_key k, aa_User = scanUser db u, aa_Scopes = key_scopes k\<rparr> \<and>
    db' = db\<lparr>id_keys := row_update key_id (key_id k) (\<lambda>k. k\<lparr>key_used := Some now\<rparr>) (id_keys db)\<rparr> \<and> key_frame db db'"
proof -
  obtain prefix k u where "APIKeyPrefix value = Some prefix" and active: "active_key prefix db = Some (k, u)"
      and "key_hash k = presentedHash" "result = \<lparr>aa_Key = scan_key k, aa_User = scanUser db u, aa_Scopes = key_scopes k\<rparr>"
      and db': "db' = db\<lparr>id_keys := row_update key_id (key_id k) (\<lambda>k. k\<lparr>key_used := Some now\<rparr>) (id_keys db)\<rparr>"
    using assms(1) by (auto simp: AuthenticateAPIKey_def ConstantTimeCompare_def split: option.splits if_splits)
  moreover have "distinct (map usr_id (id_users db))" using assms(2) by (simp add: users_ok_def)
  note k = active_keyD [OF active this]
  moreover have "key_frame db db'" using k by (simp add: key_frame_def db' key_change.used row_update_image)
  ultimately show ?thesis by blast
qed

section \<open>The invariant\<close>

text \<open>A transaction changes users, scopes, sessions or keys, or adds an audit event.\<close>

lemma identity_change:
  assumes "identity lib db db'" "accounts_ok lib db"
  shows "user_change lib (id_users db) (id_users db') \<and>
    family_change (id_families db) (id_tokens db) (id_families db') (id_tokens db') \<and>
    key_change (id_keys db) (id_keys db') \<and> scopes_ok (id_scopes db') \<and> references_ok db'"
  using assms
proof (induction rule: identity.induct)
  case (create_user userID now email passwordHash role scopes db user db')
  obtain u where db': "db' = db\<lparr>id_users := id_users db @ [u], id_scopes := insert_scopes now userID scopes (id_scopes db)\<rparr>"
      "user_change lib (id_users db) (id_users db @ [u])" "usr_id u = userID"
    using CreateUser_frame [OF create_user(1)] by (elim exE conjE, intro that)
  let ?ids = "usr_id ` set (id_users db)"
  have old: "scp_user ` set (id_scopes db) \<subseteq> ?ids" "fam_user ` set (id_families db) \<subseteq> ?ids"
      "key_user ` set (id_keys db) \<subseteq> ?ids" "\<forall>a \<in> set (id_audit db). set_option (aud_actor a) \<subseteq> ?ids"
    using create_user(2) by (simp_all add: accounts_ok_def references_ok_def Let_def)
  have "scp_user ` set (insert_scopes now userID scopes (id_scopes db)) \<subseteq> insert userID ?ids"
    using insert_scopes_users [of now userID scopes "id_scopes db"] old(1) by blast
  then have "references_ok db'" using old db'(3) by (simp add: db'(1) references_ok_def Let_def subset_insertI2)
  then show ?case using create_user(2) db' insert_scopes_ok
    by (simp add: accounts_ok_def family_change.same key_change.same)
next
  case (audit fault now event db u db')
  then obtain a where db': "db' = db\<lparr>id_audit := id_audit db @ [a]\<rparr>" "set_option (aud_actor a) \<subseteq> usr_id ` set (id_users db)"
    by (auto simp: RecordAudit_def split: option.splits if_splits)
  then show ?case using audit(2)
    by (auto simp: accounts_ok_def references_ok_def Let_def user_change.same family_change.same key_change.same)
next
  case (disable db userID disabledAt)
  then show ?case
    by (simp add: accounts_ok_def references_ok_def Let_def user_change.flagged family_change.same key_change.same row_update_image)
next
  case (use_key now secret presentedHash db result db')
  then have "users_ok lib (id_users db)" by (simp add: accounts_ok_def)
  with use_key have "key_frame db db'" using key_frame_use by blast
  then show ?case using use_key(2) by (rule key_frame_change)
next
  case (create_session now userID familyID tokenID tokenHash expiresAt db u db')
  show ?case using session_frame_open [OF create_session(1)] create_session(2) by (rule session_frame_change)
next
  case (rotate now tokenHash newTokenID newTokenHash expiresAt db res db')
  show ?case using session_frame_rotate [OF rotate(1)] rotate(2) by (rule session_frame_change)
next
  case (revoke now tokenHash db db')
  show ?case using session_frame_logout [of db now tokenHash, unfolded revoke(1)] revoke(2) by (rule session_frame_change)
next
  case (create_key scopes prin random plaintext prefix keyHash keyID now name db k db')
  have "length prefix = 12" using create_key(3) by (auto simp: NewAPIKey_Inr APIKeyPrefix_def split: if_splits)
  then have "key_frame db db'" by (rule key_frame_create [OF create_key(4,1,2)])
  then show ?case using create_key(5) by (rule key_frame_change)
next
  case (revoke_key now userID keyID db u db')
  show ?case using key_frame_revoke [OF revoke_key(1)] revoke_key(2) by (rule key_frame_change)
qed

definition no_accounts :: "IdentityDB \<Rightarrow> bool" where
  "no_accounts db \<longleftrightarrow>
     id_users db = [] \<and> id_scopes db = [] \<and> id_families db = [] \<and> id_tokens db = [] \<and> id_keys db = [] \<and> id_audit db = []"

interpretation accounts: invariant_system no_accounts "identity lib" "accounts_ok lib" for lib
proof
  show "no_accounts db \<Longrightarrow> accounts_ok lib db" for db
    by (simp add: no_accounts_def accounts_ok_def users_ok_def scopes_ok_def sessions_ok_def keys_ok_def references_ok_def)
next
  fix db db' assume "accounts_ok lib db" "identity lib db db'"
  then show "accounts_ok lib db'" using identity_change [of lib db db'] user_change_ok family_change_ok key_change_ok
    by (metis accounts_ok_def)
qed

section \<open>What stays in every run\<close>

text \<open>A fact about one state that every transaction keeps holds in every later state.\<close>

lemma run_keeps:
  assumes "(identity lib)\<^sup>*\<^sup>* db db'" "accounts_ok lib db" "P db"
    and "\<And>s s'. identity lib s s' \<Longrightarrow> accounts_ok lib s \<Longrightarrow> P s \<Longrightarrow> P s'"
  shows "P db'"
  using assms(1)
proof (induction rule: rtranclp_induct)
  case (step s s')
  then show ?case using assms(2,4) accounts.steps_inv by blast
qed (rule assms(3))

lemma run_used:
  assumes "(identity lib)\<^sup>*\<^sup>* db db'" "accounts_ok lib db" "t \<in> set (id_tokens db)" "tok_used t \<noteq> None"
  shows "t \<in> set (id_tokens db')"
  using run_keeps [OF assms(1,2), of "\<lambda>s. t \<in> set (id_tokens s)"] assms(3,4) family_change_used identity_change
  by (metis accounts_ok_def)

lemma run_revoked:
  assumes "(identity lib)\<^sup>*\<^sup>* db db'" "accounts_ok lib db" "f \<in> set (id_families db)" "fam_revoked f \<noteq> None"
  shows "f \<in> set (id_families db') \<and>
    filter (\<lambda>t. tok_family t = fam_id f) (id_tokens db') = filter (\<lambda>t. tok_family t = fam_id f) (id_tokens db)"
  using run_keeps [OF assms(1,2), of "\<lambda>s. f \<in> set (id_families s) \<and>
    filter (\<lambda>t. tok_family t = fam_id f) (id_tokens s) = filter (\<lambda>t. tok_family t = fam_id f) (id_tokens db)"]
    assms(3,4) family_change_revoked identity_change
  by (metis (no_types, lifting) accounts_ok_def)

lemma run_revoked_key:
  assumes "(identity lib)\<^sup>*\<^sup>* db db'" "accounts_ok lib db" "k \<in> set (id_keys db)" "key_revoked k \<noteq> None"
  shows "k \<in> set (id_keys db')"
  using run_keeps [OF assms(1,2), of "\<lambda>s. k \<in> set (id_keys s)"] assms(3,4) key_change_revoked identity_change
  by (metis accounts_ok_def)

lemma run_user:
  assumes "(identity lib)\<^sup>*\<^sup>* db db'" "accounts_ok lib db" "u \<in> set (id_users db)"
  shows "\<exists>x. u\<lparr>usr_disabled := x\<rparr> \<in> set (id_users db')"
proof (rule run_keeps [OF assms(1,2)])
  show "\<exists>x. u\<lparr>usr_disabled := x\<rparr> \<in> set (id_users db)"
    using assms(3) by (intro exI [of _ "usr_disabled u"]) simp
next
  fix s s' assume "identity lib s s'" "accounts_ok lib s" "\<exists>x. u\<lparr>usr_disabled := x\<rparr> \<in> set (id_users s)"
  then obtain x where x: "u\<lparr>usr_disabled := x\<rparr> \<in> set (id_users s)" and step: "identity lib s s'" "accounts_ok lib s" by blast
  obtain y where "u\<lparr>usr_disabled := x, usr_disabled := y\<rparr> \<in> set (id_users s')"
    using user_change_kept [OF conjunct1 [OF identity_change [OF step]] x] by blast
  then show "\<exists>x. u\<lparr>usr_disabled := x\<rparr> \<in> set (id_users s')" by auto
qed

section \<open>The service\<close>

text \<open>Every call of the service is a run of transactions.\<close>

lemma recordAudit_step: "recordAudit d now userID action requestID metadata db = Inr (u, db') \<Longrightarrow> identity lib db db'"
  unfolding recordAudit_def by (rule identity.audit)

lemma issueTokenPair_step: "issueTokenPair lib s d now user db = Inr (pair, db') \<Longrightarrow> identity lib db db'"
  by (auto simp: issueTokenPair_def bindE_Inr intro: identity.create_session)

lemma open_session_run:
  "open_session lib s d now user action requestID metadata db = (res, db') \<Longrightarrow> (identity lib)\<^sup>*\<^sup>* db db'"
  by (auto simp: open_session_def split: sum.splits prod.splits
      dest!: issueTokenPair_step recordAudit_step [where lib = lib] intro: rtranclp.rtrancl_into_rtrancl)

lemma Register_run: "Register lib s d now email password requestID db = (res, db') \<Longrightarrow> (identity lib)\<^sup>*\<^sup>* db db'"
  by (auto simp: Register_def split: sum.splits prod.splits
      dest!: identity.create_user open_session_run intro: converse_rtranclp_into_rtranclp)

lemma Login_run: "Login lib s d now email password requestID db = (res, db') \<Longrightarrow> (identity lib)\<^sup>*\<^sup>* db db'"
  by (auto simp: Login_def split: sum.splits if_splits dest!: open_session_run)

lemma Refresh_run: "Refresh lib s d now refreshToken requestID db = (res, db') \<Longrightarrow> (identity lib)\<^sup>*\<^sup>* db db'"
  by (auto simp: Refresh_def split: sum.splits prod.splits if_splits
      dest!: identity.rotate [where lib = lib] recordAudit_step [where lib = lib] intro: rtranclp.rtrancl_into_rtrancl)

lemma Logout_run: "Logout lib s d now refreshToken requestID db = (res, db') \<Longrightarrow> (identity lib)\<^sup>*\<^sup>* db db'"
  using identity.revoke [where lib = lib, OF refl]
  by (auto simp: Logout_def Let_def run_tx_def split: sum.splits prod.splits if_splits
      dest!: identity.audit [where lib = lib])
    (blast intro: converse_rtranclp_into_rtranclp)

lemma Service_AuthenticateAPIKey_run:
  "Service_AuthenticateAPIKey lib s now text db = Inr (prin, db') \<Longrightarrow> (identity lib)\<^sup>*\<^sup>* db db'"
  by (auto simp: Service_AuthenticateAPIKey_def bindE_Inr split: if_splits intro: identity.use_key)

lemma Service_CreateAPIKey_run:
  "Service_CreateAPIKey lib s d now prin name scopes requestID db = (res, db') \<Longrightarrow> (identity lib)\<^sup>*\<^sup>* db db'"
  by (auto simp: Service_CreateAPIKey_def split: sum.splits prod.splits if_splits
      dest!: identity.create_key [where lib = lib] recordAudit_step [where lib = lib] identity.revoke_key [where lib = lib]
      intro: rtranclp.rtrancl_into_rtrancl)

lemma Service_RevokeAPIKey_run:
  "Service_RevokeAPIKey lib s d now prin keyID requestID db = (res, db') \<Longrightarrow> (identity lib)\<^sup>*\<^sup>* db db'"
  by (auto simp: Service_RevokeAPIKey_def run_tx_def split: sum.splits prod.splits if_splits
      dest!: identity.revoke_key [where lib = lib] recordAudit_step [where lib = lib] intro: rtranclp.rtrancl_into_rtrancl)

section \<open>What a presented token does\<close>

text \<open>A token of a consistent database selects its own row and the row of its family.\<close>

lemma token_found:
  assumes "accounts_ok lib db" "t \<in> set (id_tokens db)"
  obtains f where "row_find tok_hash (tok_hash t) (id_tokens db) = Some t"
    "row_find fam_id (tok_family t) (id_families db) = Some f" "f \<in> set (id_families db)" "fam_id f = tok_family t"
proof -
  have ok: "sessions_ok (id_families db) (id_tokens db)" using assms(1) by (simp add: accounts_ok_def)
  then have "tok_family t \<in> fam_id ` set (id_families db)" using assms(2) by (auto simp: sessions_ok_def)
  then obtain f where "f \<in> set (id_families db)" "fam_id f = tok_family t" by auto
  with ok assms(2) that show thesis by (simp add: sessions_ok_def row_find_distinct)
qed

text \<open>Any token of a revoked family is refused, and nothing changes.\<close>

lemma revoked_refused:
  assumes "accounts_ok lib db" "t \<in> set (id_tokens db)" "f \<in> set (id_families db)" "tok_family t = fam_id f" "fam_revoked f \<noteq> None"
  shows "RotateRefreshToken now (tok_hash t) i h e db = (Inl IdentityErrRefreshTokenInvalid, db)"
proof -
  have "row_find fam_id (tok_family t) (id_families db) = Some f" "row_find tok_hash (tok_hash t) (id_tokens db) = Some t"
    using assms by (simp_all add: accounts_ok_def sessions_ok_def row_find_distinct)
  then show ?thesis using assms(5) by (simp add: RotateRefreshToken_def)
qed

text \<open>After \<open>revoke_family\<close> the family is revoked.\<close>

lemma revoke_family_revokes:
  "f \<in> set (id_families db) \<Longrightarrow> \<exists>g \<in> set (id_families (revoke_family now reason (fam_id f) db)). fam_id g = fam_id f \<and> fam_revoked g \<noteq> None"
  by (rule bexI [of _ "f\<lparr>fam_revoked := Some (coalesce (fam_revoked f) now), fam_reason := Some (coalesce (fam_reason f) reason)\<rparr>"])
    (auto simp: revoke_family_def row_update_def image_iff intro: bexI [of _ f])

text \<open>A used token is refused and leaves its family revoked.\<close>

lemma used_refused:
  assumes "accounts_ok lib db" "t \<in> set (id_tokens db)" "tok_used t \<noteq> None"
    "RotateRefreshToken now (tok_hash t) i h e db = (res, db')"
  shows "(res = Inl IdentityErrRefreshTokenReplay \<or> res = Inl IdentityErrRefreshTokenInvalid) \<and> id_tokens db' = id_tokens db \<and>
    (\<exists>g \<in> set (id_families db'). fam_id g = tok_family t \<and> fam_revoked g \<noteq> None)"
proof -
  from assms(1,2) obtain f where f: "row_find tok_hash (tok_hash t) (id_tokens db) = Some t"
      "row_find fam_id (tok_family t) (id_families db) = Some f" "f \<in> set (id_families db)" "fam_id f = tok_family t"
    by (rule token_found)
  show ?thesis
  proof (cases "fam_revoked f = None")
    case True
    then have "res = Inl IdentityErrRefreshTokenReplay" "db' = revoke_family now ''refresh_token_reuse'' (fam_id f) db"
      using assms(3,4) f by (auto simp: RotateRefreshToken_def)
    then show ?thesis using revoke_family_revokes [OF f(3)] f(4) by (auto simp: revoke_family_def)
  next
    case False
    then show ?thesis using assms(4) f by (auto simp: RotateRefreshToken_def)
  qed
qed

text \<open>
  Once a family is revoked, no token of it is accepted in any later state; there are no tokens of
  it but those it had.
\<close>

lemma revoked_for_good:
  assumes "accounts_ok lib db" "f \<in> set (id_families db)" "fam_revoked f \<noteq> None" "(identity lib)\<^sup>*\<^sup>* db db'"
    "t \<in> set (id_tokens db')" "tok_family t = fam_id f"
  shows "t \<in> set (id_tokens db) \<and> RotateRefreshToken now (tok_hash t) i h e db' = (Inl IdentityErrRefreshTokenInvalid, db')"
proof -
  have later: "f \<in> set (id_families db')"
      "filter (\<lambda>t. tok_family t = fam_id f) (id_tokens db') = filter (\<lambda>t. tok_family t = fam_id f) (id_tokens db)"
    using run_revoked [OF assms(4,1,2,3)] by simp_all
  have "t \<in> set (filter (\<lambda>t. tok_family t = fam_id f) (id_tokens db'))" using assms(5,6) by simp
  then have "t \<in> set (id_tokens db)" by (simp only: later(2)) simp
  moreover have "accounts_ok lib db'" using accounts.steps_inv [OF assms(4,1)] .
  ultimately show ?thesis using revoked_refused [OF _ assms(5) later(1) assms(6,3)] by blast
qed

text \<open>What a successful rotation leaves.\<close>

lemma rotate_succeeds:
  assumes "RotateRefreshToken now tokenHash newTokenID newTokenHash expiresAt db = (Inr user, db')"
  shows "\<exists>t f u. t \<in> set (id_tokens db) \<and> tok_hash t = tokenHash \<and> tok_used t = None \<and> now < tok_expires t \<and>
    f \<in> set (id_families db) \<and> fam_id f = tok_family t \<and> fam_revoked f = None \<and> u \<in> set (id_users db) \<and>
    usr_id u = fam_user f \<and> user = scanUser db u \<and> newTokenHash \<notin> tok_hash ` set (id_tokens db) \<and>
    db' = db\<lparr>id_tokens := row_update tok_id (tok_id t) (\<lambda>t. t\<lparr>tok_used := Some now\<rparr>) (id_tokens db) @
      [new_token now newTokenID (tok_family t) newTokenHash expiresAt]\<rparr>"
proof -
  obtain t f where t: "row_find tok_hash tokenHash (id_tokens db) = Some t" "row_find fam_id (tok_family t) (id_families db) = Some f"
      "fam_revoked f = None" "tok_used t = None" "now < tok_expires t" "FindUserByID (fam_user f) db = Inr user"
      "rotate_token now t newTokenID newTokenHash expiresAt db = Inr db'"
    using assms by (auto simp: RotateRefreshToken_def split: option.splits sum.splits if_splits)
  obtain u where u: "row_find usr_id (fam_user f) (id_users db) = Some u" "user = scanUser db u"
    using t(6) by (auto simp: FindUserByID_def split: option.splits)
  have "newTokenHash \<notin> tok_hash ` set (id_tokens db)"
      "db' = db\<lparr>id_tokens := row_update tok_id (tok_id t) (\<lambda>t. t\<lparr>tok_used := Some now\<rparr>) (id_tokens db) @
        [new_token now newTokenID (tok_family t) newTokenHash expiresAt]\<rparr>"
    using t(7) by (auto simp: rotate_token_def insert_refresh_token_def row_update_image split: if_splits)
  then show ?thesis using t(3-5) u(2) row_find_SomeD [OF t(1)] row_find_SomeD [OF t(2)] row_find_SomeD [OF u(1)]
    by (intro exI [of _ t] exI [of _ f] exI [of _ u] conjI) simp_all
qed

lemma rotated_tokens:
  assumes "accounts_ok lib db" "RotateRefreshToken now tokenHash newTokenID newTokenHash expiresAt db = (Inr user, db')"
  shows "\<exists>t u. t \<in> set (id_tokens db') \<and> tok_hash t = tokenHash \<and> tok_used t \<noteq> None \<and>
    u \<in> set (id_tokens db') \<and> tok_hash u = newTokenHash \<and> tok_family u = tok_family t \<and> tok_used u = None"
proof -
  obtain t where t: "t \<in> set (id_tokens db)" "tok_hash t = tokenHash" and
      db': "id_tokens db' = row_update tok_id (tok_id t) (\<lambda>t. t\<lparr>tok_used := Some now\<rparr>) (id_tokens db) @
        [new_token now newTokenID (tok_family t) newTokenHash expiresAt]"
    using rotate_succeeds [OF assms(2)] by force
  have "distinct (map tok_id (id_tokens db))" using assms(1) by (simp add: accounts_ok_def sessions_ok_def)
  from row_update_mem [OF this t(1) refl] show ?thesis
    using t db' by (intro exI [of _ "t\<lparr>tok_used := Some now\<rparr>"] exI [of _ "new_token now newTokenID (tok_family t) newTokenHash expiresAt"]) simp
qed

text \<open>A token keeps its hash and its family.\<close>

lemma family_change_token:
  "family_change fs ts fs' ts' \<Longrightarrow> t \<in> set ts \<Longrightarrow> \<exists>u \<in> set ts'. tok_hash u = tok_hash t \<and> tok_family u = tok_family t"
proof (induction rule: family_change.induct)
  case (rotated f fs s ts t' now)
  then have "(if tok_id t = tok_id s then t\<lparr>tok_used := Some now\<rparr> else t) \<in>
      set (row_update tok_id (tok_id s) (\<lambda>t. t\<lparr>tok_used := Some now\<rparr>) ts @ [t'])"
    by (auto simp: row_update_def)
  then show ?case by (rule bexI [rotated]) simp
qed auto

lemma run_token:
  assumes "(identity lib)\<^sup>*\<^sup>* db db'" "accounts_ok lib db" "t \<in> set (id_tokens db)"
  shows "\<exists>u \<in> set (id_tokens db'). tok_hash u = tok_hash t \<and> tok_family u = tok_family t"
proof (rule run_keeps [OF assms(1,2)])
  fix s s' assume step: "identity lib s s'" "accounts_ok lib s"
    and "\<exists>u \<in> set (id_tokens s). tok_hash u = tok_hash t \<and> tok_family u = tok_family t"
  then obtain u where "u \<in> set (id_tokens s)" "tok_hash u = tok_hash t" "tok_family u = tok_family t" by blast
  then show "\<exists>u \<in> set (id_tokens s'). tok_hash u = tok_hash t \<and> tok_family u = tok_family t"
    using family_change_token identity_change [OF step] by metis
qed (use assms(3) in blast)

section \<open>Keys and accounts\<close>

lemma active_keyI:
  assumes "accounts_ok lib db" "k \<in> set (id_keys db)" "key_revoked k = None"
    "u \<in> set (id_users db)" "usr_id u = key_user k" "usr_disabled u = None"
  shows "active_key (key_prefix k) db = Some (k, u)"
proof -
  let ?P = "\<lambda>j. key_prefix j = key_prefix k \<and> key_revoked j = None \<and>
    list_ex (\<lambda>u. usr_id u = key_user j \<and> usr_disabled u = None) (id_users db)"
  have d: "distinct (map key_prefix (id_keys db))" "distinct (map usr_id (id_users db))"
    using assms(1) by (simp_all add: accounts_ok_def keys_ok_def users_ok_def)
  have "?P k" using assms(3-6) by (auto simp: list_ex_iff)
  then have "find ?P (id_keys db) \<noteq> None" using assms(2) by (auto simp: find_None_iff)
  then obtain j where j: "find ?P (id_keys db) = Some j" by blast
  then have "j \<in> set (id_keys db)" "key_prefix j = key_prefix k" by (auto simp: find_Some_iff)
  then have "j = k" using d(1) assms(2) by (metis distinct_map inj_onD)
  then show ?thesis using j d(2) assms(4,5) by (simp add: active_key_def row_find_distinct)
qed

text \<open>A key that was created is the only new one; when its creation is taken back, it is revoked.\<close>

lemma CreateAPIKey_row:
  assumes "CreateAPIKey keyID now userID name prefix keyHash scopes db = Inr (key, db')"
  obtains k where "db' = db\<lparr>id_keys := id_keys db @ [k]\<rparr>" "key = scan_key k" "key_id k = keyID" "key_user k = userID"
    "key_prefix k = prefix" "key_hash k = keyHash" "key_scopes k = scopes" "key_revoked k = None"
    "keyID \<notin> key_id ` set (id_keys db)" "userID \<in> usr_id ` set (id_users db)"
  using assms by (auto simp: CreateAPIKey_def Let_def split: if_splits)

lemma Service_CreateAPIKey_cases:
  assumes "Service_CreateAPIKey lib s d now prin name scopes requestID db = (res, db1)"
  obtains (early) e where "res = Inl e" "db1 = db"
    | (stored) validatedName plaintext prefix keyHash key db0 where "validateService s = Inr ()"
        "ValidateGrantableScopes prin scopes = Inr ()" "NewAPIKey lib (dr_Secret d) = Inr (plaintext, prefix, keyHash)"
        "CreateAPIKey (dr_Key d) now (prin_UserID prin) validatedName prefix keyHash scopes db = Inr (key, db0)"
        "(res, db1) = (case recordAudit d now (prin_UserID prin) ''identity.api_key.create'' requestID
          (Some [(''keyId'', JStr (uuid_String lib (ak_ID key))), (''scopeCount'', JNum (nat_text (length scopes)))]) db0 of
            Inl err \<Rightarrow> (case RevokeAPIKey now (prin_UserID prin) (ak_ID key) db0 of
               Inl revokeErr \<Rightarrow> (Inl (ErrJoin [err, revokeErr]), db0)
             | Inr (_, db2) \<Rightarrow> (Inl err, db2))
          | Inr (_, db2) \<Rightarrow> (Inr (key, plaintext), db2))"
  using assms by (auto simp: Service_CreateAPIKey_def split: sum.splits if_splits)

lemma undone_key:
  assumes "key_id k \<notin> key_id ` set (id_keys db)" "RevokeAPIKey now (key_user k) (key_id k) (db\<lparr>id_keys := id_keys db @ [k]\<rparr>) = r"
  shows "\<exists>db'. r = Inr ((), db') \<and> {j \<in> set (id_keys db'). key_revoked j = None} \<subseteq> set (id_keys db)"
  using assms by (auto simp: RevokeAPIKey_def rows_update_def image_iff)

text \<open>The two ways to find a user of a consistent database.\<close>

lemma user_found:
  assumes "accounts_ok lib db" "u \<in> set (id_users db)"
  shows "FindUserByID (usr_id u) db = Inr (scanUser db u)" "FindUserByEmail (usr_email u) db = Inr (scanUser db u)"
proof -
  have "distinct (map usr_id (id_users db))" "distinct (map usr_email (id_users db))"
    using assms(1) by (simp_all add: accounts_ok_def users_ok_def)
  then have "row_find usr_id (usr_id u) (id_users db) = Some u" "row_find usr_email (usr_email u) (id_users db) = Some u"
    using assms(2) by (simp_all add: row_find_distinct)
  then show "FindUserByID (usr_id u) db = Inr (scanUser db u)" "FindUserByEmail (usr_email u) db = Inr (scanUser db u)"
    by (simp_all add: FindUserByID_def FindUserByEmail_def)
qed

lemma open_session_Inr:
  assumes "open_session lib s d now user action requestID metadata db = (Inr (user', pair), db')"
  shows "user' = user \<and>
    Issue lib (sv_AccessTokens s) (dr_Issued d) (dr_JTI d) (user_ID user) = Inr (tp_AccessToken pair, tp_AccessTokenExpiry pair)"
  using assms by (auto simp: open_session_def issueTokenPair_def bindE_Inr split: sum.splits prod.splits)

lemma Login_Inr:
  assumes "Login lib s d now email password requestID db = (Inr (user, pair), db')"
  obtains u where "u \<in> set (id_users db)" "user = scanUser db u" "validateService s = Inr ()"
    "open_session lib s d now user ''identity.login'' requestID None db = (Inr (user, pair), db')"
proof -
  obtain normalized v where n: "validateService s = Inr ()" "FindUserByEmail normalized db = Inr v"
      "open_session lib s d now v ''identity.login'' requestID None db = (Inr (user, pair), db')"
    using assms by (auto simp: Login_def split: sum.splits if_splits)
  then obtain u where "u \<in> set (id_users db)" "v = scanUser db u"
    by (auto simp: FindUserByEmail_def dest: row_find_SomeD split: option.splits)
  then show thesis using that n open_session_Inr [OF n(3)] by simp
qed

lemma Register_Inr:
  assumes "Register lib s d now email password requestID db = (Inr (user, pair), db')"
  obtains u normalized where "u \<in> set (id_users db')" "usr_id u = user_ID user" "usr_email u = normalized" "usr_disabled u = None"
    "Hash lib (dr_Salt d) password = Inr (usr_hash u)" "normalizeEmail lib email = Inr normalized"
proof -
  obtain normalized hash v db0 where r: "normalizeEmail lib email = Inr normalized" "Hash lib (dr_Salt d) password = Inr hash"
      "CreateUser (lib_LOWER lib) (dr_User d) now normalized hash RoleUser DefaultUserScopes db = Inr (v, db0)"
      "open_session lib s d now v ''identity.register'' requestID (Some [(''role'', JStr (role_text (user_Role v)))]) db0 = (Inr (user, pair), db')"
    using assms by (auto simp: Register_def split: sum.splits prod.splits)
  have "user = v" using open_session_Inr [OF r(4)] by simp
  moreover have "id_users db' = id_users db0"
    using r(4) by (auto simp: open_session_def issueTokenPair_def bindE_Inr recordAudit_def RecordAudit_def
        dest!: CreateRefreshSession_frame split: sum.splits prod.splits option.splits if_splits)
  moreover have "\<exists>u \<in> set (id_users db0). usr_id u = user_ID v \<and> usr_email u = normalized \<and> usr_hash u = hash \<and> usr_disabled u = None"
    using CreateUser_frame [OF r(3)] by fastforce
  ultimately show thesis using that r(1,2) by auto
qed

end
