(* ===== verification/IdentityProperties.thy ===== *)
theory IdentityProperties
  imports Accounts Samples
begin

text \<open>
  What identity guarantees: consistent tables, refresh tokens that work once and families that end
  for good, API keys with no more rights than they were given, and logins that depend on the
  password and the account alone.
\<close>

section \<open>A registered user\<close>

text \<open>
  Functions in place of the libraries, and one user: registration, login, an exchanged refresh
  token and an API key.
\<close>

definition sample_claims :: accessClaims where
  "sample_claims =
    \<lparr>ac_TokenType = ''access'', ac_Issuer = AccessTokenIssuer, ac_Subject = replicate 7 (CHR ''u''), ac_ID = replicate 5 (CHR ''u''),
     ac_IssuedAt = 2 * Second, ac_NotBefore = 2 * Second, ac_ExpiresAt = 902 * Second\<rparr>"

definition sample_libraries :: Libraries where
  "sample_libraries =
    \<lparr>uuid_String = (\<lambda>u. replicate (unat u) (CHR ''u'')), json_size = (\<lambda>v. 1), json_quote = (\<lambda>s. s),
     float64_text = (\<lambda>r. ''0''), float32_text = (\<lambda>r. ''0''), parse_float = (\<lambda>s. None), sha256_hex = (\<lambda>s. s),
     uuid_Parse = (\<lambda>s. Some (of_nat (length s))), time_Parse = (\<lambda>s. None), json_fold = (\<lambda>s. s),
     lib_IDKey = (\<lambda>salt password t m p n. take n (password @ replicate n (CHR ''0''))), lib_Sum256 = (\<lambda>s. s),
     lib_SignedString = (\<lambda>claims key. if claims = sample_claims then Inr ''jwt'' else Inl (ErrText ''unsigned'')),
     lib_ParseWithClaims = (\<lambda>key issuer now s. if s = ''jwt'' \<and> issuer = AccessTokenIssuer \<and> 2 * Second \<le> now \<and>
       now < 902 * Second then Some sample_claims else None),
     lib_NewNumericDate = (\<lambda>t. t - t mod Second), lib_ToLower = ToLower, lib_LOWER = ToLower, lib_ParseAddress = Some\<rparr>"

definition sample_service :: IdentityService where
  "sample_service =
    \<lparr>sv_AccessTokens = NewAccessTokenService (replicate 32 (CHR ''k'')) (900 * Second), sv_RefreshTokenTTL = 1000 * Second\<rparr>"

definition sample_identity_draws :: "nat \<Rightarrow> char \<Rightarrow> IdentityDraws" where
  "sample_identity_draws n c =
    \<lparr>dr_User = 7, dr_Family = of_nat (10 + n), dr_Token = of_nat (20 + n), dr_JTI = 5, dr_Key = of_nat (30 + n),
     dr_Salt = replicate 16 (CHR ''s''), dr_Secret = replicate 32 c, dr_Issued = 2 * Second, dr_Clock = 2 * Second, dr_Fault = None\<rparr>"

definition sample_accounts :: IdentityDB where
  "sample_accounts = \<lparr>id_users = [], id_scopes = [], id_families = [], id_tokens = [], id_keys = [], id_audit = []\<rparr>"

definition sample_registration :: "(User \<times> TokenPair) result \<times> IdentityDB" where
  "sample_registration = Register sample_libraries sample_service (sample_identity_draws 0 (CHR ''a'')) (2 * Second)
    ''Ada@example.org'' ''correct horse'' ''r1'' sample_accounts"

lemma sample_registration_value [code]:
  "sample_registration =
    (Inr (\<lparr>user_ID = 7, user_Email = ''ada@example.org'', user_PasswordHash =
    ''argon2id$v=19$m=65536,t=3,p=2$c3Nzc3Nzc3Nzc3Nzc3Nzcw$Y29ycmVjdCBob3JzZTAwMDAwMDAwMDAwMDAwMDAwMDA'', user_Role =
    RoleUser, user_Scopes = [ScopeDatasetsRead, ScopeDatasetsWrite, ScopeJobsRead, ScopeJobsWrite, ScopeArtifactsRead],
    user_DisabledAt = None, user_CreatedAt = 0, user_UpdatedAt = 0\<rparr>, \<lparr>tp_AccessToken = ''jwt'',
    tp_RefreshToken = ''YWFhYWFhYWFhYWFhYWFhYWFhYWFhYWFhYWFhYWFhYWE'', tp_AccessTokenExpiry = 902000000000\<rparr>),
    \<lparr>id_users = [\<lparr>usr_id = 7, usr_email = ''ada@example.org'', usr_hash =
    ''argon2id$v=19$m=65536,t=3,p=2$c3Nzc3Nzc3Nzc3Nzc3Nzcw$Y29ycmVjdCBob3JzZTAwMDAwMDAwMDAwMDAwMDAwMDA'', usr_role =
    RoleUser, usr_disabled = None, usr_created = 2000000000, usr_updated = 2000000000\<rparr>], id_scopes =
    [\<lparr>scp_user = 7, scp_scope = ScopeDatasetsRead, scp_created = 2000000000\<rparr>, \<lparr>scp_user = 7,
    scp_scope = ScopeDatasetsWrite, scp_created = 2000000000\<rparr>, \<lparr>scp_user = 7, scp_scope = ScopeJobsRead,
    scp_created = 2000000000\<rparr>, \<lparr>scp_user = 7, scp_scope = ScopeJobsWrite, scp_created = 2000000000\<rparr>,
    \<lparr>scp_user = 7, scp_scope = ScopeArtifactsRead, scp_created = 2000000000\<rparr>], id_families = [\<lparr>fam_id
    = 10, fam_user = 7, fam_created = 2000000000, fam_revoked = None, fam_reason = None\<rparr>], id_tokens =
    [\<lparr>tok_id = 20, tok_family = 10, tok_hash = ''YWFhYWFhYWFhYWFhYWFhYWFhYWFhYWFhYWFhYWFhYWE'', tok_issued =
    2000000000, tok_expires = 1002000000000, tok_used = None, tok_revoked = None\<rparr>], id_keys = [], id_audit =
    [\<lparr>aud_actor = Some 7, aud_action = ''identity.register'', aud_resource_type = None, aud_resource_id = None,
    aud_request = Some ''r1'', aud_metadata = JObj [(''role'', JStr ''USER'')], aud_created = 2000000000\<rparr>]\<rparr>)"
  by code_simp

lemma sample_registration_ok: "\<not> isl (fst sample_registration)"
  by code_simp

definition sample_identity :: IdentityDB where
  "sample_identity = snd sample_registration"

definition sample_token :: string where
  "sample_token = tp_RefreshToken (snd (projr (fst sample_registration)))"

definition sample_refresh :: "(User \<times> TokenPair) result \<times> IdentityDB" where
  "sample_refresh = Refresh sample_libraries sample_service (sample_identity_draws 1 (CHR ''b'')) (3 * Second) sample_token ''r2''
    sample_identity"

definition sample_reuse :: "(User \<times> TokenPair) result \<times> IdentityDB" where
  "sample_reuse = Refresh sample_libraries sample_service (sample_identity_draws 2 (CHR ''c'')) (4 * Second) sample_token ''r3''
    (snd sample_refresh)"

definition sample_owner :: Principal where
  "sample_owner = \<lparr>prin_UserID = 7, prin_Role = RoleUser, prin_Scopes = DefaultUserScopes, prin_AuthMethod = AuthMethodBearer\<rparr>"

definition sample_key :: "(APIKey \<times> string) result \<times> IdentityDB" where
  "sample_key = Service_CreateAPIKey sample_libraries sample_service (sample_identity_draws 3 (CHR ''d'')) (3 * Second) sample_owner
    ''ci'' [ScopeJobsRead] ''r4'' sample_identity"

definition sample_secret :: string where
  "sample_secret = snd (projr (fst sample_key))"

definition sample_login :: "(User \<times> TokenPair) result \<times> IdentityDB" where
  "sample_login = Login sample_libraries sample_service (sample_identity_draws 6 (CHR ''g'')) (3 * Second) ''ada@example.org'' ''correct horse''
    ''r7'' sample_identity"

lemma sample_calls_ok: "\<not> isl (fst sample_refresh)" "\<not> isl (fst sample_key)"
  by code_simp+

lemma Inr_pair: "\<not> isl (fst r) \<Longrightarrow> r = (Inr (fst (projr (fst r)), snd (projr (fst r))), snd r)"
  by (cases r; cases "fst r") auto

lemmas sample_results = Inr_pair [OF sample_registration_ok] Inr_pair [OF sample_calls_ok(1)] Inr_pair [OF sample_calls_ok(2)]

lemma sample_reachable: "reachable no_accounts (identity sample_libraries) sample_identity"
    "reachable no_accounts (identity sample_libraries) (snd sample_key)"
proof -
  have "reachable no_accounts (identity sample_libraries) sample_accounts"
    by (rule reachable.start) (simp add: no_accounts_def sample_accounts_def)
  then show user: "reachable no_accounts (identity sample_libraries) sample_identity"
    using Register_run [OF sample_results(1) [unfolded sample_registration_def]]
    by (simp add: reachable_run sample_identity_def sample_registration_def)
  show "reachable no_accounts (identity sample_libraries) (snd sample_key)"
    using reachable_run [OF Service_CreateAPIKey_run [OF sample_results(3) [unfolded sample_key_def]] user]
    by (simp add: sample_key_def)
qed

section \<open>Sessions\<close>

lemma reachable_ok: "reachable no_accounts (identity lib) db \<Longrightarrow> accounts_ok lib db"
  by (rule accounts.reachable_inv)

text \<open>
  A presented refresh token reaches the rotation, when the service is configured and can draw a new
  token.
\<close>

lemma Refresh_error:
  assumes "0 < sv_RefreshTokenTTL s" "token \<noteq> []" "32 \<le> length (dr_Secret d)" "Refresh lib s d now token requestID db = (res, db')"
  obtains h i e r db1 where "RotateRefreshToken now (HashOpaqueToken lib token) i h e db = (r, db1)"
    "\<And>err. r = Inl err \<Longrightarrow> res = Inl err \<and> db' = db1"
proof -
  obtain v h where "NewOpaqueToken lib (dr_Secret d) = Inr (v, h)"
    using assms(3) NewOpaqueToken_Inr by blast
  moreover obtain r db1 where r: "RotateRefreshToken now (HashOpaqueToken lib token) (dr_Token d) h (dr_Clock d + sv_RefreshTokenTTL s) db = (r, db1)"
    by fastforce
  moreover have "validateService s = Inr ()" using assms(1) by (simp add: validateService_def)
  ultimately have "r = Inl err \<Longrightarrow> res = Inl err \<and> db' = db1" for err using assms(2,4) by (simp add: Refresh_def)
  with r show thesis by (rule that)
qed

lemma Refresh_rotates:
  assumes "Refresh lib s d now token requestID db = (Inr (user, pair), db')"
  obtains e db1 where "token \<noteq> []" "user_DisabledAt user = None"
    "RotateRefreshToken now (HashOpaqueToken lib token) (dr_Token d) (HashOpaqueToken lib (tp_RefreshToken pair)) e db = (Inr user, db1)"
    "id_tokens db' = id_tokens db1" "id_families db' = id_families db1" "(identity lib)\<^sup>*\<^sup>* db1 db'"
proof -
  obtain h db1 x where r: "token \<noteq> []" "NewOpaqueToken lib (dr_Secret d) = Inr (tp_RefreshToken pair, h)" "user_DisabledAt user = None"
      "RotateRefreshToken now (HashOpaqueToken lib token) (dr_Token d) h (dr_Clock d + sv_RefreshTokenTTL s) db = (Inr user, db1)"
      "recordAudit d now (user_ID user) ''identity.refresh'' requestID None db1 = Inr (x, db')"
    using assms by (auto simp: Refresh_def split: sum.splits prod.splits if_splits)
  moreover have "h = HashOpaqueToken lib (tp_RefreshToken pair)" using r(2) by (simp add: NewOpaqueToken_Inr)
  moreover have "id_tokens db' = id_tokens db1" "id_families db' = id_families db1"
    using r(5) by (auto simp: recordAudit_def RecordAudit_def split: option.splits if_splits)
  ultimately show thesis using that recordAudit_step by (metis r_into_rtranclp)
qed

text \<open>
  C6. In every state that the transactions on users, sessions, keys and audit events can reach, the tables are
  consistent, and each call of the service keeps them so.
\<close>

theorem identity_consistent:
  assumes "reachable no_accounts (identity lib) db"
  shows "accounts_ok lib db \<and>
    accounts_ok lib (snd (Register lib s d now email password requestID db)) \<and>
    accounts_ok lib (snd (Login lib s d now email password requestID db)) \<and>
    accounts_ok lib (snd (Refresh lib s d now token requestID db)) \<and>
    accounts_ok lib (snd (Logout lib s d now token requestID db)) \<and>
    accounts_ok lib (snd (Service_CreateAPIKey lib s d now prin name scopes requestID db)) \<and>
    accounts_ok lib (snd (Service_RevokeAPIKey lib s d now prin keyID requestID db))"
proof -
  have ok: "accounts_ok lib db" using assms by (rule reachable_ok)
  show ?thesis
    using ok Register_run Login_run Refresh_run Logout_run Service_CreateAPIKey_run Service_RevokeAPIKey_run
    by (metis accounts.steps_inv surjective_pairing)
qed

theorem identity_consistent_witness:
  "accounts_ok sample_libraries sample_identity \<and> length (id_tokens sample_identity) = 1 \<and> accounts_ok sample_libraries (snd sample_refresh)"
  using identity_consistent [OF sample_reachable(1), where s = sample_service and d = "sample_identity_draws 1 (CHR ''b'')"
      and now = "3 * Second" and token = sample_token and requestID = "''r2''"]
  unfolding sample_refresh_def by (intro conjI) (simp, code_simp, simp)

text \<open>
  C20. A refresh token works once. After it was exchanged, presenting it again in any later state is refused and
  ends the session: no token of its family, the one it was exchanged for included, is accepted ever after.
\<close>

theorem refresh_reuse_revokes:
  assumes "reachable no_accounts (identity lib) db"
    and "Refresh lib s d now token requestID db = (Inr (user, pair), db1)"
    and "(identity lib)\<^sup>*\<^sup>* db1 db2" "0 < sv_RefreshTokenTTL s'" "32 \<le> length (dr_Secret d')"
    and "Refresh lib s' d' now' token requestID' db2 = (res, db3)" "(identity lib)\<^sup>*\<^sup>* db3 db4"
  shows "(res = Inl IdentityErrRefreshTokenReplay \<or> res = Inl IdentityErrRefreshTokenInvalid) \<and>
    (\<exists>familyID. HashOpaqueToken lib (tp_RefreshToken pair) \<in> tok_hash ` {t \<in> set (id_tokens db4). tok_family t = familyID} \<and>
      (\<forall>t \<in> set (id_tokens db4). tok_family t = familyID \<longrightarrow>
        RotateRefreshToken now'' (tok_hash t) newTokenID newTokenHash expiresAt db4 = (Inl IdentityErrRefreshTokenInvalid, db4)))"
proof -
  have ok: "accounts_ok lib db" using assms(1) by (rule reachable_ok)
  have ok1: "accounts_ok lib db1" using accounts.steps_inv [OF Refresh_run [OF assms(2)] ok] .
  have ok2: "accounts_ok lib db2" using accounts.steps_inv [OF assms(3) ok1] .
  have ok3: "accounts_ok lib db3" using accounts.steps_inv [OF Refresh_run [OF assms(6)] ok2] .
  obtain e db0 where token: "token \<noteq> []" and rotated: "RotateRefreshToken now (HashOpaqueToken lib token) (dr_Token d)
      (HashOpaqueToken lib (tp_RefreshToken pair)) e db = (Inr user, db0)" and db1: "id_tokens db1 = id_tokens db0"
    using assms(2) by (rule Refresh_rotates)
  obtain t u where t: "t \<in> set (id_tokens db1)" "tok_hash t = HashOpaqueToken lib token" "tok_used t \<noteq> None"
      and u: "u \<in> set (id_tokens db1)" "tok_hash u = HashOpaqueToken lib (tp_RefreshToken pair)" "tok_family u = tok_family t"
    using rotated_tokens [OF ok rotated] db1 by metis
  have t2: "t \<in> set (id_tokens db2)" using run_used [OF assms(3) ok1 t(1,3)] .
  obtain u2 where u2: "u2 \<in> set (id_tokens db2)" "tok_hash u2 = tok_hash u" "tok_family u2 = tok_family u"
    using run_token [OF assms(3) ok1 u(1)] by blast
  obtain h i x r db' where rot: "RotateRefreshToken now' (tok_hash t) i h x db2 = (r, db')"
      and err: "\<And>err. r = Inl err \<Longrightarrow> res = Inl err \<and> db3 = db'"
    using Refresh_error [OF assms(4) token assms(5,6)] t(2) by metis
  have refused: "r = Inl IdentityErrRefreshTokenReplay \<or> r = Inl IdentityErrRefreshTokenInvalid" "id_tokens db' = id_tokens db2"
      "\<exists>g \<in> set (id_families db'). fam_id g = tok_family t \<and> fam_revoked g \<noteq> None"
    using used_refused [OF ok2 t2 t(3) rot] by simp_all
  then obtain g where g: "g \<in> set (id_families db3)" "fam_id g = tok_family t" "fam_revoked g \<noteq> None" "db3 = db'"
    using err by blast
  have "u2 \<in> set (filter (\<lambda>t. tok_family t = fam_id g) (id_tokens db4))"
    using run_revoked [OF assms(7) ok3 g(1,3)] u2 u(3) refused(2) g(2,4) by simp
  then show ?thesis using refused(1) err revoked_for_good [OF ok3 g(1,3) assms(7)] u2 u g(2)
    by (intro conjI exI [of _ "tok_family t"]) (blast, force, metis)
qed

theorem refresh_reuse_revokes_witness:
  "fst sample_reuse = Inl IdentityErrRefreshTokenReplay \<and>
   (\<exists>familyID. HashOpaqueToken sample_libraries (tp_RefreshToken (snd (projr (fst sample_refresh)))) \<in>
     tok_hash ` {t \<in> set (id_tokens (snd sample_reuse)). tok_family t = familyID})"
proof -
  have "0 < sv_RefreshTokenTTL sample_service" "32 \<le> length (dr_Secret (sample_identity_draws 2 (CHR ''c'')))"
    by (simp_all add: sample_service_def sample_identity_draws_def)
  from refresh_reuse_revokes [OF sample_reachable(1) sample_results(2) [unfolded sample_refresh_def] rtranclp.rtrancl_refl this
      surjective_pairing rtranclp.rtrancl_refl]
  have "\<exists>familyID. HashOpaqueToken sample_libraries (tp_RefreshToken (snd (projr (fst sample_refresh)))) \<in>
      tok_hash ` {t \<in> set (id_tokens (snd sample_reuse)). tok_family t = familyID}"
    unfolding sample_reuse_def sample_refresh_def by blast
  moreover have "fst sample_reuse = Inl IdentityErrRefreshTokenReplay" by code_simp
  ultimately show ?thesis by blast
qed

text \<open>
  C21. A logout ends the session it names for good, also when its audit event cannot be written: no token of the family
  is accepted in any later state.
\<close>

theorem logout_final:
  assumes "reachable no_accounts (identity lib) db" "0 < sv_RefreshTokenTTL s" "token \<noteq> []"
    and "t \<in> set (id_tokens db)" "tok_hash t = HashOpaqueToken lib token"
    and "Logout lib s d now token requestID db = (res, db1)" "(identity lib)\<^sup>*\<^sup>* db1 db2"
    and "u \<in> set (id_tokens db2)" "tok_family u = tok_family t"
  shows "RotateRefreshToken now' (tok_hash u) newTokenID newTokenHash expiresAt db2 = (Inl IdentityErrRefreshTokenInvalid, db2)"
proof -
  have ok: "accounts_ok lib db" using assms(1) by (rule reachable_ok)
  have ok1: "accounts_ok lib db1" using accounts.steps_inv [OF Logout_run [OF assms(6)] ok] .
  from ok assms(4) obtain f where f: "row_find tok_hash (tok_hash t) (id_tokens db) = Some t" "f \<in> set (id_families db)"
      "fam_id f = tok_family t" by (rule token_found)
  have "id_families db1 = id_families (revoke_family now ''logout'' (fam_id f) db)"
    using assms(2,3,5,6) f by (auto simp: Logout_def validateService_def RevokeRefreshTokenFamily_def run_tx_def RecordAudit_def
        split: option.splits if_splits)
  then obtain g where "g \<in> set (id_families db1)" "fam_id g = tok_family t" "fam_revoked g \<noteq> None"
    using revoke_family_revokes [OF f(2)] f(3) by metis
  then show ?thesis using revoked_for_good [OF ok1 _ _ assms(7,8)] assms(9) by metis
qed

theorem logout_final_witness:
  "RotateRefreshToken (5 * Second) (HashOpaqueToken sample_libraries sample_token) 40 ''h'' (9 * Second)
     (snd (Logout sample_libraries sample_service (sample_identity_draws 4 (CHR ''e'')) (4 * Second) sample_token ''r5'' sample_identity)) =
   (Inl IdentityErrRefreshTokenInvalid,
     snd (Logout sample_libraries sample_service (sample_identity_draws 4 (CHR ''e'')) (4 * Second) sample_token ''r5'' sample_identity))"
proof -
  let ?t = "hd (id_tokens sample_identity)" and ?after = "Logout sample_libraries sample_service (sample_identity_draws 4 (CHR ''e'')) (4 * Second) sample_token ''r5'' sample_identity"
  have "list_ex (\<lambda>u. u = ?t) (id_tokens (snd ?after))" "id_tokens sample_identity \<noteq> []"
      "tok_hash ?t = HashOpaqueToken sample_libraries sample_token" "sample_token \<noteq> []" "0 < sv_RefreshTokenTTL sample_service"
    by code_simp+
  then show ?thesis
    using logout_final [OF sample_reachable(1), where s = sample_service and token = sample_token and t = ?t and u = ?t,
        OF _ _ _ _ surjective_pairing rtranclp.rtrancl_refl] by (simp add: list_ex_iff)
qed

section \<open>API keys\<close>

text \<open>
  C22. An API key authenticates its owner only: it is known by prefix and digest, not revoked, and its owner is not
  disabled. Whatever scope the principal has is among the scopes of the key and among those of the owner, also for an
  administrator, and only the time of last use changes.
\<close>

theorem api_key_least_privilege:
  assumes "reachable no_accounts (identity lib) db" "Service_AuthenticateAPIKey lib s now secret db = Inr (prin, db')"
  shows "\<exists>k \<in> set (id_keys db). \<exists>u \<in> set (id_users db).
    HasPrefix secret (key_prefix k) \<and> key_hash k = HashOpaqueToken lib secret \<and> key_revoked k = None \<and>
    usr_id u = key_user k \<and> usr_disabled u = None \<and> prin_UserID prin = usr_id u \<and> prin_Role prin = usr_role u \<and>
    (HasScope prin scope \<longrightarrow> scope \<in> set (key_scopes k) \<and> scope \<in> set (scopes_of (usr_id u) db)) \<and>
    db' = db\<lparr>id_keys := row_update key_id (key_id k) (\<lambda>k. k\<lparr>key_used := Some now\<rparr>) (id_keys db)\<rparr>"
proof -
  have users: "users_ok lib (id_users db)" using reachable_ok [OF assms(1)] by (simp add: accounts_ok_def)
  obtain result where auth: "AuthenticateAPIKey now secret (HashOpaqueToken lib secret) db = Inr (result, db')" and
      prin: "prin = (principalForUser (aa_User result) AuthMethodAPIKey)
        \<lparr>prin_Scopes := intersectScopes (user_Scopes (aa_User result)) (aa_Scopes result)\<rparr>"
    using assms(2) by (auto simp: Service_AuthenticateAPIKey_def bindE_Inr split: if_splits)
  obtain k u where k: "APIKeyPrefix secret = Some (key_prefix k)" "k \<in> set (id_keys db)" "u \<in> set (id_users db)"
      "usr_id u = key_user k" "key_revoked k = None" "usr_disabled u = None" "key_hash k = HashOpaqueToken lib secret"
      "result = \<lparr>aa_Key = scan_key k, aa_User = scanUser db u, aa_Scopes = key_scopes k\<rparr>"
      "db' = db\<lparr>id_keys := row_update key_id (key_id k) (\<lambda>k. k\<lparr>key_used := Some now\<rparr>) (id_keys db)\<rparr>"
    using key_frame_use [OF auth users] by (elim exE conjE, intro that)
  have "HasPrefix secret (key_prefix k)" using APIKeyPrefix_take [OF k(1)] unfolding HasPrefix_def by blast
  moreover have "prin_UserID prin = usr_id u" "prin_Role prin = usr_role u" "prin_AuthMethod prin = AuthMethodAPIKey"
      "prin_Scopes prin = intersectScopes (scopes_of (usr_id u) db) (key_scopes k)"
    by (simp_all add: prin k(8) principalForUser_def scanUser_def)
  moreover from this have "HasScope prin scope \<longrightarrow> scope \<in> set (key_scopes k) \<and> scope \<in> set (scopes_of (usr_id u) db)"
    by (auto simp: HasScope_def intersectScopes_def)
  ultimately show ?thesis using k by (intro bexI [of _ k] bexI [of _ u]) simp_all
qed

theorem api_key_least_privilege_witness:
  "HasScope (fst (projr (Service_AuthenticateAPIKey sample_libraries sample_service (4 * Second) sample_secret (snd sample_key)))) ScopeJobsRead \<and>
   (\<exists>k \<in> set (id_keys (snd sample_key)). ScopeJobsRead \<in> set (key_scopes k) \<and> key_revoked k = None)"
proof -
  let ?r = "Service_AuthenticateAPIKey sample_libraries sample_service (4 * Second) sample_secret (snd sample_key)"
  have "\<not> isl ?r" and scope: "HasScope (fst (projr ?r)) ScopeJobsRead" by code_simp+
  then have "?r = Inr (fst (projr ?r), snd (projr ?r))" by (cases ?r) auto
  from api_key_least_privilege [OF sample_reachable(2) this, of ScopeJobsRead] show ?thesis using scope by blast
qed

text \<open>
  C23. Once its owner has revoked a key, no secret with the prefix of the key authenticates in any later state, also
  when the audit event of the revocation could not be written.
\<close>

theorem revoked_key_refused:
  assumes "reachable no_accounts (identity lib) db" "0 < sv_RefreshTokenTTL s"
    and "k \<in> set (id_keys db)" "key_user k = prin_UserID prin" "prin_UserID prin \<noteq> uuid_Nil" "key_id k \<noteq> uuid_Nil"
    and "Service_RevokeAPIKey lib s d now prin (key_id k) requestID db = (res, db1)" "(identity lib)\<^sup>*\<^sup>* db1 db2"
    and "0 < sv_RefreshTokenTTL s'" "HasPrefix secret (key_prefix k)"
  shows "Service_AuthenticateAPIKey lib s' now' secret db2 = Inl IdentityErrAPIKeyInvalid"
proof -
  have ok: "accounts_ok lib db" using assms(1) by (rule reachable_ok)
  have ok1: "accounts_ok lib db1" using accounts.steps_inv [OF Service_RevokeAPIKey_run [OF assms(7)] ok] .
  have ok2: "accounts_ok lib db2" using accounts.steps_inv [OF assms(8) ok1] .
  have hit: "list_ex (\<lambda>j. key_id j = key_id k \<and> key_user j = prin_UserID prin) (id_keys db)"
    using assms(3,4) by (auto simp: list_ex_iff)
  have "id_keys db1 = rows_update (\<lambda>j. key_id j = key_id k \<and> key_user j = prin_UserID prin)
      (\<lambda>k. k\<lparr>key_revoked := Some (coalesce (key_revoked k) now)\<rparr>) (id_keys db)"
    using assms(2,5-7) hit by (auto simp: Service_RevokeAPIKey_def validateService_def RevokeAPIKey_def run_tx_def recordAudit_def
        RecordAudit_def split: option.splits if_splits)
  then have "k\<lparr>key_revoked := Some (coalesce (key_revoked k) now)\<rparr> \<in> set (id_keys db1)"
    using rows_update_hit [OF assms(3), of "\<lambda>j. key_id j = key_id k \<and> key_user j = prin_UserID prin"] assms(4) by simp
  from run_revoked_key [OF assms(8) ok1 this]
  obtain j where j: "j \<in> set (id_keys db2)" "key_prefix j = key_prefix k" "key_revoked j \<noteq> None" by fastforce
  have "length (key_prefix k) = 12" using ok assms(3) by (simp add: accounts_ok_def keys_ok_def)
  then have "APIKeyPrefix secret = None \<or> APIKeyPrefix secret = Some (key_prefix k)"
    using assms(10) by (auto simp: APIKeyPrefix_def HasPrefix_def)
  moreover have "active_key (key_prefix k) db2 = None"
  proof (rule ccontr)
    assume "active_key (key_prefix k) db2 \<noteq> None"
    then obtain i u where "active_key (key_prefix k) db2 = Some (i, u)" by fastforce
    moreover have "distinct (map usr_id (id_users db2))" "distinct (map key_prefix (id_keys db2))"
      using ok2 by (simp_all add: accounts_ok_def users_ok_def keys_ok_def)
    ultimately show False using j active_keyD by (metis distinct_map inj_onD)
  qed
  ultimately show ?thesis using assms(9)
    by (auto simp: Service_AuthenticateAPIKey_def validateService_def AuthenticateAPIKey_def)
qed

theorem revoked_key_refused_witness:
  "Service_AuthenticateAPIKey sample_libraries sample_service (6 * Second) sample_secret
     (snd (Service_RevokeAPIKey sample_libraries sample_service (sample_identity_draws 5 (CHR ''f'')) (5 * Second) sample_owner
       (key_id (hd (id_keys (snd sample_key)))) ''r6'' (snd sample_key))) = Inl IdentityErrAPIKeyInvalid"
proof -
  let ?k = "hd (id_keys (snd sample_key))"
  have "id_keys (snd sample_key) \<noteq> []" "key_user ?k = prin_UserID sample_owner" "prin_UserID sample_owner \<noteq> uuid_Nil"
      "key_id ?k \<noteq> uuid_Nil" "0 < sv_RefreshTokenTTL sample_service" "HasPrefix sample_secret (key_prefix ?k)"
    by code_simp+
  then show ?thesis
    using revoked_key_refused [OF sample_reachable(2), where k = ?k and s = sample_service and s' = sample_service and prin = sample_owner
        and secret = sample_secret, OF _ _ _ _ _ surjective_pairing rtranclp.rtrancl_refl] by simp
qed

text \<open>
  A created key carries scopes the creator has, and its plaintext authenticates the creator with those of the
  scopes the account has, unless the account is disabled. When the creation fails, no usable key is left behind.
\<close>

theorem api_key_creation:
  assumes "reachable no_accounts (identity lib) db"
    and "Service_CreateAPIKey lib s d now prin name scopes requestID db = (res, db1)"
  shows "case res of
      Inl e \<Rightarrow> {k \<in> set (id_keys db1). key_revoked k = None} \<subseteq> set (id_keys db)
    | Inr (key, plaintext) \<Rightarrow>
        (\<forall>scope \<in> set scopes. HasScope prin scope) \<and>
        (\<exists>u \<in> set (id_users db). usr_id u = prin_UserID prin \<and>
          (usr_disabled u = None \<longrightarrow>
            map_sum id fst (Service_AuthenticateAPIKey lib s now' plaintext db1) =
              Inr \<lparr>prin_UserID = usr_id u, prin_Role = usr_role u,
                prin_Scopes = filter (\<lambda>scope. scope \<in> set scopes) (scopes_of (usr_id u) db), prin_AuthMethod = AuthMethodAPIKey\<rparr>))"
proof -
  have ok1: "accounts_ok lib db1"
    using accounts.steps_inv [OF Service_CreateAPIKey_run [OF assms(2)] reachable_ok [OF assms(1)]] .
  from assms(2) show ?thesis
  proof (cases rule: Service_CreateAPIKey_cases)
    case early
    then show ?thesis by auto
  next
    case (stored validatedName plaintext prefix keyHash key db0)
    from stored(4) obtain k where k: "db0 = db\<lparr>id_keys := id_keys db @ [k]\<rparr>" "key = scan_key k" "key_id k = dr_Key d"
        "key_user k = prin_UserID prin" "key_prefix k = prefix" "key_hash k = keyHash" "key_scopes k = scopes" "key_revoked k = None"
        "dr_Key d \<notin> key_id ` set (id_keys db)" "prin_UserID prin \<in> usr_id ` set (id_users db)"
      by (rule CreateAPIKey_row)
    show ?thesis
    proof (cases "\<exists>x. res = Inl x")
      case True
      then show ?thesis using stored(5) undone_key [of k db now] k
        by (auto simp: scan_key_def split: sum.splits prod.splits)
    next
      case False
      then obtain y where "res = Inr (key, plaintext)" and audited: "id_keys db1 = id_keys db0" "id_users db1 = id_users db"
          "id_scopes db1 = id_scopes db" and y: "recordAudit d now (prin_UserID prin) ''identity.api_key.create'' requestID
          (Some [(''keyId'', JStr (uuid_String lib (ak_ID key))), (''scopeCount'', JNum (nat_text (length scopes)))]) db0 = Inr y"
        using stored(5) k(1) by (auto simp: recordAudit_def RecordAudit_def split: sum.splits prod.splits option.splits if_splits)
      moreover have "\<forall>scope \<in> set scopes. HasScope prin scope"
        using stored(2) by (simp add: ValidateGrantableScopes_def grantable_loop_iff)
      moreover obtain u where u: "u \<in> set (id_users db)" "usr_id u = prin_UserID prin" using k(10) by auto
      moreover have "active_key prefix db1 = Some (k, u)" if "usr_disabled u = None"
        using active_keyI [OF ok1, of k u] k audited u that by simp
      moreover have "plaintext \<noteq> []" "APIKeyPrefix plaintext = Some prefix" "keyHash = HashOpaqueToken lib plaintext"
        using stored(3) by (auto simp: NewAPIKey_Inr)
      ultimately show ?thesis using stored(1) k
        by (auto simp: Service_AuthenticateAPIKey_def AuthenticateAPIKey_def ConstantTimeCompare_def principalForUser_def
            scanUser_def intersectScopes_def scopes_of_def intro!: bexI [of _ u])
    qed
  qed
qed

theorem api_key_creation_witness:
  "\<exists>u \<in> set (id_users sample_identity). usr_id u = 7 \<and> usr_disabled u = None \<and>
     map_sum id fst (Service_AuthenticateAPIKey sample_libraries sample_service (4 * Second) sample_secret (snd sample_key)) =
       Inr \<lparr>prin_UserID = usr_id u, prin_Role = usr_role u,
         prin_Scopes = filter (\<lambda>scope. scope \<in> set [ScopeJobsRead]) (scopes_of (usr_id u) sample_identity), prin_AuthMethod = AuthMethodAPIKey\<rparr>"
proof -
  have "list_all (\<lambda>u. usr_disabled u = None) (id_users sample_identity)" by code_simp
  moreover have "prin_UserID sample_owner = 7" by (simp add: sample_owner_def)
  ultimately show ?thesis
    using api_key_creation [OF sample_reachable(1) sample_results(3) [unfolded sample_key_def], of "4 * Second"]
    by (fastforce simp: sample_secret_def sample_key_def list_all_iff)
qed

section \<open>Accounts\<close>

text \<open>
  C24. After a registration, in any later state, a login under any spelling of the address is accepted exactly when the
  account is not disabled and the password is one that Argon2 derives the same key from; every other attempt gets the same
  error and changes nothing.
\<close>

theorem login_checks_password:
  assumes "key_lengths lib" "reachable no_accounts (identity lib) db"
    and "Register lib s d now email password requestID db = (Inr (user, pair), db1)" "(identity lib)\<^sup>*\<^sup>* db1 db2"
    and "normalizeEmail lib email' = normalizeEmail lib email" "0 < sv_RefreshTokenTTL s'"
  shows "\<exists>u \<in> set (id_users db2). usr_id u = user_ID user \<and>
    Login lib s' d' now' email' candidate requestID' db2 =
      (if usr_disabled u = None \<and> ValidatePassword candidate = Inr () \<and>
          derive lib (take 16 (dr_Salt d)) candidate = derive lib (take 16 (dr_Salt d)) password
       then open_session lib s' d' now' (scanUser db2 u) ''identity.login'' requestID' None db2
       else (Inl IdentityErrInvalidCredentials, db2))"
proof -
  have ok1: "accounts_ok lib db1" using accounts.steps_inv [OF Register_run [OF assms(3)] reachable_ok [OF assms(2)]] .
  have ok2: "accounts_ok lib db2" using accounts.steps_inv [OF assms(4) ok1] .
  obtain v normalized where v: "v \<in> set (id_users db1)" "usr_id v = user_ID user" "usr_email v = normalized"
      "Hash lib (dr_Salt d) password = Inr (usr_hash v)" "normalizeEmail lib email = Inr normalized"
    using assms(3) by (rule Register_Inr)
  obtain x where x: "v\<lparr>usr_disabled := x\<rparr> \<in> set (id_users db2)" using run_user [OF assms(4) ok1 v(1)] by blast
  define u where "u = v\<lparr>usr_disabled := x\<rparr>"
  have u: "u \<in> set (id_users db2)" "usr_id u = user_ID user" "usr_email u = normalized" "usr_hash u = usr_hash v"
    using x v by (simp_all add: u_def)
  have "FindUserByEmail normalized db2 = Inr (scanUser db2 u)" using user_found(2) [OF ok2 u(1)] u(3) by simp
  moreover have "VerifyPassword lib (usr_hash u) candidate = Inr True \<longleftrightarrow> ValidatePassword candidate = Inr () \<and>
      derive lib (take 16 (dr_Salt d)) candidate = derive lib (take 16 (dr_Salt d)) password"
    using verify_hash [OF assms(1) v(4), of candidate] u(4) by (simp add: bindE_Inr)
  ultimately show ?thesis using u(1,2) v(5) assms(5,6)
    by (intro bexI [of _ u]) (auto simp: Login_def validateService_def scanUser_def)
qed

theorem login_checks_password_witness:
  "\<not> isl (fst (Login sample_libraries sample_service (sample_identity_draws 6 (CHR ''g'')) (3 * Second) '' ADA@example.org '' ''correct horse''
      ''r7'' sample_identity)) \<and>
   (\<exists>u \<in> set (id_users sample_identity). Login sample_libraries sample_service (sample_identity_draws 6 (CHR ''g'')) (3 * Second)
      '' ADA@example.org '' ''correct horse'' ''r7'' sample_identity =
      open_session sample_libraries sample_service (sample_identity_draws 6 (CHR ''g'')) (3 * Second) (scanUser sample_identity u)
        ''identity.login'' ''r7'' None sample_identity)"
proof -
  have "key_lengths sample_libraries" by (auto simp: key_lengths_def sample_libraries_def)
  moreover have "reachable no_accounts (identity sample_libraries) sample_accounts"
    by (rule reachable.start) (simp add: no_accounts_def sample_accounts_def)
  moreover have "0 < sv_RefreshTokenTTL sample_service" by (simp add: sample_service_def)
  moreover have "normalizeEmail sample_libraries '' ADA@example.org '' = normalizeEmail sample_libraries ''Ada@example.org''"
      and ok: "\<not> isl (fst (Login sample_libraries sample_service (sample_identity_draws 6 (CHR ''g'')) (3 * Second) '' ADA@example.org ''
        ''correct horse'' ''r7'' sample_identity))"
    by code_simp+
  ultimately show ?thesis
    using login_checks_password [OF _ _ sample_results(1) [unfolded sample_registration_def] rtranclp.rtrancl_refl, of "'' ADA@example.org ''"
        sample_service "sample_identity_draws 6 (CHR ''g'')" "3 * Second" "''correct horse''" "''r7''"]
    by (fastforce simp: sample_identity_def sample_registration_def split: if_splits)
qed

text \<open>
  The access token of a login authenticates its user, with the role and the scopes the account has at that moment,
  in every later state as long as the token lives and the account is not disabled, and not a moment longer.
\<close>

theorem bearer_follows_account:
  assumes "jwt_laws lib" "reachable no_accounts (identity lib) db"
    and "Login lib s d now email password requestID db = (Inr (user, pair), db1)" "at_Issuer (sv_AccessTokens s) \<noteq> []"
    and "(identity lib)\<^sup>*\<^sup>* db1 db2"
  shows "\<exists>u \<in> set (id_users db2). usr_id u = user_ID user \<and>
    (dr_Issued d \<le> t \<and> t \<le> tp_AccessTokenExpiry pair - Second \<longrightarrow>
      AuthenticateBearer lib s t (tp_AccessToken pair) db2 =
        (if usr_disabled u = None then Inr (principalForUser (scanUser db2 u) AuthMethodBearer)
         else Inl IdentityErrInvalidCredentials)) \<and>
    (tp_AccessTokenExpiry pair \<le> t \<longrightarrow> AuthenticateBearer lib s t (tp_AccessToken pair) db2 = Inl IdentityErrInvalidCredentials)"
proof -
  have ok: "accounts_ok lib db" using assms(2) by (rule reachable_ok)
  have run: "(identity lib)\<^sup>*\<^sup>* db db2" using Login_run [OF assms(3)] assms(5) by simp
  have ok2: "accounts_ok lib db2" using accounts.steps_inv [OF run ok] .
  obtain v where v: "v \<in> set (id_users db)" "user = scanUser db v" "validateService s = Inr ()"
      "open_session lib s d now user ''identity.login'' requestID None db = (Inr (user, pair), db1)"
    using assms(3) by (rule Login_Inr)
  obtain x where x: "v\<lparr>usr_disabled := x\<rparr> \<in> set (id_users db2)" using run_user [OF run ok v(1)] by blast
  define u where "u = v\<lparr>usr_disabled := x\<rparr>"
  have u: "u \<in> set (id_users db2)" "usr_id u = user_ID user" using x v(2) by (simp_all add: u_def scanUser_def)
  have "FindUserByID (user_ID user) db2 = Inr (scanUser db2 u)" using user_found(1) [OF ok2 u(1)] u(2) by simp
  moreover have "Issue lib (sv_AccessTokens s) (dr_Issued d) (dr_JTI d) (user_ID user) = Inr (tp_AccessToken pair, tp_AccessTokenExpiry pair)"
    using open_session_Inr [OF v(4)] by simp
  note Issue_Parse [OF assms(1) this assms(4), of t]
  ultimately show ?thesis using u v(3)
    by (intro bexI [of _ u]) (auto simp: AuthenticateBearer_def scanUser_def)
qed

theorem bearer_follows_account_witness:
  "\<exists>u \<in> set (id_users sample_identity). usr_id u = 7 \<and>
     AuthenticateBearer sample_libraries sample_service (3 * Second) ''jwt'' (snd sample_login) =
       Inr (principalForUser (scanUser (snd sample_login) u) AuthMethodBearer)"
proof -
  have laws: "jwt_laws sample_libraries"
    by (auto simp: jwt_laws_def sample_libraries_def sample_claims_def pos_mod_sign minus_mod_eq_div_mult split: if_splits)
  have ok: "\<not> isl (fst sample_login)" and user: "user_ID (fst (projr (fst sample_login))) = 7" and token: "tp_AccessToken (snd (projr (fst sample_login))) = ''jwt''"
      and expiry: "tp_AccessTokenExpiry (snd (projr (fst sample_login))) = 902 * Second"
      and users: "id_users (snd sample_login) = id_users sample_identity" "list_all (\<lambda>u. usr_disabled u = None) (id_users sample_identity)"
    by code_simp+
  have "at_Issuer (sv_AccessTokens sample_service) \<noteq> []" "dr_Issued (sample_identity_draws 6 (CHR ''g'')) = 2 * Second"
    by (simp_all add: sample_service_def NewAccessTokenService_def sample_identity_draws_def)
  then show ?thesis
    using bearer_follows_account [OF laws sample_reachable(1) Inr_pair [OF ok, unfolded sample_login_def] _ rtranclp.rtrancl_refl, of "3 * Second"]
      user token expiry users unfolding sample_login_def by (fastforce simp: list_all_iff)
qed

text \<open>
  Checking a password calls Argon2 only with costs, salt and key length within fixed bounds, whatever text is stored
  as the hash: what the function does outside of them does not matter.
\<close>

theorem password_costs_bounded:
  assumes "\<And>salt password t m p n. 1 \<le> t \<Longrightarrow> t \<le> 10 \<Longrightarrow> 8 * p \<le> m \<Longrightarrow> m \<le> 512 * 1024 \<Longrightarrow> 1 \<le> p \<Longrightarrow> p \<le> 16 \<Longrightarrow>
      8 \<le> length salt \<Longrightarrow> length salt \<le> 64 \<Longrightarrow> 16 \<le> n \<Longrightarrow> n \<le> 64 \<Longrightarrow> 12 \<le> length password \<Longrightarrow> length password \<le> 1024 \<Longrightarrow>
      lib_IDKey lib salt password t m p n = lib_IDKey lib' salt password t m p n"
  shows "VerifyPassword lib encoded password = VerifyPassword lib' encoded password"
proof (cases "ValidatePassword password = Inr () \<and> parsePasswordHash encoded \<noteq> None")
  case True
  then obtain pp salt key where parsed: "parsePasswordHash encoded = Some (pp, salt, key)" by (cases "parsePasswordHash encoded") auto
  have "12 \<le> length password" "length password \<le> 1024" using True by (auto simp: ValidatePassword_def split: if_splits)
  then have "lib_IDKey lib salt password (pp_iterations pp) (pp_memory pp) (pp_parallelism pp) (pp_keyLength pp) =
      lib_IDKey lib' salt password (pp_iterations pp) (pp_memory pp) (pp_parallelism pp) (pp_keyLength pp)"
    using parse_bounds [OF parsed] by (intro assms) (auto simp: costs_in_bounds_def)
  then show ?thesis using parsed by (simp add: VerifyPassword_def)
next
  case False
  then show ?thesis by (cases "ValidatePassword password") (auto simp: VerifyPassword_def split: option.splits)
qed

theorem password_costs_bounded_witness:
  "VerifyPassword sample_libraries (usr_hash (hd (id_users sample_identity))) ''correct horse'' = Inr True \<and>
   VerifyPassword (sample_libraries\<lparr>lib_IDKey := \<lambda>salt password t m p n. if 10 < t then [] else lib_IDKey sample_libraries salt password t m p n\<rparr>)
     (usr_hash (hd (id_users sample_identity))) ''correct horse'' = Inr True"
proof -
  let ?lib' = "sample_libraries\<lparr>lib_IDKey := \<lambda>salt password t m p n. if 10 < t then [] else lib_IDKey sample_libraries salt password t m p n\<rparr>"
  have "VerifyPassword sample_libraries (usr_hash (hd (id_users sample_identity))) ''correct horse'' = Inr True" by code_simp
  moreover have "VerifyPassword sample_libraries e p = VerifyPassword ?lib' e p" for e p
    by (rule password_costs_bounded) simp
  ultimately show ?thesis by simp
qed

end
