(* ===== verification/RateLimit.thy ===== *)
theory RateLimit
  imports Retry Transition
begin

text \<open>
  The token buckets of the public credential routes (\<open>internal/httpapi/auth-rate-limit.go\<close>).
  \<open>fl\<close> rounds an exact result to the nearest 64-bit floating point number; \<open>float_laws\<close> is what
  the code relies on. The clock is an argument, and so is \<open>iter\<close>, the order in which a run ranges
  over the map of clients.
\<close>

section \<open>Floating point\<close>

type_synonym rounding = "rat \<Rightarrow> rat"

definition float_laws :: "rounding \<Rightarrow> bool" where
  "float_laws fl \<longleftrightarrow> mono fl \<and> (\<forall>n :: int. \<bar>n\<bar> \<le> 2 ^ 53 \<longrightarrow> fl (of_int n) = of_int n)"

text \<open>\<open>time.Duration.Seconds\<close>: whole seconds and the rest in nanoseconds, both truncated towards zero.\<close>

definition Seconds :: "rounding \<Rightarrow> duration \<Rightarrow> rat" where
  "Seconds fl d =
    (let sec = sgn d * (\<bar>d\<bar> div Second); nsec = sgn d * (\<bar>d\<bar> mod Second)
     in fl (fl (of_int sec) + fl (fl (of_int nsec) / 10 ^ 9)))"

section \<open>Limiter\<close>

record AuthRateLimitConfig =
  rl_RequestsPerMinute :: int
  rl_Burst :: int
  rl_MaxClients :: int
  rl_EntryTTL :: duration

record authRateBucket =
  bk_tokens :: rat
  bk_lastRefill :: time
  bk_lastSeen :: time

record AuthRateLimiter =
  lm_rate :: rat
  lm_burst :: rat
  lm_maxClients :: int
  lm_entryTTL :: duration
  lm_clients :: "(string \<times> authRateBucket) list"

definition NewAuthRateLimiter :: "rounding \<Rightarrow> AuthRateLimitConfig \<Rightarrow> AuthRateLimiter result" where
  "NewAuthRateLimiter fl cfg =
    (if rl_RequestsPerMinute cfg < 1 \<or> rl_Burst cfg < 1 \<or> rl_MaxClients cfg < 1 \<or> rl_EntryTTL cfg \<le> 0
     then Inl (ErrText ''invalid authentication rate-limit configuration'')
     else Inr \<lparr>lm_rate = fl (fl (of_int (rl_RequestsPerMinute cfg)) / fl (of_int (Minute div Second))),
       lm_burst = fl (of_int (rl_Burst cfg)), lm_maxClients = rl_MaxClients cfg, lm_entryTTL = rl_EntryTTL cfg, lm_clients = []\<rparr>)"

definition removeExpired :: "time \<Rightarrow> AuthRateLimiter \<Rightarrow> AuthRateLimiter" where
  "removeExpired now l =
    l\<lparr>lm_clients := filter (\<lambda>(client, bucket). \<not> now - bk_lastSeen bucket \<ge> lm_entryTTL l) (lm_clients l)\<rparr>"

text \<open>The loop keeps the client seen longest ago, an empty name standing for none yet.\<close>

fun oldest_loop :: "(string \<times> authRateBucket) list \<Rightarrow> string \<Rightarrow> time \<Rightarrow> string" where
  "oldest_loop [] oldestClient oldest = oldestClient"
| "oldest_loop ((client, bucket) # rest) oldestClient oldest =
    (if oldestClient = [] \<or> bk_lastSeen bucket < oldest then oldest_loop rest client (bk_lastSeen bucket)
     else oldest_loop rest oldestClient oldest)"

type_synonym map_order = "(string \<times> authRateBucket) list \<Rightarrow> (string \<times> authRateBucket) list"

definition removeOldest :: "map_order \<Rightarrow> AuthRateLimiter \<Rightarrow> AuthRateLimiter" where
  "removeOldest iter l =
    (let oldestClient = oldest_loop (iter (lm_clients l)) [] 0
     in if oldestClient \<noteq> [] then l\<lparr>lm_clients := filter (\<lambda>(client, _). client \<noteq> oldestClient) (lm_clients l)\<rparr> else l)"

definition new_bucket :: "map_order \<Rightarrow> time \<Rightarrow> string \<Rightarrow> AuthRateLimiter \<Rightarrow> AuthRateLimiter" where
  "new_bucket iter now client l =
    (let l1 = removeExpired now l;
         l2 = (if int (length (lm_clients l1)) \<ge> lm_maxClients l1 then removeOldest iter l1 else l1)
     in l2\<lparr>lm_clients := (client, \<lparr>bk_tokens = lm_burst l, bk_lastRefill = now, bk_lastSeen = now\<rparr>) # lm_clients l2\<rparr>)"

definition refill :: "rounding \<Rightarrow> AuthRateLimiter \<Rightarrow> time \<Rightarrow> authRateBucket \<Rightarrow> authRateBucket" where
  "refill fl l now bucket =
    (let elapsed = Seconds fl (now - bk_lastRefill bucket);
         b1 = (if elapsed > 0
               then bucket\<lparr>bk_tokens := min (lm_burst l) (fl (bk_tokens bucket + fl (elapsed * lm_rate l))), bk_lastRefill := now\<rparr>
               else bucket)
     in b1\<lparr>bk_lastSeen := now\<rparr>)"

text \<open>
  The wait that is announced is the number of nanoseconds until a token, rounded up. The map update
  replaces the entry of the client.
\<close>

definition set_bucket :: "string \<Rightarrow> authRateBucket \<Rightarrow> AuthRateLimiter \<Rightarrow> AuthRateLimiter" where
  "set_bucket client bucket l =
    l\<lparr>lm_clients := map (\<lambda>(c, b). if c = client then (c, bucket) else (c, b)) (lm_clients l)\<rparr>"

definition allow :: "rounding \<Rightarrow> map_order \<Rightarrow> time \<Rightarrow> string \<Rightarrow> AuthRateLimiter \<Rightarrow> (bool \<times> duration) \<times> AuthRateLimiter" where
  "allow fl iter now client l =
    (let l1 = (if map_of (lm_clients l) client = None then new_bucket iter now client l else l);
         bucket = refill fl l1 now (the (map_of (lm_clients l1) client))
     in if bk_tokens bucket \<ge> 1
        then ((True, 0), set_bucket client (bucket\<lparr>bk_tokens := fl (bk_tokens bucket - 1)\<rparr>) l1)
        else ((False, \<lceil>fl (fl (fl (1 - bk_tokens bucket) / lm_rate l1) * fl (of_int Second))\<rceil>), set_bucket client bucket l1))"

text \<open>\<open>split\<close> is \<open>net.SplitHostPort\<close>.\<close>

definition clientAddress :: "(string \<Rightarrow> (string \<times> string) option) \<Rightarrow> string \<Rightarrow> string" where
  "clientAddress split remoteAddr =
    (case split remoteAddr of
       Some (host, _) \<Rightarrow> if host \<noteq> [] then host else if remoteAddr = [] then ''unknown'' else remoteAddr
     | None \<Rightarrow> if remoteAddr = [] then ''unknown'' else remoteAddr)"

text \<open>The middleware: the seconds of \<open>Retry-After\<close> for a refused request, or the next handler.\<close>

definition AuthRateLimiter_Middleware ::
  "rounding \<Rightarrow> map_order \<Rightarrow> (string \<Rightarrow> (string \<times> string) option) \<Rightarrow> time \<Rightarrow> string \<Rightarrow> AuthRateLimiter \<Rightarrow>
   int option \<times> AuthRateLimiter" where
  "AuthRateLimiter_Middleware fl iter split now remoteAddr l =
    (let ((allowed, retryAfter), l') = allow fl iter now (clientAddress split remoteAddr) l
     in (if allowed then None else Some (max 1 \<lceil>Seconds fl retryAfter\<rceil>), l'))"

section \<open>Invariant\<close>

definition limiter_ok :: "AuthRateLimiter \<Rightarrow> bool" where
  "limiter_ok l \<longleftrightarrow>
     0 \<le> lm_rate l \<and> 1 \<le> lm_burst l \<and> 1 \<le> lm_maxClients l \<and> int (length (lm_clients l)) \<le> lm_maxClients l \<and>
     distinct (map fst (lm_clients l)) \<and> [] \<notin> fst ` set (lm_clients l) \<and>
     (\<forall>b \<in> snd ` set (lm_clients l). 0 \<le> bk_tokens b \<and> bk_tokens b \<le> lm_burst l)"

lemma float_laws_int: "float_laws fl \<Longrightarrow> \<bar>n\<bar> \<le> 2 ^ 53 \<Longrightarrow> fl (of_int n) = of_int n"
  by (simp add: float_laws_def)

lemma float_laws_0: "float_laws fl \<Longrightarrow> fl 0 = 0"
  using float_laws_int [of fl 0] by simp

lemma float_laws_nonneg: "float_laws fl \<Longrightarrow> 0 \<le> x \<Longrightarrow> 0 \<le> fl x"
  using float_laws_0 [of fl] monoD [of fl 0 x] by (simp add: float_laws_def)

lemma float_laws_le_int: "float_laws fl \<Longrightarrow> x \<le> of_int n \<Longrightarrow> \<bar>n\<bar> \<le> 2 ^ 53 \<Longrightarrow> fl x \<le> of_int n"
  using float_laws_int [of fl n] monoD [of fl x "of_int n"] by (simp add: float_laws_def)

definition map_order :: "map_order \<Rightarrow> bool" where
  "map_order iter \<longleftrightarrow> (\<forall>xs. set (iter xs) = set xs)"

lemma oldest_loop_mem: "oldest_loop xs c t = c \<or> oldest_loop xs c t \<in> fst ` set xs"
  by (induction xs c t rule: oldest_loop.induct) auto

lemma oldest_loop_nonempty: "[] \<notin> fst ` set xs \<Longrightarrow> c \<noteq> [] \<or> xs \<noteq> [] \<Longrightarrow> oldest_loop xs c t \<noteq> []"
  by (induction xs c t rule: oldest_loop.induct) auto

lemma oldest_found:
  assumes "map_order iter" "[] \<notin> fst ` set xs" "xs \<noteq> []"
  shows "oldest_loop (iter xs) [] t \<noteq> []" and "oldest_loop (iter xs) [] t \<in> fst ` set xs"
proof -
  have "set (iter xs) = set xs" using assms(1) by (simp add: map_order_def)
  moreover from this have "iter xs \<noteq> []" using assms(3) by (metis set_empty)
  ultimately show "oldest_loop (iter xs) [] t \<noteq> []" using oldest_loop_nonempty [of "iter xs"] assms(2) by simp
  then show "oldest_loop (iter xs) [] t \<in> fst ` set xs"
    using oldest_loop_mem [of "iter xs" "[]" t] \<open>set (iter xs) = set xs\<close> by auto
qed

lemma length_filter_key: "k \<in> fst ` set xs \<Longrightarrow> length (filter (\<lambda>(c, _). c \<noteq> k) xs) < length xs"
  by (induction xs) (auto simp: le_imp_less_Suc)

text \<open>The map keeps its keys when entries are removed or replaced.\<close>

definition entries_ok :: "rat \<Rightarrow> (string \<times> authRateBucket) list \<Rightarrow> bool" where
  "entries_ok burst xs \<longleftrightarrow> distinct (map fst xs) \<and> [] \<notin> fst ` set xs \<and>
     (\<forall>b \<in> snd ` set xs. 0 \<le> bk_tokens b \<and> bk_tokens b \<le> burst)"

lemma limiter_ok_entries:
  "limiter_ok l \<longleftrightarrow> 0 \<le> lm_rate l \<and> 1 \<le> lm_burst l \<and> 1 \<le> lm_maxClients l \<and>
     int (length (lm_clients l)) \<le> lm_maxClients l \<and> entries_ok (lm_burst l) (lm_clients l)"
  by (auto simp: limiter_ok_def entries_ok_def)

lemma entries_ok_filter: "entries_ok burst xs \<Longrightarrow> entries_ok burst (filter P xs)"
  by (auto simp: entries_ok_def distinct_map_filter)

lemma entries_ok_Cons:
  "entries_ok burst ((c, b) # xs) \<longleftrightarrow> entries_ok burst xs \<and> c \<notin> fst ` set xs \<and> c \<noteq> [] \<and> 0 \<le> bk_tokens b \<and> bk_tokens b \<le> burst"
  by (auto simp: entries_ok_def)

lemma entries_ok_set:
  assumes "entries_ok burst xs" "0 \<le> bk_tokens b" "bk_tokens b \<le> burst"
  shows "entries_ok burst (map (\<lambda>(c, x). if c = k then (c, b) else (c, x)) xs)"
proof -
  have keys: "fst ` set (map (\<lambda>(c, x). if c = k then (c, b) else (c, x)) ys) = fst ` set ys" for ys
    by (induction ys) auto
  show ?thesis using assms
  proof (induction xs)
    case (Cons x xs)
    then show ?case using keys [of xs] by (cases x) (auto simp: entries_ok_Cons)
  qed (simp add: entries_ok_def)
qed

section \<open>Requests keep it\<close>

lemma removeOldest_length:
  assumes "map_order iter" "entries_ok burst (lm_clients l)" "lm_clients l \<noteq> []"
  shows "length (lm_clients (removeOldest iter l)) < length (lm_clients l)"
proof -
  note found = oldest_found [OF assms(1) _ assms(3), of 0]
  show ?thesis using found length_filter_key assms(2) by (simp add: removeOldest_def Let_def entries_ok_def)
qed

lemma removeOldest_entries: "entries_ok burst (lm_clients l) \<Longrightarrow> entries_ok burst (lm_clients (removeOldest iter l))"
  by (simp add: removeOldest_def Let_def entries_ok_filter)

lemma removeOldest_frame [simp]:
  "lm_rate (removeOldest iter l) = lm_rate l" "lm_burst (removeOldest iter l) = lm_burst l"
  "lm_maxClients (removeOldest iter l) = lm_maxClients l" "lm_entryTTL (removeOldest iter l) = lm_entryTTL l"
  by (simp_all add: removeOldest_def Let_def)

lemma removeOldest_subset: "set (lm_clients (removeOldest iter l)) \<subseteq> set (lm_clients l)"
  by (auto simp: removeOldest_def Let_def)

lemma new_bucket_ok:
  assumes "limiter_ok l" "map_order iter" "client \<noteq> []" "client \<notin> fst ` set (lm_clients l)"
  shows "limiter_ok (new_bucket iter now client l)"
proof -
  define l1 where "l1 = removeExpired now l"
  define l2 where "l2 = (if int (length (lm_clients l1)) \<ge> lm_maxClients l1 then removeOldest iter l1 else l1)"
  have l1: "entries_ok (lm_burst l) (lm_clients l1)" "set (lm_clients l1) \<subseteq> set (lm_clients l)"
    "length (lm_clients l1) \<le> length (lm_clients l)" "lm_maxClients l1 = lm_maxClients l" "lm_burst l1 = lm_burst l"
    "lm_rate l1 = lm_rate l"
    using assms(1) by (auto simp: l1_def removeExpired_def entries_ok_filter limiter_ok_entries)
  have "lm_clients l1 \<noteq> []" if "int (length (lm_clients l1)) \<ge> lm_maxClients l1"
    using that assms(1) l1(4) by (auto simp: limiter_ok_def)
  then have "int (length (lm_clients l2)) < lm_maxClients l"
    using removeOldest_length [OF assms(2) l1(1)] l1(3,4) assms(1) by (fastforce simp: l2_def limiter_ok_def)
  moreover have "entries_ok (lm_burst l) (lm_clients l2)" "set (lm_clients l2) \<subseteq> set (lm_clients l)"
    "lm_maxClients l2 = lm_maxClients l" "lm_burst l2 = lm_burst l" "lm_rate l2 = lm_rate l"
    using removeOldest_entries [OF l1(1)] removeOldest_subset [of iter l1] l1 by (auto simp: l2_def)
  moreover have "new_bucket iter now client l =
      l2\<lparr>lm_clients := (client, \<lparr>bk_tokens = lm_burst l, bk_lastRefill = now, bk_lastSeen = now\<rparr>) # lm_clients l2\<rparr>"
    by (simp add: new_bucket_def l1_def l2_def Let_def)
  ultimately show ?thesis using assms(1,3,4) by (auto simp: limiter_ok_entries entries_ok_Cons)
qed

lemma refill_tokens:
  assumes "float_laws fl" "limiter_ok l" "0 \<le> bk_tokens b" "bk_tokens b \<le> lm_burst l"
  shows "0 \<le> bk_tokens (refill fl l now b)" and "bk_tokens (refill fl l now b) \<le> lm_burst l"
  using assms float_laws_nonneg [OF assms(1)] by (auto simp: refill_def Let_def limiter_ok_def)

lemma set_bucket_ok:
  assumes "limiter_ok l" "0 \<le> bk_tokens b" "bk_tokens b \<le> lm_burst l"
  shows "limiter_ok (set_bucket client b l)"
  using assms entries_ok_set [of "lm_burst l" "lm_clients l" b client] by (simp add: limiter_ok_entries set_bucket_def)

text \<open>Floating point decrement: never below zero, never above.\<close>

lemma float_decrement: "float_laws fl \<Longrightarrow> 1 \<le> x \<Longrightarrow> x \<le> of_int n \<Longrightarrow> \<bar>n\<bar> \<le> 2 ^ 53 \<Longrightarrow> 0 \<le> fl (x - 1) \<and> fl (x - 1) \<le> of_int n"
  using float_laws_nonneg [of fl "x - 1"] float_laws_le_int [of fl "x - 1" n] by simp

lemma allow_ok:
  assumes "float_laws fl" "map_order iter" "client \<noteq> []" "limiter_ok l" "lm_burst l = of_int n" "\<bar>n\<bar> \<le> 2 ^ 53"
  shows "limiter_ok (snd (allow fl iter now client l))"
proof -
  define l1 where "l1 = (if map_of (lm_clients l) client = None then new_bucket iter now client l else l)"
  define b where "b = the (map_of (lm_clients l1) client)"
  have l1: "limiter_ok l1" using new_bucket_ok [OF assms(4,2,3)] assms(4) by (auto simp: l1_def map_of_eq_None_iff)
  have burst: "lm_burst l1 = lm_burst l" by (simp add: l1_def new_bucket_def removeExpired_def Let_def)
  have "map_of (lm_clients l1) client \<noteq> None" by (auto simp: l1_def new_bucket_def Let_def)
  then have "(client, b) \<in> set (lm_clients l1)" by (auto simp: b_def intro: map_of_SomeD)
  then have tokens: "0 \<le> bk_tokens b" "bk_tokens b \<le> lm_burst l1" using l1 by (force simp: limiter_ok_def)+
  note filled = refill_tokens [OF assms(1) l1 tokens, of now]
  have "0 \<le> fl (bk_tokens (refill fl l1 now b) - 1) \<and> fl (bk_tokens (refill fl l1 now b) - 1) \<le> lm_burst l1"
    if "1 \<le> bk_tokens (refill fl l1 now b)"
    using float_decrement [OF assms(1) that _ assms(6)] filled(2) burst assms(5) by simp
  then show ?thesis using set_bucket_ok [OF l1] filled by (simp add: allow_def Let_def flip: l1_def b_def)
qed

section \<open>Runs of a limiter\<close>

text \<open>The settings the configuration admits: a burst is exact as a floating point number.\<close>

definition new_limiter :: "rounding \<Rightarrow> AuthRateLimitConfig \<Rightarrow> AuthRateLimiter \<Rightarrow> bool" where
  "new_limiter fl cfg l \<longleftrightarrow> rl_Burst cfg \<le> 10000 \<and> NewAuthRateLimiter fl cfg = Inr l"

inductive limiting :: "rounding \<Rightarrow> AuthRateLimiter \<Rightarrow> AuthRateLimiter \<Rightarrow> bool" for fl where
  request: "map_order iter \<Longrightarrow> AuthRateLimiter_Middleware fl iter split now remoteAddr l = (r, l') \<Longrightarrow> limiting fl l l'"

lemma clientAddress_nonempty: "clientAddress split remoteAddr \<noteq> []"
  by (auto simp: clientAddress_def split: option.splits)

lemma Middleware_state:
  "AuthRateLimiter_Middleware fl iter split now remoteAddr l = (r, l') \<Longrightarrow> l' = snd (allow fl iter now (clientAddress split remoteAddr) l)"
  by (auto simp: AuthRateLimiter_Middleware_def split: prod.splits)

lemma allow_frame [simp]:
  "lm_burst (snd (allow fl iter now client l)) = lm_burst l" "lm_rate (snd (allow fl iter now client l)) = lm_rate l"
  "lm_maxClients (snd (allow fl iter now client l)) = lm_maxClients l"
  by (simp_all add: allow_def set_bucket_def new_bucket_def removeExpired_def Let_def)

definition limiter_inv :: "AuthRateLimitConfig \<Rightarrow> AuthRateLimiter \<Rightarrow> bool" where
  "limiter_inv cfg l \<longleftrightarrow> limiter_ok l \<and> lm_burst l = of_int (rl_Burst cfg) \<and> 1 \<le> rl_Burst cfg \<and> rl_Burst cfg \<le> 10000 \<and>
     lm_maxClients l = rl_MaxClients cfg"

lemma new_limiter_ok:
  assumes "float_laws fl" "new_limiter fl cfg l"
  shows "limiter_inv cfg l"
proof -
  have "fl (of_int (rl_Burst cfg)) = of_int (rl_Burst cfg)"
    using assms by (intro float_laws_int) (auto simp: new_limiter_def NewAuthRateLimiter_def split: if_splits)
  moreover have "0 \<le> fl (fl (of_int (rl_RequestsPerMinute cfg)) / fl (of_int (Minute div Second)))"
    using assms float_laws_nonneg [OF assms(1)]
    by (auto simp: new_limiter_def NewAuthRateLimiter_def split: if_splits intro!: float_laws_nonneg [OF assms(1)] divide_nonneg_nonneg)
  ultimately show ?thesis using assms(2)
    by (auto simp: new_limiter_def NewAuthRateLimiter_def limiter_inv_def limiter_ok_def split: if_splits)
qed

lemma limiting_ok:
  assumes "float_laws fl" "limiter_inv cfg l" "limiting fl l l'"
  shows "limiter_inv cfg l'"
  using assms(3)
proof cases
  case (request iter split now remoteAddr r)
  have "limiter_ok (snd (allow fl iter now (clientAddress split remoteAddr) l))"
    by (rule allow_ok [OF assms(1) request(1) clientAddress_nonempty, where n = "rl_Burst cfg"])
      (use assms(2) in \<open>auto simp: limiter_inv_def\<close>)
  then show ?thesis using Middleware_state [OF request(2)] assms(2) by (simp add: limiter_inv_def)
qed

text \<open>A rounding that obeys the laws gives a system whose states all obey the invariant.\<close>

interpretation limiter: invariant_system "\<lambda>l. float_laws fl \<and> new_limiter fl cfg l" "\<lambda>l l'. float_laws fl \<and> limiting fl l l'"
    "limiter_inv cfg" for fl cfg
  by unfold_locales (auto intro: new_limiter_ok limiting_ok)

section \<open>Bursts\<close>

text \<open>The answers to \<open>n\<close> requests of one client at one instant.\<close>

fun burst_answers :: "rounding \<Rightarrow> map_order \<Rightarrow> time \<Rightarrow> string \<Rightarrow> nat \<Rightarrow> AuthRateLimiter \<Rightarrow> bool list" where
  "burst_answers fl iter now client 0 l = []"
| "burst_answers fl iter now client (Suc n) l =
    (let ((allowed, _), l') = allow fl iter now client l in allowed # burst_answers fl iter now client n l')"

lemma Seconds_0: "float_laws fl \<Longrightarrow> Seconds fl 0 = 0"
  by (simp add: Seconds_def Let_def float_laws_0)

lemma map_of_set_bucket: "map_of (lm_clients (set_bucket client b l)) client = (if map_of (lm_clients l) client = None then None else Some b)"
proof -
  have "map_of (map (\<lambda>(c, x). if c = client then (c, b) else (c, x)) xs) client = (if map_of xs client = None then None else Some b)" for xs
    by (induction xs) auto
  then show ?thesis by (simp add: set_bucket_def)
qed

lemma burst_answers_tokens:
  assumes "float_laws fl" "map_of (lm_clients l) client = Some b" "bk_tokens b = of_nat k" "bk_lastRefill b = now" "k \<le> 10000"
  shows "burst_answers fl iter now client n l = replicate (min n k) True @ replicate (n - k) False"
  using assms(2-)
proof (induction n arbitrary: l b k)
  case (Suc n)
  define b' where "b' = b\<lparr>bk_lastSeen := now, bk_tokens := of_nat (k - 1)\<rparr>"
  have exact: "fl (of_nat k - 1) = of_nat (k - 1)" if "1 \<le> k"
    using float_laws_int [OF assms(1), of "int (k - 1)"] that Suc.prems(4) by (simp add: of_nat_diff)
  have refilled: "refill fl l now b = b\<lparr>bk_lastSeen := now\<rparr>"
    using Suc.prems(3) Seconds_0 [OF assms(1)] by (simp add: refill_def)
  show ?case
  proof (cases "k = 0")
    case True
    have "snd (allow fl iter now client l) = set_bucket client (b\<lparr>bk_lastSeen := now\<rparr>) l"
      "fst (fst (allow fl iter now client l)) = False"
      using True Suc.prems refilled by (simp_all add: allow_def Let_def)
    then show ?thesis
      using Suc.IH [of "set_bucket client (b\<lparr>bk_lastSeen := now\<rparr>) l" "b\<lparr>bk_lastSeen := now\<rparr>" 0] Suc.prems True
      by (simp add: map_of_set_bucket case_prod_beta)
  next
    case False
    then have "snd (allow fl iter now client l) = set_bucket client b' l" "fst (fst (allow fl iter now client l)) = True"
      using Suc.prems refilled exact by (simp_all add: allow_def Let_def b'_def)
    then show ?thesis
      using Suc.IH [of "set_bucket client b' l" b' "k - 1"] Suc.prems False
      by (cases k) (simp_all add: map_of_set_bucket b'_def case_prod_beta)
  qed
qed simp

lemma burst_answers_new:
  assumes "float_laws fl" "map_of (lm_clients l) client = None" "lm_burst l = of_nat k" "1 \<le> k" "k \<le> 10000"
  shows "burst_answers fl iter now client n l = replicate (min n k) True @ replicate (n - k) False"
proof (cases n)
  case (Suc m)
  let ?b = "\<lparr>bk_tokens = of_nat k, bk_lastRefill = now, bk_lastSeen = now\<rparr>" and ?l = "new_bucket iter now client l"
  have "map_of (lm_clients ?l) client = Some ?b" using assms(3) by (simp add: new_bucket_def Let_def)
  moreover from this have "allow fl iter now client ?l = allow fl iter now client l" using assms(2) by (simp add: allow_def)
  ultimately show ?thesis using burst_answers_tokens [OF assms(1), of ?l client ?b k now iter n] assms(5) Suc by simp
qed simp

section \<open>Rounding to nearest obeys the laws\<close>

lemma round_half_even_bounds: "\<lfloor>x\<rfloor> \<le> round_half_even x" "round_half_even x \<le> \<lfloor>x\<rfloor> + 1"
  by (auto simp: round_half_even_def Let_def)

lemma round_half_even_mono:
  assumes "x \<le> y"
  shows "round_half_even x \<le> round_half_even y"
proof (cases "\<lfloor>x\<rfloor> = \<lfloor>y\<rfloor>")
  case True
  have "x - of_int \<lfloor>y\<rfloor> \<le> y - of_int \<lfloor>y\<rfloor>" using assms by simp
  then show ?thesis using True by (auto simp: round_half_even_def Let_def)
next
  case False
  then have "\<lfloor>x\<rfloor> + 1 \<le> \<lfloor>y\<rfloor>" using floor_mono [OF assms] by simp
  then show ?thesis using round_half_even_bounds [of x] round_half_even_bounds [of y] by linarith
qed

text \<open>The grid of a number, and rounding on it.\<close>

definition grid :: "int \<Rightarrow> rat" where
  "grid e = (if 0 \<le> e then 2 ^ nat e else 1 / 2 ^ nat (- e))"

lemma grid_pos: "0 < grid e"
  by (simp add: grid_def)

lemma grid_add: "grid (e + int k) = 2 ^ k * grid e"
proof (cases "0 \<le> e")
  case True
  then show ?thesis by (simp add: grid_def nat_add_distrib power_add)
next
  case False
  then show ?thesis
    by (cases "0 \<le> e + int k") (auto simp: grid_def field_simps nat_add_distrib simp flip: power_add intro!: arg_cong [where f = "\<lambda>n. 2 ^ n"])
qed

lemma float64_round_grid: "float64_round x = of_int (round_half_even (x / grid (bitlen \<lfloor>x\<rfloor> - 53))) * grid (bitlen \<lfloor>x\<rfloor> - 53)"
  by (simp add: float64_round_def grid_def Let_def)

lemma grid_nat: "grid (int k) = 2 ^ k"
  by (simp add: grid_def)

lemma float64_round_upper:
  assumes "0 \<le> x" "x \<le> 2 ^ nat b" "b = bitlen \<lfloor>x\<rfloor>" "0 \<le> b"
  shows "float64_round x \<le> 2 ^ nat b"
proof -
  have g: "2 ^ nat b = 2 ^ 53 * grid (b - 53)" using grid_add [of "b - 53" 53] grid_nat [of "nat b"] assms(4) by simp
  then have "x / grid (b - 53) \<le> of_int (2 ^ 53)" using assms(2) grid_pos [of "b - 53"] by (simp add: divide_le_eq)
  from round_half_even_le [OF this] have "(of_int (round_half_even (x / grid (b - 53))) :: rat) \<le> 2 ^ 53"
    by (metis of_int_le_iff of_int_numeral of_int_power)
  then show ?thesis using g grid_pos [of "b - 53"] assms(3) by (simp add: float64_round_grid mult_right_mono)
qed

lemma float64_round_lower:
  assumes "2 ^ nat (b - 1) \<le> x" "b = bitlen \<lfloor>x\<rfloor>" "1 \<le> b"
  shows "2 ^ nat (b - 1) \<le> float64_round x"
proof -
  have g: "2 ^ nat (b - 1) = 2 ^ 52 * grid (b - 53)" using grid_add [of "b - 53" 52] grid_nat [of "nat (b - 1)"] assms(3) by simp
  then have "of_int (2 ^ 52) \<le> x / grid (b - 53)" using assms(1) grid_pos [of "b - 53"] by (simp add: le_divide_eq)
  from round_half_even_mono [OF this] have "(2 ^ 52 :: rat) \<le> of_int (round_half_even (x / grid (b - 53)))"
    by (metis of_int_le_iff of_int_numeral of_int_power round_half_even_of_int)
  then show ?thesis using g grid_pos [of "b - 53"] assms(2) by (simp add: float64_round_grid mult_right_mono)
qed

lemma bitlen_range:
  assumes "0 \<le> n"
  shows "n < 2 ^ nat (bitlen n)" and "1 \<le> bitlen n \<Longrightarrow> 2 ^ nat (bitlen n - 1) \<le> n"
proof -
  consider "n = 0" | "0 < n" using assms by linarith
  then show "n < 2 ^ nat (bitlen n)" by cases (use bitlen_bounds in auto)
  show "2 ^ nat (bitlen n - 1) \<le> n" if "1 \<le> bitlen n"
  proof (cases "n = 0")
    case False
    then show ?thesis using bitlen_bounds [of n] assms by simp
  qed (use that in simp)
qed

lemma float64_round_mono:
  assumes "0 \<le> x" "x \<le> y"
  shows "float64_round x \<le> float64_round y"
proof -
  define b c where "b = bitlen \<lfloor>x\<rfloor>" and "c = bitlen \<lfloor>y\<rfloor>"
  have floors: "0 \<le> \<lfloor>x\<rfloor>" "\<lfloor>x\<rfloor> \<le> \<lfloor>y\<rfloor>" using assms floor_mono by auto
  have nonneg: "0 \<le> b" "0 \<le> c" by (simp_all add: b_def c_def bitlen_nonneg)
  have x: "\<lfloor>x\<rfloor> < 2 ^ nat b" unfolding b_def by (rule bitlen_range(1)) (rule floors(1))
  have y: "\<lfloor>y\<rfloor> < 2 ^ nat c" "1 \<le> c \<Longrightarrow> 2 ^ nat (c - 1) \<le> \<lfloor>y\<rfloor>"
    unfolding c_def by (rule bitlen_range; use floors in linarith)+
  have "b \<le> c" using bitlen_small [of "\<lfloor>x\<rfloor>" "nat c"] floors y(1) nonneg by (simp add: b_def)
  show ?thesis
  proof (cases "b = c")
    case True
    have "round_half_even (x / grid (b - 53)) \<le> round_half_even (y / grid (b - 53))"
      by (intro round_half_even_mono divide_right_mono assms(2)) (use grid_pos [of "b - 53"] in simp)
    then show ?thesis using True grid_pos [of "b - 53"]
      by (simp add: float64_round_grid flip: b_def c_def)
  next
    case False
    with \<open>b \<le> c\<close> nonneg have less: "1 \<le> c" "nat b \<le> nat (c - 1)" by auto
    have "(of_int (\<lfloor>x\<rfloor> + 1) :: rat) \<le> of_int (2 ^ nat b)" unfolding of_int_le_iff using x by simp
    then have "of_int \<lfloor>x\<rfloor> + 1 \<le> (2 ^ nat b :: rat)" by simp
    then have "x \<le> 2 ^ nat b" using real_of_int_floor_add_one_gt [of "0"] floor_correct [of x] by linarith
    from float64_round_upper [OF assms(1) this b_def nonneg(1)] have "float64_round x \<le> 2 ^ nat b" .
    also have "\<dots> \<le> (2 ^ nat (c - 1) :: rat)" using less(2) by (intro power_increasing) auto
    also have "\<dots> \<le> float64_round y"
    proof (rule float64_round_lower [OF _ c_def less(1)])
      have "(of_int (2 ^ nat (c - 1)) :: rat) \<le> of_int \<lfloor>y\<rfloor>" unfolding of_int_le_iff by (rule y(2) [OF less(1)])
      from order_trans [OF this of_int_floor_le] show "2 ^ nat (c - 1) \<le> y" by simp
    qed
    finally show ?thesis .
  qed
qed

text \<open>Rounding to nearest obeys the laws, the sign apart.\<close>

definition float64 :: rounding where
  "float64 x = (if 0 \<le> x then float64_round x else - float64_round (- x))"

lemma float64_round_nonneg: "0 \<le> x \<Longrightarrow> 0 \<le> float64_round x"
  using float64_round_mono [of 0 x] float64_round_exact [of 0] by simp

lemma float64_laws: "float_laws float64"
proof -
  have "mono float64"
  proof (rule monoI)
    fix x y :: rat
    assume "x \<le> y"
    then show "float64 x \<le> float64 y"
      using float64_round_mono [of x y] float64_round_mono [of "- y" "- x"] float64_round_nonneg [of y] float64_round_nonneg [of "- x"]
      by (auto simp: float64_def)
  qed
  moreover have "float64 (of_int n) = of_int n" if "\<bar>n\<bar> \<le> 2 ^ 53" for n
  proof (cases "\<bar>n\<bar> = 2 ^ 53")
    case True
    have "float64_round (2 ^ 53) = 2 ^ 53" by code_simp
    moreover have "n = 2 ^ 53 \<or> n = - (2 ^ 53)" using True by linarith
    ultimately show ?thesis by (auto simp: float64_def)
  next
    case False
    then show ?thesis using that float64_round_exact [of "\<bar>n\<bar>"] by (auto simp: float64_def abs_if split: if_splits)
  qed
  ultimately show ?thesis by (simp add: float_laws_def)
qed

end
