(* ===== verification/Http.thy ===== *)
theory Http
  imports RateLimit Identity Dlq Multipart Results
begin

text \<open>
  The HTTP layer around the handlers (\<open>internal/httpapi\<close>, \<open>internal/observability\<close>): requests and
  responses, the middlewares, what the handlers read from a request, and the problems that errors
  become. A response is its status, its headers and what is written as JSON; the message texts of the
  problems, which are fixed, are left out.
\<close>

section \<open>Requests and responses\<close>

text \<open>
  A body is its length, the first JSON value in it, if it starts with one, and whether anything but
  white space follows. Headers, query parameters and path parameters read as the empty text when they
  are missing.
\<close>

record Body =
  bd_length :: nat
  bd_value :: "json option"
  bd_trailing :: bool
  bd_bytes :: string

record Request =
  rq_Method :: string
  rq_Header :: "string \<Rightarrow> string"
  rq_Query :: "string \<Rightarrow> string"
  rq_Param :: "string \<Rightarrow> string"
  rq_Body :: "Body option"
  rq_ContentLength :: int
  rq_RemoteAddr :: string
  rq_RequestID :: string

datatype (plugins del: quickcheck_exhaustive quickcheck_random quickcheck_bounded_forall quickcheck_full_exhaustive quickcheck_narrowing lifting transfer) payload =
    NoBody
  | ProblemBody string
  | StatusBody string
  | TokenBody User TokenPair
  | CreatedKeyBody APIKey string
  | KeysBody "APIKey list"
  | JobBody Job
  | JobsBody "Job list" int int int
  | DeadLettersBody DlqPage
  | ReplayBody ReplayResult
  | DatasetBody Dataset
  | DatasetsBody "Dataset list" int int int
  | DatasetDetailBody Dataset "Version list"
  | VersionBody Version
  | SessionBody Session
  | SessionDetailBody Session "Part list"
  | PartsBody "Part list"
  | PartURLBody PartURL
  | PartBody Part
  | RuleBody Rule
  | RulesBody "Rule list" int int int
  | ArtifactBody Artifact
  | ArtifactsBody "Artifact list" int int int
  | ProgressBody Progress
  | ProgressPageBody ProgressPage
  | BytesBody string

record Response =
  rs_Status :: int
  rs_Headers :: "(string \<times> string) list"
  rs_Body :: payload

definition WriteProblem :: "int \<Rightarrow> string \<Rightarrow> Response" where
  "WriteProblem status code = \<lparr>rs_Status = status, rs_Headers = [(''Content-Type'', ''application/problem+json'')], rs_Body = ProblemBody code\<rparr>"

definition writeJSON :: "int \<Rightarrow> payload \<Rightarrow> Response" where
  "writeJSON status v = \<lparr>rs_Status = status, rs_Headers = [(''Content-Type'', ''application/json'')], rs_Body = v\<rparr>"

definition no_content :: Response where
  "no_content = \<lparr>rs_Status = 204, rs_Headers = [], rs_Body = NoBody\<rparr>"

section \<open>Request identifiers\<close>

definition validRequestID :: "string \<Rightarrow> bool" where
  "validRequestID s \<longleftrightarrow>
     1 \<le> length s \<and> length s \<le> 128 \<and>
     list_all (\<lambda>c. is_upper c \<or> is_lower c \<or> is_digit c \<or> c \<in> {CHR ''.'', CHR ''_'', CHR '':'', CHR ''-''}) s"

text \<open>\<open>random\<close> is the sixteen random bytes, in hexadecimal, or nothing when they cannot be read.\<close>

definition newRequestID :: "string option \<Rightarrow> string" where
  "newRequestID random = (case random of None \<Rightarrow> ''request-id-unavailable'' | Some h \<Rightarrow> h)"

definition RequestIDMiddleware :: "string option \<Rightarrow> (Request \<Rightarrow> 's \<Rightarrow> Response \<times> 's) \<Rightarrow> Request \<Rightarrow> 's \<Rightarrow> Response \<times> 's" where
  "RequestIDMiddleware random nxt r s =
    (let given = rq_Header r ''X-Request-ID'';
         requestID = (if validRequestID given then given else newRequestID random);
         (resp, s') = nxt (r\<lparr>rq_RequestID := requestID\<rparr>) s
     in (resp\<lparr>rs_Headers := (''X-Request-ID'', requestID) # rs_Headers resp\<rparr>, s'))"

section \<open>Credentials of a request\<close>

text \<open>\<open>strings.Fields\<close>: the words between white space. Each round drops at least one byte.\<close>

fun fields_loop :: "nat \<Rightarrow> string \<Rightarrow> string \<Rightarrow> string list" where
  "fields_loop 0 word s = (if word = [] then [] else [rev word])"
| "fields_loop (Suc n) word s =
    (case strip_any space_seqs s of
       Some rest \<Rightarrow> (if word = [] then [] else [rev word]) @ fields_loop n [] rest
     | None \<Rightarrow>
         (case s of
            [] \<Rightarrow> if word = [] then [] else [rev word]
          | c # cs \<Rightarrow> fields_loop n (c # word) cs))"

definition strings_Fields :: "string \<Rightarrow> string list" where
  "strings_Fields s = fields_loop (length s) [] s"

text \<open>\<open>strings.EqualFold\<close> with a text of ASCII letters that fold with no others.\<close>

definition equal_fold :: "string \<Rightarrow> string \<Rightarrow> bool" where
  "equal_fold s t \<longleftrightarrow> map lower_char s = map lower_char t"

definition extractCredentials :: "Request \<Rightarrow> (string \<times> string) option" where
  "extractCredentials r =
    (let authorization = TrimSpace (rq_Header r ''Authorization''); apiKey = TrimSpace (rq_Header r ''X-API-Key'')
     in if authorization \<noteq> [] \<and> apiKey \<noteq> [] then None
        else if apiKey \<noteq> [] then Some ([], apiKey)
        else if authorization = [] then None
        else case strings_Fields authorization of
            [scheme, token] \<Rightarrow> if equal_fold scheme ''bearer'' \<and> token \<noteq> [] then Some (token, []) else None
          | _ \<Rightarrow> None)"

text \<open>
  The state of the server: the identity tables, the other tables and the limiter of the credential
  routes.
\<close>

record Server =
  srv_identity :: IdentityDB
  srv_db :: DB
  srv_limiter :: AuthRateLimiter

type_synonym handler = "Request \<Rightarrow> Principal option \<Rightarrow> Server \<Rightarrow> Response \<times> Server"

text \<open>Who a request is from; an API key that is accepted gets its time of last use.\<close>

definition authenticate :: "Libraries \<Rightarrow> IdentityService \<Rightarrow> time \<Rightarrow> Request \<Rightarrow> IdentityDB \<Rightarrow> (Principal \<times> IdentityDB) option" where
  "authenticate lib service now r db =
    (case extractCredentials r of
       None \<Rightarrow> None
     | Some (bearer, apiKey) \<Rightarrow>
         (case (if bearer \<noteq> [] then map_sum id (\<lambda>p. (p, db)) (AuthenticateBearer lib service now bearer db)
                else Service_AuthenticateAPIKey lib service now apiKey db) of
            Inl _ \<Rightarrow> None
          | Inr found \<Rightarrow> Some found))"

definition identityAuthMiddleware :: "Libraries \<Rightarrow> IdentityService \<Rightarrow> time \<Rightarrow> handler \<Rightarrow> handler" where
  "identityAuthMiddleware lib service now nxt r p s =
    (case authenticate lib service now r (srv_identity s) of
       None \<Rightarrow> (WriteProblem 401 ''UNAUTHENTICATED'', s)
     | Some (prin, db) \<Rightarrow> nxt r (Some prin) (s\<lparr>srv_identity := db\<rparr>))"

definition principalFromRequest :: "Principal option \<Rightarrow> Principal option" where
  "principalFromRequest p = (case p of Some prin \<Rightarrow> if prin_UserID prin \<noteq> uuid_Nil then Some prin else None | None \<Rightarrow> None)"

text \<open>The limiter in front of the public credential routes.\<close>

definition limiterMiddleware ::
  "rounding \<Rightarrow> map_order \<Rightarrow> (string \<Rightarrow> (string \<times> string) option) \<Rightarrow> time \<Rightarrow> handler \<Rightarrow> handler" where
  "limiterMiddleware fl iter split now nxt r p s =
    (case AuthRateLimiter_Middleware fl iter split now (rq_RemoteAddr r) (srv_limiter s) of
       (Some seconds, l) \<Rightarrow>
         (let problem = WriteProblem 429 ''RATE_LIMITED''
          in (problem\<lparr>rs_Headers := (''Retry-After'', int_text seconds) # rs_Headers problem\<rparr>, s\<lparr>srv_limiter := l\<rparr>))
     | (None, l) \<Rightarrow> nxt r p (s\<lparr>srv_limiter := l\<rparr>))"

section \<open>Errors\<close>

text \<open>\<open>errors.Is\<close>: a joined error is every error it joins.\<close>

fun errors_Is :: "go_error \<Rightarrow> go_error \<Rightarrow> bool" where
  "errors_Is (ErrJoin es) t = (ErrJoin es = t \<or> (\<exists>e \<in> set es. errors_Is e t))"
| "errors_Is e t = (e = t)"

text \<open>A \<open>switch\<close> on \<open>errors.Is\<close>: the first row with one of whose errors the error is.\<close>

fun problem_of :: "(go_error list \<times> int \<times> string) list \<Rightarrow> go_error \<Rightarrow> Response" where
  "problem_of [] err = WriteProblem 500 ''INTERNAL_ERROR''"
| "problem_of ((targets, status, code) # rest) err =
    (if list_ex (errors_Is err) targets then WriteProblem status code else problem_of rest err)"

definition writeIdentityError :: "go_error \<Rightarrow> Response" where
  "writeIdentityError = problem_of
    [([IdentityErrInvalidInput, AuthzErrInvalidScope], 400, ''INVALID_REQUEST''),
     ([IdentityErrEmailAlreadyExists], 409, ''EMAIL_ALREADY_REGISTERED''),
     ([IdentityErrInvalidCredentials, IdentityErrRefreshTokenInvalid, IdentityErrRefreshTokenReplay, IdentityErrRefreshTokenExpired,
       IdentityErrAPIKeyInvalid, AuthzErrUnauthenticated], 401, ''UNAUTHENTICATED''),
     ([AuthzErrForbidden], 403, ''FORBIDDEN''),
     ([IdentityErrAPIKeyNotFound], 404, ''API_KEY_NOT_FOUND'')]"

definition writeJobError :: "go_error \<Rightarrow> Response" where
  "writeJobError = problem_of
    [([JobErrInvalidInput], 400, ''INVALID_REQUEST''),
     ([AuthzErrUnauthenticated], 401, ''UNAUTHENTICATED''),
     ([AuthzErrForbidden], 403, ''FORBIDDEN''),
     ([JobErrJobNotFound, JobErrVersionNotFound, DatasetErrDatasetNotFound, DatasetErrVersionNotFound], 404, ''NOT_FOUND''),
     ([JobErrIdempotencyConflict], 409, ''IDEMPOTENCY_CONFLICT''),
     ([JobErrVersionUnavailable, JobErrJobState, JobErrInvalidTransition], 409, ''JOB_STATE_CONFLICT''),
     ([JobErrQuotaExceeded], 429, ''JOB_QUOTA_EXCEEDED'')]"

definition writeDLQError :: "go_error \<Rightarrow> Response" where
  "writeDLQError = problem_of
    [([AuthzErrUnauthenticated], 401, ''UNAUTHENTICATED''),
     ([AuthzErrForbidden], 403, ''FORBIDDEN''),
     ([DlqErrInvalidInput], 400, ''INVALID_REQUEST''),
     ([DlqErrNotFound], 404, ''NOT_FOUND''),
     ([DlqErrAlreadyReplayed, DlqErrJobState], 409, ''DLQ_STATE_CONFLICT''),
     ([DlqErrQuotaExceeded], 429, ''JOB_QUOTA_EXCEEDED'')]"

definition writeDatasetError :: "go_error \<Rightarrow> Response" where
  "writeDatasetError = problem_of
    [([DatasetErrInvalidInput], 400, ''INVALID_REQUEST''),
     ([DatasetErrUploadTooLarge], 413, ''UPLOAD_TOO_LARGE''),
     ([DatasetErrUploadSizeMismatch], 400, ''UPLOAD_SIZE_MISMATCH''),
     ([DatasetErrChecksumMismatch], 400, ''CHECKSUM_MISMATCH''),
     ([AuthzErrUnauthenticated], 401, ''UNAUTHENTICATED''),
     ([AuthzErrForbidden], 403, ''FORBIDDEN''),
     ([DatasetErrDatasetNameUsed], 409, ''DATASET_NAME_USED''),
     ([DatasetErrDatasetNotFound, DatasetErrVersionNotFound], 404, ''NOT_FOUND''),
     ([DatasetErrDatasetDeleted, DatasetErrVersionState], 409, ''RESOURCE_STATE_CONFLICT''),
     ([DatasetErrObjectStorage], 502, ''STORAGE_ERROR'')]"

definition writeMultipartError :: "go_error \<Rightarrow> Response" where
  "writeMultipartError = problem_of
    [([MultipartErrInvalidInput], 400, ''INVALID_REQUEST''),
     ([MultipartErrUploadTooLarge], 413, ''UPLOAD_TOO_LARGE''),
     ([MultipartErrSizeMismatch], 400, ''UPLOAD_SIZE_MISMATCH''),
     ([MultipartErrChecksumMismatch], 400, ''CHECKSUM_MISMATCH''),
     ([AuthzErrUnauthenticated], 401, ''UNAUTHENTICATED''),
     ([AuthzErrForbidden], 403, ''FORBIDDEN''),
     ([MultipartErrSessionNotFound, MultipartErrPartNotFound, DatasetErrDatasetNotFound], 404, ''NOT_FOUND''),
     ([MultipartErrSessionExpired], 409, ''SESSION_EXPIRED''),
     ([MultipartErrSessionCompleted], 409, ''SESSION_COMPLETED''),
     ([MultipartErrSessionState, MultipartErrSessionInProgress, MultipartErrIdempotencyConflict, MultipartErrPartConflict,
       DatasetErrVersionState], 409, ''RESOURCE_STATE_CONFLICT''),
     ([MultipartErrRemoteStorage, DatasetErrObjectStorage], 502, ''STORAGE_ERROR''),
     ([DatasetErrDatasetDeleted], 409, ''RESOURCE_STATE_CONFLICT'')]"

definition writeQualityError :: "go_error \<Rightarrow> Response" where
  "writeQualityError = problem_of
    [([QualityErrInvalidInput], 400, ''INVALID_REQUEST''),
     ([AuthzErrUnauthenticated], 401, ''UNAUTHENTICATED''),
     ([AuthzErrForbidden], 403, ''FORBIDDEN''),
     ([QualityErrRuleNameUsed], 409, ''QUALITY_RULE_NAME_USED''),
     ([QualityErrRuleNotFound, DatasetErrDatasetNotFound], 404, ''NOT_FOUND''),
     ([DatasetErrDatasetDeleted], 409, ''RESOURCE_STATE_CONFLICT'')]"

definition writeResultError :: "go_error \<Rightarrow> Response" where
  "writeResultError = problem_of
    [([AuthzErrUnauthenticated], 401, ''UNAUTHENTICATED''),
     ([AuthzErrForbidden], 403, ''FORBIDDEN''),
     ([ResultErrInvalidInput], 400, ''INVALID_REQUEST''),
     ([ResultErrArtifactNotFound], 404, ''NOT_FOUND''),
     ([ResultErrArtifactTooLarge], 413, ''ARTIFACT_TOO_LARGE''),
     ([ResultErrArtifactUnavailable], 502, ''ARTIFACT_UNAVAILABLE''),
     ([ResultErrProgressNotFound], 404, ''PROGRESS_NOT_FOUND'')]"

section \<open>Path and query parameters\<close>

definition parsePositiveQueryInt :: "Request \<Rightarrow> string \<Rightarrow> int result" where
  "parsePositiveQueryInt r name =
    (let v = TrimSpace (rq_Query r name)
     in if v = [] then Inr 0
        else case parse_int64 v of
            None \<Rightarrow> Inl DatasetErrInvalidInput
          | Some n \<Rightarrow> if n < 1 then Inl DatasetErrInvalidInput else Inr n)"

text \<open>The parsers of the resources differ in the error they answer.\<close>

definition parse_pagination :: "go_error \<Rightarrow> Request \<Rightarrow> (int \<times> int) result" where
  "parse_pagination err r =
    (case parsePositiveQueryInt r ''page'' of
       Inl _ \<Rightarrow> Inl err
     | Inr page \<Rightarrow>
         (case parsePositiveQueryInt r ''pageSize'' of
            Inl _ \<Rightarrow> Inl err
          | Inr pageSize \<Rightarrow> if pageSize > 100 then Inl err else Inr (page, pageSize)))"

definition parseDatasetPagination :: "Request \<Rightarrow> (int \<times> int) result" where
  "parseDatasetPagination r = parse_pagination DatasetErrInvalidInput r"

definition parseJobPagination :: "Request \<Rightarrow> (int \<times> int) result" where
  "parseJobPagination r = parse_pagination JobErrInvalidInput r"

definition parseDLQPagination :: "Request \<Rightarrow> (int \<times> int) result" where
  "parseDLQPagination r = parse_pagination DlqErrInvalidInput r"

definition parseQualityPagination :: "Request \<Rightarrow> (int \<times> int) result" where
  "parseQualityPagination r = parse_pagination QualityErrInvalidInput r"

definition parseArtifactPagination :: "Request \<Rightarrow> (int \<times> int) result" where
  "parseArtifactPagination r = parse_pagination ResultErrInvalidInput r"

definition path_uuid :: "Runtime \<Rightarrow> go_error \<Rightarrow> string \<Rightarrow> Request \<Rightarrow> uuid result" where
  "path_uuid rt err name r = (case uuid_Parse rt (rq_Param r name) of None \<Rightarrow> Inl err | Some u \<Rightarrow> Inr u)"

definition parseDatasetID :: "Runtime \<Rightarrow> Request \<Rightarrow> uuid result" where
  "parseDatasetID rt r = path_uuid rt DatasetErrInvalidInput ''datasetID'' r"

definition parseDatasetVersionID :: "Runtime \<Rightarrow> Request \<Rightarrow> uuid result" where
  "parseDatasetVersionID rt r = path_uuid rt JobErrInvalidInput ''datasetVersionID'' r"

definition parseJobID :: "Runtime \<Rightarrow> Request \<Rightarrow> uuid result" where
  "parseJobID rt r = path_uuid rt JobErrInvalidInput ''jobID'' r"

definition parseMultipartSessionID :: "Runtime \<Rightarrow> Request \<Rightarrow> uuid result" where
  "parseMultipartSessionID rt r = path_uuid rt MultipartErrInvalidInput ''sessionID'' r"

definition parseQualityRuleID :: "Runtime \<Rightarrow> Request \<Rightarrow> uuid result" where
  "parseQualityRuleID rt r = path_uuid rt QualityErrInvalidInput ''ruleID'' r"

definition parseArtifactID :: "Runtime \<Rightarrow> Request \<Rightarrow> uuid result" where
  "parseArtifactID rt r = path_uuid rt ResultErrInvalidInput ''artifactID'' r"

definition parseResultJobID :: "Runtime \<Rightarrow> Request \<Rightarrow> uuid result" where
  "parseResultJobID rt r = path_uuid rt ResultErrInvalidInput ''jobID'' r"

definition parseMultipartPartNumber :: "Request \<Rightarrow> int result" where
  "parseMultipartPartNumber r =
    (case parse_int64 (TrimSpace (rq_Param r ''partNumber'')) of
       None \<Rightarrow> Inl MultipartErrInvalidInput
     | Some n \<Rightarrow> if n < 1 then Inl MultipartErrInvalidInput else Inr n)"

definition optional_uuid :: "Runtime \<Rightarrow> go_error \<Rightarrow> string \<Rightarrow> uuid option result" where
  "optional_uuid rt err v =
    (if v = [] then Inr None else case uuid_Parse rt v of None \<Rightarrow> Inl err | Some u \<Rightarrow> Inr (Some u))"

definition optionalQualityDatasetID :: "Runtime \<Rightarrow> Request \<Rightarrow> uuid option result" where
  "optionalQualityDatasetID rt r = optional_uuid rt QualityErrInvalidInput (TrimSpace (rq_Param r ''datasetID''))"

definition qualityDatasetFilter :: "Runtime \<Rightarrow> Request \<Rightarrow> uuid option result" where
  "qualityDatasetFilter rt r =
    bindE (optionalQualityDatasetID rt r) (\<lambda>pathID.
    let queryValue = TrimSpace (rq_Query r ''datasetId'')
    in if queryValue = [] then Inr pathID
       else case uuid_Parse rt queryValue of
           None \<Rightarrow> Inl QualityErrInvalidInput
         | Some queryID \<Rightarrow> if pathID \<noteq> None \<and> pathID \<noteq> Some queryID then Inl QualityErrInvalidInput else Inr (Some queryID))"

definition optionalArtifactJobID :: "Runtime \<Rightarrow> Request \<Rightarrow> uuid option result" where
  "optionalArtifactJobID rt r =
    (let fromPath = TrimSpace (rq_Param r ''jobID'')
     in optional_uuid rt ResultErrInvalidInput (if fromPath = [] then TrimSpace (rq_Query r ''jobId'') else fromPath))"

section \<open>Bodies\<close>

text \<open>
  One JSON value of at most \<open>limit\<close> bytes that decodes into the struct. The decoders of the resources
  differ in the limit; a missing body reads as empty.
\<close>

definition decode_body :: "nat \<Rightarrow> Runtime \<Rightarrow> (string \<times> 'r setter) list \<Rightarrow> 'r \<Rightarrow> Request \<Rightarrow> 'r option" where
  "decode_body limit rt fs zero r =
    (case rq_Body r of
       None \<Rightarrow> None
     | Some b \<Rightarrow>
         if bd_length b > limit \<or> bd_trailing b then None
         else case bd_value b of None \<Rightarrow> None | Some v \<Rightarrow> decode_struct rt fs v zero)"

definition decodeIdentityJSON :: "Runtime \<Rightarrow> (string \<times> 'r setter) list \<Rightarrow> 'r \<Rightarrow> Request \<Rightarrow> 'r option" where
  "decodeIdentityJSON = decode_body 1048576"

definition decodeJobJSON :: "Runtime \<Rightarrow> (string \<times> 'r setter) list \<Rightarrow> 'r \<Rightarrow> Request \<Rightarrow> 'r option" where
  "decodeJobJSON = decode_body (64 * 1024)"

definition decodeDatasetJSON :: "Runtime \<Rightarrow> (string \<times> 'r setter) list \<Rightarrow> 'r \<Rightarrow> Request \<Rightarrow> 'r option" where
  "decodeDatasetJSON = decode_body (64 * 1024)"

definition decodeMultipartJSON :: "Runtime \<Rightarrow> (string \<times> 'r setter) list \<Rightarrow> 'r \<Rightarrow> Request \<Rightarrow> 'r option" where
  "decodeMultipartJSON = decode_body (2 * 1024 * 1024)"

definition decodeQualityJSON :: "Runtime \<Rightarrow> (string \<times> 'r setter) list \<Rightarrow> 'r \<Rightarrow> Request \<Rightarrow> 'r option" where
  "decodeQualityJSON = decode_body (64 * 1024)"

end
