(* ===== verification/Api.thy ===== *)
theory Api
  imports Http
begin

text \<open>
  The handlers of the HTTP API (\<open>internal/httpapi/*_handlers.go\<close>) on the services, and the table of
  routes. What the services take from outside, the clock, identifiers, libraries and the answers of
  the object store, is the record \<open>Api\<close>.
\<close>

section \<open>Environment\<close>

record Api =
  api_rt :: Runtime
  api_lib :: Libraries
  api_identity :: IdentityService
  api_now :: time
  api_draws :: IdentityDraws
  api_snapshotRules :: "any \<Rightarrow> unit result"
  api_create :: CreateDraws
  api_fresh :: string
  api_attemptID :: uuid
  api_messageID :: uuid
  api_lower :: "string \<Rightarrow> string"
  api_ilike :: "string \<Rightarrow> string \<Rightarrow> bool"
  api_datasetID :: uuid
  api_versionID :: uuid
  api_jsonValid :: "string \<Rightarrow> bool"
  api_context :: Context
  api_objects :: ObjectStore
  api_maxUploadBytes :: int
  api_readFails :: bool
  api_multipart :: MultipartConfig
  api_initiate :: InitiateEnv
  api_presign :: "string \<Rightarrow> string \<Rightarrow> int \<Rightarrow> duration \<Rightarrow> string result"
  api_getPart :: "string \<Rightarrow> string \<Rightarrow> int \<Rightarrow> MultipartPart result"
  api_complete :: CompleteEnv
  api_token :: uuid
  api_errText :: "go_error \<Rightarrow> string"
  api_abortRemote :: "unit result"
  api_compiles :: "string \<Rightarrow> bool"
  api_nilNull :: bool
  api_ruleID :: uuid
  api_getObject :: "string \<Rightarrow> (bool \<times> go_error) + string"
  api_ready :: "unit result"

section \<open>How a handler goes on\<close>

text \<open>
  Each early return of a handler writes a problem and leaves the state. \<open>authenticated\<close> is the check
  of the principal, \<open>attempt\<close> that of a parsed value, \<open>decoded\<close> that of the body, and \<open>call\<close> the
  call of a service.
\<close>

type_synonym step = "Server \<Rightarrow> Response \<times> Server"

definition authenticated :: "(go_error \<Rightarrow> Response) \<Rightarrow> Principal option \<Rightarrow> (Principal \<Rightarrow> step) \<Rightarrow> step" where
  "authenticated write p k s =
    (case principalFromRequest p of None \<Rightarrow> (write AuthzErrUnauthenticated, s) | Some prin \<Rightarrow> k prin s)"

definition attempt :: "(go_error \<Rightarrow> Response) \<Rightarrow> 'a result \<Rightarrow> ('a \<Rightarrow> step) \<Rightarrow> step" where
  "attempt write r k s = (case r of Inl err \<Rightarrow> (write err, s) | Inr x \<Rightarrow> k x s)"

definition decoded :: "'a option \<Rightarrow> ('a \<Rightarrow> step) \<Rightarrow> step" where
  "decoded d k s = (case d of None \<Rightarrow> (WriteProblem 400 ''INVALID_REQUEST'', s) | Some x \<Rightarrow> k x s)"

definition call :: "(go_error \<Rightarrow> Response) \<Rightarrow> (Server \<Rightarrow> 'a result \<times> Server) \<Rightarrow> ('a \<Rightarrow> Response) \<Rightarrow> step" where
  "call write service respond s =
    (case service s of (Inl err, s') \<Rightarrow> (write err, s') | (Inr x, s') \<Rightarrow> (respond x, s'))"

text \<open>
  A service on the tables, as a transaction that returns a value and the tables it leaves, as a
  sequence of transactions that leaves tables in any case, or as a query; and one on the identity
  tables.
\<close>

definition db_tx :: "(DB \<Rightarrow> ('a \<times> DB) result) \<Rightarrow> Server \<Rightarrow> 'a result \<times> Server" where
  "db_tx f s = (let (r, db) = run_tx f (srv_db s) in (r, s\<lparr>srv_db := db\<rparr>))"

definition db_run :: "(DB \<Rightarrow> 'a result \<times> DB) \<Rightarrow> Server \<Rightarrow> 'a result \<times> Server" where
  "db_run f s = (let (r, db) = f (srv_db s) in (r, s\<lparr>srv_db := db\<rparr>))"

definition db_query :: "(DB \<Rightarrow> 'a result) \<Rightarrow> Server \<Rightarrow> 'a result \<times> Server" where
  "db_query f s = (f (srv_db s), s)"

definition identity_run :: "(IdentityDB \<Rightarrow> 'a result \<times> IdentityDB) \<Rightarrow> Server \<Rightarrow> 'a result \<times> Server" where
  "identity_run f s = (let (r, db) = f (srv_identity s) in (r, s\<lparr>srv_identity := db\<rparr>))"

section \<open>Accounts\<close>

record credentialsRequest =
  crq_Email :: string
  crq_Password :: string

definition credentials_fields :: "(string \<times> credentialsRequest setter) list" where
  "credentials_fields =
    [(''email'', put decode_string (\<lambda>x. crq_Email_update (\<lambda>_. x))), (''password'', put decode_string (\<lambda>x. crq_Password_update (\<lambda>_. x)))]"

definition refresh_fields :: "(string \<times> string setter) list" where
  "refresh_fields = [(''refreshToken'', put decode_string (\<lambda>x _. x))]"

record createAPIKeyRequest =
  car_Name :: string
  car_Scopes :: "string list"

definition api_key_fields :: "(string \<times> createAPIKeyRequest setter) list" where
  "api_key_fields =
    [(''name'', put decode_string (\<lambda>x. car_Name_update (\<lambda>_. x))), (''scopes'', put_slice [] decode_string (\<lambda>x. car_Scopes_update (\<lambda>_. x)))]"

definition identity_register :: "Api \<Rightarrow> handler" where
  "identity_register api r p =
    decoded (decodeIdentityJSON (api_rt api) credentials_fields \<lparr>crq_Email = [], crq_Password = []\<rparr> r) (\<lambda>request.
    call writeIdentityError
      (identity_run (Register (api_lib api) (api_identity api) (api_draws api) (api_now api) (crq_Email request) (crq_Password request)
        (rq_RequestID r)))
      (\<lambda>(user, pair). writeJSON 201 (TokenBody user pair)))"

definition identity_login :: "Api \<Rightarrow> handler" where
  "identity_login api r p =
    decoded (decodeIdentityJSON (api_rt api) credentials_fields \<lparr>crq_Email = [], crq_Password = []\<rparr> r) (\<lambda>request.
    call writeIdentityError
      (identity_run (Login (api_lib api) (api_identity api) (api_draws api) (api_now api) (crq_Email request) (crq_Password request)
        (rq_RequestID r)))
      (\<lambda>(user, pair). writeJSON 200 (TokenBody user pair)))"

definition identity_refresh :: "Api \<Rightarrow> handler" where
  "identity_refresh api r p =
    decoded (decodeIdentityJSON (api_rt api) refresh_fields [] r) (\<lambda>refreshToken.
    call writeIdentityError
      (identity_run (Refresh (api_lib api) (api_identity api) (api_draws api) (api_now api) refreshToken (rq_RequestID r)))
      (\<lambda>(user, pair). writeJSON 200 (TokenBody user pair)))"

definition identity_logout :: "Api \<Rightarrow> handler" where
  "identity_logout api r p =
    decoded (decodeIdentityJSON (api_rt api) refresh_fields [] r) (\<lambda>refreshToken s.
    if TrimSpace refreshToken = [] then (WriteProblem 400 ''INVALID_REQUEST'', s)
    else call writeIdentityError
      (identity_run (Logout (api_lib api) (api_identity api) (api_draws api) (api_now api) refreshToken (rq_RequestID r)))
      (\<lambda>_. no_content) s)"

definition identity_createAPIKey :: "Api \<Rightarrow> handler" where
  "identity_createAPIKey api r p =
    authenticated writeIdentityError p (\<lambda>prin.
    decoded (decodeIdentityJSON (api_rt api) api_key_fields \<lparr>car_Name = [], car_Scopes = []\<rparr> r) (\<lambda>request.
    call writeIdentityError
      (identity_run (Service_CreateAPIKey (api_lib api) (api_identity api) (api_draws api) (api_now api) prin (car_Name request)
        (car_Scopes request) (rq_RequestID r)))
      (\<lambda>(key, plaintext). writeJSON 201 (CreatedKeyBody key plaintext))))"

definition identity_listAPIKeys :: "Api \<Rightarrow> handler" where
  "identity_listAPIKeys api r p =
    authenticated writeIdentityError p (\<lambda>prin.
    call writeIdentityError (\<lambda>s. (Service_ListAPIKeys (api_identity api) prin (srv_identity s), s)) (\<lambda>keys. writeJSON 200 (KeysBody keys)))"

definition identity_revokeAPIKey :: "Api \<Rightarrow> handler" where
  "identity_revokeAPIKey api r p =
    authenticated writeIdentityError p (\<lambda>prin.
    attempt writeIdentityError (path_uuid (api_rt api) IdentityErrAPIKeyNotFound ''keyID'' r) (\<lambda>keyID.
    call writeIdentityError
      (identity_run (Service_RevokeAPIKey (api_lib api) (api_identity api) (api_draws api) (api_now api) prin keyID (rq_RequestID r)))
      (\<lambda>_. no_content)))"

section \<open>Jobs\<close>

text \<open>An \<open>int16\<close>: a number outside its range is an error of the decoder.\<close>

definition decode_int16 :: "json \<Rightarrow> int option" where
  "decode_int16 v = (case decode_int v of None \<Rightarrow> None | Some n \<Rightarrow> if - 32768 \<le> n \<and> n \<le> 32767 then Some n else None)"

definition decode_config :: "Runtime \<Rightarrow> json \<Rightarrow> config option" where
  "decode_config rt v = (case v of JObj kvs \<Rightarrow> (case json_any rt v of Some (AnyMap cfg) \<Rightarrow> Some cfg | _ \<Rightarrow> None) | _ \<Rightarrow> None)"

definition operation_fields :: "Runtime \<Rightarrow> (string \<times> Operation setter) list" where
  "operation_fields rt =
    [(''type'', put decode_string (\<lambda>x. op_Type_update (\<lambda>_. x))), (''config'', put_pointer (decode_config rt) (\<lambda>x. op_Config_update (\<lambda>_. x)))]"

definition zero_operation :: Operation where
  "zero_operation = \<lparr>op_Type = [], op_Config = None\<rparr>"

definition create_fields :: "Runtime \<Rightarrow> (string \<times> CreateRequest setter) list" where
  "create_fields rt =
    [(''operations'', put_slice zero_operation (\<lambda>v. decode_struct rt (operation_fields rt) v zero_operation)
        (\<lambda>x. cr_Operations_update (\<lambda>_. x))),
     (''priority'', put decode_int16 (\<lambda>x. cr_Priority_update (\<lambda>_. x))),
     (''maxAttempts'', put decode_int16 (\<lambda>x. cr_MaxAttempts_update (\<lambda>_. x)))]"

definition job_create :: "Api \<Rightarrow> handler" where
  "job_create api r p =
    authenticated writeJobError p (\<lambda>prin.
    decoded (decodeJobJSON (api_rt api) (create_fields (api_rt api)) \<lparr>cr_Operations = [], cr_Priority = 0, cr_MaxAttempts = 0\<rparr> r) (\<lambda>request.
    attempt writeJobError (parseDatasetVersionID (api_rt api) r) (\<lambda>versionID.
    call writeJobError
      (db_tx (Job_Service_Create (api_rt api) (api_snapshotRules api) Outbox_Enqueue (api_create api) (api_fresh api) (api_now api) prin
        versionID request (rq_Header r ''Idempotency-Key'') (rq_RequestID r)))
      (\<lambda>(created, replayed). writeJSON (if replayed then 200 else 201) (JobBody created)))))"

definition job_list :: "Api \<Rightarrow> handler" where
  "job_list api r p =
    authenticated writeJobError p (\<lambda>prin.
    attempt writeJobError (parseJobPagination r) (\<lambda>(page, pageSize).
    call writeJobError (db_query (Job_Service_List prin page pageSize (rq_Query r ''state'')))
      (\<lambda>result. writeJSON 200 (JobsBody (jp_Items result) page pageSize (jp_Total result)))))"

definition job_get :: "Api \<Rightarrow> handler" where
  "job_get api r p =
    authenticated writeJobError p (\<lambda>prin.
    attempt writeJobError (parseJobID (api_rt api) r) (\<lambda>jobID.
    call writeJobError (db_query (Job_Service_Get prin jobID)) (\<lambda>item. writeJSON 200 (JobBody item))))"

definition cancel_fields :: "(string \<times> string setter) list" where
  "cancel_fields = [(''reason'', put decode_string (\<lambda>x _. x))]"

definition decodeCancelJobRequest :: "Runtime \<Rightarrow> Request \<Rightarrow> string option" where
  "decodeCancelJobRequest rt r =
    (if rq_Body r = None \<or> rq_ContentLength r = 0 then Some [] else decodeJobJSON rt cancel_fields [] r)"

definition job_cancel :: "Api \<Rightarrow> handler" where
  "job_cancel api r p =
    authenticated writeJobError p (\<lambda>prin.
    attempt writeJobError (parseJobID (api_rt api) r) (\<lambda>jobID.
    decoded (decodeCancelJobRequest (api_rt api) r) (\<lambda>reason.
    call writeJobError
      (db_tx (Job_Service_Cancel (api_rt api) Outbox_Enqueue (api_messageID api) (api_now api) prin jobID reason (rq_RequestID r)))
      (\<lambda>item. writeJSON 200 (JobBody item)))))"

definition job_retry :: "Api \<Rightarrow> handler" where
  "job_retry api r p =
    authenticated writeJobError p (\<lambda>prin.
    attempt writeJobError (parseJobID (api_rt api) r) (\<lambda>jobID.
    call writeJobError
      (db_tx (Job_Service_Retry (api_rt api) Outbox_Enqueue (api_attemptID api) (api_messageID api) (api_now api) prin jobID (rq_RequestID r)))
      (\<lambda>item. writeJSON 200 (JobBody item))))"

section \<open>Dead letters\<close>

definition query_bool :: "go_error \<Rightarrow> bool \<Rightarrow> string \<Rightarrow> bool result" where
  "query_bool err fallback raw =
    (if raw = [] then Inr fallback else case ParseBool raw of None \<Rightarrow> Inl err | Some b \<Rightarrow> Inr b)"

definition dlq_list :: "Api \<Rightarrow> handler" where
  "dlq_list api r p =
    authenticated writeDLQError p (\<lambda>prin.
    attempt writeDLQError (parseDLQPagination r) (\<lambda>(page, pageSize).
    attempt writeDLQError (query_bool DlqErrInvalidInput True (TrimSpace (rq_Query r ''openOnly''))) (\<lambda>openOnly.
    call writeDLQError (db_query (Dlq_Service_List prin page pageSize openOnly)) (\<lambda>result. writeJSON 200 (DeadLettersBody result)))))"

definition dlq_replay :: "Api \<Rightarrow> handler" where
  "dlq_replay api r p =
    authenticated writeDLQError p (\<lambda>prin.
    attempt writeDLQError (path_uuid (api_rt api) DlqErrInvalidInput ''recordID'' r) (\<lambda>recordID.
    call writeDLQError
      (db_tx (Dlq_Service_Replay (api_rt api) Outbox_Enqueue (api_attemptID api) (api_messageID api) (api_now api) prin
        \<lparr>rp_RecordID = recordID, rp_ActorUserID = uuid_Nil, rp_AllowCrossOwner = False, rp_TraceID = rq_RequestID r,
         rp_RequestID = rq_RequestID r\<rparr>))
      (\<lambda>result. writeJSON 200 (ReplayBody result))))"

section \<open>Datasets\<close>

record createDatasetRequest =
  cdr_Name :: string
  cdr_Description :: string

definition dataset_fields :: "(string \<times> createDatasetRequest setter) list" where
  "dataset_fields =
    [(''name'', put decode_string (\<lambda>x. cdr_Name_update (\<lambda>_. x))), (''description'', put decode_string (\<lambda>x. cdr_Description_update (\<lambda>_. x)))]"

definition dataset_create :: "Api \<Rightarrow> handler" where
  "dataset_create api r p =
    authenticated writeDatasetError p (\<lambda>prin.
    decoded (decodeDatasetJSON (api_rt api) dataset_fields \<lparr>cdr_Name = [], cdr_Description = []\<rparr> r) (\<lambda>request.
    call writeDatasetError
      (db_tx (Dataset_Service_Create (api_lower api) (api_datasetID api) (api_now api) prin (cdr_Name request) (cdr_Description request)))
      (\<lambda>created. writeJSON 201 (DatasetBody created))))"

definition dataset_list :: "Api \<Rightarrow> handler" where
  "dataset_list api r p =
    authenticated writeDatasetError p (\<lambda>prin.
    attempt writeDatasetError (parseDatasetPagination r) (\<lambda>(page, pageSize).
    call writeDatasetError
      (db_query (Dataset_Service_List (api_ilike api) prin page pageSize (rq_Query r ''state'') (rq_Query r ''name'')))
      (\<lambda>result. writeJSON 200 (DatasetsBody (dsp_Items result) page pageSize (dsp_Total result)))))"

definition dataset_get :: "Api \<Rightarrow> handler" where
  "dataset_get api r p =
    authenticated writeDatasetError p (\<lambda>prin.
    attempt writeDatasetError (parseDatasetID (api_rt api) r) (\<lambda>datasetID.
    call writeDatasetError (db_query (Dataset_Service_Get prin datasetID))
      (\<lambda>(item, versions). writeJSON 200 (DatasetDetailBody item versions))))"

definition dataset_delete :: "Api \<Rightarrow> handler" where
  "dataset_delete api r p =
    authenticated writeDatasetError p (\<lambda>prin.
    attempt writeDatasetError (parseDatasetID (api_rt api) r) (\<lambda>datasetID.
    call writeDatasetError (db_tx (Dataset_Service_Delete (api_now api) prin datasetID)) (\<lambda>_. no_content)))"

definition dataset_uploadVersion :: "Api \<Rightarrow> handler" where
  "dataset_uploadVersion api r p =
    authenticated writeDatasetError p (\<lambda>prin.
    attempt writeDatasetError (parseDatasetID (api_rt api) r) (\<lambda>datasetID.
    let filename = TrimSpace (rq_Header r ''X-Filename'')
    in attempt writeDatasetError (if filename = [] then Inl DatasetErrInvalidInput else Inr filename) (\<lambda>filename.
    call writeDatasetError
      (db_run (UploadVersion (api_rt api) (api_jsonValid api) (api_context api) (api_objects api) (api_maxUploadBytes api) (api_now api) (api_versionID api)
        prin datasetID
        \<lparr>ur_Filename = filename, ur_ContentType = rq_Header r ''Content-Type'', ur_ExpectedChecksum = rq_Header r ''X-Checksum-SHA256'',
         ur_ContentLength = rq_ContentLength r, ur_Body = map_option bd_bytes (rq_Body r), ur_ReadFails = api_readFails api\<rparr>))
      (\<lambda>version. writeJSON 201 (VersionBody version)))))"

section \<open>Uploads in parts\<close>

definition initiate_fields :: "(string \<times> InitiateRequest setter) list" where
  "initiate_fields =
    [(''filename'', put decode_string (\<lambda>x. ir_Filename_update (\<lambda>_. x))), (''contentType'', put decode_string (\<lambda>x. ir_ContentType_update (\<lambda>_. x))),
     (''expectedSize'', put decode_int (\<lambda>x. ir_ExpectedSize_update (\<lambda>_. x))),
     (''expectedChecksumSha256'', put decode_string (\<lambda>x. ir_ExpectedChecksum_update (\<lambda>_. x))),
     (''idempotencyKey'', put decode_string (\<lambda>x. ir_IdempotencyKey_update (\<lambda>_. x)))]"

record registerMultipartPartRequest =
  rmp_ETag :: string
  rmp_SizeBytes :: int

definition register_part_fields :: "(string \<times> registerMultipartPartRequest setter) list" where
  "register_part_fields =
    [(''etag'', put decode_string (\<lambda>x. rmp_ETag_update (\<lambda>_. x))), (''sizeBytes'', put decode_int (\<lambda>x. rmp_SizeBytes_update (\<lambda>_. x)))]"

definition complete_part_fields :: "(string \<times> CompletePart setter) list" where
  "complete_part_fields =
    [(''partNumber'', put decode_int (\<lambda>x. cp_PartNumber_update (\<lambda>_. x))), (''etag'', put decode_string (\<lambda>x. cp_ETag_update (\<lambda>_. x)))]"

definition complete_fields :: "Runtime \<Rightarrow> (string \<times> CompletePart list setter) list" where
  "complete_fields rt =
    (let zero = \<lparr>cp_PartNumber = 0, cp_ETag = []\<rparr>
     in [(''parts'', put_slice zero (\<lambda>v. decode_struct rt complete_part_fields v zero) (\<lambda>x _. x))])"

definition multipart_initiate :: "Api \<Rightarrow> handler" where
  "multipart_initiate api r p =
    authenticated writeMultipartError p (\<lambda>prin.
    attempt writeMultipartError (parseDatasetID (api_rt api) r) (\<lambda>datasetID.
    decoded (decodeMultipartJSON (api_rt api) initiate_fields
        \<lparr>ir_Filename = [], ir_ContentType = [], ir_ExpectedSize = 0, ir_ExpectedChecksum = [], ir_IdempotencyKey = []\<rparr> r) (\<lambda>request.
    call writeMultipartError
      (db_run (Initiate (api_rt api) (api_multipart api) (api_initiate api) (api_now api) prin datasetID request))
      (\<lambda>session. writeJSON 201 (SessionBody session)))))"

definition multipart_get :: "Api \<Rightarrow> handler" where
  "multipart_get api r p =
    authenticated writeMultipartError p (\<lambda>prin.
    attempt writeMultipartError (parseMultipartSessionID (api_rt api) r) (\<lambda>sessionID.
    call writeMultipartError (db_query (Multipart_Service_Get prin sessionID))
      (\<lambda>(session, parts). writeJSON 200 (SessionDetailBody session parts))))"

definition multipart_listParts :: "Api \<Rightarrow> handler" where
  "multipart_listParts api r p =
    authenticated writeMultipartError p (\<lambda>prin.
    attempt writeMultipartError (parseMultipartSessionID (api_rt api) r) (\<lambda>sessionID.
    call writeMultipartError (db_query (Multipart_Service_ListParts prin sessionID)) (\<lambda>parts. writeJSON 200 (PartsBody parts))))"

definition multipart_presignPart :: "Api \<Rightarrow> handler" where
  "multipart_presignPart api r p =
    authenticated writeMultipartError p (\<lambda>prin.
    attempt writeMultipartError (parseMultipartSessionID (api_rt api) r) (\<lambda>sessionID.
    attempt writeMultipartError (parseMultipartPartNumber r) (\<lambda>partNumber.
    call writeMultipartError
      (db_query (PresignPart (api_multipart api) (api_presign api) (api_now api) prin sessionID partNumber))
      (\<lambda>partURL. writeJSON 200 (PartURLBody partURL)))))"

definition multipart_registerPart :: "Api \<Rightarrow> handler" where
  "multipart_registerPart api r p =
    authenticated writeMultipartError p (\<lambda>prin.
    attempt writeMultipartError (parseMultipartSessionID (api_rt api) r) (\<lambda>sessionID.
    attempt writeMultipartError (parseMultipartPartNumber r) (\<lambda>partNumber.
    decoded (decodeMultipartJSON (api_rt api) register_part_fields \<lparr>rmp_ETag = [], rmp_SizeBytes = 0\<rparr> r) (\<lambda>request.
    call writeMultipartError
      (db_tx (Multipart_Service_RegisterPart (api_getPart api) (api_now api) prin sessionID partNumber (rmp_ETag request)
        (rmp_SizeBytes request)))
      (\<lambda>part. writeJSON 200 (PartBody part))))))"

definition multipart_complete :: "Api \<Rightarrow> handler" where
  "multipart_complete api r p =
    authenticated writeMultipartError p (\<lambda>prin.
    attempt writeMultipartError (parseMultipartSessionID (api_rt api) r) (\<lambda>sessionID.
    decoded (decodeMultipartJSON (api_rt api) (complete_fields (api_rt api)) [] r) (\<lambda>parts.
    call writeMultipartError
      (db_run (Multipart_Service_Complete (api_rt api) (api_jsonValid api) (api_errText api) (api_multipart api) (api_complete api)
        (api_token api) (api_now api) prin sessionID parts))
      (\<lambda>version. writeJSON 201 (VersionBody version)))))"

definition multipart_abort :: "Api \<Rightarrow> handler" where
  "multipart_abort api r p =
    authenticated writeMultipartError p (\<lambda>prin.
    attempt writeMultipartError (parseMultipartSessionID (api_rt api) r) (\<lambda>sessionID.
    call writeMultipartError (db_run (Multipart_Service_Abort (api_context api) (api_abortRemote api) (api_now api) prin sessionID)) (\<lambda>_. no_content)))"

section \<open>Quality rules\<close>

definition create_rule_fields :: "Runtime \<Rightarrow> (string \<times> QualityCreateRequest setter) list" where
  "create_rule_fields rt =
    [(''datasetId'', put (decode_uuid rt) (\<lambda>x. qc_DatasetID_update (\<lambda>_. x))), (''name'', put decode_string (\<lambda>x. qc_Name_update (\<lambda>_. x))),
     (''columnScope'', put_slice [] decode_string (\<lambda>x. qc_ColumnScope_update (\<lambda>_. x))),
     (''ruleType'', put decode_string (\<lambda>x. qc_RuleType_update (\<lambda>_. x))),
     (''configuration'', put_pointer (decode_config rt) (\<lambda>x. qc_Configuration_update (\<lambda>_. x))),
     (''severity'', put decode_string (\<lambda>x. qc_Severity_update (\<lambda>_. x))),
     (''enabled'', put_pointer decode_bool (\<lambda>x. qc_Enabled_update (\<lambda>_. x)))]"

definition patch_rule_fields :: "Runtime \<Rightarrow> (string \<times> QualityUpdateRequest setter) list" where
  "patch_rule_fields rt =
    [(''name'', put_pointer decode_string (\<lambda>x. qu_Name_update (\<lambda>_. x))),
     (''columnScope'', put_pointer (decode_slice [] decode_string) (\<lambda>x. qu_ColumnScope_update (\<lambda>_. x))),
     (''ruleType'', put_pointer decode_string (\<lambda>x. qu_RuleType_update (\<lambda>_. x))),
     (''configuration'', put_pointer (decode_config rt) (\<lambda>x. qu_Configuration_update (\<lambda>_. x))),
     (''severity'', put_pointer decode_string (\<lambda>x. qu_Severity_update (\<lambda>_. x))),
     (''enabled'', put_pointer decode_bool (\<lambda>x. qu_Enabled_update (\<lambda>_. x)))]"

text \<open>The dataset of the path, when there is one, must be that of the body, when it names one.\<close>

definition rule_target :: "uuid option \<Rightarrow> QualityCreateRequest \<Rightarrow> QualityCreateRequest result" where
  "rule_target pathDatasetID request =
    (case pathDatasetID of
       None \<Rightarrow> Inr request
     | Some datasetID \<Rightarrow>
         if qc_DatasetID request \<noteq> uuid_Nil \<and> qc_DatasetID request \<noteq> datasetID then Inl QualityErrInvalidInput
         else Inr (request\<lparr>qc_DatasetID := datasetID\<rparr>))"

definition quality_create :: "Api \<Rightarrow> handler" where
  "quality_create api r p =
    authenticated writeQualityError p (\<lambda>prin.
    decoded (decodeQualityJSON (api_rt api) (create_rule_fields (api_rt api))
        \<lparr>qc_DatasetID = uuid_Nil, qc_Name = [], qc_ColumnScope = [], qc_RuleType = [], qc_Configuration = None, qc_Severity = [],
         qc_Enabled = None\<rparr> r) (\<lambda>request.
    attempt writeQualityError (bindE (optionalQualityDatasetID (api_rt api) r) (\<lambda>pathID. rule_target pathID request)) (\<lambda>request.
    call writeQualityError
      (db_tx (Quality_Service_Create (api_rt api) (api_compiles api) (api_nilNull api) (api_ruleID api) (api_now api) prin request))
      (\<lambda>created. writeJSON 201 (RuleBody created)))))"

definition quality_list :: "Api \<Rightarrow> handler" where
  "quality_list api r p =
    authenticated writeQualityError p (\<lambda>prin.
    attempt writeQualityError (qualityDatasetFilter (api_rt api) r) (\<lambda>datasetID.
    attempt writeQualityError (parseQualityPagination r) (\<lambda>(page, pageSize).
    call writeQualityError (db_query (Quality_Service_List prin datasetID page pageSize))
      (\<lambda>result. writeJSON 200 (RulesBody (qp_Items result) (qp_Page result) (qp_PageSize result) (qp_Total result))))))"

definition quality_get :: "Api \<Rightarrow> handler" where
  "quality_get api r p =
    authenticated writeQualityError p (\<lambda>prin.
    attempt writeQualityError (parseQualityRuleID (api_rt api) r) (\<lambda>ruleID.
    call writeQualityError (db_query (Quality_Service_Get prin ruleID)) (\<lambda>item. writeJSON 200 (RuleBody item))))"

definition quality_update :: "Api \<Rightarrow> handler" where
  "quality_update api r p =
    authenticated writeQualityError p (\<lambda>prin.
    attempt writeQualityError (parseQualityRuleID (api_rt api) r) (\<lambda>ruleID.
    decoded (decodeQualityJSON (api_rt api) (patch_rule_fields (api_rt api))
        \<lparr>qu_Name = None, qu_ColumnScope = None, qu_RuleType = None, qu_Configuration = None, qu_Severity = None, qu_Enabled = None\<rparr> r)
      (\<lambda>request.
    call writeQualityError
      (db_tx (Quality_Service_Update (api_rt api) (api_compiles api) (api_nilNull api) (api_now api) prin ruleID request))
      (\<lambda>updated. writeJSON 200 (RuleBody updated)))))"

definition quality_delete :: "Api \<Rightarrow> handler" where
  "quality_delete api r p =
    authenticated writeQualityError p (\<lambda>prin.
    attempt writeQualityError (parseQualityRuleID (api_rt api) r) (\<lambda>ruleID.
    call writeQualityError (db_tx (Quality_Service_Delete (api_rt api) (api_now api) prin ruleID)) (\<lambda>_. no_content)))"

section \<open>Results\<close>

definition result_progress :: "Api \<Rightarrow> handler" where
  "result_progress api r p =
    authenticated writeResultError p (\<lambda>prin.
    attempt writeResultError (parseResultJobID (api_rt api) r) (\<lambda>jobID.
    call writeResultError (db_query (Result_Service_GetProgress prin jobID)) (\<lambda>item. writeJSON 200 (ProgressBody item))))"

definition result_progressHistory :: "Api \<Rightarrow> handler" where
  "result_progressHistory api r p =
    authenticated writeResultError p (\<lambda>prin.
    attempt writeResultError (parseResultJobID (api_rt api) r) (\<lambda>jobID.
    attempt writeResultError (parseArtifactPagination r) (\<lambda>(page, pageSize).
    call writeResultError (db_query (Result_Service_ListProgress prin jobID page pageSize)) (\<lambda>items. writeJSON 200 (ProgressPageBody items)))))"

definition result_list :: "Api \<Rightarrow> handler" where
  "result_list api r p =
    authenticated writeResultError p (\<lambda>prin.
    attempt writeResultError (optionalArtifactJobID (api_rt api) r) (\<lambda>jobID.
    attempt writeResultError (parseArtifactPagination r) (\<lambda>(page, pageSize).
    let kind = TrimSpace (rq_Query r ''kind'')
    in attempt writeResultError (if kind \<noteq> [] \<and> \<not> artifactKindPattern kind then Inl ResultErrInvalidInput else Inr kind) (\<lambda>kind.
    call writeResultError (db_query (Result_Service_ListArtifacts prin jobID kind page pageSize))
      (\<lambda>result. writeJSON 200 (ArtifactsBody (ap_Items result) (ap_Page result) (ap_PageSize result) (ap_Total result)))))))"

definition result_get :: "Api \<Rightarrow> handler" where
  "result_get api r p =
    authenticated writeResultError p (\<lambda>prin.
    attempt writeResultError (parseArtifactID (api_rt api) r) (\<lambda>artifactID.
    call writeResultError (db_query (Result_Service_GetArtifact prin artifactID)) (\<lambda>item. writeJSON 200 (ArtifactBody item))))"

text \<open>At most the recorded number of bytes is copied.\<close>

definition download_response :: "Runtime \<Rightarrow> Request \<Rightarrow> Artifact \<Rightarrow> string \<Rightarrow> Response" where
  "download_response rt r item reader =
    \<lparr>rs_Status = 200,
     rs_Headers =
       [(''Content-Type'', art_ctype item), (''Content-Length'', int_text (art_size item)),
        (''Content-Disposition'', ''attachment; filename='' @ [CHR 0x22] @ uuid_String rt (art_id item) @ [CHR 0x22]),
        (''Accept-Ranges'', ''none'')],
     rs_Body = (if rq_Method r = ''HEAD'' then NoBody else BytesBody (take (nat (art_size item)) reader))\<rparr>"

definition result_download :: "Api \<Rightarrow> handler" where
  "result_download api r p =
    authenticated writeResultError p (\<lambda>prin s.
    if rq_Header r ''Range'' \<noteq> [] then (WriteProblem 416 ''RANGE_NOT_SUPPORTED'', s)
    else attempt writeResultError (parseArtifactID (api_rt api) r) (\<lambda>artifactID.
      call writeResultError (db_query (OpenArtifact (Some (api_getObject api)) prin artifactID))
        (\<lambda>(item, reader). download_response (api_rt api) r item reader)) s)"

section \<open>Routes\<close>

definition liveHandler :: handler where
  "liveHandler r p s = (writeJSON 200 (StatusBody ''ok''), s)"

definition readyHandler :: "Api \<Rightarrow> handler" where
  "readyHandler api r p s =
    (case api_ready api of Inl _ \<Rightarrow> (WriteProblem 503 ''NOT_READY'', s) | Inr _ \<Rightarrow> (writeJSON 200 (StatusBody ''ready''), s))"

datatype guard = Public | Limited | Authenticated

record route =
  rt_Method :: string
  rt_Pattern :: string
  rt_Guard :: guard
  rt_Handler :: handler

definition routes_of :: "guard \<Rightarrow> (string \<times> string \<times> handler) list \<Rightarrow> route list" where
  "routes_of g table = map (\<lambda>(m, path, h). \<lparr>rt_Method = m, rt_Pattern = path, rt_Guard = g, rt_Handler = h\<rparr>) table"

definition registerIdentityRoutes :: "Api \<Rightarrow> route list" where
  "registerIdentityRoutes api =
     routes_of Limited
       [(''POST'', ''/v1/auth/register'', identity_register api), (''POST'', ''/v1/auth/login'', identity_login api),
        (''POST'', ''/v1/auth/refresh'', identity_refresh api)] @
     routes_of Public [(''POST'', ''/v1/auth/logout'', identity_logout api)] @
     routes_of Authenticated
       [(''POST'', ''/v1/api-keys'', identity_createAPIKey api), (''GET'', ''/v1/api-keys'', identity_listAPIKeys api),
        (''DELETE'', ''/v1/api-keys/{keyID}'', identity_revokeAPIKey api)]"

definition registerDatasetRoutes :: "Api \<Rightarrow> route list" where
  "registerDatasetRoutes api = routes_of Authenticated
    [(''POST'', ''/v1/datasets'', dataset_create api), (''GET'', ''/v1/datasets'', dataset_list api),
     (''GET'', ''/v1/datasets/{datasetID}'', dataset_get api), (''DELETE'', ''/v1/datasets/{datasetID}'', dataset_delete api),
     (''POST'', ''/v1/datasets/{datasetID}/versions'', dataset_uploadVersion api)]"

definition registerMultipartRoutes :: "Api \<Rightarrow> route list" where
  "registerMultipartRoutes api = routes_of Authenticated
    [(''POST'', ''/v1/datasets/{datasetID}/uploads'', multipart_initiate api), (''GET'', ''/v1/uploads/{sessionID}'', multipart_get api),
     (''GET'', ''/v1/uploads/{sessionID}/parts'', multipart_listParts api),
     (''POST'', ''/v1/uploads/{sessionID}/parts/{partNumber}/presign'', multipart_presignPart api),
     (''PUT'', ''/v1/uploads/{sessionID}/parts/{partNumber}'', multipart_registerPart api),
     (''POST'', ''/v1/uploads/{sessionID}/complete'', multipart_complete api), (''POST'', ''/v1/uploads/{sessionID}/abort'', multipart_abort api)]"

definition registerJobRoutes :: "Api \<Rightarrow> route list" where
  "registerJobRoutes api = routes_of Authenticated
    [(''POST'', ''/v1/datasets/{datasetVersionID}/jobs'', job_create api), (''POST'', ''/v1/dataset-versions/{datasetVersionID}/jobs'', job_create api),
     (''POST'', ''/api/v1/datasets/{datasetVersionID}/jobs'', job_create api),
     (''POST'', ''/api/v1/dataset-versions/{datasetVersionID}/jobs'', job_create api),
     (''GET'', ''/v1/jobs'', job_list api), (''GET'', ''/v1/jobs/{jobID}'', job_get api), (''POST'', ''/v1/jobs/{jobID}/cancel'', job_cancel api),
     (''POST'', ''/v1/jobs/{jobID}/retry'', job_retry api), (''GET'', ''/api/v1/jobs'', job_list api), (''GET'', ''/api/v1/jobs/{jobID}'', job_get api),
     (''POST'', ''/api/v1/jobs/{jobID}/cancel'', job_cancel api), (''POST'', ''/api/v1/jobs/{jobID}/retry'', job_retry api)]"

definition registerQualityRoutes :: "Api \<Rightarrow> route list" where
  "registerQualityRoutes api = routes_of Authenticated (concat (map (\<lambda>prefix.
    [(''POST'', prefix @ ''/quality-rules'', quality_create api), (''GET'', prefix @ ''/quality-rules'', quality_list api),
     (''GET'', prefix @ ''/quality-rules/{ruleID}'', quality_get api), (''PATCH'', prefix @ ''/quality-rules/{ruleID}'', quality_update api),
     (''DELETE'', prefix @ ''/quality-rules/{ruleID}'', quality_delete api),
     (''POST'', prefix @ ''/datasets/{datasetID}/quality-rules'', quality_create api),
     (''GET'', prefix @ ''/datasets/{datasetID}/quality-rules'', quality_list api)]) [''/v1'', ''/api/v1'']))"

definition registerResultRoutes :: "Api \<Rightarrow> route list" where
  "registerResultRoutes api = routes_of Authenticated (concat (map (\<lambda>prefix.
    [(''GET'', prefix @ ''/artifacts'', result_list api), (''GET'', prefix @ ''/artifacts/{artifactID}'', result_get api),
     (''GET'', prefix @ ''/artifacts/{artifactID}/download'', result_download api),
     (''HEAD'', prefix @ ''/artifacts/{artifactID}/download'', result_download api),
     (''GET'', prefix @ ''/jobs/{jobID}/artifacts'', result_list api), (''GET'', prefix @ ''/jobs/{jobID}/progress'', result_progress api),
     (''GET'', prefix @ ''/jobs/{jobID}/progress/history'', result_progressHistory api)]) [''/v1'', ''/api/v1'']))"

definition registerDLQRoutes :: "Api \<Rightarrow> route list" where
  "registerDLQRoutes api = routes_of Authenticated (concat (map (\<lambda>prefix.
    [(''GET'', prefix @ ''/dead-letters'', dlq_list api), (''POST'', prefix @ ''/dead-letters/{recordID}/replay'', dlq_replay api)])
    [''/v1'', ''/api/v1'']))"

text \<open>The routes with all services present; the metrics page, which a library writes, is left out.\<close>

definition NewRouter :: "Api \<Rightarrow> route list" where
  "NewRouter api =
     routes_of Public [(''GET'', ''/health/live'', liveHandler), (''GET'', ''/health/ready'', readyHandler api)] @
     registerIdentityRoutes api @ registerDatasetRoutes api @ registerMultipartRoutes api @ registerJobRoutes api @
     registerQualityRoutes api @ registerResultRoutes api @ registerDLQRoutes api"

text \<open>
  A request to a route: the identifier of the request, then the guard of the route, then its handler.
  \<open>Edge\<close> is what the middlewares take from outside.
\<close>

record Edge =
  eg_random :: "string option"
  eg_fl :: rounding
  eg_iter :: map_order
  eg_split :: "string \<Rightarrow> (string \<times> string) option"

definition guarded :: "Api \<Rightarrow> Edge \<Rightarrow> guard \<Rightarrow> handler \<Rightarrow> handler" where
  "guarded api edge g h =
    (case g of
       Public \<Rightarrow> h
     | Limited \<Rightarrow> limiterMiddleware (eg_fl edge) (eg_iter edge) (eg_split edge) (api_now api) h
     | Authenticated \<Rightarrow> identityAuthMiddleware (api_lib api) (api_identity api) (api_now api) h)"

definition serve :: "Api \<Rightarrow> Edge \<Rightarrow> route \<Rightarrow> Request \<Rightarrow> Server \<Rightarrow> Response \<times> Server" where
  "serve api edge rt = RequestIDMiddleware (eg_random edge) (\<lambda>r. guarded api edge (rt_Guard rt) (rt_Handler rt) r None)"

end
