(* ===== verification/ApiProperties.thy ===== *)
theory ApiProperties
  imports Api IdentityProperties
begin

text \<open>
  Properties of the HTTP API: who reaches a handler, and what a refused request leaves behind.
\<close>

section \<open>Steps that leave the state when they refuse\<close>

definition refusal_keeps :: "step \<Rightarrow> bool" where
  "refusal_keeps h \<longleftrightarrow> (\<forall>s. 400 \<le> rs_Status (fst (h s)) \<longrightarrow> snd (h s) = s)"

named_theorems refusal_intros

lemma refusal_authenticated [refusal_intros]: "(\<And>prin. refusal_keeps (k prin)) \<Longrightarrow> refusal_keeps (authenticated write p k)"
  by (auto simp: refusal_keeps_def authenticated_def split: option.split)

lemma refusal_attempt [refusal_intros]: "(\<And>x. refusal_keeps (k x)) \<Longrightarrow> refusal_keeps (attempt write r k)"
  by (auto simp: refusal_keeps_def attempt_def split: sum.split)

lemma refusal_decoded [refusal_intros]: "(\<And>x. refusal_keeps (k x)) \<Longrightarrow> refusal_keeps (decoded d k)"
  by (auto simp: refusal_keeps_def decoded_def split: option.split)

lemma refusal_if [refusal_intros]:
  "refusal_keeps h \<Longrightarrow> refusal_keeps (\<lambda>s. if c then (resp, s) else h s)"
  by (simp add: refusal_keeps_def)

lemma refusal_case_prod [refusal_intros]: "(\<And>a b. refusal_keeps (k a b)) \<Longrightarrow> refusal_keeps (case x of (a, b) \<Rightarrow> k a b)"
  by (cases x) simp

text \<open>
  What the handlers rely on in a service: when it fails it has changed nothing. A transaction that
  is rolled back and a query are such services.
\<close>

locale atomic_service =
  fixes service :: "Server \<Rightarrow> 'a result \<times> Server"
  assumes failure_keeps: "service s = (Inl err, s') \<Longrightarrow> s' = s"
begin

lemma refusal_call:
  assumes "\<And>x. rs_Status (respond x) < 400"
  shows "refusal_keeps (call write service respond)"
  unfolding refusal_keeps_def
proof (intro allI impI)
  fix s
  assume refused: "400 \<le> rs_Status (fst (call write service respond s))"
  obtain r s' where run: "service s = (r, s')" by (cases "service s") auto
  with refused assms obtain err where "r = Inl err" by (cases r) (auto simp: call_def not_less [symmetric])
  then show "snd (call write service respond s) = s" using run failure_keeps by (simp add: call_def)
qed

end

interpretation tx: atomic_service "db_tx f" for f
  by unfold_locales (auto simp: db_tx_def run_tx_def split: sum.splits)

interpretation query: atomic_service "db_query f" for f
  by unfold_locales (simp add: db_query_def)

lemmas refusal_calls = tx.refusal_call query.refusal_call

lemma success_status [simp]:
  "rs_Status (writeJSON n v) = n" "rs_Status no_content = 204" "rs_Status (download_response rt r a b) = 200"
  "rs_Status (WriteProblem n code) = n"
  by (simp_all add: writeJSON_def no_content_def download_response_def WriteProblem_def)

text \<open>The handlers whose services are single transactions or queries.\<close>

lemma refusal_job:
  "refusal_keeps (job_create api r p)" "refusal_keeps (job_list api r p)" "refusal_keeps (job_get api r p)"
  "refusal_keeps (job_cancel api r p)" "refusal_keeps (job_retry api r p)"
  unfolding job_create_def job_list_def job_get_def job_cancel_def job_retry_def
  by (intro refusal_intros refusal_calls; simp split: prod.split)+

lemma refusal_dlq: "refusal_keeps (dlq_list api r p)" "refusal_keeps (dlq_replay api r p)"
  unfolding dlq_list_def dlq_replay_def by (intro refusal_intros refusal_calls; simp)+

lemma refusal_quality:
  "refusal_keeps (quality_create api r p)" "refusal_keeps (quality_list api r p)" "refusal_keeps (quality_get api r p)"
  "refusal_keeps (quality_update api r p)" "refusal_keeps (quality_delete api r p)"
  unfolding quality_create_def quality_list_def quality_get_def quality_update_def quality_delete_def
  by (intro refusal_intros refusal_calls; simp)+

lemma refusal_result:
  "refusal_keeps (result_progress api r p)" "refusal_keeps (result_progressHistory api r p)" "refusal_keeps (result_list api r p)"
  "refusal_keeps (result_get api r p)" "refusal_keeps (result_download api r p)"
  unfolding result_progress_def result_progressHistory_def result_list_def result_get_def result_download_def Let_def
  by (intro refusal_intros refusal_calls; simp split: prod.split)+

lemma refusal_dataset:
  "refusal_keeps (dataset_create api r p)" "refusal_keeps (dataset_list api r p)" "refusal_keeps (dataset_get api r p)"
  "refusal_keeps (dataset_delete api r p)"
  unfolding dataset_create_def dataset_list_def dataset_get_def dataset_delete_def
  by (intro refusal_intros refusal_calls; simp split: prod.split)+

section \<open>Samples\<close>

definition sample_api :: Api where
  "sample_api =
    \<lparr>api_rt = sample_runtime, api_lib = sample_libraries, api_identity = sample_service, api_now = 3 * Second,
     api_draws = sample_identity_draws 0 (CHR ''a''), api_snapshotRules = sample_rules, api_create = sample_draws, api_fresh = ''f'',
     api_attemptID = 51, api_messageID = 52, api_lower = ToLower, api_ilike = (\<lambda>a b. True), api_datasetID = 53, api_versionID = 54,
     api_jsonValid = (\<lambda>s. True), api_context = (\<lambda>_. None),
     api_objects = \<lparr>os_Put = (\<lambda>k c t. Inl (ErrText ''put'')), os_Head = (\<lambda>k. Inl (ErrText ''head'')), os_Delete = (\<lambda>k. Inr ())\<rparr>,
     api_maxUploadBytes = 1000, api_readFails = False,
     api_multipart = \<lparr>mc_PartSize = 5242880, mc_MaxParts = 10, mc_MaxBytes = 10485760, mc_SessionTTL = Hour, mc_PartURLTTL = Minute,
       mc_CompletionGrace = Hour\<rparr>,
     api_initiate = \<lparr>ie_Session = 55, ie_Version = 56, ie_Initiate = Inr ''u'', ie_Abort = Inr (), ie_Context = (\<lambda>_. None)\<rparr>,
     api_presign = (\<lambda>k u n d. Inr ''url''), api_getPart = (\<lambda>k u n. Inl StorageErrMultipartPartNotFound),
     api_complete = \<lparr>ce_List = Inr [], ce_HeadListed = Inr 0, ce_Complete = Inr (), ce_HeadCompleted = Inr 0, ce_Head = Inr 0, ce_Get = Inr [],
       ce_Delete = Inr (), ce_Context = (\<lambda>_. None)\<rparr>,
     api_token = 57, api_errText = (\<lambda>e. ''e''), api_abortRemote = Inr (), api_compiles = (\<lambda>s. True), api_nilNull = True, api_ruleID = 58,
     api_getObject = (\<lambda>k. Inr []), api_ready = Inr ()\<rparr>"

definition sample_edge :: Edge where
  "sample_edge = \<lparr>eg_random = Some ''0a'', eg_fl = float64, eg_iter = (\<lambda>xs. xs), eg_split = (\<lambda>s. None)\<rparr>"

definition sample_server :: Server where
  "sample_server =
    \<lparr>srv_identity = sample_identity, srv_db = sample_base,
     srv_limiter = \<lparr>lm_rate = 1, lm_burst = 3, lm_maxClients = 2, lm_entryTTL = Minute, lm_clients = []\<rparr>\<rparr>"

definition sample_http_request :: "string \<Rightarrow> string \<Rightarrow> Request" where
  "sample_http_request authorization param =
    \<lparr>rq_Method = ''GET'', rq_Header = (\<lambda>name. if name = ''Authorization'' then authorization else []), rq_Query = (\<lambda>name. []),
     rq_Param = (\<lambda>name. param), rq_Body = None, rq_ContentLength = 0, rq_RemoteAddr = ''10.0.0.1'', rq_RequestID = []\<rparr>"

definition sample_route :: route where
  "sample_route = \<lparr>rt_Method = ''GET'', rt_Pattern = ''/v1/jobs/{jobID}'', rt_Guard = Authenticated, rt_Handler = job_get sample_api\<rparr>"

lemma sample_refused: "rs_Status (fst (serve sample_api sample_edge sample_route (sample_http_request ''Bearer jwt'' ''uuu'') sample_server)) = 404"
  by code_simp

section \<open>Who reaches a handler\<close>

text \<open>The routes that need no credentials.\<close>

definition open_routes :: "(string \<times> string) list" where
  "open_routes =
    [(''GET'', ''/health/live''), (''GET'', ''/health/ready''), (''POST'', ''/v1/auth/register''), (''POST'', ''/v1/auth/login''),
     (''POST'', ''/v1/auth/refresh''), (''POST'', ''/v1/auth/logout'')]"

lemma routes_of_set: "rt \<in> set (routes_of g table) \<Longrightarrow> rt_Guard rt = g \<and> (\<exists>h. (rt_Method rt, rt_Pattern rt, h) \<in> set table \<and> rt_Handler rt = h)"
  by (auto simp: routes_of_def)

lemma routes_of_open:
  assumes "rt \<in> set (routes_of g table)" "list_all (\<lambda>(m, path, h). (m, path) \<in> set open_routes) table"
  shows "(rt_Method rt, rt_Pattern rt) \<in> set open_routes"
  using assms routes_of_set [OF assms(1)] by (auto simp: list_all_iff)

lemma authenticated_routes:
  assumes "rt \<in> set (registerDatasetRoutes api @ registerMultipartRoutes api @ registerJobRoutes api @ registerQualityRoutes api @
    registerResultRoutes api @ registerDLQRoutes api)"
  shows "rt_Guard rt = Authenticated"
  using assms routes_of_set unfolding registerDatasetRoutes_def registerMultipartRoutes_def registerJobRoutes_def registerQualityRoutes_def
    registerResultRoutes_def registerDLQRoutes_def set_append by blast

lemma NewRouter_guard:
  assumes "rt \<in> set (NewRouter api)" "(rt_Method rt, rt_Pattern rt) \<notin> set open_routes"
  shows "rt_Guard rt = Authenticated"
proof -
  consider "rt \<in> set (routes_of Public [(''GET'', ''/health/live'', liveHandler), (''GET'', ''/health/ready'', readyHandler api)])"
    | "rt \<in> set (registerIdentityRoutes api)"
    | "rt \<in> set (registerDatasetRoutes api @ registerMultipartRoutes api @ registerJobRoutes api @ registerQualityRoutes api @
        registerResultRoutes api @ registerDLQRoutes api)"
    using assms(1) unfolding NewRouter_def set_append by blast
  then show ?thesis
  proof cases
    case 1
    then have "(rt_Method rt, rt_Pattern rt) \<in> set open_routes" by (rule routes_of_open) (simp add: open_routes_def)
    then show ?thesis using assms(2) by simp
  next
    case 2
    then consider "rt \<in> set (routes_of Limited
        [(''POST'', ''/v1/auth/register'', identity_register api), (''POST'', ''/v1/auth/login'', identity_login api),
         (''POST'', ''/v1/auth/refresh'', identity_refresh api)])"
      | "rt \<in> set (routes_of Public [(''POST'', ''/v1/auth/logout'', identity_logout api)])" | "rt_Guard rt = Authenticated"
      unfolding registerIdentityRoutes_def set_append using routes_of_set by blast
    then show ?thesis
    proof cases
      case 1
      then have "(rt_Method rt, rt_Pattern rt) \<in> set open_routes" by (rule routes_of_open) (simp add: open_routes_def)
      then show ?thesis using assms(2) by simp
    next
      case 2
      then have "(rt_Method rt, rt_Pattern rt) \<in> set open_routes" by (rule routes_of_open) (simp add: open_routes_def)
      then show ?thesis using assms(2) by simp
    qed
  next
    case 3
    then show ?thesis by (rule authenticated_routes)
  qed
qed

lemma extractCredentials_id [simp]: "extractCredentials (r\<lparr>rq_RequestID := i\<rparr>) = extractCredentials r"
  by (simp add: extractCredentials_def Let_def)

lemma authenticate_id [simp]: "authenticate lib service now (r\<lparr>rq_RequestID := i\<rparr>) db = authenticate lib service now r db"
  by (simp add: authenticate_def)

text \<open>The request as the handlers see it.\<close>

definition identified :: "Edge \<Rightarrow> Request \<Rightarrow> Request" where
  "identified edge r =
    r\<lparr>rq_RequestID := (let given = rq_Header r ''X-Request-ID'' in if validRequestID given then given else newRequestID (eg_random edge))\<rparr>"

lemma authenticate_identified [simp]: "authenticate lib service now (identified edge r) db = authenticate lib service now r db"
  by (simp add: identified_def)

text \<open>A response as it leaves the server, with the identifier of the request in a header.\<close>

definition tagged :: "Edge \<Rightarrow> Request \<Rightarrow> Response \<times> Server \<Rightarrow> Response \<times> Server" where
  "tagged edge r = apfst (\<lambda>resp. resp\<lparr>rs_Headers := (''X-Request-ID'', rq_RequestID (identified edge r)) # rs_Headers resp\<rparr>)"

lemma tagged_simps [simp]:
  "rs_Status (fst (tagged edge r out)) = rs_Status (fst out)" "rs_Body (fst (tagged edge r out)) = rs_Body (fst out)"
  "snd (tagged edge r out) = snd out"
  by (simp_all add: tagged_def)

lemma serve_guarded: "serve api edge rt r s = tagged edge r (guarded api edge (rt_Guard rt) (rt_Handler rt) (identified edge r) None s)"
  by (simp add: serve_def RequestIDMiddleware_def tagged_def identified_def Let_def case_prod_beta apfst_def map_prod_def)

lemma serve_authenticated:
  assumes "rt_Guard rt = Authenticated"
  shows "serve api edge rt r s = tagged edge r
    (case authenticate (api_lib api) (api_identity api) (api_now api) r (srv_identity s) of
       None \<Rightarrow> (WriteProblem 401 ''UNAUTHENTICATED'', s)
     | Some (prin, db) \<Rightarrow> rt_Handler rt (identified edge r) (Some prin) (s\<lparr>srv_identity := db\<rparr>))"
  using assms by (simp add: serve_guarded guarded_def identityAuthMiddleware_def)

text \<open>
  C9. Every route of the API but health checks, the metrics page, which has no handler here, and
  registration, login, refresh and logout is closed. A request without credentials, with both kinds
  of credentials, or with a token or key that identity refuses is answered 401 and changes nothing;
  any other request is answered by its handler, run on the request with nothing but its
  identifier set, with exactly the principal that identity made of the bearer token or of the API
  key, and on the state identity left: unchanged after a token, and with the time of last use after
  a key.
\<close>

theorem routes_need_credentials:
  assumes "rt \<in> set (NewRouter api)" "(rt_Method rt, rt_Pattern rt) \<notin> set open_routes"
  shows "serve api edge rt r s = tagged edge r
      (case extractCredentials r of
         None \<Rightarrow> (WriteProblem 401 ''UNAUTHENTICATED'', s)
       | Some (bearer, apiKey) \<Rightarrow>
           if bearer \<noteq> [] then
             (case AuthenticateBearer (api_lib api) (api_identity api) (api_now api) bearer (srv_identity s) of
                Inl _ \<Rightarrow> (WriteProblem 401 ''UNAUTHENTICATED'', s)
              | Inr prin \<Rightarrow> rt_Handler rt (identified edge r) (Some prin) s)
           else
             (case Service_AuthenticateAPIKey (api_lib api) (api_identity api) (api_now api) apiKey (srv_identity s) of
                Inl _ \<Rightarrow> (WriteProblem 401 ''UNAUTHENTICATED'', s)
              | Inr (prin, db) \<Rightarrow> rt_Handler rt (identified edge r) (Some prin) (s\<lparr>srv_identity := db\<rparr>))) \<and>
    (rq_Header r ''Authorization'' = [] \<and> rq_Header r ''X-API-Key'' = [] \<or>
      TrimSpace (rq_Header r ''Authorization'') \<noteq> [] \<and> TrimSpace (rq_Header r ''X-API-Key'') \<noteq> [] \<longrightarrow>
      rs_Status (fst (serve api edge rt r s)) = 401 \<and> snd (serve api edge rt r s) = s)"
proof -
  note closed = serve_authenticated [OF NewRouter_guard [OF assms], where api = api and r = r and s = s and edge = edge]
  have none: "TrimSpace [] = []" using TrimSpace_length [of "[]"] by simp
  have "extractCredentials r = None" if "rq_Header r ''Authorization'' = [] \<and> rq_Header r ''X-API-Key'' = [] \<or>
      TrimSpace (rq_Header r ''Authorization'') \<noteq> [] \<and> TrimSpace (rq_Header r ''X-API-Key'') \<noteq> []"
    using that none by (auto simp: extractCredentials_def Let_def)
  then show ?thesis unfolding closed
    by (auto simp: authenticate_def WriteProblem_def split: option.splits sum.splits)
qed

lemma sample_route_registered: "sample_route \<in> set (registerJobRoutes sample_api)" "sample_route \<in> set (NewRouter sample_api)"
  by (simp_all add: NewRouter_def registerJobRoutes_def routes_of_def sample_route_def)

theorem routes_need_credentials_witness:
  "rs_Status (fst (serve sample_api sample_edge sample_route (sample_http_request [] ''uuu'') sample_server)) = 401 \<and>
   (\<exists>prin. AuthenticateBearer sample_libraries sample_service (3 * Second) ''jwt'' sample_identity = Inr prin \<and>
      serve sample_api sample_edge sample_route (sample_http_request ''Bearer jwt'' ''uuu'') sample_server =
        tagged sample_edge (sample_http_request ''Bearer jwt'' ''uuu'')
          (job_get sample_api (identified sample_edge (sample_http_request ''Bearer jwt'' ''uuu'')) (Some prin) sample_server))"
proof -
  have "\<not> isl (AuthenticateBearer sample_libraries sample_service (3 * Second) ''jwt'' sample_identity)" by code_simp
  then obtain prin where prin: "AuthenticateBearer sample_libraries sample_service (3 * Second) ''jwt'' sample_identity = Inr prin"
    by (cases "AuthenticateBearer sample_libraries sample_service (3 * Second) ''jwt'' sample_identity") auto
  have given: "extractCredentials (sample_http_request ''Bearer jwt'' ''uuu'') = Some (''jwt'', [])" by code_simp
  have route: "(rt_Method sample_route, rt_Pattern sample_route) \<notin> set open_routes" "rt_Handler sample_route = job_get sample_api"
    by (simp_all add: sample_route_def open_routes_def)
  note need = routes_need_credentials [OF sample_route_registered(2) route(1), where edge = sample_edge and s = sample_server]
  have api: "api_lib sample_api = sample_libraries" "api_identity sample_api = sample_service" "api_now sample_api = 3 * Second"
    "srv_identity sample_server = sample_identity" by (simp_all add: sample_api_def sample_server_def)
  have "rs_Status (fst (serve sample_api sample_edge sample_route (sample_http_request [] ''uuu'') sample_server)) = 401"
    using conjunct2 [OF need [of "sample_http_request [] ''uuu''"]] by (simp add: sample_http_request_def)
  moreover have "serve sample_api sample_edge sample_route (sample_http_request ''Bearer jwt'' ''uuu'') sample_server =
        tagged sample_edge (sample_http_request ''Bearer jwt'' ''uuu'')
          (job_get sample_api (identified sample_edge (sample_http_request ''Bearer jwt'' ''uuu'')) (Some prin) sample_server)"
    using conjunct1 [OF need [of "sample_http_request ''Bearer jwt'' ''uuu''"]] by (simp add: given api prin [simplified] route(2))
  ultimately show ?thesis using prin by blast
qed

section \<open>What a refused request leaves behind\<close>

lemma refusal_routes:
  assumes "rt \<in> set (registerJobRoutes api @ registerQualityRoutes api @ registerResultRoutes api @ registerDLQRoutes api)"
  shows "refusal_keeps (rt_Handler rt r p)"
  using assms by (auto simp: registerJobRoutes_def registerQualityRoutes_def registerResultRoutes_def registerDLQRoutes_def routes_of_def
      refusal_job refusal_quality refusal_result refusal_dlq)

text \<open>The one thing that authentication writes.\<close>

lemma authenticate_writes:
  assumes "authenticate lib service now r db = Some (prin, db')"
  shows "db' = db \<or> (\<exists>k. k \<in> set (id_keys db) \<and> TrimSpace (rq_Header r ''X-API-Key'') \<noteq> [] \<and>
    db' = db\<lparr>id_keys := row_update key_id (key_id k) (\<lambda>k. k\<lparr>key_used := Some now\<rparr>) (id_keys db)\<rparr>)"
proof -
  obtain bearer apiKey where given: "extractCredentials r = Some (bearer, apiKey)"
    using assms by (auto simp: authenticate_def split: option.splits)
  show ?thesis
  proof (cases "bearer = []")
    case True
    then have run: "Service_AuthenticateAPIKey lib service now apiKey db = Inr (prin, db')"
      using assms by (auto simp: authenticate_def given split: sum.splits)
    have "TrimSpace (rq_Header r ''X-API-Key'') \<noteq> []"
      using given True by (auto simp: extractCredentials_def Let_def split: if_splits list.splits)
    moreover from run obtain res where "AuthenticateAPIKey now apiKey (HashOpaqueToken lib apiKey) db = Inr (res, db')"
      by (auto simp: Service_AuthenticateAPIKey_def bindE_Inr split: if_splits)
    then obtain prefix k u where "active_key prefix db = Some (k, u)"
      and db': "db' = db\<lparr>id_keys := row_update key_id (key_id k) (\<lambda>k. k\<lparr>key_used := Some now\<rparr>) (id_keys db)\<rparr>"
      by (auto simp: AuthenticateAPIKey_def split: option.splits if_splits)
    then have "k \<in> set (id_keys db)" by (auto simp: active_key_def find_Some_iff split: option.splits)
    ultimately show ?thesis using db' by blast
  next
    case False
    then show ?thesis using assms
      by (cases "AuthenticateBearer lib service now bearer db") (auto simp: authenticate_def given)
  qed
qed

text \<open>
  C10. A request about jobs, quality rules, results or dead letters that is answered with an error
  status, by a middleware, by a check of the handler or by the service, leaves every table and the
  rate limiter exactly as they were: there is no half-done work behind a refusal. The one exception
  is a request with an API key that was accepted, which has set the time of last use of that one key
  and nothing else.
\<close>

theorem refused_requests_change_nothing:
  assumes "rt \<in> set (registerJobRoutes api @ registerQualityRoutes api @ registerResultRoutes api @ registerDLQRoutes api)"
    and "400 \<le> rs_Status (fst (serve api edge rt r s))"
  shows "snd (serve api edge rt r s) = s \<or>
    (\<exists>k. k \<in> set (id_keys (srv_identity s)) \<and> TrimSpace (rq_Header r ''X-API-Key'') \<noteq> [] \<and>
      snd (serve api edge rt r s) = s\<lparr>srv_identity := (srv_identity s)\<lparr>id_keys :=
        row_update key_id (key_id k) (\<lambda>k. k\<lparr>key_used := Some (api_now api)\<rparr>) (id_keys (srv_identity s))\<rparr>\<rparr>)"
proof -
  have "rt_Guard rt = Authenticated" by (rule authenticated_routes [of rt api]) (use assms(1) in auto)
  note closed = serve_authenticated [OF this, where api = api and r = r and s = s and edge = edge]
  show ?thesis
  proof (cases "authenticate (api_lib api) (api_identity api) (api_now api) r (srv_identity s)")
    case None
    then show ?thesis using closed by simp
  next
    case (Some found)
    then obtain prin db where found: "authenticate (api_lib api) (api_identity api) (api_now api) r (srv_identity s) = Some (prin, db)"
      by (cases found) auto
    have "snd (serve api edge rt r s) = s\<lparr>srv_identity := db\<rparr>"
      using closed refusal_routes [OF assms(1), of "identified edge r" "Some prin"] assms(2) found by (simp add: refusal_keeps_def)
    then show ?thesis using authenticate_writes [OF found] by auto
  qed
qed

theorem refused_requests_change_nothing_witness:
  "rs_Status (fst (serve sample_api sample_edge sample_route (sample_http_request ''Bearer jwt'' ''uuu'') sample_server)) = 404 \<and>
   snd (serve sample_api sample_edge sample_route (sample_http_request ''Bearer jwt'' ''uuu'') sample_server) = sample_server"
proof -
  have "rq_Header (sample_http_request ''Bearer jwt'' ''uuu'') ''X-API-Key'' = []" by (simp add: sample_http_request_def)
  moreover have "TrimSpace [] = []" using TrimSpace_length [of "[]"] by simp
  ultimately show ?thesis
    using refused_requests_change_nothing [of sample_route sample_api sample_edge "sample_http_request ''Bearer jwt'' ''uuu''" sample_server]
      sample_route_registered(1) sample_refused by simp
qed

section \<open>Where the answers differ from the documents\<close>

text \<open>
  An upload in parts for a dataset identifier that is no UUID is answered as an error of the server,
  where the other routes of the dataset answer that the request is invalid.
\<close>

theorem malformed_dataset_id_answers_500:
  assumes "uuid_Parse (api_rt api) (rq_Param r ''datasetID'') = None" "prin_UserID prin \<noteq> uuid_Nil"
  shows "rs_Status (fst (multipart_initiate api r (Some prin) s)) = 500" and "rs_Status (fst (dataset_get api r (Some prin) s)) = 400"
  using assms
  by (simp_all add: multipart_initiate_def dataset_get_def authenticated_def principalFromRequest_def attempt_def parseDatasetID_def path_uuid_def
      writeMultipartError_def writeDatasetError_def)

text \<open>
  Lists of jobs without parameters are those of the first page of twenty, and say that they are page
  zero of size zero.
\<close>

theorem default_page_reported_as_zero:
  assumes "\<And>name. rq_Query r name = []" "prin_UserID prin \<noteq> uuid_Nil" "Job_Service_List prin 1 20 [] (srv_db s) = Inr found"
  shows "rs_Body (fst (job_list api r (Some prin) s)) = JobsBody (jp_Items found) 0 0 (jp_Total found)"
proof -
  have "TrimSpace [] = []" using TrimSpace_length [of "[]"] by simp
  then have "parseJobPagination r = Inr (0, 0)"
    using assms(1) by (simp add: parseJobPagination_def parse_pagination_def parsePositiveQueryInt_def)
  moreover have "Job_Service_List prin 0 0 [] (srv_db s) = Inr found"
    using assms(3) by (simp add: Job_Service_List_def normalizePagination_def)
  ultimately show ?thesis using assms(1,2)
    by (simp add: job_list_def authenticated_def principalFromRequest_def attempt_def call_def db_query_def writeJSON_def)
qed

end
