(* ===== verification/Minio.thy ===== *)
theory Minio
  imports Multipart
begin

text \<open>
  The object store on the S3 interface (\<open>internal/storage/minio.go\<close>). The client library is an
  argument: what each of its calls answers, an error as its code. The deadlines of the contexts
  are among the reasons of such an error.
\<close>

section \<open>Clients\<close>

record MinIOConfig =
  mio_Endpoint :: string
  mio_PublicEndpoint :: string
  mio_AccessKey :: string
  mio_SecretKey :: string
  mio_Secure :: bool
  mio_PublicSecure :: bool
  mio_Bucket :: string

record 'c MinIOStore =
  ms_client :: 'c
  ms_presignClient :: 'c
  ms_bucket :: string

text \<open>\<open>newCore\<close> makes a client of an endpoint, the credentials, the choice of TLS and a region.\<close>

definition NewMinIO ::
  "(string \<Rightarrow> string \<Rightarrow> string \<Rightarrow> bool \<Rightarrow> string \<Rightarrow> 'c result) \<Rightarrow> MinIOConfig \<Rightarrow> 'c MinIOStore result" where
  "NewMinIO newCore config =
    (if mio_Endpoint config = [] \<or> mio_AccessKey config = [] \<or> mio_SecretKey config = [] \<or> mio_Bucket config = []
     then Inl (ErrText ''MinIO endpoint, credentials, and bucket are required'')
     else
       bindE (newCore (mio_Endpoint config) (mio_AccessKey config) (mio_SecretKey config) (mio_Secure config) []) (\<lambda>core.
       bindE
         (if TrimSpace (mio_PublicEndpoint config) \<noteq> [] \<and> TrimSpace (mio_PublicEndpoint config) \<noteq> TrimSpace (mio_Endpoint config)
          then newCore (mio_PublicEndpoint config) (mio_AccessKey config) (mio_SecretKey config) (mio_PublicSecure config) ''us-east-1''
          else Inr core) (\<lambda>presign.
       Inr \<lparr>ms_client = core, ms_presignClient = presign, ms_bucket = mio_Bucket config\<rparr>)))"

section \<open>Calls of the library\<close>

record ObjectInfo =
  oi_Key :: string
  oi_Size :: int
  oi_ETag :: string
  oi_ContentType :: string

text \<open>One page of a listing of parts.\<close>

record ListPage =
  lp_Parts :: "MultipartPart list"
  lp_IsTruncated :: bool
  lp_NextMarker :: int

type_synonym 'a answer = "string + 'a"

record 'c S3 =
  s3_PutObject :: "'c \<Rightarrow> string \<Rightarrow> string \<Rightarrow> string \<Rightarrow> int \<Rightarrow> string \<Rightarrow> (int \<times> string) answer"
  s3_StatObject :: "'c \<Rightarrow> string \<Rightarrow> string \<Rightarrow> (int \<times> string \<times> string) answer"
  s3_GetObject :: "'c \<Rightarrow> string \<Rightarrow> string \<Rightarrow> string answer"
  s3_ObjectStat :: "'c \<Rightarrow> string \<Rightarrow> string \<Rightarrow> unit answer"
  s3_RemoveObject :: "'c \<Rightarrow> string \<Rightarrow> string \<Rightarrow> unit answer"
  s3_BucketExists :: "'c \<Rightarrow> string \<Rightarrow> bool answer"
  s3_NewMultipartUpload :: "'c \<Rightarrow> string \<Rightarrow> string \<Rightarrow> string \<Rightarrow> string answer"
  s3_Presign :: "'c \<Rightarrow> string \<Rightarrow> string \<Rightarrow> duration \<Rightarrow> int \<Rightarrow> string \<Rightarrow> string answer"
  s3_ListObjectParts :: "'c \<Rightarrow> string \<Rightarrow> string \<Rightarrow> string \<Rightarrow> int \<Rightarrow> nat \<Rightarrow> ListPage answer"
  s3_CompleteMultipartUpload :: "'c \<Rightarrow> string \<Rightarrow> string \<Rightarrow> string \<Rightarrow> (int \<times> string) list \<Rightarrow> string \<Rightarrow> (int \<times> string) answer"
  s3_AbortMultipartUpload :: "'c \<Rightarrow> string \<Rightarrow> string \<Rightarrow> string \<Rightarrow> unit answer"

text \<open>An answer, its error under the operation's name.\<close>

definition wrapped :: "string \<Rightarrow> 'a answer \<Rightarrow> 'a result" where
  "wrapped operation a = (case a of Inl code \<Rightarrow> Inl (ErrText operation) | Inr x \<Rightarrow> Inr x)"

definition wrapObjectError :: "string \<Rightarrow> string \<Rightarrow> go_error" where
  "wrapObjectError operation code =
    (if code = ''NoSuchKey'' \<or> code = ''NoSuchObject'' \<or> code = ''NotFound'' then StorageErrObjectNotFound
     else ErrText operation)"

definition object_answer :: "string \<Rightarrow> 'a answer \<Rightarrow> 'a result" where
  "object_answer operation a = (case a of Inl code \<Rightarrow> Inl (wrapObjectError operation code) | Inr x \<Rightarrow> Inr x)"

section \<open>Objects\<close>

definition MinIO_Put :: "'c S3 \<Rightarrow> 'c MinIOStore \<Rightarrow> string \<Rightarrow> string \<Rightarrow> int \<Rightarrow> string \<Rightarrow> ObjectInfo result" where
  "MinIO_Put s3 s key reader bytes contentType =
    bindE (wrapped ''put object'' (s3_PutObject s3 (ms_client s) (ms_bucket s) key reader bytes contentType)) (\<lambda>(n, etag).
    Inr \<lparr>oi_Key = key, oi_Size = n, oi_ETag = etag, oi_ContentType = contentType\<rparr>)"

definition MinIO_Head :: "'c S3 \<Rightarrow> 'c MinIOStore \<Rightarrow> string \<Rightarrow> ObjectInfo result" where
  "MinIO_Head s3 s key =
    bindE (object_answer ''head'' (s3_StatObject s3 (ms_client s) (ms_bucket s) key)) (\<lambda>(n, etag, contentType).
    Inr \<lparr>oi_Key = key, oi_Size = n, oi_ETag = etag, oi_ContentType = contentType\<rparr>)"

definition MinIO_Get :: "'c S3 \<Rightarrow> 'c MinIOStore \<Rightarrow> string \<Rightarrow> string result" where
  "MinIO_Get s3 s key =
    bindE (object_answer ''get'' (s3_GetObject s3 (ms_client s) (ms_bucket s) key)) (\<lambda>reader.
    bindE (object_answer ''stat'' (s3_ObjectStat s3 (ms_client s) (ms_bucket s) key)) (\<lambda>_. Inr reader))"

definition MinIO_Delete :: "'c S3 \<Rightarrow> 'c MinIOStore \<Rightarrow> string \<Rightarrow> unit result" where
  "MinIO_Delete s3 s key = wrapped ''delete object'' (s3_RemoveObject s3 (ms_client s) (ms_bucket s) key)"

definition MinIO_Ping :: "'c S3 \<Rightarrow> 'c MinIOStore \<Rightarrow> unit result" where
  "MinIO_Ping s3 s =
    bindE (wrapped ''check MinIO bucket'' (s3_BucketExists s3 (ms_client s) (ms_bucket s))) (\<lambda>exists.
    if \<not> exists then Inl (ErrText ''MinIO bucket does not exist'') else Inr ())"

section \<open>Multipart uploads\<close>

definition MinIO_InitiateMultipart :: "'c S3 \<Rightarrow> 'c MinIOStore \<Rightarrow> string \<Rightarrow> string \<Rightarrow> string result" where
  "MinIO_InitiateMultipart s3 s key contentType =
    wrapped ''initiate multipart object'' (s3_NewMultipartUpload s3 (ms_client s) (ms_bucket s) key contentType)"

definition MinIO_PresignPart :: "'c S3 \<Rightarrow> 'c MinIOStore \<Rightarrow> string \<Rightarrow> string \<Rightarrow> int \<Rightarrow> duration \<Rightarrow> string result" where
  "MinIO_PresignPart s3 s key uploadID partNumber expires =
    (if partNumber < 1 \<or> expires \<le> 0 \<or> expires > 7 * 24 * Hour then Inl (ErrText ''invalid multipart presign parameters'')
     else wrapped ''presign multipart part''
       (s3_Presign s3 (ms_presignClient s) (ms_bucket s) key expires partNumber uploadID))"

definition unquoted :: "MultipartPart \<Rightarrow> MultipartPart" where
  "unquoted p = p\<lparr>mp_ETag := trim_quotes (mp_ETag p)\<rparr>"

text \<open>
  The loop asks for the page after \<open>marker\<close> and goes on while the answer is truncated and names a
  later marker. It ends by itself only when the markers cannot grow for ever: \<open>None\<close> is a call that
  never returns.
\<close>

partial_function (option) list_pages ::
  "(int \<Rightarrow> ListPage answer) \<Rightarrow> int \<Rightarrow> MultipartPart list \<Rightarrow> MultipartPart list result option" where
  "list_pages page marker parts =
    (case page marker of
       Inl code \<Rightarrow> Some (Inl (ErrText ''list multipart parts''))
     | Inr result \<Rightarrow>
         if \<not> lp_IsTruncated result \<or> lp_NextMarker result \<le> marker then Some (Inr (parts @ map unquoted (lp_Parts result)))
         else list_pages page (lp_NextMarker result) (parts @ map unquoted (lp_Parts result)))"

declare list_pages.simps [code]

definition MinIO_ListMultipartParts :: "'c S3 \<Rightarrow> 'c MinIOStore \<Rightarrow> string \<Rightarrow> string \<Rightarrow> MultipartPart list result option" where
  "MinIO_ListMultipartParts s3 s key uploadID =
    list_pages (\<lambda>marker. s3_ListObjectParts s3 (ms_client s) (ms_bucket s) key uploadID marker 1000) 0 []"

definition MinIO_GetMultipartPart :: "'c S3 \<Rightarrow> 'c MinIOStore \<Rightarrow> string \<Rightarrow> string \<Rightarrow> int \<Rightarrow> MultipartPart result" where
  "MinIO_GetMultipartPart s3 s key uploadID partNumber =
    (if partNumber < 1 then Inl (ErrText ''multipart part number must be positive'')
     else bindE (wrapped ''get multipart part''
         (s3_ListObjectParts s3 (ms_client s) (ms_bucket s) key uploadID (partNumber - 1) 1)) (\<lambda>result.
       case find (\<lambda>p. mp_PartNumber p = partNumber) (lp_Parts result) of
         Some p \<Rightarrow> Inr (unquoted p)
       | None \<Rightarrow> Inl StorageErrMultipartPartNotFound))"

definition MinIO_CompleteMultipart ::
  "'c S3 \<Rightarrow> 'c MinIOStore \<Rightarrow> string \<Rightarrow> string \<Rightarrow> MultipartPart list \<Rightarrow> string \<Rightarrow> ObjectInfo result" where
  "MinIO_CompleteMultipart s3 s key uploadID parts contentType =
    (let completeParts = map (\<lambda>p. (mp_PartNumber p, trim_quotes (mp_ETag p))) parts
     in bindE (wrapped ''complete multipart object''
          (s3_CompleteMultipartUpload s3 (ms_client s) (ms_bucket s) key uploadID completeParts contentType)) (\<lambda>(n, etag).
        Inr \<lparr>oi_Key = key, oi_Size = n, oi_ETag = etag, oi_ContentType = contentType\<rparr>))"

definition MinIO_AbortMultipart :: "'c S3 \<Rightarrow> 'c MinIOStore \<Rightarrow> string \<Rightarrow> string \<Rightarrow> unit result" where
  "MinIO_AbortMultipart s3 s key uploadID =
    (case s3_AbortMultipartUpload s3 (ms_client s) (ms_bucket s) key uploadID of
       Inl code \<Rightarrow> if code = ''NoSuchUpload'' then Inr () else Inl (ErrText ''abort multipart object'')
     | Inr u \<Rightarrow> Inr ())"

section \<open>The listing returns\<close>

text \<open>Markers are 64-bit integers, so whatever the answers are, they grow only finitely often.\<close>

definition int64_markers :: "(int \<Rightarrow> ListPage answer) \<Rightarrow> bool" where
  "int64_markers page \<longleftrightarrow> (\<forall>marker result. page marker = Inr result \<longrightarrow> lp_NextMarker result < 2 ^ 63)"

lemma list_pages_returns:
  assumes "int64_markers page"
  shows "\<exists>r. list_pages page marker parts = Some r"
proof (induction "nat (2 ^ 63 - marker)" arbitrary: marker parts rule: less_induct)
  case less
  show ?case
  proof (cases "page marker")
    case (Inl code)
    then show ?thesis by (simp add: list_pages.simps)
  next
    case (Inr result)
    show ?thesis
    proof (cases "lp_IsTruncated result \<and> marker < lp_NextMarker result")
      case True
      then have "nat (2 ^ 63 - lp_NextMarker result) < nat (2 ^ 63 - marker)"
        using assms Inr by (auto simp: int64_markers_def intro: less_trans)
      from less [OF this] True Inr show ?thesis by (subst list_pages.simps) simp
    next
      case False
      then show ?thesis using Inr by (subst list_pages.simps) auto
    qed
  qed
qed

section \<open>A server that holds parts\<close>

text \<open>
  What the S3 interface documents for a listing: the parts after the marker in ascending order, at
  most \<open>n\<close> of them, whether there are more, and the number of the last one as the next marker.
\<close>

definition part_page :: "MultipartPart list \<Rightarrow> int \<Rightarrow> nat \<Rightarrow> ListPage" where
  "part_page parts marker n =
    (let rest = filter (\<lambda>p. marker < mp_PartNumber p) parts; page = take n rest
     in \<lparr>lp_Parts = page, lp_IsTruncated = (n < length rest), lp_NextMarker = (if page = [] then 0 else mp_PartNumber (last page))\<rparr>)"

definition holds_parts :: "'c S3 \<Rightarrow> 'c MinIOStore \<Rightarrow> string \<Rightarrow> string \<Rightarrow> MultipartPart list \<Rightarrow> bool" where
  "holds_parts s3 s key uploadID parts \<longleftrightarrow>
     (\<forall>marker n. s3_ListObjectParts s3 (ms_client s) (ms_bucket s) key uploadID marker n = Inr (part_page parts marker n)) \<and>
     sorted_wrt (\<lambda>p q. mp_PartNumber p < mp_PartNumber q) parts"

lemma filter_after:
  assumes "sorted_wrt (\<lambda>p q. mp_PartNumber p < mp_PartNumber q) (xs @ ys)" "\<forall>p \<in> set xs. mp_PartNumber p \<le> marker"
    "\<forall>p \<in> set ys. marker < mp_PartNumber p"
  shows "filter (\<lambda>p. marker < mp_PartNumber p) (xs @ ys) = ys"
  using assms by (auto simp: filter_empty_conv intro: filter_True)

lemma list_pages_parts:
  assumes "sorted_wrt (\<lambda>p q. mp_PartNumber p < mp_PartNumber q) (before @ rest)" "0 < n"
    and "\<forall>p \<in> set before. mp_PartNumber p \<le> marker" "\<forall>p \<in> set rest. marker < mp_PartNumber p"
  shows "list_pages (\<lambda>m. Inr (part_page (before @ rest) m n)) marker acc = Some (Inr (acc @ map unquoted rest))"
  using assms
proof (induction "length rest" arbitrary: before rest marker acc rule: less_induct)
  case less
  have page: "filter (\<lambda>p. marker < mp_PartNumber p) (before @ rest) = rest" by (rule filter_after) fact+
  show ?case
  proof (cases "n < length rest")
    case False
    then show ?thesis using page by (subst list_pages.simps) (simp add: part_page_def Let_def del: filter_append)
  next
    case True
    let ?b = "before @ take n rest" and ?m = "mp_PartNumber (last (take n rest))"
    have ne: "take n rest \<noteq> []" using True less.prems(2) by auto
    have split: "before @ rest = ?b @ drop n rest" by simp
    have sorted: "sorted_wrt (\<lambda>p q. mp_PartNumber p < mp_PartNumber q) (?b @ drop n rest)" using less.prems(1) by simp
    have last: "last (take n rest) \<in> set (take n rest)" using ne by (rule last_in_set)
    have grows: "marker < ?m" using last less.prems(4) by (meson in_set_takeD)
    have low: "\<forall>p \<in> set ?b. mp_PartNumber p \<le> ?m"
    proof
      fix p assume "p \<in> set ?b"
      then consider "p \<in> set before" | "p \<in> set (butlast (take n rest))" | "p = last (take n rest)"
        using append_butlast_last_id [OF ne] by (metis Un_iff list.set(1,2) set_append singletonD)
      then show "mp_PartNumber p \<le> ?m"
      proof cases
        case 1
        then show ?thesis using less.prems(3) grows by fastforce
      next
        case 2
        have "sorted_wrt (\<lambda>p q. mp_PartNumber p < mp_PartNumber q) (butlast (take n rest) @ [last (take n rest)])"
          using sorted ne by (simp add: sorted_wrt_append)
        then show ?thesis using 2 by (auto simp: sorted_wrt_append)
      next
        case 3
        then show ?thesis by simp
      qed
    qed
    have high: "\<forall>p \<in> set (drop n rest). ?m < mp_PartNumber p"
      using sorted last unfolding sorted_wrt_append set_append by blast
    have "list_pages (\<lambda>m. Inr (part_page (?b @ drop n rest) m n)) ?m (acc @ map unquoted (take n rest)) =
        Some (Inr ((acc @ map unquoted (take n rest)) @ map unquoted (drop n rest)))"
      by (rule less.hyps [OF _ sorted less.prems(2) low high]) (use True less.prems(2) in simp)
    then show ?thesis using page True ne grows
      by (subst list_pages.simps) (simp add: part_page_def Let_def flip: map_append del: filter_append)
  qed
qed

lemma listed_parts:
  assumes "holds_parts s3 s key uploadID parts" "\<forall>p \<in> set parts. 0 < mp_PartNumber p"
  shows "MinIO_ListMultipartParts s3 s key uploadID = Some (Inr (map unquoted parts))"
  using list_pages_parts [of "[]" parts 1000 0 "[]"] assms by (simp add: MinIO_ListMultipartParts_def holds_parts_def)

lemma find_first_after:
  assumes "sorted_wrt (\<lambda>p q. mp_PartNumber p < mp_PartNumber q) parts"
  shows "find (\<lambda>p. mp_PartNumber p = k) (take (Suc 0) (filter (\<lambda>p. k - 1 < mp_PartNumber p) parts)) =
    find (\<lambda>p. mp_PartNumber p = k) parts"
  using assms
proof (induction parts)
  case (Cons p ps)
  have none: "find (\<lambda>p. mp_PartNumber p = k) ps = None" if "k < mp_PartNumber p"
    using that Cons.prems by (fastforce simp: find_None_iff)
  show ?case using Cons none by (cases "mp_PartNumber p = k"; cases "k < mp_PartNumber p") auto
qed simp

lemma fetched_part:
  assumes "holds_parts s3 s key uploadID parts" "1 \<le> k"
  shows "MinIO_GetMultipartPart s3 s key uploadID k =
    (case find (\<lambda>p. mp_PartNumber p = k) parts of Some p \<Rightarrow> Inr (unquoted p) | None \<Rightarrow> Inl StorageErrMultipartPartNotFound)"
  using assms find_first_after [of parts k]
  by (simp add: MinIO_GetMultipartPart_def holds_parts_def wrapped_def part_page_def Let_def)

end
