(* ===== verification/Publisher.thy ===== *)
theory Publisher
  imports Envelope Transition
begin

text \<open>
  The publisher on the AMQP library (\<open>internal/queue/rabbitmq.go\<close>, \<open>confirm.go\<close>,
  \<open>declareTopology\<close>). The library and the broker are arguments: what dialling, opening a channel,
  switching it to confirms, publishing and declaring answer, and which event ends the wait for a
  confirmation. An operation returns its result, the publisher and what it did on the connection.
\<close>

section \<open>Configuration\<close>

abbreviation DefaultConfirmTimeout :: duration where "DefaultConfirmTimeout \<equiv> 10 * Second"

record PublisherConfig =
  pc_URL :: string
  pc_ConfirmTimeout :: duration
  pc_DialTimeout :: duration
  pc_MaxMessageSize :: int

definition PublisherConfig_validate :: "PublisherConfig \<Rightarrow> unit result" where
  "PublisherConfig_validate c =
    (if pc_URL c = [] then Inl (ErrText ''RabbitMQ URL is required'')
     else if pc_ConfirmTimeout c \<le> 0 then Inl (ErrText ''RabbitMQ confirm timeout must be positive'')
     else if pc_DialTimeout c \<le> 0 then Inl (ErrText ''RabbitMQ dial timeout must be positive'')
     else if pc_MaxMessageSize c < 1 \<or> pc_MaxMessageSize c > int MaxEnvelopeBytes
     then Inl (ErrText ''RabbitMQ max message size is out of range'')
     else Inr ())"

definition publisher_defaults :: "PublisherConfig \<Rightarrow> PublisherConfig" where
  "publisher_defaults config =
    (let c1 = (if pc_ConfirmTimeout config = 0 then config\<lparr>pc_ConfirmTimeout := DefaultConfirmTimeout\<rparr> else config);
         c2 = (if pc_DialTimeout c1 = 0 then c1\<lparr>pc_DialTimeout := pc_ConfirmTimeout c1\<rparr> else c1)
     in if pc_MaxMessageSize c2 = 0 then c2\<lparr>pc_MaxMessageSize := int MaxEnvelopeBytes\<rparr> else c2)"

section \<open>Connections\<close>

text \<open>
  The connection and its channel are set and dropped together. \<open>pb_pending\<close> are the messages
  published on the channel whose confirmations have not been received, in order; the next
  confirmation is for the first of them.
\<close>

record Publisher =
  pb_config :: PublisherConfig
  pb_connected :: bool
  pb_pending :: "Envelope list"
  pb_closed :: bool

datatype broker_action =
    Dialled
  | Dropped
  | Sent string string Envelope
  | Confirmed Envelope bool

record ConnectEnv =
  cn_Dial :: "string \<Rightarrow> duration \<Rightarrow> unit result"
  cn_Channel :: "unit result"
  cn_Confirm :: "unit result"

definition Dial :: "(string \<Rightarrow> duration \<Rightarrow> unit result) \<Rightarrow> string \<Rightarrow> duration \<Rightarrow> unit result" where
  "Dial dialConfig url timeout =
    (if timeout \<le> 0 then Inl (ErrText ''RabbitMQ dial timeout must be positive'') else dialConfig url timeout)"

type_synonym 'a published = "'a result \<times> Publisher \<times> broker_action list"

definition connectLocked :: "ConnectEnv \<Rightarrow> Publisher \<Rightarrow> unit published" where
  "connectLocked env p =
    (if pb_closed p then (Inl (ErrText ''RabbitMQ publisher is closed''), p, [])
     else case Dial (cn_Dial env) (pc_URL (pb_config p)) (pc_DialTimeout (pb_config p)) of
         Inl err \<Rightarrow> (Inl err, p, [])
       | Inr _ \<Rightarrow>
           (case cn_Channel env of
              Inl err \<Rightarrow> (Inl err, p, [Dialled, Dropped])
            | Inr _ \<Rightarrow>
                (case cn_Confirm env of
                   Inl err \<Rightarrow> (Inl err, p, [Dialled, Dropped])
                 | Inr _ \<Rightarrow> (Inr (), p\<lparr>pb_connected := True, pb_pending := []\<rparr>, [Dialled]))))"

definition resetLocked :: "Publisher \<Rightarrow> Publisher \<times> broker_action list" where
  "resetLocked p = (p\<lparr>pb_connected := False, pb_pending := []\<rparr>, if pb_connected p then [Dropped] else [])"

text \<open>What precedes a use of the channel: a connection that is missing or closed is replaced.\<close>

definition ensureConnected :: "bool \<Rightarrow> ConnectEnv \<Rightarrow> Publisher \<Rightarrow> unit published" where
  "ensureConnected isClosed env p =
    (if \<not> pb_connected p \<or> isClosed then
       (let (p1, dropped) = resetLocked p; (r, p2, acts) = connectLocked env p1 in (r, p2, dropped @ acts))
     else (Inr (), p, []))"

definition NewPublisher :: "ConnectEnv \<Rightarrow> PublisherConfig \<Rightarrow> Publisher result \<times> broker_action list" where
  "NewPublisher env config0 =
    (let config = publisher_defaults config0
     in case PublisherConfig_validate config of
          Inl err \<Rightarrow> (Inl err, [])
        | Inr _ \<Rightarrow>
            (let (r, p, acts) = connectLocked env \<lparr>pb_config = config, pb_connected = False, pb_pending = [], pb_closed = False\<rparr>
             in (bindE r (\<lambda>_. Inr p), acts)))"

section \<open>Publishing\<close>

text \<open>The \<open>select\<close> of the wait: one of its events comes first.\<close>

datatype wait_event = ConfirmationReceived bool | ConfirmationsClosed | ContextDone | TimerFired

definition waitForConfirmation :: "wait_event \<Rightarrow> bool option" where
  "waitForConfirmation ev = (case ev of ConfirmationReceived ack \<Rightarrow> Some ack | _ \<Rightarrow> None)"

record AttemptEnv =
  ae_IsClosed :: bool
  ae_Connect :: ConnectEnv
  ae_Publish :: "unit result"
  ae_Wait :: wait_event

fun done_before :: "broker_action list \<Rightarrow> 'a published \<Rightarrow> 'a published" where
  "done_before acts (r, p, later) = (r, p, acts @ later)"

function publish_loop :: "(nat \<Rightarrow> AttemptEnv) \<Rightarrow> string \<Rightarrow> string \<Rightarrow> Envelope \<Rightarrow> nat \<Rightarrow> Publisher \<Rightarrow> unit published" where
  "publish_loop env exchange routingKey envelope attempt p =
    (if attempt \<ge> 2 then (Inl (ErrText ''RabbitMQ publish failed''), p, [])
     else case ensureConnected (ae_IsClosed (env attempt)) (ae_Connect (env attempt)) p of
         (Inl err, p1, acts) \<Rightarrow> (Inl err, p1, acts)
       | (Inr _, p1, acts) \<Rightarrow>
           (case ae_Publish (env attempt) of
              Inl err \<Rightarrow>
                (let (p2, dropped) = resetLocked p1
                 in if attempt = 0
                    then done_before (acts @ dropped) (publish_loop env exchange routingKey envelope (attempt + 1) p2)
                    else (Inl err, p2, acts @ dropped))
            | Inr _ \<Rightarrow>
                (let p2 = p1\<lparr>pb_pending := pb_pending p1 @ [envelope]\<rparr>; sent = acts @ [Sent exchange routingKey envelope]
                 in case waitForConfirmation (ae_Wait (env attempt)) of
                      Some ack \<Rightarrow>
                        (let p3 = p2\<lparr>pb_pending := tl (pb_pending p2)\<rparr>; received = sent @ [Confirmed (hd (pb_pending p2)) ack]
                         in if ack then (Inr (), p3, received)
                            else let (p4, dropped) = resetLocked p3
                                 in (Inl (ErrText ''RabbitMQ publisher confirm was negative''), p4, received @ dropped))
                    | None \<Rightarrow>
                        (let (p3, dropped) = resetLocked p2
                         in if attempt = 1
                            then (Inl (ErrText ''RabbitMQ publisher confirmation timed out or connection closed''), p3, sent @ dropped)
                            else done_before (sent @ dropped)
                              (publish_loop env exchange routingKey envelope (attempt + 1) p3)))))"
  by pat_completeness auto
termination
  by (relation "measure (\<lambda>(env, exchange, routingKey, envelope, attempt, p). 2 - attempt)") auto

declare publish_loop.simps [simp del]

definition Publish ::
  "(Envelope \<Rightarrow> nat) \<Rightarrow> (nat \<Rightarrow> AttemptEnv) \<Rightarrow> string \<Rightarrow> string \<Rightarrow> Envelope \<Rightarrow> Publisher \<Rightarrow> unit published" where
  "Publish nbytes env exchange routingKey envelope p =
    (case MarshalEnvelope nbytes envelope of
       Inl err \<Rightarrow> (Inl err, p, [])
     | Inr body \<Rightarrow>
         if int (fst body) > pc_MaxMessageSize (pb_config p) then (Inl (ErrText ''message exceeds configured limit''), p, [])
         else if exchange = [] \<or> routingKey = [] then (Inl (ErrText ''RabbitMQ exchange and routing key are required''), p, [])
         else if pb_closed p then (Inl (ErrText ''RabbitMQ publisher is closed''), p, [])
         else publish_loop env exchange routingKey envelope 0 p)"

section \<open>Topology and closing\<close>

datatype topology_call =
    ExchangeDeclare string string
  | QueueDeclare string "(string \<times> string) list"
  | QueueBind string string string

definition topology_calls :: "Topology \<Rightarrow> topology_call list" where
  "topology_calls topology =
     map (\<lambda>(name, kind). ExchangeDeclare name kind) (top_Exchanges topology) @
     map (\<lambda>(name, deadLetter). QueueDeclare name
       (if deadLetter \<noteq> [] then [(''x-dead-letter-exchange'', DeadLetterExchange), (''x-dead-letter-routing-key'', deadLetter)]
        else [])) (top_Queues topology) @
     map (\<lambda>(exchange, queue, key). QueueBind queue key exchange) (top_Bindings topology)"

definition declareTopology :: "(topology_call \<Rightarrow> unit result) \<Rightarrow> Topology \<Rightarrow> unit result" where
  "declareTopology channel topology = bindE (mapE channel (topology_calls topology)) (\<lambda>_. Inr ())"

definition DeclareTopology ::
  "unit result \<Rightarrow> bool \<Rightarrow> ConnectEnv \<Rightarrow> (topology_call \<Rightarrow> unit result) \<Rightarrow> Topology \<Rightarrow> Publisher \<Rightarrow> unit published" where
  "DeclareTopology ctxErr isClosed env channel topology p =
    (case ctxErr of
       Inl err \<Rightarrow> (Inl err, p, [])
     | Inr _ \<Rightarrow>
         if pb_closed p then (Inl (ErrText ''RabbitMQ publisher is closed''), p, [])
         else case ensureConnected isClosed env p of
             (Inl err, p1, acts) \<Rightarrow> (Inl err, p1, acts)
           | (Inr _, p1, acts) \<Rightarrow>
               (case declareTopology channel topology of
                  Inl err \<Rightarrow> (let (p2, dropped) = resetLocked p1 in (Inl err, p2, acts @ dropped))
                | Inr _ \<Rightarrow> (Inr (), p1, acts)))"

definition Publisher_Close :: "unit result \<Rightarrow> Publisher \<Rightarrow> unit published" where
  "Publisher_Close closeErr p =
    (if pb_closed p then (Inr (), p, [])
     else (if pb_connected p then closeErr else Inr (), p\<lparr>pb_closed := True\<rparr>, if pb_connected p then [Dropped] else []))"

section \<open>Between calls nothing is pending\<close>

definition publisher_ok :: "Publisher \<Rightarrow> bool" where
  "publisher_ok p \<longleftrightarrow> pb_pending p = []"

lemma connectLocked_ok: "connectLocked env p = (r, p', acts) \<Longrightarrow> publisher_ok p \<Longrightarrow> publisher_ok p'"
  by (auto simp: connectLocked_def publisher_ok_def split: if_splits sum.splits)

lemma connectLocked_silent:
  "connectLocked env p = (r, p', acts) \<Longrightarrow> Sent x k e \<notin> set acts \<and> Confirmed e' b \<notin> set acts"
  by (auto simp: connectLocked_def split: if_splits sum.splits)

lemma connectLocked_open: "connectLocked env p = (Inr u, p', acts) \<Longrightarrow> pb_connected p'"
  by (auto simp: connectLocked_def split: if_splits sum.splits)

lemma ensureConnected_ok: "ensureConnected c env p = (r, p', acts) \<Longrightarrow> publisher_ok p \<Longrightarrow> publisher_ok p'"
  using connectLocked_ok by (fastforce simp: ensureConnected_def resetLocked_def publisher_ok_def Let_def split: if_splits prod.splits)

lemma ensureConnected_silent:
  "ensureConnected c env p = (r, p', acts) \<Longrightarrow> Sent x k e \<notin> set acts \<and> Confirmed e' b \<notin> set acts"
  using connectLocked_silent
  by (fastforce simp: ensureConnected_def resetLocked_def Let_def split: if_splits prod.splits)

lemma ensureConnected_open: "ensureConnected c env p = (Inr u, p', acts) \<Longrightarrow> pb_connected p'"
  using connectLocked_open by (fastforce simp: ensureConnected_def resetLocked_def Let_def split: if_splits prod.splits)

lemma ensureConnected_failed: "ensureConnected c env p = (Inl err, p', acts) \<Longrightarrow> \<not> pb_connected p'"
  by (auto simp: ensureConnected_def connectLocked_def resetLocked_def Let_def split: if_splits sum.splits)

lemma resetLocked_ok [simp]: "publisher_ok (fst (resetLocked p))" "\<not> pb_connected (fst (resetLocked p))"
  by (simp_all add: resetLocked_def publisher_ok_def)

lemma resetLocked_silent [simp]: "Sent x k e \<notin> set (snd (resetLocked p))" "Confirmed e b \<notin> set (snd (resetLocked p))"
  by (simp_all add: resetLocked_def)

section \<open>Outcomes of a publication\<close>

fun is_sent :: "broker_action \<Rightarrow> bool" where
  "is_sent (Sent x k e) = True"
| "is_sent a = False"

fun is_confirmed :: "broker_action \<Rightarrow> bool" where
  "is_confirmed (Confirmed e b) = True"
| "is_confirmed a = False"

definition silent :: "broker_action list \<Rightarrow> bool" where
  "silent acts \<longleftrightarrow> filter is_sent acts = [] \<and> filter is_confirmed acts = []"

lemma silentI: "(\<And>x k e. Sent x k e \<notin> set acts) \<Longrightarrow> (\<And>e b. Confirmed e b \<notin> set acts) \<Longrightarrow> silent acts"
  unfolding silent_def filter_empty_conv by (metis is_confirmed.elims(2) is_sent.elims(2))

lemma silent_append [simp]: "silent (xs @ ys) \<longleftrightarrow> silent xs \<and> silent ys"
  by (auto simp: silent_def)

lemma reset_silent [simp]: "silent (snd (resetLocked p))"
  by (rule silentI) simp_all

lemma ensureConnected_quiet: "ensureConnected c env p = (r, p', acts) \<Longrightarrow> silent acts"
  using ensureConnected_silent by (metis silentI)

text \<open>
  What the loop may do with \<open>n\<close> attempts left: every message sent is this one, there are at most
  \<open>n\<close> of them, at most one confirmation is received and it is for this message, and the call
  succeeds exactly when that confirmation is positive, and then last of all. The connection is kept
  exactly by a success.
\<close>

definition publish_outcome :: "string \<Rightarrow> string \<Rightarrow> Envelope \<Rightarrow> nat \<Rightarrow> unit published \<Rightarrow> bool" where
  "publish_outcome exchange routingKey envelope n out \<longleftrightarrow>
    (case out of (r, p, acts) \<Rightarrow>
       publisher_ok p \<and> (pb_connected p \<longleftrightarrow> r = Inr ()) \<and>
       (\<exists>k \<le> n. filter is_sent acts = replicate k (Sent exchange routingKey envelope)) \<and>
       filter is_confirmed acts \<in> {[], [Confirmed envelope False], [Confirmed envelope True]} \<and>
       (r = Inr () \<longleftrightarrow> filter is_confirmed acts = [Confirmed envelope True]) \<and>
       (r = Inr () \<longrightarrow> (\<exists>earlier. acts = earlier @ [Sent exchange routingKey envelope, Confirmed envelope True])))"

lemma publish_outcome_later:
  assumes "publish_outcome x k e n out" "filter is_confirmed acts = []"
    and "filter is_sent acts = replicate i (Sent x k e)" "i \<le> 1"
  shows "publish_outcome x k e (Suc n) (done_before acts out)"
proof -
  obtain r p later where out: "out = (r, p, later)" by (cases out) auto
  obtain j where "j \<le> n" "filter is_sent later = replicate j (Sent x k e)"
    using assms(1) by (auto simp: publish_outcome_def out)
  then have "i + j \<le> Suc n" "filter is_sent (acts @ later) = replicate (i + j) (Sent x k e)"
    using assms(3,4) by (simp_all add: replicate_add)
  then show ?thesis using assms(1,2) by (auto simp: publish_outcome_def out)
qed

lemma publish_outcome_last:
  assumes "silent acts" "publisher_ok p" "0 < n"
  shows "\<not> pb_connected p \<Longrightarrow> publish_outcome x k e n (Inl err, p, acts)"
    and "\<not> pb_connected p \<Longrightarrow> silent dropped \<Longrightarrow> publish_outcome x k e n (Inl err, p, acts @ Sent x k e # dropped)"
    and "\<not> pb_connected p \<Longrightarrow> silent dropped \<Longrightarrow>
      publish_outcome x k e n (Inl err, p, acts @ Sent x k e # Confirmed e False # dropped)"
    and "pb_connected p \<Longrightarrow> publish_outcome x k e n (Inr (), p, acts @ [Sent x k e, Confirmed e True])"
  using assms by (auto simp: publish_outcome_def silent_def Suc_le_eq intro: exI [of _ 0] exI [of _ 1])

lemma publish_loop_outcome:
  assumes "publisher_ok p" "attempt < 2"
  shows "publish_outcome x k e (2 - attempt) (publish_loop env x k e attempt p)"
  using assms
proof (induction "2 - attempt" arbitrary: attempt p)
  case (Suc n)
  obtain r p1 acts where ens: "ensureConnected (ae_IsClosed (env attempt)) (ae_Connect (env attempt)) p = (r, p1, acts)"
    by (metis prod_cases3)
  note facts = ensureConnected_ok [OF ens Suc.prems(1)] ensureConnected_quiet [OF ens]
  have later: "publish_outcome x k e (2 - attempt) (done_before (acts @ sent @ snd (resetLocked q))
      (publish_loop env x k e (attempt + 1) (fst (resetLocked q))))"
    if "attempt = 0" "sent \<in> {[], [Sent x k e]}" for q sent
  proof -
    have "publish_outcome x k e 1 (publish_loop env x k e 1 (fst (resetLocked q)))"
      using Suc.hyps(1) [of 1 "fst (resetLocked q)"] Suc.hyps(2) that by simp
    from publish_outcome_later [OF this, of "acts @ sent @ snd (resetLocked q)" "length sent"]
    show ?thesis using that facts(2) reset_silent [of q] by (auto simp: silent_def numeral_2_eq_2)
  qed
  show ?case
  proof (cases r)
    case (Inl err)
    then show ?thesis using ens Suc.prems(2) publish_outcome_last(1) [OF facts(2,1)] ensureConnected_failed
      by (subst publish_loop.simps) simp
  next
    case (Inr u)
    have empty: "pb_pending p1 = []" and kept: "publisher_ok (p1\<lparr>pb_pending := []\<rparr>)"
      and open1: "pb_connected (p1\<lparr>pb_pending := []\<rparr>)"
      using facts(1) ensureConnected_open [OF ens [unfolded Inr]] by (simp_all add: publisher_ok_def)
    have left: "0 < 2 - attempt" "attempt = 0 \<or> attempt = 1" using Suc.prems(2) by auto
    note failed = publish_outcome_last(1) [OF _ resetLocked_ok(1) left(1) resetLocked_ok(2)]
      publish_outcome_last(2,3) [OF facts(2) resetLocked_ok(1) left(1) resetLocked_ok(2)]
    note unfolded = publish_loop.simps [of env x k e attempt p] ens Inr Let_def case_prod_beta empty
    show ?thesis
    proof (cases "ae_Publish (env attempt)")
      case (Inl err)
      show ?thesis using left(2) later [of "[]"] failed(1) [of "acts @ snd (resetLocked p1)"] facts(2) Inl
        by (auto simp: unfolded)
    next
      case (Inr v)
      show ?thesis
      proof (cases "waitForConfirmation (ae_Wait (env attempt))")
        case None
        show ?thesis using left(2) later [of "[Sent x k e]"] failed(2) [OF reset_silent] None \<open>ae_Publish (env attempt) = Inr v\<close>
          by (auto simp: unfolded)
      next
        case (Some ack)
        show ?thesis using left(2) failed(3) [OF reset_silent] publish_outcome_last(4) [OF facts(2) kept left(1) open1]
            Some \<open>ae_Publish (env attempt) = Inr v\<close> by (cases ack) (auto simp: unfolded)
      qed
    qed
  qed
qed simp

section \<open>Runs of a publisher\<close>

definition new_publisher :: "Publisher \<Rightarrow> bool" where
  "new_publisher p \<longleftrightarrow> (\<exists>env config acts. NewPublisher env config = (Inr p, acts))"

inductive publishing :: "Publisher \<Rightarrow> Publisher \<Rightarrow> bool" where
  publish: "Publish nbytes env exchange routingKey envelope p = (r, p', acts) \<Longrightarrow> publishing p p'"
| declare_topology: "DeclareTopology ctxErr isClosed env channel topology p = (r, p', acts) \<Longrightarrow> publishing p p'"
| close: "Publisher_Close closeErr p = (r, p', acts) \<Longrightarrow> publishing p p'"

lemma Publish_cases:
  assumes "Publish nbytes env x k e p = (r, p', acts)"
  obtains (rejected) err where "r = Inl err" "p' = p" "acts = []"
  | (sent) "Envelope_Validate e = Inr ()" "int (nbytes e) \<le> pc_MaxMessageSize (pb_config p)" "x \<noteq> []" "k \<noteq> []"
      "\<not> pb_closed p" "publish_loop env x k e 0 p = (r, p', acts)"
  using assms that by (auto simp: Publish_def MarshalEnvelope_def result_simps not_less split: sum.splits if_splits)

lemma Publish_ok:
  assumes "Publish nbytes env x k e p = (r, p', acts)" "publisher_ok p"
  shows "publisher_ok p'"
  using assms(1)
proof (cases rule: Publish_cases)
  case sent
  then show ?thesis using publish_loop_outcome [OF assms(2), of 0 x k e env] by (simp add: publish_outcome_def)
qed (use assms(2) in simp)

lemma DeclareTopology_ok:
  assumes "DeclareTopology ctxErr isClosed env channel topology p = (r, p', acts)" "publisher_ok p"
  shows "publisher_ok p'"
proof -
  obtain r1 p1 acts1 where ens: "ensureConnected isClosed env p = (r1, p1, acts1)" by (metis prod_cases3)
  show ?thesis using assms ensureConnected_ok [OF ens assms(2)] resetLocked_ok(1) [of p1] ens
    by (auto simp: DeclareTopology_def Let_def case_prod_beta split: sum.splits if_splits)
qed

lemma Publisher_Close_ok: "Publisher_Close closeErr p = (r, p', acts) \<Longrightarrow> publisher_ok p \<Longrightarrow> publisher_ok p'"
  by (auto simp: Publisher_Close_def publisher_ok_def split: if_splits)

lemma NewPublisher_ok: "NewPublisher env config = (Inr p, acts) \<Longrightarrow> publisher_ok p"
  by (auto simp: NewPublisher_def Let_def publisher_ok_def connectLocked_def result_simps split: sum.splits if_splits)

interpretation amqp: invariant_system new_publisher publishing publisher_ok
proof unfold_locales
  show "publisher_ok p" if "new_publisher p" for p using that NewPublisher_ok by (auto simp: new_publisher_def)
  show "publisher_ok p'" if "publisher_ok p" "publishing p p'" for p p'
    using that(2,1) by cases (auto intro: Publish_ok DeclareTopology_ok Publisher_Close_ok)
qed

end
