(* ===== verification/Startup.thy ===== *)
theory Startup
  imports Config Identity Minio Publisher RateLimit Scheduler
begin

text \<open>
  How the processes put the components together: \<open>newSchedulerRuntime\<close> of
  \<open>cmd/scheduler/scheduler_runtime.go\<close> and the part of \<open>run\<close> of \<open>cmd/api/main.go\<close> before the
  router. The pool is open: a constructor that only refuses a missing pool or store is left out.
\<close>

section \<open>Constructors\<close>

definition Dataset_NewService :: "int \<Rightarrow> int result" where
  "Dataset_NewService maxUploadBytes =
    (if maxUploadBytes \<le> 0 then Inl (ErrText ''dataset service is not configured'') else Inr maxUploadBytes)"

definition Multipart_NewService :: "MultipartConfig \<Rightarrow> MultipartConfig result" where
  "Multipart_NewService config = bindE (MultipartConfig_validate config) (\<lambda>_. Inr config)"

definition lease_DefaultConfig :: LeaseConfig where
  "lease_DefaultConfig =
    \<lparr>lc_LeaseDuration = DefaultLeaseDuration, lc_RenewalWindow = DefaultRenewalWindow, lc_SweepLimit = DefaultSweepBatchLimit,
     lc_RetryPolicy = DefaultPolicy\<rparr>"

definition minio_config :: "Config \<Rightarrow> string \<Rightarrow> MinIOConfig" where
  "minio_config cfg bucket =
    \<lparr>mio_Endpoint = cf_MinIOEndpoint cfg, mio_PublicEndpoint = cf_MinIOPublicEndpoint cfg, mio_AccessKey = cf_MinIOAccessKey cfg,
     mio_SecretKey = cf_MinIOSecretKey cfg, mio_Secure = cf_MinIOSecure cfg, mio_PublicSecure = cf_MinIOPublicSecure cfg,
     mio_Bucket = bucket\<rparr>"

definition multipart_config :: "Config \<Rightarrow> MultipartConfig" where
  "multipart_config cfg =
    \<lparr>mc_PartSize = cf_MultipartPartSize cfg, mc_MaxParts = cf_MultipartMaxParts cfg, mc_MaxBytes = cf_MultipartMaxBytes cfg,
     mc_SessionTTL = cf_MultipartSessionTTL cfg, mc_PartURLTTL = cf_MultipartURLTTL cfg,
     mc_CompletionGrace = cf_MultipartCompletionGrace cfg\<rparr>"

section \<open>The scheduler\<close>

text \<open>What the outside answers while the scheduler starts.\<close>

type_synonym 'c new_client = "string \<Rightarrow> string \<Rightarrow> string \<Rightarrow> bool \<Rightarrow> string \<Rightarrow> 'c result"

record BrokerEnv =
  be_Connect :: ConnectEnv
  be_Context :: "unit result"
  be_IsClosed :: bool
  be_Reconnect :: ConnectEnv
  be_Declare :: "topology_call \<Rightarrow> unit result"

record 'c schedulerRuntime =
  sr_config :: Config
  sr_scheduler :: SchedulerConfig
  sr_dispatcher :: duration
  sr_outboxDispatcher :: DispatcherConfig
  sr_leaseRepository :: LeaseConfig
  sr_workerRegistry :: duration
  sr_publisher :: Publisher
  sr_objects :: "'c MinIOStore"
  sr_multipartService :: MultipartConfig

definition newSchedulerRuntime :: "'c new_client \<Rightarrow> BrokerEnv \<Rightarrow> Config \<Rightarrow> 'c schedulerRuntime result" where
  "newSchedulerRuntime newCore broker cfg =
    (let leaseConfig = lease_DefaultConfig\<lparr>lc_LeaseDuration := cf_LeaseDuration cfg, lc_RenewalWindow := cf_LeaseRenewalWindow cfg,
           lc_SweepLimit := cf_LeaseSweepLimit cfg\<rparr>
     in bindE (Workers_NewRepository (cf_WorkerHeartbeatTTL cfg)) (\<lambda>workerRepository.
        bindE (Lease_NewRepository leaseConfig) (\<lambda>leaseRepository.
        let sched = Scheduler_New \<lparr>sc_BatchSize = cf_SchedulerBatchSize cfg, sc_CandidateFactor = 0\<rparr>
        in bindE (Scheduler_NewDispatcher (cf_LeaseDuration cfg)) (\<lambda>dispatcher.
        bindE (fst (NewPublisher (be_Connect broker)
            \<lparr>pc_URL = cf_RabbitMQURL cfg, pc_ConfirmTimeout = cf_ShutdownTimeout cfg, pc_DialTimeout = cf_ShutdownTimeout cfg,
             pc_MaxMessageSize = 0\<rparr>)) (\<lambda>publisher.
        let (declared, publisher', _) =
              DeclareTopology (be_Context broker) (be_IsClosed broker) (be_Reconnect broker) (be_Declare broker) DefaultTopology publisher
        in bindE declared (\<lambda>_.
        bindE (NewDispatcher \<lparr>dc_LeaseDuration = 0, dc_RetryBase = 0, dc_MaxAttempts = 0\<rparr>) (\<lambda>outboxDispatcher.
        bindE (NewMinIO newCore (minio_config cfg (cf_DatasetBucket cfg))) (\<lambda>objectStore.
        bindE (Multipart_NewService (multipart_config cfg)) (\<lambda>multipartService.
        Inr \<lparr>sr_config = cfg, sr_scheduler = sched, sr_dispatcher = dispatcher, sr_outboxDispatcher = outboxDispatcher,
          sr_leaseRepository = leaseRepository, sr_workerRegistry = workerRepository, sr_publisher = publisher',
          sr_objects = objectStore, sr_multipartService = multipartService\<rparr>)))))))))"

section \<open>The API server\<close>

record 'c apiRuntime =
  ar_identity :: IdentityService
  ar_datasetObjects :: "'c MinIOStore"
  ar_artifactObjects :: "'c MinIOStore"
  ar_maxUploadBytes :: int
  ar_multipartService :: MultipartConfig
  ar_limiter :: AuthRateLimiter

definition new_api_runtime :: "'c new_client \<Rightarrow> rounding \<Rightarrow> Config \<Rightarrow> 'c apiRuntime result" where
  "new_api_runtime newCore fl cfg =
    bindE (NewIdentityService (cf_JWTSigningKey cfg) (cf_AccessTokenTTL cfg) (cf_RefreshTokenTTL cfg)) (\<lambda>identityService.
    bindE (NewMinIO newCore (minio_config cfg (cf_DatasetBucket cfg))) (\<lambda>datasetObjectStore.
    bindE (NewMinIO newCore (minio_config cfg (cf_ArtifactBucket cfg))) (\<lambda>artifactObjectStore.
    bindE (Dataset_NewService (cf_MaxUploadBytes cfg)) (\<lambda>datasetService.
    bindE (Multipart_NewService (multipart_config cfg)) (\<lambda>multipartService.
    bindE (NewAuthRateLimiter fl \<lparr>rl_RequestsPerMinute = cf_AuthRateLimitPerMinute cfg, rl_Burst = cf_AuthRateLimitBurst cfg,
        rl_MaxClients = cf_AuthRateLimitMaxClients cfg, rl_EntryTTL = cf_AuthRateLimitEntryTTL cfg\<rparr>) (\<lambda>authRateLimiter.
    Inr \<lparr>ar_identity = identityService, ar_datasetObjects = datasetObjectStore, ar_artifactObjects = artifactObjectStore,
      ar_maxUploadBytes = datasetService, ar_multipartService = multipartService, ar_limiter = authRateLimiter\<rparr>))))))"

text \<open>The probe of \<open>/health/ready\<close>: the database, then both buckets.\<close>

definition api_readiness :: "'c S3 \<Rightarrow> unit result \<Rightarrow> 'c apiRuntime \<Rightarrow> unit result" where
  "api_readiness s3 pingPool rt =
    bindE pingPool (\<lambda>_. bindE (MinIO_Ping s3 (ar_datasetObjects rt)) (\<lambda>_. MinIO_Ping s3 (ar_artifactObjects rt)))"

section \<open>A loaded configuration\<close>

lemma Load_valid: "Load dur split getenv = Inr cfg \<Longrightarrow> Config_validate split cfg = Inr ()"
  by (auto simp: Load_def result_simps split: option.splits)

lemma TrimSpace_Nil [simp]: "TrimSpace [] = []"
  using TrimSpace_length [of "[]"] by simp

lemma Config_validateD:
  assumes "Config_validate split cfg = Inr ()"
  shows "limits_valid cfg" and "32 \<le> length (cf_JWTSigningKey cfg)" and "cf_MinIOEndpoint cfg \<noteq> []" and "cf_MinIOAccessKey cfg \<noteq> []"
    and "cf_MinIOSecretKey cfg \<noteq> []" and "cf_DatasetBucket cfg \<noteq> []" and "cf_ArtifactBucket cfg \<noteq> []" and "cf_RabbitMQURL cfg \<noteq> []"
    and "cf_MultipartPartSize cfg \<le> cf_MultipartMaxBytes cfg"
    and "cf_MultipartMaxBytes cfg \<le> signed_take_bit 63 (cf_MultipartPartSize cfg * cf_MultipartMaxParts cfg)"
    and "TrimSpace (cf_MinIOEndpoint cfg) \<noteq> []" and "TrimSpace (cf_MinIOAccessKey cfg) \<noteq> []" and "TrimSpace (cf_MinIOSecretKey cfg) \<noteq> []"
    and "TrimSpace (cf_RabbitMQURL cfg) \<noteq> []" and "cf_Environment cfg \<noteq> ''development'' \<Longrightarrow> TrimSpace (cf_MinIOPublicEndpoint cfg) \<noteq> []"
  using assms by (auto simp: Config_validate_def split: if_splits option.splits prod.splits)

text \<open>A product of part sizes and counts within the limits is far below 64 bits.\<close>

lemma limits_part_product:
  assumes "limits_valid cfg"
  shows "signed_take_bit 63 (cf_MultipartPartSize cfg * cf_MultipartMaxParts cfg) = cf_MultipartPartSize cfg * cf_MultipartMaxParts cfg"
proof (rule signed_take_bit_int_eq_self)
  have bounds: "0 \<le> cf_MultipartPartSize cfg" "cf_MultipartPartSize cfg \<le> 5368709120" "0 \<le> cf_MultipartMaxParts cfg"
    "cf_MultipartMaxParts cfg \<le> 10000"
    using assms by (simp_all add: limits_valid_def)
  then have "0 \<le> cf_MultipartPartSize cfg * cf_MultipartMaxParts cfg" by simp
  then show "- (2 ^ 63) \<le> cf_MultipartPartSize cfg * cf_MultipartMaxParts cfg" by simp
  have "cf_MultipartPartSize cfg * cf_MultipartMaxParts cfg \<le> 5368709120 * 10000" using bounds by (intro mult_mono) auto
  then show "cf_MultipartPartSize cfg * cf_MultipartMaxParts cfg < 2 ^ 63" by simp
qed

lemma loaded_multipart:
  assumes "Config_validate split cfg = Inr ()"
  shows "Multipart_NewService (multipart_config cfg) = Inr (multipart_config cfg)"
  using Config_validateD(1,9,10) [OF assms] limits_part_product [of cfg]
  by (simp add: Multipart_NewService_def MultipartConfig_validate_def multipart_config_def limits_valid_def)

lemma loaded_lease:
  assumes "limits_valid cfg"
  shows "Lease_NewRepository (lease_DefaultConfig\<lparr>lc_LeaseDuration := cf_LeaseDuration cfg, lc_RenewalWindow := cf_LeaseRenewalWindow cfg,
    lc_SweepLimit := cf_LeaseSweepLimit cfg\<rparr>) = Inr (lease_DefaultConfig\<lparr>lc_LeaseDuration := cf_LeaseDuration cfg,
    lc_RenewalWindow := cf_LeaseRenewalWindow cfg, lc_SweepLimit := cf_LeaseSweepLimit cfg\<rparr>)"
proof -
  have "pol_MaxAttempts DefaultPolicy \<noteq> 0" by (simp add: DefaultPolicy_def)
  then show ?thesis using assms DefaultPolicy_valid
    by (simp add: Lease_NewRepository_def lease_DefaultConfig_def validateConfig_def normalizeDuration_def limits_valid_def Let_def)
qed

text \<open>
  What start-up needs from outside: that the client library makes a client for the endpoint and, when
  there is another one, for the public endpoint; that the broker takes the connection, and a second
  one when the first was closed meanwhile, and every declaration of the topology.
\<close>

definition clients_made :: "'c new_client \<Rightarrow> Config \<Rightarrow> bool" where
  "clients_made newCore cfg \<longleftrightarrow>
     \<not> isl (newCore (cf_MinIOEndpoint cfg) (cf_MinIOAccessKey cfg) (cf_MinIOSecretKey cfg) (cf_MinIOSecure cfg) []) \<and>
     (TrimSpace (cf_MinIOPublicEndpoint cfg) \<noteq> [] \<and> TrimSpace (cf_MinIOPublicEndpoint cfg) \<noteq> TrimSpace (cf_MinIOEndpoint cfg) \<longrightarrow>
      \<not> isl (newCore (cf_MinIOPublicEndpoint cfg) (cf_MinIOAccessKey cfg) (cf_MinIOSecretKey cfg) (cf_MinIOPublicSecure cfg) ''us-east-1''))"

definition connects :: "ConnectEnv \<Rightarrow> string \<Rightarrow> duration \<Rightarrow> bool" where
  "connects env url timeout \<longleftrightarrow> cn_Dial env url timeout = Inr () \<and> cn_Channel env = Inr () \<and> cn_Confirm env = Inr ()"

definition broker_answers :: "BrokerEnv \<Rightarrow> Config \<Rightarrow> bool" where
  "broker_answers broker cfg \<longleftrightarrow>
     connects (be_Connect broker) (cf_RabbitMQURL cfg) (cf_ShutdownTimeout cfg) \<and> be_Context broker = Inr () \<and>
     (be_IsClosed broker \<longrightarrow> connects (be_Reconnect broker) (cf_RabbitMQURL cfg) (cf_ShutdownTimeout cfg)) \<and>
     (\<forall>c \<in> set (topology_calls DefaultTopology). be_Declare broker c = Inr ())"

lemma loaded_store:
  assumes "Config_validate split cfg = Inr ()" "bucket \<noteq> []"
  shows "(\<exists>s. NewMinIO newCore (minio_config cfg bucket) = Inr s) \<longleftrightarrow> clients_made newCore cfg"
  using Config_validateD(3,4,5) [OF assms(1)] assms(2)
  by (auto simp: NewMinIO_def minio_config_def clients_made_def bindE_Inr isl_def split: if_splits) (metis sum.exhaust)+

lemma NewPublisher_iff:
  assumes "pc_URL c \<noteq> []" "0 < pc_ConfirmTimeout c" "0 < pc_DialTimeout c" "pc_MaxMessageSize c = 0"
  shows "fst (NewPublisher env c) = Inr p \<longleftrightarrow> connects env (pc_URL c) (pc_DialTimeout c) \<and>
    p = \<lparr>pb_config = c\<lparr>pc_MaxMessageSize := int MaxEnvelopeBytes\<rparr>, pb_connected = True, pb_pending = [], pb_closed = False\<rparr>"
  using assms
  by (cases "cn_Dial env (pc_URL c) (pc_DialTimeout c)"; cases "cn_Channel env"; cases "cn_Confirm env")
    (auto simp: NewPublisher_def publisher_defaults_def PublisherConfig_validate_def connectLocked_def Dial_def connects_def Let_def)

lemma mapE_unit: "(\<exists>us. mapE f xs = Inr us) \<longleftrightarrow> (\<forall>x \<in> set xs. f x = Inr ())"
  by (induction xs) (auto simp: bindE_Inr)

lemma DeclareTopology_iff:
  assumes "pb_connected p" "\<not> pb_closed p" "0 < pc_DialTimeout (pb_config p)"
  shows "fst (DeclareTopology ctx isClosed env channel topology p) = Inr () \<longleftrightarrow> ctx = Inr () \<and>
    (isClosed \<longrightarrow> connects env (pc_URL (pb_config p)) (pc_DialTimeout (pb_config p))) \<and>
    (\<forall>c \<in> set (topology_calls topology). channel c = Inr ())"
proof -
  have "declareTopology channel topology = Inr () \<longleftrightarrow> (\<forall>c \<in> set (topology_calls topology). channel c = Inr ())"
    unfolding mapE_unit [symmetric] by (auto simp: declareTopology_def bindE_Inr)
  then show ?thesis using assms
    by (auto simp: DeclareTopology_def ensureConnected_def resetLocked_def connectLocked_def Dial_def connects_def Let_def
        split: sum.splits if_splits)
qed

lemma loaded_scheduler:
  assumes "Config_validate split cfg = Inr ()"
  shows "(\<exists>rt. newSchedulerRuntime newCore broker cfg = Inr rt) \<longleftrightarrow> clients_made newCore cfg \<and> broker_answers broker cfg"
proof -
  note valid = Config_validateD [OF assms]
  let ?pc = "\<lparr>pc_URL = cf_RabbitMQURL cfg, pc_ConfirmTimeout = cf_ShutdownTimeout cfg, pc_DialTimeout = cf_ShutdownTimeout cfg,
    pc_MaxMessageSize = 0\<rparr>"
  let ?p = "\<lparr>pb_config = ?pc\<lparr>pc_MaxMessageSize := int MaxEnvelopeBytes\<rparr>, pb_connected = True, pb_pending = [], pb_closed = False\<rparr>"
  let ?announce = "DeclareTopology (be_Context broker) (be_IsClosed broker) (be_Reconnect broker) (be_Declare broker) DefaultTopology"
  have limits: "0 < cf_ShutdownTimeout cfg" using valid(1) by (simp add: limits_valid_def)
  note publisher = NewPublisher_iff [of ?pc, simplified, OF valid(8) limits]
  have "Workers_NewRepository (cf_WorkerHeartbeatTTL cfg) = Inr (cf_WorkerHeartbeatTTL cfg)"
    "Scheduler_NewDispatcher (cf_LeaseDuration cfg) = Inr (cf_LeaseDuration cfg)"
    using valid(1) by (simp_all add: Workers_NewRepository_def Scheduler_NewDispatcher_def limits_valid_def)
  moreover have "\<exists>d. NewDispatcher \<lparr>dc_LeaseDuration = 0, dc_RetryBase = 0, dc_MaxAttempts = 0\<rparr> = Inr d" by (simp add: NewDispatcher_def Let_def)
  ultimately have "(\<exists>rt. newSchedulerRuntime newCore broker cfg = Inr rt) \<longleftrightarrow>
      (\<exists>p. fst (NewPublisher (be_Connect broker) ?pc) = Inr p \<and> fst (?announce p) = Inr ()) \<and>
      (\<exists>s. NewMinIO newCore (minio_config cfg (cf_DatasetBucket cfg)) = Inr s)"
    using loaded_lease [OF valid(1)] loaded_multipart [OF assms]
    by (cases "fst (NewPublisher (be_Connect broker) ?pc)") (auto simp: newSchedulerRuntime_def Let_def bindE_Inr case_prod_beta)
  also have "\<dots> \<longleftrightarrow> clients_made newCore cfg \<and> broker_answers broker cfg"
    using loaded_store [OF assms valid(6), of newCore] DeclareTopology_iff [of ?p] limits
    by (auto simp: publisher broker_answers_def)
  finally show ?thesis .
qed

lemma loaded_api:
  assumes "Config_validate split cfg = Inr ()"
  shows "(\<exists>rt. new_api_runtime newCore fl cfg = Inr rt) \<longleftrightarrow> clients_made newCore cfg"
proof -
  note valid = Config_validateD [OF assms]
  have "(\<exists>rt. new_api_runtime newCore fl cfg = Inr rt) \<longleftrightarrow>
      (\<exists>s. NewMinIO newCore (minio_config cfg (cf_DatasetBucket cfg)) = Inr s) \<and>
      (\<exists>s. NewMinIO newCore (minio_config cfg (cf_ArtifactBucket cfg)) = Inr s)"
    using valid(1,2) loaded_multipart [OF assms]
    by (auto simp: new_api_runtime_def NewIdentityService_def Dataset_NewService_def NewAuthRateLimiter_def limits_valid_def bindE_Inr)
  then show ?thesis using loaded_store [OF assms valid(6), of newCore] loaded_store [OF assms valid(7), of newCore] by simp
qed

section \<open>Where secrets and addresses come from\<close>

lemma apply_settings_keeps:
  assumes "apply_settings getenv settings c = Inr c'"
    and "\<And>name s raw upd x. (name, s) \<in> set settings \<Longrightarrow> s raw = Some upd \<Longrightarrow> field (upd x) = field x"
  shows "field c' = field c"
  using assms
proof (induction getenv settings c rule: apply_settings.induct)
  case (2 getenv name s rest c)
  then show ?case by (fastforce split: if_splits option.splits)
qed simp

lemma settings_keep_secrets:
  assumes "(name, s) \<in> set (first_settings dur) \<union> set (second_settings dur)" "s raw = Some upd"
  shows "cf_Environment (upd x) = cf_Environment x" and "cf_JWTSigningKey (upd x) = cf_JWTSigningKey x"
    and "cf_MinIOAccessKey (upd x) = cf_MinIOAccessKey x" and "cf_MinIOSecretKey (upd x) = cf_MinIOSecretKey x"
    and "cf_RabbitMQURL (upd x) = cf_RabbitMQURL x" and "cf_DatabasePassword (upd x) = cf_DatabasePassword x"
    and "cf_MinIOEndpoint (upd x) = cf_MinIOEndpoint x" and "cf_MinIOPublicEndpoint (upd x) = cf_MinIOPublicEndpoint x"
  using assms by (auto simp: first_settings_def second_settings_def int_setting_def duration_setting_def bool_setting_def)

lemma Load_secrets:
  assumes "Load dur split getenv = Inr cfg"
  shows "cf_Environment cfg = cf_Environment (initial_config getenv)" and "cf_JWTSigningKey cfg = cf_JWTSigningKey (initial_config getenv)"
    and "cf_MinIOAccessKey cfg = cf_MinIOAccessKey (initial_config getenv)"
    and "cf_MinIOSecretKey cfg = cf_MinIOSecretKey (initial_config getenv)"
    and "cf_RabbitMQURL cfg = cf_RabbitMQURL (initial_config getenv)"
    and "cf_DatabasePassword cfg = cf_DatabasePassword (initial_config getenv)"
    and "cf_MinIOEndpoint cfg = cf_MinIOEndpoint (initial_config getenv)"
    and "cf_MinIOPublicEndpoint cfg = cf_MinIOPublicEndpoint (initial_config getenv)"
proof -
  obtain port c1 where steps:
    "apply_settings getenv (first_settings dur) ((initial_config getenv)\<lparr>cf_DatabasePort := port\<rparr>) = Inr c1"
    "apply_settings getenv (second_settings dur) (c1\<lparr>cf_MinIOPublicSecure := cf_MinIOSecure c1\<rparr>) = Inr cfg"
    using assms by (auto simp: Load_def result_simps split: option.splits)
  have keeps: "field cfg = field (initial_config getenv)"
    if "\<And>name s raw upd x. (name, s) \<in> set (first_settings dur) \<union> set (second_settings dur) \<Longrightarrow> s raw = Some upd \<Longrightarrow> field (upd x) = field x"
      "\<And>c n. field (c\<lparr>cf_DatabasePort := n\<rparr>) = field c" "\<And>c b. field (c\<lparr>cf_MinIOPublicSecure := b\<rparr>) = field c" for field :: "Config \<Rightarrow> string"
    using apply_settings_keeps [OF steps(1), of field] apply_settings_keeps [OF steps(2), of field] that by (metis UnCI)
  show "cf_Environment cfg = cf_Environment (initial_config getenv)" "cf_JWTSigningKey cfg = cf_JWTSigningKey (initial_config getenv)"
    "cf_MinIOAccessKey cfg = cf_MinIOAccessKey (initial_config getenv)" "cf_MinIOSecretKey cfg = cf_MinIOSecretKey (initial_config getenv)"
    "cf_RabbitMQURL cfg = cf_RabbitMQURL (initial_config getenv)" "cf_DatabasePassword cfg = cf_DatabasePassword (initial_config getenv)"
    "cf_MinIOEndpoint cfg = cf_MinIOEndpoint (initial_config getenv)" "cf_MinIOPublicEndpoint cfg = cf_MinIOPublicEndpoint (initial_config getenv)"
    by (rule keeps; (rule settings_keep_secrets; assumption)?; simp)+
qed

end
