(* ===== verification/PlatformProperties.thy ===== *)
theory PlatformProperties
  imports Startup
begin

text \<open>
  Properties of what the components stand on: the publisher, the object store client, the rate
  limiter and the configuration.
\<close>

section \<open>Samples\<close>

definition sample_connect :: ConnectEnv where
  "sample_connect = \<lparr>cn_Dial = (\<lambda>url timeout. Inr ()), cn_Channel = Inr (), cn_Confirm = Inr ()\<rparr>"

definition sample_publisher :: Publisher where
  "sample_publisher =
    \<lparr>pb_config = \<lparr>pc_URL = ''amqp://broker'', pc_ConfirmTimeout = Second, pc_DialTimeout = Second, pc_MaxMessageSize = int MaxEnvelopeBytes\<rparr>,
     pb_connected = True, pb_pending = [], pb_closed = False\<rparr>"

definition sample_message :: Envelope where
  "sample_message =
    \<lparr>env_MessageID = 7, env_MessageType = MessageJobQueued, env_SchemaVersion = 1, env_OccurredAt = 5, env_TraceID = ''t'',
     env_CorrelationID = ''c'', env_CausationID = ''d'',
     env_Payload = \<lparr>raw_len = 20, raw_value = Some (JObj [(''jobId'', JStr ''j'')])\<rparr>\<rparr>"

text \<open>The first wait times out, the second brings the confirmation.\<close>

definition sample_attempts :: "nat \<Rightarrow> AttemptEnv" where
  "sample_attempts n =
    \<lparr>ae_IsClosed = False, ae_Connect = sample_connect, ae_Publish = Inr (), ae_Wait = (if n = 0 then TimerFired else ConfirmationReceived True)\<rparr>"

lemma sample_new: "NewPublisher sample_connect \<lparr>pc_URL = ''amqp://broker'', pc_ConfirmTimeout = Second, pc_DialTimeout = Second,
    pc_MaxMessageSize = 0\<rparr> = (Inr sample_publisher, [Dialled])"
  by (simp add: NewPublisher_def publisher_defaults_def PublisherConfig_validate_def connectLocked_def Dial_def sample_connect_def
      sample_publisher_def)

lemma sample_message_valid: "Envelope_Validate sample_message = Inr ()"
  by (simp add: Envelope_Validate_def sample_message_def messageTypePattern_def knownMessageTypes_def field_present_def json_field_def
      time_IsZero_def is_alnum_def is_lower_def is_digit_def char_in_def of_char_def)

lemma sample_publish: "Publish (\<lambda>e. 100) sample_attempts EventsExchange MessageJobQueued sample_message sample_publisher =
    (Inr (), sample_publisher, [Sent EventsExchange MessageJobQueued sample_message, Dropped, Dialled,
      Sent EventsExchange MessageJobQueued sample_message, Confirmed sample_message True])"
  by (simp add: Publish_def MarshalEnvelope_def sample_message_valid publish_loop.simps [of _ _ _ _ 0] publish_loop.simps [of _ _ _ _ "Suc 0"]
      ensureConnected_def resetLocked_def connectLocked_def Dial_def waitForConfirmation_def sample_connect_def sample_publisher_def
      sample_attempts_def)

text \<open>A server with three parts.\<close>

definition sample_parts :: "MultipartPart list" where
  "sample_parts =
    [\<lparr>mp_PartNumber = 1, mp_ETag = [CHR 0x22, CHR ''a'', CHR 0x22], mp_Size = 5\<rparr>, \<lparr>mp_PartNumber = 2, mp_ETag = ''b'', mp_Size = 5\<rparr>,
     \<lparr>mp_PartNumber = 4, mp_ETag = ''c'', mp_Size = 2\<rparr>]"

definition sample_s3 :: "unit S3" where
  "sample_s3 =
    \<lparr>s3_PutObject = (\<lambda>c b k r n t. Inr (n, ''e'')), s3_StatObject = (\<lambda>c b k. Inl ''NoSuchKey''), s3_GetObject = (\<lambda>c b k. Inl ''NoSuchKey''),
     s3_ObjectStat = (\<lambda>c b k. Inl ''NoSuchKey''), s3_RemoveObject = (\<lambda>c b k. Inr ()), s3_BucketExists = (\<lambda>c b. Inr True),
     s3_NewMultipartUpload = (\<lambda>c b k t. Inr ''u''), s3_Presign = (\<lambda>c b k d n u. Inr ''url''),
     s3_ListObjectParts = (\<lambda>c b k u marker n. Inr (part_page sample_parts marker n)),
     s3_CompleteMultipartUpload = (\<lambda>c b k u ps t. Inr (12, ''e'')), s3_AbortMultipartUpload = (\<lambda>c b k u. Inr ())\<rparr>"

definition sample_store :: "unit MinIOStore" where
  "sample_store = \<lparr>ms_client = (), ms_presignClient = (), ms_bucket = ''datasets''\<rparr>"

text \<open>An environment outside development.\<close>

definition sample_getenv :: "string \<Rightarrow> string" where
  "sample_getenv name =
    (case map_of
       [(''PIPEFORGE_ENV'', ''production''), (''JWT_SIGNING_KEY'', ''0123456789abcdef0123456789abcdef''), (''MINIO_ENDPOINT'', ''minio:9000''),
        (''MINIO_PUBLIC_ENDPOINT'', ''files:9000''), (''MINIO_ACCESS_KEY'', ''access''), (''MINIO_SECRET_KEY'', ''secret''),
        (''RABBITMQ_URL'', ''amqp://broker''), (''PIPEFORGE_LEASE_DURATION'', ''5m''), (''PIPEFORGE_OUTBOX_BATCH_SIZE'', ''50'')] name of
       Some v \<Rightarrow> v | None \<Rightarrow> [])"

definition sample_dur :: "string \<Rightarrow> duration option" where
  "sample_dur s = (if s = ''5m'' then Some (5 * Minute) else None)"

definition sample_split :: "string \<Rightarrow> (string \<times> string) option" where
  "sample_split s = (if s = '':8080'' then Some ([], ''8080'') else None)"

lemma sample_load: "\<exists>cfg. Load sample_dur sample_split sample_getenv = Inr cfg"
proof -
  have "ParseUint 16 ''5432'' = Some 5432" "ParseUint 16 ''8080'' = Some 8080" "parse_int64 ''50'' = Some 50"
    by (simp_all add: ParseUint_def parse_int64_def is_digit_def char_in_def of_char_def)
  moreover have "list_all (\<lambda>s. TrimSpace s = s) [''minio:9000'', ''files:9000'', ''access'', ''secret'', ''amqp://broker'', ''datasets'',
      ''artifacts'', ''localhost'', ''pipeforge'']" by code_simp
  ultimately show ?thesis
    by (simp add: Load_def sample_getenv_def Config_valueOrDefault_def parseUint16_def first_settings_def second_settings_def initial_config_def
        jwt_signing_key_def in_development_def duration_setting_def int_setting_def bool_setting_def parsePositiveDuration_def sample_dur_def
        parseBoundedInt_def Config_validate_def limits_valid_def sample_split_def Let_def)
qed

section \<open>Publishing\<close>

lemma sample_publisher_reachable: "reachable new_publisher publishing sample_publisher"
  by (rule reachable.start) (auto simp: new_publisher_def intro: sample_new)

text \<open>
  C32. However a publisher was used before, a message counts as published exactly when the broker has
  confirmed it: \<open>Publish\<close> answers no error if and only if a positive confirmation was received, that
  confirmation is for this very message, not for one an earlier call gave up on, and it is the last
  thing that happens. The message then passed the validation and the bound on its size, it was sent
  at most twice, and the connection is kept; no other message is sent. A closed publisher sends
  nothing.
\<close>

theorem publish_confirmed:
  assumes "reachable new_publisher publishing p" "Publish nbytes env exchange routingKey envelope p = (r, p', acts)"
  shows "(r = Inr () \<longleftrightarrow> filter is_confirmed acts = [Confirmed envelope True]) \<and>
    filter is_confirmed acts \<in> {[], [Confirmed envelope False], [Confirmed envelope True]} \<and>
    (\<exists>n \<le> 2. filter is_sent acts = replicate n (Sent exchange routingKey envelope)) \<and>
    (r = Inr () \<longrightarrow> (\<exists>earlier. acts = earlier @ [Sent exchange routingKey envelope, Confirmed envelope True])) \<and>
    (r = Inr () \<longrightarrow> Envelope_Validate envelope = Inr () \<and> int (nbytes envelope) \<le> pc_MaxMessageSize (pb_config p) \<and> pb_connected p') \<and>
    (pb_closed p \<longrightarrow> acts = [] \<and> p' = p \<and> r \<noteq> Inr ())"
  using assms(2)
proof (cases rule: Publish_cases)
  case (rejected err)
  then show ?thesis by (auto intro: exI [of _ 0])
next
  case sent
  then show ?thesis using publish_loop_outcome [OF amqp.reachable_inv [OF assms(1)], of 0 exchange routingKey envelope env]
    by (simp add: publish_outcome_def)
qed

theorem publish_confirmed_witness:
  "fst (Publish (\<lambda>e. 100) sample_attempts EventsExchange MessageJobQueued sample_message sample_publisher) = Inr () \<and>
   (\<exists>earlier. snd (snd (Publish (\<lambda>e. 100) sample_attempts EventsExchange MessageJobQueued sample_message sample_publisher)) =
     earlier @ [Sent EventsExchange MessageJobQueued sample_message, Confirmed sample_message True])"
  using publish_confirmed [OF sample_publisher_reachable sample_publish] by (simp add: sample_publish)

section \<open>Listing the parts of an upload\<close>

text \<open>
  C35. The loop that lists the parts of an upload returns, whatever the object store answers: it goes
  on only to a later marker, and a marker is a 64-bit integer.
\<close>

theorem list_parts_returns:
  assumes "\<And>marker page. s3_ListObjectParts s3 (ms_client s) (ms_bucket s) key uploadID marker 1000 = Inr page \<Longrightarrow>
    lp_NextMarker page < 2 ^ 63"
  shows "\<exists>r. MinIO_ListMultipartParts s3 s key uploadID = Some r"
  unfolding MinIO_ListMultipartParts_def by (rule list_pages_returns) (use assms in \<open>simp add: int64_markers_def\<close>)

theorem list_parts_returns_witness: "\<exists>r. MinIO_ListMultipartParts sample_s3 sample_store ''k'' ''u'' = Some r"
proof (rule list_parts_returns)
  fix marker page
  assume "s3_ListObjectParts sample_s3 (ms_client sample_store) (ms_bucket sample_store) ''k'' ''u'' marker 1000 = Inr page"
  then have "page = part_page sample_parts marker 1000" by (simp add: sample_s3_def)
  then show "lp_NextMarker page < 2 ^ 63" by (simp add: part_page_def sample_parts_def)
qed

lemma sample_holds: "holds_parts sample_s3 sample_store ''k'' ''u'' sample_parts"
  by (simp add: holds_parts_def sample_s3_def sample_parts_def)

text \<open>
  C36. Against a store that answers as the S3 interface documents, in pages of at most 1000 parts, the
  listing is complete: it returns every part of the upload, in order and once, with the quotes of its
  tag removed; and asking for one part returns this part, or the error that it does not exist.
\<close>

theorem list_parts_complete:
  assumes "holds_parts s3 s key uploadID parts" "\<And>p. p \<in> set parts \<Longrightarrow> 0 < mp_PartNumber p"
  shows "MinIO_ListMultipartParts s3 s key uploadID = Some (Inr (map unquoted parts)) \<and>
    (1 \<le> k \<longrightarrow> MinIO_GetMultipartPart s3 s key uploadID k =
      (case find (\<lambda>p. mp_PartNumber p = k) parts of Some p \<Rightarrow> Inr (unquoted p) | None \<Rightarrow> Inl StorageErrMultipartPartNotFound))"
  using listed_parts [OF assms(1)] fetched_part [OF assms(1)] assms(2) by blast

theorem list_parts_complete_witness:
  "MinIO_ListMultipartParts sample_s3 sample_store ''k'' ''u'' = Some (Inr (map unquoted sample_parts)) \<and>
   MinIO_GetMultipartPart sample_s3 sample_store ''k'' ''u'' 3 = Inl StorageErrMultipartPartNotFound"
  using list_parts_complete [OF sample_holds, of 3] by (force simp: sample_parts_def)

section \<open>Rate limiting\<close>

definition sample_limits :: AuthRateLimitConfig where
  "sample_limits = \<lparr>rl_RequestsPerMinute = 60, rl_Burst = 3, rl_MaxClients = 2, rl_EntryTTL = 15 * Minute\<rparr>"

definition sample_limiter :: AuthRateLimiter where
  "sample_limiter = \<lparr>lm_rate = 1, lm_burst = 3, lm_maxClients = 2, lm_entryTTL = 15 * Minute, lm_clients = []\<rparr>"

lemma sample_limiter_reachable: "reachable (new_limiter float64 sample_limits) (limiting float64) sample_limiter"
  using float_laws_int [OF float64_laws, of 60] float_laws_int [OF float64_laws, of 3] float_laws_int [OF float64_laws, of 1]
  by (intro reachable.start) (simp add: new_limiter_def NewAuthRateLimiter_def sample_limits_def sample_limiter_def)

lemma limiter_reachable_inv: "float_laws fl \<Longrightarrow> reachable (new_limiter fl cfg) (limiting fl) l \<Longrightarrow> limiter_inv cfg l"
  using limiter.reachable_inv [of fl cfg l] by simp

text \<open>
  Whatever requests arrive and whatever the clock says, the limiter keeps at most the configured
  number of clients, one bucket each, and every bucket holds between no and the configured burst of
  tokens.
\<close>

theorem rate_limiter_bounded:
  assumes "float_laws fl" "reachable (new_limiter fl cfg) (limiting fl) l"
  shows "int (length (lm_clients l)) \<le> rl_MaxClients cfg" and "distinct (map fst (lm_clients l))"
    and "(client, bucket) \<in> set (lm_clients l) \<Longrightarrow> 0 \<le> bk_tokens bucket \<and> bk_tokens bucket \<le> of_int (rl_Burst cfg)"
  using limiter_reachable_inv [OF assms] by (force simp: limiter_inv_def limiter_ok_def)+

theorem rate_limiter_bounded_witness: "int (length (lm_clients sample_limiter)) \<le> 2"
  using rate_limiter_bounded(1) [OF float64_laws sample_limiter_reachable] by (simp add: sample_limits_def)

text \<open>
  C37. A burst: of the requests a client that is not yet known sends at one instant, exactly the
  configured number is admitted, the first ones, and all others are refused.
\<close>

theorem burst_admitted:
  assumes "float_laws fl" "reachable (new_limiter fl cfg) (limiting fl) l" "client \<notin> fst ` set (lm_clients l)"
  shows "burst_answers fl iter now client n l =
    replicate (min n (nat (rl_Burst cfg))) True @ replicate (n - nat (rl_Burst cfg)) False"
proof (rule burst_answers_new [OF assms(1)])
  note inv = limiter_reachable_inv [OF assms(1,2)]
  show "map_of (lm_clients l) client = None" using assms(3) by (simp add: map_of_eq_None_iff)
  show "lm_burst l = of_nat (nat (rl_Burst cfg))" "1 \<le> nat (rl_Burst cfg)" "nat (rl_Burst cfg) \<le> 10000"
    using inv by (auto simp: limiter_inv_def)
qed

theorem burst_admitted_witness:
  "burst_answers float64 (\<lambda>xs. xs) 0 ''10.0.0.1'' 5 sample_limiter = [True, True, True, False, False]"
  using burst_admitted [OF float64_laws sample_limiter_reachable, of "''10.0.0.1''" "\<lambda>xs. xs" 0 5]
  by (simp add: sample_limiter_def sample_limits_def eval_nat_numeral)

section \<open>Configuration\<close>

definition sample_clients :: "unit new_client" where
  "sample_clients endpoint key secret secure region = Inr ()"

definition sample_broker :: BrokerEnv where
  "sample_broker = \<lparr>be_Connect = sample_connect, be_Context = Inr (), be_IsClosed = False, be_Reconnect = sample_connect, be_Declare = (\<lambda>c. Inr ())\<rparr>"

lemma sample_outside: "clients_made sample_clients cfg" "broker_answers sample_broker cfg"
  by (simp_all add: clients_made_def sample_clients_def broker_answers_def connects_def sample_broker_def sample_connect_def)

text \<open>
  C39. A configuration that loads is one no component refuses. With it the API server is put together
  exactly when the client library makes a client for the endpoint of the object store and, if that is
  another one, for the public endpoint; the scheduler exactly when moreover the broker answers: takes
  the connection, and a second one if the first was closed meanwhile, and every declaration of the
  topology before the context ends. Nothing else can stop either of them. In particular the check of
  the upload limits, which multiplies 64-bit integers, and that of the multipart service, which
  multiplies exactly, agree. The database pool is open.
\<close>

theorem loaded_config_starts:
  assumes "Load dur split getenv = Inr cfg"
  shows "((\<exists>rt. new_api_runtime newCore fl cfg = Inr rt) \<longleftrightarrow> clients_made newCore cfg) \<and>
    ((\<exists>rt. newSchedulerRuntime newCore broker cfg = Inr rt) \<longleftrightarrow> clients_made newCore cfg \<and> broker_answers broker cfg)"
  using loaded_scheduler [OF Load_valid [OF assms], of newCore broker] loaded_api [OF Load_valid [OF assms], of newCore fl] by blast

theorem loaded_config_starts_witness:
  "\<exists>cfg. Load sample_dur sample_split sample_getenv = Inr cfg \<and> (\<exists>rt. newSchedulerRuntime sample_clients sample_broker cfg = Inr rt) \<and>
    (\<exists>rt. new_api_runtime sample_clients float64 cfg = Inr rt) \<and>
    (\<nexists>rt. newSchedulerRuntime sample_clients (sample_broker\<lparr>be_Context := Inl (ErrText ''context canceled'')\<rparr>) cfg = Inr rt)"
proof -
  obtain cfg where cfg: "Load sample_dur sample_split sample_getenv = Inr cfg" using sample_load by blast
  have "\<not> broker_answers (sample_broker\<lparr>be_Context := Inl (ErrText ''context canceled'')\<rparr>) cfg" by (simp add: broker_answers_def)
  then show ?thesis using cfg sample_outside [of cfg] loaded_config_starts [OF cfg, of sample_clients float64 sample_broker]
      loaded_config_starts [OF cfg, of sample_clients float64 "sample_broker\<lparr>be_Context := Inl (ErrText ''context canceled'')\<rparr>"] by blast
qed

text \<open>
  C40. Outside development the signing key, of at least 32 bytes, the addresses and the credentials of
  the object store and the address of the broker, which carries its credentials, are those of the
  environment, and a configuration in which one of them is missing or blank does not load: none of the
  built-in development values is used. The database password is never built in either: it is that of
  the environment, which may be empty. The host, name and user of the database, no secrets, do have
  built-in values.
\<close>

theorem no_builtin_secrets:
  assumes "Load dur split getenv = Inr cfg" "getenv ''PIPEFORGE_ENV'' \<notin> {[], ''development''}"
  shows "cf_JWTSigningKey cfg = getenv ''JWT_SIGNING_KEY'' \<and> 32 \<le> length (getenv ''JWT_SIGNING_KEY'') \<and>
    cf_MinIOEndpoint cfg = getenv ''MINIO_ENDPOINT'' \<and> TrimSpace (getenv ''MINIO_ENDPOINT'') \<noteq> [] \<and>
    cf_MinIOPublicEndpoint cfg = getenv ''MINIO_PUBLIC_ENDPOINT'' \<and> TrimSpace (getenv ''MINIO_PUBLIC_ENDPOINT'') \<noteq> [] \<and>
    cf_MinIOAccessKey cfg = getenv ''MINIO_ACCESS_KEY'' \<and> TrimSpace (getenv ''MINIO_ACCESS_KEY'') \<noteq> [] \<and>
    cf_MinIOSecretKey cfg = getenv ''MINIO_SECRET_KEY'' \<and> TrimSpace (getenv ''MINIO_SECRET_KEY'') \<noteq> [] \<and>
    cf_RabbitMQURL cfg = getenv ''RABBITMQ_URL'' \<and> TrimSpace (getenv ''RABBITMQ_URL'') \<noteq> [] \<and>
    cf_DatabasePassword cfg = getenv ''POSTGRES_PASSWORD''"
  using Load_secrets [OF assms(1)] Config_validateD [OF Load_valid [OF assms(1)]] assms(2)
  by (simp add: initial_config_def jwt_signing_key_def in_development_def Config_valueOrDefault_def Let_def)

theorem no_builtin_secrets_witness:
  "\<exists>cfg. Load sample_dur sample_split sample_getenv = Inr cfg \<and> cf_MinIOSecretKey cfg = ''secret''"
  using sample_load no_builtin_secrets [of sample_dur sample_split sample_getenv] by (fastforce simp: sample_getenv_def)

end
