(* ===== verification/Migrations.thy ===== *)
theory Migrations
  imports Credentials
begin

text \<open>
  Schema migrations (\<open>internal/platform/migrations/migrator.go\<close>). The embedded files are given as
  their names and texts, \<open>None\<close> for a directory; \<open>exec\<close> is what the database makes of a text. Each
  migration is one transaction under a lock that migrators share.
\<close>

section \<open>Loading\<close>

record Migration =
  mig_Version :: nat
  mig_Name :: string
  mig_SQL :: string

text \<open>The pattern \<open>^(\d{6})_([a-z0-9_]+)\.sql$\<close>; the digits of a match.\<close>

definition migration_name :: "string \<Rightarrow> string option" where
  "migration_name name =
    (let digits = take 6 name; rest = drop 7 name; base = take (length rest - 4) rest
     in if length digits = 6 \<and> list_all is_digit digits \<and> take 1 (drop 6 name) = ''_'' \<and> 4 < length rest \<and>
          drop (length rest - 4) rest = ''.sql'' \<and> list_all (\<lambda>c. is_lower c \<or> is_digit c \<or> c = CHR ''_'') base
        then Some digits else None)"

fun load_loop :: "(string \<times> string option) list \<Rightarrow> Migration list result" where
  "load_loop [] = Inr []"
| "load_loop ((name, None) # rest) = load_loop rest"
| "load_loop ((name, Some sql) # rest) =
    (case migration_name name of
       None \<Rightarrow> Inl (ErrText ''migration filename must match NNNNNN_name.sql'')
     | Some digits \<Rightarrow>
         (case ParseUint 64 digits of
            None \<Rightarrow> Inl (ErrText ''migration filename has invalid version'')
          | Some version \<Rightarrow>
              if version = 0 then Inl (ErrText ''migration filename has invalid version'')
              else bindE (load_loop rest) (\<lambda>loaded. Inr (\<lparr>mig_Version = version, mig_Name = name, mig_SQL = sql\<rparr> # loaded))))"

text \<open>
  \<open>sort.Slice\<close> by version; with versions that all differ, as is checked next, there is one sorted
  list.
\<close>

definition Migrations_Load :: "(string \<times> string option) list \<Rightarrow> Migration list result" where
  "Migrations_Load files =
    bindE (load_loop files) (\<lambda>loaded.
    let sorted = sort_key mig_Version loaded
    in if list_ex (\<lambda>(a, b). mig_Version a = mig_Version b) (zip sorted (tl sorted)) then Inl (ErrText ''duplicate migration version'')
       else Inr sorted)"

section \<open>Applying\<close>

text \<open>The table \<open>schema_migrations\<close> as the applied versions with their names, empty before the first
  run creates it, and the schema itself.\<close>

record 's SchemaDB =
  sd_applied :: "(nat \<times> string) list"
  sd_schema :: 's

definition applyOne :: "(string \<Rightarrow> 's \<Rightarrow> 's result) \<Rightarrow> Migration \<Rightarrow> 's SchemaDB \<Rightarrow> 's SchemaDB result" where
  "applyOne exec m db =
    (if mig_Version m \<in> fst ` set (sd_applied db) then Inr db
     else bindE (exec (TrimSpace (mig_SQL m)) (sd_schema db)) (\<lambda>schema.
       Inr (db\<lparr>sd_schema := schema, sd_applied := sd_applied db @ [(mig_Version m, mig_Name m)]\<rparr>)))"

text \<open>The loop commits each migration, so an error leaves those before it applied.\<close>

fun apply_loop :: "(string \<Rightarrow> 's \<Rightarrow> 's result) \<Rightarrow> Migration list \<Rightarrow> 's SchemaDB \<Rightarrow> unit result \<times> 's SchemaDB" where
  "apply_loop exec [] db = (Inr (), db)"
| "apply_loop exec (m # ms) db =
    (case applyOne exec m db of Inl e \<Rightarrow> (Inl e, db) | Inr db' \<Rightarrow> apply_loop exec ms db')"

definition Migrations_Apply ::
  "(string \<Rightarrow> 's \<Rightarrow> 's result) \<Rightarrow> (string \<times> string option) list \<Rightarrow> 's SchemaDB \<Rightarrow> unit result \<times> 's SchemaDB" where
  "Migrations_Apply exec files db =
    (case Migrations_Load files of Inl e \<Rightarrow> (Inl e, db) | Inr loaded \<Rightarrow> apply_loop exec loaded db)"

section \<open>What is applied\<close>

lemma Migrations_Load_sorted:
  assumes "Migrations_Load files = Inr ms"
  shows "sorted_wrt (<) (map mig_Version ms)"
proof -
  obtain loaded where ms: "ms = sort_key mig_Version loaded"
    and distinct: "\<not> list_ex (\<lambda>(a, b). mig_Version a = mig_Version b) (zip ms (tl ms))"
    using assms by (auto simp: Migrations_Load_def Let_def result_simps)
  have sorted: "sorted (map mig_Version ms)" using ms by simp
  show ?thesis using sorted distinct
  proof (induction ms)
    case (Cons m ms)
    show ?case
    proof (cases ms)
      case next_one: (Cons y ys)
      then have "mig_Version m < mig_Version y" using Cons.prems next_one by simp
      moreover have "sorted_wrt (<) (map mig_Version ms)" using Cons.IH Cons.prems next_one by simp
      ultimately show ?thesis using next_one by auto
    qed simp
  qed simp
qed

text \<open>Every version that is applied stays applied, and a pass over the migrations applies all of them in order.\<close>

lemma applyOne_grows:
  assumes "applyOne exec m db = Inr db'"
  shows "\<exists>new. sd_applied db' = sd_applied db @ new" and "mig_Version m \<in> fst ` set (sd_applied db')"
  using assms by (auto simp: applyOne_def result_simps split: if_splits)

lemma apply_loop_grows: "apply_loop exec ms db = (r, db') \<Longrightarrow> \<exists>new. sd_applied db' = sd_applied db @ new"
proof (induction ms arbitrary: db)
  case (Cons m ms)
  then show ?case using applyOne_grows(1) by (fastforce split: sum.splits)
qed simp

lemma apply_loop_all:
  "apply_loop exec ms db = (Inr (), db') \<Longrightarrow> m \<in> set ms \<Longrightarrow> mig_Version m \<in> fst ` set (sd_applied db')"
proof (induction ms arbitrary: db)
  case (Cons x ms)
  then obtain db1 where step: "applyOne exec x db = Inr db1" "apply_loop exec ms db1 = (Inr (), db')" by (auto split: sum.splits)
  obtain new where "sd_applied db' = sd_applied db1 @ new" using apply_loop_grows [OF step(2)] by blast
  then have "mig_Version x \<in> fst ` set (sd_applied db')" using applyOne_grows(2) [OF step(1)] by auto
  then show ?case using Cons.IH [OF step(2)] Cons.prems(2) by auto
qed simp

lemma apply_loop_idle: "(\<And>m. m \<in> set ms \<Longrightarrow> mig_Version m \<in> fst ` set (sd_applied db)) \<Longrightarrow> apply_loop exec ms db = (Inr (), db)"
  by (induction ms) (simp_all add: applyOne_def)

text \<open>The versions a pass adds are in the order of the migrations, and none is added twice.\<close>

lemma apply_loop_order:
  assumes "apply_loop exec ms db = (r, db')" "sorted_wrt (<) (map mig_Version ms)"
  shows "\<exists>new. sd_applied db' = sd_applied db @ new \<and> sorted_wrt (<) (map fst new) \<and> set (map fst new) \<subseteq> set (map mig_Version ms) \<and>
    set (map fst new) \<inter> fst ` set (sd_applied db) = {}"
  using assms
proof (induction ms arbitrary: db)
  case (Cons m ms)
  show ?case
  proof (cases "applyOne exec m db")
    case (Inl e)
    then show ?thesis using Cons.prems(1) by auto
  next
    case (Inr db1)
    then have "apply_loop exec ms db1 = (r, db')" using Cons.prems(1) by simp
    then obtain new where new: "sd_applied db' = sd_applied db1 @ new" "sorted_wrt (<) (map fst new)"
      "set (map fst new) \<subseteq> set (map mig_Version ms)" "set (map fst new) \<inter> fst ` set (sd_applied db1) = {}"
      using Cons.IH [of db1] Cons.prems(2) by auto
    show ?thesis
    proof (cases "mig_Version m \<in> fst ` set (sd_applied db)")
      case True
      then show ?thesis using Inr new by (auto simp: applyOne_def)
    next
      case False
      then have "sd_applied db1 = sd_applied db @ [(mig_Version m, mig_Name m)]" using Inr by (auto simp: applyOne_def result_simps)
      then show ?thesis using new False Cons.prems(2) by (intro exI [of _ "(mig_Version m, mig_Name m) # new"]) auto
    qed
  qed
qed simp

lemma Migrations_Apply_loaded:
  "Migrations_Load files = Inr ms \<Longrightarrow> Migrations_Apply exec files db = apply_loop exec ms db"
  by (simp add: Migrations_Apply_def)

text \<open>
  C38. A migration run applies what the files hold, once and in the order of the versions. Whether or
  not it succeeds, the versions it records come after those recorded before, in ascending order, and
  none is among those recorded before. When it succeeds every version of the files is recorded, and a
  further run, of this process or of another one, executes nothing.
\<close>

theorem migrations_applied_once:
  assumes "Migrations_Load files = Inr ms" "Migrations_Apply exec files db = (r, db')"
  shows "(\<exists>new. sd_applied db' = sd_applied db @ new \<and> sorted_wrt (<) (map fst new) \<and>
      set (map fst new) \<subseteq> set (map mig_Version ms) - fst ` set (sd_applied db)) \<and>
    (r = Inr () \<longrightarrow> set (map mig_Version ms) \<subseteq> fst ` set (sd_applied db') \<and> (\<forall>exec'. Migrations_Apply exec' files db' = (Inr (), db')))"
proof (rule conjI; (rule impI)?)
  have run: "apply_loop exec ms db = (r, db')" using assms by (simp add: Migrations_Apply_loaded)
  show "\<exists>new. sd_applied db' = sd_applied db @ new \<and> sorted_wrt (<) (map fst new) \<and>
      set (map fst new) \<subseteq> set (map mig_Version ms) - fst ` set (sd_applied db)"
    using apply_loop_order [OF run Migrations_Load_sorted [OF assms(1)]] by blast
  assume "r = Inr ()"
  then have all: "mig_Version m \<in> fst ` set (sd_applied db')" if "m \<in> set ms" for m using apply_loop_all run that by blast
  then show "set (map mig_Version ms) \<subseteq> fst ` set (sd_applied db') \<and> (\<forall>exec'. Migrations_Apply exec' files db' = (Inr (), db'))"
    using assms(1) by (auto simp: Migrations_Apply_loaded apply_loop_idle)
qed

text \<open>Two files in the wrong order beside a directory, on a database that counts the texts it executes.\<close>

definition sample_files :: "(string \<times> string option) list" where
  "sample_files = [(''000002_b.sql'', Some ''B''), (''docs'', None), (''000001_a.sql'', Some ''A'')]"

definition sample_exec :: "string \<Rightarrow> nat \<Rightarrow> nat result" where
  "sample_exec sql executed = Inr (executed + 1)"

lemma sample_files_load:
  "Migrations_Load sample_files =
    Inr [\<lparr>mig_Version = 1, mig_Name = ''000001_a.sql'', mig_SQL = ''A''\<rparr>, \<lparr>mig_Version = 2, mig_Name = ''000002_b.sql'', mig_SQL = ''B''\<rparr>]"
  by (simp add: Migrations_Load_def sample_files_def migration_name_def ParseUint_def is_digit_def is_lower_def char_in_def of_char_def)

lemma sample_files_apply:
  "Migrations_Apply sample_exec sample_files \<lparr>sd_applied = [], sd_schema = 0\<rparr> =
    (Inr (), \<lparr>sd_applied = [(1, ''000001_a.sql''), (2, ''000002_b.sql'')], sd_schema = 2\<rparr>)"
  by (simp add: Migrations_Apply_loaded [OF sample_files_load] applyOne_def sample_exec_def)

theorem migrations_applied_once_witness:
  "Migrations_Apply sample_exec sample_files \<lparr>sd_applied = [(1, ''000001_a.sql''), (2, ''000002_b.sql'')], sd_schema = 2\<rparr> =
    (Inr (), \<lparr>sd_applied = [(1, ''000001_a.sql''), (2, ''000002_b.sql'')], sd_schema = 2\<rparr>)"
  using migrations_applied_once [OF sample_files_load sample_files_apply] by simp

end
