(* ===== verification/Spec2Isabelle.thy ===== *)
theory Spec2Isabelle
  imports Samples JobProperties ResultProperties LeaseProperties SchedulerProperties MessagingProperties StorageProperties
    IdentityProperties ApiProperties PlatformProperties Migrations
begin

text \<open>
  A verification development for the control plane of PipeForge, the Go code under
  \<^verbatim>\<open>src/go\<close>.

  \<^bold>\<open>The program.\<close> Users upload files as versions of their datasets, in one request
  (\<^verbatim>\<open>internal/dataset\<close>, \<^verbatim>\<open>internal/upload\<close>) or in parts that go to the object store directly
  (\<^verbatim>\<open>internal/multipart\<close>), keep quality rules for them (\<^verbatim>\<open>internal/quality\<close>), and create
  processing jobs over published versions (\<^verbatim>\<open>internal/job\<close>). A scheduler
  (\<^verbatim>\<open>internal/scheduler\<close>, \<^verbatim>\<open>cmd/scheduler\<close>) selects queued jobs
  fairly among their owners and acquires a lease for each (\<^verbatim>\<open>internal/lease\<close>) on a worker that the
  registry (\<^verbatim>\<open>internal/workerregistry\<close>) considers live and able. Commands leave through a
  transactional outbox (\<^verbatim>\<open>internal/outbox\<close>) as envelopes (\<^verbatim>\<open>internal/queue\<close>). Workers answer with
  events that a consumer applies once each (\<^verbatim>\<open>internal/result\<close>); expired leases are swept;
  failures are retried after the delays of a policy (\<^verbatim>\<open>internal/retry\<close>) until the job is
  dead-lettered (\<^verbatim>\<open>internal/dlq\<close>). Users, sessions and
  API keys are kept by \<^verbatim>\<open>internal/identity\<close> with the secrets of \<^verbatim>\<open>internal/auth\<close>; scopes and
  ownership are decided by \<^verbatim>\<open>internal/authz\<close>. Users reach all of this through an HTTP API
  (\<^verbatim>\<open>internal/httpapi\<close>); messages leave through a publisher for RabbitMQ (\<^verbatim>\<open>internal/queue/rabbitmq.go\<close>),
  objects through a client of the S3 interface (\<^verbatim>\<open>internal/storage\<close>). The processes read their
  configuration from the environment and migrate the schema (\<^verbatim>\<open>internal/platform\<close>).

  \<^bold>\<open>How it is modelled.\<close> A repository method is one transaction: a function from the database,
  a record of tables (\<open>DB\<close> in Schema), to an error or a result with the new database. An error
  leaves the database as it was, as the rollback does. A service operation of several
  transactions, such as a completion, returns its result together with the database it leaves,
  also when it fails. The context of the request is an argument of such an operation (\<open>Context\<close> in
  Prelude): it says for each repository call whether it takes place or fails because the client went
  away, so the error returns behind an earlier commit are branches of the model. SQL statements are functions on the
  tables with the keys, conflicts and checks of the migrations. The clock, fresh identifiers,
  random numbers, the outbox writer, the worker selector and what the object store answers to each
  call are arguments, as they are
  dependencies in the code; the standard library's JSON codec, UUID texts and SHA-256 are the
  fields of a record \<open>Runtime\<close>, Argon2, SHA-256, the JWT library and the address parser those of its
  extension \<open>Libraries\<close>, and a theorem that needs a law about them states it. Durations
  and sizes are 64-bit where the code computes with them; identifiers and instants are integers.

  \<^item> Prelude: errors, results, row operations on tables, string functions of Go.
  \<^item> Authz, Retry, Envelope, Decode, JobValidation, Uploads: the pure parts (\<^verbatim>\<open>authz/policy.go\<close>,
    \<^verbatim>\<open>retry/policy.go\<close>, \<^verbatim>\<open>queue/envelope.go\<close>, strict decoding, \<^verbatim>\<open>job/validation*.go\<close>,
    \<^verbatim>\<open>upload/validation.go\<close>).
  \<^item> Schema: states, tables and the state machine of \<^verbatim>\<open>job/models.go\<close>.
  \<^item> Lifecycle: the abstract job machine \<open>lifecycle\<close> on the states of a job and its attempts, the
    invariant \<open>consistent\<close> of the job tables, and \<open>change\<close>, the shape of a step that keeps it and
    refines the machine.
  \<^item> Outbox, Datasets, Multipart, Quality, Jobs, Workers, Leases, Events, Results, Scheduler, Dlq: one
    component each, with the operations of the Go files named at their definitions. Locales state what one
    component relies on in another: an outbox store for the dispatcher, an enqueuer that touches
    only the outbox for every repository, a worker selector for the leases, a lease acquirer for
    the scheduler; each is interpreted on the component that provides it.
  \<^item> Transition: reachable states, and the locales for invariants and simulations of a step relation.
  \<^item> Storage: the transactions on datasets, uploads and rules as the step relation \<open>storage\<close>, the machines
    \<open>version_change\<close> and \<open>session_next\<close> of single versions and sessions, and the invariant \<open>storage_ok\<close>.
  \<^item> StorageServices, Completion: the operations of the services are runs of \<open>storage\<close>, whatever the
    object store answers, and what a completion and a failed upload leave.
  \<^item> System: the transactions of all components as the step relation \<open>plane\<close>, an instance of the
    locales of Transition.
  \<^item> Inputs: the transactions on jobs leave what jobs read alone, so the invariants of storage and jobs
    hold together.
  \<^item> Mail: what every step of \<open>plane\<close> leaves of the inbox and the outbox, so that processed messages stay
    recorded, published ones stay published, and a claim ends only in the two ways of \<open>claim_ends\<close>.
  \<^item> Credentials: password hashes with base64 and their text form, opaque tokens, API keys, access tokens
    (\<^verbatim>\<open>auth/password.go\<close>, \<^verbatim>\<open>opaque.go\<close>, \<^verbatim>\<open>jwt.go\<close>).
  \<^item> Identity: the tables of users, sessions, keys and audit events with a database \<open>IdentityDB\<close> of their own, the
    repository and the service (\<^verbatim>\<open>identity\<close>).
  \<^item> Accounts: its transactions as the step relation \<open>identity\<close>, the life of sessions, users and keys, the
    invariant \<open>accounts_ok\<close>, and the operations of the service as runs.
  \<^item> Minio, Publisher: the clients of the object store and of the broker (\<^verbatim>\<open>storage/minio.go\<close>,
    \<^verbatim>\<open>queue/rabbitmq.go\<close>, \<^verbatim>\<open>confirm.go\<close>, \<^verbatim>\<open>topology.go\<close>). What the libraries answer is an argument of each
    call; the publisher also returns what it did to the broker, and the calls on it are a step relation
    with an invariant on the confirmations that are still to be read.
  \<^item> RateLimit: the token buckets in front of the credential routes (\<^verbatim>\<open>httpapi/auth-rate-limit.go\<close>), over
    rational numbers and a rounding whose laws are shown for \<open>float64\<close>.
  \<^item> Config, Startup, Migrations: the configuration (\<^verbatim>\<open>platform/config\<close>), the construction of scheduler and API
    server from it (\<^verbatim>\<open>cmd/scheduler/scheduler_runtime.go\<close>, \<^verbatim>\<open>cmd/api/main.go\<close>), and the migrator with its property
    (\<^verbatim>\<open>platform/migrations\<close>).
  \<^item> Http, Api: requests, middlewares, parameters and the problem each error becomes; the handlers on the
    services, and the table of routes (\<^verbatim>\<open>httpapi\<close>, \<^verbatim>\<open>observability/request_id.go\<close>). The state of the server is the
    identity tables, the other tables and the limiter.
  \<^item> Samples: a concrete runtime, a worker, a job in each stage; the witnesses run on them.
  \<^item> JobProperties, ResultProperties, LeaseProperties, SchedulerProperties, MessagingProperties,
    StorageProperties, IdentityProperties, ApiProperties, PlatformProperties and this theory: the properties.

  \<^bold>\<open>What is shown.\<close> For every reachable state: consistency of the job tables and of the storage, exact
  quotas, a history that follows the state machine, at most one open attempt. For every run: refinement
  of the job machine, stability of terminal states, and that a job keeps the published version it
  reads; a message processed once is a duplicate in every later state, and a claimed outbox message
  belongs to its claimer until it is marked or its lease ends. For single operations: idempotent
  creation, fencing of stale workers and of stale completions, leases only for live and able workers within
  their capacity, live renewal, deliveries settled by one call, completeness of the sweep, behaviour of cancel, retry and failure by state, monotone
  progress, ownership, canonical fingerprints, verified content of what an upload publishes, exactly what
  is left of one that fails (nothing, unless the context of the request ended: then a version in the state
  \<open>UPLOADING\<close>, or a published version whose session is not yet marked), registered parts that are read back.
  For identity: consistent tables in every reachable state, refresh tokens that work once, sessions and keys
  that end for good, keys without more rights than were granted, logins decided by the password and the
  account. For the API: no route but the open ones without credentials that identity accepts, the handler
  run with exactly the principal identity made, and nothing half done behind a refused request. For the platform: a message counts as published exactly when the
  broker confirmed it, listings of parts that end and are complete, exact bursts at the limiter,
  configurations that every component accepts, so that only the client library or the broker can stop the
  start, and whose secrets and addresses of store and broker are those of the environment outside development,
  migrations that are applied once and in order. Further theorems show where the code errs or differs
  from its documents: a remote upload that no cleanup finds, rules on row counts that cannot be created,
  a malformed identifier answered as an error of the server, and lists that report page zero.

  \<^bold>\<open>Bounds.\<close> The recursion of every loop is structural or has a measure, so there is no fuel, but for the
  listing of parts, whose end depends on the answers of the object store: it is a partial function, and
  that it returns is a property. The
  main loop of the scheduler runs over a list of inputs, any finite prefix of what it receives.

  \<^bold>\<open>Not modelled.\<close> The rounding of instants to microseconds by the database, locks that skip
  rows of concurrent transactions, transactions of others between those of one service operation (the
  step relations do interleave the transactions themselves), failures of the connection other than a
  transaction that does not take place (a commit whose outcome the client does not learn, an inbox insert
  the database refuses), the saturation of differences of instants in the limiter, the checks that a service was constructed with its dependencies, and a second reading
  of the clock within one operation. The matching of paths, the metrics, the recovery from panics, the pool of
  database connections, the command line client and the loops that receive deliveries are I/O of libraries; the Python
  worker and the web client are written in other languages. No operation of the code disables
  an account; the step relation \<open>identity\<close> has that change of the table as a step.
\<close>

section \<open>The whole control plane\<close>

text \<open>
  C1. In every state the control plane can reach from one without jobs, by any interleaving of
  its transactions, the job tables are consistent: keys are unique, the attempts of a job are
  numbered without gaps, only the last one may be open and agrees with the state of the job,
  the history is a path of allowed transitions, and the quota counters are exact.
\<close>

theorem reachable_consistent: "reachable no_jobs (plane rt) db \<Longrightarrow> consistent db"
  by (rule control_plane.reachable_inv)

theorem reachable_consistent_witness:
  "consistent sample_created"
  by (rule reachable_consistent [OF sample_created_reachable])

text \<open>
  C2. Every run of the control plane refines the abstract job machine: seen as the states of
  the jobs and their attempts, it is a sequence of births of queued jobs and of steps of
  \<open>lifecycle\<close>, each on one job.
\<close>

theorem run_refines_lifecycle:
  "(plane rt)\<^sup>*\<^sup>* db db' \<Longrightarrow> consistent db \<Longrightarrow> refines\<^sup>*\<^sup>* (life_of db) (life_of db')"
  by (rule control_plane.run)

theorem run_refines_lifecycle_witness:
  "refines\<^sup>*\<^sup>* (life_of sample_base) (life_of sample_created)"
  by (rule run_refines_lifecycle [OF r_into_rtranclp [of "plane sample_runtime", OF sample_create_step]
        no_jobs_consistent [OF sample_base_no_jobs]])

text \<open>
  C3. A job in a terminal state keeps it, and its attempts keep their states, whatever the
  control plane does afterwards.
\<close>

theorem terminal_jobs_stay:
  assumes "(plane rt)\<^sup>*\<^sup>* db db'" "consistent db" "find_job k db = Some j" "IsTerminal (state_text (j_state j))"
  shows "\<exists>j'. find_job k db' = Some j' \<and> j_state j' = j_state j \<and>
    map a_state (attempts_of k db') = map a_state (attempts_of k db)"
proof -
  have life: "life_of db k = Some (j_state j, map a_state (attempts_of k db))"
    using assms(3) by (simp add: life_of_def)
  from refines_run_job [OF control_plane.run [OF assms(1,2)] life] obtain l'
    where l': "life_of db' k = Some l'" "lifecycle\<^sup>*\<^sup>* (j_state j, map a_state (attempts_of k db)) l'"
    by blast
  have "j_state j = Succeeded \<or> j_state j = Cancelled"
    using assms(4) by (cases "j_state j") (simp_all add: IsTerminal_def)
  then have "l' = (j_state j, map a_state (attempts_of k db))"
    using lifecycle_run_final [OF l'(2)] by simp
  then show ?thesis using l'(1) by (auto simp: life_of_def)
qed

theorem terminal_jobs_stay_witness:
  "\<exists>j'. find_job 31 (committed (DeleteDataset 2000 11 7 sample_done)) = Some j' \<and> j_state j' = j_state (sample_job Succeeded) \<and>
    map a_state (attempts_of 31 (committed (DeleteDataset 2000 11 7 sample_done))) = map a_state (attempts_of 31 sample_done)"
proof (rule terminal_jobs_stay [of sample_runtime])
  have "\<not> isl (DeleteDataset 2000 11 7 sample_done)" by code_simp
  from committed_Inr [OF this] show "(plane sample_runtime)\<^sup>*\<^sup>* sample_done (committed (DeleteDataset 2000 11 7 sample_done))"
    by (intro r_into_rtranclp plane.store storage.delete_dataset)
  show "find_job 31 sample_done = Some (sample_job Succeeded)"
    by (simp add: find_job_def row_find_def sample_done_def sample_defs)
qed (simp_all add: samples_consistent IsTerminal_def sample_defs)

lemma hist_path_entry:
  "hist_path prev hs s \<Longrightarrow> h \<in> set hs \<Longrightarrow>
     case h_from h of None \<Rightarrow> h_to h = Queued | Some t \<Rightarrow> transition_ok t (h_to h)"
  by (induction hs arbitrary: prev) auto

lemma hist_path_last: "hist_path prev hs s \<Longrightarrow> hs \<noteq> [] \<Longrightarrow> h_to (last hs) = s"
proof (induction hs arbitrary: prev)
  case (Cons h hs)
  then show ?case by (cases "hs = []") auto
qed simp

lemma hist_path_first: "hist_path None hs s \<Longrightarrow> hs \<noteq> [] \<and> h_from (hd hs) = None"
  by (cases hs) auto

text \<open>
  In a reachable state the history of a job starts in \<open>QUEUED\<close>, every entry is a
  transition the state machine of the models accepts, and the last one leads to the state the
  job is in.
\<close>

theorem history_follows_machine:
  assumes "reachable no_jobs (plane rt) db" "j \<in> set (db_jobs db)"
  shows "history_of (j_id j) db \<noteq> [] \<and> h_from (hd (history_of (j_id j) db)) = None \<and>
    h_to (last (history_of (j_id j) db)) = j_state j \<and>
    (\<forall>h \<in> set (history_of (j_id j) db).
       case h_from h of None \<Rightarrow> h_to h = Queued
       | Some s \<Rightarrow> ValidateTransition (state_text s) (state_text (h_to h)) = Inr ())"
proof -
  have "hist_path None (history_of (j_id j) db) (j_state j)"
    using consistentD(6) [OF control_plane.reachable_inv [OF assms(1)] assms(2)] by (simp add: job_ok_def)
  note path = hist_path_first [OF this] hist_path_last [OF this] hist_path_entry [OF this]
  show ?thesis
    using path(1,2) path(3) by (fastforce simp: transition_ok_def split: option.splits)
qed

theorem history_follows_machine_witness:
  "\<exists>j \<in> set (db_jobs sample_created). history_of (j_id j) sample_created \<noteq> [] \<and>
     h_to (last (history_of (j_id j) sample_created)) = j_state j"
proof -
  have "db_jobs sample_created \<noteq> []" by code_simp
  then have "hd (db_jobs sample_created) \<in> set (db_jobs sample_created)" by simp
  then show ?thesis using history_follows_machine [OF sample_created_reachable] by blast
qed

text \<open>
  In a reachable state the counters of an owner say exactly how many of its jobs are
  queued and how many hold a lease, whatever combination of creation, lease, retry, expiry,
  cancellation and result led there; an owner without a row has none of either.
\<close>

theorem quota_counts_jobs:
  assumes "reachable no_jobs (plane rt) db"
  shows "case row_find q_owner owner (db_quotas db) of
      Some q \<Rightarrow> q_queued q = count_rows (\<lambda>j. j_owner j = owner \<and> j_state j = Queued) (db_jobs db) \<and>
        q_active q = count_rows (\<lambda>j. j_owner j = owner \<and>
          (j_state j = Leased \<or> j_state j = Running \<or> j_state j = CancelRequested)) (db_jobs db)
    | None \<Rightarrow> \<forall>j \<in> set (db_jobs db). j_owner j = owner \<longrightarrow>
        j_state j \<notin> {Queued, Leased, Running, CancelRequested}"
proof -
  have exact: "queued_of owner db = queued_jobs owner db" "active_of owner db = active_jobs owner db"
    using consistentD(8) [OF control_plane.reachable_inv [OF assms]] by (simp_all add: quota_exact_def)
  show ?thesis
  proof (cases "row_find q_owner owner (db_quotas db)")
    case None
    then have "queued_jobs owner db = 0" "active_jobs owner db = 0"
      using exact by (simp_all add: queued_of_def active_of_def)
    then show ?thesis using None
      by (auto simp: queued_jobs_def active_jobs_def count_rows_def filter_empty_conv is_active_def)
  qed (use exact in \<open>simp add: queued_of_def active_of_def queued_jobs_def active_jobs_def is_active_def\<close>)
qed

theorem quota_counts_jobs_witness:
  "case row_find q_owner 7 (db_quotas sample_created) of
      Some q \<Rightarrow> q_queued q = count_rows (\<lambda>j. j_owner j = 7 \<and> j_state j = Queued) (db_jobs sample_created) \<and>
        q_active q = count_rows (\<lambda>j. j_owner j = 7 \<and>
          (j_state j = Leased \<or> j_state j = Running \<or> j_state j = CancelRequested)) (db_jobs sample_created)
    | None \<Rightarrow> \<forall>j \<in> set (db_jobs sample_created). j_owner j = 7 \<longrightarrow>
        j_state j \<notin> {Queued, Leased, Running, CancelRequested}"
  by (rule quota_counts_jobs [OF sample_created_reachable])

text \<open>
  In a reachable state a job has at most one attempt that is created, leased or running: a
  retry is never scheduled while an earlier attempt may still report a result. A leased or
  running attempt carries its lease, its worker and an expiry.
\<close>

theorem one_open_attempt:
  assumes "reachable no_jobs (plane rt) db" "a \<in> set (db_attempts db)" "b \<in> set (db_attempts db)" "a_job a = a_job b"
    "a_state a \<in> {ACreated, ALeased, ARunning}" "a_state b \<in> {ACreated, ALeased, ARunning}"
  shows "a = b \<and> (a_state a \<noteq> ACreated \<longrightarrow> a_lease a \<noteq> None \<and> a_worker a \<noteq> None \<and> a_expires a \<noteq> None)"
proof -
  have con: "consistent db" by (rule control_plane.reachable_inv [OF assms(1)])
  obtain j where j: "j \<in> set (db_jobs db)" "j_id j = a_job a"
    using consistentD(4) [OF con assms(2)] by auto
  obtain xs c where atts: "attempts_of (j_id j) db = xs @ [c]" and lease: "held (a_state c) \<Longrightarrow> has_lease c"
    by (rule consistent_job [OF con j(1)]) blast
  have "is_open (a_state a)" "is_open (a_state b)" using assms(5,6) by auto
  then have "a = c" "b = c"
    using open_attempt_last [OF con j(1) _ _ _ atts] assms(2,3,4) j(2) by auto
  then show ?thesis using lease assms(5) by (auto simp: has_lease_def)
qed

theorem one_open_attempt_witness:
  "\<exists>a \<in> set (db_attempts sample_created). a_state a = ACreated \<and>
     (\<forall>b \<in> set (db_attempts sample_created). a_job b = a_job a \<and> a_state b = ACreated \<longrightarrow> a = b)"
proof -
  have "db_attempts sample_created \<noteq> [] \<and> a_state (hd (db_attempts sample_created)) = ACreated" by code_simp
  then have "hd (db_attempts sample_created) \<in> set (db_attempts sample_created)"
    "a_state (hd (db_attempts sample_created)) = ACreated" by simp_all
  then show ?thesis using one_open_attempt [OF sample_created_reachable] by fastforce
qed

end
